(* ===== verification/Prelude.thy ===== *)
theory Prelude
  imports Main "HOL-Library.Char_ord"
begin

text \<open>
  What every component shares: Go error values, the state-and-error monad in which the
  handlers are written, its Hoare rules, and a few facts about lists.

  An operation of the panel is a function \<open>'s \<Rightarrow> (gerr + 'a) \<times> 's\<close>: it reads and writes a
  state and either returns a value or a Go error.  \<open>bindM\<close> is the pattern
  \<^verbatim>\<open>x, err := f(); if err != nil { return err }\<close>, and \<open>tryM\<close> hands the pair to code that looks
  at \<^verbatim>\<open>err\<close> itself.  The rules collected in \<open>keeps\<close> prove that a handler preserves a predicate
  by going through its statements.
\<close>

section \<open>Errors\<close>

text \<open>
  \<open>Errorf\<close> is an error made with \<^verbatim>\<open>errors.New\<close> or \<^verbatim>\<open>fmt.Errorf\<close> without \<^verbatim>\<open>%w\<close>;
  \<open>Wrapped\<close> carries the wrapped errors and the whole text of a \<^verbatim>\<open>fmt.Errorf\<close> with \<^verbatim>\<open>%w\<close>;
  \<open>RecordNotFound\<close> is \<^verbatim>\<open>gorm.ErrRecordNotFound\<close>, \<open>DbError\<close> any other database error;
  \<open>NotExist\<close> is an error for which \<^verbatim>\<open>os.IsNotExist\<close> holds;
  \<open>ApplyFailure\<close> is \<^verbatim>\<open>*lineApplyFailure\<close> (internal/web/service/line.go) with its four fields.
  The last two are no errors: \<open>GoPanic\<close> is a panic with its value's text, which leaves every function
  up to the \<^verbatim>\<open>recover\<close> that stops it, and \<open>GoHang\<close> stands for a loop that never ends, so the call does
  not return at all.  Code that inspects an error never sees either (\<open>catchM\<close>).
\<close>

datatype gerr =
    Errorf string
  | RecordNotFound
  | DbError string
  | NotExist string
  | Wrapped "gerr list" string
  | GoPanic string
  | GoHang
  | ApplyFailure (af_action: string) (af_message: string) (af_detail: string) (af_cause: "gerr option")

type_synonym 'a res = "gerr + 'a"

fun err_text :: "gerr \<Rightarrow> string" where
  "err_text (Errorf s) = s"
| "err_text RecordNotFound = ''record not found''"
| "err_text (DbError s) = s"
| "err_text (NotExist s) = s"
| "err_text (Wrapped es s) = s"
| "err_text (GoPanic s) = s"
| "err_text GoHang = ''''"
| "err_text (ApplyFailure a m d (Some c)) = err_text c"
| "err_text (ApplyFailure a m d None) = (if d \<noteq> '''' then d else m)"

text \<open>\<^verbatim>\<open>fmt.Errorf("<pre>%w<post>", err)\<close>.\<close>

definition wrapf :: "string \<Rightarrow> gerr \<Rightarrow> string \<Rightarrow> gerr" where
  "wrapf pre e post = Wrapped [e] (pre @ err_text e @ post)"

text \<open>\<^verbatim>\<open>errors.Is(err, gorm.ErrRecordNotFound)\<close>: the error or one it wraps.\<close>

fun is_not_found :: "gerr \<Rightarrow> bool" where
  "is_not_found RecordNotFound = True"
| "is_not_found (Wrapped es s) = list_ex is_not_found es"
| "is_not_found (ApplyFailure a m d (Some c)) = is_not_found c"
| "is_not_found _ = False"

text \<open>\<^verbatim>\<open>errors.As(err, &typed)\<close> for \<^verbatim>\<open>*lineApplyFailure\<close>: the outermost one in the chain.\<close>

fun find_apply_failure :: "gerr \<Rightarrow> gerr option"
  and find_apply_failures :: "gerr list \<Rightarrow> gerr option" where
  "find_apply_failure (ApplyFailure a m d c) = Some (ApplyFailure a m d c)"
| "find_apply_failure (Wrapped es s) = find_apply_failures es"
| "find_apply_failure _ = None"
| "find_apply_failures [] = None"
| "find_apply_failures (e # es) =
     (case find_apply_failure e of Some x \<Rightarrow> Some x | None \<Rightarrow> find_apply_failures es)"

section \<open>The state-and-error monad\<close>

type_synonym ('s, 'a) M = "'s \<Rightarrow> 'a res \<times> 's"

definition retM :: "'a \<Rightarrow> ('s, 'a) M" where
  "retM x = (\<lambda>s. (Inr x, s))"

definition failM :: "gerr \<Rightarrow> ('s, 'a) M" where
  "failM e = (\<lambda>s. (Inl e, s))"

definition bindM :: "('s, 'a) M \<Rightarrow> ('a \<Rightarrow> ('s, 'b) M) \<Rightarrow> ('s, 'b) M" where
  "bindM m f = (\<lambda>s. case m s of (Inl e, s') \<Rightarrow> (Inl e, s') | (Inr x, s') \<Rightarrow> f x s')"

definition thenM :: "('s, 'a) M \<Rightarrow> ('s, 'b) M \<Rightarrow> ('s, 'b) M" where
  "thenM m n = bindM m (\<lambda>_. n)"

text \<open>\<open>x, err := m()\<close> where the caller inspects \<open>err\<close>: the whole result becomes the value.\<close>

definition tryM :: "('s, 'a) M \<Rightarrow> ('s, 'a res) M" where
  "tryM m = (\<lambda>s. case m s of (r, s') \<Rightarrow> (Inr r, s'))"

text \<open>The same where \<open>m\<close> may panic: the panic goes on.\<close>

definition is_panic :: "gerr \<Rightarrow> bool" where
  "is_panic e = (case e of GoPanic _ \<Rightarrow> True | GoHang \<Rightarrow> True | _ \<Rightarrow> False)"

definition catchM :: "('s, 'a) M \<Rightarrow> ('s, 'a res) M" where
  "catchM m = (\<lambda>s.
     case m s of
       (Inl e, s') \<Rightarrow> if is_panic e then (Inl e, s') else (Inr (Inl e), s')
     | (Inr x, s') \<Rightarrow> (Inr (Inr x), s'))"

definition liftM :: "'a res \<Rightarrow> ('s, 'a) M" where
  "liftM r = (\<lambda>s. (r, s))"

definition getM :: "('s \<Rightarrow> 'a) \<Rightarrow> ('s, 'a) M" where
  "getM g = (\<lambda>s. (Inr (g s), s))"

definition guardM :: "bool \<Rightarrow> gerr \<Rightarrow> ('s, unit) M" where
  "guardM b e = (if b then retM () else failM e)"

text \<open>\<open>if err != nil { return wrap(err) }\<close>.\<close>

definition mapErrM :: "(gerr \<Rightarrow> gerr) \<Rightarrow> ('s, 'a) M \<Rightarrow> ('s, 'a) M" where
  "mapErrM h m = (\<lambda>s. case m s of (Inl e, s') \<Rightarrow> (Inl (h e), s') | (Inr x, s') \<Rightarrow> (Inr x, s'))"

lemma retM_apply [simp]: "retM x s = (Inr x, s)"
  by (simp add: retM_def)

lemma failM_apply [simp]: "failM e s = (Inl e, s)"
  by (simp add: failM_def)

lemma bindM_apply:
  "bindM m f s = (case m s of (Inl e, s') \<Rightarrow> (Inl e, s') | (Inr x, s') \<Rightarrow> f x s')"
  by (simp add: bindM_def)

lemma thenM_apply:
  "thenM m n s = (case m s of (Inl e, s') \<Rightarrow> (Inl e, s') | (Inr x, s') \<Rightarrow> n s')"
  by (simp add: thenM_def bindM_def)

lemma liftM_apply [simp]: "liftM r s = (r, s)"
  by (simp add: liftM_def)

lemma getM_apply [simp]: "getM g s = (Inr (g s), s)"
  by (simp add: getM_def)

lemma tryM_apply: "tryM m s = (case m s of (r, s') \<Rightarrow> (Inr r, s'))"
  by (simp add: tryM_def)

lemma guardM_apply: "guardM b e s = (if b then (Inr (), s) else (Inl e, s))"
  by (simp add: guardM_def)

lemma guardM_simps [simp]: "guardM True e s = (Inr (), s)" "guardM False e s = (Inl e, s)"
  by (simp_all add: guardM_def)

lemma mapErrM_apply:
  "mapErrM h m s = (case m s of (Inl e, s') \<Rightarrow> (Inl (h e), s') | (Inr x, s') \<Rightarrow> (Inr x, s'))"
  by (simp add: mapErrM_def)

lemmas monad_simps = bindM_apply thenM_apply tryM_apply mapErrM_apply

lemma bindM_Inr:
  "bindM m f s = (Inr y, s') \<longleftrightarrow> (\<exists>x s1. m s = (Inr x, s1) \<and> f x s1 = (Inr y, s'))"
  by (auto simp: bindM_apply split: prod.splits sum.splits)

lemma thenM_Inr:
  "thenM m n s = (Inr y, s') \<longleftrightarrow> (\<exists>x s1. m s = (Inr x, s1) \<and> n s1 = (Inr y, s'))"
  by (auto simp: thenM_apply split: prod.splits sum.splits)

lemma guardM_Inr: "guardM b e s = (Inr x, s') \<longleftrightarrow> b \<and> s' = s"
  by (auto simp: guardM_apply)

lemma mapErrM_Inr: "mapErrM h m s = (Inr x, s') \<longleftrightarrow> m s = (Inr x, s')"
  by (auto simp: mapErrM_apply split: prod.splits sum.splits)

lemma tryM_Inr: "tryM m s = (Inr r, s') \<longleftrightarrow> m s = (r, s')"
  by (auto simp: tryM_apply split: prod.splits)

lemma tryM_not_Inl [simp]: "tryM m s \<noteq> (Inl e, s')"
  by (auto simp: tryM_apply split: prod.splits)

lemmas monad_Inr = bindM_Inr thenM_Inr guardM_Inr mapErrM_Inr tryM_Inr

section \<open>Preservation rules\<close>

named_theorems keeps \<open>introduction rules of the preservation judgement\<close>

text \<open>
  \<open>keepsM R m\<close>: whatever \<open>m\<close> returns, the states before and after are related by \<open>R\<close>
  (a reflexive and transitive relation: "these tables are the same", "the invariant is kept").
\<close>

definition keepsM :: "('s \<Rightarrow> 's \<Rightarrow> bool) \<Rightarrow> ('s, 'a) M \<Rightarrow> bool" where
  "keepsM R m \<longleftrightarrow> (\<forall>s. R s (snd (m s)))"

definition preorderR :: "('s \<Rightarrow> 's \<Rightarrow> bool) \<Rightarrow> bool" where
  "preorderR R \<longleftrightarrow> reflp R \<and> transp R"

lemma preorderR_refl: "preorderR R \<Longrightarrow> R s s"
  by (simp add: preorderR_def reflp_def)

lemma preorderR_trans: "preorderR R \<Longrightarrow> R s t \<Longrightarrow> R t u \<Longrightarrow> R s u"
  by (auto simp: preorderR_def transp_def)

lemma keepsM_D: "keepsM R m \<Longrightarrow> R s (snd (m s))"
  by (simp add: keepsM_def)

lemma keepsM_D': "keepsM R m \<Longrightarrow> m s = (r, s') \<Longrightarrow> R s s'"
  by (metis keepsM_def snd_conv)

lemma keeps_ret [keeps]: "preorderR R \<Longrightarrow> keepsM R (retM x)"
  by (simp add: keepsM_def preorderR_refl)

lemma keeps_fail [keeps]: "preorderR R \<Longrightarrow> keepsM R (failM e)"
  by (simp add: keepsM_def preorderR_refl)

lemma keeps_lift [keeps]: "preorderR R \<Longrightarrow> keepsM R (liftM r)"
  by (simp add: keepsM_def preorderR_refl)

lemma keeps_get [keeps]: "preorderR R \<Longrightarrow> keepsM R (getM g)"
  by (simp add: keepsM_def preorderR_refl)

lemma keeps_guard [keeps]: "preorderR R \<Longrightarrow> keepsM R (guardM b e)"
  by (simp add: keepsM_def guardM_apply preorderR_refl)

lemma keeps_bind [keeps]:
  "preorderR R \<Longrightarrow> keepsM R m \<Longrightarrow> (\<And>x. keepsM R (f x)) \<Longrightarrow> keepsM R (bindM m f)"
  unfolding keepsM_def bindM_apply
  by (auto split: prod.splits sum.splits) (metis preorderR_trans snd_conv)+

lemma keeps_then [keeps]:
  "preorderR R \<Longrightarrow> keepsM R m \<Longrightarrow> keepsM R n \<Longrightarrow> keepsM R (thenM m n)"
  unfolding thenM_def by (rule keeps_bind)

lemma keeps_try [keeps]: "keepsM R m \<Longrightarrow> keepsM R (tryM m)"
  unfolding keepsM_def tryM_apply by (auto split: prod.splits) (metis snd_conv)

lemma keeps_mapErr [keeps]: "keepsM R m \<Longrightarrow> keepsM R (mapErrM h m)"
  unfolding keepsM_def mapErrM_apply
  by (auto split: prod.splits sum.splits) (metis snd_conv)+

lemma keeps_if [keeps]: "keepsM R m \<Longrightarrow> keepsM R n \<Longrightarrow> keepsM R (if b then m else n)"
  by simp

lemma keeps_option [keeps]:
  "keepsM R m \<Longrightarrow> (\<And>x. keepsM R (f x)) \<Longrightarrow> keepsM R (case v of None \<Rightarrow> m | Some x \<Rightarrow> f x)"
  by (cases v) auto

lemma keeps_sum [keeps]:
  "(\<And>e. keepsM R (f e)) \<Longrightarrow> (\<And>x. keepsM R (g x)) \<Longrightarrow>
     keepsM R (case v of Inl e \<Rightarrow> f e | Inr x \<Rightarrow> g x)"
  by (cases v) auto

lemma keeps_prod [keeps]: "(\<And>a b. keepsM R (f a b)) \<Longrightarrow> keepsM R (case p of (a, b) \<Rightarrow> f a b)"
  by (cases p) auto

lemma keeps_let [keeps]: "keepsM R (f v) \<Longrightarrow> keepsM R (let x = v in f x)"
  by (simp add: Let_def)

lemma keeps_weaken: "keepsM R m \<Longrightarrow> (\<And>s t. R s t \<Longrightarrow> Q s t) \<Longrightarrow> keepsM Q m"
  by (auto simp: keepsM_def)

text \<open>The preorder of a predicate (an invariant) and of a function (a part left alone).\<close>

definition invR :: "('s \<Rightarrow> bool) \<Rightarrow> 's \<Rightarrow> 's \<Rightarrow> bool" where
  "invR P s t \<longleftrightarrow> (P s \<longrightarrow> P t)"

definition sameR :: "('s \<Rightarrow> 'b) \<Rightarrow> 's \<Rightarrow> 's \<Rightarrow> bool" where
  "sameR g s t \<longleftrightarrow> g t = g s"

lemma preorder_invR [keeps, simp]: "preorderR (invR P)"
  by (auto simp: preorderR_def invR_def reflp_def transp_def)

lemma preorder_sameR [keeps, simp]: "preorderR (sameR g)"
  by (auto simp: preorderR_def sameR_def reflp_def transp_def)

section \<open>Lists\<close>

lemma find_append: "find P (xs @ ys) = (case find P xs of None \<Rightarrow> find P ys | Some x \<Rightarrow> Some x)"
  by (induction xs) auto

lemma find_SomeD: "find P xs = Some x \<Longrightarrow> P x \<and> x \<in> set xs"
  by (induction xs) (auto split: if_splits)

lemma find_NoneD: "find P xs = None \<Longrightarrow> x \<in> set xs \<Longrightarrow> \<not> P x"
  by (metis find_None_iff)

lemma find_map_eq: "find P (map f xs) = map_option f (find (\<lambda>x. P (f x)) xs)"
  by (induction xs) auto

lemma find_filter: "find P (filter Q xs) = find (\<lambda>x. Q x \<and> P x) xs"
  by (induction xs) auto

lemma find_none_filter: "find P xs = None \<longleftrightarrow> filter P xs = []"
  by (induction xs) auto

end
