(* ===== verification/GoStrings.thy ===== *)
theory GoStrings
  imports Prelude "HOL-Library.Sublist"
begin

text \<open>
  The part of Go's standard library on strings that the panel uses: \<^verbatim>\<open>strings\<close>,
  \<^verbatim>\<open>strconv\<close>, \<^verbatim>\<open>net.SplitHostPort\<close>, \<^verbatim>\<open>net.ParseIP\<close>, \<^verbatim>\<open>path.Clean\<close>, \<^verbatim>\<open>net/url\<close>,
  \<^verbatim>\<open>encoding/hex\<close> and \<^verbatim>\<open>encoding/base64\<close>.  A Go string is a list of bytes (\<open>char list\<close>).
  Case mapping is the ASCII part of Go's: no string the panel compares after lowering
  contains a letter outside ASCII.
\<close>

section \<open>Characters\<close>

abbreviation byte :: "char \<Rightarrow> nat" where
  "byte c \<equiv> (of_char c :: nat)"

definition is_digit :: "char \<Rightarrow> bool" where
  "is_digit c \<longleftrightarrow> 48 \<le> byte c \<and> byte c \<le> 57"

definition digit_val :: "char \<Rightarrow> nat" where
  "digit_val c = byte c - 48"

definition digit_char :: "nat \<Rightarrow> char" where
  "digit_char d = char_of (48 + d)"

definition is_hex :: "char \<Rightarrow> bool" where
  "is_hex c \<longleftrightarrow> is_digit c \<or> (97 \<le> byte c \<and> byte c \<le> 102) \<or> (65 \<le> byte c \<and> byte c \<le> 70)"

definition lower_char :: "char \<Rightarrow> char" where
  "lower_char c = (if 65 \<le> byte c \<and> byte c \<le> 90 then char_of (byte c + 32) else c)"

definition upper_char :: "char \<Rightarrow> char" where
  "upper_char c = (if 97 \<le> byte c \<and> byte c \<le> 122 then char_of (byte c - 32) else c)"

definition to_lower :: "string \<Rightarrow> string" where
  "to_lower s = List.map lower_char s"

definition to_upper :: "string \<Rightarrow> string" where
  "to_upper s = List.map upper_char s"

definition equal_fold :: "string \<Rightarrow> string \<Rightarrow> bool" where
  "equal_fold a b \<longleftrightarrow> to_lower a = to_lower b"

lemma byte_less_256: "byte c < 256"
  by (cases c) (simp add: nat_of_char_less_256)

lemma byte_char_of: "n < 256 \<Longrightarrow> byte (char_of n) = n"
  by simp

lemma lower_char_idem [simp]: "lower_char (lower_char c) = lower_char c"
  by (auto simp: lower_char_def)

lemma to_lower_idem [simp]: "to_lower (to_lower s) = to_lower s"
  by (simp add: to_lower_def comp_def)

lemma digit_char_digit: "d < 10 \<Longrightarrow> is_digit (digit_char d)"
  by (simp add: is_digit_def digit_char_def)

lemma digit_val_char: "d < 10 \<Longrightarrow> digit_val (digit_char d) = d"
  by (simp add: digit_val_def digit_char_def)

section \<open>Prefixes, splitting, joining\<close>

definition has_prefix :: "string \<Rightarrow> string \<Rightarrow> bool" where
  "has_prefix s p \<longleftrightarrow> prefix p s"

definition has_suffix :: "string \<Rightarrow> string \<Rightarrow> bool" where
  "has_suffix s p \<longleftrightarrow> suffix p s"

definition contains_any :: "string \<Rightarrow> string \<Rightarrow> bool" where
  "contains_any s cs \<longleftrightarrow> list_ex (\<lambda>c. c \<in> set cs) s"

definition contains_char :: "string \<Rightarrow> char \<Rightarrow> bool" where
  "contains_char s c \<longleftrightarrow> c \<in> set s"

definition trim_suffix :: "string \<Rightarrow> string \<Rightarrow> string" where
  "trim_suffix s p = (if has_suffix s p then take (length s - length p) s else s)"

definition cut_prefix :: "string \<Rightarrow> string \<Rightarrow> string option" where
  "cut_prefix s p = (if has_prefix s p then Some (drop (length p) s) else None)"

fun split_on :: "char \<Rightarrow> string \<Rightarrow> string list" where
  "split_on d [] = [[]]"
| "split_on d (x # xs) =
     (if x = d then [] # split_on d xs
      else (case split_on d xs of [] \<Rightarrow> [[x]] | y # ys \<Rightarrow> (x # y) # ys))"

fun join :: "string \<Rightarrow> string list \<Rightarrow> string" where
  "join sep [] = []"
| "join sep [s] = s"
| "join sep (s # t # ts) = s @ sep @ join sep (t # ts)"

lemma split_on_nonempty [simp]: "split_on d s \<noteq> []"
  by (cases s) (auto split: list.splits)

lemma split_on_no_sep: "d \<notin> set s \<Longrightarrow> split_on d s = [s]"
  by (induction s) auto

lemma split_on_append: "d \<notin> set s \<Longrightarrow> split_on d (s @ d # t) = s # split_on d t"
  by (induction s) auto

lemma join_split_on: "join [d] (split_on d s) = s"
proof (induction s)
  case (Cons x xs)
  obtain y ys where y: "split_on d xs = y # ys" by (meson split_on_nonempty list.exhaust)
  show ?case using Cons y by (cases ys) auto
qed simp

section \<open>Trimming white space\<close>

text \<open>The byte sequences of the runes for which \<^verbatim>\<open>unicode.IsSpace\<close> holds.\<close>

definition space_seqs :: "string list" where
  "space_seqs =
     List.map (\<lambda>n. [char_of n]) [9::nat, 10, 11, 12, 13, 32]
     @ List.map (\<lambda>n. [CHR 0xC2, char_of n]) [0x85::nat, 0xA0]
     @ [[CHR 0xE1, CHR 0x9A, CHR 0x80]]
     @ List.map (\<lambda>n. [CHR 0xE2, CHR 0x80, char_of n])
         [0x80::nat, 0x81, 0x82, 0x83, 0x84, 0x85, 0x86, 0x87, 0x88, 0x89, 0x8A, 0xA8, 0xA9, 0xAF]
     @ [[CHR 0xE2, CHR 0x81, CHR 0x9F], [CHR 0xE3, CHR 0x80, CHR 0x80]]"

function strip_seqs :: "string list \<Rightarrow> string \<Rightarrow> string" where
  "strip_seqs ps s =
     (case find (\<lambda>p. p \<noteq> [] \<and> prefix p s) ps of
        None \<Rightarrow> s
      | Some p \<Rightarrow> strip_seqs ps (drop (length p) s))"
  by pat_completeness auto
termination
proof (relation "measure (\<lambda>(ps, s). length s)")
  fix ps s p
  assume "find (\<lambda>p. p \<noteq> [] \<and> prefix p s) ps = Some (p::string)"
  then have "p \<noteq> [] \<and> prefix p s" by (auto dest: find_SomeD)
  then have "0 < length p" "length p \<le> length s" by (auto dest: prefix_length_le)
  then have "length s - length p < length s" by linarith
  then show "((ps, drop (length p) s), ps, s) \<in> measure (\<lambda>(ps, s). length s)" by simp
qed simp

declare strip_seqs.simps [simp del]

definition trim_left :: "string \<Rightarrow> string" where
  "trim_left s = strip_seqs space_seqs s"

definition trim_right :: "string \<Rightarrow> string" where
  "trim_right s = rev (strip_seqs (List.map rev space_seqs) (rev s))"

definition trim_space :: "string \<Rightarrow> string" where
  "trim_space s = trim_right (trim_left s)"

lemma strip_seqs_suffix: "suffix (strip_seqs ps s) s"
proof (induction ps s rule: strip_seqs.induct)
  case (1 ps s)
  show ?case
  proof (cases "find (\<lambda>p. p \<noteq> [] \<and> prefix p s) ps")
    case None
    then show ?thesis by (simp add: strip_seqs.simps [of ps s])
  next
    case (Some p)
    then have "suffix (strip_seqs ps (drop (length p) s)) (drop (length p) s)" by (rule "1.IH")
    with Some show ?thesis
      by (simp add: strip_seqs.simps [of ps s]) (meson suffix_drop suffix_order.trans)
  qed
qed

lemma strip_seqs_clean: "find (\<lambda>p. p \<noteq> [] \<and> prefix p (strip_seqs ps s)) ps = None"
proof (induction ps s rule: strip_seqs.induct)
  case (1 ps s)
  show ?case
  proof (cases "find (\<lambda>p. p \<noteq> [] \<and> prefix p s) ps")
    case None
    then show ?thesis by (simp add: strip_seqs.simps [of ps s])
  next
    case (Some p)
    then show ?thesis using "1.IH" [OF Some] by (simp add: strip_seqs.simps [of ps s])
  qed
qed

lemma strip_seqs_id: "find (\<lambda>p. p \<noteq> [] \<and> prefix p s) ps = None \<Longrightarrow> strip_seqs ps s = s"
  by (simp add: strip_seqs.simps [of ps s])

lemma strip_seqs_idem [simp]: "strip_seqs ps (strip_seqs ps s) = strip_seqs ps s"
  by (rule strip_seqs_id) (rule strip_seqs_clean)

lemma trim_right_prefix: "prefix (trim_right s) s"
  using strip_seqs_suffix [of "List.map rev space_seqs" "rev s"]
  by (simp add: trim_right_def suffix_to_prefix)

lemma trim_left_of_prefix:
  assumes "prefix r (trim_left s)"
  shows "trim_left r = r"
proof -
  have "find (\<lambda>p. p \<noteq> [] \<and> prefix p r) space_seqs = None"
    using strip_seqs_clean [of space_seqs s] assms
    by (auto simp: find_None_iff trim_left_def dest: prefix_order.trans)
  then show ?thesis by (simp add: trim_left_def strip_seqs_id)
qed

lemma trim_right_idem [simp]: "trim_right (trim_right s) = trim_right s"
  by (simp add: trim_right_def)

lemma trim_space_idem [simp]: "trim_space (trim_space s) = trim_space s"
  by (simp add: trim_space_def trim_left_of_prefix [OF trim_right_prefix])

lemma trim_space_subset: "set (trim_space s) \<subseteq> set s"
proof -
  have "set (trim_right (trim_left s)) \<subseteq> set (trim_left s)"
    by (rule set_mono_prefix [OF trim_right_prefix])
  moreover have "set (trim_left s) \<subseteq> set s"
    unfolding trim_left_def by (rule set_mono_suffix [OF strip_seqs_suffix])
  ultimately show ?thesis by (auto simp: trim_space_def)
qed

text \<open>A string without the first byte of any space sequence at either end is left alone.\<close>

lemma trim_left_Cons:
  "c \<notin> set (List.map hd space_seqs) \<Longrightarrow> trim_left (c # s) = c # s"
  unfolding trim_left_def
  by (rule strip_seqs_id) (auto simp: find_None_iff prefix_Cons image_iff)

lemma trim_right_snoc:
  "c \<notin> set (List.map last space_seqs) \<Longrightarrow> trim_right (s @ [c]) = s @ [c]"
proof -
  assume a: "c \<notin> set (List.map last space_seqs)"
  have "\<not> (\<exists>p. p \<in> set space_seqs \<and> p \<noteq> [] \<and> prefix (rev p) (c # rev s))"
  proof clarify
    fix p assume p: "p \<in> set space_seqs" "p \<noteq> []" "prefix (rev p) (c # rev s)"
    then obtain q where "rev p = c # q" by (auto simp: prefix_Cons)
    then have "last p = c" by (metis hd_rev list.sel(1))
    with a p(1) show False by (metis image_eqI list.set_map)
  qed
  then have "strip_seqs (List.map rev space_seqs) (c # rev s) = c # rev s"
    by (intro strip_seqs_id) (auto simp: find_None_iff)
  then show ?thesis by (simp add: trim_right_def)
qed

lemma trim_space_Nil [simp]: "trim_space [] = []"
  by (simp add: trim_space_def trim_left_def trim_right_def strip_seqs_id find_None_iff)

section \<open>Decimal numbers\<close>

fun nat_digits :: "nat \<Rightarrow> string" where
  "nat_digits n = (if n < 10 then [digit_char n] else nat_digits (n div 10) @ [digit_char (n mod 10)])"

declare nat_digits.simps [simp del]

text \<open>\<^verbatim>\<open>strconv.Itoa\<close> and the verb \<^verbatim>\<open>%d\<close>.\<close>

definition itoa :: "int \<Rightarrow> string" where
  "itoa i = (if i < 0 then CHR ''-'' # nat_digits (nat (- i)) else nat_digits (nat i))"

definition digits_val :: "string \<Rightarrow> nat" where
  "digits_val s = fold (\<lambda>c a. 10 * a + digit_val c) s 0"

text \<open>
  \<^verbatim>\<open>strconv.Atoi\<close> on a 64-bit platform: an optional sign, decimal digits, and a value that
  an int64 holds; None is the error.
\<close>

definition atoi_nat :: "string \<Rightarrow> nat option" where
  "atoi_nat s = (if s \<noteq> [] \<and> list_all is_digit s then Some (digits_val s) else None)"

definition atoi :: "string \<Rightarrow> int option" where
  "atoi s =
     (case s of
        [] \<Rightarrow> None
      | c # cs \<Rightarrow>
         if c = CHR ''-'' then
           (case atoi_nat cs of
              Some n \<Rightarrow> if n \<le> 2 ^ 63 then Some (- int n) else None
            | None \<Rightarrow> None)
         else
           (case atoi_nat (if c = CHR ''+'' then cs else c # cs) of
              Some n \<Rightarrow> if n < 2 ^ 63 then Some (int n) else None
            | None \<Rightarrow> None))"

lemma nat_digits_digits: "list_all is_digit (nat_digits n)"
proof (induction n rule: nat_digits.induct)
  case (1 n)
  then show ?case
    by (subst nat_digits.simps) (auto simp: digit_char_digit)
qed

lemma nat_digits_nonempty [simp]: "nat_digits n \<noteq> []"
  by (subst nat_digits.simps) simp

lemma digits_val_snoc: "digits_val (s @ [c]) = 10 * digits_val s + digit_val c"
  by (simp add: digits_val_def)

lemma digits_val_nat_digits [simp]: "digits_val (nat_digits n) = n"
proof (induction n rule: nat_digits.induct)
  case (1 n)
  show ?case
  proof (cases "n < 10")
    case True
    then show ?thesis by (subst nat_digits.simps) (simp add: digits_val_def digit_val_char)
  next
    case False
    then show ?thesis using 1
      by (subst nat_digits.simps) (simp add: digits_val_snoc digit_val_char)
  qed
qed

lemma nat_digits_inj: "nat_digits m = nat_digits n \<Longrightarrow> m = n"
  by (metis digits_val_nat_digits)

lemma atoi_nat_digits: "atoi_nat (nat_digits n) = Some n"
  by (simp add: atoi_nat_def nat_digits_digits)

lemma nat_digits_hd: "is_digit (hd (nat_digits n))"
  by (metis nat_digits_digits nat_digits_nonempty list.pred_set hd_in_set)

lemma digit_not_sign: "is_digit c \<Longrightarrow> c \<noteq> CHR ''-'' \<and> c \<noteq> CHR ''+''"
  by (auto simp: is_digit_def)

lemma atoi_itoa: "- (2 ^ 63) \<le> i \<Longrightarrow> i < 2 ^ 63 \<Longrightarrow> atoi (itoa i) = Some i"
proof (cases "i < 0")
  case True
  assume "- (2 ^ 63) \<le> i"
  with True show ?thesis by (simp add: itoa_def atoi_def atoi_nat_digits nat_le_iff)
next
  case False
  assume "i < 2 ^ 63"
  obtain c cs where c: "nat_digits (nat i) = c # cs" by (meson nat_digits_nonempty list.exhaust)
  then have "c \<noteq> CHR ''-'' \<and> c \<noteq> CHR ''+''"
    using nat_digits_hd [of "nat i"] by (simp add: digit_not_sign)
  moreover have "nat i < 2 ^ 63" using \<open>i < 2 ^ 63\<close> False by (simp add: nat_less_iff)
  ultimately show ?thesis using False c atoi_nat_digits [of "nat i"]
    by (simp add: itoa_def atoi_def)
qed

lemma itoa_inj: "itoa i = itoa j \<Longrightarrow> i = j"
proof -
  have *: "nat_digits n \<noteq> CHR ''-'' # s" for n s
    using nat_digits_hd [of n] digit_not_sign by force
  assume "itoa i = itoa j"
  then show "i = j"
    by (auto simp: itoa_def * * [symmetric] split: if_splits dest!: nat_digits_inj)
qed

lemma itoa_chars: "c \<in> set (itoa i) \<Longrightarrow> is_digit c \<or> c = CHR ''-''"
  using nat_digits_digits [of "nat i"] nat_digits_digits [of "nat (- i)"]
  by (auto simp: itoa_def list_all_iff split: if_splits)

lemma itoa_nonempty [simp]: "itoa i \<noteq> []"
  by (simp add: itoa_def)

lemma itoa_nonneg_chars: "0 \<le> i \<Longrightarrow> c \<in> set (itoa i) \<Longrightarrow> is_digit c"
  using nat_digits_digits [of "nat i"] by (auto simp: itoa_def list_all_iff)

lemma trim_left_space: "trim_left (CHR '' '' # s) = trim_left s"
proof -
  have "find (\<lambda>p. p \<noteq> [] \<and> prefix p (CHR '' '' # s)) space_seqs = Some '' ''"
    by (simp add: space_seqs_def) (simp flip: of_char_eq_iff [where 'a = nat])
  then show ?thesis
    unfolding trim_left_def by (subst strip_seqs.simps) simp
qed

text \<open>Strings of printable ASCII other than the space are not trimmed.\<close>

definition no_space :: "string \<Rightarrow> bool" where
  "no_space s \<longleftrightarrow> (\<forall>c \<in> set s. 33 \<le> byte c \<and> byte c < 128)"

lemma space_seqs_bytes:
  "list_all (\<lambda>p. p \<noteq> [] \<and> list_all (\<lambda>c. \<not> (33 \<le> byte c \<and> byte c < 128)) p) space_seqs"
  by (simp add: space_seqs_def)

lemma space_bytes: "p \<in> set space_seqs \<Longrightarrow> c \<in> set p \<Longrightarrow> \<not> (33 \<le> byte c \<and> byte c < 128)"
  using space_seqs_bytes by (auto simp: list_all_iff)

lemma trim_left_printable: "33 \<le> byte c \<Longrightarrow> byte c < 128 \<Longrightarrow> trim_left (c # s) = c # s"
  unfolding trim_left_def
  by (rule strip_seqs_id) (auto simp: find_None_iff prefix_Cons dest: space_bytes)

lemma trim_right_printable: "33 \<le> byte c \<Longrightarrow> byte c < 128 \<Longrightarrow> trim_right (s @ [c]) = s @ [c]"
proof -
  assume a: "33 \<le> byte c" "byte c < 128"
  have "strip_seqs (List.map rev space_seqs) (c # rev s) = c # rev s"
  proof (rule strip_seqs_id, clarsimp simp: find_None_iff)
    fix p assume "p \<in> set space_seqs" "p \<noteq> []" "prefix (rev p) (c # rev s)"
    then have "c \<in> set p" by (metis list.set_intros(1) prefix_Cons rev_is_Nil_conv set_rev)
    with a show False using space_bytes \<open>p \<in> set space_seqs\<close> by blast
  qed
  then show ?thesis by (simp add: trim_right_def)
qed

lemma trim_space_no_space: "no_space s \<Longrightarrow> trim_space s = s"
proof (cases s)
  case (Cons c cs)
  assume ns: "no_space s"
  then have "trim_left s = s" by (simp add: Cons no_space_def trim_left_printable)
  moreover obtain r d where "s = r @ [d]" using Cons by (metis list.distinct(1) rev_exhaust)
  ultimately show ?thesis
    using ns by (simp add: trim_space_def no_space_def trim_right_printable)
qed (simp add: trim_space_def trim_left_def trim_right_def strip_seqs_id find_None_iff)

lemma strip_seqs_keeps:
  "\<forall>p \<in> set ps. c \<notin> set p \<Longrightarrow> c \<in> set s \<Longrightarrow> c \<in> set (strip_seqs ps s)"
proof (induction ps s rule: strip_seqs.induct)
  case (1 ps s)
  show ?case
  proof (cases "find (\<lambda>p. p \<noteq> [] \<and> prefix p s) ps")
    case None
    then show ?thesis using "1.prems" by (simp add: strip_seqs.simps [of ps s])
  next
    case (Some p)
    then have p: "p \<in> set ps" "prefix p s" by (auto dest: find_SomeD)
    then have "c \<in> set (drop (length p) s)" using "1.prems" by (auto simp: prefix_def)
    then show ?thesis using "1.IH" [OF Some] "1.prems"(1) Some
      by (simp add: strip_seqs.simps [of ps s])
  qed
qed

lemma trim_space_printable:
  assumes "c \<in> set s" "33 \<le> byte c" "byte c < 128"
  shows "c \<in> set (trim_space s)"
proof -
  have "\<forall>p \<in> set space_seqs. c \<notin> set p" using space_bytes assms by blast
  then show ?thesis
    using assms(1) by (auto simp: trim_space_def trim_left_def trim_right_def strip_seqs_keeps)
qed

lemma trim_space_nonblank: "c \<in> set s \<Longrightarrow> 33 \<le> byte c \<Longrightarrow> byte c < 128 \<Longrightarrow> trim_space s \<noteq> []"
  using trim_space_printable by (metis empty_iff list.set(1))

lemma no_space_Nil [simp]: "no_space []"
  by (simp add: no_space_def)

lemma no_space_append [simp]: "no_space (s @ t) \<longleftrightarrow> no_space s \<and> no_space t"
  by (auto simp: no_space_def)

lemma no_space_Cons [simp]: "no_space (c # t) \<longleftrightarrow> 33 \<le> byte c \<and> byte c < 128 \<and> no_space t"
  by (auto simp: no_space_def)

lemma no_space_itoa [simp]: "no_space (itoa i)"
  using itoa_chars [of _ i] by (fastforce simp: no_space_def is_digit_def)

lemma trim_space_itoa [simp]: "trim_space (itoa i) = itoa i"
  by (simp add: trim_space_no_space)

end
