(* ===== verification/GoMap.thy ===== *)
theory GoMap
  imports GoStrings "HOL-Library.List_Lexorder"
begin

text \<open>
  Go maps with string keys.  \<^verbatim>\<open>encoding/json\<close> writes them with sorted keys, so a map is the
  list of its entries in strictly increasing (bytewise) key order: two maps with the same
  entries are the same list.  The locale \<open>string_map\<close> is the interface the configuration code
  uses (\<^verbatim>\<open>m[k]\<close>, \<^verbatim>\<open>m[k] = v\<close>, \<^verbatim>\<open>delete(m, k)\<close>) with its laws; it is interpreted on the sorted
  association lists at the end.
\<close>

type_synonym 'v omap = "(string \<times> 'v) list"

fun oput :: "string \<Rightarrow> 'v \<Rightarrow> 'v omap \<Rightarrow> 'v omap" where
  "oput k v [] = [(k, v)]"
| "oput k v ((k', v') # m) =
     (if k < k' then (k, v) # (k', v') # m
      else if k = k' then (k, v) # m
      else (k', v') # oput k v m)"

definition oget :: "'v omap \<Rightarrow> string \<Rightarrow> 'v option" where
  "oget m k = map_of m k"

definition odel :: "string \<Rightarrow> 'v omap \<Rightarrow> 'v omap" where
  "odel k m = filter (\<lambda>p. fst p \<noteq> k) m"

definition owf :: "'v omap \<Rightarrow> bool" where
  "owf m \<longleftrightarrow> sorted_wrt (<) (List.map fst m)"

definition of_members :: "(string \<times> 'v) list \<Rightarrow> 'v omap" where
  "of_members ms = fold (\<lambda>(k, v) m. oput k v m) ms []"

lemma owf_Nil [simp]: "owf []"
  by (simp add: owf_def)

lemma owf_Cons: "owf ((k, v) # m) \<longleftrightarrow> owf m \<and> (\<forall>x \<in> set m. k < fst x)"
  by (auto simp: owf_def)

lemma set_oput_fst: "fst ` set (oput k v m) = insert k (fst ` set m)"
  by (induction k v m rule: oput.induct) auto

lemma owf_oput [simp]: "owf m \<Longrightarrow> owf (oput k v m)"
proof (induction k v m rule: oput.induct)
  case (2 k v k' v' m)
  have *: "x \<in> set (oput k v m) \<Longrightarrow> fst x = k \<or> (\<exists>y \<in> set m. fst x = fst y)" for x
    using set_oput_fst [of k v m] by (metis image_iff imageI insertE)
  have "\<not> k < k' \<Longrightarrow> k \<noteq> k' \<Longrightarrow> k' < k" by simp
  then show ?case using 2 * by (fastforce simp: owf_Cons)
qed (simp add: owf_def)

lemma owf_odel [simp]: "owf m \<Longrightarrow> owf (odel k m)"
proof (induction m)
  case (Cons a m)
  then show ?case by (cases a) (auto simp: owf_Cons odel_def)
qed (simp add: odel_def)

lemma oget_Nil [simp]: "oget [] k = None"
  by (simp add: oget_def)

lemma oget_oput [simp]: "oget (oput k v m) k' = (if k' = k then Some v else oget m k')"
  by (induction k v m rule: oput.induct) (auto simp: oget_def)

lemma oget_odel [simp]: "oget (odel k m) k' = (if k' = k then None else oget m k')"
  by (induction m) (auto simp: oget_def odel_def)

lemma oget_Cons: "oget ((k, v) # m) k' = (if k' = k then Some v else oget m k')"
  by (simp add: oget_def)

lemma oget_None_notin: "oget m k = None \<longleftrightarrow> k \<notin> fst ` set m"
  by (simp add: oget_def map_of_eq_None_iff)

lemma owf_ext:
  assumes "owf m" "owf n" "\<And>k. oget m k = oget n k"
  shows "m = n"
proof -
  have d: "distinct (List.map fst m)" "distinct (List.map fst n)"
    using assms(1,2) by (auto simp: owf_def strict_sorted_iff)
  have "set m = set n"
    using assms(3) d by (intro map_of_inject_set [THEN iffD1]) (auto simp: oget_def fun_eq_iff)
  moreover have "sorted (List.map fst m)" "sorted (List.map fst n)"
    using assms(1,2) by (auto simp: owf_def strict_sorted_iff)
  ultimately show ?thesis
    using d by (intro map_sorted_distinct_set_unique [of fst]) (simp_all add: distinct_map)
qed

lemma oput_last: "\<forall>x \<in> set m. fst x < k \<Longrightarrow> oput k v m = m @ [(k, v)]"
proof (induction m)
  case (Cons a m)
  obtain k' v' where [simp]: "a = (k', v')" by (cases a)
  from Cons.prems have "k' < k" by simp
  then have "\<not> k < k'" "k \<noteq> k'" by auto
  with Cons show ?case by simp
qed simp

lemma owf_append_single: "owf (m @ [(k, v)]) \<longleftrightarrow> owf m \<and> (\<forall>x \<in> set m. fst x < k)"
  by (induction m) (auto simp: owf_def)

lemma of_members_owf: "owf m \<Longrightarrow> of_members m = m"
proof (induction m rule: rev_induct)
  case (snoc a m)
  obtain k v where [simp]: "a = (k, v)" by (cases a)
  from snoc show ?case
    by (simp add: owf_append_single of_members_def oput_last)
qed (simp add: of_members_def)

lemma owf_of_members [simp]: "owf (of_members ms)"
proof (induction ms rule: rev_induct)
  case (snoc a m)
  then show ?case by (cases a) (simp add: of_members_def)
qed (simp add: of_members_def)

lemma owf_map_values: "owf m \<Longrightarrow> owf (List.map (\<lambda>(k, v). (k, f v)) m)"
  by (simp add: owf_def comp_def case_prod_beta)

lemma oget_map_values: "oget (List.map (\<lambda>(k, v). (k, f v)) m) k = map_option f (oget m k)"
  by (induction m) (auto simp: oget_def)

text \<open>Go's \<^verbatim>\<open>m[k]\<close> for a map with string values: the zero value where the key is absent.\<close>

definition sget :: "string omap \<Rightarrow> string \<Rightarrow> string" where
  "sget m k = (case oget m k of None \<Rightarrow> '''' | Some v \<Rightarrow> v)"

lemma sget_Nil [simp]: "sget [] k = ''''"
  by (simp add: sget_def)

lemma sget_oput [simp]: "sget (oput k v m) k' = (if k' = k then v else sget m k')"
  by (simp add: sget_def)

lemma sget_odel [simp]: "sget (odel k m) k' = (if k' = k then '''' else sget m k')"
  by (simp add: sget_def)

text \<open>
  The interface: what the configuration code relies on when it reads, writes and deletes
  entries, and what it derives from that.
\<close>

locale string_map =
  fixes get :: "'m \<Rightarrow> string \<Rightarrow> string"
    and put :: "string \<Rightarrow> string \<Rightarrow> 'm \<Rightarrow> 'm"
    and del :: "string \<Rightarrow> 'm \<Rightarrow> 'm"
    and wf :: "'m \<Rightarrow> bool"
  assumes get_put: "get (put k v m) k' = (if k' = k then v else get m k')"
    and get_del: "get (del k m) k' = (if k' = k then '''' else get m k')"
    and wf_put: "wf m \<Longrightarrow> wf (put k v m)"
    and wf_del: "wf m \<Longrightarrow> wf (del k m)"
begin

lemma get_put_same: "get (put k v m) k = v"
  by (simp add: get_put)

lemma get_put_other: "k' \<noteq> k \<Longrightarrow> get (put k v m) k' = get m k'"
  by (simp add: get_put)

lemma get_puts:
  "get (fold (\<lambda>(k, v). put k v) kvs m) k' = (case map_of (rev kvs) k' of Some v \<Rightarrow> v | None \<Rightarrow> get m k')"
  by (induction kvs arbitrary: m) (auto simp: get_put map_add_def split: option.splits)

lemma wf_puts: "wf m \<Longrightarrow> wf (fold (\<lambda>(k, v). put k v) kvs m)"
  by (induction kvs arbitrary: m) (auto simp: wf_put)

lemma get_dels: "get (fold del ks m) k' = (if k' \<in> set ks then '''' else get m k')"
  by (induction ks arbitrary: m) (auto simp: get_del)

lemma wf_dels: "wf m \<Longrightarrow> wf (fold del ks m)"
  by (induction ks arbitrary: m) (auto simp: wf_del)

end

interpretation cfg: string_map sget oput odel owf
  by unfold_locales auto

end
