(* ===== verification/GoJson.thy ===== *)
theory GoJson
  imports GoMap
begin

text \<open>
  \<^verbatim>\<open>encoding/json\<close> as the panel uses it: \<^verbatim>\<open>json.Marshal\<close> and \<^verbatim>\<open>json.MarshalIndent(v, "", "  ")\<close>
  of values built from maps with string keys, slices, strings, integers and booleans, and
  \<^verbatim>\<open>json.Unmarshal\<close> into \<^verbatim>\<open>any\<close>, \<^verbatim>\<open>map[string]any\<close> and \<^verbatim>\<open>map[string]string\<close>, on bytes: escapes,
  UTF-8 validity, sorted keys, duplicate keys (the last one wins), white space.  A number is kept
  as its literal (Go's re-formatting of a float64 is the identity on the integers the panel
  writes), and Go's nesting limit of 10000 is not modelled.  The main result is the round trip:
  what the printer writes, compact or indented, the parser reads back.
\<close>

section \<open>UTF-8\<close>

text \<open>The byte at an index, 0 past the end (no continuation byte is 0).\<close>

definition bat :: "string \<Rightarrow> nat \<Rightarrow> nat" where
  "bat s i = (if i < length s then byte (s ! i) else 0)"

definition cont_byte :: "nat \<Rightarrow> bool" where
  "cont_byte b \<longleftrightarrow> 0x80 \<le> b \<and> b \<le> 0xBF"

text \<open>The lead bytes of two, three and four byte sequences with what may follow them.\<close>

definition utf8_two :: "string \<Rightarrow> bool" where
  "utf8_two s \<longleftrightarrow> 0xC2 \<le> bat s 0 \<and> bat s 0 \<le> 0xDF \<and> cont_byte (bat s 1)"

definition utf8_three :: "string \<Rightarrow> bool" where
  "utf8_three s \<longleftrightarrow> 0xE0 \<le> bat s 0 \<and> bat s 0 \<le> 0xEF \<and> cont_byte (bat s 1) \<and> cont_byte (bat s 2)
     \<and> (bat s 0 = 0xE0 \<longrightarrow> 0xA0 \<le> bat s 1) \<and> (bat s 0 = 0xED \<longrightarrow> bat s 1 \<le> 0x9F)"

definition utf8_four :: "string \<Rightarrow> bool" where
  "utf8_four s \<longleftrightarrow> 0xF0 \<le> bat s 0 \<and> bat s 0 \<le> 0xF4 \<and> cont_byte (bat s 1)
     \<and> cont_byte (bat s 2) \<and> cont_byte (bat s 3)
     \<and> (bat s 0 = 0xF0 \<longrightarrow> 0x90 \<le> bat s 1) \<and> (bat s 0 = 0xF4 \<longrightarrow> bat s 1 \<le> 0x8F)"

text \<open>The length of the valid UTF-8 sequence at the head of a string, 0 if there is none.\<close>

definition utf8_len :: "string \<Rightarrow> nat" where
  "utf8_len s =
     (if s = [] then 0
      else if bat s 0 < 0x80 then 1
      else if utf8_two s then 2
      else if utf8_three s then 3
      else if utf8_four s then 4
      else 0)"

lemma bat_Cons_0 [simp]: "bat (c # s) 0 = byte c"
  by (simp add: bat_def)

lemma bat_append: "i < length s \<Longrightarrow> bat (s @ t) i = bat s i"
  by (simp add: bat_def nth_append)

lemma bat_pos: "0 < bat s i \<Longrightarrow> i < length s"
  by (simp add: bat_def split: if_splits)

lemma cont_byte_in: "cont_byte (bat s i) \<Longrightarrow> i < length s"
  by (rule bat_pos) (simp add: cont_byte_def)

lemma utf8_len_cases:
  "s \<noteq> [] \<and> utf8_len s = 0 \<or> s = [] \<or> s \<noteq> [] \<and> bat s 0 < 0x80 \<and> utf8_len s = 1
     \<or> utf8_two s \<and> utf8_len s = 2 \<or> utf8_three s \<and> utf8_len s = 3 \<or> utf8_four s \<and> utf8_len s = 4"
  by (simp add: utf8_len_def)

lemma utf8_len_le: "utf8_len s \<le> length s"
proof -
  have "utf8_two s \<Longrightarrow> 1 < length s" by (auto simp: utf8_two_def dest: cont_byte_in)
  moreover have "utf8_three s \<Longrightarrow> 2 < length s" by (auto simp: utf8_three_def dest: cont_byte_in)
  moreover have "utf8_four s \<Longrightarrow> 3 < length s" by (auto simp: utf8_four_def dest: cont_byte_in)
  ultimately show ?thesis by (auto simp: utf8_len_def Suc_le_eq)
qed

lemma utf8_len_two: "utf8_two s \<Longrightarrow> utf8_len s = 2"
proof -
  assume u: "utf8_two s"
  then have "s \<noteq> []" "\<not> bat s 0 < 0x80" unfolding utf8_two_def by (auto simp: bat_def)
  with u show ?thesis by (simp add: utf8_len_def)
qed

lemma utf8_len_three: "utf8_three s \<Longrightarrow> utf8_len s = 3"
proof -
  assume u: "utf8_three s"
  then have "s \<noteq> []" "\<not> utf8_two s" "\<not> bat s 0 < 0x80"
    unfolding utf8_three_def utf8_two_def by (auto simp: bat_def)
  with u show ?thesis by (simp add: utf8_len_def)
qed

lemma utf8_len_four: "utf8_four s \<Longrightarrow> utf8_len s = 4"
proof -
  assume u: "utf8_four s"
  then have "s \<noteq> []" "\<not> utf8_two s" "\<not> utf8_three s" "\<not> bat s 0 < 0x80"
    unfolding utf8_four_def utf8_three_def utf8_two_def by (auto simp: bat_def)
  with u show ?thesis by (simp add: utf8_len_def)
qed

lemma utf8_len_cong:
  assumes n: "0 < utf8_len s" and u: "u \<noteq> []" and eq: "\<And>i. i < utf8_len s \<Longrightarrow> bat u i = bat s i"
  shows "utf8_len u = utf8_len s"
proof -
  have e0: "bat u 0 = bat s 0" using n by (rule eq)
  consider "s \<noteq> []" "bat s 0 < 0x80" "utf8_len s = 1" | "utf8_two s" | "utf8_three s" | "utf8_four s"
    using utf8_len_cases [of s] n by (auto simp: utf8_len_def)
  then show ?thesis
  proof cases
    case 1
    with e0 u show ?thesis by (simp add: utf8_len_def)
  next
    case 2
    then have "utf8_two u" using e0 eq [of 1] by (simp add: utf8_two_def utf8_len_two)
    with 2 show ?thesis by (simp add: utf8_len_two)
  next
    case 3
    then have "utf8_three u" using e0 eq [of 1] eq [of 2]
      by (simp add: utf8_three_def utf8_len_three)
    with 3 show ?thesis by (simp add: utf8_len_three)
  next
    case 4
    then have "utf8_four u" using e0 eq [of 1] eq [of 2] eq [of 3]
      by (simp add: utf8_four_def utf8_len_four)
    with 4 show ?thesis by (simp add: utf8_len_four)
  qed
qed

lemma utf8_len_append: "0 < utf8_len s \<Longrightarrow> utf8_len (s @ t) = utf8_len s"
  using utf8_len_le [of s] by (intro utf8_len_cong) (auto intro!: bat_append)

lemma utf8_len_take: "0 < utf8_len s \<Longrightarrow> utf8_len (take (utf8_len s) s @ t) = utf8_len s"
  using utf8_len_le [of s]
  by (intro utf8_len_cong) (auto simp: bat_def nth_append)

lemma utf8_len_ascii [simp]: "byte c < 0x80 \<Longrightarrow> utf8_len (c # s) = 1"
  by (simp add: utf8_len_def)

lemma utf8_len_pos_Cons: "0 < utf8_len s \<Longrightarrow> \<exists>c cs. s = c # cs"
  by (cases s) (simp_all add: utf8_len_def)

function valid_utf8 :: "string \<Rightarrow> bool" where
  "valid_utf8 s =
     (if s = [] then True
      else if utf8_len s = 0 then False
      else valid_utf8 (drop (utf8_len s) s))"
  by pat_completeness auto
termination
  by (relation "measure length") auto

declare valid_utf8.simps [simp del]

lemma valid_utf8_Nil [simp]: "valid_utf8 []"
  using valid_utf8.simps [of "[]"] by simp

lemma valid_utf8_step:
  "s \<noteq> [] \<Longrightarrow> valid_utf8 s \<longleftrightarrow> 0 < utf8_len s \<and> valid_utf8 (drop (utf8_len s) s)"
  using valid_utf8.simps [of s] by simp

lemma valid_utf8_ascii_Cons: "byte c < 0x80 \<Longrightarrow> valid_utf8 (c # s) \<longleftrightarrow> valid_utf8 s"
  by (simp add: valid_utf8_step)

lemma valid_utf8_ascii: "list_all (\<lambda>c. byte c < 0x80) s \<Longrightarrow> valid_utf8 s"
  by (induction s) (auto simp: valid_utf8_ascii_Cons)

lemma valid_utf8_append: "valid_utf8 s \<Longrightarrow> valid_utf8 t \<Longrightarrow> valid_utf8 (s @ t)"
proof (induction s rule: valid_utf8.induct)
  case (1 s)
  show ?case
  proof (cases "s = []")
    case True
    with "1.prems" show ?thesis by simp
  next
    case False
    with "1.prems" have n: "0 < utf8_len s" "valid_utf8 (drop (utf8_len s) s)"
      by (simp_all add: valid_utf8_step)
    with False 1 have "valid_utf8 (drop (utf8_len s) s @ t)" by simp
    with n False show ?thesis
      by (simp add: valid_utf8_step [of "s @ t"] utf8_len_append utf8_len_le)
  qed
qed

text \<open>\<^verbatim>\<open>utf8.AppendRune\<close>; a surrogate or a value past the last code point is U+FFFD.\<close>

definition rune_error :: "string" where
  "rune_error = [CHR 0xEF, CHR 0xBF, CHR 0xBD]"

definition utf8_encode :: "nat \<Rightarrow> string" where
  "utf8_encode v =
     (if v < 0x80 then [char_of v]
      else if v < 0x800 then [char_of (0xC0 + v div 64), char_of (0x80 + v mod 64)]
      else if 0xD800 \<le> v \<and> v < 0xE000 \<or> 0x10FFFF < v then rune_error
      else if v < 0x10000 then
        [char_of (0xE0 + v div 4096), char_of (0x80 + v div 64 mod 64), char_of (0x80 + v mod 64)]
      else
        [char_of (0xF0 + v div 262144), char_of (0x80 + v div 4096 mod 64),
         char_of (0x80 + v div 64 mod 64), char_of (0x80 + v mod 64)])"

section \<open>Strings\<close>

definition hex_val :: "char \<Rightarrow> nat" where
  "hex_val c =
     (if is_digit c then byte c - 48
      else if 97 \<le> byte c then byte c - 87 else byte c - 55)"

definition hex_lower :: "nat \<Rightarrow> char" where
  "hex_lower n = (if n < 10 then char_of (48 + n) else char_of (87 + n))"

text \<open>The escape of an ASCII byte inside a JSON string, HTML escaping on (Go's default).\<close>

definition esc_ascii :: "char \<Rightarrow> string" where
  "esc_ascii c =
     (let b = byte c in
      if b = 0x22 \<or> b = 0x5C then [CHR 0x5C, c]
      else if b = 8 then [CHR 0x5C, CHR ''b'']
      else if b = 12 then [CHR 0x5C, CHR ''f'']
      else if b = 10 then [CHR 0x5C, CHR ''n'']
      else if b = 13 then [CHR 0x5C, CHR ''r'']
      else if b = 9 then [CHR 0x5C, CHR ''t'']
      else if b < 0x20 \<or> b = 0x3C \<or> b = 0x3E \<or> b = 0x26 then
        [CHR 0x5C, CHR ''u'', CHR ''0'', CHR ''0'', hex_lower (b div 16), hex_lower (b mod 16)]
      else [c])"

function quote_body :: "string \<Rightarrow> string" where
  "quote_body s =
     (case s of
        [] \<Rightarrow> []
      | c # cs \<Rightarrow>
         if byte c < 0x80 then esc_ascii c @ quote_body cs
         else if utf8_len s = 0 then CHR 0x5C # ''ufffd'' @ quote_body cs
         else if take 3 s = [CHR 0xE2, CHR 0x80, CHR 0xA8] then CHR 0x5C # ''u2028'' @ quote_body (drop 3 s)
         else if take 3 s = [CHR 0xE2, CHR 0x80, CHR 0xA9] then CHR 0x5C # ''u2029'' @ quote_body (drop 3 s)
         else take (utf8_len s) s @ quote_body (drop (utf8_len s) s))"
  by pat_completeness auto
termination
  by (relation "measure length") (auto simp: diff_less)

declare quote_body.simps [simp del]

definition jquote :: "string \<Rightarrow> string" where
  "jquote s = CHR 0x22 # quote_body s @ [CHR 0x22]"

fun hex4 :: "string \<Rightarrow> (nat \<times> string) option" where
  "hex4 (a # b # c # d # r) =
     (if is_hex a \<and> is_hex b \<and> is_hex c \<and> is_hex d
      then Some (4096 * hex_val a + 256 * hex_val b + 16 * hex_val c + hex_val d, r) else None)"
| "hex4 _ = None"

text \<open>\<^verbatim>\<open>getu4\<close> after the first surrogate half: the second one, when the pair is valid.\<close>

definition low_half :: "nat \<Rightarrow> string \<Rightarrow> (nat \<times> string) option" where
  "low_half v s =
     (case s of
        b # u # r \<Rightarrow>
          (if b = CHR 0x5C \<and> u = CHR ''u'' then
             (case hex4 r of
                Some (w, r') \<Rightarrow>
                  (if 0xD800 \<le> v \<and> v < 0xDC00 \<and> 0xDC00 \<le> w \<and> w < 0xE000
                   then Some (0x10000 + (v - 0xD800) * 1024 + (w - 0xDC00), r') else None)
              | None \<Rightarrow> None)
           else None)
      | _ \<Rightarrow> None)"

definition simple_escape :: "char \<Rightarrow> char option" where
  "simple_escape e =
     (if e = CHR 0x22 \<or> e = CHR 0x5C \<or> e = CHR ''/'' then Some e
      else if e = CHR ''b'' then Some (char_of (8::nat))
      else if e = CHR ''f'' then Some (char_of (12::nat))
      else if e = CHR ''n'' then Some (char_of (10::nat))
      else if e = CHR ''r'' then Some (char_of (13::nat))
      else if e = CHR ''t'' then Some (char_of (9::nat))
      else None)"

definition pre :: "'a list \<Rightarrow> ('a list \<times> 'b) option \<Rightarrow> ('a list \<times> 'b) option" where
  "pre xs = map_option (\<lambda>(ys, r). (xs @ ys, r))"

lemma pre_Some [simp]: "pre xs (Some (ys, r)) = Some (xs @ ys, r)"
  by (simp add: pre_def)

lemma hex4_shorter: "hex4 s = Some (v, r) \<Longrightarrow> length r < length s"
  by (cases s rule: hex4.cases) (auto split: if_splits)

lemma low_half_shorter: "low_half v s = Some (w, r) \<Longrightarrow> length r < length s"
  by (auto simp: low_half_def split: list.splits if_splits option.splits dest!: hex4_shorter)

text \<open>The rest of a string literal after the opening quote.\<close>

function pstr :: "string \<Rightarrow> (string \<times> string) option" where
  "pstr s =
     (case s of
        [] \<Rightarrow> None
      | c # cs \<Rightarrow>
         if c = CHR 0x22 then Some ([], cs)
         else if c = CHR 0x5C then
           (case cs of
              [] \<Rightarrow> None
            | e # r \<Rightarrow>
               if e = CHR ''u'' then
                 (case hex4 r of
                    None \<Rightarrow> None
                  | Some (v, r2) \<Rightarrow>
                     if 0xD800 \<le> v \<and> v < 0xE000 then
                       (case low_half v r2 of
                          Some (w, r3) \<Rightarrow> pre (utf8_encode w) (pstr r3)
                        | None \<Rightarrow> pre rune_error (pstr r2))
                     else pre (utf8_encode v) (pstr r2))
               else (case simple_escape e of None \<Rightarrow> None | Some ch \<Rightarrow> pre [ch] (pstr r)))
         else if byte c < 0x20 then None
         else if byte c < 0x80 then pre [c] (pstr cs)
         else if utf8_len s = 0 then pre rune_error (pstr cs)
         else pre (take (utf8_len s) s) (pstr (drop (utf8_len s) s)))"
  by pat_completeness auto
termination
  by (relation "measure length") (auto dest!: hex4_shorter low_half_shorter simp: diff_less)

declare pstr.simps [simp del]

lemma hex_lower_hex: "n < 16 \<Longrightarrow> is_hex (hex_lower n) \<and> hex_val (hex_lower n) = n"
  by (auto simp: hex_lower_def is_hex_def is_digit_def hex_val_def)

lemma byte_eqD: "byte c = byte d \<Longrightarrow> c = d"
  by (simp only: of_char_eq_iff)

lemma sep_bytes:
  "char_of (226::nat) = CHR 0xE2" "char_of (128::nat) = CHR 0x80"
  "char_of (168::nat) = CHR 0xA8" "char_of (169::nat) = CHR 0xA9"
  by (rule byte_eqD, simp)+

lemma pstr_esc_ascii:
  assumes "byte c < 0x80"
  shows "pstr (esc_ascii c @ t) = pre [c] (pstr t)"
proof -
  let ?b = "byte c"
  have h: "hex4 (CHR ''0'' # CHR ''0'' # hex_lower (?b div 16) # hex_lower (?b mod 16) # t) = Some (?b, t)"
    using assms hex_lower_hex [of "?b div 16"] hex_lower_hex [of "?b mod 16"]
    by (simp add: is_hex_def [of "CHR ''0''"] is_digit_def hex_val_def [of "CHR ''0''"])
  have e: "utf8_encode ?b = [c]" using assms by (simp add: utf8_encode_def)
  have cb: "\<And>n. ?b = n \<Longrightarrow> char_of n = c" by auto
  consider "?b = 0x22" | "?b = 0x5C" | "?b = 8" | "?b = 12" | "?b = 10" | "?b = 13" | "?b = 9"
    | "?b \<notin> {0x22, 0x5C, 8, 12, 10, 13, 9}" "?b < 0x20 \<or> ?b = 0x3C \<or> ?b = 0x3E \<or> ?b = 0x26"
    | "?b \<notin> {0x22, 0x5C, 8, 12, 10, 13, 9}" "\<not> (?b < 0x20 \<or> ?b = 0x3C \<or> ?b = 0x3E \<or> ?b = 0x26)"
    by blast
  then show ?thesis
  proof cases
    case 1
    then have "c = CHR 0x22" by (intro byte_eqD) simp
    then show ?thesis
      by (simp add: esc_ascii_def simple_escape_def pstr.simps [of "CHR 0x5C # _"])
  next
    case 2
    then have "c = CHR 0x5C" by (intro byte_eqD) simp
    then show ?thesis
      by (simp add: esc_ascii_def simple_escape_def pstr.simps [of "CHR 0x5C # _"])
  next
    case 8
    with assms show ?thesis
      by (simp add: esc_ascii_def Let_def pstr.simps [of "CHR 0x5C # _"] h e del: hex4.simps)
  next
    case 9
    then have "c \<noteq> CHR 0x22 \<and> c \<noteq> CHR 0x5C" by auto
    with 9 assms show ?thesis by (simp add: esc_ascii_def pstr.simps [of "c # t"])
  qed (use cb in \<open>simp add: esc_ascii_def simple_escape_def pstr.simps [of "CHR 0x5C # _"]\<close>)+
qed

lemma utf8_three_sep: "z = CHR 0xA8 \<or> z = CHR 0xA9 \<Longrightarrow> utf8_three (CHR 0xE2 # CHR 0x80 # z # t)"
  by (auto simp: utf8_three_def bat_def cont_byte_def)

lemma pstr_quote_body: "valid_utf8 s \<Longrightarrow> pstr (quote_body s @ CHR 0x22 # rest) = Some (s, rest)"
proof (induction s rule: quote_body.induct)
  case (1 s)
  show ?case
  proof (cases s)
    case Nil
    then show ?thesis by (simp add: quote_body.simps [of "[]"] pstr.simps [of "CHR 0x22 # rest"])
  next
    case (Cons c cs)
    let ?n = "utf8_len s"
    from "1.prems" Cons have n: "0 < ?n" "valid_utf8 (drop ?n s)" by (simp_all add: valid_utf8_step)
    show ?thesis
    proof (cases "byte c < 0x80")
      case True
      with "1.prems" Cons have "valid_utf8 cs" by (simp add: valid_utf8_ascii_Cons)
      with "1.IH"(1) Cons True have "pstr (quote_body cs @ CHR 0x22 # rest) = Some (cs, rest)" by simp
      with Cons True show ?thesis by (simp add: quote_body.simps [of "c # cs"] pstr_esc_ascii)
    next
      case False
      have line_sep: ?thesis
        if sep: "take 3 s = [CHR 0xE2, CHR 0x80, z]" and q: "quote_body s = CHR 0x5C # u @ quote_body (drop 3 s)"
          and IH: "valid_utf8 (drop 3 s) \<Longrightarrow> pstr (quote_body (drop 3 s) @ CHR 0x22 # rest) = Some (drop 3 s, rest)"
          and u: "\<And>t. pstr (CHR 0x5C # u @ t) = pre [CHR 0xE2, CHR 0x80, z] (pstr t)"
          and z: "z = CHR 0xA8 \<or> z = CHR 0xA9" for z u
      proof -
        have s3: "s = [CHR 0xE2, CHR 0x80, z] @ drop 3 s" using sep by (metis append_take_drop_id)
        then have "s = CHR 0xE2 # CHR 0x80 # z # drop 3 s" by simp
        with z have "utf8_three s" by (metis utf8_three_sep)
        then have "?n = 3" by (rule utf8_len_three)
        with n IH have "pstr (quote_body (drop 3 s) @ CHR 0x22 # rest) = Some (drop 3 s, rest)" by simp
        with q u [of "quote_body (drop 3 s) @ CHR 0x22 # rest"] s3 show ?thesis by simp
      qed
      consider "take 3 s = [CHR 0xE2, CHR 0x80, CHR 0xA8]" | "take 3 s = [CHR 0xE2, CHR 0x80, CHR 0xA9]"
        | "take 3 s \<noteq> [CHR 0xE2, CHR 0x80, CHR 0xA8]" "take 3 s \<noteq> [CHR 0xE2, CHR 0x80, CHR 0xA9]"
        by blast
      then show ?thesis
      proof cases
        case 1
        have q: "quote_body s = CHR 0x5C # ''u2028'' @ quote_body (drop 3 s)"
          using 1 Cons False n(1) quote_body.simps [of s] by simp
        show ?thesis
          by (rule line_sep [OF 1 q])
             (use 1 Cons False n "1.IH"(3) in \<open>simp_all add:
                pstr.simps [of "CHR 0x5C # _"] is_hex_def is_digit_def hex_val_def utf8_encode_def sep_bytes\<close>)
      next
        case 2
        have q: "quote_body s = CHR 0x5C # ''u2029'' @ quote_body (drop 3 s)"
          using 2 Cons False n(1) quote_body.simps [of s] by simp
        show ?thesis
          by (rule line_sep [OF 2 q])
             (use 2 Cons False n "1.IH"(4) in \<open>simp_all add:
                pstr.simps [of "CHR 0x5C # _"] is_hex_def is_digit_def hex_val_def utf8_encode_def sep_bytes\<close>)
      next
        case 3
        let ?t = "quote_body (drop ?n s) @ CHR 0x22 # rest"
        have IH: "pstr ?t = Some (drop ?n s, rest)" using 3 Cons False n "1.IH"(5) by simp
        have ln: "utf8_len (take ?n s @ ?t) = ?n" using n(1) by (rule utf8_len_take)
        obtain m where m: "?n = Suc m" using n(1) by (cases ?n) auto
        have "pstr (take ?n s @ ?t) = pre (take ?n s) (pstr ?t)"
        proof -
          have hd: "take ?n s @ ?t = c # take m cs @ ?t" using Cons m by simp
          have l: "length (take ?n s) = ?n" using utf8_len_le [of s] by simp
          have "c \<noteq> CHR 0x22 \<and> c \<noteq> CHR 0x5C" using False by auto
          then have "pstr (c # take m cs @ ?t) =
              pre (take ?n (c # take m cs @ ?t)) (pstr (drop ?n (c # take m cs @ ?t)))"
            using False ln n(1) unfolding hd by (simp add: pstr.simps [of "c # take m cs @ ?t"])
          also have "take ?n (c # take m cs @ ?t) = take ?n s" using l unfolding hd [symmetric] by simp
          also have "drop ?n (c # take m cs @ ?t) = ?t" using l unfolding hd [symmetric] by simp
          finally show ?thesis unfolding hd .
        qed
        moreover have "quote_body s = take ?n s @ quote_body (drop ?n s)"
          using 3 n(1) False unfolding quote_body.simps [of s] by (subst Cons) simp
        ultimately show ?thesis using IH by simp
      qed
    qed
  qed
qed

section \<open>Numbers\<close>

definition num_char :: "char \<Rightarrow> bool" where
  "num_char c \<longleftrightarrow> is_digit c \<or> c \<in> {CHR ''.'', CHR ''e'', CHR ''E'', CHR ''+'', CHR ''-''}"

definition p_digits1 :: "string \<Rightarrow> (string \<times> string) option" where
  "p_digits1 s =
     (let d = takeWhile is_digit s in if d = [] then None else Some (d, dropWhile is_digit s))"

definition p_int :: "string \<Rightarrow> (string \<times> string) option" where
  "p_int s =
     (case s of
        [] \<Rightarrow> None
      | c # cs \<Rightarrow> if c = CHR ''0'' then Some ([c], cs) else p_digits1 s)"

definition p_frac :: "string \<Rightarrow> (string \<times> string) option" where
  "p_frac s =
     (case s of
        [] \<Rightarrow> Some ([], [])
      | c # cs \<Rightarrow> if c = CHR ''.'' then pre [c] (p_digits1 cs) else Some ([], s))"

definition p_exp :: "string \<Rightarrow> (string \<times> string) option" where
  "p_exp s =
     (case s of
        [] \<Rightarrow> Some ([], [])
      | c # cs \<Rightarrow>
         if c = CHR ''e'' \<or> c = CHR ''E'' then
           (case cs of
              [] \<Rightarrow> None
            | d # ds \<Rightarrow>
               if d = CHR ''+'' \<or> d = CHR ''-'' then pre [c, d] (p_digits1 ds) else pre [c] (p_digits1 cs))
         else Some ([], s))"

definition p_unsigned :: "string \<Rightarrow> (string \<times> string) option" where
  "p_unsigned s =
     (case p_int s of
        None \<Rightarrow> None
      | Some (i, s2) \<Rightarrow> (case p_frac s2 of None \<Rightarrow> None | Some (f, s3) \<Rightarrow> pre (i @ f) (p_exp s3)))"

definition p_number :: "string \<Rightarrow> (string \<times> string) option" where
  "p_number s =
     (case s of
        [] \<Rightarrow> None
      | c # cs \<Rightarrow> if c = CHR ''-'' then pre [c] (p_unsigned cs) else p_unsigned s)"

text \<open>A literal of the JSON grammar for numbers.\<close>

definition num_ok :: "string \<Rightarrow> bool" where
  "num_ok s \<longleftrightarrow> p_number s = Some (s, [])"

definition num_stop :: "string \<Rightarrow> bool" where
  "num_stop s \<longleftrightarrow> (case s of [] \<Rightarrow> True | c # _ \<Rightarrow> \<not> num_char c)"

lemma num_stop_takeWhile: "num_stop t \<Longrightarrow> takeWhile is_digit t = [] \<and> dropWhile is_digit t = t"
  by (cases t) (auto simp: num_stop_def num_char_def)

lemma num_stop_Cons: "num_stop (c # t) \<Longrightarrow>
   c \<noteq> CHR ''.'' \<and> c \<noteq> CHR ''e'' \<and> c \<noteq> CHR ''E'' \<and> c \<noteq> CHR ''-''  \<and> c \<noteq> CHR ''+'' \<and> \<not> is_digit c"
  by (auto simp: num_stop_def num_char_def)

lemma p_digits1_append:
  "p_digits1 s = Some (d, r) \<Longrightarrow> num_stop t \<Longrightarrow> p_digits1 (s @ t) = Some (d, r @ t)"
  using num_stop_takeWhile [of t]
  by (auto simp: p_digits1_def Let_def takeWhile_append dropWhile_append
        split: if_splits intro: takeWhile_eq_all_conv [THEN iffD2, symmetric])

lemma p_int_append: "p_int s = Some (d, r) \<Longrightarrow> num_stop t \<Longrightarrow> p_int (s @ t) = Some (d, r @ t)"
  by (cases s) (auto simp: p_int_def dest: p_digits1_append split: if_splits)

lemma pre_eq_Some: "pre xs v = Some (ys, r) \<longleftrightarrow> (\<exists>zs. v = Some (zs, r) \<and> ys = xs @ zs)"
  by (cases v) (auto simp: pre_def)

lemma p_frac_append: "p_frac s = Some (d, r) \<Longrightarrow> num_stop t \<Longrightarrow> p_frac (s @ t) = Some (d, r @ t)"
  using num_stop_Cons
  by (cases s; cases t)
     (auto simp: p_frac_def pre_eq_Some dest: p_digits1_append split: if_splits)

lemma p_exp_append: "p_exp s = Some (d, r) \<Longrightarrow> num_stop t \<Longrightarrow> p_exp (s @ t) = Some (d, r @ t)"
  using num_stop_Cons
  by (cases s; cases t)
     (auto simp: p_exp_def pre_eq_Some dest: p_digits1_append split: if_splits list.splits)

lemma p_unsigned_append:
  assumes "p_unsigned s = Some (u, r)" "num_stop t"
  shows "p_unsigned (s @ t) = Some (u, r @ t)"
proof -
  from assms(1) obtain i s2 f s3 e where
    "p_int s = Some (i, s2)" "p_frac s2 = Some (f, s3)" "p_exp s3 = Some (e, r)" "u = i @ f @ e"
    by (auto simp: p_unsigned_def pre_eq_Some split: option.splits prod.splits)
  with assms(2) show ?thesis
    by (simp add: p_unsigned_def p_int_append p_frac_append p_exp_append)
qed

lemma p_number_append:
  assumes "num_ok s" "num_stop t"
  shows "p_number (s @ t) = Some (s, t)"
proof (cases s)
  case Nil
  with assms show ?thesis by (simp add: num_ok_def p_number_def)
next
  case (Cons c cs)
  with assms p_unsigned_append [of s s "[]" t] p_unsigned_append [of cs cs "[]" t] show ?thesis
    by (auto simp: num_ok_def p_number_def pre_eq_Some split: if_splits)
qed

lemma nat_digits_no_leading_zero: "9 < n \<Longrightarrow> hd (nat_digits n) \<noteq> CHR ''0''"
proof (induction n rule: nat_digits.induct)
  case (1 n)
  then have n: "\<not> n < 10" by simp
  show ?case
  proof (cases "9 < n div 10")
    case True
    with "1.IH" n show ?thesis
      by (subst nat_digits.simps) (simp add: hd_append)
  next
    case False
    then have "nat_digits (n div 10) = [digit_char (n div 10)]"
      by (subst nat_digits.simps) simp
    moreover have "digit_char (n div 10) \<noteq> CHR ''0''"
    proof
      assume "digit_char (n div 10) = CHR ''0''"
      then have "byte (digit_char (n div 10)) = 48" by simp
      with n False show False by (simp add: digit_char_def)
    qed
    ultimately show ?thesis using n by (subst nat_digits.simps) simp
  qed
qed

lemma p_int_nat_digits: "p_int (nat_digits n) = Some (nat_digits n, [])"
proof (cases "n < 10")
  case True
  then have "nat_digits n = [digit_char n]" by (subst nat_digits.simps) simp
  with True show ?thesis by (simp add: p_int_def p_digits1_def digit_char_digit)
next
  case False
  have "takeWhile is_digit (nat_digits n) = nat_digits n" "dropWhile is_digit (nat_digits n) = []"
    using nat_digits_digits [of n] by (auto simp: list_all_iff)
  with False nat_digits_no_leading_zero [of n] show ?thesis
    by (cases "nat_digits n") (auto simp: p_int_def p_digits1_def)
qed

lemma num_ok_itoa: "num_ok (itoa i)"
proof (cases "i < 0")
  case True
  then show ?thesis
    by (simp add: num_ok_def p_number_def p_unsigned_def itoa_def p_int_nat_digits p_frac_def p_exp_def)
next
  case False
  obtain c cs where c: "nat_digits (nat i) = c # cs" by (meson nat_digits_nonempty list.exhaust)
  then have "c \<noteq> CHR ''-''" using nat_digits_hd [of "nat i"] digit_not_sign by auto
  with c False p_int_nat_digits [of "nat i"] show ?thesis
    by (simp add: num_ok_def p_number_def p_unsigned_def itoa_def p_frac_def p_exp_def)
qed

section \<open>Values\<close>

datatype json =
    JNull
  | JBool bool
  | JNum string
  | JStr string
  | JArr "json list"
  | JObj "(string \<times> json) list"

abbreviation JInt :: "int \<Rightarrow> json" where
  "JInt i \<equiv> JNum (itoa i)"

definition jobj :: "(string \<times> json) list \<Rightarrow> json" where
  "jobj ms = JObj (of_members ms)"

text \<open>
  The layout: None is \<^verbatim>\<open>json.Marshal\<close>, \<open>Some d\<close> is \<^verbatim>\<open>json.MarshalIndent(v, "", "  ")\<close> inside
  \<open>d\<close> brackets.
\<close>

definition nl :: "nat option \<Rightarrow> string" where
  "nl d = (case d of None \<Rightarrow> [] | Some k \<Rightarrow> CHR 0x0A # replicate (2 * k) (CHR '' ''))"

definition colon :: "nat option \<Rightarrow> string" where
  "colon d = (case d of None \<Rightarrow> '':'' | Some _ \<Rightarrow> '': '')"

abbreviation deeper :: "nat option \<Rightarrow> nat option" where
  "deeper \<equiv> map_option Suc"

fun jpr :: "nat option \<Rightarrow> json \<Rightarrow> string"
  and jpr_elems :: "nat option \<Rightarrow> json list \<Rightarrow> string"
  and jpr_members :: "nat option \<Rightarrow> (string \<times> json) list \<Rightarrow> string" where
  "jpr d JNull = ''null''"
| "jpr d (JBool b) = (if b then ''true'' else ''false'')"
| "jpr d (JNum n) = n"
| "jpr d (JStr s) = jquote s"
| "jpr d (JArr xs) = (if xs = [] then ''[]'' else ''['' @ jpr_elems (deeper d) xs @ nl d @ '']'')"
| "jpr d (JObj ms) = (if ms = [] then ''{}'' else ''{'' @ jpr_members (deeper d) ms @ nl d @ ''}'')"
| "jpr_elems d [] = []"
| "jpr_elems d (x # xs) =
     nl d @ jpr d x @ (if xs = [] then [] else '','' @ jpr_elems d xs)"
| "jpr_members d [] = []"
| "jpr_members d ((k, v) # ms) =
     nl d @ jquote k @ colon d @ jpr d v @ (if ms = [] then [] else '','' @ jpr_members d ms)"

definition json_marshal :: "json \<Rightarrow> string" where
  "json_marshal v = jpr None v"

definition json_marshal_indent :: "json \<Rightarrow> string" where
  "json_marshal_indent v = jpr (Some 0) v"

definition is_jws :: "char \<Rightarrow> bool" where
  "is_jws c \<longleftrightarrow> c \<in> {CHR '' '', CHR 0x09, CHR 0x0A, CHR 0x0D}"

definition skip_ws :: "string \<Rightarrow> string" where
  "skip_ws s = dropWhile is_jws s"

definition p_literal :: "string \<Rightarrow> json \<Rightarrow> string \<Rightarrow> (json \<times> string) option" where
  "p_literal w v s = (if prefix w s then Some (v, drop (length w) s) else None)"

text \<open>
  The parser.  The fuel bounds the number of nested calls; \<open>json_parse\<close> gives it more than the
  length of the input, which is enough for every text the printer writes (\<open>json_parse_marshal\<close>).
\<close>

fun p_value :: "nat \<Rightarrow> string \<Rightarrow> (json \<times> string) option"
  and p_elems :: "nat \<Rightarrow> string \<Rightarrow> (json list \<times> string) option"
  and p_members :: "nat \<Rightarrow> string \<Rightarrow> ((string \<times> json) list \<times> string) option" where
  "p_value 0 s = None"
| "p_value (Suc n) s =
     (case skip_ws s of
        [] \<Rightarrow> None
      | c # cs \<Rightarrow>
         if c = CHR ''{'' then
           (case skip_ws cs of
              [] \<Rightarrow> None
            | d # ds \<Rightarrow>
               if d = CHR ''}'' then Some (JObj [], ds)
               else map_option (\<lambda>(ms, r). (jobj ms, r)) (p_members n cs))
         else if c = CHR ''['' then
           (case skip_ws cs of
              [] \<Rightarrow> None
            | d # ds \<Rightarrow>
               if d = CHR '']'' then Some (JArr [], ds)
               else map_option (\<lambda>(xs, r). (JArr xs, r)) (p_elems n cs))
         else if c = CHR 0x22 then map_option (\<lambda>(t, r). (JStr t, r)) (pstr cs)
         else if c = CHR ''n'' then p_literal ''null'' JNull (c # cs)
         else if c = CHR ''t'' then p_literal ''true'' (JBool True) (c # cs)
         else if c = CHR ''f'' then p_literal ''false'' (JBool False) (c # cs)
         else map_option (\<lambda>(t, r). (JNum t, r)) (p_number (c # cs)))"
| "p_elems 0 s = None"
| "p_elems (Suc n) s =
     (case p_value n s of
        None \<Rightarrow> None
      | Some (v, r) \<Rightarrow>
         (case skip_ws r of
            [] \<Rightarrow> None
          | d # ds \<Rightarrow>
             if d = CHR '','' then pre [v] (p_elems n ds)
             else if d = CHR '']'' then Some ([v], ds)
             else None))"
| "p_members 0 s = None"
| "p_members (Suc n) s =
     (case skip_ws s of
        [] \<Rightarrow> None
      | c # cs \<Rightarrow>
         if c \<noteq> CHR 0x22 then None
         else (case pstr cs of
            None \<Rightarrow> None
          | Some (k, r) \<Rightarrow>
             (case skip_ws r of
                [] \<Rightarrow> None
              | d # ds \<Rightarrow>
                 if d \<noteq> CHR '':'' then None
                 else (case p_value n ds of
                    None \<Rightarrow> None
                  | Some (v, r2) \<Rightarrow>
                     (case skip_ws r2 of
                        [] \<Rightarrow> None
                      | e # es \<Rightarrow>
                         if e = CHR '','' then pre [(k, v)] (p_members n es)
                         else if e = CHR ''}'' then Some ([(k, v)], es)
                         else None)))))"

definition json_parse :: "string \<Rightarrow> json option" where
  "json_parse s =
     (case p_value (Suc (length s)) s of
        Some (v, r) \<Rightarrow> if skip_ws r = [] then Some v else None
      | None \<Rightarrow> None)"

text \<open>\<^verbatim>\<open>json.Unmarshal\<close> into \<^verbatim>\<open>map[string]any\<close>: an object, or null (which leaves a nil map).\<close>

definition unmarshal_object :: "string \<Rightarrow> json omap option" where
  "unmarshal_object s =
     (case json_parse s of
        Some (JObj ms) \<Rightarrow> Some ms
      | Some JNull \<Rightarrow> Some []
      | _ \<Rightarrow> None)"

text \<open>Values that survive the round trip: valid UTF-8, number literals, maps in key order.\<close>

fun wf_json :: "json \<Rightarrow> bool"
  and wf_elems :: "json list \<Rightarrow> bool"
  and wf_members :: "(string \<times> json) list \<Rightarrow> bool" where
  "wf_json JNull = True"
| "wf_json (JBool b) = True"
| "wf_json (JNum n) = num_ok n"
| "wf_json (JStr s) = valid_utf8 s"
| "wf_json (JArr xs) = wf_elems xs"
| "wf_json (JObj ms) = (owf ms \<and> wf_members ms)"
| "wf_elems [] = True"
| "wf_elems (x # xs) = (wf_json x \<and> wf_elems xs)"
| "wf_members [] = True"
| "wf_members ((k, v) # ms) = (valid_utf8 k \<and> wf_json v \<and> wf_members ms)"

fun fuel_json :: "json \<Rightarrow> nat"
  and fuel_elems :: "json list \<Rightarrow> nat"
  and fuel_members :: "(string \<times> json) list \<Rightarrow> nat" where
  "fuel_json JNull = 1"
| "fuel_json (JBool b) = 1"
| "fuel_json (JNum n) = 1"
| "fuel_json (JStr s) = 1"
| "fuel_json (JArr xs) = 1 + fuel_elems xs"
| "fuel_json (JObj ms) = 1 + fuel_members ms"
| "fuel_elems [] = 0"
| "fuel_elems (x # xs) = 1 + fuel_json x + fuel_elems xs"
| "fuel_members [] = 0"
| "fuel_members ((k, v) # ms) = 1 + fuel_json v + fuel_members ms"

lemma skip_ws_nl [simp]: "skip_ws (nl d @ s) = skip_ws s"
proof -
  have "\<forall>c \<in> set (nl d). is_jws c" by (cases d) (auto simp: nl_def is_jws_def)
  then show ?thesis by (simp add: skip_ws_def dropWhile_append)
qed

lemma skip_ws_Cons [simp]: "\<not> is_jws c \<Longrightarrow> skip_ws (c # s) = c # s"
  by (simp add: skip_ws_def)

lemma skip_ws_Nil [simp]: "skip_ws [] = []"
  by (simp add: skip_ws_def)

lemma skip_ws_idem [simp]: "skip_ws (skip_ws s) = skip_ws s"
  by (cases "skip_ws s") (auto simp: skip_ws_def dropWhile_eq_Cons_conv)

lemma p_value_skip: "skip_ws s = skip_ws t \<Longrightarrow> p_value n s = p_value n t"
  by (cases n) auto

lemma p_value_nl [simp]: "p_value n (nl d @ s) = p_value n s"
  by (rule p_value_skip) simp

lemma num_ok_hd: "num_ok s \<Longrightarrow> \<exists>c cs. s = c # cs \<and> (is_digit c \<or> c = CHR ''-'')"
  by (cases s)
     (auto simp: num_ok_def p_number_def p_unsigned_def p_int_def p_digits1_def Let_def is_digit_def
           split: if_splits option.splits)

lemma jws_simps [simp]:
  "\<not> is_jws (CHR ''{'')" "\<not> is_jws (CHR ''}'')" "\<not> is_jws (CHR ''['')" "\<not> is_jws (CHR '']'')"
  "\<not> is_jws (CHR 0x22)" "\<not> is_jws (CHR '','')" "\<not> is_jws (CHR '':'')" "\<not> is_jws (CHR ''n'')"
  "\<not> is_jws (CHR ''t'')" "\<not> is_jws (CHR ''f'')" "\<not> is_jws (CHR ''-'')"
  by (simp_all add: is_jws_def)

lemma digit_not_special:
  "is_digit c \<Longrightarrow> \<not> is_jws c \<and> c \<noteq> CHR ''{'' \<and> c \<noteq> CHR ''['' \<and> c \<noteq> CHR 0x22 \<and> c \<noteq> CHR ''n''
     \<and> c \<noteq> CHR ''t'' \<and> c \<noteq> CHR ''f''"
  by (auto simp: is_digit_def is_jws_def)

lemma num_stop_simps [simp]:
  "num_stop []" "num_stop (CHR '','' # t)" "num_stop (CHR '']'' # t)" "num_stop (CHR ''}'' # t)"
  by (simp_all add: num_stop_def num_char_def is_digit_def)

lemma num_stop_nl: "num_stop t \<Longrightarrow> num_stop (nl d @ t)"
  by (cases d) (simp_all add: nl_def num_stop_def num_char_def is_digit_def)

lemma jpr_hd:
  assumes "wf_json v"
  obtains c cs where "jpr d v = c # cs" "\<not> is_jws c" "c \<noteq> CHR '']''" "c \<noteq> CHR ''}''"
proof -
  have "\<exists>c cs. jpr d v = c # cs \<and> \<not> is_jws c \<and> c \<noteq> CHR '']'' \<and> c \<noteq> CHR ''}''"
  proof (cases v)
    case (JNum n)
    with assms num_ok_hd [of n] obtain c cs where n: "n = c # cs" "is_digit c \<or> c = CHR ''-''" by auto
    then have "\<not> is_jws c \<and> c \<noteq> CHR '']'' \<and> c \<noteq> CHR ''}''"
      by (auto simp: is_jws_def is_digit_def)
    with JNum n show ?thesis by simp
  qed (auto simp: jquote_def)
  with that show ?thesis by blast
qed

lemma p_value_jpr:
  "wf_json v \<Longrightarrow> fuel_json v \<le> n \<Longrightarrow> num_stop t \<Longrightarrow> p_value n (jpr d v @ t) = Some (v, t)"
  "wf_elems xs \<Longrightarrow> xs \<noteq> [] \<Longrightarrow> fuel_elems xs \<le> n \<Longrightarrow>
     p_elems n (jpr_elems d xs @ nl e @ CHR '']'' # t) = Some (xs, t)"
  "wf_members ms \<Longrightarrow> ms \<noteq> [] \<Longrightarrow> fuel_members ms \<le> n \<Longrightarrow>
     p_members n (jpr_members d ms @ nl e @ CHR ''}'' # t) = Some (ms, t)"
proof (induction v and xs and ms arbitrary: n t d and n t d e and n t d e
    rule: wf_json_wf_elems_wf_members.induct)
  case 1
  then show ?case by (cases n) (auto simp: p_literal_def)
next
  case (2 b)
  then show ?case by (cases n) (auto simp: p_literal_def)
next
  case (3 k)
  from 3 num_ok_hd [of k] obtain c cs where k: "k = c # cs" "is_digit c \<or> c = CHR ''-''" by auto
  from k(2) have "\<not> is_jws c \<and> c \<noteq> CHR ''{'' \<and> c \<noteq> CHR ''['' \<and> c \<noteq> CHR 0x22 \<and> c \<noteq> CHR ''n''
     \<and> c \<noteq> CHR ''t'' \<and> c \<noteq> CHR ''f''"
    using digit_not_special [of c] by (elim conjE disjE) simp_all
  moreover have "p_number (k @ t) = Some (k, t)" using 3 by (simp add: p_number_append)
  ultimately show ?case using 3 k by (cases n) simp_all
next
  case (4 s)
  then show ?case by (cases n) (auto simp: jquote_def pstr_quote_body)
next
  case (5 xs)
  then obtain m where m: "n = Suc m" by (cases n) auto
  show ?case
  proof (cases xs)
    case Nil
    with m show ?thesis by simp
  next
    case (Cons x ys)
    with 5 have "wf_json x" by simp
    then obtain c cs where "jpr (deeper d) x = c # cs" "\<not> is_jws c" "c \<noteq> CHR '']''" "c \<noteq> CHR ''}''"
      by (rule jpr_hd)
    moreover have "p_elems m (jpr_elems (deeper d) xs @ nl d @ CHR '']'' # t) = Some (xs, t)"
      using 5 Cons m by simp
    ultimately show ?thesis using m Cons by simp
  qed
next
  case (6 ms)
  then obtain m where m: "n = Suc m" by (cases n) auto
  show ?case
  proof (cases ms)
    case Nil
    with m show ?thesis by simp
  next
    case (Cons x ys)
    obtain k v where "x = (k, v)" by (cases x)
    moreover have "p_members m (jpr_members (deeper d) ms @ nl d @ CHR ''}'' # t) = Some (ms, t)"
      using 6 Cons m by simp
    ultimately show ?thesis using m Cons 6 by (simp add: jquote_def jobj_def of_members_owf)
  qed
next
  case 7
  then show ?case by simp
next
  case (8 x xs)
  then obtain m where m: "n = Suc m" by (cases n) auto
  show ?case
  proof (cases xs)
    case Nil
    have "p_value m (jpr d x @ nl e @ CHR '']'' # t) = Some (x, nl e @ CHR '']'' # t)"
      using 8 m by (intro "8.IH"(1)) (auto intro: num_stop_nl)
    with m Nil show ?thesis by simp
  next
    case (Cons y ys)
    have "p_value m (jpr d x @ CHR '','' # jpr_elems d xs @ nl e @ CHR '']'' # t)
        = Some (x, CHR '','' # jpr_elems d xs @ nl e @ CHR '']'' # t)"
      using 8 m by (intro "8.IH"(1)) auto
    moreover have "p_elems m (jpr_elems d xs @ nl e @ CHR '']'' # t) = Some (xs, t)"
      using 8 m Cons by (intro "8.IH"(2)) auto
    ultimately show ?thesis using m Cons by (simp del: jpr_elems.simps)
      (simp add: jpr_elems.simps(2) [of d x])
  qed
next
  case 9
  then show ?case by simp
next
  case (10 k v ms)
  then obtain m where m: "n = Suc m" by (cases n) auto
  have key: "pstr (quote_body k @ CHR 0x22 # u) = Some (k, u)" for u
    using 10 by (simp add: pstr_quote_body)
  have col: "skip_ws (colon d @ u) = CHR '':'' # drop (Suc 0) (colon d @ u)"
       "skip_ws (drop (Suc 0) (colon d @ u)) = skip_ws u" for u
    by (cases d; simp add: colon_def skip_ws_def is_jws_def)+
  have val: "p_value m (drop (Suc 0) (colon d @ u)) = p_value m u" for u
    by (rule p_value_skip) (rule col(2))
  show ?case
  proof (cases ms)
    case Nil
    have "p_value m (jpr d v @ nl e @ CHR ''}'' # t) = Some (v, nl e @ CHR ''}'' # t)"
      using 10 m by (intro "10.IH"(1)) (auto intro: num_stop_nl)
    with m Nil show ?thesis by (simp add: jquote_def key col val del: drop_append)
  next
    case (Cons y ys)
    have "p_value m (jpr d v @ CHR '','' # jpr_members d ms @ nl e @ CHR ''}'' # t)
        = Some (v, CHR '','' # jpr_members d ms @ nl e @ CHR ''}'' # t)"
      using 10 m by (intro "10.IH"(1)) auto
    moreover have "p_members m (jpr_members d ms @ nl e @ CHR ''}'' # t) = Some (ms, t)"
      using 10 m Cons by (intro "10.IH"(2)) auto
    ultimately show ?thesis using m Cons
      by (simp del: jpr_members.simps drop_append)
         (simp add: jpr_members.simps(2) [of d k v] jquote_def key col val del: jpr_members.simps drop_append)
  qed
qed

lemma fuel_le_length:
  "wf_json v \<Longrightarrow> fuel_json v \<le> length (jpr d v)"
  "wf_elems xs \<Longrightarrow> fuel_elems xs \<le> length (jpr_elems d xs) + 1"
  "wf_members ms \<Longrightarrow> fuel_members ms \<le> length (jpr_members d ms) + 1"
proof (induction v and xs and ms arbitrary: d and d and d rule: wf_json_wf_elems_wf_members.induct)
  case (3 n)
  then show ?case using num_ok_hd [of n] by (auto simp: Suc_le_eq)
next
  case (5 xs)
  then have "fuel_elems xs \<le> length (jpr_elems (deeper d) xs) + 1" by simp
  then show ?case by simp
next
  case (6 ms)
  then have "fuel_members ms \<le> length (jpr_members (deeper d) ms) + 1" by simp
  then show ?case by simp
next
  case (8 x xs)
  then have "fuel_json x \<le> length (jpr d x)" "fuel_elems xs \<le> length (jpr_elems d xs) + 1" by simp_all
  then show ?case by auto
next
  case (10 k v ms)
  then have "fuel_json v \<le> length (jpr d v)" "fuel_members ms \<le> length (jpr_members d ms) + 1"
    by simp_all
  then show ?case by (auto simp: jquote_def)
qed (auto simp: jquote_def)

lemma json_parse_jpr: "wf_json v \<Longrightarrow> json_parse (jpr d v) = Some v"
  using p_value_jpr(1) [of v "Suc (length (jpr d v))" "[]" d] fuel_le_length(1) [of v d]
  by (simp add: json_parse_def)

lemma json_parse_marshal [simp]: "wf_json v \<Longrightarrow> json_parse (json_marshal v) = Some v"
  by (simp add: json_marshal_def json_parse_jpr)

lemma json_parse_marshal_indent [simp]: "wf_json v \<Longrightarrow> json_parse (json_marshal_indent v) = Some v"
  by (simp add: json_marshal_indent_def json_parse_jpr)

end
