(* ===== verification/PanelState.thy ===== *)
theory PanelState
  imports GoJson
begin

text \<open>
  The state the handlers work on.  Every table of the database that line management touches is a
  list of records in primary-key order, next to its autoincrement counter (internal/database/model);
  \<open>world\<close> adds the files of the host, the environment and a counter of the interactions so far.
  The environment \<open>env\<close> answers what the code cannot know: the clock, random bytes, whether a
  database statement fails, what a command or a dial returns.  It is a function of the counter, so
  every theorem is about every clock and every pattern of failures.
\<close>

section \<open>Rows (internal/database/model)\<close>

record line_profile =
  l_id :: int
  l_userId :: int
  l_name :: string
  l_type :: string
  l_status :: string
  l_inboundId :: "int option"
  l_outboundTag :: string
  l_entryHost :: string
  l_entryPort :: int
  l_chainText :: string
  l_validFrom :: int
  l_validUntil :: int
  l_expiredAt :: int
  l_manual :: bool
  l_configJSON :: string
  l_lastCheckAt :: int
  l_lastInLatency :: int
  l_lastOutLatency :: int
  l_lastError :: string
  l_createdAt :: int
  l_updatedAt :: int

record line_outbound =
  o_id :: int
  o_lineId :: int
  o_type :: string
  o_host :: string
  o_port :: int
  o_username :: string
  o_password :: string
  o_tag :: string
  o_enabled :: bool
  o_createdAt :: int
  o_updatedAt :: int

record line_log =
  g_id :: int
  g_lineId :: int
  g_action :: string
  g_level :: string
  g_message :: string
  g_detail :: string
  g_createdAt :: int

record line_check =
  k_id :: int
  k_lineId :: int
  k_status :: string
  k_pass :: int
  k_warn :: int
  k_fail :: int
  k_itemsJSON :: string
  k_createdAt :: int

record line_subscription =
  s_id :: int
  s_lineId :: int
  s_tokenHash :: string
  s_tokenCiphertext :: string
  s_createdAt :: int
  s_rotatedAt :: int
  s_updatedAt :: int

record inbound =
  i_id :: int
  i_userId :: int
  i_up :: int
  i_down :: int
  i_total :: int
  i_remark :: string
  i_subSortIndex :: int
  i_enable :: bool
  i_expiryTime :: int
  i_trafficReset :: string
  i_trafficResetDay :: int
  i_lastTrafficReset :: int
  i_listen :: string
  i_port :: int
  i_protocol :: string
  i_settings :: string
  i_streamSettings :: string
  i_tag :: string
  i_sniffing :: string
  i_nodeId :: "int option"
  i_shareAddrStrategy :: string
  i_shareAddr :: string
  i_originNodeGuid :: string

record client_record =
  c_id :: int
  c_email :: string
  c_subId :: string
  c_uuid :: string
  c_password :: string
  c_auth :: string
  c_flow :: string
  c_security :: string
  c_reverse :: string
  c_privateKey :: string
  c_publicKey :: string
  c_allowedIPs :: string
  c_preSharedKey :: string
  c_keepAlive :: int
  c_secret :: string
  c_adTag :: string
  c_limitIP :: int
  c_totalGB :: int
  c_expiryTime :: int
  c_enable :: bool
  c_tgID :: int
  c_group :: string
  c_comment :: string
  c_reset :: int
  c_createdAt :: int
  c_updatedAt :: int

record client_inbound =
  ci_clientId :: int
  ci_inboundId :: int
  ci_flowOverride :: string
  ci_createdAt :: int

record setting =
  st_id :: int
  st_key :: string
  st_value :: string

record outbound_traffic =
  ot_id :: int
  ot_tag :: string
  ot_up :: int
  ot_down :: int
  ot_total :: int

text \<open>Accounting (internal/xray/client\_traffic.go, client\_global\_traffic.go,
  node\_client\_traffic.go) and the groups of clients.\<close>

record client_traffic =
  t_id :: int
  t_inboundId :: int
  t_enable :: bool
  t_email :: string
  t_up :: int
  t_down :: int
  t_expiryTime :: int
  t_total :: int
  t_reset :: int
  t_lastOnline :: int

record global_traffic =
  gt_masterGuid :: string
  gt_email :: string
  gt_up :: int
  gt_down :: int
  gt_updatedAt :: int

record node_traffic =
  nt_nodeId :: int
  nt_email :: string
  nt_up :: int
  nt_down :: int

record client_group =
  cg_id :: int
  cg_name :: string
  cg_resetUp :: int
  cg_resetDown :: int
  cg_createdAt :: int
  cg_updatedAt :: int

text \<open>
  The rows the generated configuration of Xray is built from besides inbounds and clients (model.go):
  fallbacks of an inbound, outbound subscriptions, and of the nodes what decides about their bridges.
\<close>

record inbound_fallback =
  fb_id :: int
  fb_masterId :: int
  fb_childId :: int
  fb_name :: string
  fb_alpn :: string
  fb_path :: string
  fb_dest :: string
  fb_xver :: int
  fb_sortOrder :: int

record outbound_subscription =
  os_id :: int
  os_enabled :: bool
  os_priority :: int
  os_prepend :: bool
  os_lastFetched :: string

record node =
  nd_id :: int
  nd_name :: string
  nd_enable :: bool
  nd_outboundTag :: string

record db =
  d_lines :: "line_profile list"
  d_nextLine :: int
  d_outbounds :: "line_outbound list"
  d_nextOutbound :: int
  d_logs :: "line_log list"
  d_nextLog :: int
  d_checks :: "line_check list"
  d_nextCheck :: int
  d_subs :: "line_subscription list"
  d_nextSub :: int
  d_inbounds :: "inbound list"
  d_nextInbound :: int
  d_clients :: "client_record list"
  d_nextClient :: int
  d_clientInbounds :: "client_inbound list"
  d_settings :: "setting list"
  d_nextSetting :: int
  d_outboundTraffics :: "outbound_traffic list"
  d_traffics :: "client_traffic list"
  d_nextTraffic :: int
  d_globals :: "global_traffic list"
  d_nodeTraffics :: "node_traffic list"
  d_groups :: "client_group list"
  d_nextGroup :: int
  d_nextOutboundTraffic :: int
  d_fallbacks :: "inbound_fallback list"
  d_nextFallback :: int
  d_outboundSubs :: "outbound_subscription list"
  d_nodes :: "node list"

section \<open>The environment and the world\<close>

text \<open>
  \<open>e_fault\<close>: the database error of the statement issued at a tick, if it fails.  \<open>e_uuidOk\<close>
  (\<^verbatim>\<open>uuid.Parse\<close>) and \<open>e_uuid\<close> (\<^verbatim>\<open>uuid.NewString\<close>) belong to google/uuid; \<open>e_template\<close> is the
  embedded config.json; \<open>e_basePath\<close> is \<^verbatim>\<open>XUI_INIT_WEB_BASE_PATH\<close> or its default; \<open>e_cmd\<close> runs a command (its output, and its error if any); \<open>e_fsFault\<close> is
  the error of a file operation other than a missing file, \<open>e_fsTorn\<close> how many bytes a failing write leaves in the truncated
  file (None: it failed before the file was opened); \<open>e_dial\<close> the error of a TCP dial; \<open>e_rand\<close> is \<^verbatim>\<open>crypto/rand\<close>
  (None: \<^verbatim>\<open>rand.Read\<close> failed; otherwise the i-th byte read), \<open>e_x25519\<close> the bytes of a fresh X25519
  key pair, or the text of the error; \<open>e_mapOrder\<close> the order in which Go ranges over a map.
  The next nine are the network and the other processes: the scan for Reality targets, a free port on
  the loopback, the probe of a temporary Xray with a configuration, DNS (is the address IPv4, and its text), the addresses of
  the host, \<^verbatim>\<open>exec.LookPath\<close>, the check of a certificate pair for a host name, the latency test of an
  outbound, and the speeds the collector stored for a line.
  \<open>e_secret\<close> is the random default of the setting \<^verbatim>\<open>secret\<close>, drawn when the process starts;
  \<open>e_sha256\<close>, \<open>e_seal\<close> and \<open>e_open\<close> are crypto/sha256 and AES-GCM (key, nonce, text) of crypto/cipher, and
  \<open>e_yaml\<close> is \<^verbatim>\<open>yaml.Marshal\<close> of goccy/go-yaml on a value written as a JSON tree (or its error's text).
  \<open>e_xrayRunning\<close> tells whether there is an Xray process, \<open>e_xrayApi\<close> is a call of its gRPC API
  (internal/xray/api.go) with its arguments, and \<open>e_nodePush\<close> the update of an inbound on its node.
  \<open>e_logFolder\<close> is \<^verbatim>\<open>config.GetLogFolder()\<close>, \<open>e_panelGuid\<close> the random default of the setting
  \<^verbatim>\<open>panelGuid\<close>, and \<open>e_coreAccepts\<close> whether the configuration loader of the running version of Xray
  accepts an outbound.
\<close>

text \<open>What the Reality scanner (internal/web/service/server.go) reports about one target.\<close>

record scan_result =
  sr_host :: string
  sr_port :: int
  sr_target :: string
  sr_feasible :: bool
  sr_successes :: int
  sr_rounds :: int

text \<open>The speeds of a line in the traffic snapshot (line\_traffic\_snapshot.go).\<close>

record line_speed =
  v_inUp :: int
  v_inDown :: int
  v_outUp :: int
  v_outDown :: int

record env =
  e_clock :: "nat \<Rightarrow> int"
  e_clockMs :: "nat \<Rightarrow> int"
  e_fault :: "nat \<Rightarrow> string option"
  e_uuid :: "nat \<Rightarrow> string"
  e_uuidOk :: "string \<Rightarrow> bool"
  e_rand :: "nat \<Rightarrow> (nat \<Rightarrow> nat) option"
  e_x25519 :: "nat \<Rightarrow> string + nat list \<times> nat list"
  e_mapOrder :: "nat \<Rightarrow> string list \<Rightarrow> string list"
  e_goos :: string
  e_fsFault :: "nat \<Rightarrow> string option"
  e_fsTorn :: "nat \<Rightarrow> nat option"
  e_cmd :: "nat \<Rightarrow> string list \<Rightarrow> string \<times> gerr option"
  e_dial :: "nat \<Rightarrow> string \<Rightarrow> gerr option"
  e_template :: string
  e_basePath :: string
  e_scan :: "nat \<Rightarrow> gerr + scan_result list"
  e_freePort :: "nat \<Rightarrow> string + int"
  e_realityProbe :: "nat \<Rightarrow> string omap \<Rightarrow> gerr option"
  e_lookupIP :: "nat \<Rightarrow> string \<Rightarrow> string + (bool \<times> string) list"
  e_localIPv4 :: "nat \<Rightarrow> string + string list"
  e_lookPath :: "nat \<Rightarrow> string \<Rightarrow> bool"
  e_certFiles :: "nat \<Rightarrow> string \<Rightarrow> string \<Rightarrow> string \<Rightarrow> gerr option"
  e_outboundTest :: "nat \<Rightarrow> string \<Rightarrow> gerr + int"
  e_speed :: "nat \<Rightarrow> int \<Rightarrow> line_speed"
  e_secret :: string
  e_sha256 :: "nat list \<Rightarrow> nat list"
  e_seal :: "nat list \<Rightarrow> nat list \<Rightarrow> nat list \<Rightarrow> nat list"
  e_open :: "nat list \<Rightarrow> nat list \<Rightarrow> nat list \<Rightarrow> string + nat list"
  e_yaml :: "json \<Rightarrow> string + string"
  e_xrayRunning :: "nat \<Rightarrow> bool"
  e_xrayApi :: "nat \<Rightarrow> string list \<Rightarrow> gerr option"
  e_nodePush :: "nat \<Rightarrow> inbound \<Rightarrow> inbound \<Rightarrow> gerr option"
  e_logFolder :: string
  e_panelGuid :: string
  e_coreAccepts :: "nat \<Rightarrow> json \<Rightarrow> bool"

record world =
  w_db :: db
  w_fs :: "string \<Rightarrow> string option"
  w_env :: env
  w_tick :: nat

type_synonym 'a W = "(world, 'a) M"

definition askM :: "(env \<Rightarrow> nat \<Rightarrow> 'a) \<Rightarrow> 'a W" where
  "askM f = (\<lambda>w. (Inr (f (w_env w) (w_tick w)), w\<lparr>w_tick := Suc (w_tick w)\<rparr>))"

definition time_now :: "int W" where
  "time_now = askM e_clock"

definition new_uuid :: "string W" where
  "new_uuid = askM e_uuid"

text \<open>\<^verbatim>\<open>rand.Read\<close> of \<open>n\<close> bytes.\<close>

definition rand_bytes :: "nat \<Rightarrow> nat list option W" where
  "rand_bytes n =
     askM (\<lambda>e t. map_option (\<lambda>f. List.map (\<lambda>i. f i mod 256) [0..<n]) (e_rand e t))"

text \<open>The keys of a map in the order of one \<^verbatim>\<open>range\<close> over it: some permutation of them.\<close>

definition range_keys :: "'v omap \<Rightarrow> string list W" where
  "range_keys m =
     askM (\<lambda>e t. let ks = List.map fst m; ord = e_mapOrder e t ks in if sort ord = sort ks then ord else ks)"

text \<open>One database statement: it may fail, and then the database is as before.\<close>

definition dbM :: "(db \<Rightarrow> 'a res \<times> db) \<Rightarrow> 'a W" where
  "dbM f = (\<lambda>w.
     let w' = w\<lparr>w_tick := Suc (w_tick w)\<rparr> in
     case e_fault (w_env w) (w_tick w) of
       Some m \<Rightarrow> (Inl (DbError m), w')
     | None \<Rightarrow>
        (case f (w_db w) of
           (Inl e, d) \<Rightarrow> (Inl e, w')
         | (Inr x, d) \<Rightarrow> (Inr x, w'\<lparr>w_db := d\<rparr>)))"

definition db_get :: "(db \<Rightarrow> 'a option) \<Rightarrow> 'a W" where
  "db_get f = dbM (\<lambda>d. (case f d of None \<Rightarrow> Inl RecordNotFound | Some x \<Rightarrow> Inr x, d))"

definition db_query :: "(db \<Rightarrow> 'a) \<Rightarrow> 'a W" where
  "db_query f = dbM (\<lambda>d. (Inr (f d), d))"

definition db_exec :: "(db \<Rightarrow> db) \<Rightarrow> unit W" where
  "db_exec f = dbM (\<lambda>d. (Inr (), f d))"

text \<open>
  \<^verbatim>\<open>db.Transaction(func(tx) error {...})\<close>: begin, the body, commit; an error of any of them leaves
  the database as it was at the start.  Files and the counter are not rolled back.
\<close>

definition transactionM :: "'a W \<Rightarrow> 'a W" where
  "transactionM m = (\<lambda>w.
     case thenM (db_query (\<lambda>_. ())) (bindM m (\<lambda>x. thenM (db_query (\<lambda>_. ())) (retM x))) w of
       (Inl e, w') \<Rightarrow> (Inl e, w'\<lparr>w_db := w_db w\<rparr>)
     | (Inr x, w') \<Rightarrow> (Inr x, w'))"

section \<open>Tables\<close>

text \<open>Rows in strictly increasing primary-key order, every key issued by the counter.\<close>

definition ids_ok :: "('r \<Rightarrow> int) \<Rightarrow> int \<Rightarrow> 'r list \<Rightarrow> bool" where
  "ids_ok rid nx rows \<longleftrightarrow>
     sorted_wrt (<) (List.map rid rows) \<and> 0 < nx \<and> (\<forall>r \<in> set rows. 0 < rid r \<and> rid r < nx)"

definition update_where :: "('r \<Rightarrow> bool) \<Rightarrow> ('r \<Rightarrow> 'r) \<Rightarrow> 'r list \<Rightarrow> 'r list" where
  "update_where P f rows = List.map (\<lambda>r. if P r then f r else r) rows"

definition delete_where :: "('r \<Rightarrow> bool) \<Rightarrow> 'r list \<Rightarrow> 'r list" where
  "delete_where P rows = filter (\<lambda>r. \<not> P r) rows"

lemma delete_where_sub: "set (delete_where P rows) \<subseteq> set rows"
  by (auto simp: delete_where_def)

lemma in_delete_where [simp]: "r \<in> set (delete_where P rows) \<longleftrightarrow> r \<in> set rows \<and> \<not> P r"
  by (auto simp: delete_where_def)

lemma in_update_where:
  "r \<in> set (update_where P f rows) \<longleftrightarrow>
     (\<exists>q \<in> set rows. if P q then r = f q else r = q)"
  by (auto simp: update_where_def image_iff)

lemma map_update_where:
  "(\<And>r. g (f r) = g r) \<Longrightarrow> List.map g (update_where P f rows) = List.map g rows"
  by (auto simp: update_where_def)

lemma find_update_where:
  "(\<And>r. Q (f r) = Q r) \<Longrightarrow>
     find Q (update_where P f rows) = map_option (\<lambda>r. if P r then f r else r) (find Q rows)"
proof -
  assume "\<And>r. Q (f r) = Q r"
  then have "(\<lambda>r. Q (if P r then f r else r)) = Q" by auto
  then show ?thesis by (simp add: update_where_def find_map_eq)
qed

lemma find_delete_where_none: "(\<And>r. Q r \<Longrightarrow> P r) \<Longrightarrow> find Q (delete_where P rows) = None"
  by (auto simp: find_None_iff)

lemma find_delete_where_other: "(\<And>r. Q r \<Longrightarrow> \<not> P r) \<Longrightarrow> find Q (delete_where P rows) = find Q rows"
  by (induction rows) (auto simp: delete_where_def)

lemma delete_update_where:
  "(\<And>r. P r \<Longrightarrow> Q r) \<Longrightarrow> (\<And>r. P r \<Longrightarrow> Q (f r)) \<Longrightarrow>
     delete_where Q (update_where P f rows) = delete_where Q rows"
  by (induction rows) (auto simp: delete_where_def update_where_def)

text \<open>
  A table of rows with a primary key: the contract between the tables and the handlers, which find
  rows by key, append them with a fresh key, change and delete them.
\<close>

locale row_table =
  fixes rid :: "'r \<Rightarrow> int"
    and set_id :: "int \<Rightarrow> 'r \<Rightarrow> 'r"
  assumes rid_set_id [simp]: "rid (set_id i r) = i"
begin

lemma ids_ok_insert:
  "ids_ok rid nx rows \<Longrightarrow> ids_ok rid (nx + 1) (rows @ [set_id nx r])"
  by (auto simp: ids_ok_def sorted_wrt_append)

lemma ids_ok_update:
  "ids_ok rid nx rows \<Longrightarrow> (\<And>r. rid (f r) = rid r) \<Longrightarrow> ids_ok rid nx (update_where P f rows)"
  by (auto simp: ids_ok_def map_update_where in_update_where split: if_splits)

lemma ids_ok_delete: "ids_ok rid nx rows \<Longrightarrow> ids_ok rid nx (delete_where P rows)"
proof -
  assume "ids_ok rid nx rows"
  moreover have "sorted_wrt (<) (List.map rid rows) \<Longrightarrow> sorted_wrt (<) (List.map rid (delete_where P rows))"
    by (induction rows) (auto simp: delete_where_def)
  ultimately show ?thesis by (auto simp: ids_ok_def)
qed

lemma ids_unique:
  assumes "ids_ok rid nx rows" "r \<in> set rows" "q \<in> set rows" "rid r = rid q"
  shows "r = q"
proof -
  have "distinct (List.map rid rows)"
    using assms(1) by (auto simp: ids_ok_def strict_sorted_iff)
  with assms show ?thesis by (auto simp: distinct_map inj_on_def)
qed

lemma find_by_id: "ids_ok rid nx rows \<Longrightarrow> r \<in> set rows \<Longrightarrow> find (\<lambda>q. rid q = rid r) rows = Some r"
proof -
  assume a: "ids_ok rid nx rows" "r \<in> set rows"
  then obtain q where q: "find (\<lambda>q. rid q = rid r) rows = Some q"
    by (cases "find (\<lambda>q. rid q = rid r) rows") (auto simp: find_None_iff)
  then have "rid q = rid r" "q \<in> set rows" by (auto dest: find_SomeD)
  with a q show ?thesis using ids_unique by blast
qed

lemma fresh_id: "ids_ok rid nx rows \<Longrightarrow> find (\<lambda>q. rid q = nx) rows = None"
  by (auto simp: ids_ok_def find_None_iff)

lemma find_inserted:
  "ids_ok rid nx rows \<Longrightarrow> find (\<lambda>q. rid q = nx) (rows @ [set_id nx r]) = Some (set_id nx r)"
  by (simp add: find_append fresh_id)

end

interpretation lines_tbl: row_table l_id "\<lambda>i r. r\<lparr>l_id := i\<rparr>"
  by unfold_locales simp
interpretation outbounds_tbl: row_table o_id "\<lambda>i r. r\<lparr>o_id := i\<rparr>"
  by unfold_locales simp
interpretation logs_tbl: row_table g_id "\<lambda>i r. r\<lparr>g_id := i\<rparr>"
  by unfold_locales simp
interpretation checks_tbl: row_table k_id "\<lambda>i r. r\<lparr>k_id := i\<rparr>"
  by unfold_locales simp
interpretation subs_tbl: row_table s_id "\<lambda>i r. r\<lparr>s_id := i\<rparr>"
  by unfold_locales simp
interpretation inbounds_tbl: row_table i_id "\<lambda>i r. r\<lparr>i_id := i\<rparr>"
  by unfold_locales simp
interpretation clients_tbl: row_table c_id "\<lambda>i r. r\<lparr>c_id := i\<rparr>"
  by unfold_locales simp
interpretation traffics_tbl: row_table t_id "\<lambda>i r. r\<lparr>t_id := i\<rparr>"
  by unfold_locales simp
interpretation settings_tbl: row_table st_id "\<lambda>i r. r\<lparr>st_id := i\<rparr>"
  by unfold_locales simp

section \<open>What the statements leave alone\<close>

lemma askM_apply: "askM f w = (Inr (f (w_env w) (w_tick w)), w\<lparr>w_tick := Suc (w_tick w)\<rparr>)"
  by (simp add: askM_def)

lemma time_now_apply:
  "time_now w = (Inr (e_clock (w_env w) (w_tick w)), w\<lparr>w_tick := Suc (w_tick w)\<rparr>)"
  by (simp add: time_now_def askM_def)

lemma dbM_cases:
  obtains m where "dbM f w = (Inl (DbError m), w\<lparr>w_tick := Suc (w_tick w)\<rparr>)"
  | e d where "f (w_db w) = (Inl e, d)" "dbM f w = (Inl e, w\<lparr>w_tick := Suc (w_tick w)\<rparr>)"
  | x d where "f (w_db w) = (Inr x, d)" "dbM f w = (Inr x, w\<lparr>w_tick := Suc (w_tick w), w_db := d\<rparr>)"
  by (cases "e_fault (w_env w) (w_tick w)"; cases "f (w_db w)"; cases "fst (f (w_db w))")
     (auto simp: dbM_def Let_def)

text \<open>Statements that only read, and those whose effect on the database is a given relation.\<close>

definition db_rel :: "(db \<Rightarrow> db \<Rightarrow> bool) \<Rightarrow> world \<Rightarrow> world \<Rightarrow> bool" where
  "db_rel R w w' \<longleftrightarrow> R (w_db w) (w_db w') \<and> w_env w' = w_env w"

lemma preorder_db_rel [keeps]: "preorderR R \<Longrightarrow> preorderR (db_rel R)"
  by (auto simp: preorderR_def reflp_def transp_def db_rel_def)

lemma keeps_askM [keeps]: "preorderR R \<Longrightarrow> keepsM (db_rel R) (askM f)"
  by (simp add: keepsM_def askM_def db_rel_def preorderR_refl)

lemma keeps_time_now [keeps]: "preorderR R \<Longrightarrow> keepsM (db_rel R) time_now"
  unfolding time_now_def by (rule keeps_askM)

lemma keeps_new_uuid [keeps]: "preorderR R \<Longrightarrow> keepsM (db_rel R) new_uuid"
  unfolding new_uuid_def by (rule keeps_askM)

lemma keeps_rand_bytes [keeps]: "preorderR R \<Longrightarrow> keepsM (db_rel R) (rand_bytes n)"
  unfolding rand_bytes_def by (rule keeps_askM)

lemma keeps_range_keys [keeps]: "preorderR R \<Longrightarrow> keepsM (db_rel R) (range_keys m)"
  unfolding range_keys_def by (rule keeps_askM)

lemma keeps_dbM:
  "preorderR R \<Longrightarrow> (\<And>d x d'. f d = (Inr x, d') \<Longrightarrow> R d d') \<Longrightarrow> keepsM (db_rel R) (dbM f)"
  by (auto simp: keepsM_def dbM_def Let_def db_rel_def preorderR_refl split: option.splits prod.splits sum.splits)

lemma keeps_db_get [keeps]: "preorderR R \<Longrightarrow> keepsM (db_rel R) (db_get f)"
  unfolding db_get_def by (rule keeps_dbM) (auto simp: preorderR_refl split: option.splits)

lemma keeps_db_query [keeps]: "preorderR R \<Longrightarrow> keepsM (db_rel R) (db_query f)"
  unfolding db_query_def by (rule keeps_dbM) (auto simp: preorderR_refl)

lemma keeps_db_exec: "preorderR R \<Longrightarrow> (\<And>d. R d (f d)) \<Longrightarrow> keepsM (db_rel R) (db_exec f)"
  unfolding db_exec_def by (rule keeps_dbM) auto

lemma keeps_transaction [keeps]:
  assumes R: "preorderR R" and m: "keepsM (db_rel R) m"
  shows "keepsM (db_rel R) (transactionM m)"
proof -
  let ?n = "thenM (db_query (\<lambda>_. ())) (bindM m (\<lambda>x. thenM (db_query (\<lambda>_. ())) (retM x)))"
  have "keepsM (db_rel R) ?n" by (intro keeps R m)
  then show ?thesis
    using preorderR_refl [OF R]
    by (auto simp: keepsM_def transactionM_def db_rel_def split: prod.splits sum.splits)
       (metis snd_conv)+
qed

text \<open>All or nothing, for every pattern of failures.\<close>

lemma transaction_rollback: "transactionM m w = (Inl e, w') \<Longrightarrow> w_db w' = w_db w"
  by (auto simp: transactionM_def split: prod.splits sum.splits)

text \<open>Statements of the database touch no file.\<close>

lemma keeps_fs_askM [keeps]: "keepsM (sameR w_fs) (askM f)"
  by (simp add: keepsM_def askM_def sameR_def)

lemma keeps_fs_dbM [keeps]: "keepsM (sameR w_fs) (dbM f)"
  by (auto simp: keepsM_def dbM_def Let_def sameR_def split: option.splits prod.splits sum.splits)

lemma keeps_fs_db_get [keeps]: "keepsM (sameR w_fs) (db_get f)"
  unfolding db_get_def by (rule keeps_fs_dbM)

lemma keeps_fs_db_query [keeps]: "keepsM (sameR w_fs) (db_query f)"
  unfolding db_query_def by (rule keeps_fs_dbM)

lemma keeps_fs_db_exec [keeps]: "keepsM (sameR w_fs) (db_exec f)"
  unfolding db_exec_def by (rule keeps_fs_dbM)

end
