(* ===== verification/PanelTexts.thy ===== *)
theory PanelTexts
  imports GoJson
begin

text \<open>
  The Chinese messages of internal/web/service/line.go and line_validity.go, which the handlers
  store in logs, check items and statuses: their code points, encoded in UTF-8 as in the source.
\<close>

definition runes :: "nat list \<Rightarrow> string" where
  "runes cps = concat (List.map utf8_encode cps)"

text \<open>CreateLine: log.\<close>

definition txt_plan_created :: string where
  "txt_plan_created = runes [0x5DF2, 0x751F, 0x6210, 0x90E8, 0x7F72, 0x8BA1, 0x5212, 0xFF0C,
     0x7B49, 0x5F85, 0x63A5, 0x5165, 0x771F, 0x5B9E, 0x6267, 0x884C, 0x5668]"

text \<open>UpdateLine: log.\<close>

definition txt_plan_updated :: string where
  "txt_plan_updated = runes [0x5DF2, 0x66F4, 0x65B0, 0x90E8, 0x7F72, 0x8BA1, 0x5212, 0xFF0C,
     0x7B49, 0x5F85, 0x63A5, 0x5165, 0x771F, 0x5B9E, 0x6267, 0x884C, 0x5668]"

text \<open>ApplyLine: log.\<close>

definition txt_apply_start :: string where
  "txt_apply_start = runes [0x5F00, 0x59CB, 0x6267, 0x884C, 0x4FDD, 0x5B58, 0x5E76, 0x5E94,
     0x7528]"

text \<open>ApplyLine: its detail.\<close>

definition txt_apply_start_detail :: string where
  "txt_apply_start_detail = runes [0x6267, 0x884C, 0x5668, 0x9AA8, 0x67B6, 0x5DF2, 0x63A5,
     0x6536, 0x7EBF, 0x8DEF, 0x90E8, 0x7F72, 0x8BF7, 0x6C42]"

text \<open>ApplyLine: log.\<close>

definition txt_validated :: string where
  "txt_validated = runes [0x53C2, 0x6570, 0x6821, 0x9A8C, 0x901A, 0x8FC7]"

text \<open>ApplyLine: log.\<close>

definition txt_reality_ok :: string where
  "txt_reality_ok = ''Reality '' @ runes [0x771F, 0x5B9E, 0x8FDE, 0x63A5, 0x9884, 0x68C0,
     0x901A, 0x8FC7]"

text \<open>ApplyLine: log.\<close>

definition txt_xray_draft :: string where
  "txt_xray_draft = runes [0x5DF2, 0x751F, 0x6210] @ '' Xray '' @ runes [0x5165, 0x7AD9, 0x548C,
     0x51FA, 0x7AD9, 0x8349, 0x6848]"

text \<open>ApplyLine: its detail.\<close>

definition txt_xray_draft_detail :: string where
  "txt_xray_draft_detail = runes [0x4E0B, 0x4E00, 0x9636, 0x6BB5, 0x5199, 0x5165] @
     '' 3x-ui/Xray '' @ runes [0x914D, 0x7F6E, 0x5E76, 0x91CD, 0x542F] @ '' Xray''"

text \<open>ApplyLine: log.\<close>

definition txt_xray_written :: string where
  "txt_xray_written = runes [0x5DF2, 0x5199, 0x5165] @ '' Xray '' @ runes [0x5165, 0x7AD9,
     0x548C, 0x51FA, 0x7AD9, 0x914D, 0x7F6E]"

text \<open>ApplyLine: log.\<close>

definition txt_nginx_draft :: string where
  "txt_nginx_draft = runes [0x5DF2, 0x751F, 0x6210] @ '' Nginx '' @ runes [0x8349, 0x6848]"

text \<open>ApplyLine: its detail.\<close>

definition txt_nginx_draft_detail :: string where
  "txt_nginx_draft_detail = runes [0x4E0B, 0x4E00, 0x9636, 0x6BB5, 0x5199, 0x5165] @ '' Nginx ''
     @ runes [0x7AD9, 0x70B9, 0x914D, 0x7F6E, 0x5E76] @ '' reload''"

text \<open>ApplyLine: log.\<close>

definition txt_nginx_done :: string where
  "txt_nginx_done = ''Nginx '' @ runes [0x5E94, 0x7528, 0x6B65, 0x9AA4, 0x5B8C, 0x6210]"

text \<open>DeleteLines: the name of an unknown line.\<close>

definition txt_line :: string where
  "txt_line = runes [0x7EBF, 0x8DEF]"

text \<open>checkLine: item name.\<close>

definition txt_entry_addr :: string where
  "txt_entry_addr = runes [0x5165, 0x53E3, 0x5730, 0x5740]"

text \<open>checkLine.\<close>

definition txt_entry_missing :: string where
  "txt_entry_missing = runes [0x5165, 0x53E3, 0x57DF, 0x540D] @ ''/IP '' @ runes [0x6216,
     0x7AEF, 0x53E3, 0x672A, 0x586B, 0x5199]"

text \<open>checkLine: item name.\<close>

definition txt_outlet :: string where
  "txt_outlet = runes [0x4F4F, 0x5B85, 0x51FA, 0x53E3]"

text \<open>checkLine.\<close>

definition txt_outlet_missing :: string where
  "txt_outlet_missing = runes [0x4F4F, 0x5B85, 0x51FA, 0x53E3, 0x5730, 0x5740, 0x6216, 0x7AEF,
     0x53E3, 0x672A, 0x586B, 0x5199]"

text \<open>checkLine: item name.\<close>

definition txt_outlet_conn :: string where
  "txt_outlet_conn = runes [0x4F4F, 0x5B85, 0x51FA, 0x53E3, 0x8FDE, 0x901A, 0x6027]"

text \<open>checkLine.\<close>

definition txt_tcp_ok :: string where
  "txt_tcp_ok = ''TCP '' @ runes [0x7AEF, 0x53E3, 0x53EF, 0x8FDE, 0x63A5]"

text \<open>checkLine: item name.\<close>

definition txt_executor :: string where
  "txt_executor = runes [0x6267, 0x884C, 0x5668]"

text \<open>checkLine.\<close>

definition txt_trojan_missing :: string where
  "txt_trojan_missing = ''Trojan '' @ runes [0x76F4, 0x8FDE, 0x6267, 0x884C, 0x5668, 0x8FD8,
     0x6CA1, 0x63A5, 0x5165]"

text \<open>checkLine: item name.\<close>

definition txt_xray_inbound :: string where
  "txt_xray_inbound = ''Xray '' @ runes [0x5165, 0x7AD9]"

text \<open>checkLine.\<close>

definition txt_no_inbound :: string where
  "txt_no_inbound = runes [0x8FD8, 0x6CA1, 0x6709, 0x751F, 0x6210] @ '' Xray '' @ runes [0x5165,
     0x7AD9, 0xFF0C, 0x8BF7, 0x5148, 0x4FDD, 0x5B58, 0x5E76, 0x5E94, 0x7528]"

text \<open>checkLine.\<close>

definition txt_inbound_disabled :: string where
  "txt_inbound_disabled = ''Xray '' @ runes [0x5165, 0x7AD9, 0x5DF2, 0x7981, 0x7528]"

text \<open>checkLine: item name.\<close>

definition txt_xray_running :: string where
  "txt_xray_running = ''Xray '' @ runes [0x8FD0, 0x884C, 0x72B6, 0x6001]"

text \<open>checkLine.\<close>

definition txt_ss_listening :: string where
  "txt_ss_listening = ''Shadowsocks '' @ runes [0x5165, 0x7AD9, 0x7AEF, 0x53E3, 0x6B63, 0x5728,
     0x76D1, 0x542C]"

text \<open>checkLine: item name.\<close>

definition txt_xray_route :: string where
  "txt_xray_route = ''Xray '' @ runes [0x8DEF, 0x7531]"

text \<open>checkLine.\<close>

definition txt_route_missing :: string where
  "txt_route_missing = runes [0x7F3A, 0x5C11, 0x7EBF, 0x8DEF, 0x51FA, 0x7AD9, 0x6216, 0x5165,
     0x7AD9, 0x5230, 0x51FA, 0x7AD9, 0x7684, 0x8DEF, 0x7531, 0x89C4, 0x5219]"

text \<open>checkLine: item name.\<close>

definition txt_reality_keys :: string where
  "txt_reality_keys = ''Reality '' @ runes [0x5BC6, 0x94A5]"

text \<open>checkLine.\<close>

definition txt_reality_keys_missing :: string where
  "txt_reality_keys_missing = runes [0x7F3A, 0x5C11] @ '' Reality public/private key'' @ runes
     [0xFF0C, 0x8BF7, 0x91CD, 0x65B0, 0x4FDD, 0x5B58, 0x5E76, 0x5E94, 0x7528]"

text \<open>checkLine.\<close>

definition txt_reality_keys_ok :: string where
  "txt_reality_keys_ok = runes [0x5DF2, 0x751F, 0x6210] @ '' public/private key''"

text \<open>checkLine: item name.\<close>

definition txt_reality_params :: string where
  "txt_reality_params = ''Reality '' @ runes [0x53C2, 0x6570]"

text \<open>checkLine.\<close>

definition txt_reality_params_missing :: string where
  "txt_reality_params_missing = runes [0x7F3A, 0x5C11] @ '' SNI '' @ runes [0x6216] @
     '' Short ID''"

text \<open>checkLine: item name.\<close>

definition txt_nginx_config :: string where
  "txt_nginx_config = ''Nginx '' @ runes [0x914D, 0x7F6E]"

text \<open>checkLine.\<close>

definition txt_nginx_skipped :: string where
  "txt_nginx_skipped = runes [0x672C, 0x673A, 0x5F00, 0x53D1, 0x73AF, 0x5883, 0x8DF3, 0x8FC7,
     0x6587, 0x4EF6, 0x68C0, 0x67E5]"

text \<open>checkLine.\<close>

definition txt_nginx_draft_only :: string where
  "txt_nginx_draft_only = runes [0x672A, 0x542F, 0x7528, 0x771F, 0x5B9E, 0x5199, 0x5165, 0xFF0C,
     0x53EA, 0x4F7F, 0x7528, 0x914D, 0x7F6E, 0x8349, 0x6848]"

text \<open>checkLine: log.\<close>

definition txt_check_done :: string where
  "txt_check_done = runes [0x7EBF, 0x8DEF, 0x68C0, 0x6D4B, 0x5B8C, 0x6210]"

text \<open>checkLine: log detail.\<close>

definition txt_pass :: string where
  "txt_pass = runes [0x901A, 0x8FC7] @ '' ''"

text \<open>checkLine: log detail.\<close>

definition txt_warn :: string where
  "txt_warn = runes [0xFF0C, 0x8B66, 0x544A] @ '' ''"

text \<open>checkLine: log detail.\<close>

definition txt_fail :: string where
  "txt_fail = runes [0xFF0C, 0x5931, 0x8D25] @ '' ''"

text \<open>checkLineInboundListener.\<close>

definition txt_ss_no_port :: string where
  "txt_ss_no_port = ''Shadowsocks '' @ runes [0x5165, 0x7AD9, 0x7AEF, 0x53E3, 0x672A, 0x914D,
     0x7F6E]"

text \<open>checkLineInboundListener.\<close>

definition txt_ss_not_listening :: string where
  "txt_ss_not_listening = ''Shadowsocks '' @ runes [0x5165, 0x7AD9, 0x672A, 0x76D1, 0x542C] @
     '' ''"

text \<open>CheckLineWithInboundLatency: item name.\<close>

definition txt_out_latency :: string where
  "txt_out_latency = runes [0x51FA, 0x7AD9, 0x5EF6, 0x8FDF]"

text \<open>CheckLineWithInboundLatency: log.\<close>

definition txt_latency_done :: string where
  "txt_latency_done = runes [0x7EBF, 0x8DEF, 0x5EF6, 0x8FDF, 0x68C0, 0x6D4B, 0x5B8C, 0x6210]"

text \<open>CheckLineWithInboundLatency: log detail.\<close>

definition txt_in_ms :: string where
  "txt_in_ms = runes [0x5165, 0x7AD9] @ '' ''"

text \<open>CheckLineWithInboundLatency: log detail.\<close>

definition txt_ms_out :: string where
  "txt_ms_out = '' ms'' @ runes [0xFF0C, 0x51FA, 0x7AD9] @ '' ''"

text \<open>lineTypeName.\<close>

definition txt_cf_name :: string where
  "txt_cf_name = ''Cloudflare '' @ runes [0x4E3B, 0x7EBF, 0x8DEF]"

text \<open>lineTypeName.\<close>

definition txt_reality_name :: string where
  "txt_reality_name = ''Reality '' @ runes [0x76F4, 0x8FDE]"

text \<open>lineTypeName.\<close>

definition txt_ss_name :: string where
  "txt_ss_name = ''Shadowsocks '' @ runes [0x76F4, 0x8FDE]"

text \<open>lineTypeName.\<close>

definition txt_trojan_name :: string where
  "txt_trojan_name = ''Trojan '' @ runes [0x76F4, 0x8FDE]"

text \<open>lineTypeName.\<close>

definition txt_new_line :: string where
  "txt_new_line = runes [0x65B0, 0x7EBF, 0x8DEF]"

text \<open>buildLineChainText.\<close>

definition txt_chain_cf :: string where
  "txt_chain_cf = runes [0x7528, 0x6237] @ '' -> Cloudflare -> Nginx -> Xray '' @ runes [0x672C,
     0x5730, 0x5165, 0x7AD9] @ '' -> ''"

text \<open>buildLineChainText.\<close>

definition txt_chain_bunny :: string where
  "txt_chain_bunny = runes [0x7528, 0x6237] @ '' -> Bunny CDN -> Nginx -> Xray '' @ runes
     [0x672C, 0x5730, 0x5165, 0x7AD9] @ '' -> ''"

text \<open>buildLineChainText.\<close>

definition txt_chain_reality :: string where
  "txt_chain_reality = runes [0x7528, 0x6237] @ '' -> VPS Reality -> ''"

text \<open>buildLineChainText.\<close>

definition txt_chain_ss :: string where
  "txt_chain_ss = runes [0x7528, 0x6237] @ '' -> VPS Shadowsocks -> ''"

text \<open>buildLineChainText.\<close>

definition txt_chain_trojan :: string where
  "txt_chain_trojan = runes [0x7528, 0x6237] @ '' -> VPS Trojan TLS -> ''"

text \<open>buildLineChainText.\<close>

definition txt_chain_other :: string where
  "txt_chain_other = runes [0x7528, 0x6237] @ '' -> VPS -> ''"

text \<open>buildLineChainText.\<close>

definition txt_chain_end :: string where
  "txt_chain_end = '' '' @ runes [0x4F4F, 0x5B85, 0x51FA, 0x53E3]"

text \<open>buildLineApplyPlan.\<close>

definition txt_ck_port :: string where
  "txt_ck_port = runes [0x68C0, 0x67E5, 0x5165, 0x53E3, 0x7AEF, 0x53E3, 0x662F, 0x5426, 0x76D1,
     0x542C]"

text \<open>buildLineApplyPlan.\<close>

definition txt_ck_outlet :: string where
  "txt_ck_outlet = runes [0x68C0, 0x67E5, 0x4F4F, 0x5B85, 0x51FA, 0x53E3, 0x4EE3, 0x7406,
     0x662F, 0x5426, 0x53EF, 0x8FDE, 0x63A5]"

text \<open>buildLineApplyPlan.\<close>

definition txt_ck_xray :: string where
  "txt_ck_xray = runes [0x68C0, 0x67E5] @ '' Xray '' @ runes [0x914D, 0x7F6E, 0x8BED, 0x6CD5]"

text \<open>buildLineApplyPlan.\<close>

definition txt_ck_chain :: string where
  "txt_ck_chain = runes [0x68C0, 0x67E5, 0x6574, 0x6761, 0x94FE, 0x8DEF, 0x662F, 0x5426, 0x80FD,
     0x8BBF, 0x95EE, 0x5916, 0x7F51]"

text \<open>buildLineApplyPlan.\<close>

definition txt_ck_cf_origin :: string where
  "txt_ck_cf_origin = runes [0x68C0, 0x67E5] @ '' Cloudflare '' @ runes [0x56DE, 0x6E90, 0x57DF,
     0x540D]"

text \<open>buildLineApplyPlan.\<close>

definition txt_ck_bunny_origin :: string where
  "txt_ck_bunny_origin = runes [0x68C0, 0x67E5] @ '' Bunny '' @ runes [0x6E90, 0x7AD9, 0x57DF,
     0x540D, 0x548C, 0x8BC1, 0x4E66]"

text \<open>buildLineApplyPlan.\<close>

definition txt_ck_nginx :: string where
  "txt_ck_nginx = runes [0x68C0, 0x67E5] @ '' Nginx '' @ runes [0x914D, 0x7F6E, 0x8BED, 0x6CD5]"

text \<open>buildLineApplyPlan.\<close>

definition txt_outlet_type :: string where
  "txt_outlet_type = runes [0x4F4F, 0x5B85, 0x51FA, 0x53E3, 0x7C7B, 0x578B] @ '': ''"

text \<open>buildLineSummary.\<close>

definition txt_sum_entry :: string where
  "txt_sum_entry = runes [0x5165, 0x53E3] @ '': ''"

text \<open>buildLineSummary.\<close>

definition txt_sum_chain :: string where
  "txt_sum_chain = runes [0x94FE, 0x8DEF] @ '': ''"

text \<open>buildLineSummary.\<close>

definition txt_sum_outlet :: string where
  "txt_sum_outlet = runes [0x4F4F, 0x5B85, 0x51FA, 0x53E3] @ '': ''"

text \<open>buildLineSummary.\<close>

definition txt_sum_ws :: string where
  "txt_sum_ws = ''WS '' @ runes [0x8DEF, 0x5F84] @ '': ''"

text \<open>buildLineSummary.\<close>

definition txt_sum_port :: string where
  "txt_sum_port = ''Xray '' @ runes [0x672C, 0x5730, 0x7AEF, 0x53E3] @ '': ''"

text \<open>formatHostPort.\<close>

definition txt_unset :: string where
  "txt_unset = runes [0x672A, 0x586B, 0x5199]"

text \<open>applyCloudflareNginxWithExecutor.\<close>

definition txt_nginx_off :: string where
  "txt_nginx_off = runes [0x771F, 0x5B9E, 0x5199, 0x5165, 0x672A, 0x542F, 0x7528, 0xFF1B] @
     ''Nginx '' @ runes [0x914D, 0x7F6E, 0x8DEF, 0x5F84, 0x9884, 0x8BBE, 0x4E3A] @ '' ''"

text \<open>applyCloudflareNginxWithExecutor.\<close>

definition txt_goos_a :: string where
  "txt_goos_a = runes [0x5F53, 0x524D, 0x7CFB, 0x7EDF, 0x662F] @ '' ''"

text \<open>applyCloudflareNginxWithExecutor.\<close>

definition txt_goos_b :: string where
  "txt_goos_b = runes [0xFF0C, 0x8DF3, 0x8FC7, 0x771F, 0x5B9E] @ '' Nginx '' @ runes [0x5199,
     0x5165, 0xFF1B, 0x670D, 0x52A1, 0x5668] @ '' Linux '' @ runes [0x73AF, 0x5883, 0x4F1A,
     0x6267, 0x884C]"

text \<open>applyNginxConfig.\<close>

definition txt_written_a :: string where
  "txt_written_a = runes [0x5DF2, 0x5199, 0x5165] @ '' ''"

text \<open>applyNginxConfig.\<close>

definition txt_written_b :: string where
  "txt_written_b = runes [0xFF0C, 0x5E76, 0x901A, 0x8FC7] @ '' nginx -t '' @ runes [0x540E] @
     '' reload'' @ runes [0xFF1B]"

text \<open>UpdateLineValidity: log.\<close>

definition txt_validity_extended :: string where
  "txt_validity_extended = runes [0x6709, 0x6548, 0x671F, 0x5DF2, 0x5EF6, 0x957F, 0xFF0C,
     0x8FD0, 0x884C, 0x914D, 0x7F6E, 0x4FDD, 0x6301, 0x4E0D, 0x53D8]"

text \<open>RenewLine: log.\<close>

definition txt_renewed :: string where
  "txt_renewed = runes [0x5DF2, 0x7EED, 0x671F, 0xFF0C, 0x7B49, 0x5F85, 0x4EBA, 0x5DE5, 0x91CD,
     0x65B0, 0x542F, 0x7528]"

text \<open>expireLine: last_error.\<close>

definition txt_expired_error :: string where
  "txt_expired_error = runes [0x7EBF, 0x8DEF, 0x6709, 0x6548, 0x671F, 0x5DF2, 0x7ED3, 0x675F,
     0xFF0C, 0x5DF2, 0x5F3A, 0x5236, 0x65AD, 0x5F00, 0x8FDE, 0x63A5]"

text \<open>expireLine: log.\<close>

definition txt_expired :: string where
  "txt_expired = runes [0x7EBF, 0x8DEF, 0x5DF2, 0x5230, 0x671F, 0x5E76, 0x5F3A, 0x5236, 0x65AD,
     0x5F00]"

text \<open>expireLine: its detail.\<close>

definition txt_expired_detail :: string where
  "txt_expired_detail = runes [0x5DF2, 0x79FB, 0x9664] @ '' Xray '' @ runes [0x5165, 0x7AD9,
     0x3001, 0x8DEF, 0x7531, 0x3001, 0x53D7, 0x7BA1, 0x7528, 0x6237, 0x548C] @ '' Nginx '' @
     runes [0x914D, 0x7F6E, 0xFF1B, 0x9700, 0x8981, 0x4EBA, 0x5DE5, 0x7EED, 0x671F, 0x5E76,
     0x91CD, 0x65B0, 0x542F, 0x7528]"

text \<open>recordLineExpiryFailure.\<close>

definition txt_cleanup_failed :: string where
  "txt_cleanup_failed = runes [0x7EBF, 0x8DEF, 0x5230, 0x671F, 0x6E05, 0x7406, 0x5F02, 0x5E38,
     0xFF1A]"

text \<open>recordLineExpiryFailure: log.\<close>

definition txt_disabled_first :: string where
  "txt_disabled_first = runes [0x7EBF, 0x8DEF, 0x5DF2, 0x5148, 0x7981, 0x7528, 0xFF0C, 0x6E05,
     0x7406, 0x5C06, 0x5728, 0x540E, 0x53F0, 0x91CD, 0x8BD5]"

end
