(* ===== verification/GoNet.thy ===== *)
theory GoNet
  imports GoStrings
begin

text \<open>
  The encodings and parsers of Go's standard library that line management calls:
  \<^verbatim>\<open>encoding/base64\<close> (standard with padding, and raw URL), \<^verbatim>\<open>encoding/hex\<close>, \<^verbatim>\<open>url.QueryEscape\<close>
  and \<^verbatim>\<open>url.Values.Encode\<close>, \<^verbatim>\<open>url.ParseRequestURI\<close> on a path, \<^verbatim>\<open>net.SplitHostPort\<close>,
  \<^verbatim>\<open>net.JoinHostPort\<close>, \<^verbatim>\<open>net.ParseIP\<close> and \<^verbatim>\<open>path.Clean\<close>.
\<close>

section \<open>Base64\<close>

definition b64_char :: "char \<Rightarrow> char \<Rightarrow> nat \<Rightarrow> char" where
  "b64_char c62 c63 n =
     (if n < 26 then char_of (65 + n)
      else if n < 52 then char_of (71 + n)
      else if n < 62 then char_of (n - 4)
      else if n = 62 then c62 else c63)"

definition b64_val :: "char \<Rightarrow> char \<Rightarrow> char \<Rightarrow> nat option" where
  "b64_val c62 c63 c =
     (let b = byte c in
      if 65 \<le> b \<and> b \<le> 90 then Some (b - 65)
      else if 97 \<le> b \<and> b \<le> 122 then Some (b - 71)
      else if 48 \<le> b \<and> b \<le> 57 then Some (b + 4)
      else if c = c62 then Some 62
      else if c = c63 then Some 63
      else None)"

abbreviation std_char :: "nat \<Rightarrow> char" where "std_char \<equiv> b64_char (CHR ''+'') (CHR ''/'')"
abbreviation std_val :: "char \<Rightarrow> nat option" where "std_val \<equiv> b64_val (CHR ''+'') (CHR ''/'')"
abbreviation url_val :: "char \<Rightarrow> nat option" where "url_val \<equiv> b64_val (CHR ''-'') (CHR ''_'')"

fun b64_encode :: "nat list \<Rightarrow> string" where
  "b64_encode [] = []"
| "b64_encode [a] = [std_char (a div 4), std_char (a mod 4 * 16), CHR ''='', CHR ''='']"
| "b64_encode [a, b] =
     [std_char (a div 4), std_char (a mod 4 * 16 + b div 16), std_char (b mod 16 * 4), CHR ''='']"
| "b64_encode (a # b # c # r) =
     std_char (a div 4) # std_char (a mod 4 * 16 + b div 16)
     # std_char (b mod 16 * 4 + c div 64) # std_char (c mod 64) # b64_encode r"

definition b64_clean :: "string \<Rightarrow> string" where
  "b64_clean s = filter (\<lambda>c. c \<noteq> CHR 0x0A \<and> c \<noteq> CHR 0x0D) s"

text \<open>The bytes of one group of sextets.\<close>

definition b64_quad :: "(char \<Rightarrow> nat option) \<Rightarrow> char \<Rightarrow> char \<Rightarrow> char \<Rightarrow> char \<Rightarrow> nat list option" where
  "b64_quad v a b c d =
     (case (v a, v b, v c, v d) of
        (Some x, Some y, Some z, Some u) \<Rightarrow>
           Some [x * 4 + y div 16, y mod 16 * 16 + z div 4, z mod 4 * 64 + u]
      | _ \<Rightarrow> None)"

definition b64_three :: "(char \<Rightarrow> nat option) \<Rightarrow> char \<Rightarrow> char \<Rightarrow> char \<Rightarrow> nat list option" where
  "b64_three v a b c =
     (case (v a, v b, v c) of
        (Some x, Some y, Some z) \<Rightarrow> Some [x * 4 + y div 16, y mod 16 * 16 + z div 4]
      | _ \<Rightarrow> None)"

definition b64_two :: "(char \<Rightarrow> nat option) \<Rightarrow> char \<Rightarrow> char \<Rightarrow> nat list option" where
  "b64_two v a b =
     (case (v a, v b) of (Some x, Some y) \<Rightarrow> Some [x * 4 + y div 16] | _ \<Rightarrow> None)"

text \<open>\<^verbatim>\<open>base64.StdEncoding.DecodeString\<close>; line breaks are skipped, padding only at the end.\<close>

fun b64_std_groups :: "string \<Rightarrow> nat list option" where
  "b64_std_groups [] = Some []"
| "b64_std_groups (a # b # c # d # r) =
     (if r = [] \<and> d = CHR ''='' then
        (if c = CHR ''='' then b64_two std_val a b else b64_three std_val a b c)
      else (case b64_quad std_val a b c d of
              None \<Rightarrow> None
            | Some xs \<Rightarrow> map_option (\<lambda>ys. xs @ ys) (b64_std_groups r)))"
| "b64_std_groups _ = None"

definition b64_std_decode :: "string \<Rightarrow> nat list option" where
  "b64_std_decode s = b64_std_groups (b64_clean s)"

text \<open>\<^verbatim>\<open>base64.RawURLEncoding.DecodeString\<close>: no padding.\<close>

fun b64_raw_groups :: "string \<Rightarrow> nat list option" where
  "b64_raw_groups [] = Some []"
| "b64_raw_groups [a] = None"
| "b64_raw_groups [a, b] = b64_two url_val a b"
| "b64_raw_groups [a, b, c] = b64_three url_val a b c"
| "b64_raw_groups (a # b # c # d # r) =
     (case b64_quad url_val a b c d of
        None \<Rightarrow> None
      | Some xs \<Rightarrow> map_option (\<lambda>ys. xs @ ys) (b64_raw_groups r))"

definition b64_rawurl_decode :: "string \<Rightarrow> nat list option" where
  "b64_rawurl_decode s = b64_raw_groups (b64_clean s)"

lemma std_char_code: "n < 64 \<Longrightarrow> byte (std_char n) =
   (if n < 26 then 65 + n else if n < 52 then 71 + n else if n < 62 then n - 4 else if n = 62 then 43 else 47)"
  by (simp add: b64_char_def)

lemma std_val_char [simp]: "n < 64 \<Longrightarrow> std_val (std_char n) = Some n"
proof -
  assume n: "n < 64"
  consider "n < 26" | "26 \<le> n" "n < 52" | "52 \<le> n" "n < 62" | "n = 62" | "n = 63"
    using n by linarith
  then show ?thesis
    by cases (auto simp: b64_val_def b64_char_def Let_def)
qed

lemma std_char_plain: "n < 64 \<Longrightarrow> std_char n \<noteq> CHR ''='' \<and> std_char n \<noteq> CHR 0x0A \<and> std_char n \<noteq> CHR 0x0D"
proof -
  assume n: "n < 64"
  have "byte (std_char n) \<noteq> 61 \<and> byte (std_char n) \<noteq> 10 \<and> byte (std_char n) \<noteq> 13"
    using n by (auto simp: std_char_code)
  then show ?thesis by auto
qed

lemma b64_clean_encode: "\<forall>b \<in> set bs. b < 256 \<Longrightarrow> b64_clean (b64_encode bs) = b64_encode bs"
proof (induction bs rule: b64_encode.induct)
  case (4 a b c r)
  then have "a div 4 < 64" "a mod 4 * 16 + b div 16 < 64" "b mod 16 * 4 + c div 64 < 64" "c mod 64 < 64"
    by (auto simp: less_mult_imp_div_less)
  then show ?case using 4 by (simp add: b64_clean_def std_char_plain)
next
  case (3 a b)
  then have "a div 4 < 64" "a mod 4 * 16 + b div 16 < 64" "b mod 16 * 4 < 64"
    by (auto simp: less_mult_imp_div_less)
  then show ?case by (simp add: b64_clean_def std_char_plain)
next
  case (2 a)
  then have "a div 4 < 64" "a mod 4 * 16 < 64" by (auto simp: less_mult_imp_div_less)
  then show ?case by (simp add: b64_clean_def std_char_plain)
qed (simp add: b64_clean_def)

lemma b64_std_groups_encode: "\<forall>b \<in> set bs. b < 256 \<Longrightarrow> b64_std_groups (b64_encode bs) = Some bs"
proof (induction bs rule: b64_encode.induct)
  case (4 a b c r)
  then have s: "a div 4 < 64" "a mod 4 * 16 + b div 16 < 64" "b mod 16 * 4 + c div 64 < 64" "c mod 64 < 64"
    by (auto simp: less_mult_imp_div_less)
  from 4 have "(a mod 4 * 16 + b div 16) div 16 = a mod 4" "(a mod 4 * 16 + b div 16) mod 16 = b div 16"
    "(b mod 16 * 4 + c div 64) div 4 = b mod 16" "(b mod 16 * 4 + c div 64) mod 4 = c div 64"
    by (auto simp: less_mult_imp_div_less)
  then have "b64_quad std_val (std_char (a div 4)) (std_char (a mod 4 * 16 + b div 16))
      (std_char (b mod 16 * 4 + c div 64)) (std_char (c mod 64)) = Some [a, b, c]"
    using s by (simp add: b64_quad_def)
  with 4 s show ?case by (simp add: std_char_plain)
next
  case (3 a b)
  then have s: "a div 4 < 64" "a mod 4 * 16 + b div 16 < 64" "b mod 16 * 4 < 64"
    by (auto simp: less_mult_imp_div_less)
  from 3 have "(a mod 4 * 16 + b div 16) div 16 = a mod 4" "(a mod 4 * 16 + b div 16) mod 16 = b div 16"
    by (auto simp: less_mult_imp_div_less)
  with s show ?case by (simp add: b64_three_def std_char_plain)
next
  case (2 a)
  then have "a div 4 < 64" "a mod 4 * 16 < 64" by (auto simp: less_mult_imp_div_less)
  then show ?case by (simp add: b64_two_def)
qed simp

lemma b64_std_decode_encode: "\<forall>b \<in> set bs. b < 256 \<Longrightarrow> b64_std_decode (b64_encode bs) = Some bs"
  by (simp add: b64_std_decode_def b64_clean_encode b64_std_groups_encode)

text \<open>\<^verbatim>\<open>base64.RawURLEncoding.EncodeToString\<close>.\<close>

abbreviation url_char :: "nat \<Rightarrow> char" where "url_char \<equiv> b64_char (CHR ''-'') (CHR ''_'')"

fun b64_rawurl_encode :: "nat list \<Rightarrow> string" where
  "b64_rawurl_encode [] = []"
| "b64_rawurl_encode [a] = [url_char (a div 4), url_char (a mod 4 * 16)]"
| "b64_rawurl_encode [a, b] =
     [url_char (a div 4), url_char (a mod 4 * 16 + b div 16), url_char (b mod 16 * 4)]"
| "b64_rawurl_encode (a # b # c # r) =
     url_char (a div 4) # url_char (a mod 4 * 16 + b div 16)
     # url_char (b mod 16 * 4 + c div 64) # url_char (c mod 64) # b64_rawurl_encode r"

lemma url_val_char [simp]: "n < 64 \<Longrightarrow> url_val (url_char n) = Some n"
proof -
  assume n: "n < 64"
  consider "n < 26" | "26 \<le> n" "n < 52" | "52 \<le> n" "n < 62" | "n = 62" | "n = 63"
    using n by linarith
  then show ?thesis
    by cases (auto simp: b64_val_def b64_char_def Let_def)
qed

lemma url_char_code: "n < 64 \<Longrightarrow> byte (url_char n) =
   (if n < 26 then 65 + n else if n < 52 then 71 + n else if n < 62 then n - 4 else if n = 62 then 45 else 95)"
  by (simp add: b64_char_def)

lemma url_char_plain: "n < 64 \<Longrightarrow> 33 \<le> byte (url_char n) \<and> byte (url_char n) < 128"
  by (auto simp: url_char_code)

lemma b64_rawurl_chars:
  "\<forall>b \<in> set bs. b < 256 \<Longrightarrow> \<forall>c \<in> set (b64_rawurl_encode bs). 33 \<le> byte c \<and> byte c < 128"
proof (induction bs rule: b64_rawurl_encode.induct)
  case (4 a b c r)
  then have "a div 4 < 64" "a mod 4 * 16 + b div 16 < 64" "b mod 16 * 4 + c div 64 < 64" "c mod 64 < 64"
    by (auto simp: less_mult_imp_div_less)
  then show ?case using 4 by (simp add: url_char_plain)
next
  case (3 a b)
  then have "a div 4 < 64" "a mod 4 * 16 + b div 16 < 64" "b mod 16 * 4 < 64"
    by (auto simp: less_mult_imp_div_less)
  then show ?case by (simp add: url_char_plain)
next
  case (2 a)
  then have "a div 4 < 64" "a mod 4 * 16 < 64" by (auto simp: less_mult_imp_div_less)
  then show ?case by (simp add: url_char_plain)
qed simp

lemma b64_raw_groups_encode: "\<forall>b \<in> set bs. b < 256 \<Longrightarrow> b64_raw_groups (b64_rawurl_encode bs) = Some bs"
proof (induction bs rule: b64_rawurl_encode.induct)
  case (4 a b c r)
  then have s: "a div 4 < 64" "a mod 4 * 16 + b div 16 < 64" "b mod 16 * 4 + c div 64 < 64" "c mod 64 < 64"
    by (auto simp: less_mult_imp_div_less)
  from 4 have "(a mod 4 * 16 + b div 16) div 16 = a mod 4" "(a mod 4 * 16 + b div 16) mod 16 = b div 16"
    "(b mod 16 * 4 + c div 64) div 4 = b mod 16" "(b mod 16 * 4 + c div 64) mod 4 = c div 64"
    by (auto simp: less_mult_imp_div_less)
  then have "b64_quad url_val (url_char (a div 4)) (url_char (a mod 4 * 16 + b div 16))
      (url_char (b mod 16 * 4 + c div 64)) (url_char (c mod 64)) = Some [a, b, c]"
    using s by (simp add: b64_quad_def)
  with 4 s show ?case by simp
next
  case (3 a b)
  then have s: "a div 4 < 64" "a mod 4 * 16 + b div 16 < 64" "b mod 16 * 4 < 64"
    by (auto simp: less_mult_imp_div_less)
  from 3 have "(a mod 4 * 16 + b div 16) div 16 = a mod 4" "(a mod 4 * 16 + b div 16) mod 16 = b div 16"
    by (auto simp: less_mult_imp_div_less)
  with s show ?case by (simp add: b64_three_def)
next
  case (2 a)
  then have "a div 4 < 64" "a mod 4 * 16 < 64" by (auto simp: less_mult_imp_div_less)
  then show ?case by (simp add: b64_two_def)
qed simp

lemma b64_rawurl_decode_encode:
  assumes "\<forall>b \<in> set bs. b < 256"
  shows "b64_rawurl_decode (b64_rawurl_encode bs) = Some bs"
proof -
  have "b64_clean (b64_rawurl_encode bs) = b64_rawurl_encode bs"
    unfolding b64_clean_def filter_id_conv using b64_rawurl_chars [OF assms] by fastforce
  then show ?thesis using b64_raw_groups_encode [OF assms] by (simp add: b64_rawurl_decode_def)
qed

section \<open>Hexadecimal\<close>

definition hex_decode_ok :: "string \<Rightarrow> bool" where
  "hex_decode_ok s \<longleftrightarrow> even (length s) \<and> list_all is_hex s"

definition hex_digit :: "nat \<Rightarrow> char" where
  "hex_digit n = (if n < 10 then char_of (48 + n) else char_of (87 + n))"

definition hex_encode :: "nat list \<Rightarrow> string" where
  "hex_encode bs = concat (List.map (\<lambda>b. [hex_digit (b div 16), hex_digit (b mod 16)]) bs)"

text \<open>\<^verbatim>\<open>%08x\<close> of a non-negative number.\<close>

fun nat_hex :: "nat \<Rightarrow> string" where
  "nat_hex n = (if n < 16 then [hex_digit n] else nat_hex (n div 16) @ [hex_digit (n mod 16)])"

declare nat_hex.simps [simp del]

definition fmt_08x :: "int \<Rightarrow> string" where
  "fmt_08x i =
     (let h = nat_hex (nat \<bar>i\<bar>); sg = (if i < 0 then ''-'' else '''')
      in sg @ replicate (8 - length sg - length h) (CHR ''0'') @ h)"

lemma hex_encode_ok: "\<forall>b \<in> set bs. b < 256 \<Longrightarrow> hex_decode_ok (hex_encode bs)"
proof (induction bs)
  case (Cons b bs)
  then have "b div 16 < 16" "b mod 16 < 16" by auto
  then have "is_hex (hex_digit (b div 16))" "is_hex (hex_digit (b mod 16))"
    by (auto simp: hex_digit_def is_hex_def is_digit_def)
  with Cons show ?case by (simp add: hex_encode_def hex_decode_ok_def)
qed (simp add: hex_encode_def hex_decode_ok_def)

lemma length_hex_encode [simp]: "length (hex_encode bs) = 2 * length bs"
  by (induction bs) (auto simp: hex_encode_def)

section \<open>URLs\<close>

definition is_alnum :: "char \<Rightarrow> bool" where
  "is_alnum c \<longleftrightarrow> is_digit c \<or> (65 \<le> byte c \<and> byte c \<le> 90) \<or> (97 \<le> byte c \<and> byte c \<le> 122)"

definition upper_hex :: "nat \<Rightarrow> char" where
  "upper_hex n = (if n < 10 then char_of (48 + n) else char_of (55 + n))"

definition query_escape :: "string \<Rightarrow> string" where
  "query_escape s =
     concat (List.map (\<lambda>c.
       if is_alnum c \<or> c \<in> {CHR ''-'', CHR ''_'', CHR ''.'', CHR ''~''} then [c]
       else if c = CHR '' '' then ''+''
       else [CHR ''%'', upper_hex (byte c div 16), upper_hex (byte c mod 16)]) s)"

text \<open>\<^verbatim>\<open>url.Values.Encode\<close> of distinct keys given in sorted order.\<close>

definition encode_params :: "(string \<times> string) list \<Rightarrow> string" where
  "encode_params kvs = join ''&'' (List.map (\<lambda>(k, v). query_escape k @ ''='' @ query_escape v) kvs)"

text \<open>
  \<^verbatim>\<open>url.ParseRequestURI\<close> succeeds on a string that starts with a slash and has no query exactly
  when it has no control byte and every percent sign starts an escape.
\<close>

fun escapes_ok :: "string \<Rightarrow> bool" where
  "escapes_ok [] = True"
| "escapes_ok (c # cs) =
     (if c = CHR ''%'' then
        (case cs of a # b # r \<Rightarrow> is_hex a \<and> is_hex b | _ \<Rightarrow> False) \<and> escapes_ok cs
      else escapes_ok cs)"

definition request_path_ok :: "string \<Rightarrow> bool" where
  "request_path_ok s \<longleftrightarrow> list_all (\<lambda>c. 32 \<le> byte c \<and> byte c \<noteq> 127) s \<and> escapes_ok s"

section \<open>Hosts and addresses\<close>

text \<open>Split at the last occurrence of a character.\<close>

definition split_last :: "char \<Rightarrow> string \<Rightarrow> (string \<times> string) option" where
  "split_last d s =
     (if d \<in> set s
      then Some (butlast (rev (dropWhile (\<lambda>c. c \<noteq> d) (rev s))), rev (takeWhile (\<lambda>c. c \<noteq> d) (rev s)))
      else None)"

text \<open>\<^verbatim>\<open>net.SplitHostPort\<close>; None is an error.\<close>

definition split_host_port :: "string \<Rightarrow> (string \<times> string) option" where
  "split_host_port hp =
     (case split_last (CHR '':'') hp of
        None \<Rightarrow> None
      | Some (pre, port) \<Rightarrow>
         if has_prefix hp ''['' then
           (let host = takeWhile (\<lambda>c. c \<noteq> CHR '']'') (tl hp) in
            if CHR '']'' \<in> set (tl hp) \<and> pre = CHR ''['' # host @ '']''
               \<and> CHR ''['' \<notin> set (tl hp) \<and> CHR '']'' \<notin> set port
            then Some (host, port) else None)
         else if CHR '':'' \<in> set pre \<or> CHR ''['' \<in> set hp \<or> CHR '']'' \<in> set hp then None
         else Some (pre, port))"

definition join_host_port :: "string \<Rightarrow> string \<Rightarrow> string" where
  "join_host_port host port =
     (if CHR '':'' \<in> set host then ''['' @ host @ '']:'' @ port else host @ '':'' @ port)"

definition ipv4_field_ok :: "string \<Rightarrow> bool" where
  "ipv4_field_ok s \<longleftrightarrow>
     s \<noteq> [] \<and> list_all is_digit s \<and> (length s > 1 \<longrightarrow> hd s \<noteq> CHR ''0'') \<and> digits_val s \<le> 255"

definition ipv4_ok :: "string \<Rightarrow> bool" where
  "ipv4_ok s \<longleftrightarrow> length (split_on (CHR ''.'') s) = 4 \<and> list_all ipv4_field_ok (split_on (CHR ''.'') s)"

definition ipv6_group_ok :: "string \<Rightarrow> bool" where
  "ipv6_group_ok s \<longleftrightarrow> s \<noteq> [] \<and> length s \<le> 4 \<and> list_all is_hex s"

text \<open>How many 16-bit groups a colon-separated run stands for; a dotted tail counts two.\<close>

definition ipv6_run :: "bool \<Rightarrow> string \<Rightarrow> nat option" where
  "ipv6_run tail s =
     (if s = [] then Some 0
      else (let gs = split_on (CHR '':'') s in
            if list_all ipv6_group_ok gs then Some (length gs)
            else if tail \<and> list_all ipv6_group_ok (butlast gs) \<and> ipv4_ok (last gs) then Some (length gs + 1)
            else None))"

fun split_ellipsis :: "string \<Rightarrow> (string \<times> string) option" where
  "split_ellipsis [] = None"
| "split_ellipsis (c # cs) =
     (if c = CHR '':'' \<and> cs \<noteq> [] \<and> hd cs = CHR '':'' then Some ([], tl cs)
      else map_option (\<lambda>(a, b). (c # a, b)) (split_ellipsis cs))"

definition ipv6_ok :: "string \<Rightarrow> bool" where
  "ipv6_ok s =
     (case split_ellipsis s of
        None \<Rightarrow> s \<noteq> [] \<and> ipv6_run True s = Some 8
      | Some (a, b) \<Rightarrow>
         (case (ipv6_run (b = []) a, ipv6_run True b) of
            (Some m, Some n) \<Rightarrow> m + n \<le> 7 \<and> (b = [] \<longrightarrow> CHR ''.'' \<notin> set a)
          | _ \<Rightarrow> False))"

text \<open>\<^verbatim>\<open>net.ParseIP(s) != nil\<close>.\<close>

definition parse_ip_ok :: "string \<Rightarrow> bool" where
  "parse_ip_ok s \<longleftrightarrow> ipv4_ok s \<or> ipv6_ok s"

section \<open>Paths\<close>

fun clean_segs :: "bool \<Rightarrow> string list \<Rightarrow> string list \<Rightarrow> string list" where
  "clean_segs rooted acc [] = rev acc"
| "clean_segs rooted acc (s # ss) =
     (if s = '''' \<or> s = ''.'' then clean_segs rooted acc ss
      else if s = ''..'' then
        (case acc of
           [] \<Rightarrow> clean_segs rooted (if rooted then [] else [s]) ss
         | a # as \<Rightarrow> if a = ''..'' then clean_segs rooted (s # acc) ss else clean_segs rooted as ss)
      else clean_segs rooted (s # acc) ss)"

text \<open>\<^verbatim>\<open>path.Clean\<close>.\<close>

definition path_clean :: "string \<Rightarrow> string" where
  "path_clean p =
     (let rooted = has_prefix p ''/'';
          body = join ''/'' (clean_segs rooted [] (split_on (CHR ''/'') p))
      in if rooted then ''/'' @ body else if body = [] then ''.'' else body)"

definition plain_segs :: "string list \<Rightarrow> bool" where
  "plain_segs ss \<longleftrightarrow> (\<forall>s \<in> set ss. s \<noteq> ''..'' \<and> s \<noteq> ''.'' \<and> s \<noteq> '''')"

lemma plain_segs_simps [simp]:
  "plain_segs []"
  "plain_segs (s # ss) \<longleftrightarrow> s \<noteq> ''..'' \<and> s \<noteq> ''.'' \<and> s \<noteq> '''' \<and> plain_segs ss"
  by (auto simp: plain_segs_def)

lemma clean_segs_rooted: "plain_segs acc \<Longrightarrow> plain_segs (clean_segs True acc ss)"
proof (induction ss arbitrary: acc)
  case Nil
  then show ?case by (simp add: plain_segs_def)
next
  case (Cons s ss)
  show ?case
  proof (cases "s = ''..''")
    case True
    with Cons show ?thesis by (cases acc) auto
  next
    case False
    with Cons.prems show ?thesis by (auto intro: Cons.IH)
  qed
qed

lemma split_on_join:
  "xs \<noteq> [] \<Longrightarrow> \<forall>x \<in> set xs. d \<notin> set x \<Longrightarrow> split_on d (join [d] xs) = xs"
proof (induction xs)
  case (Cons x xs)
  then show ?case by (cases xs) (auto simp: split_on_no_sep split_on_append)
qed simp

lemma split_on_no_sep_in: "x \<in> set (split_on d s) \<Longrightarrow> d \<notin> set x"
  by (induction s arbitrary: x) (auto split: if_splits list.splits)

lemma clean_segs_sub: "set (clean_segs r acc ss) \<subseteq> set acc \<union> set ss"
  by (induction r acc ss rule: clean_segs.induct) (auto split: list.splits if_splits)

text \<open>A cleaned absolute path has no dot-dot segment left.\<close>

lemma path_clean_no_dotdot:
  assumes "has_prefix p ''/''"
  shows "''..'' \<notin> set (split_on (CHR ''/'') (path_clean p))"
proof -
  let ?segs = "clean_segs True [] (split_on (CHR ''/'') p)"
  have nd: "\<forall>s \<in> set ?segs. s \<noteq> ''..'' \<and> s \<noteq> ''.'' \<and> s \<noteq> ''''"
    using clean_segs_rooted [of "[]"] by (simp add: plain_segs_def)
  have "\<forall>s \<in> set ?segs. CHR ''/'' \<notin> set s"
    using clean_segs_sub [of True "[]"] split_on_no_sep_in by fastforce
  moreover have "path_clean p = CHR ''/'' # join ''/'' ?segs"
    using assms by (simp add: path_clean_def)
  ultimately show ?thesis
    using nd split_on_join [of ?segs "CHR ''/''"] by (cases "?segs = []") auto
qed

text \<open>Only an absolute path is cleaned to an absolute path.\<close>

lemma clean_segs_nonempty: "[] \<notin> set acc \<Longrightarrow> [] \<notin> set (clean_segs r acc ss)"
proof (induction r acc ss rule: clean_segs.induct)
  case (2 rooted acc s ss)
  consider "s = '''' \<or> s = ''.''" | "s = ''..''" | "s \<noteq> ''''" "s \<noteq> ''.''" "s \<noteq> ''..''" by blast
  then show ?case
  proof cases
    case 1
    with 2 show ?thesis by auto
  next
    case b: 2
    show ?thesis
    proof (cases acc)
      case Nil
      with 2 b show ?thesis by (cases rooted) simp_all
    next
      case (Cons a as)
      with 2 b show ?thesis by (cases "a = ''..''") simp_all
    qed
  next
    case 3
    with 2 show ?thesis by simp
  qed
qed simp

lemma hd_join: "xs \<noteq> [] \<Longrightarrow> hd xs \<noteq> [] \<Longrightarrow> join d xs \<noteq> [] \<and> hd (join d xs) = hd (hd xs)"
  by (cases xs; cases "tl xs") auto

lemma path_clean_rooted:
  assumes "has_prefix (path_clean p) ''/''"
  shows "has_prefix p ''/''"
proof (rule ccontr)
  assume n: "\<not> has_prefix p ''/''"
  let ?segs = "clean_segs False [] (split_on (CHR ''/'') p)"
  have pc: "path_clean p = (if join ''/'' ?segs = [] then ''.'' else join ''/'' ?segs)"
    using n by (simp add: path_clean_def)
  show False
  proof (cases "?segs = []")
    case True
    with assms pc show False by (simp add: has_prefix_def)
  next
    case False
    then have "hd ?segs \<in> set ?segs" by simp
    then have h: "hd ?segs \<noteq> []" "hd ?segs \<in> set (split_on (CHR ''/'') p)"
      using clean_segs_nonempty [of "[]" False] clean_segs_sub [of False "[]"] by force+
    then have "CHR ''/'' \<notin> set (hd ?segs)" using split_on_no_sep_in by blast
    then have "hd (hd ?segs) \<noteq> CHR ''/''" using h(1) by (metis hd_in_set)
    then show False using assms pc hd_join [OF False h(1), of "''/''"]
      by (auto simp: has_prefix_def prefix_def)
  qed
qed

end
