(* ===== verification/JsonWf.thy ===== *)
theory JsonWf
  imports GoJson
begin

text \<open>
  What the JSON parser returns is always printable again: strings are valid UTF-8 (invalid bytes
  were replaced), numbers are literals of the grammar, members are in key order.
\<close>

lemma valid_utf8_single:
  "0 < utf8_len s \<Longrightarrow> utf8_len s = length s \<Longrightarrow> valid_utf8 s"
  by (cases "s = []") (simp_all add: valid_utf8_step)

lemma valid_utf8_chunk: "0 < utf8_len s \<Longrightarrow> valid_utf8 (take (utf8_len s) s)"
  using utf8_len_take [of s "[]"] utf8_len_le [of s] by (intro valid_utf8_single) auto

lemma valid_rune_error [simp]: "valid_utf8 rune_error"
  by (rule valid_utf8_single) (simp_all add: utf8_len_def utf8_two_def utf8_three_def rune_error_def bat_def cont_byte_def)

lemma valid_utf8_encode [simp]: "valid_utf8 (utf8_encode v)"
proof -
  consider "v < 0x80" | "0x80 \<le> v" "v < 0x800" | "0xD800 \<le> v \<and> v < 0xE000 \<or> 0x10FFFF < v"
    | "0x800 \<le> v" "v < 0x10000" "\<not> (0xD800 \<le> v \<and> v < 0xE000)" | "0x10000 \<le> v" "v \<le> 0x10FFFF"
    by linarith
  then show ?thesis
  proof cases
    case 1
    then show ?thesis by (simp add: utf8_encode_def valid_utf8_ascii_Cons)
  next
    case 2
    let ?s = "[char_of (0xC0 + v div 64), char_of (0x80 + v mod 64)]"
    have "2 \<le> v div 64" using div_le_mono [of 128 v 64] 2 by simp
    moreover have "v div 64 \<le> 31" using div_le_mono [of v 2047 64] 2 by simp
    moreover have "v mod 64 \<le> 63" using mod_less_divisor [of 64 v] by linarith
    ultimately have "utf8_two ?s" by (simp add: utf8_two_def bat_def cont_byte_def)
    then have "valid_utf8 ?s" by (intro valid_utf8_single) (simp_all add: utf8_len_two)
    then show ?thesis using 2 by (simp add: utf8_encode_def)
  next
    case 3
    then show ?thesis by (auto simp: utf8_encode_def)
  next
    case 4
    let ?s = "[char_of (0xE0 + v div 4096), char_of (0x80 + v div 64 mod 64), char_of (0x80 + v mod 64)]"
    have "v div 4096 < 16" using 4 by auto
    moreover have m: "v div 64 mod 64 = v div 64 - 64 * (v div 4096)"
      by (simp add: minus_mult_div_eq_mod [symmetric] div_mult2_eq [symmetric])
    moreover have "v div 4096 = 0 \<Longrightarrow> 32 \<le> v div 64 mod 64"
      using m div_le_mono [of 2048 v 64] 4 by simp
    moreover have "v div 64 mod 64 < 32" if "v div 4096 = 13"
    proof -
      have "v < 57344" using that div_le_mono [of 57344 v 4096] by (cases "57344 \<le> v") auto
      then have "v \<le> 55295" using 4 by simp
      then show ?thesis using m div_le_mono [of v 55295 64] that by simp
    qed
    ultimately have "utf8_three ?s" by (auto simp: utf8_three_def bat_def cont_byte_def)
    then have "valid_utf8 ?s" by (intro valid_utf8_single) (simp_all add: utf8_len_three)
    then show ?thesis using 4 by (auto simp: utf8_encode_def)
  next
    case 5
    let ?s = "[char_of (0xF0 + v div 262144), char_of (0x80 + v div 4096 mod 64),
         char_of (0x80 + v div 64 mod 64), char_of (0x80 + v mod 64)]"
    have "v div 262144 \<le> 4" using 5 by auto
    moreover have m: "v div 4096 mod 64 = v div 4096 - 64 * (v div 262144)"
      by (simp add: minus_mult_div_eq_mod [symmetric] div_mult2_eq [symmetric])
    moreover have "v div 262144 = 0 \<Longrightarrow> 16 \<le> v div 4096 mod 64"
      using m div_le_mono [of 65536 v 4096] 5 by simp
    moreover have "v div 262144 = 4 \<Longrightarrow> v div 4096 mod 64 < 16"
      using m div_le_mono [of v 1114111 4096] 5 by simp
    ultimately have "utf8_four ?s" by (auto simp: utf8_four_def bat_def cont_byte_def)
    then have "valid_utf8 ?s" by (intro valid_utf8_single) (simp_all add: utf8_len_four)
    then show ?thesis using 5 by (auto simp: utf8_encode_def)
  qed
qed

lemma pre_SomeD: "pre xs v = Some (t, r) \<Longrightarrow> \<exists>t'. v = Some (t', r) \<and> t = xs @ t'"
  by (simp add: pre_eq_Some)

lemma simple_escape_ascii: "simple_escape e = Some ch \<Longrightarrow> byte ch < 0x80"
  by (auto simp: simple_escape_def split: if_splits)

lemma pstr_valid: "pstr s = Some (t, r) \<Longrightarrow> valid_utf8 t"
proof (induction s arbitrary: t r rule: measure_induct_rule [of length])
  case (less s)
  note P = less.prems [unfolded pstr.simps [of s]]
  show ?case
  proof (cases s)
    case Nil
    with P show ?thesis by simp
  next
    case (Cons c cs)
    consider "c = CHR 0x22" | "c \<noteq> CHR 0x22" "c = CHR 0x5C" | "c \<noteq> CHR 0x22" "c \<noteq> CHR 0x5C" by blast
    then show ?thesis
    proof cases
      case 1
      with P Cons show ?thesis by simp
    next
      case 2
      with P Cons obtain e r1 where e: "cs = e # r1" by (auto split: list.splits)
      show ?thesis
      proof (cases "e = CHR ''u''")
        case True
        with P Cons 2 e obtain v r2 where h: "hex4 r1 = Some (v, r2)" by (auto split: option.splits)
        show ?thesis
        proof (cases "0xD800 \<le> v \<and> v < 0xE000")
          case True
          note sur = this
          show ?thesis
          proof (cases "low_half v r2")
            case None
            with P Cons 2 e \<open>e = CHR ''u''\<close> h sur have "pre rune_error (pstr r2) = Some (t, r)" by simp
            then obtain t' where "pstr r2 = Some (t', r)" "t = rune_error @ t'" by (auto dest: pre_SomeD)
            then show ?thesis
              using less.IH [of r2] hex4_shorter [OF h] Cons e by (auto intro: valid_utf8_append)
          next
            case (Some p)
            then obtain w r3 where p: "low_half v r2 = Some (w, r3)" by (cases p) auto
            with P Cons 2 e \<open>e = CHR ''u''\<close> h sur have "pre (utf8_encode w) (pstr r3) = Some (t, r)" by simp
            then obtain t' where "pstr r3 = Some (t', r)" "t = utf8_encode w @ t'" by (auto dest: pre_SomeD)
            then show ?thesis
              using less.IH [of r3] hex4_shorter [OF h] low_half_shorter [OF p] Cons e by (auto intro: valid_utf8_append)
          qed
        next
          case False
          with P Cons 2 e \<open>e = CHR ''u''\<close> h have "pre (utf8_encode v) (pstr r2) = Some (t, r)" by simp
          then obtain t' where "pstr r2 = Some (t', r)" "t = utf8_encode v @ t'" by (auto dest: pre_SomeD)
          then show ?thesis
            using less.IH [of r2] hex4_shorter [OF h] Cons e by (auto intro: valid_utf8_append)
        qed
      next
        case False
        with P Cons 2 e obtain ch where ch: "simple_escape e = Some ch" "pre [ch] (pstr r1) = Some (t, r)"
          by (auto split: option.splits)
        then obtain t' where "pstr r1 = Some (t', r)" "t = ch # t'" by (auto dest: pre_SomeD)
        then show ?thesis
          using less.IH [of r1] Cons e simple_escape_ascii [OF ch(1)]
          by (auto simp: valid_utf8_ascii_Cons)
      qed
    next
      case 3
      show ?thesis
      proof (cases "byte c < 0x80")
        case True
        with P Cons 3 have c: "\<not> byte c < 0x20" "pre [c] (pstr cs) = Some (t, r)" by (auto split: if_splits)
        then obtain t' where "pstr cs = Some (t', r)" "t = c # t'" by (auto dest: pre_SomeD)
        then show ?thesis using less.IH [of cs] Cons True by (auto simp: valid_utf8_ascii_Cons)
      next
        case False
        then have n: "\<not> byte c < 0x20" by simp
        show ?thesis
        proof (cases "utf8_len s = 0")
          case True
          with P Cons 3 False n have "pre rune_error (pstr cs) = Some (t, r)" by simp
          then obtain t' where "pstr cs = Some (t', r)" "t = rune_error @ t'" by (auto dest: pre_SomeD)
          then show ?thesis using less.IH [of cs] Cons by (auto intro: valid_utf8_append)
        next
          case False
          note nz = this
          with P Cons 3 \<open>\<not> byte c < 0x80\<close> n have
            "pre (take (utf8_len s) s) (pstr (drop (utf8_len s) s)) = Some (t, r)" by simp
          then obtain t' where "pstr (drop (utf8_len s) s) = Some (t', r)" "t = take (utf8_len s) s @ t'"
            by (auto dest: pre_SomeD)
          then show ?thesis
            using less.IH [of "drop (utf8_len s) s"] Cons valid_utf8_chunk [of s] nz
            by (auto intro!: valid_utf8_append)
        qed
      qed
    qed
  qed
qed

section \<open>Numbers\<close>

lemma p_digits1_self: "p_digits1 s = Some (d, r) \<Longrightarrow> list_all is_digit d \<and> d \<noteq> []"
  by (auto simp: p_digits1_def Let_def list_all_iff dest: set_takeWhileD split: if_splits)

lemma p_digits1_digits:
  assumes "list_all is_digit d" "d \<noteq> []" "x = [] \<or> \<not> is_digit (hd x)"
  shows "p_digits1 (d @ x) = Some (d, x)"
proof -
  have "takeWhile is_digit (d @ x) = d" "dropWhile is_digit (d @ x) = x"
    using assms by (cases x; auto simp: list_all_iff takeWhile_append dropWhile_append)+
  then show ?thesis using assms(2) by (simp add: p_digits1_def)
qed

text \<open>The exponent and the fraction never start with a digit.\<close>

lemma p_exp_self:
  assumes "p_exp s = Some (e, r)"
  shows "p_exp e = Some (e, []) \<and> (e = [] \<or> hd e = CHR ''e'' \<or> hd e = CHR ''E'')"
proof (cases s)
  case Nil
  with assms show ?thesis by (simp add: p_exp_def)
next
  case (Cons c cs)
  show ?thesis
  proof (cases "c = CHR ''e'' \<or> c = CHR ''E''")
    case False
    with assms Cons show ?thesis by (simp add: p_exp_def)
  next
    case True
    with assms Cons obtain d ds where cs: "cs = d # ds" by (auto simp: p_exp_def split: list.splits)
    show ?thesis
    proof (cases "d = CHR ''+'' \<or> d = CHR ''-''")
      case True
      with assms Cons \<open>c = _ \<or> c = _\<close> cs obtain x where x: "p_digits1 ds = Some (x, r)" "e = c # d # x"
        by (auto simp: p_exp_def pre_eq_Some)
      then show ?thesis
        using True \<open>c = _ \<or> c = _\<close> p_digits1_self [OF x(1)] p_digits1_digits [of x "[]"]
        by (auto simp: p_exp_def)
    next
      case False
      with assms Cons \<open>c = _ \<or> c = _\<close> cs obtain x where x: "p_digits1 cs = Some (x, r)" "e = c # x"
        by (auto simp: p_exp_def pre_eq_Some)
      obtain y ys where y: "x = y # ys" using p_digits1_self [OF x(1)] by (cases x) auto
      then have "is_digit y" using p_digits1_self [OF x(1)] by simp
      then have "y \<noteq> CHR ''+''" "y \<noteq> CHR ''-''" by (auto simp: is_digit_def)
      then show ?thesis
        using \<open>c = _ \<or> c = _\<close> x y p_digits1_self [OF x(1)] p_digits1_digits [of x "[]"]
        by (auto simp: p_exp_def)
    qed
  qed
qed

definition exp_hd :: "string \<Rightarrow> bool" where
  "exp_hd e \<longleftrightarrow> e = [] \<or> hd e = CHR ''e'' \<or> hd e = CHR ''E''"

lemma exp_hd_not: "exp_hd e \<Longrightarrow> e = [] \<or> \<not> is_digit (hd e) \<and> hd e \<noteq> CHR ''.''"
  by (auto simp: exp_hd_def is_digit_def)

lemma p_frac_self:
  assumes "p_frac s = Some (f, r)" "exp_hd e"
  shows "p_frac (f @ e) = Some (f, e) \<and> (f @ e = [] \<or> \<not> is_digit (hd (f @ e)))"
proof (cases s)
  case Nil
  with assms have "f = []" by (simp add: p_frac_def)
  with exp_hd_not [OF assms(2)] show ?thesis by (cases e) (auto simp: p_frac_def)
next
  case (Cons c cs)
  show ?thesis
  proof (cases "c = CHR ''.''")
    case False
    with assms(1) Cons have "f = []" by (simp add: p_frac_def)
    with exp_hd_not [OF assms(2)] show ?thesis by (cases e) (auto simp: p_frac_def)
  next
    case True
    with assms(1) Cons obtain x where x: "p_digits1 cs = Some (x, r)" "f = CHR ''.'' # x"
      by (auto simp: p_frac_def pre_eq_Some)
    have "p_digits1 (x @ e) = Some (x, e)"
      using p_digits1_self [OF x(1)] exp_hd_not [OF assms(2)] by (intro p_digits1_digits) auto
    then show ?thesis using x by (simp add: p_frac_def is_digit_def)
  qed
qed

lemma p_int_self:
  assumes "p_int s = Some (i, r)" "x = [] \<or> \<not> is_digit (hd x)"
  shows "p_int (i @ x) = Some (i, x) \<and> i \<noteq> [] \<and> hd i \<noteq> CHR ''-''"
proof (cases s)
  case Nil
  with assms show ?thesis by (simp add: p_int_def)
next
  case (Cons c cs)
  show ?thesis
  proof (cases "c = CHR ''0''")
    case True
    with assms Cons show ?thesis by (auto simp: p_int_def)
  next
    case False
    with assms(1) Cons have d: "p_digits1 s = Some (i, r)" by (simp add: p_int_def)
    then obtain j js where j: "i = j # js" "is_digit j" "j = c"
      using Cons p_digits1_self [OF d] by (cases i) (auto simp: p_digits1_def Let_def split: if_splits)
    then show ?thesis
      using False p_digits1_self [OF d] p_digits1_digits [of i x] assms(2)
      by (auto simp: p_int_def is_digit_def)
  qed
qed

lemma p_unsigned_self:
  assumes "p_unsigned s = Some (u, r)"
  shows "p_unsigned u = Some (u, []) \<and> u \<noteq> [] \<and> hd u \<noteq> CHR ''-''"
proof -
  from assms obtain i s2 f s3 e where i: "p_int s = Some (i, s2)" and f: "p_frac s2 = Some (f, s3)"
    and e: "p_exp s3 = Some (e, r)" and u: "u = i @ f @ e"
    by (auto simp: p_unsigned_def pre_eq_Some split: option.splits)
  have e': "p_exp e = Some (e, [])" "exp_hd e" using p_exp_self [OF e] by (auto simp: exp_hd_def)
  have f': "p_frac (f @ e) = Some (f, e)" "f @ e = [] \<or> \<not> is_digit (hd (f @ e))"
    using p_frac_self [OF f e'(2)] by auto
  have "p_int (i @ f @ e) = Some (i, f @ e)" "i \<noteq> []" "hd i \<noteq> CHR ''-''"
    using p_int_self [OF i f'(2)] by auto
  then show ?thesis using f' e' u by (auto simp: p_unsigned_def pre_eq_Some)
qed

lemma p_number_ok: "p_number s = Some (t, r) \<Longrightarrow> num_ok t"
proof (cases s)
  case (Cons c cs)
  assume p: "p_number s = Some (t, r)"
  show ?thesis
  proof (cases "c = CHR ''-''")
    case True
    with p Cons obtain u where u: "p_unsigned cs = Some (u, r)" "t = c # u"
      by (auto simp: p_number_def pre_eq_Some)
    then show ?thesis using True p_unsigned_self [OF u(1)] by (simp add: num_ok_def p_number_def)
  next
    case False
    with p Cons have u: "p_unsigned s = Some (t, r)" by (simp add: p_number_def)
    then show ?thesis using p_unsigned_self [OF u] by (cases t) (auto simp: num_ok_def p_number_def)
  qed
qed (simp add: p_number_def)

section \<open>Values\<close>

lemma wf_members_oput: "wf_members m \<Longrightarrow> valid_utf8 k \<Longrightarrow> wf_json v \<Longrightarrow> wf_members (oput k v m)"
  by (induction k v m rule: oput.induct) auto

lemma wf_members_fold:
  "wf_members ms \<Longrightarrow> wf_members m \<Longrightarrow> wf_members (fold (\<lambda>(k, v) m. oput k v m) ms m)"
  by (induction ms arbitrary: m) (auto simp: wf_members_oput)

lemma wf_jobj: "wf_members ms \<Longrightarrow> wf_json (jobj ms)"
  by (simp add: jobj_def of_members_def [symmetric] wf_members_fold [of ms "[]", folded of_members_def])

lemma p_value_wf:
  "p_value n s = Some (v, r) \<Longrightarrow> wf_json v"
  "p_elems n s = Some (xs, r) \<Longrightarrow> wf_elems xs"
  "p_members n s = Some (ms, r) \<Longrightarrow> wf_members ms"
proof (induction n s and n s and n s arbitrary: v r and xs r and ms r rule: p_value_p_elems_p_members.induct)
  case (2 n s)
  then show ?case
    by (auto simp: p_literal_def wf_jobj dest: pstr_valid p_number_ok split: list.splits if_splits)
next
  case (4 n s)
  then show ?case
    by (fastforce simp: pre_eq_Some split: list.splits if_splits option.splits)
next
  case (6 n s)
  then show ?case
    by (fastforce simp: pre_eq_Some dest: pstr_valid split: list.splits if_splits option.splits)
qed simp_all

lemma json_parse_wf: "json_parse s = Some v \<Longrightarrow> wf_json v"
  by (auto simp: json_parse_def simp del: p_value.simps dest: p_value_wf(1) split: option.splits if_splits)

end
