(* ===== verification/LineConfig.thy ===== *)
theory LineConfig
  imports PanelState PanelTexts GoNet JsonWf
begin

text \<open>
  The configuration of a line (internal/web/service/line.go): its encoding in the database, the
  defaults, what an update preserves, how a staged certificate is promoted, the normalisation of a
  save request and the validation before an apply.  A Go map that a function changes in place is
  returned.  Texts of errors raised inside the standard library's parsers are \<open>lib_error\<close>.
\<close>

section \<open>Line types\<close>

definition LineTypeCloudflare :: string where [simp]: "LineTypeCloudflare = ''cloudflare_ws_tls''"
definition LineTypeBunny :: string where [simp]: "LineTypeBunny = ''bunny_ws_tls''"
definition LineTypeReality :: string where [simp]: "LineTypeReality = ''reality_direct''"
definition LineTypeShadowsocks :: string where [simp]: "LineTypeShadowsocks = ''shadowsocks_direct''"
definition LineTypeTrojan :: string where [simp]: "LineTypeTrojan = ''trojan_direct''"
definition defaultRealityMinClientVersion :: string where
  [simp]: "defaultRealityMinClientVersion = ''1.8.0''"
definition defaultShadowsocksMethod :: string where
  [simp]: "defaultShadowsocksMethod = ''2022-blake3-aes-128-gcm''"

definition isSupportedLineType :: "string \<Rightarrow> bool" where
  "isSupportedLineType t \<longleftrightarrow>
     t = LineTypeCloudflare \<or> t = LineTypeBunny \<or> t = LineTypeReality \<or> t = LineTypeShadowsocks"

definition isNginxWSLine :: "string \<Rightarrow> bool" where
  "isNginxWSLine t \<longleftrightarrow> t = LineTypeCloudflare \<or> t = LineTypeBunny"

definition lineTypeName :: "string \<Rightarrow> string" where
  "lineTypeName t =
     (if t = LineTypeCloudflare then txt_cf_name
      else if t = LineTypeBunny then ''Bunny CDN WS''
      else if t = LineTypeReality then txt_reality_name
      else if t = LineTypeShadowsocks then txt_ss_name
      else if t = LineTypeTrojan then txt_trojan_name
      else txt_new_line)"

definition defaultLinePort :: "string \<Rightarrow> int" where
  "defaultLinePort t =
     (if t = LineTypeCloudflare then 8443
      else if t = LineTypeBunny then 443
      else if t = LineTypeShadowsocks then 0
      else 443)"

definition buildLineChainText :: "string \<Rightarrow> string \<Rightarrow> string" where
  "buildLineChainText t outboundType =
     (let outbound = to_upper outboundType in
      (if t = LineTypeCloudflare then txt_chain_cf
       else if t = LineTypeBunny then txt_chain_bunny
       else if t = LineTypeReality then txt_chain_reality
       else if t = LineTypeShadowsocks then txt_chain_ss
       else if t = LineTypeTrojan then txt_chain_trojan
       else txt_chain_other) @ outbound @ txt_chain_end)"

record line_type_info =
  ty_type :: string
  ty_name :: string

text \<open>\<^verbatim>\<open>GetLineTypes\<close>, without the descriptions.\<close>

definition GetLineTypes :: "line_type_info list" where
  "GetLineTypes =
     [\<lparr>ty_type = LineTypeCloudflare, ty_name = txt_cf_name\<rparr>,
      \<lparr>ty_type = LineTypeBunny, ty_name = ''Bunny CDN WS''\<rparr>,
      \<lparr>ty_type = LineTypeReality, ty_name = txt_reality_name\<rparr>,
      \<lparr>ty_type = LineTypeShadowsocks, ty_name = txt_ss_name\<rparr>]"

definition truthy :: "string \<Rightarrow> bool" where
  "truthy value \<longleftrightarrow> to_lower (trim_space value) \<in> set [''1'', ''true'', ''yes'', ''on'']"

definition formatHostPort :: "string \<Rightarrow> int \<Rightarrow> string" where
  "formatHostPort host0 port =
     (let host = trim_space host0 in
      if host = '''' \<and> port \<le> 0 then txt_unset
      else if host = '''' then '':'' @ itoa port
      else if port \<le> 0 then host
      else host @ '':'' @ itoa port)"

definition lib_error :: "string \<Rightarrow> string \<Rightarrow> gerr" where
  "lib_error fn arg = Errorf (fn @ '': '' @ arg)"

definition parsePortString :: "string \<Rightarrow> int res" where
  "parsePortString raw =
     (case atoi (trim_space raw) of
        None \<Rightarrow> Inl (lib_error ''strconv.Atoi'' (trim_space raw))
      | Some port \<Rightarrow>
         if port \<le> 0 \<or> port > 65535 then Inl (Errorf (''port out of range: '' @ itoa port))
         else Inr port)"

lemma parsePortString_Inr:
  "parsePortString raw = Inr p \<longleftrightarrow> atoi (trim_space raw) = Some p \<and> 0 < p \<and> p \<le> 65535"
  by (auto simp: parsePortString_def split: option.splits)

lemma parsePortString_itoa:
  "0 < p \<Longrightarrow> p \<le> 65535 \<Longrightarrow> parsePortString (itoa p) = Inr p"
  by (simp add: parsePortString_Inr atoi_itoa)

section \<open>The configuration in the database\<close>

type_synonym line_config = "string omap"

text \<open>
  \<^verbatim>\<open>json.Unmarshal\<close> into \<^verbatim>\<open>map[string]string\<close>: a member that is not a string leaves the zero
  value under its key, and a text that is not an object leaves the map empty.
\<close>

definition config_value :: "json \<Rightarrow> string" where
  "config_value v = (case v of JStr s \<Rightarrow> s | _ \<Rightarrow> '''')"

definition decodeLineConfig :: "string \<Rightarrow> line_config" where
  "decodeLineConfig raw =
     (if trim_space raw = '''' then []
      else (case json_parse raw of
              Some (JObj ms) \<Rightarrow> List.map (\<lambda>(k, v). (k, config_value v)) ms
            | _ \<Rightarrow> []))"

definition encodeLineConfig :: "line_config \<Rightarrow> string" where
  "encodeLineConfig config =
     (if config = [] then ''{}''
      else json_marshal (JObj (List.map (\<lambda>(k, v). (k, JStr v)) config)))"

definition wf_config :: "line_config \<Rightarrow> bool" where
  "wf_config c \<longleftrightarrow> owf c \<and> (\<forall>(k, v) \<in> set c. valid_utf8 k \<and> valid_utf8 v)"

lemma wf_config_json: "wf_config c \<Longrightarrow> wf_json (JObj (List.map (\<lambda>(k, v). (k, JStr v)) c))"
proof -
  have "\<forall>(k, v) \<in> set c. valid_utf8 k \<and> valid_utf8 v \<Longrightarrow> wf_members (List.map (\<lambda>(k, v). (k, JStr v)) c)"
    by (induction c) auto
  then show "wf_config c \<Longrightarrow> ?thesis"
    by (simp add: wf_config_def owf_map_values)
qed

lemma encode_nonblank: "trim_space (encodeLineConfig c) \<noteq> ''''"
proof -
  obtain cs where "encodeLineConfig c = CHR ''{'' # cs"
    by (cases "c = []") (auto simp: encodeLineConfig_def json_marshal_def)
  moreover have "trim_space (CHR ''{'' # cs) \<noteq> ''''"
    by (rule trim_space_nonblank [of "CHR ''{''"]) auto
  ultimately show ?thesis by simp
qed

lemma decode_encode: "wf_config c \<Longrightarrow> decodeLineConfig (encodeLineConfig c) = c"
proof (cases "c = []")
  case True
  have "json_parse (json_marshal (JObj [])) = Some (JObj [])"
    by (rule json_parse_marshal) simp
  then show ?thesis
    using True encode_nonblank [of c]
    by (simp add: decodeLineConfig_def encodeLineConfig_def json_marshal_def)
next
  case False
  assume "wf_config c"
  then have "json_parse (encodeLineConfig c) = Some (JObj (List.map (\<lambda>(k, v). (k, JStr v)) c))"
    using False wf_config_json by (simp add: encodeLineConfig_def)
  then show ?thesis
    using encode_nonblank [of c]
    by (simp add: decodeLineConfig_def config_value_def comp_def case_prod_beta)
qed

text \<open>What \<^verbatim>\<open>browserLineConfig\<close> lets out of the server, and \<^verbatim>\<open>cloneLineConfig\<close>.\<close>

definition browserLineConfig :: "line_config \<Rightarrow> line_config" where
  "browserLineConfig config = filter (\<lambda>(key, value). key \<noteq> ''realityPrivateKey'') config"

lemma browser_odel: "browserLineConfig c = odel ''realityPrivateKey'' c"
  by (auto simp: browserLineConfig_def odel_def intro: filter_cong)

definition cloneLineConfig :: "line_config \<Rightarrow> line_config" where
  "cloneLineConfig config = fold (\<lambda>(k, v) out. oput k v out) config []"

lemma cloneLineConfig_id [simp]: "owf c \<Longrightarrow> cloneLineConfig c = c"
  by (simp add: cloneLineConfig_def of_members_owf [unfolded of_members_def])

section \<open>Defaults\<close>

definition blank :: "line_config \<Rightarrow> string \<Rightarrow> bool" where
  "blank config key \<longleftrightarrow> trim_space (sget config key) = ''''"

definition fill :: "string \<Rightarrow> string \<Rightarrow> line_config \<Rightarrow> line_config" where
  "fill key v config = (if blank config key then oput key v config else config)"

definition fill_clientId :: "line_config \<Rightarrow> line_config W" where
  "fill_clientId config =
     (if blank config ''clientId''
      then bindM new_uuid (\<lambda>u. retM (oput ''clientId'' u config)) else retM config)"

definition randomHexString :: "nat \<Rightarrow> string \<Rightarrow> string W" where
  "randomHexString bytesLen fallback =
     (if bytesLen = 0 then retM fallback
      else bindM (rand_bytes bytesLen) (\<lambda>r.
        retM (case r of None \<Rightarrow> fallback | Some body \<Rightarrow> hex_encode body)))"

definition fill_shortId :: "string \<Rightarrow> line_config \<Rightarrow> line_config W" where
  "fill_shortId fallback config =
     (if blank config ''realityShortId''
      then bindM (randomHexString 8 fallback) (\<lambda>h. retM (oput ''realityShortId'' h config))
      else retM config)"

definition defaultNginxConfigPath :: "int \<Rightarrow> string" where
  "defaultNginxConfigPath lineID = ''/etc/nginx/conf.d/x-ui-line-'' @ itoa lineID @ ''.conf''"

text \<open>The four Reality options every default fills in the same way.\<close>

definition fill_reality_options :: "line_config \<Rightarrow> line_config" where
  "fill_reality_options config =
     fill ''realityMinClientVer'' defaultRealityMinClientVersion
       (fill ''realitySpiderX'' ''/''
         (fill ''realityFingerprint'' ''chrome'' (fill ''realityFlow'' ''xtls-rprx-vision'' config)))"

definition ws_defaults :: "int \<Rightarrow> line_config \<Rightarrow> line_config" where
  "ws_defaults lineID config =
     fill ''nginxConfigPath'' (defaultNginxConfigPath lineID)
       (fill ''localXrayPort'' (itoa (30000 + lineID))
         (fill ''wsPath'' (''/line-'' @ itoa lineID @ ''-ws'') config))"

definition bunny_defaults :: "line_config \<Rightarrow> line_config" where
  "bunny_defaults config = oput ''nginxApply'' ''true'' (fill ''originPort'' ''8443'' config)"

definition reality_target_defaults :: "line_config \<Rightarrow> line_config" where
  "reality_target_defaults config =
     (let c = fill ''realitySni'' ''auto'' config;
          sni = trim_space (sget c ''realitySni'')
      in fill ''realityDest'' (if equal_fold sni ''auto'' then ''auto'' else sni @ '':443'') c)"

definition ensureLineConfigDefaults :: "int \<Rightarrow> string \<Rightarrow> line_config \<Rightarrow> line_config W" where
  "ensureLineConfigDefaults lineID lineType config =
     bindM (if lineType = LineTypeCloudflare \<or> lineType = LineTypeBunny \<or> lineType = LineTypeReality
            then fill_clientId config else retM config) (\<lambda>c1.
     let c2 = (if lineType = LineTypeCloudflare \<or> lineType = LineTypeBunny then ws_defaults lineID c1 else c1);
         c3 = (if lineType = LineTypeBunny then bunny_defaults c2 else c2)
     in if lineType = LineTypeReality
        then bindM (fill_shortId (fmt_08x lineID) (reality_target_defaults c3))
               (\<lambda>c4. retM (fill_reality_options c4))
        else retM c3)"

text \<open>\<^verbatim>\<open>generateX25519KeyPair\<close> and \<^verbatim>\<open>ensureRealityConfig\<close>.\<close>

definition generateX25519KeyPair :: "(string \<times> string) W" where
  "generateX25519KeyPair =
     bindM (askM e_x25519) (\<lambda>r.
       case r of
         Inl m \<Rightarrow> failM (wrapf ''generate reality x25519 keypair: '' (Errorf m) '''')
       | Inr (priv, pub) \<Rightarrow> retM (b64_rawurl_encode priv, b64_rawurl_encode pub))"

definition reality_target_ensured :: "line_config \<Rightarrow> line_config" where
  "reality_target_ensured config =
     (let sni = trim_space (sget config ''realitySni'') in
      if sni = '''' \<or> equal_fold sni ''auto''
      then oput ''realityDest'' ''auto'' (oput ''realitySni'' ''auto'' config)
      else fill ''realityDest'' (sni @ '':443'') config)"

definition fill_reality_keys :: "line_config \<Rightarrow> line_config W" where
  "fill_reality_keys config =
     (if blank config ''realityPrivateKey'' \<or> blank config ''realityPublicKey''
      then bindM generateX25519KeyPair (\<lambda>(privateKey, publicKey).
             retM (oput ''realityPublicKey'' publicKey (oput ''realityPrivateKey'' privateKey config)))
      else retM config)"

definition ensureRealityConfig :: "line_config \<Rightarrow> line_config W" where
  "ensureRealityConfig config =
     bindM (fill_clientId config) (\<lambda>c1.
     bindM (fill_shortId '''' (reality_target_ensured c1)) (\<lambda>c2.
       fill_reality_keys (fill_reality_options c2)))"

section \<open>What an update preserves; staged certificates\<close>

definition preserveKeys :: "string list" where
  "preserveKeys =
     [''clientId'', ''realityDest'', ''realityPrivateKey'', ''realityPublicKey'', ''realityFlow'',
      ''realityFingerprint'', ''realitySpiderX'', ''realityMinClientVer'', ''nginxPendingCertFile'',
      ''nginxPendingKeyFile'', ''nginxPendingCertExpiresAt'', ''nginxCertMode'']"

definition mergePreservedLineConfig :: "line_config \<Rightarrow> line_config \<Rightarrow> line_config" where
  "mergePreservedLineConfig existing next0 =
     fold (\<lambda>key nxt.
       if blank nxt key \<and> \<not> blank existing key then oput key (sget existing key) nxt else nxt)
     preserveKeys next0"

definition promotePendingOriginCertificate :: "line_config \<Rightarrow> line_config res" where
  "promotePendingOriginCertificate config =
     (let pendingCertificate = trim_space (sget config ''nginxPendingCertFile'');
          pendingKey = trim_space (sget config ''nginxPendingKeyFile'') in
      if pendingCertificate = '''' \<and> pendingKey = '''' then Inr config
      else if pendingCertificate = '''' \<or> pendingKey = '''' then
        Inl (Errorf ''pending origin certificate is incomplete; upload both certificate and private key again'')
      else if \<not> truthy (sget config ''nginxApply'') then Inr config
      else Inr
        (odel ''nginxPendingCertExpiresAt'' (odel ''nginxPendingKeyFile'' (odel ''nginxPendingCertFile''
          (oput ''nginxCertMode'' ''managed'' (oput ''nginxKeyFile'' pendingKey
            (oput ''nginxCertFile'' pendingCertificate config)))))))"

section \<open>Save requests\<close>

record line_save_request =
  q_type :: string
  q_name :: string
  q_entryHost :: string
  q_entryPort :: int
  q_outboundType :: string
  q_outboundHost :: string
  q_outboundPort :: int
  q_outboundUsername :: string
  q_outboundPassword :: string
  q_validFrom :: "int option"
  q_validUntil :: "int option"
  q_config :: line_config

text \<open>
  The loop over \<^verbatim>\<open>req.Config\<close>, which deletes and inserts while it ranges.  \<open>ks\<close> is the order in
  which the range reaches the original keys; a key deleted before it is reached is skipped, and
  one that was inserted under its trimmed name would be rewritten to itself if it were reached.
\<close>

fun normalize_config :: "string list \<Rightarrow> line_config \<Rightarrow> line_config" where
  "normalize_config [] config = config"
| "normalize_config (key # ks) config =
     normalize_config ks
       (case oget config key of
          None \<Rightarrow> config
        | Some value \<Rightarrow>
           (let k = trim_space key; v = trim_space value in
            if k = '''' then odel key config
            else oput k v (if k \<noteq> key then odel key config else config)))"

definition valid_outbound_type :: "string \<Rightarrow> bool" where
  "valid_outbound_type t \<longleftrightarrow> t = ''socks5'' \<or> t = ''http'' \<or> t = ''https''"

definition normalizeLineSaveRequest :: "line_save_request \<Rightarrow> line_save_request W" where
  "normalizeLineSaveRequest req0 =
     (let ty = trim_space (q_type req0);
          nm0 = trim_space (q_name req0);
          port = (if q_entryPort req0 \<le> 0 then defaultLinePort ty else q_entryPort req0);
          ot0 = to_lower (trim_space (q_outboundType req0));
          ot = (if ot0 = '''' then ''socks5'' else ot0)
      in thenM (guardM (isSupportedLineType ty) (Errorf (''unsupported line type: '' @ ty)))
        (thenM (guardM (q_entryPort req0 > 0 \<or> defaultLinePort ty > 0)
                  (Errorf (''entry port is required for '' @ ty)))
        (thenM (guardM (port \<le> 65535) (Errorf (''entry port out of range: '' @ itoa port)))
        (thenM (guardM (valid_outbound_type ot) (Errorf (''unsupported outbound type: '' @ ot)))
        (thenM (guardM (0 \<le> q_outboundPort req0 \<and> q_outboundPort req0 \<le> 65535)
                  (Errorf (''outbound port out of range: '' @ itoa (q_outboundPort req0))))
        (bindM (range_keys (q_config req0)) (\<lambda>ks.
           retM (req0\<lparr>q_type := ty,
                      q_name := (if nm0 = '''' then lineTypeName ty else nm0),
                      q_entryHost := trim_space (q_entryHost req0),
                      q_entryPort := port,
                      q_outboundType := ot,
                      q_outboundHost := trim_space (q_outboundHost req0),
                      q_outboundUsername := trim_space (q_outboundUsername req0),
                      q_config := normalize_config ks (q_config req0)\<rparr>))))))))"

definition lineOutboundFromRequest :: "int \<Rightarrow> string \<Rightarrow> line_save_request \<Rightarrow> string \<Rightarrow> line_outbound" where
  "lineOutboundFromRequest lineID tag req existingPassword =
     \<lparr>o_id = 0, o_lineId = lineID, o_type = q_outboundType req, o_host = q_outboundHost req,
      o_port = q_outboundPort req, o_username = q_outboundUsername req,
      o_password = (if q_outboundPassword req \<noteq> '''' then q_outboundPassword req else existingPassword),
      o_tag = tag, o_enabled = True, o_createdAt = 0, o_updatedAt = 0\<rparr>"

section \<open>Validation\<close>

definition validatePortValue :: "string \<Rightarrow> int \<Rightarrow> unit res" where
  "validatePortValue label port =
     (if port \<le> 0 \<or> port > 65535
      then Inl (Errorf (label @ '' is required and must be between 1 and 65535'')) else Inr ())"

definition ws_chars :: string where
  "ws_chars = [CHR '' '', CHR 0x09, CHR 0x0D, CHR 0x0A]"

definition validateHostValue :: "string \<Rightarrow> string \<Rightarrow> unit res" where
  "validateHostValue label host0 =
     (let host = trim_space host0 in
      if host = '''' then Inl (Errorf (label @ '' is required''))
      else if contains_any host (ws_chars @ [CHR ''/'', CHR 0x5C])
      then Inl (Errorf (label @ '' is invalid: '' @ host)) else Inr ())"

text \<open>
  A path without a question mark parses to an empty \<^verbatim>\<open>RawQuery\<close>, a request URI has no fragment, and
  \<^verbatim>\<open>parsed.Path\<close> starts with the slash, so the last test of the function never fires.
\<close>

definition validateWSPath :: "string \<Rightarrow> string res" where
  "validateWSPath raw =
     (let path = trim_space raw in
      if path = '''' then Inl (Errorf ''Cloudflare WS path is required'')
      else if \<not> has_prefix path ''/'' then Inl (Errorf ''Cloudflare WS path must start with /'')
      else if contains_any path (ws_chars @ ''?#'')
      then Inl (Errorf ''Cloudflare WS path must not contain whitespace, query, or fragment'')
      else if \<not> request_path_ok path
      then Inl (wrapf ''Cloudflare WS path is invalid: '' (lib_error ''parse'' path) '''')
      else Inr path)"

definition validateBunnyConfig :: "line_config \<Rightarrow> unit res" where
  "validateBunnyConfig config =
     (let originHost = trim_space (sget config ''originHost'');
          email = trim_space (sget config ''acmeEmail'') in
      case validateHostValue ''Bunny origin host'' originHost of
        Inl e \<Rightarrow> Inl e
      | Inr _ \<Rightarrow>
         if parse_ip_ok originHost \<or> \<not> contains_char originHost (CHR ''.'')
         then Inl (Errorf ''Bunny origin host must be a public domain name'')
         else (case parsePortString (sget config ''originPort'') of
                 Inl e \<Rightarrow> Inl (wrapf ''Bunny origin port invalid: '' e '''')
               | Inr _ \<Rightarrow>
                  if \<not> contains_char email (CHR ''@'') \<or> has_prefix email ''@'' \<or> has_suffix email ''@''
                  then Inl (Errorf ''certificate notification email is required'') else Inr ()))"

definition validateRealityDest :: "string \<Rightarrow> unit res" where
  "validateRealityDest raw =
     (let dest = trim_space raw in
      if dest = '''' then Inl (Errorf ''Reality dest is required'')
      else (case split_host_port dest of
              None \<Rightarrow> Inl (wrapf ''Reality dest must be host:port: '' (lib_error ''address'' dest) '''')
            | Some (host, portRaw) \<Rightarrow>
               (case validateHostValue ''Reality dest host'' host of
                  Inl e \<Rightarrow> Inl e
                | Inr _ \<Rightarrow>
                   (case parsePortString portRaw of
                      Inl e \<Rightarrow> Inl (wrapf ''Reality dest port invalid: '' e '''')
                    | Inr _ \<Rightarrow> Inr ()))))"

definition validateRealityShortID :: "string \<Rightarrow> unit res" where
  "validateRealityShortID shortID0 =
     (let shortID = trim_space shortID0 in
      if shortID = '''' then Inl (Errorf ''Reality Short ID is required'')
      else if length shortID > 16 \<or> odd (length shortID)
      then Inl (Errorf ''Reality Short ID must be even-length hex up to 16 characters'')
      else if \<not> hex_decode_ok shortID
      then Inl (wrapf ''Reality Short ID must be hex: '' (lib_error ''encoding/hex'' shortID) '''')
      else Inr ())"

definition validateUUIDValue :: "(string \<Rightarrow> bool) \<Rightarrow> string \<Rightarrow> string \<Rightarrow> unit res" where
  "validateUUIDValue uuid_ok label v =
     (if uuid_ok (trim_space v) then Inr ()
      else Inl (wrapf (label @ '' is invalid: '') (lib_error ''uuid'' (trim_space v)) ''''))"

definition validateX25519Key :: "string \<Rightarrow> string \<Rightarrow> unit res" where
  "validateX25519Key label value0 =
     (let v = trim_space value0 in
      if v = '''' then Inl (Errorf (label @ '' is required''))
      else (case b64_rawurl_decode v of
              None \<Rightarrow> Inl (wrapf (label @ '' must be base64url without padding: '') (lib_error ''base64'' v) '''')
            | Some decoded \<Rightarrow>
               if length decoded \<noteq> 32 then Inl (Errorf (label @ '' must decode to 32 bytes'')) else Inr ()))"

text \<open>A sequence of checks: the first error.\<close>

fun checks :: "unit res list \<Rightarrow> unit res" where
  "checks [] = Inr ()"
| "checks (c # cs) = (case c of Inl e \<Rightarrow> Inl e | Inr _ \<Rightarrow> checks cs)"

lemma checks_Inr [simp]: "checks cs = Inr () \<longleftrightarrow> (\<forall>c \<in> set cs. c = Inr ())"
  by (induction cs) (auto split: sum.splits)

definition validateRealityConfig :: "(string \<Rightarrow> bool) \<Rightarrow> line_config \<Rightarrow> unit res" where
  "validateRealityConfig uuid_ok config =
     checks
       [validateHostValue ''Reality SNI'' (sget config ''realitySni''),
        validateRealityDest (sget config ''realityDest''),
        validateRealityShortID (sget config ''realityShortId''),
        validateUUIDValue uuid_ok ''Reality client ID'' (sget config ''clientId''),
        validateX25519Key ''Reality private key'' (sget config ''realityPrivateKey''),
        validateX25519Key ''Reality public key'' (sget config ''realityPublicKey'')]"

section \<open>Validation before an apply\<close>

definition nginxServerHost :: "line_profile \<Rightarrow> line_config \<Rightarrow> string" where
  "nginxServerHost line config =
     (if l_type line = LineTypeBunny then trim_space (sget config ''originHost'') else l_entryHost line)"

definition nginxListenPort :: "line_profile \<Rightarrow> line_config \<Rightarrow> int" where
  "nginxListenPort line config =
     (if l_type line = LineTypeBunny
      then (case parsePortString (sget config ''originPort'') of Inr port \<Rightarrow> port | Inl _ \<Rightarrow> l_entryPort line)
      else l_entryPort line)"

text \<open>The part for the two Nginx line types; it rewrites \<open>wsPath\<close>.\<close>

definition validateWSLine :: "line_profile \<Rightarrow> line_config \<Rightarrow> line_config res" where
  "validateWSLine line config0 =
     (case validateWSPath (sget config0 ''wsPath'') of
        Inl e \<Rightarrow> Inl e
      | Inr wsPath \<Rightarrow>
         (let config = oput ''wsPath'' wsPath config0 in
          case parsePortString (sget config ''localXrayPort'') of
            Inl e \<Rightarrow> Inl (wrapf ''local Xray port invalid: '' e '''')
          | Inr localPort \<Rightarrow>
             if localPort = l_entryPort line
             then Inl (Errorf (''local Xray port must not equal public entry port: '' @ itoa localPort))
             else if l_type line = LineTypeBunny then
               (case validateBunnyConfig config of
                  Inl e \<Rightarrow> Inl e
                | Inr _ \<Rightarrow>
                   if localPort = nginxListenPort line config
                   then Inl (Errorf (''local Xray port must not equal Bunny origin port: '' @ itoa localPort))
                   else Inr config)
             else Inr config))"

text \<open>
  \<^verbatim>\<open>validateLineForApply\<close>: the outbound with its type normalised and the completed configuration.
  Every caller passes a line and an outbound that exist.
\<close>

definition validateLineForApply ::
    "line_profile \<Rightarrow> line_outbound \<Rightarrow> line_config \<Rightarrow> (line_outbound \<times> line_config) W" where
  "validateLineForApply line outbound config =
     (let ot = to_lower (trim_space (o_type outbound)); outbound' = outbound\<lparr>o_type := ot\<rparr> in
      thenM (guardM (isSupportedLineType (l_type line))
               (Errorf (''unsupported line type for MVP apply: '' @ l_type line)))
     (thenM (liftM (checks
        [validateHostValue ''entry host'' (l_entryHost line),
         validatePortValue ''entry port'' (l_entryPort line),
         (if valid_outbound_type ot then Inr () else Inl (Errorf ''residential outbound type is required'')),
         validateHostValue ''residential outbound host'' (o_host outbound),
         validatePortValue ''residential outbound port'' (o_port outbound)]))
     (if isNginxWSLine (l_type line)
      then bindM (liftM (validateWSLine line config)) (\<lambda>c. retM (outbound', c))
      else if l_type line = LineTypeReality
      then bindM (ensureRealityConfig config) (\<lambda>c.
             bindM (askM (\<lambda>e t. e_uuidOk e)) (\<lambda>uuid_ok.
             thenM (liftM (validateRealityConfig uuid_ok c)) (retM (outbound', c))))
      else retM (outbound', config))))"

section \<open>Shadowsocks keys (internal/web/service/client\_crud.go)\<close>

definition shadowsocksKeyBytes :: "string \<Rightarrow> nat" where
  "shadowsocksKeyBytes m =
     (if m = ''2022-blake3-aes-128-gcm'' then 16
      else if m = ''2022-blake3-aes-256-gcm'' \<or> m = ''2022-blake3-chacha20-poly1305'' then 32
      else 0)"

definition validShadowsocksClientKey :: "string \<Rightarrow> string \<Rightarrow> bool" where
  "validShadowsocksClientKey m key =
     (let n = shadowsocksKeyBytes m in
      if n = 0 then key \<noteq> ''''
      else (case b64_std_decode key of None \<Rightarrow> False | Some decoded \<Rightarrow> length decoded = n))"

text \<open>
  \<^verbatim>\<open>random.Base64Bytes\<close> (internal/util/random) panics when the entropy source fails; the panic
  leaves the handler as an error would (the transaction is rolled back).
\<close>

definition Base64Bytes :: "nat \<Rightarrow> string W" where
  "Base64Bytes n =
     bindM (rand_bytes n) (\<lambda>r.
       case r of None \<Rightarrow> failM (Errorf ''crypto/rand failed'') | Some b \<Rightarrow> retM (b64_encode b))"

definition randomShadowsocksClientKey :: "string \<Rightarrow> string W" where
  "randomShadowsocksClientKey m =
     (if shadowsocksKeyBytes m > 0 then Base64Bytes (shadowsocksKeyBytes m)
      else bindM new_uuid (\<lambda>u. retM (filter (\<lambda>c. c \<noteq> CHR ''-'') u)))"

section \<open>Lemmas\<close>

lemma sget_fill: "sget (fill k v c) k' = (if k' = k \<and> blank c k then v else sget c k')"
  by (simp add: fill_def)

lemma blank_fill: "trim_space v \<noteq> '''' \<Longrightarrow> blank (fill k v c) k' \<longleftrightarrow> k' \<noteq> k \<and> blank c k'"
  by (auto simp: fill_def blank_def)

lemma fill_id: "\<not> blank c k \<Longrightarrow> fill k v c = c"
  by (simp add: fill_def)

lemma owf_fill [simp]: "owf c \<Longrightarrow> owf (fill k v c)"
  by (simp add: fill_def)

lemma blank_oput: "blank (oput k v c) k' \<longleftrightarrow> (if k' = k then trim_space v = '''' else blank c k')"
  by (simp add: blank_def)

lemma oget_sget: "\<not> blank c k \<Longrightarrow> oget c k = Some (sget c k)"
  by (auto simp: blank_def sget_def split: option.splits)

lemma oput_same:
  assumes "owf c" "oget c k = Some v" shows "oput k v c = c"
proof (rule owf_ext)
  show "oget (oput k v c) k' = oget c k'" for k' using assms(2) by simp
qed (use assms in simp_all)

lemmas fill_defs = fill_clientId_def fill_shortId_def ws_defaults_def bunny_defaults_def
  reality_target_defaults_def fill_reality_options_def

lemma keeps_fill_clientId [keeps]: "preorderR R \<Longrightarrow> keepsM (db_rel R) (fill_clientId c)"
  unfolding fill_clientId_def by (intro keeps)

lemma keeps_randomHexString [keeps]: "preorderR R \<Longrightarrow> keepsM (db_rel R) (randomHexString n f)"
  unfolding randomHexString_def by (intro keeps)

lemma keeps_fill_shortId [keeps]: "preorderR R \<Longrightarrow> keepsM (db_rel R) (fill_shortId f c)"
  unfolding fill_shortId_def by (intro keeps)

lemma keeps_ensureLineConfigDefaults [keeps]:
  "preorderR R \<Longrightarrow> keepsM (db_rel R) (ensureLineConfigDefaults i t c)"
  unfolding ensureLineConfigDefaults_def Let_def by (intro keeps)

lemma keeps_generateX25519KeyPair [keeps]: "preorderR R \<Longrightarrow> keepsM (db_rel R) generateX25519KeyPair"
  unfolding generateX25519KeyPair_def by (intro keeps)

lemma keeps_ensureRealityConfig [keeps]: "preorderR R \<Longrightarrow> keepsM (db_rel R) (ensureRealityConfig c)"
  unfolding ensureRealityConfig_def fill_reality_keys_def by (intro keeps)

lemma keeps_normalizeLineSaveRequest [keeps]:
  "preorderR R \<Longrightarrow> keepsM (db_rel R) (normalizeLineSaveRequest q)"
  unfolding normalizeLineSaveRequest_def Let_def by (intro keeps)

lemma keeps_validateLineForApply [keeps]:
  "preorderR R \<Longrightarrow> keepsM (db_rel R) (validateLineForApply l b c)"
  unfolding validateLineForApply_def Let_def by (intro keeps)

lemma keeps_randomShadowsocksClientKey [keeps]:
  "preorderR R \<Longrightarrow> keepsM (db_rel R) (randomShadowsocksClientKey m)"
  unfolding randomShadowsocksClientKey_def Base64Bytes_def by (intro keeps)

text \<open>What was decoded can be encoded and decoded again.\<close>

lemma wf_members_map_get: "wf_members ms \<Longrightarrow> oget ms k = Some v \<Longrightarrow> wf_json v"
  by (induction ms) (auto simp: oget_Cons split: if_splits)

lemma wf_members_in: "wf_members ms \<Longrightarrow> (k, v) \<in> set ms \<Longrightarrow> valid_utf8 k \<and> wf_json v"
  by (induction ms) auto

lemma wf_config_decode: "wf_config (decodeLineConfig raw)"
proof -
  have *: "valid_utf8 k \<and> valid_utf8 v" if "wf_members ms" "(k, v) \<in> set (List.map (\<lambda>(k, v). (k, config_value v)) ms)" for ms k v
    using that by (auto simp: config_value_def dest: wf_members_in split: json.splits)
  have "json_parse raw = Some (JObj ms) \<Longrightarrow> wf_config (List.map (\<lambda>(k, v). (k, config_value v)) ms)" for ms
    using json_parse_wf [of raw "JObj ms"] * [of ms] by (fastforce simp: wf_config_def owf_map_values)
  then show ?thesis
    by (auto simp: decodeLineConfig_def wf_config_def split: option.splits json.splits)
qed

lemma set_oput: "set (oput k v m) \<subseteq> insert (k, v) (set m)"
  by (induction k v m rule: oput.induct) auto

lemma wf_config_oput: "wf_config c \<Longrightarrow> valid_utf8 k \<Longrightarrow> valid_utf8 v \<Longrightarrow> wf_config (oput k v c)"
  using set_oput [of k v c] by (fastforce simp: wf_config_def)

lemma wf_config_odel: "wf_config c \<Longrightarrow> wf_config (odel k c)"
  by (auto simp: wf_config_def) (auto simp: odel_def)

lemma wf_config_owf [simp]: "wf_config c \<Longrightarrow> owf c"
  by (simp add: wf_config_def)

lemma wf_config_sget: "wf_config c \<Longrightarrow> valid_utf8 (sget c k)"
proof (cases "oget c k")
  case (Some v)
  then have "(k, v) \<in> set c" by (simp add: oget_def map_of_SomeD)
  then show "wf_config c \<Longrightarrow> ?thesis" using Some by (auto simp: wf_config_def sget_def)
qed (simp add: sget_def)

lemma decode_browser:
  "sget (browserLineConfig c) ''realityPrivateKey'' = ''''"
  "k \<noteq> ''realityPrivateKey'' \<Longrightarrow> sget (browserLineConfig c) k = sget c k"
  by (simp_all add: browser_odel)

end
