(* ===== verification/LinePlan.thy ===== *)
theory LinePlan
  imports LineConfig
begin

text \<open>
  The deployment plan of a line and what is rendered from it (internal/web/service/line.go,
  line_subscription.go): the summary, the drafts of the Xray inbound and outbound, the Nginx server
  block with the subscription location.  The settings the location depends on
  are read through \<open>getString\<close> (internal/web/service/setting.go).
\<close>

abbreviation NL :: string where "NL \<equiv> [CHR 0x0A]"
abbreviation DQ :: string where "DQ \<equiv> [CHR 0x22]"

section \<open>Settings\<close>

definition normalizeBasePath :: "string \<Rightarrow> string" where
  "normalizeBasePath p0 =
     (let p = trim_space p0 in
      if p = '''' then ''/''
      else let q = (if has_prefix p ''/'' then p else ''/'' @ p)
           in if has_suffix q ''/'' then q else q @ ''/'')"

text \<open>The entries of \<^verbatim>\<open>defaultValueMap\<close> used here.\<close>

definition defaultValueMap :: "env \<Rightarrow> string \<Rightarrow> string option" where
  "defaultValueMap e key =
     (if key = ''webPort'' then Some ''2053''
      else if key = ''webCertFile'' \<or> key = ''webKeyFile'' then Some ''''
      else if key = ''webBasePath'' then Some (normalizeBasePath (e_basePath e))
      else if key = ''xrayTemplateConfig'' then Some (e_template e)
      else if key = ''secret'' then Some (e_secret e)
      else if key = ''panelOutbound'' then Some ''''
      else if key = ''panelGuid'' then Some (e_panelGuid e)
      else None)"

definition find_setting :: "string \<Rightarrow> db \<Rightarrow> setting option" where
  "find_setting key d = find (\<lambda>r. st_key r = key) (d_settings d)"

definition getSetting :: "string \<Rightarrow> setting W" where
  "getSetting key = db_get (find_setting key)"

definition getString :: "string \<Rightarrow> string W" where
  "getString key =
     bindM (tryM (getSetting key)) (\<lambda>r.
       case r of
         Inr st \<Rightarrow> retM (st_value st)
       | Inl e \<Rightarrow>
          if is_not_found e
          then bindM (askM (\<lambda>en t. defaultValueMap en key)) (\<lambda>v.
                 case v of
                   None \<Rightarrow> failM (Errorf (''key <'' @ key @ ''> not in defaultValueMap''))
                 | Some x \<Rightarrow> retM x)
          else failM e)"

definition effectiveSettingValue :: "env \<Rightarrow> string \<Rightarrow> string \<Rightarrow> string" where
  "effectiveSettingValue e key stored =
     (if stored = '''' then (case defaultValueMap e key of Some v \<Rightarrow> v | None \<Rightarrow> stored) else stored)"

definition getInt :: "string \<Rightarrow> int W" where
  "getInt key =
     bindM (getString key) (\<lambda>str.
     bindM (askM (\<lambda>en t. effectiveSettingValue en key str)) (\<lambda>v.
       case atoi v of None \<Rightarrow> failM (lib_error ''strconv.Atoi'' v) | Some n \<Rightarrow> retM n))"

definition GetPort :: "int W" where "GetPort = getInt ''webPort''"
definition GetCertFile :: "string W" where "GetCertFile = getString ''webCertFile''"
definition GetKeyFile :: "string W" where "GetKeyFile = getString ''webKeyFile''"
definition GetBasePath :: "string W" where
  "GetBasePath = bindM (getString ''webBasePath'') (\<lambda>p. retM (normalizeBasePath p))"

section \<open>The subscription location\<close>

definition trim_right_char :: "char \<Rightarrow> string \<Rightarrow> string" where
  "trim_right_char c s = rev (dropWhile (\<lambda>x. x = c) (rev s))"

definition lineSubscriptionPath :: "string W" where
  "lineSubscriptionPath =
     bindM (tryM GetBasePath) (\<lambda>r.
       let basePath = (case r of Inr p \<Rightarrow> if trim_space p = '''' then ''/'' else p | Inl _ \<Rightarrow> ''/'')
       in retM (trim_right_char (CHR ''/'') basePath @ ''/rp/sub/''))"

definition nonblank_ok :: "string res \<Rightarrow> bool" where
  "nonblank_ok r \<longleftrightarrow> (case r of Inr s \<Rightarrow> trim_space s \<noteq> '''' | Inl _ \<Rightarrow> False)"

definition buildLineSubscriptionNginxLocation :: "string W" where
  "buildLineSubscriptionNginxLocation =
     bindM (tryM GetPort) (\<lambda>pr.
     let panelPort = (case pr of Inr p \<Rightarrow> if p \<le> 0 \<or> p > 65535 then 2053 else p | Inl _ \<Rightarrow> 2053) in
     bindM (tryM GetCertFile) (\<lambda>cert.
     bindM (if nonblank_ok cert
            then bindM (tryM GetKeyFile) (\<lambda>key. retM (nonblank_ok key)) else retM False) (\<lambda>tls.
     bindM lineSubscriptionPath (\<lambda>subPath.
       retM (join NL
         [''    location ^~ '' @ subPath @ '' {'',
          ''        access_log off;'',
          ''        proxy_set_header Host $host;'',
          ''        proxy_set_header X-Real-IP $remote_addr;'',
          ''        proxy_set_header X-Forwarded-For $proxy_add_x_forwarded_for;'',
          ''        proxy_set_header X-Forwarded-Proto $scheme;''
            @ (if tls then NL @ ''        proxy_ssl_verify off;'' else ''''),
          ''        proxy_pass '' @ (if tls then ''https'' else ''http'') @ ''://127.0.0.1:'' @ itoa panelPort @ '';'',
          ''    }''])))))"

section \<open>The Nginx server block\<close>

definition buildNginxPlan :: "line_profile \<Rightarrow> line_config \<Rightarrow> string W" where
  "buildNginxPlan line config =
     (let host0 = nginxServerHost line config;
          host = (if host0 = '''' then ''_'' else host0);
          certFile = trim_space (sget config ''nginxCertFile'');
          keyFile = trim_space (sget config ''nginxKeyFile'');
          tlsConfig =
            (if certFile \<noteq> '''' \<and> keyFile \<noteq> ''''
             then join NL [''    ssl_certificate '' @ certFile @ '';'',
                           ''    ssl_certificate_key '' @ keyFile @ '';'',
                           ''    ssl_protocols TLSv1.2 TLSv1.3;'']
             else ''    # Set nginxCertFile and nginxKeyFile before enabling Nginx apply.'')
      in bindM (if l_type line = LineTypeCloudflare
                then bindM buildLineSubscriptionNginxLocation (\<lambda>l. retM (NL @ NL @ l))
                else retM '''') (\<lambda>subscriptionLocation.
         retM (join NL
           [''server {'',
            ''    listen '' @ itoa (nginxListenPort line config) @ '' ssl http2;'',
            ''    server_name '' @ host @ '';'',
            '''',
            tlsConfig,
            '''',
            ''    location '' @ sget config ''wsPath'' @ '' {'',
            ''        proxy_http_version 1.1;'',
            ''        proxy_set_header Upgrade $http_upgrade;'',
            ''        proxy_set_header Connection '' @ DQ @ ''upgrade'' @ DQ @ '';'',
            ''        proxy_set_header Host $host;'',
            ''        proxy_pass http://127.0.0.1:'' @ sget config ''localXrayPort'' @ '';'',
            ''    }'' @ subscriptionLocation,
            ''}''])))"

section \<open>The plan\<close>

record line_apply_plan =
  p_title :: string
  p_summary :: "string list"
  p_xrayInbound :: json
  p_xrayOutbound :: json
  p_nginx :: string
  p_checks :: "string list"

definition lineInboundTag :: "int \<Rightarrow> string" where
  "lineInboundTag lineID = ''line-'' @ itoa lineID @ ''-in''"

definition lineOutboundTag :: "int \<Rightarrow> string" where
  "lineOutboundTag lineID = ''line-'' @ itoa lineID @ ''-out''"

definition buildLineSummary :: "line_profile \<Rightarrow> line_outbound option \<Rightarrow> line_config \<Rightarrow> string list" where
  "buildLineSummary line outbound config =
     [txt_sum_entry @ formatHostPort (l_entryHost line) (l_entryPort line),
      txt_sum_chain @ l_chainText line]
     @ (case outbound of
          None \<Rightarrow> []
        | Some ob \<Rightarrow> [txt_sum_outlet @ formatHostPort (o_host ob) (o_port ob)])
     @ (if isNginxWSLine (l_type line)
        then [txt_sum_ws @ sget config ''wsPath'', txt_sum_port @ sget config ''localXrayPort''] else [])
     @ (if l_type line = LineTypeReality
        then [''Reality SNI: '' @ sget config ''realitySni'',
              ''Reality Dest: '' @ sget config ''realityDest'',
              ''Reality Short ID: '' @ sget config ''realityShortId''] else [])
     @ (if l_type line = LineTypeShadowsocks
        then [''Shadowsocks method: '' @ defaultShadowsocksMethod] else [])"

definition buildXrayInboundPlan :: "line_profile \<Rightarrow> line_config \<Rightarrow> json" where
  "buildXrayInboundPlan line config =
     (let tag = (''tag'', JStr (lineInboundTag (l_id line)));
          str = (\<lambda>k. JStr (sget config k)) in
      if isNginxWSLine (l_type line) then
        jobj [tag, (''listen'', JStr ''127.0.0.1''), (''port'', str ''localXrayPort''),
              (''protocol'', JStr ''vless''),
              (''transport'', jobj [(''network'', JStr ''ws''), (''path'', str ''wsPath'')])]
      else if l_type line = LineTypeReality then
        jobj [tag, (''listen'', JStr ''0.0.0.0''), (''port'', JInt (l_entryPort line)),
              (''protocol'', JStr ''vless''), (''security'', JStr ''reality''),
              (''reality'',
                jobj [(''sni'', str ''realitySni''), (''dest'', str ''realityDest''),
                      (''shortId'', str ''realityShortId''), (''publicKey'', str ''realityPublicKey''),
                      (''fingerprint'', str ''realityFingerprint''), (''flow'', str ''realityFlow'')])]
      else if l_type line = LineTypeShadowsocks then
        jobj [tag, (''listen'', JStr ''0.0.0.0''), (''port'', JInt (l_entryPort line)),
              (''protocol'', JStr ''shadowsocks''),
              (''transport'', jobj [(''network'', JStr ''tcp'')]),
              (''method'', JStr defaultShadowsocksMethod)]
      else if l_type line = LineTypeTrojan then
        jobj [tag, (''listen'', JStr ''0.0.0.0''), (''port'', JInt (l_entryPort line)),
              (''protocol'', JStr ''trojan''), (''security'', JStr ''tls'')]
      else jobj [tag])"

definition buildXrayOutboundPlan :: "line_profile \<Rightarrow> line_outbound option \<Rightarrow> json" where
  "buildXrayOutboundPlan line outbound =
     (let tag = (''tag'', JStr (if l_outboundTag line = '''' then lineOutboundTag (l_id line)
                                else l_outboundTag line)) in
      case outbound of
        None \<Rightarrow> jobj [tag, (''protocol'', JStr ''pending'')]
      | Some ob \<Rightarrow>
         jobj [tag, (''protocol'', JStr (if o_type ob = ''https'' then ''http'' else o_type ob)),
               (''server'', JStr (o_host ob)), (''port'', JInt (o_port ob)), (''user'', JStr (o_username ob))])"

definition buildLineApplyPlan ::
    "line_profile \<Rightarrow> line_outbound option \<Rightarrow> line_config \<Rightarrow> line_apply_plan W" where
  "buildLineApplyPlan line outbound config =
     (let outboundType = (case outbound of
                            Some ob \<Rightarrow> if o_type ob \<noteq> '''' then o_type ob else ''socks5''
                          | None \<Rightarrow> ''socks5'');
          checks0 = [txt_ck_port, txt_ck_outlet, txt_ck_xray, txt_ck_chain];
          originCheck = (if l_type line = LineTypeBunny then txt_ck_bunny_origin else txt_ck_cf_origin)
      in bindM (if isNginxWSLine (l_type line) then buildNginxPlan line config else retM '''') (\<lambda>nginx.
         retM \<lparr>p_title = lineTypeName (l_type line),
               p_summary = buildLineSummary line outbound config @ [txt_outlet_type @ to_upper outboundType],
               p_xrayInbound = buildXrayInboundPlan line config,
               p_xrayOutbound = buildXrayOutboundPlan line outbound,
               p_nginx = nginx,
               p_checks = (if isNginxWSLine (l_type line) then [txt_ck_nginx, originCheck] else []) @ checks0\<rparr>))"

end
