(* ===== verification/LineStore.thy ===== *)
theory LineStore
  imports LinePlan
begin

text \<open>
  The statements line management issues through gorm.  \<^verbatim>\<open>First\<close> is the matching row with the lowest
  key, or \<open>RecordNotFound\<close>; \<^verbatim>\<open>Create\<close> appends a row under the next key and stamps its time columns;
  \<^verbatim>\<open>Updates\<close> with a map changes the rows that match and stamps \<open>updated_at\<close>; a unique index that
  would be violated is a database error.
\<close>

section \<open>Lines\<close>

definition find_line :: "int \<Rightarrow> db \<Rightarrow> line_profile option" where
  "find_line lid d = find (\<lambda>l. l_id l = lid) (d_lines d)"

definition first_line :: "int \<Rightarrow> line_profile W" where
  "first_line lid = db_get (find_line lid)"

definition create_line :: "line_profile \<Rightarrow> line_profile W" where
  "create_line line =
     bindM time_now (\<lambda>now. dbM (\<lambda>d.
       let l = line\<lparr>l_id := d_nextLine d, l_createdAt := now, l_updatedAt := now\<rparr>
       in (Inr l, d\<lparr>d_lines := d_lines d @ [l], d_nextLine := d_nextLine d + 1\<rparr>)))"

definition upd_lines :: "(line_profile \<Rightarrow> bool) \<Rightarrow> (line_profile \<Rightarrow> line_profile) \<Rightarrow> int \<Rightarrow> db \<Rightarrow> db" where
  "upd_lines P f now d = d\<lparr>d_lines := update_where P (\<lambda>l. (f l)\<lparr>l_updatedAt := now\<rparr>) (d_lines d)\<rparr>"

text \<open>\<^verbatim>\<open>tx.Model(&line).Updates(...)\<close>, which changes the struct in memory as well.\<close>

definition model_line_updates :: "line_profile \<Rightarrow> (line_profile \<Rightarrow> line_profile) \<Rightarrow> line_profile W" where
  "model_line_updates line f =
     bindM time_now (\<lambda>now.
     thenM (db_exec (upd_lines (\<lambda>l. l_id l = l_id line) f now))
       (retM ((f line)\<lparr>l_updatedAt := now\<rparr>)))"

text \<open>\<^verbatim>\<open>db.Model(&LineProfile{}).Where(...).Updates(...)\<close>: how many rows it matched.\<close>

definition lines_updates :: "(line_profile \<Rightarrow> bool) \<Rightarrow> (line_profile \<Rightarrow> line_profile) \<Rightarrow> nat W" where
  "lines_updates P f =
     bindM time_now (\<lambda>now.
       dbM (\<lambda>d. (Inr (length (filter P (d_lines d))), upd_lines P f now d)))"

section \<open>Outbounds, logs, checks\<close>

definition find_outbound :: "int \<Rightarrow> db \<Rightarrow> line_outbound option" where
  "find_outbound lid d = find (\<lambda>b. o_lineId b = lid) (d_outbounds d)"

definition first_outbound :: "int \<Rightarrow> line_outbound W" where
  "first_outbound lid = db_get (find_outbound lid)"

definition create_outbound :: "line_outbound \<Rightarrow> unit W" where
  "create_outbound ob =
     bindM time_now (\<lambda>now. db_exec (\<lambda>d.
       d\<lparr>d_outbounds := d_outbounds d @ [ob\<lparr>o_id := d_nextOutbound d, o_createdAt := now, o_updatedAt := now\<rparr>],
         d_nextOutbound := d_nextOutbound d + 1\<rparr>))"

definition upd_outbounds :: "(line_outbound \<Rightarrow> bool) \<Rightarrow> (line_outbound \<Rightarrow> line_outbound) \<Rightarrow> int \<Rightarrow> db \<Rightarrow> db" where
  "upd_outbounds P f now d =
     d\<lparr>d_outbounds := update_where P (\<lambda>b. (f b)\<lparr>o_updatedAt := now\<rparr>) (d_outbounds d)\<rparr>"

text \<open>\<^verbatim>\<open>tx.Save(&outbound)\<close> of a row that was read.\<close>

definition save_outbound :: "line_outbound \<Rightarrow> unit W" where
  "save_outbound ob =
     bindM time_now (\<lambda>now. db_exec (upd_outbounds (\<lambda>b. o_id b = o_id ob) (\<lambda>_. ob) now))"

definition model_outbound_update :: "line_outbound \<Rightarrow> (line_outbound \<Rightarrow> line_outbound) \<Rightarrow> unit W" where
  "model_outbound_update ob f =
     bindM time_now (\<lambda>now. db_exec (upd_outbounds (\<lambda>b. o_id b = o_id ob) f now))"

definition add_log :: "int \<Rightarrow> string \<Rightarrow> string \<Rightarrow> string \<Rightarrow> string \<Rightarrow> int \<Rightarrow> db \<Rightarrow> db" where
  "add_log lineID act level msg detail now d =
     d\<lparr>d_logs := d_logs d @ [\<lparr>g_id = d_nextLog d, g_lineId = lineID, g_action = act, g_level = level,
                              g_message = msg, g_detail = detail, g_createdAt = now\<rparr>],
       d_nextLog := d_nextLog d + 1\<rparr>"

definition createLineLog :: "int \<Rightarrow> string \<Rightarrow> string \<Rightarrow> string \<Rightarrow> string \<Rightarrow> unit W" where
  "createLineLog lineID act level msg detail =
     bindM time_now (\<lambda>now. db_exec (add_log lineID act level msg detail now))"

definition create_check :: "line_check \<Rightarrow> unit W" where
  "create_check k =
     bindM time_now (\<lambda>now. db_exec (\<lambda>d.
       d\<lparr>d_checks := d_checks d @ [k\<lparr>k_id := d_nextCheck d, k_createdAt := now\<rparr>],
         d_nextCheck := d_nextCheck d + 1\<rparr>))"

section \<open>Inbounds\<close>

definition find_inbound :: "int \<Rightarrow> db \<Rightarrow> inbound option" where
  "find_inbound iid d = find (\<lambda>i. i_id i = iid) (d_inbounds d)"

definition find_inbound_tag :: "string \<Rightarrow> db \<Rightarrow> inbound option" where
  "find_inbound_tag tag d = find (\<lambda>i. i_tag i = tag) (d_inbounds d)"

definition first_inbound :: "int \<Rightarrow> inbound W" where
  "first_inbound iid = db_get (find_inbound iid)"

definition first_inbound_tag :: "string \<Rightarrow> inbound W" where
  "first_inbound_tag tag = db_get (find_inbound_tag tag)"

definition unique_violation :: "string \<Rightarrow> gerr" where
  "unique_violation col = DbError (''UNIQUE constraint failed: '' @ col)"

definition create_inbound :: "inbound \<Rightarrow> int W" where
  "create_inbound ib =
     dbM (\<lambda>d.
       if find_inbound_tag (i_tag ib) d \<noteq> None then (Inl (unique_violation ''inbounds.tag''), d)
       else (Inr (d_nextInbound d),
             d\<lparr>d_inbounds := d_inbounds d @ [ib\<lparr>i_id := d_nextInbound d\<rparr>],
               d_nextInbound := d_nextInbound d + 1\<rparr>))"

text \<open>The columns \<^verbatim>\<open>applyXxxXray\<close> writes into an inbound that exists.\<close>

definition overwrite_inbound :: "inbound \<Rightarrow> inbound \<Rightarrow> inbound" where
  "overwrite_inbound ib old =
     old\<lparr>i_userId := i_userId ib, i_remark := i_remark ib, i_subSortIndex := i_subSortIndex ib,
         i_enable := i_enable ib, i_trafficReset := i_trafficReset ib,
         i_trafficResetDay := i_trafficResetDay ib, i_listen := i_listen ib, i_port := i_port ib,
         i_protocol := i_protocol ib, i_settings := i_settings ib,
         i_streamSettings := i_streamSettings ib, i_sniffing := i_sniffing ib, i_tag := i_tag ib,
         i_shareAddrStrategy := i_shareAddrStrategy ib, i_shareAddr := i_shareAddr ib\<rparr>"

definition update_inbound :: "int \<Rightarrow> inbound \<Rightarrow> unit W" where
  "update_inbound iid ib =
     dbM (\<lambda>d.
       if list_ex (\<lambda>i. i_id i \<noteq> iid \<and> i_tag i = i_tag ib) (d_inbounds d)
          \<and> list_ex (\<lambda>i. i_id i = iid) (d_inbounds d)
       then (Inl (unique_violation ''inbounds.tag''), d)
       else (Inr (), d\<lparr>d_inbounds := update_where (\<lambda>i. i_id i = iid) (overwrite_inbound ib) (d_inbounds d)\<rparr>))"

definition disable_inbound_tag :: "string \<Rightarrow> unit W" where
  "disable_inbound_tag tag =
     db_exec (\<lambda>d. d\<lparr>d_inbounds := update_where (\<lambda>i. i_tag i = tag) (\<lambda>i. i\<lparr>i_enable := False\<rparr>) (d_inbounds d)\<rparr>)"

definition delete_inbound_tag :: "string \<Rightarrow> unit W" where
  "delete_inbound_tag tag = db_exec (\<lambda>d. d\<lparr>d_inbounds := delete_where (\<lambda>i. i_tag i = tag) (d_inbounds d)\<rparr>)"

section \<open>Clients\<close>

definition find_client :: "string \<Rightarrow> db \<Rightarrow> client_record option" where
  "find_client email d = find (\<lambda>c. c_email c = email) (d_clients d)"

definition first_client :: "string \<Rightarrow> client_record W" where
  "first_client email = db_get (find_client email)"

text \<open>gorm fills the time columns of a new row that are zero.\<close>

definition stamp_client :: "int \<Rightarrow> client_record \<Rightarrow> client_record" where
  "stamp_client now c =
     c\<lparr>c_createdAt := (if c_createdAt c = 0 then now else c_createdAt c),
       c_updatedAt := (if c_updatedAt c = 0 then now else c_updatedAt c)\<rparr>"

lemma stamp_client_simps [simp]:
  "c_id (stamp_client now c) = c_id c" "c_email (stamp_client now c) = c_email c"
  "c_subId (stamp_client now c) = c_subId c" "c_enable (stamp_client now c) = c_enable c"
  "c_password (stamp_client now c) = c_password c"
  by (simp_all add: stamp_client_def)

definition create_client :: "client_record \<Rightarrow> int W" where
  "create_client c =
     bindM (askM e_clockMs) (\<lambda>now. dbM (\<lambda>d.
       if find_client (c_email c) d \<noteq> None then (Inl (unique_violation ''clients.email''), d)
       else (Inr (d_nextClient d),
             d\<lparr>d_clients := d_clients d @ [stamp_client now (c\<lparr>c_id := d_nextClient d\<rparr>)],
               d_nextClient := d_nextClient d + 1\<rparr>)))"

definition update_client :: "int \<Rightarrow> (client_record \<Rightarrow> client_record) \<Rightarrow> unit W" where
  "update_client cid f =
     bindM (askM e_clockMs) (\<lambda>now. db_exec (\<lambda>d.
       d\<lparr>d_clients := update_where (\<lambda>c. c_id c = cid) (\<lambda>c. (f c)\<lparr>c_updatedAt := now\<rparr>) (d_clients d)\<rparr>))"

text \<open>\<^verbatim>\<open>FirstOrCreate\<close> of the link, with \<^verbatim>\<open>Assign\<close> of the flow when one is given.\<close>

definition link_client :: "int \<Rightarrow> int \<Rightarrow> string option \<Rightarrow> unit W" where
  "link_client cid iid flow =
     bindM (db_query (\<lambda>d. find (\<lambda>x. ci_clientId x = cid \<and> ci_inboundId x = iid) (d_clientInbounds d))) (\<lambda>r.
       case r of
         Some x \<Rightarrow>
           (case flow of
              None \<Rightarrow> retM ()
            | Some fl \<Rightarrow> db_exec (\<lambda>d. d\<lparr>d_clientInbounds :=
                update_where (\<lambda>x. ci_clientId x = cid \<and> ci_inboundId x = iid)
                  (\<lambda>x. x\<lparr>ci_flowOverride := fl\<rparr>) (d_clientInbounds d)\<rparr>))
       | None \<Rightarrow>
           bindM (askM e_clockMs) (\<lambda>now. db_exec (\<lambda>d. d\<lparr>d_clientInbounds := d_clientInbounds d @
             [\<lparr>ci_clientId = cid, ci_inboundId = iid,
               ci_flowOverride = (case flow of None \<Rightarrow> '''' | Some fl \<Rightarrow> fl), ci_createdAt = now\<rparr>]\<rparr>)))"

section \<open>Settings\<close>

definition create_setting :: "string \<Rightarrow> string \<Rightarrow> unit W" where
  "create_setting key v =
     db_exec (\<lambda>d. d\<lparr>d_settings := d_settings d @ [\<lparr>st_id = d_nextSetting d, st_key = key, st_value = v\<rparr>],
                     d_nextSetting := d_nextSetting d + 1\<rparr>)"

definition update_setting :: "int \<Rightarrow> string \<Rightarrow> unit W" where
  "update_setting sid v =
     db_exec (\<lambda>d. d\<lparr>d_settings := update_where (\<lambda>r. st_id r = sid) (\<lambda>r. r\<lparr>st_value := v\<rparr>) (d_settings d)\<rparr>)"

end
