(* ===== verification/LineTemplate.thy ===== *)
theory LineTemplate
  imports LineStore
begin

text \<open>
  The Xray template in the settings table (internal/web/service/line.go): every applied line owns
  one outbound, found by its tag, and one routing rule, found by its inbound tag.  The template is
  decoded, edited and written back with two spaces of indentation.
\<close>

definition templateKey :: string where [simp]: "templateKey = ''xrayTemplateConfig''"

section \<open>Reading JSON values\<close>

definition jstr :: "json omap \<Rightarrow> string \<Rightarrow> string" where
  "jstr item key = (case oget item key of Some (JStr s) \<Rightarrow> s | _ \<Rightarrow> '''')"

definition jval :: "json omap \<Rightarrow> string \<Rightarrow> json" where
  "jval m key = (case oget m key of Some v \<Rightarrow> v | None \<Rightarrow> JNull)"

definition asObjectMap :: "json \<Rightarrow> json omap" where
  "asObjectMap v = (case v of JObj m \<Rightarrow> m | _ \<Rightarrow> [])"

fun objects_of :: "json list \<Rightarrow> json omap list" where
  "objects_of [] = []"
| "objects_of (JObj m # vs) = m # objects_of vs"
| "objects_of (_ # vs) = objects_of vs"

definition asObjectSlice :: "json \<Rightarrow> json omap list" where
  "asObjectSlice v = (case v of JArr raw \<Rightarrow> objects_of raw | _ \<Rightarrow> [])"

fun strings_of :: "json list \<Rightarrow> string list option" where
  "strings_of [] = Some []"
| "strings_of (JStr s # vs) = map_option (\<lambda>ss. s # ss) (strings_of vs)"
| "strings_of (_ # vs) = None"

definition stringSliceFromAny :: "json \<Rightarrow> string list option" where
  "stringSliceFromAny v = (case v of JArr raw \<Rightarrow> strings_of raw | _ \<Rightarrow> None)"

text \<open>\<open>tags, ok := stringSliceFromAny(item["inboundTag"]); ok && len(tags) == 1 && tags[0] == inboundTag\<close>.\<close>

definition only_inbound :: "json omap \<Rightarrow> string \<Rightarrow> bool" where
  "only_inbound item inboundTag \<longleftrightarrow> stringSliceFromAny (jval item ''inboundTag'') = Some [inboundTag]"

section \<open>Editing\<close>

fun upsertObjectByTag :: "json omap list \<Rightarrow> string \<Rightarrow> json omap \<Rightarrow> json omap list" where
  "upsertObjectByTag [] tag nxt = [nxt]"
| "upsertObjectByTag (i # is) tag nxt =
     (if jstr i ''tag'' = tag then nxt # is else i # upsertObjectByTag is tag nxt)"

definition removeObjectByTag :: "json omap list \<Rightarrow> string \<Rightarrow> json omap list" where
  "removeObjectByTag items tag =
     (if tag = '''' then items else filter (\<lambda>i. jstr i ''tag'' \<noteq> tag) items)"

fun replace_rule :: "json omap list \<Rightarrow> string \<Rightarrow> json omap \<Rightarrow> json omap list option" where
  "replace_rule [] inboundTag nxt = None"
| "replace_rule (i # is) inboundTag nxt =
     (if only_inbound i inboundTag then Some (nxt # is)
      else map_option (\<lambda>r. i # r) (replace_rule is inboundTag nxt))"

definition upsertRoutingRuleByInboundTag :: "json omap list \<Rightarrow> string \<Rightarrow> json omap \<Rightarrow> json omap list" where
  "upsertRoutingRuleByInboundTag items inboundTag nxt =
     (case replace_rule items inboundTag nxt of Some r \<Rightarrow> r | None \<Rightarrow> nxt # items)"

definition removeLineRoutingRules :: "json omap list \<Rightarrow> string \<Rightarrow> string \<Rightarrow> json omap list" where
  "removeLineRoutingRules items inboundTag outboundTag =
     filter (\<lambda>i. \<not> (only_inbound i inboundTag \<and> jstr i ''outboundTag'' = outboundTag)) items"

definition buildResidentialOutboundConfig :: "string \<Rightarrow> line_outbound \<Rightarrow> json omap" where
  "buildResidentialOutboundConfig outboundTag outbound =
     (let t = o_type outbound;
          p1 = (if t = ''socks5'' then ''socks'' else t);
          protocol = (if p1 = ''https'' then ''http'' else p1);
          server = of_members
            ([(''address'', JStr (o_host outbound)), (''port'', JInt (o_port outbound))]
             @ (if o_username outbound \<noteq> ''''
                then [(''users'', JArr [jobj [(''user'', JStr (o_username outbound)),
                                             (''pass'', JStr (o_password outbound))]])]
                else []))
      in of_members
           ([(''tag'', JStr outboundTag), (''protocol'', JStr protocol),
             (''settings'', jobj [(''servers'', JArr [JObj server])])]
            @ (if t = ''https'' then [(''streamSettings'', jobj [(''security'', JStr ''tls'')])] else [])))"

definition line_rule :: "string \<Rightarrow> string \<Rightarrow> json omap" where
  "line_rule inboundTag outboundTag =
     of_members [(''type'', JStr ''field''), (''inboundTag'', JArr [JStr inboundTag]),
                 (''outboundTag'', JStr outboundTag)]"

text \<open>The edits of the decoded template.\<close>

definition set_outbounds :: "json omap list \<Rightarrow> json omap \<Rightarrow> json omap" where
  "set_outbounds os cfg = oput ''outbounds'' (JArr (List.map JObj os)) cfg"

definition set_rules :: "json omap list \<Rightarrow> json omap \<Rightarrow> json omap" where
  "set_rules rs cfg =
     oput ''routing'' (JObj (oput ''rules'' (JArr (List.map JObj rs)) (asObjectMap (jval cfg ''routing'')))) cfg"

definition template_outbounds :: "json omap \<Rightarrow> json omap list" where
  "template_outbounds cfg = asObjectSlice (jval cfg ''outbounds'')"

definition template_rules :: "json omap \<Rightarrow> json omap list" where
  "template_rules cfg = asObjectSlice (jval (asObjectMap (jval cfg ''routing'')) ''rules'')"

definition template_upsert :: "string \<Rightarrow> string \<Rightarrow> line_outbound \<Rightarrow> json omap \<Rightarrow> json omap" where
  "template_upsert outboundTag inboundTag outbound cfg =
     set_rules
       (upsertRoutingRuleByInboundTag (template_rules cfg) inboundTag (line_rule inboundTag outboundTag))
       (set_outbounds
         (upsertObjectByTag (template_outbounds cfg) outboundTag
           (buildResidentialOutboundConfig outboundTag outbound)) cfg)"

definition template_remove :: "string \<Rightarrow> string \<Rightarrow> json omap \<Rightarrow> json omap" where
  "template_remove outboundTag inboundTag cfg =
     set_rules (removeLineRoutingRules (template_rules cfg) inboundTag outboundTag)
       (set_outbounds (removeObjectByTag (template_outbounds cfg) outboundTag) cfg)"

text \<open>
  Decoding into \<^verbatim>\<open>map[string]any\<close>.  The text null leaves a nil map, and the assignment that follows
  panics.
\<close>

definition decode_template :: "string \<Rightarrow> json omap res" where
  "decode_template raw =
     (case json_parse raw of
        Some (JObj ms) \<Rightarrow> Inr ms
      | Some JNull \<Rightarrow> Inl (Errorf ''assignment to entry in nil map'')
      | _ \<Rightarrow> Inl (wrapf ''xrayTemplateConfig invalid: '' (lib_error ''json'' raw) ''''))"

section \<open>The handlers\<close>

definition getXrayTemplateConfigTx :: "string W" where
  "getXrayTemplateConfigTx =
     bindM (tryM (getSetting templateKey)) (\<lambda>r.
       case r of
         Inr st \<Rightarrow> retM (st_value st)
       | Inl e \<Rightarrow>
          if is_not_found e
          then bindM (askM (\<lambda>en t. e_template en)) (\<lambda>base.
                 thenM (create_setting templateKey base) (retM base))
          else failM e)"

definition write_template :: "json omap \<Rightarrow> unit W" where
  "write_template cfg =
     (let body = json_marshal_indent (JObj cfg) in
      bindM (tryM (getSetting templateKey)) (\<lambda>r.
        case r of
          Inl e \<Rightarrow> if is_not_found e then create_setting templateKey body else failM e
        | Inr st \<Rightarrow> update_setting (st_id st) body))"

definition upsertLineOutboundInTemplate :: "string \<Rightarrow> string \<Rightarrow> line_outbound \<Rightarrow> unit W" where
  "upsertLineOutboundInTemplate outboundTag inboundTag outbound =
     bindM getXrayTemplateConfigTx (\<lambda>raw.
     bindM (if trim_space raw \<noteq> '''' then liftM (decode_template raw) else retM []) (\<lambda>cfg.
       write_template (template_upsert outboundTag inboundTag outbound cfg)))"

definition removeLineTemplateArtifacts :: "string \<Rightarrow> string \<Rightarrow> unit W" where
  "removeLineTemplateArtifacts outboundTag inboundTag =
     bindM (tryM (getSetting templateKey)) (\<lambda>r.
       case r of
         Inl e \<Rightarrow> if is_not_found e then retM () else failM e
       | Inr st \<Rightarrow>
          bindM (liftM (decode_template (st_value st))) (\<lambda>cfg.
            update_setting (st_id st)
              (json_marshal_indent (JObj (template_remove outboundTag inboundTag cfg)))))"

definition template_has :: "string \<Rightarrow> string \<Rightarrow> json omap \<Rightarrow> bool \<times> bool" where
  "template_has outboundTag inboundTag cfg =
     (list_ex (\<lambda>i. jstr i ''tag'' = outboundTag) (template_outbounds cfg),
      list_ex (\<lambda>i. jstr i ''outboundTag'' = outboundTag \<and> only_inbound i inboundTag) (template_rules cfg))"

definition lineTemplateHasRoute :: "string \<Rightarrow> string \<Rightarrow> (bool \<times> bool) W" where
  "lineTemplateHasRoute outboundTag inboundTag =
     bindM (tryM (getSetting templateKey)) (\<lambda>r.
       case r of
         Inl e \<Rightarrow> if is_not_found e then retM (False, False) else failM e
       | Inr st \<Rightarrow>
          (case unmarshal_object (st_value st) of
             None \<Rightarrow> failM (wrapf ''xrayTemplateConfig invalid: '' (lib_error ''json'' (st_value st)) '''')
           | Some cfg \<Rightarrow> retM (template_has outboundTag inboundTag cfg)))"

section \<open>Lemmas\<close>

lemma objects_of_JObj [simp]: "objects_of (List.map JObj ms) = ms"
  by (induction ms) auto

lemma jval_oput [simp]: "jval (oput k v m) k' = (if k' = k then v else jval m k')"
  by (simp add: jval_def)

lemma template_outbounds_set [simp]:
  "template_outbounds (set_outbounds os cfg) = os"
  "template_outbounds (set_rules rs cfg) = template_outbounds cfg"
  by (simp_all add: template_outbounds_def set_outbounds_def set_rules_def asObjectSlice_def)

lemma template_rules_set [simp]:
  "template_rules (set_outbounds os cfg) = template_rules cfg"
  "template_rules (set_rules rs cfg) = rs"
  by (simp_all add: template_rules_def set_outbounds_def set_rules_def asObjectSlice_def asObjectMap_def)

lemma jstr_members:
  "jstr (of_members ms) k = (case oget (of_members ms) k of Some (JStr s) \<Rightarrow> s | _ \<Rightarrow> '''')"
  by (simp add: jstr_def)

lemma oget_of_members: "oget (of_members ms) k = map_of (rev ms) k"
  by (induction ms rule: rev_induct) (auto simp: of_members_def)

lemma residential_tag [simp]: "jstr (buildResidentialOutboundConfig tag ob) ''tag'' = tag"
  by (simp add: buildResidentialOutboundConfig_def jstr_def oget_of_members Let_def)

lemma line_rule_fields [simp]:
  "jstr (line_rule it ot) ''outboundTag'' = ot"
  "only_inbound (line_rule it ot) t \<longleftrightarrow> t = it"
  by (auto simp: line_rule_def jstr_def only_inbound_def jval_def oget_of_members stringSliceFromAny_def)

text \<open>An upsert touches only the object with the tag: the others keep their place.\<close>

lemma upsertObject_mem: "nxt \<in> set (upsertObjectByTag items tag nxt)"
  by (induction items) auto

lemma upsertObject_others:
  "jstr nxt ''tag'' = tag \<Longrightarrow>
     filter (\<lambda>i. jstr i ''tag'' \<noteq> tag) (upsertObjectByTag items tag nxt) = filter (\<lambda>i. jstr i ''tag'' \<noteq> tag) items"
  by (induction items) auto

lemma replace_rule_Some:
  "replace_rule items it nxt = Some r \<Longrightarrow> only_inbound nxt it \<Longrightarrow>
     nxt \<in> set r \<and> filter (\<lambda>i. \<not> only_inbound i it) r = filter (\<lambda>i. \<not> only_inbound i it) items"
  by (induction items arbitrary: r) (auto split: if_splits)

lemma upsertRule_mem: "only_inbound nxt it \<Longrightarrow> nxt \<in> set (upsertRoutingRuleByInboundTag items it nxt)"
  by (auto simp: upsertRoutingRuleByInboundTag_def dest: replace_rule_Some split: option.splits)

lemma upsertRule_others:
  "only_inbound nxt it \<Longrightarrow>
     filter (\<lambda>i. \<not> only_inbound i it) (upsertRoutingRuleByInboundTag items it nxt)
     = filter (\<lambda>i. \<not> only_inbound i it) items"
  by (auto simp: upsertRoutingRuleByInboundTag_def dest: replace_rule_Some split: option.splits)

lemma template_has_upsert: "template_has ot it (template_upsert ot it ob cfg) = (True, True)"
proof -
  have "only_inbound (line_rule it ot) it" by simp
  then have "line_rule it ot \<in> set (upsertRoutingRuleByInboundTag (template_rules cfg) it (line_rule it ot))"
    by (rule upsertRule_mem)
  then have "list_ex (\<lambda>i. jstr i ''outboundTag'' = ot \<and> only_inbound i it)
      (upsertRoutingRuleByInboundTag (template_rules cfg) it (line_rule it ot))"
    by (auto simp: list_ex_iff intro!: bexI [of _ "line_rule it ot"])
  moreover have "list_ex (\<lambda>i. jstr i ''tag'' = ot)
      (upsertObjectByTag (template_outbounds cfg) ot (buildResidentialOutboundConfig ot ob))"
    using upsertObject_mem residential_tag unfolding list_ex_iff by blast
  ultimately show ?thesis by (simp add: template_has_def template_upsert_def)
qed

lemma template_has_remove:
  "template_has ot it (template_remove ot it cfg) = (ot = '''' \<and> fst (template_has ot it cfg), False)"
  by (auto simp: template_has_def template_remove_def removeObjectByTag_def removeLineRoutingRules_def list_ex_iff)

text \<open>The edited template is printable, so that reading it back gives the edit.\<close>

definition wf_objects :: "json omap list \<Rightarrow> bool" where
  "wf_objects items \<longleftrightarrow> (\<forall>m \<in> set items. wf_json (JObj m))"

lemma wf_elems_set: "wf_elems xs \<longleftrightarrow> (\<forall>x \<in> set xs. wf_json x)"
  by (induction xs) auto

lemma wf_objects_of: "wf_elems xs \<Longrightarrow> wf_objects (objects_of xs)"
  by (induction xs rule: objects_of.induct) (auto simp: wf_objects_def)

lemma wf_jval: "wf_members m \<Longrightarrow> wf_json (jval m k)"
  by (auto simp: jval_def dest: wf_members_map_get split: option.splits)

lemma wf_asObjectSlice: "wf_json v \<Longrightarrow> wf_objects (asObjectSlice v)"
  by (cases v) (auto simp: asObjectSlice_def wf_objects_of wf_objects_def [of "[]"])

lemma wf_asObjectMap: "wf_json v \<Longrightarrow> wf_json (JObj (asObjectMap v))"
  by (cases v) (auto simp: asObjectMap_def)

lemma wf_JArr_objects: "wf_json (JArr (List.map JObj ms)) \<longleftrightarrow> wf_objects ms"
  by (simp add: wf_elems_set wf_objects_def)

lemma valid_utf8_literal [simp]: "list_all (\<lambda>c. byte c < 0x80) s \<Longrightarrow> valid_utf8 s"
  by (rule valid_utf8_ascii)

lemma wf_oput: "wf_json (JObj m) \<Longrightarrow> valid_utf8 k \<Longrightarrow> wf_json v \<Longrightarrow> wf_json (JObj (oput k v m))"
  by (simp add: wf_members_oput)

lemma wf_set_outbounds: "wf_json (JObj cfg) \<Longrightarrow> wf_objects os \<Longrightarrow> wf_json (JObj (set_outbounds os cfg))"
  unfolding set_outbounds_def by (rule wf_oput) (simp_all add: wf_JArr_objects del: wf_json.simps)

lemma wf_set_rules: "wf_json (JObj cfg) \<Longrightarrow> wf_objects rs \<Longrightarrow> wf_json (JObj (set_rules rs cfg))"
  unfolding set_rules_def
  by (intro wf_oput wf_asObjectMap wf_jval) (simp_all add: wf_JArr_objects [simplified])

lemma wf_template_parts:
  "wf_json (JObj cfg) \<Longrightarrow> wf_objects (template_outbounds cfg)"
  "wf_json (JObj cfg) \<Longrightarrow> wf_objects (template_rules cfg)"
  using wf_asObjectMap [of "jval cfg ''routing''"]
  by (auto simp: template_outbounds_def template_rules_def intro!: wf_asObjectSlice wf_jval)

lemma upsertObject_set: "set (upsertObjectByTag items tag nxt) \<subseteq> insert nxt (set items)"
  by (induction items) auto

lemma wf_upsertObject: "wf_objects items \<Longrightarrow> wf_json (JObj nxt) \<Longrightarrow> wf_objects (upsertObjectByTag items tag nxt)"
  unfolding wf_objects_def using upsertObject_set by blast

lemma replace_rule_set: "replace_rule items it nxt = Some r \<Longrightarrow> set r \<subseteq> insert nxt (set items)"
  by (induction items arbitrary: r) (auto split: if_splits)

lemma wf_upsertRule:
  "wf_objects items \<Longrightarrow> wf_json (JObj nxt) \<Longrightarrow> wf_objects (upsertRoutingRuleByInboundTag items it nxt)"
  unfolding wf_objects_def upsertRoutingRuleByInboundTag_def
  using replace_rule_set [of items it nxt] by (cases "replace_rule items it nxt") (simp_all del: wf_json.simps, blast)

definition valid_outbound_texts :: "line_outbound \<Rightarrow> bool" where
  "valid_outbound_texts ob \<longleftrightarrow> valid_utf8 (o_type ob) \<and> valid_utf8 (o_host ob)
     \<and> valid_utf8 (o_username ob) \<and> valid_utf8 (o_password ob)"

lemma wf_of_members: "wf_members ms \<Longrightarrow> wf_json (JObj (of_members ms))"
  using wf_jobj [of ms] by (simp add: jobj_def)

lemma wf_residential:
  assumes "valid_utf8 tag" "valid_outbound_texts ob"
  shows "wf_json (JObj (buildResidentialOutboundConfig tag ob))"
  unfolding buildResidentialOutboundConfig_def Let_def
  by (rule wf_of_members)
     (use assms in \<open>auto simp: valid_outbound_texts_def num_ok_itoa jobj_def simp del: wf_json.simps(6)
        intro!: wf_of_members\<close>)

lemma wf_line_rule: "valid_utf8 it \<Longrightarrow> valid_utf8 ot \<Longrightarrow> wf_json (JObj (line_rule it ot))"
  unfolding line_rule_def by (rule wf_of_members) simp

lemma wf_template_upsert:
  assumes "wf_json (JObj cfg)" "valid_utf8 ot" "valid_utf8 it" "valid_outbound_texts ob"
  shows "wf_json (JObj (template_upsert ot it ob cfg))"
  unfolding template_upsert_def
  by (intro wf_set_rules wf_set_outbounds wf_upsertRule wf_upsertObject wf_template_parts wf_residential
      wf_line_rule assms)

lemma wf_template_remove: "wf_json (JObj cfg) \<Longrightarrow> wf_json (JObj (template_remove ot it cfg))"
  unfolding template_remove_def
  by (intro wf_set_rules wf_set_outbounds)
     (auto simp: removeObjectByTag_def removeLineRoutingRules_def wf_objects_def simp del: wf_json.simps
        dest: wf_template_parts [unfolded wf_objects_def, rule_format])

lemma decode_template_wf: "decode_template raw = Inr cfg \<Longrightarrow> wf_json (JObj cfg)"
  by (auto simp: decode_template_def dest: json_parse_wf split: option.splits json.splits)

lemma decode_template_print: "wf_json (JObj cfg) \<Longrightarrow> decode_template (json_marshal_indent (JObj cfg)) = Inr cfg"
  by (simp add: decode_template_def del: wf_json.simps)

lemma unmarshal_template_print: "wf_json (JObj cfg) \<Longrightarrow> unmarshal_object (json_marshal_indent (JObj cfg)) = Some cfg"
  by (simp add: unmarshal_object_def del: wf_json.simps)

end
