(* ===== verification/NginxApply.thy ===== *)
theory NginxApply
  imports LinePlan
begin

text \<open>
  Writing, replacing and removing the Nginx configuration of a line (internal/web/service/line.go
  from \<^verbatim>\<open>applyCloudflareNginx\<close> to \<^verbatim>\<open>validateNginxConfigPathForGOOS\<close>).  The Go interface
  \<^verbatim>\<open>nginxExecutor\<close> is a record of operations on a state of any type; the code is written against it,
  the locale \<open>nginx_host\<close> states what it relies on, and \<open>osNginxExecutor\<close> on the world of the panel
  interprets it.
\<close>

section \<open>The executor interface\<close>

record 's nginx_executor =
  x_goos :: "('s, string) M"
  x_readFile :: "string \<Rightarrow> ('s, string) M"
  x_writeFile :: "string \<Rightarrow> string \<Rightarrow> ('s, unit) M"
  x_mkdirAll :: "string \<Rightarrow> ('s, unit) M"
  x_remove :: "string \<Rightarrow> ('s, unit) M"
  x_runCommand :: "string list \<Rightarrow> ('s, string \<times> gerr option) M"
  x_nowUnix :: "('s, int) M"

record nginx_backup =
  b_path :: string
  b_existed :: bool
  b_body :: string
  b_backupPath :: string

text \<open>\<^verbatim>\<open>os.IsNotExist\<close>, which does not look into wrapped errors.\<close>

fun is_not_exist :: "gerr \<Rightarrow> bool" where
  "is_not_exist (NotExist s) = True"
| "is_not_exist _ = False"

text \<open>\<^verbatim>\<open>filepath.Dir\<close>.\<close>

definition path_dir :: "string \<Rightarrow> string" where
  "path_dir p = path_clean (rev (dropWhile (\<lambda>c. c \<noteq> CHR ''/'') (rev p)))"

definition backupNginxConfig :: "string \<Rightarrow> 's nginx_executor \<Rightarrow> ('s, nginx_backup \<times> string) M" where
  "backupNginxConfig path executor =
     bindM (tryM (x_readFile executor path)) (\<lambda>r.
       case r of
         Inl e \<Rightarrow>
          if is_not_exist e
          then retM (\<lparr>b_path = path, b_existed = False, b_body = '''', b_backupPath = ''''\<rparr>,
                     ''no previous nginx config'')
          else failM (wrapf ''read existing nginx config: '' e '''')
       | Inr body \<Rightarrow>
          bindM (x_nowUnix executor) (\<lambda>now.
          let backupPath = path @ ''.bak.'' @ itoa now in
          thenM (mapErrM (\<lambda>e. wrapf ''backup nginx config: '' e '''') (x_writeFile executor backupPath body))
            (retM (\<lparr>b_path = path, b_existed = True, b_body = body, b_backupPath = backupPath\<rparr>,
                   ''backup='' @ backupPath))))"

definition restoreNginxConfig :: "nginx_backup option \<Rightarrow> 's nginx_executor \<Rightarrow> ('s, unit) M" where
  "restoreNginxConfig backup executor =
     (case backup of
        None \<Rightarrow> retM ()
      | Some b \<Rightarrow>
         if b_path b = '''' then retM ()
         else if b_existed b then x_writeFile executor (b_path b) (b_body b)
         else bindM (tryM (x_remove executor (b_path b))) (\<lambda>r.
                case r of
                  Inr _ \<Rightarrow> retM ()
                | Inl e \<Rightarrow> if is_not_exist e then retM () else failM e))"

text \<open>The error of a failed step after the rollback was tried: which errors it wraps, and its text.\<close>

definition rolled_back_error :: "gerr list \<Rightarrow> string \<Rightarrow> nginx_backup \<Rightarrow> 's nginx_executor \<Rightarrow> ('s, 'a) M" where
  "rolled_back_error es msg backup executor =
     bindM (tryM (restoreNginxConfig (Some backup) executor)) (\<lambda>r.
       case r of
         Inl e \<Rightarrow> failM (Wrapped es (msg @ NL @ ''rollback failed: '' @ err_text e))
       | Inr _ \<Rightarrow> failM (Wrapped es (msg @ NL @ ''rolled back nginx config'')))"

definition reloadNginx :: "nginx_backup \<Rightarrow> 's nginx_executor \<Rightarrow> ('s, unit) M" where
  "reloadNginx backup executor =
     bindM (x_runCommand executor [''systemctl'', ''reload'', ''nginx'']) (\<lambda>(out, err).
       case err of
         None \<Rightarrow> retM ()
       | Some e \<Rightarrow>
          bindM (x_runCommand executor [''service'', ''nginx'', ''reload'']) (\<lambda>(fallbackOut, fallbackErr).
            case fallbackErr of
              None \<Rightarrow> retM ()
            | Some fe \<Rightarrow>
               rolled_back_error [e, fe]
                 (''reload nginx failed: systemctl: '' @ err_text e @ NL @ out @ NL @ ''service: ''
                  @ err_text fe @ NL @ fallbackOut)
                 backup executor))"

definition applyNginxConfig :: "string \<Rightarrow> string \<Rightarrow> 's nginx_executor \<Rightarrow> ('s, string) M" where
  "applyNginxConfig path body executor =
     bindM (backupNginxConfig path executor) (\<lambda>(backup, backupDetail).
     thenM (mapErrM (\<lambda>e. wrapf ''create nginx config directory: '' e '''')
              (x_mkdirAll executor (path_dir path)))
     (thenM (mapErrM (\<lambda>e. wrapf ''write nginx config: '' e '''') (x_writeFile executor path body))
     (bindM (x_runCommand executor [''nginx'', ''-t'']) (\<lambda>(out, err).
        case err of
          Some e \<Rightarrow>
            rolled_back_error [e] (''nginx -t failed: '' @ err_text e @ NL @ out) backup executor
        | None \<Rightarrow>
            thenM (reloadNginx backup executor)
              (retM (txt_written_a @ path @ txt_written_b @ backupDetail))))))"

text \<open>The two branches of the code agree where \<^verbatim>\<open>filepath\<close> is the Unix one.\<close>

definition validateNginxConfigPathForGOOS :: "string \<Rightarrow> string \<Rightarrow> unit res" where
  "validateNginxConfigPathForGOOS path goos =
     (let clean = path_clean path in
      if \<not> has_prefix clean ''/'' then Inl (Errorf ''nginx config path must be absolute'')
      else if \<not> has_prefix clean ''/etc/nginx/'' then Inl (Errorf ''nginx config path must be under /etc/nginx'')
      else if \<not> has_suffix clean ''.conf'' then Inl (Errorf ''nginx config path must end with .conf'')
      else Inr ())"

definition tls_bad_chars :: string where
  "tls_bad_chars = [CHR 0x0D, CHR 0x0A, CHR '';'', CHR ''{'', CHR ''}'', CHR 0x22, CHR 0x27]"

definition validateTLSPath :: "string \<Rightarrow> string \<Rightarrow> unit res" where
  "validateTLSPath name v =
     (let path = trim_space v in
      if path = '''' then Inl (Errorf (name @ '' is required when writing Nginx configuration''))
      else if \<not> has_prefix path ''/'' then Inl (Errorf (name @ '' must be an absolute path''))
      else if contains_any path tls_bad_chars then Inl (Errorf (name @ '' contains an invalid character''))
      else Inr ())"

definition validateNginxTLSPaths :: "line_config \<Rightarrow> unit res" where
  "validateNginxTLSPaths config =
     checks [validateTLSPath ''Nginx origin certificate path'' (sget config ''nginxCertFile''),
             validateTLSPath ''Nginx origin key path'' (sget config ''nginxKeyFile'')]"

definition lineNginxPath :: "int \<Rightarrow> line_config \<Rightarrow> string" where
  "lineNginxPath lineID config =
     (let path = trim_space (sget config ''nginxConfigPath'') in
      if path = '''' then defaultNginxConfigPath lineID else path)"

text \<open>
  \<^verbatim>\<open>applyCloudflareNginxWithExecutor\<close>; \<open>render\<close> is \<open>buildNginxPlan\<close>, which reads the panel's
  settings.
\<close>

definition applyCloudflareNginxWithExecutor ::
    "('s, string) M \<Rightarrow> line_profile \<Rightarrow> line_config \<Rightarrow> 's nginx_executor \<Rightarrow> ('s, string) M" where
  "applyCloudflareNginxWithExecutor render line config executor =
     (let path = lineNginxPath (l_id line) config in
      if \<not> truthy (sget config ''nginxApply'') then retM (txt_nginx_off @ path)
      else bindM (x_goos executor) (\<lambda>goos.
        if goos \<noteq> ''linux'' then retM (txt_goos_a @ goos @ txt_goos_b)
        else thenM (liftM (validateNginxConfigPathForGOOS path goos))
            (thenM (liftM (validateNginxTLSPaths config))
            (bindM render (\<lambda>body. applyNginxConfig path (body @ NL) executor)))))"

definition removeNginxConfig :: "string \<Rightarrow> 's nginx_executor \<Rightarrow> ('s, nginx_backup option) M" where
  "removeNginxConfig path executor =
     bindM (x_goos executor) (\<lambda>goos.
     thenM (liftM (validateNginxConfigPathForGOOS path goos))
     (bindM (backupNginxConfig path executor) (\<lambda>(backup, detail).
        if \<not> b_existed backup then retM (Some backup)
        else thenM (mapErrM (\<lambda>e. wrapf ''remove nginx config: '' e '''') (x_remove executor path))
          (bindM (x_runCommand executor [''nginx'', ''-t'']) (\<lambda>(out, err).
             case err of
               Some e \<Rightarrow>
                 thenM (tryM (restoreNginxConfig (Some backup) executor))
                   (failM (wrapf ''nginx -t after remove: '' e ('': '' @ trim_space out)))
             | None \<Rightarrow>
                 bindM (x_runCommand executor [''nginx'', ''-s'', ''reload'']) (\<lambda>(out2, err2).
                   case err2 of
                     Some e \<Rightarrow>
                       thenM (tryM (restoreNginxConfig (Some backup) executor))
                         (thenM (x_runCommand executor [''nginx'', ''-s'', ''reload''])
                           (failM (wrapf ''nginx reload after remove: '' e ('': '' @ trim_space out2))))
                   | None \<Rightarrow> retM (Some backup)))))))"

text \<open>\<^verbatim>\<open>restoreRemovedLineNginxConfig\<close>, on any executor.\<close>

definition restoreRemovedLineNginxConfig :: "nginx_backup option \<Rightarrow> 's nginx_executor \<Rightarrow> ('s, unit) M" where
  "restoreRemovedLineNginxConfig backup executor =
     (case backup of
        None \<Rightarrow> retM ()
      | Some b \<Rightarrow>
         thenM (restoreNginxConfig (Some b) executor)
         (bindM (x_goos executor) (\<lambda>goos.
            if \<not> b_existed b \<or> goos \<noteq> ''linux'' then retM ()
            else bindM (x_runCommand executor [''nginx'', ''-t'']) (\<lambda>(out, err).
                   case err of
                     Some e \<Rightarrow> failM e
                   | None \<Rightarrow>
                       bindM (x_runCommand executor [''nginx'', ''-s'', ''reload'']) (\<lambda>(out2, err2).
                         case err2 of Some e \<Rightarrow> failM e | None \<Rightarrow> retM ())))))"

section \<open>The executor of the operating system\<close>

text \<open>One file operation: an error of the environment, or the effect on the files.\<close>

definition fsM :: "((string \<Rightarrow> string option) \<Rightarrow> 'a res \<times> (string \<Rightarrow> string option)) \<Rightarrow> 'a W" where
  "fsM f = (\<lambda>w.
     let w' = w\<lparr>w_tick := Suc (w_tick w)\<rparr> in
     case e_fsFault (w_env w) (w_tick w) of
       Some m \<Rightarrow> (Inl (Errorf m), w')
     | None \<Rightarrow> (case f (w_fs w) of (r, fs) \<Rightarrow> (r, w'\<lparr>w_fs := fs\<rparr>)))"

definition os_readFile :: "string \<Rightarrow> string W" where
  "os_readFile p =
     fsM (\<lambda>fs. (case fs p of
                  None \<Rightarrow> Inl (NotExist (''open '' @ p @ '': no such file or directory''))
                | Some b \<Rightarrow> Inr b, fs))"

text \<open>\<^verbatim>\<open>os.WriteFile\<close> truncates before it writes, so a failing write can leave a part.\<close>

definition os_writeFile :: "string \<Rightarrow> string \<Rightarrow> unit W" where
  "os_writeFile p b = (\<lambda>w.
     let w' = w\<lparr>w_tick := Suc (w_tick w)\<rparr> in
     case e_fsFault (w_env w) (w_tick w) of
       Some m \<Rightarrow>
        (Inl (Errorf m), (case e_fsTorn (w_env w) (w_tick w) of
                   None \<Rightarrow> w'
                 | Some n \<Rightarrow> w'\<lparr>w_fs := (w_fs w)(p := Some (take n b))\<rparr>))
     | None \<Rightarrow> (Inr (), w'\<lparr>w_fs := (w_fs w)(p := Some b)\<rparr>))"

definition os_mkdirAll :: "string \<Rightarrow> unit W" where
  "os_mkdirAll p = fsM (\<lambda>fs. (Inr (), fs))"

definition os_remove :: "string \<Rightarrow> unit W" where
  "os_remove p =
     fsM (\<lambda>fs. case fs p of
                 None \<Rightarrow> (Inl (NotExist (''remove '' @ p @ '': no such file or directory'')), fs)
               | Some b \<Rightarrow> (Inr (), fs(p := None)))"

definition os_stat :: "string \<Rightarrow> unit W" where
  "os_stat p =
     fsM (\<lambda>fs. (case fs p of
                  None \<Rightarrow> Inl (NotExist (''stat '' @ p @ '': no such file or directory''))
                | Some b \<Rightarrow> Inr (), fs))"

text \<open>\<^verbatim>\<open>os.RemoveAll\<close> of a directory; it succeeds when there is nothing.\<close>

definition os_removeAll :: "string \<Rightarrow> unit W" where
  "os_removeAll p = fsM (\<lambda>fs. (Inr (), \<lambda>q. if q = p \<or> has_prefix q (p @ ''/'') then None else fs q))"

definition runCommandOutput :: "string list \<Rightarrow> (string \<times> gerr option) W" where
  "runCommandOutput cmd = askM (\<lambda>e t. e_cmd e t cmd)"

definition osNginxExecutor :: "world nginx_executor" where
  "osNginxExecutor =
     \<lparr>x_goos = getM (\<lambda>w. e_goos (w_env w)), x_readFile = os_readFile, x_writeFile = os_writeFile,
      x_mkdirAll = os_mkdirAll, x_remove = os_remove, x_runCommand = runCommandOutput,
      x_nowUnix = time_now\<rparr>"

definition applyCloudflareNginx :: "line_profile \<Rightarrow> line_config \<Rightarrow> string W" where
  "applyCloudflareNginx line config =
     applyCloudflareNginxWithExecutor (buildNginxPlan line config) line config osNginxExecutor"

definition removeLineNginxConfig :: "line_profile \<Rightarrow> line_config \<Rightarrow> nginx_backup option W" where
  "removeLineNginxConfig line config =
     bindM (getM (\<lambda>w. e_goos (w_env w))) (\<lambda>goos.
       if \<not> isNginxWSLine (l_type line) \<or> \<not> truthy (sget config ''nginxApply'') \<or> goos \<noteq> ''linux''
       then retM None
       else removeNginxConfig (lineNginxPath (l_id line) config) osNginxExecutor)"

section \<open>What the code relies on\<close>

text \<open>
  \<open>fs s p\<close> is the content of the file at \<open>p\<close>.  A successful write or removal has its effect and
  touches no other file; a failed write may damage the file it writes, and nothing else; reading,
  running commands and creating directories change no file.
\<close>

locale nginx_host =
  fixes ex :: "'s nginx_executor"
    and fs :: "'s \<Rightarrow> string \<Rightarrow> string option"
  assumes read_frame: "x_readFile ex p s = (r, s') \<Longrightarrow> fs s' = fs s"
    and read_ok: "x_readFile ex p s = (Inr b, s') \<Longrightarrow> fs s p = Some b"
    and read_missing: "x_readFile ex p s = (Inl e, s') \<Longrightarrow> is_not_exist e \<Longrightarrow> fs s p = None"
    and write_frame: "x_writeFile ex p b s = (ru, s') \<Longrightarrow> q \<noteq> p \<Longrightarrow> fs s' q = fs s q"
    and write_ok: "x_writeFile ex p b s = (Inr u, s') \<Longrightarrow> fs s' p = Some b"
    and mkdir_frame: "x_mkdirAll ex p s = (ru, s') \<Longrightarrow> fs s' = fs s"
    and remove_frame: "x_remove ex p s = (ru, s') \<Longrightarrow> q \<noteq> p \<Longrightarrow> fs s' q = fs s q"
    and remove_ok: "x_remove ex p s = (Inr u, s') \<Longrightarrow> fs s' p = None"
    and remove_failed: "x_remove ex p s = (Inl e, s') \<Longrightarrow> fs s' p = fs s p"
    and remove_missing: "x_remove ex p s = (Inl e, s') \<Longrightarrow> is_not_exist e \<Longrightarrow> fs s p = None"
    and run_frame: "x_runCommand ex c s = (rc, s') \<Longrightarrow> fs s' = fs s"
    and run_returns: "x_runCommand ex c s \<noteq> (Inl e, s')"
    and now_frame: "x_nowUnix ex s = (rn, s') \<Longrightarrow> fs s' = fs s"
    and goos_frame: "x_goos ex s = (r, s') \<Longrightarrow> fs s' = fs s"
begin

text \<open>\<open>b\<close> remembers what was at \<open>path\<close> in the state \<open>s\<close>.\<close>

definition remembers :: "nginx_backup \<Rightarrow> string \<Rightarrow> 's \<Rightarrow> bool" where
  "remembers b path s \<longleftrightarrow>
     b_path b = path \<and> fs s path = (if b_existed b then Some (b_body b) else None)"

lemma bak_neq: "path @ ''.bak.'' @ x \<noteq> path"
  by simp

lemma backup_ok:
  assumes "backupNginxConfig path ex s = (Inr (b, d), s')"
  shows "remembers b path s \<and> fs s' path = fs s path
    \<and> (\<forall>q. q \<noteq> b_backupPath b \<or> \<not> b_existed b \<longrightarrow> fs s' q = fs s q)
    \<and> (b_existed b \<longrightarrow> fs s' (b_backupPath b) = Some (b_body b) \<and> b_backupPath b \<noteq> path)"
proof -
  obtain r s1 where r: "x_readFile ex path s = (r, s1)" by (cases "x_readFile ex path s")
  note f1 = read_frame [OF r]
  show ?thesis
  proof (cases r)
    case (Inl e)
    with assms r have "is_not_exist e" "b = \<lparr>b_path = path, b_existed = False, b_body = '''', b_backupPath = ''''\<rparr>" "s' = s1"
      by (auto simp: backupNginxConfig_def monad_simps split: if_splits)
    then show ?thesis using f1 read_missing [of path s e s1] r Inl by (simp add: remembers_def)
  next
    case (Inr body)
    from assms r Inr obtain now s2 where n: "x_nowUnix ex s1 = (Inr now, s2)"
      and w: "x_writeFile ex (path @ ''.bak.'' @ itoa now) body s2 = (Inr (), s')"
      and b: "b = \<lparr>b_path = path, b_existed = True, b_body = body, b_backupPath = path @ ''.bak.'' @ itoa now\<rparr>"
      by (auto simp: backupNginxConfig_def bindM_apply tryM_apply monad_Inr Let_def split: prod.splits sum.splits)
    have "fs s path = Some body" using read_ok r Inr by blast
    moreover have "fs s' q = fs s q" if "q \<noteq> path @ ''.bak.'' @ itoa now" for q
      using write_frame [OF w that] now_frame [OF n] f1 by simp
    ultimately show ?thesis using write_ok [OF w] b by (simp add: remembers_def)
  qed
qed

lemma backup_err_frame:
  assumes "backupNginxConfig path ex s = (Inl e, s')"
  shows "fs s' path = fs s path"
proof -
  obtain r s1 where r: "x_readFile ex path s = (r, s1)" by (cases "x_readFile ex path s")
  show ?thesis
  proof (cases r)
    case (Inl e1)
    with assms r read_frame [OF r] show ?thesis
      by (auto simp: backupNginxConfig_def monad_simps split: if_splits)
  next
    case (Inr body)
    obtain rn s2 where n: "x_nowUnix ex s1 = (rn, s2)" by (cases "x_nowUnix ex s1")
    show ?thesis
    proof (cases rn)
      case (Inl en)
      with assms r \<open>r = Inr body\<close> n have "s' = s2"
        by (auto simp: backupNginxConfig_def monad_simps)
      then show ?thesis using read_frame [OF r] now_frame [OF n] by simp
    next
      case (Inr now)
      obtain rw s3 where w: "x_writeFile ex (path @ ''.bak.'' @ itoa now) body s2 = (rw, s3)"
        by (cases "x_writeFile ex (path @ ''.bak.'' @ itoa now) body s2")
      then have "fs s3 path = fs s2 path" using write_frame [OF w, of path] by simp
      moreover have "s' = s3" using assms r \<open>r = Inr body\<close> n Inr w
        by (auto simp: backupNginxConfig_def monad_simps Let_def split: sum.splits)
      ultimately show ?thesis using read_frame [OF r] now_frame [OF n] by simp
    qed
  qed
qed

lemma restore_ok:
  assumes "restoreNginxConfig (Some b) ex s1 = (Inr u, s')" "remembers b path s" "path \<noteq> ''''"
  shows "fs s' path = fs s path \<and> (\<forall>q. q \<noteq> path \<longrightarrow> fs s' q = fs s1 q)"
proof (cases "b_existed b")
  case True
  with assms show ?thesis
    using write_ok write_frame by (auto simp: restoreNginxConfig_def remembers_def)
next
  case False
  obtain r s2 where r: "x_remove ex path s1 = (r, s2)" by (cases "x_remove ex path s1")
  have p: "b_path b = path" "fs s path = None" using assms(2) False by (simp_all add: remembers_def)
  have s2: "s2 = s'" "\<And>e. r = Inl e \<Longrightarrow> is_not_exist e"
    using assms(1,3) p False r
    by (auto simp: restoreNginxConfig_def bindM_apply tryM_apply split: sum.splits if_splits)
  show ?thesis
  proof (cases r)
    case (Inl e)
    then have "fs s1 path = None" using remove_missing [of path s1 e s2] r s2 by simp
    then show ?thesis using remove_failed [of path s1 e s2] remove_frame [OF r] r Inl s2 p by auto
  next
    case (Inr v)
    then show ?thesis using remove_ok [of path s1 v s2] remove_frame [OF r] r s2 p by auto
  qed
qed

lemma restore_frame:
  assumes "restoreNginxConfig (Some b) ex s1 = (r, s')" "q \<noteq> b_path b"
  shows "fs s' q = fs s1 q"
proof (cases "b_existed b")
  case True
  with assms show ?thesis using write_frame by (auto simp: restoreNginxConfig_def split: if_splits)
next
  case False
  obtain rr s2 where "x_remove ex (b_path b) s1 = (rr, s2)" by (cases "x_remove ex (b_path b) s1")
  with assms False show ?thesis
    using remove_frame [of "b_path b" s1 rr s2 q]
    by (auto simp: restoreNginxConfig_def bindM_apply tryM_apply split: if_splits sum.splits)
qed

end

text \<open>The errors after which the file may differ from what it was: they say so.\<close>

definition left_dirty :: "gerr \<Rightarrow> bool" where
  "left_dirty e \<longleftrightarrow>
     (\<exists>e0. e = wrapf ''write nginx config: '' e0 '''')
     \<or> (\<exists>es msg t. e = Wrapped es (msg @ NL @ ''rollback failed: '' @ t))"

context nginx_host
begin

lemma rolled_back:
  assumes "rolled_back_error es msg b ex s1 = (r, s')" "remembers b path s" "path \<noteq> ''''"
  shows "\<exists>e. r = Inl e \<and> (left_dirty e \<or> fs s' path = fs s path)"
proof -
  obtain rr s2 where rr: "restoreNginxConfig (Some b) ex s1 = (rr, s2)"
    by (cases "restoreNginxConfig (Some b) ex s1")
  show ?thesis
  proof (cases rr)
    case (Inl e)
    then show ?thesis using assms(1) rr
      by (auto simp: rolled_back_error_def bindM_apply tryM_apply left_dirty_def)
  next
    case (Inr u)
    then show ?thesis using assms restore_ok [of b s1 u s2 path s] rr
      by (auto simp: rolled_back_error_def bindM_apply tryM_apply)
  qed
qed

lemma rolled_back_frame:
  "rolled_back_error es msg b ex s1 = (r, s') \<Longrightarrow> q \<noteq> b_path b \<Longrightarrow> fs s' q = fs s1 q"
  using restore_frame [of b s1]
  by (cases "restoreNginxConfig (Some b) ex s1")
     (auto simp: rolled_back_error_def bindM_apply tryM_apply split: sum.splits)

lemma run_cases:
  obtains out err s1 where "x_runCommand ex c s = (Inr (out, err), s1)" "fs s1 = fs s"
proof -
  obtain r s1 where r: "x_runCommand ex c s = (r, s1)" by (cases "x_runCommand ex c s")
  then show thesis using run_returns [of c s] run_frame [OF r] that by (cases r) auto
qed

lemma reload_outcome:
  assumes "reloadNginx b ex s1 = (r, s')" "remembers b path s" "path \<noteq> ''''"
  shows "(\<exists>u. r = Inr u \<and> fs s' = fs s1) \<or> (\<exists>e. r = Inl e \<and> (left_dirty e \<or> fs s' path = fs s path))"
proof -
  obtain out err s2 where c: "x_runCommand ex [''systemctl'', ''reload'', ''nginx''] s1 = (Inr (out, err), s2)" "fs s2 = fs s1"
    by (rule run_cases)
  show ?thesis
  proof (cases err)
    case None
    with assms(1) c show ?thesis by (simp add: reloadNginx_def bindM_apply)
  next
    case (Some e)
    obtain out2 err2 s3 where c2: "x_runCommand ex [''service'', ''nginx'', ''reload''] s2 = (Inr (out2, err2), s3)" "fs s3 = fs s2"
      by (rule run_cases)
    show ?thesis
    proof (cases err2)
      case None
      with assms(1) c c2 Some show ?thesis by (simp add: reloadNginx_def bindM_apply)
    next
      case (Some fe)
      with assms(1) c c2 \<open>err = Some e\<close> have
        "\<exists>msg. rolled_back_error [e, fe] msg b ex s3 = (r, s')"
        by (auto simp: reloadNginx_def bindM_apply)
      then show ?thesis using rolled_back assms(2,3) by blast
    qed
  qed
qed

lemma reload_frame:
  assumes "reloadNginx b ex s1 = (r, s')" "q \<noteq> b_path b"
  shows "fs s' q = fs s1 q"
proof -
  obtain out err s2 where c: "x_runCommand ex [''systemctl'', ''reload'', ''nginx''] s1 = (Inr (out, err), s2)" "fs s2 = fs s1"
    by (rule run_cases)
  obtain out2 err2 s3 where c2: "x_runCommand ex [''service'', ''nginx'', ''reload''] s2 = (Inr (out2, err2), s3)" "fs s3 = fs s2"
    by (rule run_cases)
  from assms c c2 show ?thesis
    by (auto simp: reloadNginx_def bindM_apply dest!: rolled_back_frame [where q = q] split: option.splits)
qed

text \<open>What \<open>applyNginxConfig\<close> leaves behind.\<close>

lemma apply_outcome:
  assumes "applyNginxConfig path body ex s = (r, s')" "path \<noteq> ''''"
  shows "(\<exists>d. r = Inr d \<and> fs s' path = Some body)
    \<or> (\<exists>e. r = Inl e \<and> (left_dirty e \<or> fs s' path = fs s path))"
proof -
  obtain rb s1 where rb: "backupNginxConfig path ex s = (rb, s1)" by (cases "backupNginxConfig path ex s")
  show ?thesis
  proof (cases rb)
    case (Inl e)
    with assms rb backup_err_frame [of path s e s1] show ?thesis
      by (auto simp: applyNginxConfig_def bindM_apply)
  next
    case (Inr bd)
    obtain b d where bd: "bd = (b, d)" by (cases bd)
    with rb Inr have b: "remembers b path s" "fs s1 path = fs s path" using backup_ok by blast+
    obtain rm s2 where rm: "x_mkdirAll ex (path_dir path) s1 = (rm, s2)" by (cases "x_mkdirAll ex (path_dir path) s1")
    show ?thesis
    proof (cases rm)
      case (Inl e)
      with assms rb Inr bd rm mkdir_frame [OF rm] b show ?thesis
        by (auto simp: applyNginxConfig_def bindM_apply thenM_apply mapErrM_apply)
    next
      case (Inr u)
      obtain rw s3 where rw: "x_writeFile ex path body s2 = (rw, s3)" by (cases "x_writeFile ex path body s2")
      show ?thesis
      proof (cases rw)
        case (Inl e)
        with assms rb \<open>rb = Inr bd\<close> bd rm Inr rw show ?thesis
          by (auto simp: applyNginxConfig_def bindM_apply thenM_apply mapErrM_apply left_dirty_def)
      next
        case (Inr v)
        with rw have w: "fs s3 path = Some body" using write_ok by blast
        obtain out err s4 where c: "x_runCommand ex [''nginx'', ''-t''] s3 = (Inr (out, err), s4)" "fs s4 = fs s3"
          by (rule run_cases)
        show ?thesis
        proof (cases err)
          case (Some e)
          with assms rb \<open>rb = Inr bd\<close> bd rm \<open>rm = Inr u\<close> rw Inr c
          have "\<exists>msg. rolled_back_error [e] msg b ex s4 = (r, s')"
            by (auto simp: applyNginxConfig_def bindM_apply thenM_apply mapErrM_apply)
          then show ?thesis using rolled_back b assms(2) by blast
        next
          case None
          obtain rl s5 where rl: "reloadNginx b ex s4 = (rl, s5)" by (cases "reloadNginx b ex s4")
          with assms rb \<open>rb = Inr bd\<close> bd rm \<open>rm = Inr u\<close> rw Inr c None show ?thesis
            using reload_outcome [OF rl b(1) assms(2)] w
            by (auto simp: applyNginxConfig_def bindM_apply thenM_apply mapErrM_apply split: sum.splits)
        qed
      qed
    qed
  qed
qed

lemma apply_installs: "applyNginxConfig path body ex s = (Inr d, s') \<Longrightarrow> path \<noteq> '''' \<Longrightarrow> fs s' path = Some body"
  using apply_outcome by fastforce

lemma apply_rolls_back:
  "applyNginxConfig path body ex s = (Inl e, s') \<Longrightarrow> path \<noteq> '''' \<Longrightarrow> \<not> left_dirty e \<Longrightarrow> fs s' path = fs s path"
  using apply_outcome by fastforce

end

section \<open>Removal\<close>

text \<open>
  A host on which, in the states \<open>ok\<close>, writing and removing do not fail.  There a failed removal puts the file
  back; without it the code ignores the error of the restore.
\<close>

locale reliable_host = nginx_host ex fs
  for ex :: "'s nginx_executor" and fs :: "'s \<Rightarrow> string \<Rightarrow> string option" +
  fixes ok :: "'s \<Rightarrow> bool"
  assumes write_succeeds: "ok s \<Longrightarrow> x_writeFile ex p b s \<noteq> (Inl e, s')"
    and remove_succeeds: "ok s \<Longrightarrow> x_remove ex p s = (Inl e, s') \<Longrightarrow> is_not_exist e"
    and ok_read: "ok s \<Longrightarrow> x_readFile ex p s = (r, s') \<Longrightarrow> ok s'"
    and ok_write: "ok s \<Longrightarrow> x_writeFile ex p b s = (ru, s') \<Longrightarrow> ok s'"
    and ok_remove: "ok s \<Longrightarrow> x_remove ex p s = (ru, s') \<Longrightarrow> ok s'"
    and ok_mkdir: "ok s \<Longrightarrow> x_mkdirAll ex p s = (ru, s') \<Longrightarrow> ok s'"
    and ok_run: "ok s \<Longrightarrow> x_runCommand ex c s = (rc, s') \<Longrightarrow> ok s'"
    and ok_now: "ok s \<Longrightarrow> x_nowUnix ex s = (rn, s') \<Longrightarrow> ok s'"

context nginx_host
begin

lemma remove_success:
  assumes "removeNginxConfig path ex s = (Inr ob, s')"
  shows "\<exists>b. ob = Some b \<and> remembers b path s \<and> fs s' path = None"
proof -
  from assms obtain goos s1 b d s2 where g: "x_goos ex s = (Inr goos, s1)"
    and b: "backupNginxConfig path ex s1 = (Inr (b, d), s2)"
    and rest: "\<not> b_existed b \<and> ob = Some b \<and> s' = s2 \<or>
      b_existed b \<and> ob = Some b \<and> (\<exists>s3 out s4 out2. x_remove ex path s2 = (Inr (), s3)
        \<and> x_runCommand ex [''nginx'', ''-t''] s3 = (Inr (out, None), s4)
        \<and> x_runCommand ex [''nginx'', ''-s'', ''reload''] s4 = (Inr (out2, None), s'))"
    by (auto simp: removeNginxConfig_def bindM_apply thenM_apply mapErrM_apply
        split: prod.splits sum.splits option.splits if_splits)
  have rem: "remembers b path s" and same: "fs s2 path = fs s1 path"
    using backup_ok [OF b] goos_frame [OF g] by (auto simp: remembers_def)
  from rest show ?thesis
  proof (elim disjE exE conjE)
    assume "\<not> b_existed b" "ob = Some b" "s' = s2"
    with rem same goos_frame [OF g] show ?thesis by (auto simp: remembers_def)
  next
    fix s3 out s4 out2
    assume a: "ob = Some b" "x_remove ex path s2 = (Inr (), s3)"
      "x_runCommand ex [''nginx'', ''-t''] s3 = (Inr (out, None), s4)"
      "x_runCommand ex [''nginx'', ''-s'', ''reload''] s4 = (Inr (out2, None), s')"
    then have "fs s' path = None" using remove_ok run_frame by metis
    with rem a show ?thesis by blast
  qed
qed

end

context reliable_host
begin

lemma ok_backup: "ok s \<Longrightarrow> backupNginxConfig path ex s = (r, s') \<Longrightarrow> ok s'"
  by (auto simp: backupNginxConfig_def bindM_apply tryM_apply thenM_apply mapErrM_apply Let_def
      split: prod.splits sum.splits if_splits) (metis ok_read ok_write ok_now)+

lemma restore_existing:
  assumes "ok s1" "b_existed b" "remembers b path s" "path \<noteq> ''''"
  obtains s2 where "restoreNginxConfig (Some b) ex s1 = (Inr (), s2)" "fs s2 path = fs s path"
proof -
  have r: "restoreNginxConfig (Some b) ex s1 = x_writeFile ex path (b_body b) s1"
    using assms by (simp add: restoreNginxConfig_def remembers_def)
  obtain rw s2 where w: "x_writeFile ex path (b_body b) s1 = (rw, s2)"
    by (cases "x_writeFile ex path (b_body b) s1")
  with write_succeeds [OF assms(1)] obtain u where "rw = Inr u" by (cases rw) auto
  with w r that write_ok [of path "b_body b" s1 u s2] assms show ?thesis by (simp add: remembers_def)
qed

lemma remove_failure:
  assumes "removeNginxConfig path ex s = (Inl e, s')" "path \<noteq> ''''" "\<And>s1 goos. x_goos ex s = (goos, s1) \<Longrightarrow> ok s1"
  shows "fs s' path = fs s path"
proof -
  obtain rg s1 where g: "x_goos ex s = (rg, s1)" by (cases "x_goos ex s")
  note f1 = goos_frame [OF g] and ok1 = assms(3) [OF g]
  show ?thesis
  proof (cases "\<exists>goos b d s2. rg = Inr goos \<and> validateNginxConfigPathForGOOS path goos = Inr ()
      \<and> backupNginxConfig path ex s1 = (Inr (b, d), s2)")
    case False
    then show ?thesis
      using assms(1) g f1 backup_err_frame [of path s1]
      by (auto simp: removeNginxConfig_def bindM_apply thenM_apply split: prod.splits sum.splits)
  next
    case True
    then obtain goos b d s2 where rg: "rg = Inr goos" "validateNginxConfigPathForGOOS path goos = Inr ()"
      and b: "backupNginxConfig path ex s1 = (Inr (b, d), s2)" by blast
    note bo = backup_ok [OF b] and ok2 = ok_backup [OF ok1 b]
    have ex: "b_existed b" using assms(1) g rg b
      by (auto simp: removeNginxConfig_def bindM_apply thenM_apply split: if_splits)
    obtain rr s3 where r: "x_remove ex path s2 = (rr, s3)" by (cases "x_remove ex path s2")
    note ok3 = ok_remove [OF ok2 r]
    show ?thesis
    proof (cases rr)
      case (Inl er)
      with assms(1) g rg b ex r have "s' = s3"
        by (auto simp: removeNginxConfig_def bindM_apply thenM_apply mapErrM_apply)
      then show ?thesis using remove_failed [of path s2 er s3] r Inl bo f1 by simp
    next
      case (Inr u)
      obtain out err s4 where c: "x_runCommand ex [''nginx'', ''-t''] s3 = (Inr (out, err), s4)" by (rule run_cases)
      note ok4 = ok_run [OF ok3 c]
      obtain out2 err2 s5 where c2: "x_runCommand ex [''nginx'', ''-s'', ''reload''] s4 = (Inr (out2, err2), s5)"
        by (rule run_cases)
      note ok5 = ok_run [OF ok4 c2]
      have rem: "remembers b path s1" using bo by simp
      obtain t where t: "restoreNginxConfig (Some b) ex s4 = (Inr (), t)" "fs t path = fs s1 path"
        by (rule restore_existing [OF ok4 ex rem assms(2)])
      obtain v where v: "restoreNginxConfig (Some b) ex s5 = (Inr (), v)" "fs v path = fs s1 path"
        by (rule restore_existing [OF ok5 ex rem assms(2)])
      obtain out3 err3 x where c3: "x_runCommand ex [''nginx'', ''-s'', ''reload''] v = (Inr (out3, err3), x)" "fs x = fs v"
        by (rule run_cases)
      from assms(1) g rg b ex r Inr c c2 t v c3 f1 show ?thesis
        by (auto simp: removeNginxConfig_def bindM_apply thenM_apply mapErrM_apply tryM_apply split: option.splits)
    qed
  qed
qed

end

text \<open>On a reliable host an apply that fails leaves the file as it was.\<close>

context reliable_host
begin

lemma restore_succeeds:
  assumes "ok s"
  shows "\<exists>s'. restoreNginxConfig b ex s = (Inr (), s')"
proof (cases b)
  case None
  then show ?thesis by (simp add: restoreNginxConfig_def)
next
  case (Some bk)
  obtain rw s1 where w: "x_writeFile ex (b_path bk) (b_body bk) s = (rw, s1)"
    by (cases "x_writeFile ex (b_path bk) (b_body bk) s")
  obtain rr s2 where r: "x_remove ex (b_path bk) s = (rr, s2)" by (cases "x_remove ex (b_path bk) s")
  have "\<exists>u. rw = Inr u" using write_succeeds [OF assms] w by (cases rw) auto
  moreover have "rr = Inl e \<Longrightarrow> is_not_exist e" for e using remove_succeeds [OF assms] r by blast
  ultimately show ?thesis using Some w r
    by (auto simp: restoreNginxConfig_def bindM_apply tryM_apply split: sum.splits)
qed

lemma rolled_back_reliable:
  assumes "rolled_back_error es msg b ex s1 = (r, s')" "remembers b path s" "path \<noteq> ''''" "ok s1"
  shows "\<exists>e. r = Inl e \<and> fs s' path = fs s path"
proof -
  obtain s2 where rr: "restoreNginxConfig (Some b) ex s1 = (Inr (), s2)" using restore_succeeds assms(4) by blast
  then show ?thesis using assms restore_ok [OF rr assms(2,3)]
    by (auto simp: rolled_back_error_def bindM_apply tryM_apply)
qed

lemma apply_atomic:
  assumes "applyNginxConfig path body ex s = (Inl e, s')" "path \<noteq> ''''" "ok s"
  shows "fs s' path = fs s path"
proof -
  obtain rb s1 where rb: "backupNginxConfig path ex s = (rb, s1)" by (cases "backupNginxConfig path ex s")
  note ok1 = ok_backup [OF assms(3) rb]
  show ?thesis
  proof (cases rb)
    case (Inl e)
    with assms rb backup_err_frame [of path s e s1] show ?thesis
      by (auto simp: applyNginxConfig_def bindM_apply)
  next
    case (Inr bd)
    obtain b d where bd: "bd = (b, d)" by (cases bd)
    with rb Inr have b: "remembers b path s" "fs s1 path = fs s path" using backup_ok by blast+
    obtain rm s2 where rm: "x_mkdirAll ex (path_dir path) s1 = (rm, s2)" by (cases "x_mkdirAll ex (path_dir path) s1")
    note ok2 = ok_mkdir [OF ok1 rm]
    obtain rw s3 where rw: "x_writeFile ex path body s2 = (rw, s3)" by (cases "x_writeFile ex path body s2")
    then obtain v where v: "rw = Inr v" using write_succeeds [OF ok2] by (cases rw) auto
    note ok3 = ok_write [OF ok2 rw]
    obtain out err s4 where c: "x_runCommand ex [''nginx'', ''-t''] s3 = (Inr (out, err), s4)" by (rule run_cases)
    note ok4 = ok_run [OF ok3 c]
    obtain out2 err2 s5 where c2: "x_runCommand ex [''systemctl'', ''reload'', ''nginx''] s4 = (Inr (out2, err2), s5)"
      by (rule run_cases)
    note ok5 = ok_run [OF ok4 c2]
    obtain out3 err3 s6 where c3: "x_runCommand ex [''service'', ''nginx'', ''reload''] s5 = (Inr (out3, err3), s6)"
      by (rule run_cases)
    note ok6 = ok_run [OF ok5 c3]
    from assms(1) rb Inr bd rm rw v c c2 c3 consider
        "fs s' path = fs s2 path"
      | msg es where "rolled_back_error es msg b ex s4 = (Inl e :: string res, s')"
      | msg es where "rolled_back_error es msg b ex s6 = (Inl e :: unit res, s')"
      by (auto simp: applyNginxConfig_def reloadNginx_def bindM_apply thenM_apply mapErrM_apply
          split: sum.splits prod.splits option.splits)
    then show ?thesis
      using mkdir_frame [OF rm] b
      by cases (auto dest!: rolled_back_reliable [OF _ b(1) assms(2) ok4]
          rolled_back_reliable [OF _ b(1) assms(2) ok6])
  qed
qed

end

text \<open>Only the file and its backup are ever touched.\<close>

context nginx_host
begin

lemma backup_frame:
  assumes "backupNginxConfig path ex s = (r, s')" "\<And>n. q \<noteq> path @ ''.bak.'' @ itoa n"
  shows "fs s' q = fs s q"
proof -
  obtain rd s1 where rd: "x_readFile ex path s = (rd, s1)" by (cases "x_readFile ex path s")
  obtain rn s2 where n: "x_nowUnix ex s1 = (rn, s2)" by (cases "x_nowUnix ex s1")
  have w: "x_writeFile ex (path @ ''.bak.'' @ itoa k) b s2 = (rw, s3) \<Longrightarrow> fs s3 q = fs s2 q" for k b rw s3
    using write_frame assms(2) by blast
  show ?thesis
    using assms(1) rd n read_frame [OF rd] now_frame [OF n] w
    by (auto simp: backupNginxConfig_def bindM_apply tryM_apply thenM_apply mapErrM_apply Let_def
        split: sum.splits prod.splits if_splits)
qed

lemma backup_path: "backupNginxConfig path ex s = (Inr (b, d), s') \<Longrightarrow> b_path b = path"
  using backup_ok by (simp add: remembers_def)

lemma apply_frame:
  assumes a: "applyNginxConfig path body ex s = (r, s')" and q: "q \<noteq> path" "\<And>n. q \<noteq> path @ ''.bak.'' @ itoa n"
  shows "fs s' q = fs s q"
proof -
  obtain rb s1 where rb: "backupNginxConfig path ex s = (rb, s1)" by (cases "backupNginxConfig path ex s")
  note f1 = backup_frame [OF rb q(2)]
  obtain rm s2 where rm: "x_mkdirAll ex (path_dir path) s1 = (rm, s2)" by (cases "x_mkdirAll ex (path_dir path) s1")
  obtain rw s3 where rw: "x_writeFile ex path body s2 = (rw, s3)" by (cases "x_writeFile ex path body s2")
  note f3 = write_frame [OF rw q(1)]
  obtain out err s4 where c: "x_runCommand ex [''nginx'', ''-t''] s3 = (Inr (out, err), s4)" "fs s4 = fs s3"
    by (rule run_cases)
  have rl: "reloadNginx b ex s4 = (rx, s5) \<Longrightarrow> b_path b = path \<Longrightarrow> fs s5 q = fs s4 q" for b rx s5
    using reload_frame q(1) by blast
  have rr: "rolled_back_error es msg b ex s4 = (rx, s5) \<Longrightarrow> b_path b = path \<Longrightarrow> fs s5 q = fs s4 q"
    for es msg b and rx :: "string res" and s5
    using rolled_back_frame q(1) by blast
  show ?thesis
  proof (cases rb)
    case (Inl e)
    with a rb f1 show ?thesis by (auto simp: applyNginxConfig_def bindM_apply)
  next
    case (Inr bd)
    obtain b d where bd: "bd = (b, d)" by (cases bd)
    have "b_path b = path" using rb Inr bd backup_path by blast
    with a rb Inr bd rm rw c f1 f3 mkdir_frame [OF rm] show ?thesis
      by (auto simp: applyNginxConfig_def bindM_apply thenM_apply mapErrM_apply
          split: sum.splits prod.splits option.splits dest!: rl rr)
  qed
qed

end

section \<open>The operating system is such a host\<close>

definition fs_faultless :: "world \<Rightarrow> bool" where
  "fs_faultless w \<longleftrightarrow> (\<forall>t. e_fsFault (w_env w) t = None)"

lemmas os_defs = os_readFile_def os_writeFile_def os_mkdirAll_def os_remove_def runCommandOutput_def
  time_now_def askM_def fsM_def osNginxExecutor_def Let_def

interpretation os: nginx_host osNginxExecutor w_fs
  by unfold_locales (auto simp: os_defs split: option.splits if_splits)

interpretation os_ok: reliable_host osNginxExecutor w_fs fs_faultless
  by unfold_locales (auto simp: os_defs fs_faultless_def split: option.splits if_splits)

section \<open>What the operations leave alone\<close>

definition executor_keeps :: "('s \<Rightarrow> 's \<Rightarrow> bool) \<Rightarrow> 's nginx_executor \<Rightarrow> bool" where
  "executor_keeps R ex \<longleftrightarrow>
     preorderR R \<and> keepsM R (x_goos ex) \<and> (\<forall>p. keepsM R (x_readFile ex p))
     \<and> (\<forall>p b. keepsM R (x_writeFile ex p b)) \<and> (\<forall>p. keepsM R (x_mkdirAll ex p))
     \<and> (\<forall>p. keepsM R (x_remove ex p)) \<and> (\<forall>c. keepsM R (x_runCommand ex c)) \<and> keepsM R (x_nowUnix ex)"

lemma executor_keepsD:
  assumes "executor_keeps R ex"
  shows "preorderR R" "keepsM R (x_goos ex)" "keepsM R (x_readFile ex p)"
    "keepsM R (x_writeFile ex p b)" "keepsM R (x_mkdirAll ex p)" "keepsM R (x_remove ex p)"
    "keepsM R (x_runCommand ex c)" "keepsM R (x_nowUnix ex)"
  using assms by (auto simp: executor_keeps_def)

lemma keeps_backupNginxConfig: "executor_keeps R ex \<Longrightarrow> keepsM R (backupNginxConfig path ex)"
  unfolding backupNginxConfig_def by (intro keeps) (auto dest: executor_keepsD)

lemma keeps_restoreNginxConfig: "executor_keeps R ex \<Longrightarrow> keepsM R (restoreNginxConfig b ex)"
  unfolding restoreNginxConfig_def by (intro keeps) (auto dest: executor_keepsD)

lemma keeps_rolled_back: "executor_keeps R ex \<Longrightarrow> keepsM R (rolled_back_error es msg b ex)"
  unfolding rolled_back_error_def
  by (intro keeps) (auto dest: executor_keepsD intro: keeps_restoreNginxConfig)

lemma keeps_reloadNginx: "executor_keeps R ex \<Longrightarrow> keepsM R (reloadNginx b ex)"
  unfolding reloadNginx_def by (intro keeps) (auto dest: executor_keepsD intro: keeps_rolled_back)

lemma keeps_applyNginxConfig: "executor_keeps R ex \<Longrightarrow> keepsM R (applyNginxConfig path body ex)"
  unfolding applyNginxConfig_def
  by (intro keeps)
     (auto dest: executor_keepsD intro: keeps_backupNginxConfig keeps_rolled_back keeps_reloadNginx)

lemma keeps_removeNginxConfig: "executor_keeps R ex \<Longrightarrow> keepsM R (removeNginxConfig path ex)"
  unfolding removeNginxConfig_def
  by (intro keeps) (auto dest: executor_keepsD intro: keeps_backupNginxConfig keeps_restoreNginxConfig)

lemma keeps_restoreRemoved: "executor_keeps R ex \<Longrightarrow> keepsM R (restoreRemovedLineNginxConfig b ex)"
  unfolding restoreRemovedLineNginxConfig_def
  by (intro keeps) (auto dest: executor_keepsD intro: keeps_restoreNginxConfig)

lemma keeps_fsM: "preorderR R \<Longrightarrow> keepsM (db_rel R) (fsM f)"
  by (auto simp: keepsM_def fsM_def db_rel_def Let_def preorderR_refl split: option.splits prod.splits)

lemma keeps_os_removeAll [keeps]: "preorderR R \<Longrightarrow> keepsM (db_rel R) (os_removeAll p)"
  unfolding os_removeAll_def by (rule keeps_fsM)

lemma keeps_os_stat [keeps]: "preorderR R \<Longrightarrow> keepsM (db_rel R) (os_stat p)"
  unfolding os_stat_def by (rule keeps_fsM)

lemma keeps_os_writeFile [keeps]: "preorderR R \<Longrightarrow> keepsM (db_rel R) (os_writeFile p b)"
  by (auto simp: keepsM_def os_writeFile_def db_rel_def Let_def preorderR_refl split: option.splits)

lemma os_executor_keeps: "preorderR R \<Longrightarrow> executor_keeps (db_rel R) osNginxExecutor"
  unfolding executor_keeps_def osNginxExecutor_def runCommandOutput_def
    os_readFile_def os_mkdirAll_def os_remove_def
  by (auto intro: keeps keeps_fsM)

lemma keeps_getString [keeps]: "preorderR R \<Longrightarrow> keepsM (db_rel R) (getString k)"
  unfolding getString_def getSetting_def by (intro keeps)

lemma keeps_buildNginxPlan [keeps]: "preorderR R \<Longrightarrow> keepsM (db_rel R) (buildNginxPlan l c)"
  unfolding buildNginxPlan_def buildLineSubscriptionNginxLocation_def lineSubscriptionPath_def
    GetPort_def GetCertFile_def GetKeyFile_def GetBasePath_def getInt_def
  by (intro keeps)

lemma keeps_buildLineApplyPlan [keeps]: "preorderR R \<Longrightarrow> keepsM (db_rel R) (buildLineApplyPlan l b c)"
  unfolding buildLineApplyPlan_def by (intro keeps)

lemma keeps_applyCloudflareNginx [keeps]: "preorderR R \<Longrightarrow> keepsM (db_rel R) (applyCloudflareNginx l c)"
  unfolding applyCloudflareNginx_def applyCloudflareNginxWithExecutor_def
  by (intro keeps)
     (auto intro: keeps keeps_applyNginxConfig os_executor_keeps executor_keepsD)

lemma keeps_removeLineNginxConfig [keeps]: "preorderR R \<Longrightarrow> keepsM (db_rel R) (removeLineNginxConfig l c)"
  unfolding removeLineNginxConfig_def
  by (intro keeps) (auto intro: keeps_removeNginxConfig os_executor_keeps)

lemma keeps_fs_buildNginxPlan [keeps]: "keepsM (sameR w_fs) (buildNginxPlan l c)"
  unfolding buildNginxPlan_def buildLineSubscriptionNginxLocation_def lineSubscriptionPath_def
    GetPort_def GetCertFile_def GetKeyFile_def GetBasePath_def getInt_def getString_def getSetting_def
  by (intro keeps)

lemma fs_buildNginxPlan: "buildNginxPlan l c w = (r, w') \<Longrightarrow> w_fs w' = w_fs w"
  using keepsM_D' [OF keeps_fs_buildNginxPlan] by (simp add: sameR_def)

end
