(* ===== verification/LineXray.thy ===== *)
theory LineXray
  imports LineTemplate NginxApply
begin

text \<open>
  Writing a line into Xray (internal/web/service/line.go from \<^verbatim>\<open>applyLineXray\<close> to
  \<^verbatim>\<open>lineManagedClientSubID\<close>): the inbound it owns, its managed client in the normalized client
  tables, and its part of the template.  The line and the configuration that the Go code changes
  through pointers are returned.
\<close>

section \<open>The inbound of a line\<close>

definition lineManagedClientEmail :: "int \<Rightarrow> string" where
  "lineManagedClientEmail lineID = ''line-'' @ itoa lineID @ ''-user''"

definition lineManagedClientSubID :: "int \<Rightarrow> string" where
  "lineManagedClientSubID lineID = ''line-'' @ itoa lineID"

text \<open>The fields every \<^verbatim>\<open>buildXxxInbound\<close> sets in the same way.\<close>

definition line_inbound ::
    "line_profile \<Rightarrow> string \<Rightarrow> string \<Rightarrow> int \<Rightarrow> string \<Rightarrow> json \<Rightarrow> json \<Rightarrow> string list \<Rightarrow> inbound" where
  "line_inbound line inboundTag listen port protocol settings stream dests =
     \<lparr>i_id = 0, i_userId = 1, i_up = 0, i_down = 0, i_total = 0, i_remark = l_name line,
      i_subSortIndex = 1, i_enable = True, i_expiryTime = 0, i_trafficReset = ''never'',
      i_trafficResetDay = 1, i_lastTrafficReset = 0, i_listen = listen, i_port = port,
      i_protocol = protocol, i_settings = json_marshal settings,
      i_streamSettings = json_marshal stream, i_tag = inboundTag,
      i_sniffing = json_marshal (jobj [(''enabled'', JBool True),
                                       (''destOverride'', JArr (List.map JStr dests))]),
      i_nodeId = None, i_shareAddrStrategy = ''custom'', i_shareAddr = l_entryHost line,
      i_originNodeGuid = ''''\<rparr>"

text \<open>The entry of the managed client in the settings of a VLESS inbound.\<close>

definition vless_client :: "int \<Rightarrow> string \<Rightarrow> string \<Rightarrow> json" where
  "vless_client lineID clientID flow =
     jobj [(''id'', JStr clientID), (''email'', JStr (lineManagedClientEmail lineID)),
           (''enable'', JBool True), (''flow'', JStr flow), (''limitIp'', JInt 0), (''totalGB'', JInt 0),
           (''expiryTime'', JInt 0), (''tgId'', JInt 0), (''subId'', JStr (lineManagedClientSubID lineID)),
           (''reset'', JInt 0)]"

text \<open>The trimmed client id, generated and stored in the configuration when it is blank.\<close>

definition take_clientId :: "line_config \<Rightarrow> (string \<times> line_config) W" where
  "take_clientId config =
     (let clientID = trim_space (sget config ''clientId'') in
      if clientID = '''' then bindM new_uuid (\<lambda>u. retM (u, oput ''clientId'' u config))
      else retM (clientID, config))"

text \<open>The trimmed value of a key, or a default that is stored when the value is blank.\<close>

definition take_default :: "string \<Rightarrow> string \<Rightarrow> line_config \<Rightarrow> string" where
  "take_default key dflt config = (if blank config key then dflt else trim_space (sget config key))"

definition buildCloudflareInbound ::
    "line_profile \<Rightarrow> string \<Rightarrow> int \<Rightarrow> string \<Rightarrow> line_config \<Rightarrow> (inbound \<times> line_config) W" where
  "buildCloudflareInbound line inboundTag localPort wsPath config =
     bindM (take_clientId config) (\<lambda>(clientID, config').
       retM (line_inbound line inboundTag ''127.0.0.1'' localPort ''vless''
               (jobj [(''clients'', JArr [vless_client (l_id line) clientID '''']),
                      (''decryption'', JStr ''none'')])
               (jobj [(''network'', JStr ''ws''), (''security'', JStr ''none''),
                      (''wsSettings'', jobj [(''path'', JStr wsPath), (''headers'', jobj [])])])
               [''http'', ''tls'', ''quic''],
             config'))"

definition reality_stream :: "string \<Rightarrow> string \<Rightarrow> string \<Rightarrow> line_config \<Rightarrow> json" where
  "reality_stream dest fingerprint spiderX config =
     (let str = (\<lambda>k. JStr (trim_space (sget config k))) in
      jobj [(''network'', JStr ''tcp''),
            (''tcpSettings'', jobj [(''header'', jobj [(''type'', JStr ''none'')])]),
            (''security'', JStr ''reality''),
            (''realitySettings'',
              jobj [(''show'', JBool False), (''xver'', JInt 0), (''target'', JStr dest),
                    (''serverNames'', JArr [str ''realitySni'']), (''privateKey'', str ''realityPrivateKey''),
                    (''minClientVer'', str ''realityMinClientVer''), (''maxClientVer'', JStr ''''),
                    (''maxTimediff'', JInt 0), (''shortIds'', JArr [str ''realityShortId'']),
                    (''mldsa65Seed'', JStr ''''),
                    (''settings'',
                      jobj [(''publicKey'', str ''realityPublicKey''), (''fingerprint'', JStr fingerprint),
                            (''serverName'', JStr ''''), (''spiderX'', JStr spiderX),
                            (''mldsa65Verify'', JStr '''')])])])"

definition buildRealityInbound ::
    "line_profile \<Rightarrow> string \<Rightarrow> line_config \<Rightarrow> (inbound \<times> line_config) W" where
  "buildRealityInbound line inboundTag config0 =
     bindM (take_clientId config0) (\<lambda>(clientID, c1).
     let flow = take_default ''realityFlow'' ''xtls-rprx-vision'' c1;
         c2 = fill ''realityFlow'' ''xtls-rprx-vision'' c1;
         fingerprint = take_default ''realityFingerprint'' ''chrome'' c2;
         c3 = fill ''realityFingerprint'' ''chrome'' c2;
         spiderX = take_default ''realitySpiderX'' ''/'' c3;
         c4 = fill ''realitySpiderX'' ''/'' c3;
         dest0 = trim_space (sget c4 ''realitySni'') @ '':443'';
         dest = take_default ''realityDest'' dest0 c4;
         c5 = fill ''realityDest'' dest0 c4
     in retM (line_inbound line inboundTag ''0.0.0.0'' (l_entryPort line) ''vless''
                (jobj [(''clients'', JArr [vless_client (l_id line) clientID flow]),
                       (''decryption'', JStr ''none''), (''encryption'', JStr ''none''),
                       (''fallbacks'', JArr [])])
                (reality_stream dest fingerprint spiderX c5)
                [''http'', ''tls'', ''quic''],
              c5))"

definition buildShadowsocksInbound :: "line_profile \<Rightarrow> string \<Rightarrow> string \<Rightarrow> string \<Rightarrow> inbound W" where
  "buildShadowsocksInbound line inboundTag serverKey0 clientKey =
     bindM (if validShadowsocksClientKey defaultShadowsocksMethod serverKey0 then retM serverKey0
            else randomShadowsocksClientKey defaultShadowsocksMethod) (\<lambda>serverKey.
       retM (line_inbound line inboundTag ''0.0.0.0'' (l_entryPort line) ''shadowsocks''
               (jobj [(''method'', JStr defaultShadowsocksMethod), (''password'', JStr serverKey),
                      (''clients'', JArr [jobj [(''password'', JStr clientKey),
                          (''email'', JStr (lineManagedClientEmail (l_id line))), (''enable'', JBool True)]])])
               (jobj [(''network'', JStr ''tcp'')])
               [''http'', ''tls'']))"

definition shadowsocksServerKeyFromSettings :: "string \<Rightarrow> string" where
  "shadowsocksServerKeyFromSettings settings =
     (case unmarshal_object settings of
        None \<Rightarrow> ''''
      | Some values \<Rightarrow>
         (let key = jstr values ''password'' in
          if validShadowsocksClientKey defaultShadowsocksMethod key then key else ''''))"

section \<open>The managed client\<close>

definition new_client :: "string \<Rightarrow> string \<Rightarrow> string \<Rightarrow> string \<Rightarrow> string \<Rightarrow> client_record" where
  "new_client email subID uuid password flow =
     \<lparr>c_id = 0, c_email = email, c_subId = subID, c_uuid = uuid, c_password = password, c_auth = '''',
      c_flow = flow, c_security = '''', c_reverse = '''', c_privateKey = '''', c_publicKey = '''', c_allowedIPs = '''',
      c_preSharedKey = '''', c_keepAlive = 0, c_secret = '''', c_adTag = '''', c_limitIP = 0, c_totalGB = 0,
      c_expiryTime = 0, c_enable = True, c_tgID = 0, c_group = '''', c_comment = '''', c_reset = 0,
      c_createdAt = 0, c_updatedAt = 0\<rparr>"

definition owned_by_other :: "string \<Rightarrow> gerr" where
  "owned_by_other email = Errorf (''managed line client email is already owned by another client: '' @ email)"

definition upsertLineManagedClient :: "line_profile \<Rightarrow> int \<Rightarrow> line_config \<Rightarrow> unit W" where
  "upsertLineManagedClient line inboundID config =
     (let clientID = trim_space (sget config ''clientId'');
          email = lineManagedClientEmail (l_id line);
          subID = lineManagedClientSubID (l_id line);
          flow = (if l_type line = LineTypeReality then trim_space (sget config ''realityFlow'') else '''')
      in thenM (guardM (inboundID > 0) (Errorf ''line client requires transaction, line, and inbound''))
        (bindM (askM (\<lambda>e t. e_uuidOk e clientID)) (\<lambda>uuid_ok.
         thenM (guardM uuid_ok (wrapf ''line client ID is invalid: '' (lib_error ''uuid'' clientID) ''''))
        (bindM (tryM (first_client email)) (\<lambda>r.
         bindM (case r of
                  Inl e \<Rightarrow> if is_not_found e then create_client (new_client email subID clientID '''' flow) else failM e
                | Inr record \<Rightarrow>
                    if c_subId record \<noteq> subID then failM (owned_by_other email)
                    else thenM (update_client (c_id record)
                                  (\<lambda>c. c\<lparr>c_uuid := clientID, c_flow := flow, c_enable := True, c_subId := subID\<rparr>))
                           (retM (c_id record))) (\<lambda>cid.
           link_client cid inboundID (Some flow)))))))"

definition ensureLineManagedShadowsocksClient :: "line_profile \<Rightarrow> string W" where
  "ensureLineManagedShadowsocksClient line =
     (let email = lineManagedClientEmail (l_id line); subID = lineManagedClientSubID (l_id line) in
      bindM (tryM (first_client email)) (\<lambda>r.
        case r of
          Inl e \<Rightarrow>
           if is_not_found e
           then bindM (randomShadowsocksClientKey defaultShadowsocksMethod) (\<lambda>password.
                  thenM (create_client (new_client email subID '''' password '''')) (retM password))
           else failM e
        | Inr record \<Rightarrow>
           if c_subId record \<noteq> subID then failM (owned_by_other email)
           else bindM (if validShadowsocksClientKey defaultShadowsocksMethod (c_password record)
                       then retM (c_password record)
                       else randomShadowsocksClientKey defaultShadowsocksMethod) (\<lambda>password.
                thenM (update_client (c_id record)
                         (\<lambda>c. c\<lparr>c_password := password, c_enable := True, c_subId := subID, c_uuid := '''', c_flow := ''''\<rparr>))
                  (retM password))))"

definition attachLineManagedClient :: "line_profile \<Rightarrow> int \<Rightarrow> unit W" where
  "attachLineManagedClient line inboundID =
     thenM (guardM (inboundID > 0) (Errorf ''line client requires transaction, line, and inbound''))
       (bindM (first_client (lineManagedClientEmail (l_id line))) (\<lambda>record.
          if c_subId record \<noteq> lineManagedClientSubID (l_id line) then failM (owned_by_other (c_email record))
          else link_client (c_id record) inboundID None))"

definition lineManagedShadowsocksPassword :: "int \<Rightarrow> string W" where
  "lineManagedShadowsocksPassword lineID =
     bindM (first_client (lineManagedClientEmail lineID)) (\<lambda>record.
       if c_subId record \<noteq> lineManagedClientSubID lineID
          \<or> \<not> validShadowsocksClientKey defaultShadowsocksMethod (c_password record)
       then failM (Errorf ''managed Shadowsocks password is unavailable'')
       else retM (c_password record))"

definition delete_client_links :: "int \<Rightarrow> unit W" where
  "delete_client_links cid =
     db_exec (\<lambda>d. d\<lparr>d_clientInbounds := delete_where (\<lambda>x. ci_clientId x = cid) (d_clientInbounds d)\<rparr>)"

definition delete_client :: "int \<Rightarrow> unit W" where
  "delete_client cid = db_exec (\<lambda>d. d\<lparr>d_clients := delete_where (\<lambda>c. c_id c = cid) (d_clients d)\<rparr>)"

definition removeLineManagedClient :: "int \<Rightarrow> unit W" where
  "removeLineManagedClient lineID =
     (if lineID \<le> 0 then retM ()
      else bindM (tryM (first_client (lineManagedClientEmail lineID))) (\<lambda>r.
        case r of
          Inl e \<Rightarrow> if is_not_found e then retM () else failM e
        | Inr record \<Rightarrow>
           if c_subId record \<noteq> lineManagedClientSubID lineID
           then failM (Errorf (''refusing to remove unmanaged client with line email: ''
                               @ lineManagedClientEmail lineID))
           else thenM (delete_client_links (c_id record)) (delete_client (c_id record))))"

section \<open>Writing the inbound\<close>

text \<open>The inbound a line already has: by its recorded id, else by its tag.\<close>

definition find_existing_inbound :: "line_profile \<Rightarrow> inbound option W" where
  "find_existing_inbound line =
     bindM (case l_inboundId line of
              Some iid \<Rightarrow>
                if iid > 0 then
                  bindM (tryM (first_inbound iid)) (\<lambda>r.
                    case r of
                      Inr ib \<Rightarrow> retM (Some ib)
                    | Inl e \<Rightarrow> if is_not_found e then retM None else failM e)
                else retM None
            | None \<Rightarrow> retM None) (\<lambda>byId.
       case byId of
         Some ib \<Rightarrow> retM (Some ib)
       | None \<Rightarrow>
          bindM (tryM (first_inbound_tag (lineInboundTag (l_id line)))) (\<lambda>r.
            case r of
              Inr ib \<Rightarrow> retM (Some ib)
            | Inl e \<Rightarrow> if is_not_found e then retM None else failM e))"

definition existing_id :: "inbound option \<Rightarrow> int" where
  "existing_id ex = (case ex of None \<Rightarrow> 0 | Some ib \<Rightarrow> i_id ib)"

definition count_port_conflicts :: "int \<Rightarrow> int \<Rightarrow> nat W" where
  "count_port_conflicts port exId =
     db_query (\<lambda>d. length (filter (\<lambda>i. i_nodeId i = None \<and> i_port i = port \<and> i_id i \<noteq> exId) (d_inbounds d)))"

definition save_inbound :: "inbound option \<Rightarrow> inbound \<Rightarrow> int W" where
  "save_inbound ex ib =
     (if existing_id ex > 0 then thenM (update_inbound (existing_id ex) ib) (retM (existing_id ex))
      else create_inbound ib)"

definition with_outbound_tag :: "line_profile \<Rightarrow> line_profile" where
  "with_outbound_tag line =
     (if l_outboundTag line = '''' then line\<lparr>l_outboundTag := lineOutboundTag (l_id line)\<rparr> else line)"

definition require_outbound :: "line_outbound \<Rightarrow> unit W" where
  "require_outbound outbound =
     guardM (trim_space (o_host outbound) \<noteq> '''' \<and> o_port outbound > 0)
       (Errorf ''residential outbound host and port are required'')"

definition port_used :: "string \<Rightarrow> int \<Rightarrow> gerr" where
  "port_used label port = Errorf (label @ '' port '' @ itoa port @ '' is already used by another inbound'')"

text \<open>The end of every \<^verbatim>\<open>applyXxxXray\<close>; Shadowsocks leaves \<^verbatim>\<open>config_json\<close> alone.\<close>

definition finish_xray ::
    "line_profile \<Rightarrow> line_outbound \<Rightarrow> int \<Rightarrow> string option \<Rightarrow> line_profile W" where
  "finish_xray line outbound inboundID configJSON =
     thenM (upsertLineOutboundInTemplate (l_outboundTag line) (lineInboundTag (l_id line)) outbound)
    (bindM (model_line_updates line (\<lambda>l. l\<lparr>l_inboundId := Some inboundID, l_outboundTag := l_outboundTag line,
              l_configJSON := (case configJSON of Some c \<Rightarrow> c | None \<Rightarrow> l_configJSON l)\<rparr>)) (\<lambda>line'.
     thenM (model_outbound_update outbound (\<lambda>b. b\<lparr>o_tag := l_outboundTag line\<rparr>)) (retM line')))"

definition applyCloudflareXray ::
    "line_profile \<Rightarrow> line_outbound \<Rightarrow> line_config \<Rightarrow> (int \<times> line_profile \<times> line_config) W" where
  "applyCloudflareXray line0 outbound config0 =
     bindM (liftM (case parsePortString (sget config0 ''localXrayPort'') of
                     Inl e \<Rightarrow> Inl (wrapf ''local Xray port invalid: '' e '''') | Inr p \<Rightarrow> Inr p)) (\<lambda>localPort.
     let wsPath0 = trim_space (sget config0 ''wsPath'');
         wsPath = (if has_prefix wsPath0 ''/'' then wsPath0 else ''/'' @ wsPath0);
         config1 = (if has_prefix wsPath0 ''/'' then config0 else oput ''wsPath'' wsPath config0);
         line = with_outbound_tag line0
     in thenM (guardM (wsPath0 \<noteq> '''') (Errorf ''ws path is required''))
       (thenM (require_outbound outbound)
       (bindM (find_existing_inbound line) (\<lambda>ex.
        bindM (count_port_conflicts localPort (existing_id ex)) (\<lambda>n.
        thenM (guardM (n = 0) (port_used ''local Xray'' localPort))
       (bindM (buildCloudflareInbound line (lineInboundTag (l_id line)) localPort wsPath config1) (\<lambda>(ib, config).
        bindM (save_inbound ex ib) (\<lambda>iid.
        thenM (upsertLineManagedClient line iid config)
       (bindM (finish_xray line outbound iid (Some (encodeLineConfig config))) (\<lambda>line'.
          retM (iid, line', config)))))))))))"

definition applyRealityXray ::
    "line_profile \<Rightarrow> line_outbound \<Rightarrow> line_config \<Rightarrow> (int \<times> line_profile \<times> line_config) W" where
  "applyRealityXray line0 outbound config0 =
     thenM (guardM (trim_space (l_entryHost line0) \<noteq> '''') (Errorf ''reality entry host is required''))
    (thenM (guardM (0 < l_entryPort line0 \<and> l_entryPort line0 \<le> 65535)
              (Errorf (''reality entry port is invalid: '' @ itoa (l_entryPort line0))))
    (thenM (require_outbound outbound)
    (bindM (ensureRealityConfig config0) (\<lambda>config1.
     let line = with_outbound_tag line0 in
     bindM (find_existing_inbound line) (\<lambda>ex.
     bindM (count_port_conflicts (l_entryPort line) (existing_id ex)) (\<lambda>n.
     thenM (guardM (n = 0) (port_used ''reality'' (l_entryPort line)))
    (bindM (buildRealityInbound line (lineInboundTag (l_id line)) config1) (\<lambda>(ib, config).
     bindM (save_inbound ex ib) (\<lambda>iid.
     thenM (upsertLineManagedClient line iid config)
    (bindM (finish_xray line outbound iid (Some (encodeLineConfig config))) (\<lambda>line'.
       retM (iid, line', config))))))))))))"

definition applyShadowsocksXray :: "line_profile \<Rightarrow> line_outbound \<Rightarrow> (int \<times> line_profile) W" where
  "applyShadowsocksXray line0 outbound =
     thenM (guardM (trim_space (l_entryHost line0) \<noteq> '''') (Errorf ''Shadowsocks entry host is required''))
    (thenM (liftM (validatePortValue ''Shadowsocks entry port'' (l_entryPort line0)))
    (thenM (require_outbound outbound)
    (let line = with_outbound_tag line0 in
     bindM (find_existing_inbound line) (\<lambda>ex.
     bindM (count_port_conflicts (l_entryPort line) (existing_id ex)) (\<lambda>n.
     thenM (guardM (n = 0) (port_used ''Shadowsocks'' (l_entryPort line)))
    (bindM (ensureLineManagedShadowsocksClient line) (\<lambda>password.
     let serverKey = shadowsocksServerKeyFromSettings (case ex of None \<Rightarrow> '''' | Some i \<Rightarrow> i_settings i) in
     bindM (buildShadowsocksInbound line (lineInboundTag (l_id line)) serverKey password) (\<lambda>ib.
     bindM (save_inbound ex ib) (\<lambda>iid.
     thenM (attachLineManagedClient line iid)
    (bindM (finish_xray line outbound iid None) (\<lambda>line'. retM (iid, line'))))))))))))"

definition applyLineXray ::
    "line_profile \<Rightarrow> line_outbound \<Rightarrow> line_config \<Rightarrow> (int \<times> line_profile \<times> line_config) W" where
  "applyLineXray line outbound config =
     (if isNginxWSLine (l_type line) then applyCloudflareXray line outbound config
      else if l_type line = LineTypeReality then applyRealityXray line outbound config
      else if l_type line = LineTypeShadowsocks
      then bindM (applyShadowsocksXray line outbound) (\<lambda>(iid, line'). retM (iid, line', config))
      else failM (Errorf (''line type '' @ l_type line @ '' has no xray executor'')))"

end
