(* ===== verification/LineValidity.thy ===== *)
theory LineValidity
  imports LineXray
begin

text \<open>
  The validity period of a line (internal/web/service/line\_validity.go): the pure rules, and the
  handlers that read a line for the browser (\<^verbatim>\<open>getLine\<close>) and change only its period.
\<close>

section \<open>The rules\<close>

definition st_scheduled :: string where [simp]: "st_scheduled = ''scheduled''"
definition st_expiring :: string where [simp]: "st_expiring = ''expiring''"
definition st_expired :: string where [simp]: "st_expired = ''expired''"
definition st_expiry_failed :: string where [simp]: "st_expiry_failed = ''expiry_failed''"

text \<open>\<^verbatim>\<open>time.Unix(t, 0).UTC().Format(time.RFC3339)\<close>.\<close>

definition pad :: "nat \<Rightarrow> int \<Rightarrow> string" where
  "pad w n =
     (let s = itoa \<bar>n\<bar> in (if n < 0 then ''-'' else '''') @ replicate (w - length s) (CHR ''0'') @ s)"

text \<open>Days since 1970-01-01 as year, month and day of the proleptic Gregorian calendar.\<close>

definition civil :: "int \<Rightarrow> int \<times> int \<times> int" where
  "civil days =
     (let z = days + 719468;
          era = z div 146097;
          doe = z mod 146097;
          yoe = (doe - doe div 1460 + doe div 36524 - doe div 146096) div 365;
          doy = doe - (365 * yoe + yoe div 4 - yoe div 100);
          mp = (5 * doy + 2) div 153;
          d = doy - (153 * mp + 2) div 5 + 1;
          m = (if mp < 10 then mp + 3 else mp - 9);
          y = yoe + era * 400 + (if m \<le> 2 then 1 else 0)
      in (y, m, d))"

definition rfc3339 :: "int \<Rightarrow> string" where
  "rfc3339 t =
     (case civil (t div 86400) of (y, m, d) \<Rightarrow>
        let s = t mod 86400 in
        pad 4 y @ ''-'' @ pad 2 m @ ''-'' @ pad 2 d @ ''T'' @ pad 2 (s div 3600) @ '':''
        @ pad 2 (s mod 3600 div 60) @ '':'' @ pad 2 (s mod 60) @ ''Z'')"

definition normalizeLineValidity :: "int option \<Rightarrow> int option \<Rightarrow> int \<Rightarrow> (int \<times> int) res" where
  "normalizeLineValidity validFrom validUntil now =
     (let from' = (case validFrom of None \<Rightarrow> 0 | Some f \<Rightarrow> f);
          until = (case validUntil of None \<Rightarrow> 0 | Some u \<Rightarrow> u) in
      if from' < 0 \<or> until < 0 then Inl (Errorf ''line validity time cannot be negative'')
      else if until > 0 \<and> until \<le> now then Inl (Errorf ''line expiry time must be in the future'')
      else if from' > 0 \<and> until > 0 \<and> until \<le> from'
      then Inl (Errorf ''line expiry time must be after the start time'')
      else Inr (from', until))"

definition lineInitialStatus :: "int \<Rightarrow> int \<Rightarrow> string" where
  "lineInitialStatus validFrom now = (if validFrom > now then st_scheduled else ''pending_apply'')"

definition expired_error :: gerr where
  "expired_error = Errorf ''line has expired; use renew and re-enable''"

definition validateLineCanApply :: "line_profile \<Rightarrow> int \<Rightarrow> unit res" where
  "validateLineCanApply line now =
     (if l_manual line \<or> l_status line = st_expired \<or> l_status line = st_expiring
         \<or> l_status line = st_expiry_failed
      then Inl expired_error
      else if l_validFrom line > now
      then Inl (Errorf (''line is scheduled to start at '' @ rfc3339 (l_validFrom line)))
      else if l_validUntil line > 0 \<and> l_validUntil line \<le> now
      then Inl (Errorf ''line validity period has ended'')
      else Inr ())"

definition LineCanServe :: "int \<Rightarrow> int \<Rightarrow> unit W" where
  "LineCanServe lid now =
     bindM (first_line lid) (\<lambda>line. liftM (validateLineCanApply line now))"

section \<open>Reading a line\<close>

record line_detail =
  dt_line :: line_profile
  dt_outbound :: "line_outbound option"
  dt_config :: line_config
  dt_plan :: line_apply_plan
  dt_logs :: "line_log list"

text \<open>The first row, or none; any other error is returned.\<close>

definition optional :: "'a W \<Rightarrow> 'a option W" where
  "optional m =
     bindM (tryM m) (\<lambda>r.
       case r of
         Inr x \<Rightarrow> retM (Some x)
       | Inl e \<Rightarrow> if is_not_found e then retM None else failM e)"

text \<open>
  \<^verbatim>\<open>getLine\<close>.  \<^verbatim>\<open>ensureLineConfigDefaults\<close> fills the map of the detail in place, also when nothing
  is persisted; the error of the update is dropped.
\<close>

definition getLine :: "int \<Rightarrow> bool \<Rightarrow> line_detail W" where
  "getLine lid persistNormalizedConfig =
     bindM (first_line lid) (\<lambda>line.
     bindM (ensureLineConfigDefaults (l_id line) (l_type line) (decodeLineConfig (l_configJSON line))) (\<lambda>config.
     let changed = persistNormalizedConfig \<and> encodeLineConfig config \<noteq> l_configJSON line;
         shown = (if changed then line\<lparr>l_configJSON := encodeLineConfig config\<rparr> else line)
     in thenM (if changed
               then thenM (tryM (lines_updates (\<lambda>l. l_id l = l_id line)
                                   (\<lambda>l. l\<lparr>l_configJSON := encodeLineConfig config\<rparr>))) (retM ())
               else retM ())
       (bindM (optional (first_outbound (l_id line))) (\<lambda>outbound.
        bindM (buildLineApplyPlan line outbound config) (\<lambda>plan.
        bindM (db_query (\<lambda>d. take 20 (rev (filter (\<lambda>g. g_lineId g = l_id line) (d_logs d))))) (\<lambda>logs.
          retM \<lparr>dt_line = shown, dt_outbound = outbound, dt_config = browserLineConfig config,
                dt_plan = plan, dt_logs = logs\<rparr>))))))"

definition GetLine :: "int \<Rightarrow> line_detail W" where
  "GetLine lid = getLine lid True"

definition ListLines :: "line_profile list W" where
  "ListLines = db_query (\<lambda>d. rev (d_lines d))"

section \<open>Changing the period\<close>

definition UpdateLineValidity :: "int \<Rightarrow> int option \<Rightarrow> line_detail W" where
  "UpdateLineValidity lid reqUntil =
     thenM (guardM (reqUntil \<noteq> None) (Errorf ''line expiry time is required''))
    (bindM time_now (\<lambda>now.
     thenM (transactionM
       (bindM (first_line lid) (\<lambda>line.
        thenM (guardM (\<not> l_manual line) expired_error)
       (bindM (liftM (normalizeLineValidity (Some (l_validFrom line)) reqUntil now)) (\<lambda>(validFrom, validUntil).
        bindM (model_line_updates line (\<lambda>l. l\<lparr>l_validFrom := validFrom, l_validUntil := validUntil\<rparr>)) (\<lambda>line'.
          createLineLog (l_id line) ''validity'' ''info'' txt_validity_extended
            (''validUntil='' @ rfc3339 validUntil)))))))
       (getLine lid False)))"

definition RenewLine :: "int \<Rightarrow> int option \<Rightarrow> line_detail W" where
  "RenewLine lid reqUntil =
     thenM (guardM (reqUntil \<noteq> None) (Errorf ''a new expiry time is required''))
    (bindM time_now (\<lambda>now.
     thenM (transactionM
       (bindM (first_line lid) (\<lambda>line.
        thenM (guardM (l_manual line) (Errorf ''line has not expired''))
       (bindM (liftM (normalizeLineValidity (Some now) reqUntil now)) (\<lambda>(from', validUntil).
        bindM (model_line_updates line (\<lambda>l. l\<lparr>l_validFrom := now, l_validUntil := validUntil,
                 l_manual := False, l_status := ''pending_apply'', l_lastError := ''''\<rparr>)) (\<lambda>line'.
          createLineLog (l_id line) ''renew'' ''info'' txt_renewed
            (''validUntil='' @ rfc3339 validUntil)))))))
       (GetLine lid)))"

end
