(* ===== verification/LinePreflight.thy ===== *)
theory LinePreflight
  imports LineValidity
begin

text \<open>
  The checks that run before the apply transaction: Reality
  (internal/web/service/reality\_preflight.go) and Bunny (line\_bunny.go).  The scan, DNS, certbot and
  the temporary Xray are answers of the environment; what is decided from them, what is written to
  files and the configuration handed to the transaction follow the code.
\<close>

section \<open>Reality\<close>

record reality_preflight =
  rp_config :: line_config
  rp_detail :: string
  rp_sourceConfigJSON :: string
  rp_sourceLineUpdatedAt :: int
  rp_sourceOutboundUpdatedAt :: int

definition isRealityAutoTarget :: "line_config \<Rightarrow> bool" where
  "isRealityAutoTarget cfg \<longleftrightarrow>
     equal_fold (trim_space (sget cfg ''realitySni'')) ''auto''
     \<or> equal_fold (trim_space (sget cfg ''realityDest'')) ''auto''"

definition validateRealityApplyInputs ::
    "(string \<Rightarrow> bool) \<Rightarrow> line_profile \<Rightarrow> line_outbound \<Rightarrow> line_config \<Rightarrow> bool \<Rightarrow> unit res" where
  "validateRealityApplyInputs uuid_ok line outbound cfg requireTarget =
     checks
       [validateHostValue ''entry host'' (l_entryHost line),
        (if l_entryPort line < 1 \<or> l_entryPort line > 65535
         then Inl (Errorf (''entry port is invalid: '' @ itoa (l_entryPort line))) else Inr ()),
        (if trim_space (o_host outbound) = '''' \<or> o_port outbound < 1 \<or> o_port outbound > 65535
         then Inl (Errorf ''residential outbound host and port are required'') else Inr ()),
        (if requireTarget then validateRealityConfig uuid_ok cfg else Inr ())]"

text \<open>The configuration of the temporary Xray: a server with the candidate settings and a client.\<close>

record xray_config =
  xc_log :: json
  xc_inbounds :: "json list"
  xc_outbounds :: json
  xc_routing :: json

definition preflight_client :: "line_config \<Rightarrow> int \<Rightarrow> json" where
  "preflight_client cfg serverPort =
     (let str = (\<lambda>k. JStr (trim_space (sget cfg k))) in
      jobj [(''tag'', JStr ''reality-preflight-client''), (''protocol'', JStr ''vless''),
            (''settings'', jobj [(''vnext'', JArr [jobj
               [(''address'', JStr ''127.0.0.1''), (''port'', JInt serverPort),
                (''users'', JArr [jobj [(''id'', str ''clientId''), (''encryption'', JStr ''none''),
                                       (''flow'', str ''realityFlow'')]])]])]),
            (''streamSettings'', jobj
               [(''network'', JStr ''tcp''), (''security'', JStr ''reality''),
                (''realitySettings'', jobj
                   [(''show'', JBool False), (''fingerprint'', str ''realityFingerprint''),
                    (''serverName'', str ''realitySni''), (''publicKey'', str ''realityPublicKey''),
                    (''shortId'', str ''realityShortId''), (''spiderX'', str ''realitySpiderX'')])])])"

definition preflight_rule :: "string \<Rightarrow> string \<Rightarrow> json" where
  "preflight_rule inTag outTag =
     jobj [(''type'', JStr ''field''), (''inboundTag'', JArr [JStr inTag]), (''outboundTag'', JStr outTag)]"

definition buildRealityPreflightConfig ::
    "line_profile \<Rightarrow> line_outbound \<Rightarrow> line_config \<Rightarrow> int \<Rightarrow> int \<Rightarrow> (xray_config \<times> line_config) W" where
  "buildRealityPreflightConfig line outbound cfg0 serverPort socksPort =
     bindM (buildRealityInbound line ''reality-preflight-server'' cfg0) (\<lambda>(srv, cfg).
       retM (\<lparr>xc_log = jobj [(''loglevel'', JStr ''warning''), (''access'', JStr ''none''),
                             (''error'', JStr ''''), (''dnsLog'', JBool False)],
              xc_inbounds =
                [jobj [(''listen'', JStr ''127.0.0.1''), (''port'', JInt serverPort),
                       (''protocol'', JStr (i_protocol srv)), (''settings'', JStr (i_settings srv)),
                       (''streamSettings'', JStr (i_streamSettings srv)),
                       (''tag'', JStr ''reality-preflight-server''), (''sniffing'', JStr (i_sniffing srv))],
                 jobj [(''listen'', JStr ''127.0.0.1''), (''port'', JInt socksPort),
                       (''protocol'', JStr ''socks''),
                       (''settings'', jobj [(''auth'', JStr ''noauth''), (''udp'', JBool False)]),
                       (''tag'', JStr ''reality-preflight-socks'')]],
              xc_outbounds = JArr
                [preflight_client cfg serverPort,
                 JObj (buildResidentialOutboundConfig ''reality-preflight-residential'' outbound),
                 jobj [(''tag'', JStr ''direct''), (''protocol'', JStr ''freedom'')]],
              xc_routing = jobj
                [(''domainStrategy'', JStr ''AsIs''),
                 (''rules'', JArr [preflight_rule ''reality-preflight-socks'' ''reality-preflight-client'',
                                  preflight_rule ''reality-preflight-server'' ''reality-preflight-residential''])]\<rparr>,
             cfg))"

text \<open>
  \<^verbatim>\<open>reserveRealityPreflightPorts(2)\<close> and \<^verbatim>\<open>runRealityPreflight\<close>; what the temporary process, started
  with this configuration, answers to the probe is up to the environment.
\<close>

definition free_port :: "int W" where
  "free_port =
     bindM (askM e_freePort) (\<lambda>r.
       case r of Inl m \<Rightarrow> failM (wrapf ''reserve preflight ports: '' (Errorf m) '''') | Inr p \<Rightarrow> retM p)"

definition runRealityPreflight :: "line_profile \<Rightarrow> line_outbound \<Rightarrow> line_config \<Rightarrow> line_config W" where
  "runRealityPreflight line outbound cfg =
     bindM free_port (\<lambda>serverPort.
     bindM free_port (\<lambda>socksPort.
     bindM (buildRealityPreflightConfig line outbound cfg serverPort socksPort) (\<lambda>(xc, cfg').
     bindM (askM (\<lambda>e t. e_realityProbe e t cfg')) (\<lambda>r.
       case r of None \<Rightarrow> retM cfg' | Some e \<Rightarrow> failM e))))"

text \<open>The loop over the scan results: the first feasible target whose probe passes.\<close>

fun try_targets ::
    "line_profile \<Rightarrow> line_outbound \<Rightarrow> line_config \<Rightarrow> scan_result list \<Rightarrow> string list
     \<Rightarrow> ((line_config \<times> scan_result) + string list) W" where
  "try_targets line outbound cfg [] failures = retM (Inr failures)"
| "try_targets line outbound cfg (r # rs) failures =
     (if \<not> sr_feasible r then try_targets line outbound cfg rs failures
      else
        let candidate = oput ''realityDest'' (join_host_port (sr_host r) (itoa (sr_port r)))
                          (oput ''realitySni'' (sr_host r) (cloneLineConfig cfg))
        in bindM (tryM (runRealityPreflight line outbound candidate)) (\<lambda>res.
             case res of
               Inr c \<Rightarrow> retM (Inl (c, r))
             | Inl e \<Rightarrow> try_targets line outbound cfg rs (failures @ [sr_target r @ '': '' @ err_text e])))"

definition prepareRealityApply :: "int \<Rightarrow> reality_preflight W" where
  "prepareRealityApply lid =
     bindM (first_line lid) (\<lambda>line.
     bindM (first_outbound lid) (\<lambda>outbound.
     bindM (ensureLineConfigDefaults (l_id line) (l_type line) (decodeLineConfig (l_configJSON line))) (\<lambda>cfg0.
     bindM (ensureRealityConfig cfg0) (\<lambda>cfg.
     bindM (askM (\<lambda>e t. e_uuidOk e)) (\<lambda>uuid_ok.
     let result = (\<lambda>c detail. \<lparr>rp_config = c, rp_detail = detail, rp_sourceConfigJSON = l_configJSON line,
           rp_sourceLineUpdatedAt = l_updatedAt line, rp_sourceOutboundUpdatedAt = o_updatedAt outbound\<rparr>)
     in thenM (liftM (validateRealityApplyInputs uuid_ok line outbound cfg False))
       (if isRealityAutoTarget cfg then
          bindM (askM e_scan) (\<lambda>scan.
            case scan of
              Inl e \<Rightarrow> failM (wrapf ''scan Reality candidates: '' e '''')
            | Inr results \<Rightarrow>
               bindM (try_targets line outbound cfg results []) (\<lambda>tried.
                 case tried of
                   Inl (candidate, r) \<Rightarrow>
                     retM (result candidate
                       (''automatic target '' @ sr_target r @ '' passed '' @ itoa (sr_successes r) @ ''/''
                        @ itoa (sr_rounds r) @ '' TLS probes and the isolated Reality check''))
                 | Inr [] \<Rightarrow> failM (Errorf ''no stable Reality target passed the TLS scan'')
                 | Inr (f # fs) \<Rightarrow>
                     failM (Errorf (''no stable Reality target passed the real connection check; first failure: '' @ f))))
        else
          thenM (liftM (validateRealityApplyInputs uuid_ok line outbound cfg True))
            (bindM (mapErrM (\<lambda>e. wrapf ''Reality real connection check failed: '' e '''')
                      (runRealityPreflight line outbound cfg)) (\<lambda>c.
               retM (result c ''manual target passed the isolated Reality check'')))))))))"

section \<open>Bunny\<close>

record bunny_preflight =
  bp_sourceConfigJSON :: string
  bp_sourceLineUpdatedAt :: int
  bp_config :: line_config

definition bunnyACMEWebroot :: string where "bunnyACMEWebroot = ''/var/lib/line-panel/acme''"

definition certbotDeployHook :: string where
  "certbotDeployHook = ''/etc/letsencrypt/renewal-hooks/deploy/line-panel-nginx-reload''"

definition ensureBunnyOriginResolvesHere :: "string \<Rightarrow> unit W" where
  "ensureBunnyOriginResolvesHere host =
     bindM (askM (\<lambda>e t. e_lookupIP e t host)) (\<lambda>resolved.
       case resolved of
         Inl m \<Rightarrow> failM (wrapf (''resolve Bunny origin host '' @ host @ '': '') (Errorf m) '''')
       | Inr ips \<Rightarrow>
          bindM (askM e_localIPv4) (\<lambda>loc.
            case loc of
              Inl m \<Rightarrow> failM (wrapf ''list local network interfaces: '' (Errorf m) '''')
            | Inr addrs \<Rightarrow>
               guardM (list_ex (\<lambda>(is4, ip). is4 \<and> ip \<in> set addrs) ips)
                 (Errorf (''Bunny origin host '' @ host @ '' must resolve directly to this server''))))"

definition acmeConfigPath :: "int \<Rightarrow> string" where
  "acmeConfigPath lineID = trim_suffix (defaultNginxConfigPath lineID) ''.conf'' @ ''-acme.conf''"

definition ensureBunnyACMEConfig :: "line_profile \<Rightarrow> line_config \<Rightarrow> line_config W" where
  "ensureBunnyACMEConfig line config =
     thenM (mapErrM (\<lambda>e. wrapf ''create ACME webroot: '' e '''') (os_mkdirAll bunnyACMEWebroot))
    (thenM (mapErrM (\<lambda>e. wrapf ''prepare ACME validation site: '' e '''')
       (applyNginxConfig (acmeConfigPath (l_id line))
          (join NL
            [''server {'',
             ''    listen 80;'',
             ''    server_name '' @ trim_space (sget config ''originHost'') @ '';'',
             '''',
             ''    location ^~ /.well-known/acme-challenge/ {'',
             ''        root '' @ bunnyACMEWebroot @ '';'',
             ''        default_type text/plain;'',
             ''    }'',
             '''',
             ''    location / { return 404; }'',
             ''}'', ''''])
          osNginxExecutor))
       (retM (oput ''acmeNginxConfigPath'' (acmeConfigPath (l_id line)) config)))"

definition ensureCertbotDeployHook :: "unit W" where
  "ensureCertbotDeployHook =
     thenM (mapErrM (\<lambda>e. wrapf ''create certbot deploy-hook directory: '' e '''')
              (os_mkdirAll (path_dir certbotDeployHook)))
       (mapErrM (\<lambda>e. wrapf ''write certbot deploy hook: '' e '''')
          (os_writeFile certbotDeployHook
             (join NL [''#!/usr/bin/env bash'', ''set -Eeuo pipefail'', ''nginx -t'',
                       ''systemctl reload nginx'', ''''])))"

definition ensureBunnyCertificate :: "line_profile \<Rightarrow> line_config \<Rightarrow> line_config W" where
  "ensureBunnyCertificate line config0 =
     bindM (askM (\<lambda>e t. e_goos e)) (\<lambda>goos.
     thenM (guardM (goos = ''linux'')
              (Errorf ''automatic Bunny certificates are available only on the Linux server''))
    (bindM (askM (\<lambda>e t. e_lookPath e t ''certbot'')) (\<lambda>found.
     thenM (guardM found
              (Errorf ''certbot is not installed; upgrade Relay Panel with the Bunny-enabled installer''))
    (bindM (ensureBunnyACMEConfig line config0) (\<lambda>config.
     let originHost = trim_space (sget config ''originHost'');
         live = ''/etc/letsencrypt/live/'' @ originHost;
         certificateFile = path_clean (live @ ''/fullchain.pem'');
         keyFile = path_clean (live @ ''/privkey.pem'')
     in bindM (runCommandOutput [''certbot'', ''certonly'', ''--webroot'', ''-w'', bunnyACMEWebroot,
                 ''-d'', originHost, ''--non-interactive'', ''--agree-tos'', ''--email'',
                 trim_space (sget config ''acmeEmail''), ''--keep-until-expiring'']) (\<lambda>(out, err).
        case err of
          Some e \<Rightarrow> failM (wrapf ''request Let's Encrypt certificate: '' e (NL @ trim_space out))
        | None \<Rightarrow>
           bindM (askM (\<lambda>e t. e_certFiles e t certificateFile keyFile originHost)) (\<lambda>bad.
             case bad of
               Some e \<Rightarrow> failM e
             | None \<Rightarrow>
                thenM ensureCertbotDeployHook
                  (retM (oput ''nginxCertMode'' ''letsencrypt''
                          (oput ''nginxKeyFile'' keyFile (oput ''nginxCertFile'' certificateFile config)))))))))))"

definition prepareBunnyApply :: "int \<Rightarrow> bunny_preflight W" where
  "prepareBunnyApply lid =
     bindM (first_line lid) (\<lambda>line.
     bindM (ensureLineConfigDefaults (l_id line) (l_type line) (decodeLineConfig (l_configJSON line))) (\<lambda>config.
     thenM (liftM (validateBunnyConfig config))
    (thenM (ensureBunnyOriginResolvesHere (sget config ''originHost''))
    (bindM (ensureBunnyCertificate line config) (\<lambda>config'.
       retM \<lparr>bp_sourceConfigJSON = l_configJSON line, bp_sourceLineUpdatedAt = l_updatedAt line,
             bp_config = config'\<rparr>)))))"

end
