(* ===== verification/LineApply.thy ===== *)
theory LineApply
  imports LinePreflight
begin

text \<open>
  Creating, updating, applying and deleting lines (internal/web/service/line.go): \<^verbatim>\<open>CreateLine\<close>,
  \<^verbatim>\<open>UpdateLine\<close>, \<^verbatim>\<open>ApplyLine\<close>, \<^verbatim>\<open>DeleteLine\<close>, \<^verbatim>\<open>DeleteLines\<close> and the recording of failures.  The
  transaction of \<^verbatim>\<open>ApplyLine\<close> is a definition of its own: it can start in any state, in particular
  one that has changed since the preflight.
\<close>

section \<open>Create and update\<close>

definition new_line :: "line_save_request \<Rightarrow> int \<Rightarrow> int \<Rightarrow> string \<Rightarrow> line_profile" where
  "new_line q validFrom validUntil status =
     \<lparr>l_id = 0, l_userId = 1, l_name = q_name q, l_type = q_type q, l_status = status,
      l_inboundId = None, l_outboundTag = '''', l_entryHost = q_entryHost q, l_entryPort = q_entryPort q,
      l_chainText = buildLineChainText (q_type q) (q_outboundType q),
      l_validFrom = validFrom, l_validUntil = validUntil, l_expiredAt = 0, l_manual = False,
      l_configJSON = encodeLineConfig (q_config q), l_lastCheckAt = 0, l_lastInLatency = 0,
      l_lastOutLatency = 0, l_lastError = '''', l_createdAt = 0, l_updatedAt = 0\<rparr>"

definition CreateLine :: "line_save_request \<Rightarrow> line_detail W" where
  "CreateLine req =
     bindM (normalizeLineSaveRequest req) (\<lambda>q.
     bindM (transactionM
       (bindM time_now (\<lambda>now.
        bindM (liftM (normalizeLineValidity (q_validFrom q) (q_validUntil q) now)) (\<lambda>(validFrom, validUntil).
        bindM time_now (\<lambda>now2.
        bindM (create_line (new_line q validFrom validUntil (lineInitialStatus validFrom now2))) (\<lambda>line.
        bindM (ensureLineConfigDefaults (l_id line) (q_type q) (q_config q)) (\<lambda>config.
        bindM (model_line_updates line (\<lambda>l. l\<lparr>l_configJSON := encodeLineConfig config\<rparr>)) (\<lambda>line2.
        let tag = lineOutboundTag (l_id line) in
        thenM (create_outbound (lineOutboundFromRequest (l_id line) tag (q\<lparr>q_config := config\<rparr>) ''''))
       (bindM (model_line_updates line2 (\<lambda>l. l\<lparr>l_outboundTag := tag\<rparr>)) (\<lambda>line3.
        thenM (createLineLog (l_id line) ''plan'' ''info'' txt_plan_created
                 (buildLineChainText (q_type q) (q_outboundType q)))
          (retM (l_id line)))))))))))) (\<lambda>createdID.
       GetLine createdID))"

text \<open>The validity of an update: the stored bounds unless the request has one.\<close>

definition updated_validity :: "line_profile \<Rightarrow> line_save_request \<Rightarrow> (int \<times> int) W" where
  "updated_validity line req =
     (if q_validFrom req = None \<and> q_validUntil req = None
      then retM (l_validFrom line, l_validUntil line)
      else bindM time_now (\<lambda>now. liftM (normalizeLineValidity
             (Some (case q_validFrom req of None \<Rightarrow> l_validFrom line | Some f \<Rightarrow> f))
             (Some (case q_validUntil req of None \<Rightarrow> l_validUntil line | Some u \<Rightarrow> u)) now)))"

definition updated_line ::
    "line_save_request \<Rightarrow> int \<Rightarrow> int \<Rightarrow> string \<Rightarrow> line_config \<Rightarrow> line_profile \<Rightarrow> line_profile" where
  "updated_line q validFrom validUntil status config l =
     l\<lparr>l_name := q_name q, l_type := q_type q, l_status := status, l_entryHost := q_entryHost q,
       l_entryPort := q_entryPort q, l_chainText := buildLineChainText (q_type q) (q_outboundType q),
       l_validFrom := validFrom, l_validUntil := validUntil, l_configJSON := encodeLineConfig config\<rparr>"

definition updated_outbound :: "line_save_request \<Rightarrow> string \<Rightarrow> line_outbound \<Rightarrow> line_outbound" where
  "updated_outbound q tag ob =
     ob\<lparr>o_type := q_outboundType q, o_host := q_outboundHost q, o_port := q_outboundPort q,
        o_username := q_outboundUsername q, o_tag := tag, o_enabled := True,
        o_password := (if q_outboundPassword q \<noteq> '''' then q_outboundPassword q else o_password ob)\<rparr>"

definition UpdateLine :: "int \<Rightarrow> line_save_request \<Rightarrow> line_detail W" where
  "UpdateLine lid req =
     bindM (normalizeLineSaveRequest req) (\<lambda>q.
     thenM (transactionM
       (bindM (first_line lid) (\<lambda>line.
        thenM (guardM (\<not> l_manual line) expired_error)
       (bindM (updated_validity line req) (\<lambda>(validFrom, validUntil).
        bindM (ensureLineConfigDefaults (l_id line) (q_type q)
                 (mergePreservedLineConfig (decodeLineConfig (l_configJSON line)) (q_config q))) (\<lambda>config.
        bindM time_now (\<lambda>now.
        bindM (model_line_updates line
                 (updated_line q validFrom validUntil (lineInitialStatus validFrom now) config)) (\<lambda>line2.
        bindM (if l_outboundTag line2 = ''''
               then bindM (model_line_updates line2 (\<lambda>l. l\<lparr>l_outboundTag := lineOutboundTag (l_id line2)\<rparr>))
                      (\<lambda>_. retM (lineOutboundTag (l_id line2)))
               else retM (l_outboundTag line2)) (\<lambda>tag.
        bindM (optional (first_outbound lid)) (\<lambda>r.
        let planLog = createLineLog lid ''plan'' ''info'' txt_plan_updated
                        (buildLineChainText (q_type q) (q_outboundType q)) in
        case r of
          None \<Rightarrow> thenM (create_outbound (lineOutboundFromRequest lid tag (q\<lparr>q_config := config\<rparr>) '''')) planLog
        | Some outbound \<Rightarrow> thenM (save_outbound (updated_outbound q tag outbound)) planLog))))))))))
       (GetLine lid))"

section \<open>Recording a failed apply\<close>

definition newLineApplyFailure :: "string \<Rightarrow> string \<Rightarrow> string \<Rightarrow> gerr" where
  "newLineApplyFailure act msg detail = ApplyFailure act msg detail (Some (Errorf detail))"

definition wrapLineApplyFailure :: "string \<Rightarrow> string \<Rightarrow> gerr \<Rightarrow> gerr" where
  "wrapLineApplyFailure act msg err = ApplyFailure act msg (err_text err) (Some err)"

text \<open>The action, message and detail that are recorded: those of the innermost typed failure.\<close>

definition failure_fields :: "gerr \<Rightarrow> string \<times> string \<times> string" where
  "failure_fields err =
     (case find_apply_failure err of
        Some (ApplyFailure act msg detail c) \<Rightarrow>
          (if act = '''' then ''apply'' else act,
           if msg = '''' then ''Line apply failed'' else msg,
           if detail = '''' then err_text err else detail)
      | _ \<Rightarrow> (''apply'', ''Line apply failed'', err_text err))"

definition recordLineApplyFailure :: "int \<Rightarrow> gerr \<Rightarrow> unit W" where
  "recordLineApplyFailure lid err =
     (case failure_fields err of (act, msg, detail) \<Rightarrow>
        transactionM
          (bindM (first_line lid) (\<lambda>line.
           bindM (model_line_updates line (\<lambda>l. l\<lparr>l_status := ''apply_failed'', l_lastError := detail\<rparr>)) (\<lambda>_.
             createLineLog lid act ''error'' msg detail))))"

text \<open>
  \<^verbatim>\<open>ApplyLine\<close> returns a detail and an error, either of which may be nil.
\<close>

type_synonym apply_result = "line_detail option \<times> gerr option"

definition finishLineApplyError :: "int \<Rightarrow> gerr \<Rightarrow> apply_result W" where
  "finishLineApplyError lid err =
     bindM (tryM (recordLineApplyFailure lid err)) (\<lambda>r.
       case r of
         Inl failErr \<Rightarrow> retM (None, Some (wrapf '''' err (''; record apply failure: '' @ err_text failErr)))
       | Inr _ \<Rightarrow>
          bindM (tryM (GetLine lid)) (\<lambda>d.
            case d of
              Inl e \<Rightarrow> retM (None, Some err)
            | Inr detail \<Rightarrow> retM (Some detail, Some err)))"

section \<open>Apply\<close>

definition reality_stale :: "string \<Rightarrow> gerr" where
  "reality_stale what =
     newLineApplyFailure ''validate'' ''Reality preflight is stale''
       (what @ '' changed while the Reality connection check was running; save and apply again'')"

definition check_fresh :: "reality_preflight option \<Rightarrow> bunny_preflight option \<Rightarrow> line_profile \<Rightarrow> unit res" where
  "check_fresh rp bp line =
     checks
       [(case rp of
           None \<Rightarrow> Inr ()
         | Some p \<Rightarrow>
            if l_configJSON line \<noteq> rp_sourceConfigJSON p \<or> l_updatedAt line \<noteq> rp_sourceLineUpdatedAt p
            then Inl (reality_stale ''The line'') else Inr ()),
        (case bp of
           None \<Rightarrow> Inr ()
         | Some p \<Rightarrow>
            if l_configJSON line \<noteq> bp_sourceConfigJSON p \<or> l_updatedAt line \<noteq> bp_sourceLineUpdatedAt p
            then Inl (newLineApplyFailure ''validate'' ''Bunny preflight is stale''
                   ''The line changed while the certificate was being prepared; save and apply again'')
            else Inr ())]"

text \<open>The configuration the apply starts from.\<close>

definition apply_config ::
    "reality_preflight option \<Rightarrow> bunny_preflight option \<Rightarrow> line_profile \<Rightarrow> line_config W" where
  "apply_config rp bp line =
     bindM (ensureLineConfigDefaults (l_id line) (l_type line) (decodeLineConfig (l_configJSON line))) (\<lambda>c0.
     let c1 = (case rp of None \<Rightarrow> c0 | Some p \<Rightarrow> cloneLineConfig (rp_config p));
         c2 = (case bp of None \<Rightarrow> c1 | Some p \<Rightarrow> cloneLineConfig (bp_config p))
     in if l_type line = LineTypeCloudflare
        then liftM (case promotePendingOriginCertificate c2 of
               Inl e \<Rightarrow> Inl (wrapLineApplyFailure ''validate'' ''Origin certificate validation failed'' e)
             | Inr c \<Rightarrow> Inr c)
        else retM c2)"

text \<open>The Nginx part, for the line types that have one.\<close>

definition apply_nginx_part :: "line_profile \<Rightarrow> line_config \<Rightarrow> unit W" where
  "apply_nginx_part line config =
     (if \<not> isNginxWSLine (l_type line) then retM ()
      else thenM (createLineLog (l_id line) ''nginx'' ''info'' txt_nginx_draft txt_nginx_draft_detail)
          (bindM (mapErrM (wrapLineApplyFailure ''nginx'' ''Nginx apply failed'')
                    (applyCloudflareNginx line config)) (\<lambda>nginxDetail.
             if nginxDetail \<noteq> ''''
             then createLineLog (l_id line) ''nginx'' ''info'' txt_nginx_done nginxDetail
             else retM ())))"

definition missing_outbound :: gerr where
  "missing_outbound =
     newLineApplyFailure ''validate'' ''Missing residential outbound config''
       ''Please fill residential outbound type, host and port''"

definition applyLineTx :: "int \<Rightarrow> reality_preflight option \<Rightarrow> bunny_preflight option \<Rightarrow> unit W" where
  "applyLineTx lid rp bp =
     bindM (first_line lid) (\<lambda>line.
     bindM time_now (\<lambda>now.
     thenM (liftM (validateLineCanApply line now))
    (thenM (liftM (check_fresh rp bp line))
    (bindM (apply_config rp bp line) (\<lambda>config.
     bindM (model_line_updates line (\<lambda>l. l\<lparr>l_status := ''applying'', l_lastError := '''',
              l_configJSON := encodeLineConfig config\<rparr>)) (\<lambda>line1.
     bindM (mapErrM (\<lambda>e. if is_not_found e then missing_outbound else e) (first_outbound lid)) (\<lambda>outbound0.
     thenM (guardM (case rp of None \<Rightarrow> True | Some p \<Rightarrow> o_updatedAt outbound0 = rp_sourceOutboundUpdatedAt p)
              (reality_stale ''The residential outbound''))
    (bindM (buildLineApplyPlan line1 (Some outbound0) config) (\<lambda>plan.
     thenM (createLineLog lid ''apply'' ''info'' txt_apply_start txt_apply_start_detail)
    (bindM (mapErrM (wrapLineApplyFailure ''validate'' ''Line apply validation failed'')
              (validateLineForApply line1 outbound0 config)) (\<lambda>(outbound, config1).
     thenM (createLineLog lid ''validate'' ''info'' txt_validated (join NL (p_summary plan)))
    (thenM (case rp of
              None \<Rightarrow> retM ()
            | Some p \<Rightarrow> createLineLog lid ''reality_preflight'' ''info'' txt_reality_ok (rp_detail p))
    (thenM (createLineLog lid ''xray'' ''info'' txt_xray_draft txt_xray_draft_detail)
    (if \<not> isSupportedLineType (l_type line1)
     then failM (newLineApplyFailure ''executor'' ''Line type is not supported in MVP''
                   (''line type '' @ l_type line1 @ '' is hidden until a later version''))
     else
      bindM (mapErrM (wrapLineApplyFailure ''xray'' ''Write Xray inbound/outbound failed'')
               (applyLineXray line1 outbound config1)) (\<lambda>(appliedID, line2, config2).
      thenM (createLineLog lid ''xray'' ''info'' txt_xray_written
               (''inboundId='' @ itoa appliedID @ '' outboundTag='' @ l_outboundTag line2))
     (thenM (apply_nginx_part line2 config2)
     (bindM (model_line_updates line2 (\<lambda>l. l\<lparr>l_status := ''pending_check'', l_lastError := '''',
               l_inboundId := Some appliedID\<rparr>)) (\<lambda>_. retM ()))))))))))))))))))"

definition ApplyLine :: "int \<Rightarrow> apply_result W" where
  "ApplyLine lid =
     bindM (tryM (first_line lid)) (\<lambda>r.
       case r of
         Inl err \<Rightarrow> finishLineApplyError lid err
       | Inr line \<Rightarrow>
          bindM time_now (\<lambda>now.
            case validateLineCanApply line now of
              Inl err \<Rightarrow> retM (None, Some err)
            | Inr _ \<Rightarrow>
               bindM (tryM (if l_type line = LineTypeReality
                            then bindM (prepareRealityApply lid) (\<lambda>p. retM (Some p)) else retM None)) (\<lambda>rp0.
                 case rp0 of
                   Inl err \<Rightarrow> finishLineApplyError lid err
                 | Inr rp \<Rightarrow>
                    bindM (tryM (if l_type line = LineTypeBunny
                                 then bindM (prepareBunnyApply lid) (\<lambda>p. retM (Some p)) else retM None)) (\<lambda>bp0.
                      case bp0 of
                        Inl err \<Rightarrow> finishLineApplyError lid err
                      | Inr bp \<Rightarrow>
                         bindM (tryM (transactionM (applyLineTx lid rp bp))) (\<lambda>done.
                           case done of
                             Inl err \<Rightarrow> finishLineApplyError lid err
                           | Inr _ \<Rightarrow>
                              bindM (tryM (GetLine lid)) (\<lambda>d.
                                case d of
                                  Inl e \<Rightarrow> retM (None, Some e)
                                | Inr detail \<Rightarrow> retM (Some detail, None)))))))"

end
