(* ===== verification/LineRemoval.thy ===== *)
theory LineRemoval
  imports LineApply
begin

text \<open>
  Deleting lines (internal/web/service/line.go) and ending them when their period is over
  (line\_validity.go): \<^verbatim>\<open>DeleteLine\<close>, \<^verbatim>\<open>DeleteLines\<close>, \<^verbatim>\<open>expireLine\<close>, \<^verbatim>\<open>recordLineExpiryFailure\<close> and
  \<^verbatim>\<open>ReconcileLineValidity\<close>.
\<close>

section \<open>Delete\<close>

record line_delete_result =
  dr_id :: int
  dr_name :: string
  dr_success :: bool
  dr_message :: string

definition managedNginxCertRoot :: string where
  "managedNginxCertRoot = ''/etc/line-panel/nginx-certs''"

definition managedNginxCertLineDir :: "int \<Rightarrow> string" where
  "managedNginxCertLineDir lineID = managedNginxCertRoot @ ''/line-'' @ itoa lineID"

definition delete_checks :: "int \<Rightarrow> unit W" where
  "delete_checks lid = db_exec (\<lambda>d. d\<lparr>d_checks := delete_where (\<lambda>k. k_lineId k = lid) (d_checks d)\<rparr>)"

definition delete_logs :: "int \<Rightarrow> unit W" where
  "delete_logs lid = db_exec (\<lambda>d. d\<lparr>d_logs := delete_where (\<lambda>g. g_lineId g = lid) (d_logs d)\<rparr>)"

definition delete_subs :: "int \<Rightarrow> unit W" where
  "delete_subs lid = db_exec (\<lambda>d. d\<lparr>d_subs := delete_where (\<lambda>s. s_lineId s = lid) (d_subs d)\<rparr>)"

definition delete_outbounds :: "int \<Rightarrow> unit W" where
  "delete_outbounds lid = db_exec (\<lambda>d. d\<lparr>d_outbounds := delete_where (\<lambda>b. o_lineId b = lid) (d_outbounds d)\<rparr>)"

definition delete_line :: "int \<Rightarrow> unit W" where
  "delete_line lid = db_exec (\<lambda>d. d\<lparr>d_lines := delete_where (\<lambda>l. l_id l = lid) (d_lines d)\<rparr>)"

text \<open>The transaction of \<^verbatim>\<open>DeleteLine\<close>.\<close>

definition deleteLineTx :: "line_profile \<Rightarrow> unit W" where
  "deleteLineTx line =
     (let lid = l_id line; inboundTag = lineInboundTag lid in
      thenM (removeLineTemplateArtifacts (l_outboundTag line) inboundTag)
     (thenM (removeLineManagedClient lid)
     (thenM (delete_inbound_tag inboundTag)
     (thenM (delete_checks lid)
     (thenM (delete_logs lid)
     (thenM (delete_subs lid)
     (thenM (delete_outbounds lid) (delete_line lid))))))))"

type_synonym delete_outcome = "line_delete_result option \<times> gerr option"

definition DeleteLine :: "int \<Rightarrow> delete_outcome W" where
  "DeleteLine lid =
     bindM (tryM (first_line lid)) (\<lambda>r.
       case r of
         Inl e \<Rightarrow> retM (None, Some e)
       | Inr line \<Rightarrow>
          (let result = \<lparr>dr_id = l_id line, dr_name = l_name line, dr_success = False, dr_message = ''''\<rparr> in
           bindM (tryM (removeLineNginxConfig line (decodeLineConfig (l_configJSON line)))) (\<lambda>nginx.
             case nginx of
               Inl e \<Rightarrow> retM (Some result, Some e)
             | Inr backup \<Rightarrow>
                bindM (tryM (transactionM (deleteLineTx line))) (\<lambda>tx.
                  case tx of
                    Inl e \<Rightarrow>
                      bindM (tryM (restoreRemovedLineNginxConfig backup osNginxExecutor)) (\<lambda>restored.
                        case restored of
                          Inl re \<Rightarrow> retM (Some result,
                                 Some (wrapf ''delete line: '' e (''; restore nginx: '' @ err_text re)))
                        | Inr _ \<Rightarrow> retM (Some result, Some e))
                  | Inr _ \<Rightarrow>
                      bindM (tryM (os_removeAll (managedNginxCertLineDir (l_id line)))) (\<lambda>cleaned.
                        retM (Some (result\<lparr>dr_success := True,
                                dr_message := (case cleaned of
                                   Inl ce \<Rightarrow> ''line removed, but managed origin certificates could not be cleaned up: ''
                                             @ err_text ce
                                 | Inr _ \<Rightarrow> '''')\<rparr>), None))))))"

definition delete_entry :: "int \<Rightarrow> delete_outcome \<Rightarrow> line_delete_result" where
  "delete_entry lid outcome =
     (case outcome of
        (result, Some e) \<Rightarrow>
          \<lparr>dr_id = lid,
           dr_name = (case result of Some r \<Rightarrow> if dr_name r \<noteq> '''' then dr_name r else txt_line | None \<Rightarrow> txt_line),
           dr_success = False, dr_message = err_text e\<rparr>
      | (Some r, None) \<Rightarrow> r
      | (None, None) \<Rightarrow> \<lparr>dr_id = 0, dr_name = '''', dr_success = False, dr_message = ''''\<rparr>)"

fun delete_lines :: "int list \<Rightarrow> int list \<Rightarrow> line_delete_result list W" where
  "delete_lines seen [] = retM []"
| "delete_lines seen (lid # ids) =
     (if lid \<le> 0 \<or> lid \<in> set seen then delete_lines seen ids
      else bindM (DeleteLine lid) (\<lambda>outcome.
           bindM (delete_lines (lid # seen) ids) (\<lambda>rest.
             retM (delete_entry lid outcome # rest))))"

definition DeleteLines :: "int list \<Rightarrow> line_delete_result list W" where
  "DeleteLines ids = delete_lines [] ids"

section \<open>Expiry\<close>

definition recordLineExpiryFailure :: "int \<Rightarrow> gerr \<Rightarrow> unit W" where
  "recordLineExpiryFailure lid cause =
     transactionM
       (bindM (lines_updates (\<lambda>l. l_id l = lid) (\<lambda>l. l\<lparr>l_status := st_expiry_failed, l_manual := True,
                 l_lastError := txt_cleanup_failed @ err_text cause\<rparr>)) (\<lambda>_.
          createLineLog lid ''expiry'' ''error'' txt_disabled_first (err_text cause)))"

text \<open>\<^verbatim>\<open>return restarted, s.recordLineExpiryFailure(...)\<close>: the error returned is that of the recording.\<close>

definition expiry_failed :: "bool \<Rightarrow> int \<Rightarrow> gerr \<Rightarrow> (bool \<times> gerr option) W" where
  "expiry_failed restarted lid cause =
     bindM (tryM (recordLineExpiryFailure lid cause)) (\<lambda>r.
       retM (restarted, (case r of Inl e \<Rightarrow> Some e | Inr _ \<Rightarrow> None)))"

definition expireLineTx :: "line_profile \<Rightarrow> int \<Rightarrow> unit W" where
  "expireLineTx line now =
     (let inboundTag = lineInboundTag (l_id line) in
      thenM (removeLineTemplateArtifacts (l_outboundTag line) inboundTag)
     (thenM (removeLineManagedClient (l_id line))
     (thenM (delete_inbound_tag inboundTag)
     (bindM (lines_updates (\<lambda>l. l_id l = l_id line) (\<lambda>l. l\<lparr>l_status := st_expired, l_manual := True,
               l_expiredAt := now, l_inboundId := None, l_lastError := txt_expired_error\<rparr>)) (\<lambda>_.
        createLineLog (l_id line) ''expiry'' ''warning'' txt_expired txt_expired_detail)))))"

text \<open>What follows the claim: disable, remove the Nginx site, then the transaction.\<close>

definition expire_cleanup :: "line_profile \<Rightarrow> int \<Rightarrow> (bool \<times> gerr option) W" where
  "expire_cleanup line now =
     bindM (tryM (disable_inbound_tag (lineInboundTag (l_id line)))) (\<lambda>dis.
       case dis of
         Inl e \<Rightarrow> expiry_failed False (l_id line) e
       | Inr _ \<Rightarrow>
          bindM (tryM (removeLineNginxConfig line (decodeLineConfig (l_configJSON line)))) (\<lambda>nginx.
            case nginx of
              Inl e \<Rightarrow> expiry_failed True (l_id line) e
            | Inr _ \<Rightarrow>
               bindM (tryM (transactionM (expireLineTx line now))) (\<lambda>tx.
                 case tx of
                   Inl e \<Rightarrow> expiry_failed True (l_id line) e
                 | Inr _ \<Rightarrow> retM (True, None))))"

definition expireLine :: "int \<Rightarrow> int \<Rightarrow> (bool \<times> gerr option) W" where
  "expireLine lid now =
     bindM (tryM (first_line lid)) (\<lambda>r.
       case r of
         Inl e \<Rightarrow> retM (False, Some e)
       | Inr line \<Rightarrow>
          if l_status line = st_expired then retM (False, None)
          else if l_status line \<noteq> st_expiring \<and> l_status line \<noteq> st_expiry_failed then
            bindM (tryM (lines_updates (\<lambda>l. l_id l = lid \<and> l_status l \<noteq> st_expired)
                     (\<lambda>l. l\<lparr>l_status := st_expiring, l_manual := True, l_expiredAt := now\<rparr>))) (\<lambda>claim.
              case claim of
                Inl e \<Rightarrow> retM (False, Some e)
              | Inr 0 \<Rightarrow> retM (False, None)
              | Inr (Suc n) \<Rightarrow> expire_cleanup line now)
          else expire_cleanup line now)"

section \<open>The validity job\<close>

record reconcile_result =
  rr_started :: nat
  rr_expired :: nat
  rr_restart :: bool

definition due_to_start :: "int \<Rightarrow> line_profile \<Rightarrow> bool" where
  "due_to_start now l \<longleftrightarrow>
     l_status l = st_scheduled \<and> \<not> l_manual l \<and> l_validFrom l > 0 \<and> l_validFrom l \<le> now
     \<and> (l_validUntil l = 0 \<or> l_validUntil l > now)"

definition due_to_expire :: "int \<Rightarrow> line_profile \<Rightarrow> bool" where
  "due_to_expire now l \<longleftrightarrow>
     (l_validUntil l > 0 \<and> l_validUntil l \<le> now \<and> l_status l \<noteq> st_expired)
     \<or> l_status l \<in> {st_expiring, st_expiry_failed}"

fun start_lines :: "line_profile list \<Rightarrow> reconcile_result \<Rightarrow> reconcile_result W" where
  "start_lines [] result = retM result"
| "start_lines (line # ls) result =
     bindM (tryM (lines_updates (\<lambda>l. l_id l = l_id line \<and> l_status l = st_scheduled \<and> \<not> l_manual l)
                    (\<lambda>l. l\<lparr>l_status := ''pending_apply''\<rparr>))) (\<lambda>claim.
       case claim of
         Inl e \<Rightarrow> start_lines ls result
       | Inr 0 \<Rightarrow> start_lines ls result
       | Inr (Suc n) \<Rightarrow>
          bindM (ApplyLine (l_id line)) (\<lambda>(detail, err).
            case err of
              Some e \<Rightarrow> start_lines ls result
            | None \<Rightarrow> start_lines ls (result\<lparr>rr_started := rr_started result + 1, rr_restart := True\<rparr>)))"

fun expire_lines :: "int \<Rightarrow> line_profile list \<Rightarrow> reconcile_result \<Rightarrow> reconcile_result W" where
  "expire_lines now [] result = retM result"
| "expire_lines now (line # ls) result =
     bindM (expireLine (l_id line) now) (\<lambda>(restarted, err).
       let result1 = (if restarted then result\<lparr>rr_restart := True\<rparr> else result) in
       case err of
         Some e \<Rightarrow> expire_lines now ls result1
       | None \<Rightarrow> expire_lines now ls (result1\<lparr>rr_expired := rr_expired result1 + 1\<rparr>))"

definition ReconcileLineValidity :: "int \<Rightarrow> (reconcile_result \<times> gerr option) W" where
  "ReconcileLineValidity now =
     bindM (tryM (db_query (\<lambda>d. filter (due_to_start now) (d_lines d)))) (\<lambda>sched.
       case sched of
         Inl e \<Rightarrow> retM (\<lparr>rr_started = 0, rr_expired = 0, rr_restart = False\<rparr>, Some e)
       | Inr scheduled \<Rightarrow>
          bindM (start_lines scheduled \<lparr>rr_started = 0, rr_expired = 0, rr_restart = False\<rparr>) (\<lambda>result.
          bindM (tryM (db_query (\<lambda>d. filter (due_to_expire now) (d_lines d)))) (\<lambda>due.
            case due of
              Inl e \<Rightarrow> retM (result, Some e)
            | Inr expiring \<Rightarrow> bindM (expire_lines now expiring result) (\<lambda>r. retM (r, None)))))"

end
