(* ===== verification/LineCheck.thy ===== *)
theory LineCheck
  imports LineRemoval "HOL-Library.Word"
begin

text \<open>
  Checking and measuring a line (internal/web/service/line.go): \<^verbatim>\<open>checkLine\<close> and
  \<^verbatim>\<open>CheckLineWithInboundLatency\<close> with the results they store, \<^verbatim>\<open>buildLineMetrics\<close> with its
  saturating 64-bit sums.
\<close>

section \<open>Loading\<close>

record line_runtime =
  rt_line :: line_profile
  rt_outbound :: "line_outbound option"
  rt_config :: line_config
  rt_inbound :: "inbound option"

definition loadLineRuntime :: "int \<Rightarrow> line_runtime W" where
  "loadLineRuntime lid =
     bindM (first_line lid) (\<lambda>line.
     bindM (ensureLineConfigDefaults (l_id line) (l_type line) (decodeLineConfig (l_configJSON line))) (\<lambda>config.
     bindM (optional (first_outbound (l_id line))) (\<lambda>outbound.
     bindM (find_existing_inbound line) (\<lambda>ib.
       retM \<lparr>rt_line = line, rt_outbound = outbound, rt_config = config, rt_inbound = ib\<rparr>))))"

section \<open>Check items\<close>

record check_item =
  ck_name :: string
  ck_status :: string
  ck_message :: string

record check_response =
  cr_status :: string
  cr_pass :: int
  cr_warn :: int
  cr_fail :: int
  cr_items :: "check_item list"

definition item :: "string \<Rightarrow> string \<Rightarrow> string \<Rightarrow> check_item" where
  "item name status msg = \<lparr>ck_name = name, ck_status = status, ck_message = msg\<rparr>"

definition count_status :: "string \<Rightarrow> check_item list \<Rightarrow> int" where
  "count_status st items = int (length (filter (\<lambda>i. ck_status i = st) items))"

definition countLineCheckItems :: "check_item list \<Rightarrow> int \<times> int \<times> int" where
  "countLineCheckItems items =
     (count_status ''pass'' items, count_status ''warn'' items, count_status ''fail'' items)"

definition check_status :: "int \<Rightarrow> int \<Rightarrow> string" where
  "check_status warnCount failCount =
     (if failCount > 0 then ''failed'' else if warnCount > 0 then ''warning'' else ''active'')"

definition lineStatusToLogLevel :: "string \<Rightarrow> string" where
  "lineStatusToLogLevel status =
     (if status = ''failed'' then ''error'' else if status = ''warning'' then ''warning'' else ''info'')"

definition firstFailedLineCheckMessage :: "check_item list \<Rightarrow> string" where
  "firstFailedLineCheckMessage items =
     (case find (\<lambda>i. ck_status i = ''fail'') items of
        None \<Rightarrow> ''''
      | Some i \<Rightarrow> ck_name i @ '': '' @ ck_message i)"

definition items_json :: "check_item list \<Rightarrow> string" where
  "items_json items =
     ''['' @ join '','' (List.map (\<lambda>i.
        ''{'' @ jquote ''name'' @ '':'' @ jquote (ck_name i) @ '','' @ jquote ''status'' @ '':'' @ jquote (ck_status i)
        @ '','' @ jquote ''message'' @ '':'' @ jquote (ck_message i) @ ''}'') items) @ '']''"

definition outbound_missing :: "line_outbound option \<Rightarrow> bool" where
  "outbound_missing outbound \<longleftrightarrow>
     (case outbound of None \<Rightarrow> True | Some ob \<Rightarrow> trim_space (o_host ob) = '''' \<or> o_port ob \<le> 0)"

definition dial :: "string \<Rightarrow> gerr option W" where
  "dial addr = askM (\<lambda>e t. e_dial e t addr)"

definition check_outbound :: "line_outbound option \<Rightarrow> check_item W" where
  "check_outbound outbound =
     (case outbound of
        None \<Rightarrow> retM (item txt_outlet ''fail'' txt_outlet_missing)
      | Some ob \<Rightarrow>
         if outbound_missing outbound then retM (item txt_outlet ''fail'' txt_outlet_missing)
         else bindM (dial (join_host_port (o_host ob) (itoa (o_port ob)))) (\<lambda>r.
                retM (case r of
                        Some e \<Rightarrow> item txt_outlet_conn ''fail'' (err_text e)
                      | None \<Rightarrow> item txt_outlet_conn ''pass'' txt_tcp_ok)))"

text \<open>The address of a listener on this host, and the check that something listens there.\<close>

definition checkLineInboundListener :: "inbound \<Rightarrow> unit W" where
  "checkLineInboundListener ib =
     thenM (guardM (i_port ib > 0) (Errorf txt_ss_no_port))
       (let h = trim_space (i_listen ib);
            host = (if h = '''' \<or> h = ''0.0.0.0'' \<or> h = ''::'' then ''127.0.0.1'' else h);
            addr = join_host_port host (itoa (i_port ib))
        in bindM (dial addr) (\<lambda>r.
             case r of
               Some e \<Rightarrow> failM (wrapf (txt_ss_not_listening @ addr @ '': '') e '''')
             | None \<Rightarrow> retM ()))"

definition check_inbound :: "line_profile \<Rightarrow> inbound option \<Rightarrow> check_item list W" where
  "check_inbound line ib =
     (case ib of
        None \<Rightarrow> retM [item txt_xray_inbound ''fail'' txt_no_inbound]
      | Some i \<Rightarrow>
         if \<not> i_enable i then retM [item txt_xray_inbound ''fail'' txt_inbound_disabled]
         else
           let ok = item txt_xray_inbound ''pass''
                      (i_listen i @ '':'' @ itoa (i_port i) @ '' '' @ i_protocol i)
           in if l_type line = LineTypeShadowsocks
              then bindM (tryM (checkLineInboundListener i)) (\<lambda>r.
                     retM [ok, (case r of
                                  Inl e \<Rightarrow> item txt_xray_running ''fail'' (err_text e)
                                | Inr _ \<Rightarrow> item txt_xray_running ''pass'' txt_ss_listening)])
              else retM [ok])"

definition check_route :: "line_profile \<Rightarrow> check_item W" where
  "check_route line =
     bindM (tryM (lineTemplateHasRoute (l_outboundTag line) (lineInboundTag (l_id line)))) (\<lambda>r.
       retM (case r of
               Inl e \<Rightarrow> item txt_xray_route ''fail'' (err_text e)
             | Inr (hasOutbound, hasRoute) \<Rightarrow>
                if \<not> hasOutbound \<or> \<not> hasRoute then item txt_xray_route ''fail'' txt_route_missing
                else item txt_xray_route ''pass'' (lineInboundTag (l_id line) @ '' -> '' @ l_outboundTag line)))"

definition check_reality :: "line_profile \<Rightarrow> line_config \<Rightarrow> check_item list" where
  "check_reality line config =
     (if l_type line \<noteq> LineTypeReality then []
      else
        [(if blank config ''realityPublicKey'' \<or> blank config ''realityPrivateKey''
          then item txt_reality_keys ''fail'' txt_reality_keys_missing
          else item txt_reality_keys ''pass'' txt_reality_keys_ok),
         (if blank config ''realitySni'' \<or> blank config ''realityShortId''
          then item txt_reality_params ''fail'' txt_reality_params_missing
          else item txt_reality_params ''pass''
                 (sget config ''realitySni'' @ '' / '' @ sget config ''realityShortId''))])"

definition check_nginx :: "line_profile \<Rightarrow> line_config \<Rightarrow> check_item list W" where
  "check_nginx line config =
     (if \<not> isNginxWSLine (l_type line) then retM []
      else if truthy (sget config ''nginxApply'') then
        (let path = lineNginxPath (l_id line) config in
         bindM (askM (\<lambda>e t. e_goos e)) (\<lambda>goos.
           if goos = ''linux'' then
             bindM (tryM (os_stat path)) (\<lambda>r.
               retM [(case r of
                        Inl e \<Rightarrow> item txt_nginx_config ''fail'' (err_text e)
                      | Inr _ \<Rightarrow> item txt_nginx_config ''pass'' path)])
           else retM [item txt_nginx_config ''pass'' txt_nginx_skipped]))
      else retM [item txt_nginx_config ''pass'' txt_nginx_draft_only])"

definition check_items :: "line_runtime \<Rightarrow> check_item list W" where
  "check_items rt =
     (let line = rt_line rt;
          entry = (if trim_space (l_entryHost line) = '''' \<or> l_entryPort line \<le> 0
                   then item txt_entry_addr ''fail'' txt_entry_missing
                   else item txt_entry_addr ''pass'' (formatHostPort (l_entryHost line) (l_entryPort line)))
      in bindM (check_outbound (rt_outbound rt)) (\<lambda>out.
           if l_type line = LineTypeTrojan
           then retM [entry, out, item txt_executor ''warn'' txt_trojan_missing]
           else
             bindM (check_inbound line (rt_inbound rt)) (\<lambda>ibs.
             bindM (check_route line) (\<lambda>route.
             bindM (check_nginx line (rt_config rt)) (\<lambda>nginx.
               retM ([entry, out] @ ibs @ [route] @ check_reality line (rt_config rt) @ nginx))))))"

definition response_of :: "check_item list \<Rightarrow> check_response" where
  "response_of items =
     (case countLineCheckItems items of (p, w, f) \<Rightarrow>
        \<lparr>cr_status = check_status w f, cr_pass = p, cr_warn = w, cr_fail = f, cr_items = items\<rparr>)"

definition check_row :: "int \<Rightarrow> check_response \<Rightarrow> line_check" where
  "check_row lid resp =
     \<lparr>k_id = 0, k_lineId = lid, k_status = cr_status resp, k_pass = cr_pass resp, k_warn = cr_warn resp,
      k_fail = cr_fail resp, k_itemsJSON = items_json (cr_items resp), k_createdAt = 0\<rparr>"

definition checkLine :: "int \<Rightarrow> bool \<Rightarrow> check_response W" where
  "checkLine lid persist =
     bindM (loadLineRuntime lid) (\<lambda>rt.
     bindM time_now (\<lambda>now.
     thenM (liftM (validateLineCanApply (rt_line rt) now))
    (bindM (check_items rt) (\<lambda>items.
     let resp = response_of items; lid' = l_id (rt_line rt) in
     if \<not> persist then retM resp
     else thenM (transactionM
       (thenM (create_check (check_row lid' resp))
       (thenM (createLineLog lid' ''check'' (lineStatusToLogLevel (cr_status resp)) txt_check_done
                 (txt_pass @ itoa (cr_pass resp) @ txt_warn @ itoa (cr_warn resp) @ txt_fail @ itoa (cr_fail resp)))
       (bindM time_now (\<lambda>checkedAt.
        bindM (lines_updates (\<lambda>l. l_id l = lid') (\<lambda>l. l\<lparr>l_status := cr_status resp,
                 l_lastCheckAt := checkedAt, l_lastError := firstFailedLineCheckMessage items\<rparr>)) (\<lambda>_.
          retM ()))))))
       (retM resp)))))"

definition CheckLine :: "int \<Rightarrow> check_response W" where
  "CheckLine lid = checkLine lid True"

text \<open>\<^verbatim>\<open>testLineOutboundLatency\<close>; the test itself (\<^verbatim>\<open>TestOutbound\<close>) is the environment's.\<close>

definition testLineOutboundLatency :: "line_profile \<Rightarrow> line_outbound \<Rightarrow> int W" where
  "testLineOutboundLatency line outbound =
     (let tag = (if l_outboundTag line = '''' then lineOutboundTag (l_id line) else l_outboundTag line);
          outboundJSON = json_marshal (JObj (buildResidentialOutboundConfig tag outbound))
      in bindM (askM (\<lambda>e t. e_outboundTest e t outboundJSON)) liftM)"

definition latency_item :: "line_profile \<Rightarrow> line_outbound option \<Rightarrow> (check_item \<times> int) W" where
  "latency_item line outbound =
     (case outbound of
        None \<Rightarrow> retM (item txt_out_latency ''fail'' txt_outlet_missing, l_lastOutLatency line)
      | Some ob \<Rightarrow>
         if outbound_missing outbound
         then retM (item txt_out_latency ''fail'' txt_outlet_missing, l_lastOutLatency line)
         else bindM (tryM (testLineOutboundLatency line ob)) (\<lambda>r.
                retM (case r of
                        Inl e \<Rightarrow> (item txt_out_latency ''fail'' (err_text e), 0)
                      | Inr delay \<Rightarrow> (item txt_out_latency ''pass'' (itoa delay @ '' ms''), delay))))"

definition add_item :: "check_response \<Rightarrow> check_item \<Rightarrow> check_response" where
  "add_item resp i =
     (let p = cr_pass resp + (if ck_status i = ''pass'' then 1 else 0);
          f = cr_fail resp + (if ck_status i = ''fail'' then 1 else 0)
      in resp\<lparr>cr_items := cr_items resp @ [i], cr_pass := p, cr_fail := f,
              cr_status := check_status (cr_warn resp) f\<rparr>)"

section \<open>Metrics\<close>

text \<open>\<^verbatim>\<open>database.TrafficMax\<close> (internal/database/dialect.go) and the sum that stops there, on 64 bits.\<close>

definition TrafficMax :: "64 word" where
  "TrafficMax = 9000000000000000000"

definition saturatingSum :: "64 word \<Rightarrow> 64 word \<Rightarrow> 64 word" where
  "saturatingSum a b = (if TrafficMax - a <s b then TrafficMax else a + b)"

record line_metrics =
  m_lineId :: int
  m_inboundTag :: string
  m_outboundTag :: string
  m_speed :: line_speed
  m_inTraffic :: int
  m_outTraffic :: int
  m_total :: int
  m_inLatency :: int
  m_outLatency :: int
  m_lastChecked :: int

definition sum64 :: "int \<Rightarrow> int \<Rightarrow> int" where
  "sum64 a b = sint (saturatingSum (word_of_int a) (word_of_int b))"

definition buildLineMetrics :: "line_profile \<Rightarrow> line_metrics W" where
  "buildLineMetrics line =
     (let inTag = lineInboundTag (l_id line);
          outTag = (if l_outboundTag line = '''' then lineOutboundTag (l_id line) else l_outboundTag line) in
      bindM (optional (db_get (\<lambda>d. find (\<lambda>i. i_tag i = inTag \<and> i_nodeId i = None) (d_inbounds d)))) (\<lambda>ib.
      bindM (optional (db_get (\<lambda>d. find (\<lambda>r. ot_tag r = outTag) (d_outboundTraffics d)))) (\<lambda>ot.
      let inTotal = (case ib of None \<Rightarrow> 0 | Some i \<Rightarrow> sum64 (i_up i) (i_down i));
          outTotal = (case ot of
                        None \<Rightarrow> 0
                      | Some t \<Rightarrow> if ot_total t \<le> 0 then sum64 (ot_up t) (ot_down t) else ot_total t)
      in bindM (askM (\<lambda>e t. e_speed e t (l_id line))) (\<lambda>sp.
           retM \<lparr>m_lineId = l_id line, m_inboundTag = inTag, m_outboundTag = outTag, m_speed = sp,
                 m_inTraffic = inTotal, m_outTraffic = outTotal,
                 m_total = (if inTotal \<le> 0 then outTotal else inTotal),
                 m_inLatency = l_lastInLatency line, m_outLatency = l_lastOutLatency line,
                 m_lastChecked = l_lastCheckAt line\<rparr>))))"

definition GetLineMetrics :: "int \<Rightarrow> line_metrics W" where
  "GetLineMetrics lid = bindM (first_line lid) buildLineMetrics"

fun metrics_of :: "line_profile list \<Rightarrow> line_metrics list W" where
  "metrics_of [] = retM []"
| "metrics_of (l # ls) = bindM (buildLineMetrics l) (\<lambda>m. bindM (metrics_of ls) (\<lambda>ms. retM (m # ms)))"

definition ListLineMetrics :: "line_metrics list W" where
  "ListLineMetrics = bindM ListLines metrics_of"

text \<open>\<^verbatim>\<open>CheckLineWithInboundLatency\<close>: the response and the metrics, when they could be read.\<close>

definition CheckLineWithInboundLatency :: "int \<Rightarrow> int \<Rightarrow> (check_response \<times> line_metrics option) W" where
  "CheckLineWithInboundLatency lid inboundLatencyMs =
     bindM (checkLine lid False) (\<lambda>resp0.
     bindM (loadLineRuntime lid) (\<lambda>rt.
     bindM (latency_item (rt_line rt) (rt_outbound rt)) (\<lambda>(it, outboundLatencyMs).
     bindM time_now (\<lambda>now.
     let resp = add_item resp0 it; lid' = l_id (rt_line rt) in
     thenM (transactionM
       (thenM (create_check (check_row lid' resp))
       (thenM (createLineLog lid' ''check'' (lineStatusToLogLevel (cr_status resp)) txt_latency_done
                 (txt_in_ms @ itoa inboundLatencyMs @ txt_ms_out @ itoa outboundLatencyMs @ '' ms''))
       (bindM (lines_updates (\<lambda>l. l_id l = lid') (\<lambda>l. l\<lparr>l_status := cr_status resp, l_lastCheckAt := now,
                 l_lastOutLatency := outboundLatencyMs,
                 l_lastError := firstFailedLineCheckMessage (cr_items resp)\<rparr>)) (\<lambda>_. retM ())))))
       (bindM (tryM (GetLineMetrics lid')) (\<lambda>m.
          retM (resp, (case m of Inl e \<Rightarrow> None | Inr x \<Rightarrow> Some x))))))))"

end
