(* ===== verification/LineShare.thy ===== *)
theory LineShare
  imports LineCheck
begin

text \<open>
  Sharing a line: the share links and their Shadowsocks credentials (internal/web/service/line.go),
  and the Clash subscription with its token (line\_subscription.go).  The token is 32 random bytes in
  base64; its row keeps the SHA-256 digest, under which the public endpoint looks it up, and the token
  encrypted under a key made from the panel's secret, from which the administrator's address is
  rebuilt.
\<close>

section \<open>Bytes and quoted text\<close>

definition bytes_of :: "string \<Rightarrow> nat list" where
  "bytes_of s = List.map byte s"

definition text_of :: "nat list \<Rightarrow> string" where
  "text_of bs = List.map char_of bs"

text \<open>The verb \<^verbatim>\<open>%q\<close>: escapes for ASCII and for bytes that are not UTF-8, other runes as they are.\<close>

definition quote_ascii :: "char \<Rightarrow> string" where
  "quote_ascii c =
     (let n = byte c in
      if n = 34 \<or> n = 92 then [CHR 0x5C, c]
      else if n = 7 then [CHR 0x5C, CHR ''a'']
      else if n = 8 then [CHR 0x5C, CHR ''b'']
      else if n = 9 then [CHR 0x5C, CHR ''t'']
      else if n = 10 then [CHR 0x5C, CHR ''n'']
      else if n = 11 then [CHR 0x5C, CHR ''v'']
      else if n = 12 then [CHR 0x5C, CHR ''f'']
      else if n = 13 then [CHR 0x5C, CHR ''r'']
      else if n < 32 \<or> n = 127 \<or> n \<ge> 128 then [CHR 0x5C, CHR ''x'', hex_lower (n div 16), hex_lower (n mod 16)]
      else [c])"

fun quote_runes :: "nat \<Rightarrow> string \<Rightarrow> string" where
  "quote_runes skip [] = []"
| "quote_runes (Suc skip) (c # s) = c # quote_runes skip s"
| "quote_runes 0 (c # s) =
     (if byte c < 128 \<or> utf8_len (c # s) = 0 then quote_ascii c @ quote_runes 0 s
      else c # quote_runes (utf8_len (c # s) - 1) s)"

definition fmt_q :: "string \<Rightarrow> string" where
  "fmt_q s = DQ @ quote_runes 0 s @ DQ"

section \<open>Share links\<close>

definition firstVlessClientID :: "string \<Rightarrow> string res" where
  "firstVlessClientID settingsJSON =
     (case unmarshal_object settingsJSON of
        None \<Rightarrow> Inl (wrapf ''inbound settings invalid: '' (lib_error ''json'' settingsJSON) '''')
      | Some settings \<Rightarrow>
         (case oget settings ''clients'' of
            Some (JArr (c # cs)) \<Rightarrow>
              (case c of
                 JObj client \<Rightarrow>
                   (let clientID = jstr client ''id'' in
                    if trim_space clientID = '''' then Inl (Errorf ''line client id is empty'')
                    else Inr clientID)
               | _ \<Rightarrow> Inl (Errorf ''line client settings invalid''))
          | _ \<Rightarrow> Inl (Errorf ''line has no VLESS client'')))"

definition formatShareHost :: "string \<Rightarrow> string" where
  "formatShareHost h =
     (let host = trim_space h in
      if contains_char host (CHR '':'') \<and> \<not> has_prefix host ''['' then ''['' @ host @ '']'' else host)"

definition or_default :: "string \<Rightarrow> string \<Rightarrow> string" where
  "or_default v d = (if v = '''' then d else v)"

definition vless_link :: "line_profile \<Rightarrow> string \<Rightarrow> string \<Rightarrow> (string \<times> string) list \<Rightarrow> string" where
  "vless_link line clientID host params =
     ''vless://'' @ clientID @ ''@'' @ formatShareHost host @ '':'' @ itoa (l_entryPort line) @ ''?''
     @ encode_params params @ ''#'' @ query_escape (l_name line)"

definition buildCloudflareVlessShareLink :: "line_profile \<Rightarrow> string \<Rightarrow> string \<Rightarrow> string" where
  "buildCloudflareVlessShareLink line clientID wsPath =
     (let host = trim_space (l_entryHost line) in
      vless_link line clientID host
        [(''encryption'', ''none''), (''fp'', ''chrome''), (''host'', host), (''path'', wsPath),
         (''security'', ''tls''), (''sni'', host), (''type'', ''ws'')])"

definition buildRealityVlessShareLink :: "line_profile \<Rightarrow> string \<Rightarrow> line_config \<Rightarrow> string res" where
  "buildRealityVlessShareLink line clientID config =
     (let host = trim_space (l_entryHost line);
          publicKey = trim_space (sget config ''realityPublicKey'');
          shortID = trim_space (sget config ''realityShortId'');
          sni = trim_space (sget config ''realitySni'');
          flow = or_default (trim_space (sget config ''realityFlow'')) ''xtls-rprx-vision'';
          fingerprint = or_default (trim_space (sget config ''realityFingerprint'')) ''chrome'';
          spiderX = or_default (trim_space (sget config ''realitySpiderX'')) ''/''
      in if host = '''' then Inl (Errorf ''entry host is required'')
         else if publicKey = '''' then Inl (Errorf ''reality public key is missing'')
         else if shortID = '''' then Inl (Errorf ''reality short id is missing'')
         else if sni = '''' then Inl (Errorf ''reality sni is missing'')
         else Inr (vless_link line clientID host
           [(''encryption'', ''none''), (''flow'', flow), (''fp'', fingerprint), (''pbk'', publicKey),
            (''security'', ''reality''), (''sid'', shortID), (''sni'', sni), (''spx'', spiderX), (''type'', ''tcp'')]))"

record shadowsocks_credentials =
  sc_method :: string
  sc_serverKey :: string
  sc_clientKey :: string

definition shadowsocks2022ShareCredentials :: "inbound \<Rightarrow> string \<Rightarrow> shadowsocks_credentials res" where
  "shadowsocks2022ShareCredentials ib clientKey =
     (case unmarshal_object (i_settings ib) of
        None \<Rightarrow> Inl (wrapf ''read Shadowsocks settings: '' (lib_error ''json'' (i_settings ib)) '''')
      | Some settings \<Rightarrow>
         (let m = trim_space (jstr settings ''method'');
              serverKey = jstr settings ''password''
          in if \<not> has_prefix m ''2022-blake3-'' then Inl (Errorf (''unsupported Shadowsocks method '' @ fmt_q m))
             else if \<not> validShadowsocksClientKey m serverKey
             then Inl (Errorf ''Shadowsocks server key is unavailable'')
             else if \<not> validShadowsocksClientKey m clientKey
             then Inl (Errorf ''Shadowsocks client key is unavailable'')
             else Inr \<lparr>sc_method = m, sc_serverKey = serverKey, sc_clientKey = clientKey\<rparr>))"

definition combinedPassword :: "shadowsocks_credentials \<Rightarrow> string" where
  "combinedPassword c = sc_serverKey c @ '':'' @ sc_clientKey c"

definition buildShadowsocksShareLink :: "line_profile \<Rightarrow> shadowsocks_credentials \<Rightarrow> string" where
  "buildShadowsocksShareLink line c =
     (let userInfo = join '':'' [query_escape (sc_method c), query_escape (sc_serverKey c), query_escape (sc_clientKey c)]
      in ''ss://'' @ userInfo @ ''@'' @ formatShareHost (l_entryHost line) @ '':'' @ itoa (l_entryPort line)
         @ ''#'' @ query_escape (l_name line))"

section \<open>The panel's secret\<close>

definition saveSetting :: "string \<Rightarrow> string \<Rightarrow> unit W" where
  "saveSetting key v =
     bindM (tryM (getSetting key)) (\<lambda>r.
       case r of
         Inl e \<Rightarrow> if is_not_found e then create_setting key v else failM e
       | Inr st \<Rightarrow> update_setting (st_id st) v)"

text \<open>A read error leaves the empty secret; the error of saving the default is only logged.\<close>

definition GetSecret :: "string W" where
  "GetSecret =
     bindM (tryM (getString ''secret'')) (\<lambda>r.
     let secret = (case r of Inr s \<Rightarrow> s | Inl e \<Rightarrow> '''') in
     bindM (askM (\<lambda>e t. defaultValueMap e ''secret'')) (\<lambda>dflt.
     thenM (if dflt = Some secret then thenM (tryM (saveSetting ''secret'' secret)) (retM ()) else retM ())
       (case r of Inl e \<Rightarrow> failM e | Inr s \<Rightarrow> retM s)))"

definition lineSubscriptionKey :: "nat list W" where
  "lineSubscriptionKey =
     bindM GetSecret (\<lambda>secret.
     thenM (guardM (secret \<noteq> '''') (Errorf ''panel secret is empty''))
       (askM (\<lambda>e t. e_sha256 e (bytes_of secret))))"

section \<open>The subscription token\<close>

definition gcm_nonce_size :: nat where [simp]: "gcm_nonce_size = 12"

definition encryptLineSubscriptionToken :: "string \<Rightarrow> string W" where
  "encryptLineSubscriptionToken token =
     bindM lineSubscriptionKey (\<lambda>key.
     bindM (rand_bytes gcm_nonce_size) (\<lambda>r.
       case r of
         None \<Rightarrow> failM (lib_error ''crypto/rand'' '''')
       | Some nonce \<Rightarrow>
          bindM (askM (\<lambda>e t. e_seal e key nonce (bytes_of token))) (\<lambda>ct.
            retM (b64_rawurl_encode (nonce @ ct)))))"

definition decryptLineSubscriptionToken :: "string \<Rightarrow> string W" where
  "decryptLineSubscriptionToken ciphertext =
     bindM lineSubscriptionKey (\<lambda>key.
       case b64_rawurl_decode (trim_space ciphertext) of
         None \<Rightarrow> failM (lib_error ''base64'' ciphertext)
       | Some payload \<Rightarrow>
          thenM (guardM (gcm_nonce_size \<le> length payload) (Errorf ''invalid encrypted subscription token''))
         (bindM (askM (\<lambda>e t. e_open e key (take gcm_nonce_size payload) (drop gcm_nonce_size payload))) (\<lambda>r.
            case r of Inl m \<Rightarrow> failM (Errorf m) | Inr plain \<Rightarrow> retM (text_of plain))))"

definition newLineSubscriptionToken :: "(string \<times> string) W" where
  "newLineSubscriptionToken =
     bindM (rand_bytes 32) (\<lambda>r.
       case r of
         None \<Rightarrow> failM (wrapf ''generate subscription token: '' (lib_error ''crypto/rand'' '''') '''')
       | Some raw \<Rightarrow>
          (let token = b64_rawurl_encode raw in
           bindM (encryptLineSubscriptionToken token) (\<lambda>ciphertext. retM (token, ciphertext))))"

text \<open>\<^verbatim>\<open>HashTokenSHA256\<close> (internal/util/crypto/crypto.go).\<close>

definition token_digest :: "env \<Rightarrow> string \<Rightarrow> string" where
  "token_digest e token = hex_encode (e_sha256 e (bytes_of token))"

definition HashTokenSHA256 :: "string \<Rightarrow> string W" where
  "HashTokenSHA256 token = getM (\<lambda>w. token_digest (w_env w) token)"

text \<open>The statements on the table of subscriptions; both columns have a unique index.\<close>

definition find_sub :: "int \<Rightarrow> db \<Rightarrow> line_subscription option" where
  "find_sub lid d = find (\<lambda>s. s_lineId s = lid) (d_subs d)"

definition find_sub_token :: "string \<Rightarrow> db \<Rightarrow> line_subscription option" where
  "find_sub_token h d = find (\<lambda>s. s_tokenHash s = h) (d_subs d)"

definition create_sub :: "line_subscription \<Rightarrow> line_subscription W" where
  "create_sub sub =
     bindM time_now (\<lambda>now. dbM (\<lambda>d.
       if find_sub (s_lineId sub) d \<noteq> None then (Inl (unique_violation ''line_subscriptions.line_id''), d)
       else if find_sub_token (s_tokenHash sub) d \<noteq> None
       then (Inl (unique_violation ''line_subscriptions.token_hash''), d)
       else
         (let s = sub\<lparr>s_id := d_nextSub d, s_createdAt := now, s_updatedAt := now\<rparr>
          in (Inr s, d\<lparr>d_subs := d_subs d @ [s], d_nextSub := d_nextSub d + 1\<rparr>))))"

definition rotate_sub :: "string \<Rightarrow> string \<Rightarrow> int \<Rightarrow> int \<Rightarrow> line_subscription \<Rightarrow> line_subscription" where
  "rotate_sub h ct rotatedAt now s =
     s\<lparr>s_tokenHash := h, s_tokenCiphertext := ct, s_rotatedAt := rotatedAt, s_updatedAt := now\<rparr>"

definition update_sub :: "int \<Rightarrow> string \<Rightarrow> string \<Rightarrow> int \<Rightarrow> unit W" where
  "update_sub sid h ct rotatedAt =
     bindM time_now (\<lambda>now. dbM (\<lambda>d.
       if list_ex (\<lambda>s. s_id s \<noteq> sid \<and> s_tokenHash s = h) (d_subs d) \<and> list_ex (\<lambda>s. s_id s = sid) (d_subs d)
       then (Inl (unique_violation ''line_subscriptions.token_hash''), d)
       else (Inr (), d\<lparr>d_subs := update_where (\<lambda>s. s_id s = sid) (rotate_sub h ct rotatedAt now) (d_subs d)\<rparr>)))"

definition getOrCreateLineSubscriptionToken :: "int \<Rightarrow> bool \<Rightarrow> (string \<times> line_subscription) W" where
  "getOrCreateLineSubscriptionToken lineID rotate' =
     bindM (tryM (db_get (find_sub lineID))) (\<lambda>r.
       let fresh =
         (\<lambda>cur. bindM newLineSubscriptionToken (\<lambda>(token, ciphertext).
            bindM time_now (\<lambda>now.
            bindM (HashTokenSHA256 token) (\<lambda>h.
              case cur of
                None \<Rightarrow>
                  bindM (create_sub \<lparr>s_id = 0, s_lineId = lineID, s_tokenHash = h, s_tokenCiphertext = ciphertext,
                           s_createdAt = 0, s_rotatedAt = 0, s_updatedAt = 0\<rparr>) (\<lambda>rec. retM (token, rec))
              | Some current \<Rightarrow>
                  thenM (update_sub (s_id current) h ciphertext now)
                    (retM (token, current\<lparr>s_tokenHash := h, s_tokenCiphertext := ciphertext, s_rotatedAt := now\<rparr>))))))
       in case r of
            Inr current \<Rightarrow>
              if \<not> rotate'
              then bindM (decryptLineSubscriptionToken (s_tokenCiphertext current)) (\<lambda>token. retM (token, current))
              else fresh (Some current)
          | Inl e \<Rightarrow> if is_not_found e then fresh None else failM e)"

section \<open>The host of the subscription address\<close>

fun first_host :: "line_profile list \<Rightarrow> (line_profile \<times> line_config) W" where
  "first_host [] = failM (Errorf ''no applied Cloudflare main line is available for Clash subscription delivery'')"
| "first_host (line # ls) =
     bindM time_now (\<lambda>now.
       case validateLineCanApply line now of
         Inl e \<Rightarrow> first_host ls
       | Inr _ \<Rightarrow>
          bindM (ensureLineConfigDefaults (l_id line) (l_type line) (decodeLineConfig (l_configJSON line))) (\<lambda>config.
            if trim_space (l_entryHost line) = '''' \<or> l_entryPort line \<le> 0 then first_host ls
            else retM (line, config)))"

definition findLineSubscriptionHost :: "(line_profile \<times> line_config) W" where
  "findLineSubscriptionHost =
     bindM (db_query (\<lambda>d. filter (\<lambda>l. l_type l = LineTypeCloudflare \<and> l_inboundId l \<noteq> None) (d_lines d))) first_host"

definition buildLineSubscriptionURL :: "line_profile \<Rightarrow> string \<Rightarrow> string W" where
  "buildLineSubscriptionURL hostLine token =
     (let host = trim_space (l_entryHost hostLine); port = l_entryPort hostLine in
      thenM (guardM (host \<noteq> '''' \<and> 0 < port \<and> port \<le> 65535) (Errorf ''Cloudflare subscription host is incomplete''))
     (bindM lineSubscriptionPath (\<lambda>path.
        retM (''https://'' @ (if port = 443 then formatShareHost host
                              else formatShareHost host @ '':'' @ itoa port) @ path @ token))))"

section \<open>The administrator's address\<close>

record clash_share =
  sh_URL :: string
  sh_createdAt :: int
  sh_rotatedAt :: int

definition clash_type_ok :: "string \<Rightarrow> bool" where
  "clash_type_ok t \<longleftrightarrow> t = LineTypeCloudflare \<or> t = LineTypeReality \<or> t = LineTypeShadowsocks"

definition clash_unavailable :: gerr where
  "clash_unavailable = Errorf ''Clash subscription is not available for this line type''"

text \<open>
  \<^verbatim>\<open>GetLineClashSubscriptionShare\<close> and \<^verbatim>\<open>ResetLineClashSubscription\<close> have the same text but for the
  argument that rotates the token.
\<close>

definition servable_runtime :: "int \<Rightarrow> (line_runtime \<times> inbound) W" where
  "servable_runtime lid =
     bindM (loadLineRuntime lid) (\<lambda>rt.
     bindM time_now (\<lambda>now.
     thenM (liftM (validateLineCanApply (rt_line rt) now))
       (case rt_inbound rt of
          None \<Rightarrow> failM (Errorf ''line has not been applied yet'')
        | Some ib \<Rightarrow> retM (rt, ib))))"

definition clash_share_with :: "bool \<Rightarrow> int \<Rightarrow> clash_share W" where
  "clash_share_with rotate' lid =
     bindM (servable_runtime lid) (\<lambda>(rt, ib).
     thenM (guardM (clash_type_ok (l_type (rt_line rt))) clash_unavailable)
    (bindM findLineSubscriptionHost (\<lambda>(hostLine, hostConfig).
     thenM (guardM (truthy (sget hostConfig ''nginxApply''))
              (Errorf ''Clash subscription requires an applied Cloudflare line with Nginx write enabled''))
    (bindM (mapErrM (\<lambda>e. wrapf ''configure subscription Nginx route: '' e '''')
              (applyCloudflareNginx hostLine hostConfig)) (\<lambda>_.
     bindM (getOrCreateLineSubscriptionToken (l_id (rt_line rt)) rotate') (\<lambda>(token, rec).
     bindM (buildLineSubscriptionURL hostLine token) (\<lambda>url.
       retM \<lparr>sh_URL = url, sh_createdAt = s_createdAt rec, sh_rotatedAt = s_rotatedAt rec\<rparr>)))))))"

definition GetLineClashSubscriptionShare :: "int \<Rightarrow> clash_share W" where
  "GetLineClashSubscriptionShare lid = clash_share_with False lid"

definition ResetLineClashSubscription :: "int \<Rightarrow> clash_share W" where
  "ResetLineClashSubscription lid = clash_share_with True lid"

section \<open>The Clash profile\<close>

definition trim_brackets :: "string \<Rightarrow> string" where
  "trim_brackets s =
     (let p = (\<lambda>c. c = CHR ''['' \<or> c = CHR '']'') in rev (dropWhile p (rev (dropWhile p s))))"

definition vless_proxy :: "line_profile \<Rightarrow> string \<Rightarrow> string \<Rightarrow> string \<Rightarrow> (string \<times> json) list" where
  "vless_proxy line name host clientID =
     [(''name'', JStr name), (''type'', JStr ''vless''), (''server'', JStr (trim_brackets host)),
      (''port'', JInt (l_entryPort line)), (''uuid'', JStr clientID), (''udp'', JBool True),
      (''tls'', JBool True), (''client-fingerprint'', JStr ''chrome'')]"

definition buildLineClashProxy :: "line_profile \<Rightarrow> inbound \<Rightarrow> line_config \<Rightarrow> json W" where
  "buildLineClashProxy line ib config =
     (let host = trim_space (l_entryHost line);
          name = or_default (trim_space (l_name line)) (lineTypeName (l_type line))
      in thenM (guardM (host \<noteq> '''') (Errorf ''entry host is required''))
        (if l_type line = LineTypeCloudflare then
           bindM (liftM (firstVlessClientID (i_settings ib))) (\<lambda>clientID.
             retM (jobj (vless_proxy line name host clientID @
               [(''servername'', JStr host), (''network'', JStr ''ws''),
                (''ws-opts'', jobj [(''path'', JStr (or_default (trim_space (sget config ''wsPath'')) ''/'')),
                                    (''headers'', jobj [(''Host'', JStr host)])])])))
         else if l_type line = LineTypeReality then
           bindM (liftM (firstVlessClientID (i_settings ib))) (\<lambda>clientID.
           let publicKey = trim_space (sget config ''realityPublicKey'');
               shortID = trim_space (sget config ''realityShortId'');
               sni = trim_space (sget config ''realitySni'')
           in thenM (guardM (publicKey \<noteq> '''' \<and> shortID \<noteq> '''' \<and> sni \<noteq> '''')
                       (Errorf ''Reality subscription settings are incomplete''))
             (retM (jobj (vless_proxy line name host clientID @
               [(''servername'', JStr sni),
                (''client-fingerprint'', JStr (or_default (trim_space (sget config ''realityFingerprint'')) ''chrome'')),
                (''network'', JStr ''tcp''),
                (''flow'', JStr (or_default (trim_space (sget config ''realityFlow'')) ''xtls-rprx-vision'')),
                (''reality-opts'', jobj [(''public-key'', JStr publicKey), (''short-id'', JStr shortID)])]))))
         else if l_type line = LineTypeShadowsocks then
           bindM (lineManagedShadowsocksPassword (l_id line)) (\<lambda>clientKey.
           bindM (liftM (shadowsocks2022ShareCredentials ib clientKey)) (\<lambda>c.
             retM (jobj [(''name'', JStr name), (''type'', JStr ''ss''), (''server'', JStr (trim_brackets host)),
                         (''port'', JInt (l_entryPort line)), (''cipher'', JStr (sc_method c)),
                         (''password'', JStr (combinedPassword c)), (''udp'', JBool False)])))
         else failM clash_unavailable))"

definition clash_document :: "line_profile \<Rightarrow> json \<Rightarrow> json" where
  "clash_document line proxy =
     (let proxyName = (if trim_space (l_name line) = '''' then lineTypeName (l_type line) else l_name line)
      in JObj [(''proxies'', JArr [proxy]),
               (''proxy-groups'', JArr [jobj [(''name'', JStr ''Relay''), (''type'', JStr ''select''),
                  (''proxies'', JArr [JStr proxyName, JStr ''DIRECT''])]]),
               (''rules'', JArr [JStr ''MATCH,Relay''])])"

definition clash_filename :: "int \<Rightarrow> string" where
  "clash_filename lid = ''relay-panel-line-'' @ itoa lid @ ''.yaml''"

definition buildLineClashSubscriptionYAML :: "int \<Rightarrow> (string \<times> string) W" where
  "buildLineClashSubscriptionYAML lid =
     bindM (servable_runtime lid) (\<lambda>(rt, ib).
     bindM (buildLineClashProxy (rt_line rt) ib (rt_config rt)) (\<lambda>proxy.
     bindM (askM (\<lambda>e t. e_yaml e (clash_document (rt_line rt) proxy))) (\<lambda>r.
       case r of
         Inl m \<Rightarrow> failM (wrapf ''encode Clash YAML: '' (Errorf m) '''')
       | Inr body \<Rightarrow> retM (body, clash_filename (l_id (rt_line rt))))))"

definition GetLineClashSubscriptionYAML :: "int \<Rightarrow> (string \<times> string) W" where
  "GetLineClashSubscriptionYAML lid =
     bindM (GetLineClashSubscriptionShare lid) (\<lambda>_. buildLineClashSubscriptionYAML lid)"

definition errLineSubscriptionUnavailable :: gerr where
  "errLineSubscriptionUnavailable = Errorf ''line subscription unavailable''"

definition GetPublicLineClashSubscription :: "string \<Rightarrow> (string \<times> string) W" where
  "GetPublicLineClashSubscription token0 =
     (let token = trim_space token0 in
      thenM (guardM (32 \<le> length token \<and> length token \<le> 256) errLineSubscriptionUnavailable)
        (mapErrM (\<lambda>e. errLineSubscriptionUnavailable)
          (bindM (HashTokenSHA256 token) (\<lambda>h.
           bindM (db_get (find_sub_token h)) (\<lambda>sub.
             buildLineClashSubscriptionYAML (s_lineId sub))))))"

section \<open>The share dialogue\<close>

record share_response =
  sr_protocol :: string
  sr_label :: string
  sr_uri :: string
  sr_clash :: "clash_share option"
  sr_clashError :: string

definition share_link :: "line_runtime \<Rightarrow> inbound \<Rightarrow> (string \<times> string \<times> string) W" where
  "share_link rt ib =
     (let line = rt_line rt; config = rt_config rt in
      if isNginxWSLine (l_type line) then
        bindM (liftM (firstVlessClientID (i_settings ib))) (\<lambda>clientID.
          retM (''vless'', ''VLESS WS TLS'',
                buildCloudflareVlessShareLink line clientID (or_default (trim_space (sget config ''wsPath'')) ''/'')))
      else if l_type line = LineTypeReality then
        bindM (liftM (firstVlessClientID (i_settings ib))) (\<lambda>clientID.
        bindM (liftM (buildRealityVlessShareLink line clientID config)) (\<lambda>link.
          retM (''vless'', ''VLESS Reality'', link)))
      else if l_type line = LineTypeShadowsocks then
        bindM (lineManagedShadowsocksPassword (l_id line)) (\<lambda>clientKey.
        bindM (liftM (shadowsocks2022ShareCredentials ib clientKey)) (\<lambda>c.
          retM (''shadowsocks'', ''Shadowsocks'', buildShadowsocksShareLink line c)))
      else failM (Errorf ''share link for this line type is not ready yet''))"

definition GetLineShare :: "int \<Rightarrow> share_response W" where
  "GetLineShare lid =
     bindM (servable_runtime lid) (\<lambda>(rt, ib).
     bindM (share_link rt ib) (\<lambda>(protocol, label, link).
     bindM (tryM (GetLineClashSubscriptionShare lid)) (\<lambda>r.
       retM \<lparr>sr_protocol = protocol, sr_label = label, sr_uri = link,
             sr_clash = (case r of Inr s \<Rightarrow> Some s | Inl e \<Rightarrow> None),
             sr_clashError = (case r of Inr s \<Rightarrow> '''' | Inl e \<Rightarrow> err_text e)\<rparr>)))"

end
