(* ===== verification/DbFacts.thy ===== *)
theory DbFacts
  imports LineShare
begin

text \<open>
  What the statements and handlers of line management do to the database, under every pattern of
  failures: rules of the judgement \<open>keepsM\<close> for the statements, and the integrity of the tables.
\<close>

named_theorems stmts \<open>the preservation rules of the statements that write\<close>

lemma keeps_bind_time [stmts]:
  "preorderR R \<Longrightarrow> (\<And>now. keepsM (db_rel R) (f now)) \<Longrightarrow> keepsM (db_rel R) (bindM time_now f)"
  by (intro keeps)

lemma keeps_create_line [stmts]:
  "preorderR R \<Longrightarrow> (\<And>d l. R d (d\<lparr>d_lines := d_lines d @
       [line\<lparr>l_id := d_nextLine d, l_createdAt := l, l_updatedAt := l\<rparr>], d_nextLine := d_nextLine d + 1\<rparr>)) \<Longrightarrow>
     keepsM (db_rel R) (create_line line)"
  unfolding create_line_def by (intro keeps keeps_dbM) (auto simp: Let_def)

lemma keeps_model_line_updates [stmts]:
  "preorderR R \<Longrightarrow> (\<And>now d. R d (upd_lines (\<lambda>l. l_id l = l_id line) f now d)) \<Longrightarrow>
     keepsM (db_rel R) (model_line_updates line f)"
  unfolding model_line_updates_def by (intro keeps keeps_db_exec)

lemma keeps_lines_updates [stmts]:
  "preorderR R \<Longrightarrow> (\<And>now d. R d (upd_lines P f now d)) \<Longrightarrow> keepsM (db_rel R) (lines_updates P f)"
  unfolding lines_updates_def by (intro keeps keeps_dbM) auto

lemma keeps_create_outbound [stmts]:
  "preorderR R \<Longrightarrow> (\<And>d now. R d (d\<lparr>d_outbounds := d_outbounds d @
       [ob\<lparr>o_id := d_nextOutbound d, o_createdAt := now, o_updatedAt := now\<rparr>],
       d_nextOutbound := d_nextOutbound d + 1\<rparr>)) \<Longrightarrow> keepsM (db_rel R) (create_outbound ob)"
  unfolding create_outbound_def by (intro keeps keeps_db_exec)

lemma keeps_save_outbound [stmts]:
  "preorderR R \<Longrightarrow> (\<And>now d. R d (upd_outbounds (\<lambda>b. o_id b = o_id ob) (\<lambda>_. ob) now d)) \<Longrightarrow>
     keepsM (db_rel R) (save_outbound ob)"
  unfolding save_outbound_def by (intro keeps keeps_db_exec)

lemma keeps_model_outbound_update [stmts]:
  "preorderR R \<Longrightarrow> (\<And>now d. R d (upd_outbounds (\<lambda>b. o_id b = o_id ob) f now d)) \<Longrightarrow>
     keepsM (db_rel R) (model_outbound_update ob f)"
  unfolding model_outbound_update_def by (intro keeps keeps_db_exec)

lemma keeps_createLineLog [stmts]:
  "preorderR R \<Longrightarrow> (\<And>now d. R d (add_log lid act lev msg det now d)) \<Longrightarrow>
     keepsM (db_rel R) (createLineLog lid act lev msg det)"
  unfolding createLineLog_def by (intro keeps keeps_db_exec)

lemma keeps_create_check [stmts]:
  "preorderR R \<Longrightarrow> (\<And>d now. R d (d\<lparr>d_checks := d_checks d @
       [k\<lparr>k_id := d_nextCheck d, k_createdAt := now\<rparr>], d_nextCheck := d_nextCheck d + 1\<rparr>)) \<Longrightarrow>
     keepsM (db_rel R) (create_check k)"
  unfolding create_check_def by (intro keeps keeps_db_exec)

lemma keeps_create_inbound [stmts]:
  "preorderR R \<Longrightarrow> (\<And>d. find_inbound_tag (i_tag ib) d = None \<Longrightarrow>
       R d (d\<lparr>d_inbounds := d_inbounds d @ [ib\<lparr>i_id := d_nextInbound d\<rparr>], d_nextInbound := d_nextInbound d + 1\<rparr>)) \<Longrightarrow>
     keepsM (db_rel R) (create_inbound ib)"
  unfolding create_inbound_def by (intro keeps_dbM) (auto split: if_splits)

lemma keeps_update_inbound [stmts]:
  "preorderR R \<Longrightarrow> (\<And>d. \<not> (list_ex (\<lambda>i. i_id i \<noteq> iid \<and> i_tag i = i_tag ib) (d_inbounds d)
         \<and> list_ex (\<lambda>i. i_id i = iid) (d_inbounds d)) \<Longrightarrow>
       R d (d\<lparr>d_inbounds := update_where (\<lambda>i. i_id i = iid) (overwrite_inbound ib) (d_inbounds d)\<rparr>)) \<Longrightarrow>
     keepsM (db_rel R) (update_inbound iid ib)"
  unfolding update_inbound_def by (intro keeps_dbM) (auto split: if_splits)

lemma keeps_disable_inbound_tag [stmts]:
  "preorderR R \<Longrightarrow> (\<And>d. R d (d\<lparr>d_inbounds := update_where (\<lambda>i. i_tag i = tag) (\<lambda>i. i\<lparr>i_enable := False\<rparr>) (d_inbounds d)\<rparr>)) \<Longrightarrow>
     keepsM (db_rel R) (disable_inbound_tag tag)"
  unfolding disable_inbound_tag_def by (intro keeps_db_exec)

lemma keeps_delete_inbound_tag [stmts]:
  "preorderR R \<Longrightarrow> (\<And>d. R d (d\<lparr>d_inbounds := delete_where (\<lambda>i. i_tag i = tag) (d_inbounds d)\<rparr>)) \<Longrightarrow>
     keepsM (db_rel R) (delete_inbound_tag tag)"
  unfolding delete_inbound_tag_def by (intro keeps_db_exec)

lemma keeps_create_client [stmts]:
  "preorderR R \<Longrightarrow> (\<And>d now. find_client (c_email c) d = None \<Longrightarrow>
       R d (d\<lparr>d_clients := d_clients d @ [stamp_client now (c\<lparr>c_id := d_nextClient d\<rparr>)], d_nextClient := d_nextClient d + 1\<rparr>)) \<Longrightarrow>
     keepsM (db_rel R) (create_client c)"
  unfolding create_client_def by (intro keeps keeps_dbM) (auto split: if_splits)

lemma keeps_update_client [stmts]:
  "preorderR R \<Longrightarrow> (\<And>d now. R d (d\<lparr>d_clients := update_where (\<lambda>c. c_id c = cid) (\<lambda>c. (f c)\<lparr>c_updatedAt := now\<rparr>) (d_clients d)\<rparr>)) \<Longrightarrow>
     keepsM (db_rel R) (update_client cid f)"
  unfolding update_client_def by (intro keeps keeps_db_exec)

lemma keeps_link_client [stmts]:
  "preorderR R \<Longrightarrow> (\<And>d xs. R d (d\<lparr>d_clientInbounds := xs\<rparr>)) \<Longrightarrow> keepsM (db_rel R) (link_client cid iid fl)"
  unfolding link_client_def by (intro keeps keeps_db_exec)

lemma keeps_create_setting [stmts]:
  "preorderR R \<Longrightarrow> (\<And>d. R d (d\<lparr>d_settings := d_settings d @ [\<lparr>st_id = d_nextSetting d, st_key = key, st_value = v\<rparr>],
       d_nextSetting := d_nextSetting d + 1\<rparr>)) \<Longrightarrow> keepsM (db_rel R) (create_setting key v)"
  unfolding create_setting_def by (intro keeps_db_exec)

lemma keeps_update_setting [stmts]:
  "preorderR R \<Longrightarrow> (\<And>d. R d (d\<lparr>d_settings := update_where (\<lambda>r. st_id r = sid) (\<lambda>r. r\<lparr>st_value := v\<rparr>) (d_settings d)\<rparr>)) \<Longrightarrow>
     keepsM (db_rel R) (update_setting sid v)"
  unfolding update_setting_def by (intro keeps_db_exec)

lemma keeps_delete_client_links [stmts]:
  "preorderR R \<Longrightarrow> (\<And>d xs. R d (d\<lparr>d_clientInbounds := xs\<rparr>)) \<Longrightarrow> keepsM (db_rel R) (delete_client_links cid)"
  unfolding delete_client_links_def by (intro keeps_db_exec)

lemma keeps_delete_client [stmts]:
  "preorderR R \<Longrightarrow> (\<And>d. R d (d\<lparr>d_clients := delete_where (\<lambda>c. c_id c = cid) (d_clients d)\<rparr>)) \<Longrightarrow>
     keepsM (db_rel R) (delete_client cid)"
  unfolding delete_client_def by (intro keeps_db_exec)

lemma keeps_create_sub [stmts]:
  "preorderR R \<Longrightarrow> (\<And>d now. find_sub (s_lineId sub) d = None \<Longrightarrow> find_sub_token (s_tokenHash sub) d = None \<Longrightarrow>
       R d (d\<lparr>d_subs := d_subs d @ [sub\<lparr>s_id := d_nextSub d, s_createdAt := now, s_updatedAt := now\<rparr>],
              d_nextSub := d_nextSub d + 1\<rparr>)) \<Longrightarrow>
     keepsM (db_rel R) (create_sub sub)"
  unfolding create_sub_def by (intro keeps keeps_dbM) (auto simp: Let_def split: if_splits)

lemma keeps_update_sub [stmts]:
  "preorderR R \<Longrightarrow> (\<And>d now. \<not> (list_ex (\<lambda>s. s_id s \<noteq> sid \<and> s_tokenHash s = h) (d_subs d)
         \<and> list_ex (\<lambda>s. s_id s = sid) (d_subs d)) \<Longrightarrow>
       R d (d\<lparr>d_subs := update_where (\<lambda>s. s_id s = sid) (rotate_sub h ct r now) (d_subs d)\<rparr>)) \<Longrightarrow>
     keepsM (db_rel R) (update_sub sid h ct r)"
  unfolding update_sub_def by (intro keeps keeps_dbM) (auto split: if_splits)

text \<open>The handlers that only read.\<close>

lemma keeps_getSetting [keeps]: "preorderR R \<Longrightarrow> keepsM (db_rel R) (getSetting k)"
  unfolding getSetting_def by (rule keeps_db_get)

lemma keeps_first_line [keeps]: "preorderR R \<Longrightarrow> keepsM (db_rel R) (first_line i)"
  unfolding first_line_def by (rule keeps_db_get)

lemma keeps_first_outbound [keeps]: "preorderR R \<Longrightarrow> keepsM (db_rel R) (first_outbound i)"
  unfolding first_outbound_def by (rule keeps_db_get)

lemma keeps_first_inbound [keeps]: "preorderR R \<Longrightarrow> keepsM (db_rel R) (first_inbound i)"
  unfolding first_inbound_def by (rule keeps_db_get)

lemma keeps_first_inbound_tag [keeps]: "preorderR R \<Longrightarrow> keepsM (db_rel R) (first_inbound_tag i)"
  unfolding first_inbound_tag_def by (rule keeps_db_get)

lemma keeps_first_client [keeps]: "preorderR R \<Longrightarrow> keepsM (db_rel R) (first_client i)"
  unfolding first_client_def by (rule keeps_db_get)

lemma keeps_optional [keeps]: "preorderR R \<Longrightarrow> keepsM (db_rel R) m \<Longrightarrow> keepsM (db_rel R) (optional m)"
  unfolding optional_def by (intro keeps)

lemma keeps_find_existing [keeps]: "preorderR R \<Longrightarrow> keepsM (db_rel R) (find_existing_inbound l)"
  unfolding find_existing_inbound_def by (intro keeps)

lemma keeps_count_conflicts [keeps]: "preorderR R \<Longrightarrow> keepsM (db_rel R) (count_port_conflicts p i)"
  unfolding count_port_conflicts_def by (rule keeps_db_query)

lemma keeps_take_clientId [keeps]: "preorderR R \<Longrightarrow> keepsM (db_rel R) (take_clientId c)"
  unfolding take_clientId_def by (intro keeps)

lemma keeps_build_inbounds [keeps]:
  "preorderR R \<Longrightarrow> keepsM (db_rel R) (buildCloudflareInbound l t p ws c)"
  "preorderR R \<Longrightarrow> keepsM (db_rel R) (buildRealityInbound l t c)"
  "preorderR R \<Longrightarrow> keepsM (db_rel R) (buildShadowsocksInbound l t sk ck)"
  subgoal unfolding buildCloudflareInbound_def Let_def by (intro keeps)
  subgoal unfolding buildRealityInbound_def Let_def by (intro keeps)
  subgoal unfolding buildShadowsocksInbound_def Let_def by (intro keeps)
  done

lemma keeps_runRealityPreflight [keeps]: "preorderR R \<Longrightarrow> keepsM (db_rel R) (runRealityPreflight l b c)"
  unfolding runRealityPreflight_def free_port_def buildRealityPreflightConfig_def by (intro keeps)

lemma keeps_try_targets [keeps]: "preorderR R \<Longrightarrow> keepsM (db_rel R) (try_targets l b c rs fs)"
proof (induction rs arbitrary: fs)
  case Nil
  then show ?case unfolding try_targets.simps by (intro keeps)
next
  case (Cons r rs)
  then show ?case unfolding try_targets.simps Let_def by (intro keeps) auto
qed

lemma keeps_prepareRealityApply [keeps]: "preorderR R \<Longrightarrow> keepsM (db_rel R) (prepareRealityApply i)"
  unfolding prepareRealityApply_def Let_def by (intro keeps) (auto intro: keeps split: list.splits)

lemma keeps_runCommand [keeps]: "preorderR R \<Longrightarrow> keepsM (db_rel R) (runCommandOutput c)"
  unfolding runCommandOutput_def by (rule keeps_askM)

lemma keeps_os_mkdirAll [keeps]: "preorderR R \<Longrightarrow> keepsM (db_rel R) (os_mkdirAll p)"
  unfolding os_mkdirAll_def by (rule keeps_fsM)

lemma keeps_os_apply [keeps]: "preorderR R \<Longrightarrow> keepsM (db_rel R) (applyNginxConfig p b osNginxExecutor)"
  by (rule keeps_applyNginxConfig) (rule os_executor_keeps)

lemma keeps_prepareBunnyApply [keeps]: "preorderR R \<Longrightarrow> keepsM (db_rel R) (prepareBunnyApply i)"
  unfolding prepareBunnyApply_def ensureBunnyCertificate_def ensureBunnyACMEConfig_def
    ensureBunnyOriginResolvesHere_def ensureCertbotDeployHook_def Let_def
  by (intro keeps)

lemma keeps_restoreRemovedOs [keeps]:
  "preorderR R \<Longrightarrow> keepsM (db_rel R) (restoreRemovedLineNginxConfig b osNginxExecutor)"
  by (rule keeps_restoreRemoved) (rule os_executor_keeps)

end
