(* ===== verification/Samples.thy ===== *)
theory Samples
  imports PanelState
begin

text \<open>
  Concrete values for the witnesses: an environment on Linux in which nothing fails, an empty
  database and rows to put into it.
\<close>

definition sample_env :: env where
  "sample_env =
     \<lparr>e_clock = (\<lambda>t. 1000), e_clockMs = (\<lambda>t. 1000000), e_fault = (\<lambda>t. None),
      e_uuid = (\<lambda>t. ''u1''), e_uuidOk = (\<lambda>s. s = ''u1''), e_rand = (\<lambda>t. Some (\<lambda>i. i)),
      e_x25519 = (\<lambda>t. Inr (replicate 32 1, replicate 32 2)), e_mapOrder = (\<lambda>t ks. ks),
      e_goos = ''linux'', e_fsFault = (\<lambda>t. None), e_fsTorn = (\<lambda>t. None),
      e_cmd = (\<lambda>t c. ('''', None)), e_dial = (\<lambda>t a. None), e_template = ''{}'', e_basePath = ''/'',
      e_scan = (\<lambda>t. Inr []), e_freePort = (\<lambda>t. Inr 40000), e_realityProbe = (\<lambda>t c. None),
      e_lookupIP = (\<lambda>t h. Inr []), e_localIPv4 = (\<lambda>t. Inr []), e_lookPath = (\<lambda>t p. True),
      e_certFiles = (\<lambda>t a b c. None), e_outboundTest = (\<lambda>t o'. Inr 5),
      e_speed = (\<lambda>t l. \<lparr>v_inUp = 0, v_inDown = 0, v_outUp = 0, v_outDown = 0\<rparr>),
      e_secret = ''s'', e_sha256 = (\<lambda>b. b), e_seal = (\<lambda>k n p. p), e_open = (\<lambda>k n c. Inr c),
      e_yaml = (\<lambda>v. Inr (json_marshal v)),
      e_xrayRunning = (\<lambda>t. False), e_xrayApi = (\<lambda>t c. None), e_nodePush = (\<lambda>t a b. None),
      e_logFolder = ''/var/log/x-ui'', e_panelGuid = ''g1'', e_coreAccepts = (\<lambda>t ob. True)\<rparr>"

definition sample_line :: line_profile where
  "sample_line =
     \<lparr>l_id = 1, l_userId = 1, l_name = ''L'', l_type = ''shadowsocks_direct'', l_status = ''pending_apply'',
      l_inboundId = None, l_outboundTag = ''line-1-out'', l_entryHost = ''h.example'', l_entryPort = 8388,
      l_chainText = '''', l_validFrom = 0, l_validUntil = 0, l_expiredAt = 0, l_manual = False,
      l_configJSON = ''{}'', l_lastCheckAt = 0, l_lastInLatency = 0, l_lastOutLatency = 0,
      l_lastError = '''', l_createdAt = 0, l_updatedAt = 0\<rparr>"

definition sample_outbound :: line_outbound where
  "sample_outbound =
     \<lparr>o_id = 1, o_lineId = 1, o_type = ''socks5'', o_host = ''1.2.3.4'', o_port = 1080, o_username = '''',
      o_password = '''', o_tag = ''line-1-out'', o_enabled = True, o_createdAt = 0, o_updatedAt = 0\<rparr>"

definition empty_db :: db where
  "empty_db =
     \<lparr>d_lines = [], d_nextLine = 1, d_outbounds = [], d_nextOutbound = 1, d_logs = [], d_nextLog = 1,
      d_checks = [], d_nextCheck = 1, d_subs = [], d_nextSub = 1, d_inbounds = [], d_nextInbound = 1,
      d_clients = [], d_nextClient = 1, d_clientInbounds = [], d_settings = [], d_nextSetting = 1,
      d_outboundTraffics = [], d_traffics = [], d_nextTraffic = 1, d_globals = [],
      d_nodeTraffics = [], d_groups = [], d_nextGroup = 1, d_nextOutboundTraffic = 1,
      d_fallbacks = [], d_nextFallback = 1, d_outboundSubs = [], d_nodes = []\<rparr>"

definition sample_db :: db where
  "sample_db = empty_db\<lparr>d_lines := [sample_line], d_nextLine := 2,
                        d_outbounds := [sample_outbound], d_nextOutbound := 2\<rparr>"

definition sample_world :: world where
  "sample_world = \<lparr>w_db = sample_db, w_fs = (\<lambda>p. None), w_env = sample_env, w_tick = 0\<rparr>"

text \<open>The sample world with another line in place of the sample line.\<close>

definition world_with :: "line_profile \<Rightarrow> world" where
  "world_with l = sample_world\<lparr>w_db := sample_db\<lparr>d_lines := [l]\<rparr>\<rparr>"

end
