(* ===== verification/Integrity.thy ===== *)
theory Integrity
  imports DbFacts Samples
begin

text \<open>
  The integrity of the database under every operation of line management and every pattern of
  failures.  \<open>db_ok\<close> is the invariant of the tables; \<open>evolves X\<close> is how a statement may change them:
  the invariant is kept, line keys are never reused, and a line that has to be re-enabled by hand stays
  so unless its key is in \<open>X\<close> (the lines renewed).  \<open>panel_run\<close> is a sequence of operations, in any
  order and with any interleaved changes of the files and of the time.
\<close>

section \<open>The invariant\<close>

text \<open>A line whose status says that its period is over needs a manual renewal.\<close>

definition line_ok :: "line_profile \<Rightarrow> bool" where
  "line_ok l \<longleftrightarrow> (l_status l \<in> {st_expiring, st_expired, st_expiry_failed} \<longrightarrow> l_manual l)"

definition db_ok :: "db \<Rightarrow> bool" where
  "db_ok d \<longleftrightarrow>
     ids_ok l_id (d_nextLine d) (d_lines d) \<and> list_all line_ok (d_lines d)
     \<and> ids_ok o_id (d_nextOutbound d) (d_outbounds d) \<and> ids_ok g_id (d_nextLog d) (d_logs d)
     \<and> ids_ok k_id (d_nextCheck d) (d_checks d) \<and> ids_ok s_id (d_nextSub d) (d_subs d)
     \<and> distinct (List.map s_lineId (d_subs d)) \<and> distinct (List.map s_tokenHash (d_subs d))
     \<and> ids_ok i_id (d_nextInbound d) (d_inbounds d) \<and> distinct (List.map i_tag (d_inbounds d))
     \<and> ids_ok c_id (d_nextClient d) (d_clients d) \<and> distinct (List.map c_email (d_clients d))
     \<and> ids_ok st_id (d_nextSetting d) (d_settings d)
     \<and> ids_ok t_id (d_nextTraffic d) (d_traffics d) \<and> distinct (List.map t_email (d_traffics d))"

text \<open>The line with this key, if there is one, waits for a manual renewal.\<close>

definition ended :: "int \<Rightarrow> db \<Rightarrow> bool" where
  "ended lid d \<longleftrightarrow> (\<forall>l \<in> set (d_lines d). l_id l = lid \<longrightarrow> l_manual l)"

definition evolves :: "int set \<Rightarrow> db \<Rightarrow> db \<Rightarrow> bool" where
  "evolves X d d' \<longleftrightarrow>
     (db_ok d \<longrightarrow> db_ok d' \<and> d_nextLine d \<le> d_nextLine d'
        \<and> (\<forall>lid. lid < d_nextLine d \<longrightarrow> lid \<notin> X \<longrightarrow> ended lid d \<longrightarrow> ended lid d'))"

lemma preorder_evolves [simp, keeps]: "preorderR (evolves X)"
  unfolding preorderR_def reflp_def transp_def evolves_def by (meson order_trans order_less_le_trans order_refl)

lemma evolves_mono: "evolves X d d' \<Longrightarrow> X \<subseteq> Y \<Longrightarrow> evolves Y d d'"
  by (auto simp: evolves_def)

section \<open>Statements on lines\<close>

lemma ids_ok_append: "ids_ok rid nx rows \<Longrightarrow> rid r = nx \<Longrightarrow> ids_ok rid (nx + 1) (rows @ [r])"
  by (auto simp: ids_ok_def sorted_wrt_append)

lemma evolves_upd_lines:
  assumes "\<And>l. l_id (f l) = l_id l" "\<And>l. line_ok l \<Longrightarrow> line_ok (f l)"
    "\<And>l. P l \<Longrightarrow> l_manual l \<Longrightarrow> l_id l \<notin> X \<Longrightarrow> l_manual (f l)"
  shows "evolves X d (upd_lines P f now d)"
proof -
  let ?g = "\<lambda>l. (f l)\<lparr>l_updatedAt := now\<rparr>"
  have "ids_ok l_id (d_nextLine d) (update_where P ?g (d_lines d))" if "ids_ok l_id (d_nextLine d) (d_lines d)"
    using that by (rule lines_tbl.ids_ok_update) (simp add: assms(1))
  moreover have "list_all line_ok (update_where P ?g (d_lines d))" if "list_all line_ok (d_lines d)"
    using that assms(2) by (auto simp: list_all_iff in_update_where line_ok_def split: if_splits)
  moreover have "ended lid (upd_lines P f now d)" if "ended lid d" "lid \<notin> X" for lid
    using that assms(1, 3) by (auto simp: ended_def upd_lines_def in_update_where split: if_splits)
  ultimately show ?thesis by (simp add: evolves_def db_ok_def) (simp add: upd_lines_def)
qed

lemma evolves_create_line:
  assumes "line_ok line"
  shows "evolves X d (d\<lparr>d_lines := d_lines d @ [line\<lparr>l_id := d_nextLine d, l_createdAt := a, l_updatedAt := b\<rparr>],
                       d_nextLine := d_nextLine d + 1\<rparr>)"
  using assms by (auto simp: evolves_def db_ok_def ended_def list_all_iff line_ok_def ids_ok_append)

lemma evolves_delete_lines: "evolves X d (d\<lparr>d_lines := delete_where P (d_lines d)\<rparr>)"
  using lines_tbl.ids_ok_delete by (auto simp: evolves_def db_ok_def ended_def list_all_iff)

section \<open>Statements on the other tables\<close>

lemma ended_cong: "d_lines d' = d_lines d \<Longrightarrow> ended lid d' = ended lid d"
  by (simp add: ended_def)

lemma evolvesI:
  "(db_ok d \<Longrightarrow> db_ok d') \<Longrightarrow> d_lines d' = d_lines d \<Longrightarrow> d_nextLine d' = d_nextLine d \<Longrightarrow> evolves X d d'"
  by (simp add: evolves_def ended_def)

lemma evolves_outbounds:
  "evolves X d (d\<lparr>d_outbounds := d_outbounds d @ [ob\<lparr>o_id := d_nextOutbound d, o_createdAt := a, o_updatedAt := b\<rparr>],
                 d_nextOutbound := d_nextOutbound d + 1\<rparr>)"
  "(\<And>b. o_id b = k \<Longrightarrow> o_id (f b) = k) \<Longrightarrow> evolves X d (upd_outbounds (\<lambda>b. o_id b = k) f now d)"
  "evolves X d (d\<lparr>d_outbounds := delete_where P (d_outbounds d)\<rparr>)"
proof -
  show "evolves X d (d\<lparr>d_outbounds := d_outbounds d @ [ob\<lparr>o_id := d_nextOutbound d, o_createdAt := a, o_updatedAt := b\<rparr>],
                 d_nextOutbound := d_nextOutbound d + 1\<rparr>)"
    by (intro evolvesI) (auto simp: db_ok_def ids_ok_append)
next
  assume f: "\<And>b. o_id b = k \<Longrightarrow> o_id (f b) = k"
  let ?g = "\<lambda>b. (if o_id b = k then (f b)\<lparr>o_updatedAt := now\<rparr> else b)"
  have "update_where (\<lambda>b. o_id b = k) (\<lambda>b. (f b)\<lparr>o_updatedAt := now\<rparr>) = update_where (\<lambda>_. True) ?g"
    by (auto simp: update_where_def fun_eq_iff)
  moreover have "ids_ok o_id n rows \<Longrightarrow> ids_ok o_id n (update_where (\<lambda>_. True) ?g rows)" for n rows
    by (rule outbounds_tbl.ids_ok_update) (auto simp: f)
  ultimately show "evolves X d (upd_outbounds (\<lambda>b. o_id b = k) f now d)"
    by (intro evolvesI) (auto simp: db_ok_def upd_outbounds_def)
next
  show "evolves X d (d\<lparr>d_outbounds := delete_where P (d_outbounds d)\<rparr>)"
    by (intro evolvesI) (auto simp: db_ok_def outbounds_tbl.ids_ok_delete)
qed

lemma evolves_logs:
  "evolves X d (add_log lid act lev msg det now d)"
  "evolves X d (d\<lparr>d_logs := delete_where Q (d_logs d)\<rparr>)"
  by (auto intro!: evolvesI simp: db_ok_def add_log_def logs_tbl.ids_ok_delete ids_ok_append)

lemma evolves_checks:
  "evolves X d (d\<lparr>d_checks := d_checks d @ [k\<lparr>k_id := d_nextCheck d, k_createdAt := now\<rparr>],
                 d_nextCheck := d_nextCheck d + 1\<rparr>)"
  "evolves X d (d\<lparr>d_checks := delete_where P (d_checks d)\<rparr>)"
  by (auto intro!: evolvesI simp: db_ok_def checks_tbl.ids_ok_delete ids_ok_append)

lemma evolves_links: "evolves X d (d\<lparr>d_clientInbounds := xs\<rparr>)"
  by (auto intro!: evolvesI simp: db_ok_def)

lemma distinct_delete_where: "distinct (List.map g rows) \<Longrightarrow> distinct (List.map g (delete_where P rows))"
  by (induction rows) (auto simp: delete_where_def)

lemma find_none_key: "find (\<lambda>r. g r = k) rows = None \<longleftrightarrow> k \<notin> g ` set rows"
  by (auto simp: find_None_iff)

lemma find_sub_none: "find_sub k d = None \<longleftrightarrow> k \<notin> s_lineId ` set (d_subs d)"
  by (simp add: find_sub_def find_none_key)

lemma find_sub_token_none: "find_sub_token k d = None \<longleftrightarrow> k \<notin> s_tokenHash ` set (d_subs d)"
  by (simp add: find_sub_token_def find_none_key)

lemma rotate_sub_keeps [simp]:
  "s_id (rotate_sub h ct r now s) = s_id s" "s_lineId (rotate_sub h ct r now s) = s_lineId s"
  "s_tokenHash (rotate_sub h ct r now s) = h"
  by (simp_all add: rotate_sub_def)

lemma distinct_update_key:
  assumes "distinct (List.map g rows)" "ids_ok rid nx rows" "\<And>r. g (f r) = h"
    "\<And>r q. r \<in> set rows \<Longrightarrow> q \<in> set rows \<Longrightarrow> rid r = rid q \<Longrightarrow> r = q"
    "\<not> (list_ex (\<lambda>i. rid i \<noteq> k \<and> g i = h) rows \<and> list_ex (\<lambda>i. rid i = k) rows)"
  shows "distinct (List.map g (update_where (\<lambda>i. rid i = k) f rows))"
proof -
  have inj: "inj_on g (set rows)" and d: "distinct rows"
    using assms(1) by (auto simp: distinct_map)
  let ?t = "\<lambda>r. g (if rid r = k then f r else r)"
  have "inj_on ?t (set rows)"
  proof (rule inj_onI)
    fix r q assume rq: "r \<in> set rows" "q \<in> set rows" "?t r = ?t q"
    show "r = q"
    proof (cases "rid r = rid q")
      case True
      then show ?thesis using assms(4) rq by blast
    next
      case False
      then show ?thesis using rq assms(3, 5) inj by (auto simp: list_ex_iff inj_on_def split: if_splits)
    qed
  qed
  with d show ?thesis by (simp add: update_where_def distinct_map comp_def)
qed

lemma evolves_subs:
  "evolves X d (d\<lparr>d_subs := delete_where P (d_subs d)\<rparr>)"
  "find_sub (s_lineId sub) d = None \<Longrightarrow> find_sub_token (s_tokenHash sub) d = None \<Longrightarrow>
     evolves X d (d\<lparr>d_subs := d_subs d @ [sub\<lparr>s_id := d_nextSub d, s_createdAt := now, s_updatedAt := now\<rparr>],
              d_nextSub := d_nextSub d + 1\<rparr>)"
  by (auto intro!: evolvesI
      simp: db_ok_def subs_tbl.ids_ok_delete distinct_delete_where find_sub_none find_sub_token_none ids_ok_append)

lemma evolves_rotate_sub:
  "\<not> (list_ex (\<lambda>s. s_id s \<noteq> sid \<and> s_tokenHash s = h) (d_subs d) \<and> list_ex (\<lambda>s. s_id s = sid) (d_subs d)) \<Longrightarrow>
     evolves X d (d\<lparr>d_subs := update_where (\<lambda>s. s_id s = sid) (rotate_sub h ct r now) (d_subs d)\<rparr>)"
  by (intro evolvesI)
     (auto simp: db_ok_def subs_tbl.ids_ok_update map_update_where dest: subs_tbl.ids_unique
           intro!: distinct_update_key [where rid = s_id and h = h])

lemma evolves_create_inbound:
  "find_inbound_tag (i_tag ib) d = None \<Longrightarrow>
     evolves X d (d\<lparr>d_inbounds := d_inbounds d @ [ib\<lparr>i_id := d_nextInbound d\<rparr>], d_nextInbound := d_nextInbound d + 1\<rparr>)"
  by (intro evolvesI) (auto simp: db_ok_def find_inbound_tag_def find_none_key ids_ok_append)

lemma evolves_disable_inbound:
  "evolves X d (d\<lparr>d_inbounds := update_where P (\<lambda>i. i\<lparr>i_enable := False\<rparr>) (d_inbounds d)\<rparr>)"
  by (intro evolvesI) (auto simp: db_ok_def inbounds_tbl.ids_ok_update map_update_where)

lemma evolves_delete_inbound: "evolves X d (d\<lparr>d_inbounds := delete_where P (d_inbounds d)\<rparr>)"
  by (intro evolvesI) (auto simp: db_ok_def inbounds_tbl.ids_ok_delete distinct_delete_where)

lemma distinct_overwrite:
  assumes "distinct (List.map i_tag rows)" "ids_ok i_id nx rows"
    "\<not> (list_ex (\<lambda>i. i_id i \<noteq> iid \<and> i_tag i = i_tag ib) rows \<and> list_ex (\<lambda>i. i_id i = iid) rows)"
  shows "distinct (List.map i_tag (update_where (\<lambda>i. i_id i = iid) (overwrite_inbound ib) rows))"
  using assms by (intro distinct_update_key [where h = "i_tag ib"])
    (auto simp: overwrite_inbound_def dest: inbounds_tbl.ids_unique)

lemma evolves_update_inbound:
  "\<not> (list_ex (\<lambda>i. i_id i \<noteq> iid \<and> i_tag i = i_tag ib) (d_inbounds d) \<and> list_ex (\<lambda>i. i_id i = iid) (d_inbounds d)) \<Longrightarrow>
     evolves X d (d\<lparr>d_inbounds := update_where (\<lambda>i. i_id i = iid) (overwrite_inbound ib) (d_inbounds d)\<rparr>)"
  by (intro evolvesI)
     (auto simp: db_ok_def intro!: inbounds_tbl.ids_ok_update distinct_overwrite, simp_all add: overwrite_inbound_def)

lemma evolves_create_client:
  "find_client (c_email c) d = None \<Longrightarrow>
     evolves X d (d\<lparr>d_clients := d_clients d @ [stamp_client now (c\<lparr>c_id := d_nextClient d\<rparr>)], d_nextClient := d_nextClient d + 1\<rparr>)"
  by (intro evolvesI) (auto simp: db_ok_def find_client_def find_none_key ids_ok_append)

lemma evolves_update_client:
  "(\<And>c. c_id (f c) = c_id c) \<Longrightarrow> (\<And>c. c_email (f c) = c_email c) \<Longrightarrow>
     evolves X d (d\<lparr>d_clients := update_where (\<lambda>c. c_id c = cid) (\<lambda>c. (f c)\<lparr>c_updatedAt := now\<rparr>) (d_clients d)\<rparr>)"
  by (intro evolvesI) (auto simp: db_ok_def clients_tbl.ids_ok_update map_update_where)

lemma evolves_delete_client: "evolves X d (d\<lparr>d_clients := delete_where P (d_clients d)\<rparr>)"
  by (intro evolvesI) (auto simp: db_ok_def clients_tbl.ids_ok_delete distinct_delete_where)

lemma evolves_settings:
  "evolves X d (d\<lparr>d_settings := d_settings d @ [\<lparr>st_id = d_nextSetting d, st_key = key, st_value = v\<rparr>],
                 d_nextSetting := d_nextSetting d + 1\<rparr>)"
  "evolves X d (d\<lparr>d_settings := update_where (\<lambda>r. st_id r = sid) (\<lambda>r. r\<lparr>st_value := v\<rparr>) (d_settings d)\<rparr>)"
  by (auto intro!: evolvesI simp: db_ok_def settings_tbl.ids_ok_update ids_ok_append)

end
