(* ===== verification/Handlers.thy ===== *)
theory Handlers
  imports Integrity
begin

text \<open>
  Every handler keeps the database evolving: one lemma per handler, from the rules of the statements.
\<close>

named_theorems evol \<open>how the statements change the tables\<close>

lemmas [evol] = evolves_upd_lines evolves_create_line evolves_delete_lines evolves_outbounds evolves_logs
  evolves_checks evolves_subs evolves_rotate_sub evolves_links evolves_create_inbound evolves_disable_inbound
  evolves_delete_inbound evolves_update_inbound evolves_create_client evolves_update_client
  evolves_delete_client evolves_settings

abbreviation safeM :: "int set \<Rightarrow> 'a W \<Rightarrow> bool" where
  "safeM X m \<equiv> keepsM (db_rel (evolves X)) m"

section \<open>Template and clients\<close>

lemma safe_getXrayTemplateConfigTx [keeps]: "safeM X getXrayTemplateConfigTx"
  unfolding getXrayTemplateConfigTx_def by (intro keeps stmts evol)

lemma safe_write_template [keeps]: "safeM X (write_template cfg)"
  unfolding write_template_def by (intro keeps stmts evol)

lemma safe_upsert_template [keeps]: "safeM X (upsertLineOutboundInTemplate a b ob)"
  unfolding upsertLineOutboundInTemplate_def by (intro keeps)

lemma safe_remove_template [keeps]: "safeM X (removeLineTemplateArtifacts a b)"
  unfolding removeLineTemplateArtifacts_def by (intro keeps stmts evol)

lemma safe_upsert_client [keeps]: "safeM X (upsertLineManagedClient line iid config)"
  unfolding upsertLineManagedClient_def by (intro keeps stmts evol) auto

lemma safe_ensure_ss_client [keeps]: "safeM X (ensureLineManagedShadowsocksClient line)"
  unfolding ensureLineManagedShadowsocksClient_def by (intro keeps stmts evol) auto

lemma safe_attach_client [keeps]: "safeM X (attachLineManagedClient line iid)"
  unfolding attachLineManagedClient_def by (intro keeps stmts evol)

lemma safe_remove_client [keeps]: "safeM X (removeLineManagedClient lid)"
  unfolding removeLineManagedClient_def delete_client_links_def delete_client_def
  by (intro keeps keeps_db_exec evol)

section \<open>Writing the inbound\<close>

lemma safe_save_inbound [keeps]: "safeM X (save_inbound ex ib)"
  unfolding save_inbound_def by (intro keeps stmts evol)

lemma safe_finish_xray [keeps]: "safeM X (finish_xray line ob iid cj)"
  unfolding finish_xray_def by (intro keeps stmts evol) (auto simp: line_ok_def)

lemma safe_applyCloudflareXray [keeps]: "safeM X (applyCloudflareXray line ob config)"
  unfolding applyCloudflareXray_def require_outbound_def Let_def by (intro keeps)

lemma safe_applyRealityXray [keeps]: "safeM X (applyRealityXray line ob config)"
  unfolding applyRealityXray_def require_outbound_def Let_def by (intro keeps)

lemma safe_applyShadowsocksXray [keeps]: "safeM X (applyShadowsocksXray line ob)"
  unfolding applyShadowsocksXray_def require_outbound_def Let_def by (intro keeps)

lemma safe_applyLineXray [keeps]: "safeM X (applyLineXray line ob config)"
  unfolding applyLineXray_def by (intro keeps)

section \<open>The handlers of lines\<close>

lemma line_ok_update_status:
  "s \<notin> {st_expiring, st_expired, st_expiry_failed} \<Longrightarrow> line_ok (l\<lparr>l_status := s\<rparr>)"
  by (simp add: line_ok_def)

lemma initial_status_open: "lineInitialStatus f now \<notin> {st_expiring, st_expired, st_expiry_failed}"
  by (simp add: lineInitialStatus_def)

lemma check_status_open: "check_status w f \<notin> {st_expiring, st_expired, st_expiry_failed}"
  by (simp add: check_status_def)

lemma safe_getLine [keeps]: "safeM X (getLine lid b)"
  unfolding getLine_def Let_def by (intro keeps stmts evol) (auto simp: line_ok_def)

lemma safe_GetLine [keeps]: "safeM X (GetLine lid)"
  unfolding GetLine_def by (rule safe_getLine)

lemma safe_CreateLine [keeps]: "safeM X (CreateLine req)"
  unfolding CreateLine_def Let_def
  by (intro keeps stmts evol) (use initial_status_open in \<open>auto simp: line_ok_def new_line_def\<close>)

lemma safe_UpdateLine [keeps]: "safeM X (UpdateLine lid req)"
  unfolding UpdateLine_def updated_validity_def Let_def
  by (intro keeps stmts evol)
     (use initial_status_open in \<open>auto simp: line_ok_def updated_line_def updated_outbound_def\<close>)

lemma safe_recordLineApplyFailure [keeps]: "safeM X (recordLineApplyFailure lid e)"
  unfolding recordLineApplyFailure_def by (intro keeps stmts evol) (auto simp: line_ok_def)

lemma safe_finishLineApplyError [keeps]: "safeM X (finishLineApplyError lid e)"
  unfolding finishLineApplyError_def by (intro keeps)

lemma safe_apply_nginx_part [keeps]: "safeM X (apply_nginx_part line config)"
  unfolding apply_nginx_part_def by (intro keeps stmts evol)

lemma safe_apply_config [keeps]: "safeM X (apply_config rp bp line)"
  unfolding apply_config_def Let_def by (intro keeps)

lemma safe_applyLineTx [keeps]: "safeM X (applyLineTx lid rp bp)"
  unfolding applyLineTx_def by (intro keeps stmts evol) (auto simp: line_ok_def)

lemma safe_ApplyLine [keeps]: "safeM X (ApplyLine lid)"
  unfolding ApplyLine_def by (intro keeps)

section \<open>Deleting and ending\<close>

lemma safe_deleteLineTx [keeps]: "safeM X (deleteLineTx line)"
  unfolding deleteLineTx_def delete_checks_def delete_logs_def delete_subs_def delete_outbounds_def
    delete_line_def Let_def
  by (intro keeps stmts keeps_db_exec evol)

lemma safe_DeleteLine [keeps]: "safeM X (DeleteLine lid)"
  unfolding DeleteLine_def os_removeAll_def Let_def by (intro keeps keeps_fsM)

lemma safe_delete_lines [keeps]: "safeM X (delete_lines seen ids)"
proof (induction ids arbitrary: seen)
  case Nil
  show ?case unfolding delete_lines.simps by (intro keeps)
next
  case (Cons lid ids)
  show ?case unfolding delete_lines.simps by (intro keeps Cons.IH)
qed

lemma safe_DeleteLines [keeps]: "safeM X (DeleteLines ids)"
  unfolding DeleteLines_def by (rule safe_delete_lines)

lemma safe_recordLineExpiryFailure [keeps]: "safeM X (recordLineExpiryFailure lid e)"
  unfolding recordLineExpiryFailure_def by (intro keeps stmts evol) (auto simp: line_ok_def)

lemma safe_expire_cleanup [keeps]: "safeM X (expire_cleanup line now)"
  unfolding expire_cleanup_def expiry_failed_def expireLineTx_def Let_def
  by (intro keeps stmts evol) (auto simp: line_ok_def)

lemma safe_expireLine [keeps]: "safeM X (expireLine lid now)"
  unfolding expireLine_def by (intro keeps stmts evol) (auto intro: keeps simp: line_ok_def split: nat.splits)

lemma keeps_nat [keeps]:
  "keepsM R m \<Longrightarrow> (\<And>k. keepsM R (f k)) \<Longrightarrow> keepsM R (case n of 0 \<Rightarrow> m | Suc k \<Rightarrow> f k)"
  by (cases n) auto

lemma safe_start_lines [keeps]: "safeM X (start_lines ls r)"
proof (induction ls arbitrary: r)
  case Nil
  show ?case unfolding start_lines.simps by (intro keeps)
next
  case (Cons l ls)
  show ?case unfolding start_lines.simps by (intro keeps stmts evol Cons.IH) (auto simp: line_ok_def)
qed

lemma safe_expire_lines [keeps]: "safeM X (expire_lines now ls r)"
proof (induction ls arbitrary: r)
  case Nil
  show ?case unfolding expire_lines.simps by (intro keeps)
next
  case (Cons l ls)
  show ?case unfolding expire_lines.simps Let_def by (intro keeps Cons.IH)
qed

lemma safe_Reconcile [keeps]: "safeM X (ReconcileLineValidity now)"
  unfolding ReconcileLineValidity_def by (intro keeps)

section \<open>Period, checks and metrics\<close>

lemma safe_UpdateLineValidity [keeps]: "safeM X (UpdateLineValidity lid u)"
  unfolding UpdateLineValidity_def by (intro keeps stmts evol) (auto simp: line_ok_def)

text \<open>A line that was read under a key has that key.\<close>

lemma first_line_id: "first_line lid w = (Inr line, w') \<Longrightarrow> l_id line = lid"
  by (auto simp: first_line_def db_get_def dbM_def find_line_def Let_def
      split: option.splits prod.splits sum.splits dest: find_SomeD)

lemma keeps_bind_first_line:
  assumes R: "preorderR R" and f: "\<And>line. l_id line = lid \<Longrightarrow> keepsM (db_rel R) (f line)"
  shows "keepsM (db_rel R) (bindM (first_line lid) f)"
proof -
  have "keepsM (db_rel R) (first_line lid)" by (rule keeps_first_line [OF R])
  then show ?thesis
    using preorderR_trans [OF preorder_db_rel [OF R]] f first_line_id
    unfolding keepsM_def bindM_apply by (auto split: prod.splits sum.splits) (metis snd_conv)+
qed

lemma safe_RenewLine: "safeM {lid} (RenewLine lid u)"
  unfolding RenewLine_def
  by (intro keeps_bind_first_line keeps stmts evol) (auto simp: line_ok_def)

lemma safe_loadLineRuntime [keeps]: "safeM X (loadLineRuntime lid)"
  unfolding loadLineRuntime_def by (intro keeps)

lemma safe_lineTemplateHasRoute [keeps]: "safeM X (lineTemplateHasRoute a b)"
  unfolding lineTemplateHasRoute_def by (intro keeps)

lemma safe_check_items [keeps]: "safeM X (check_items rt)"
  unfolding check_items_def check_outbound_def check_inbound_def check_route_def check_nginx_def
    checkLineInboundListener_def dial_def os_stat_def Let_def
  by (intro keeps keeps_fsM)

lemma safe_checkLine [keeps]: "safeM X (checkLine lid b)"
  unfolding checkLine_def Let_def
  by (intro keeps stmts evol) (use check_status_open in \<open>auto simp: line_ok_def response_of_def countLineCheckItems_def\<close>)

lemma safe_GetLineMetrics [keeps]: "safeM X (GetLineMetrics lid)"
  unfolding GetLineMetrics_def buildLineMetrics_def Let_def by (intro keeps)

lemma safe_latency_item [keeps]: "safeM X (latency_item line ob)"
  unfolding latency_item_def testLineOutboundLatency_def Let_def by (intro keeps)

lemma safe_CheckLineWithInboundLatency [keeps]: "safeM X (CheckLineWithInboundLatency lid ms)"
  unfolding CheckLineWithInboundLatency_def Let_def
  by (intro keeps stmts evol) (use check_status_open in \<open>auto simp: line_ok_def add_item_def Let_def\<close>)

section \<open>Sharing\<close>

lemma safe_saveSetting [keeps]: "safeM X (saveSetting key v)"
  unfolding saveSetting_def by (intro keeps stmts evol)

lemma safe_lineSubscriptionKey [keeps]: "safeM X lineSubscriptionKey"
  unfolding lineSubscriptionKey_def GetSecret_def Let_def by (intro keeps)

lemma safe_decrypt [keeps]: "safeM X (decryptLineSubscriptionToken ct)"
  unfolding decryptLineSubscriptionToken_def by (intro keeps)

lemma safe_newToken [keeps]: "safeM X newLineSubscriptionToken"
  unfolding newLineSubscriptionToken_def encryptLineSubscriptionToken_def Let_def by (intro keeps)

lemma safe_getOrCreate [keeps]: "safeM X (getOrCreateLineSubscriptionToken lid b)"
  unfolding getOrCreateLineSubscriptionToken_def HashTokenSHA256_def Let_def
  by (intro keeps keeps_db_get stmts evol)

lemma safe_first_host [keeps]: "safeM X (first_host ls)"
proof (induction ls)
  case Nil
  show ?case unfolding first_host.simps by (intro keeps)
next
  case (Cons l ls)
  show ?case unfolding first_host.simps by (intro keeps Cons.IH)
qed

lemma safe_servable_runtime [keeps]: "safeM X (servable_runtime lid)"
  unfolding servable_runtime_def by (intro keeps)

lemma safe_subscription_path [keeps]: "safeM X lineSubscriptionPath"
  unfolding lineSubscriptionPath_def GetBasePath_def Let_def by (intro keeps)

lemma safe_clash_share_with [keeps]: "safeM X (clash_share_with b lid)"
  unfolding clash_share_with_def findLineSubscriptionHost_def buildLineSubscriptionURL_def Let_def
  by (intro keeps keeps_db_query)

lemma safe_ss_password [keeps]: "safeM X (lineManagedShadowsocksPassword lid)"
  unfolding lineManagedShadowsocksPassword_def by (intro keeps)

lemma safe_buildYAML [keeps]: "safeM X (buildLineClashSubscriptionYAML lid)"
  unfolding buildLineClashSubscriptionYAML_def buildLineClashProxy_def Let_def by (intro keeps)

lemma safe_GetPublic [keeps]: "safeM X (GetPublicLineClashSubscription tok)"
  unfolding GetPublicLineClashSubscription_def HashTokenSHA256_def Let_def by (intro keeps keeps_db_get)

lemma safe_GetYAML [keeps]: "safeM X (GetLineClashSubscriptionYAML lid)"
  unfolding GetLineClashSubscriptionYAML_def GetLineClashSubscriptionShare_def by (intro keeps)

lemma safe_GetLineShare [keeps]: "safeM X (GetLineShare lid)"
  unfolding GetLineShare_def GetLineClashSubscriptionShare_def share_link_def Let_def by (intro keeps)

end
