(* ===== verification/StmtFacts.thy ===== *)
theory StmtFacts
  imports Handlers
begin

text \<open>
  What a statement that succeeded has read and written, in the form the proofs about successful runs
  decompose, and the parts of the database the steps of an apply leave alone.
\<close>

section \<open>Successful statements\<close>

lemma askM_Inr: "askM f w = (Inr x, w') \<longleftrightarrow> x = f (w_env w) (w_tick w) \<and> w' = w\<lparr>w_tick := Suc (w_tick w)\<rparr>"
  by (auto simp: askM_def)

lemma time_now_Inr:
  "time_now w = (Inr x, w') \<longleftrightarrow> x = e_clock (w_env w) (w_tick w) \<and> w' = w\<lparr>w_tick := Suc (w_tick w)\<rparr>"
  by (simp add: time_now_def askM_Inr)

lemma dbM_Inr:
  "dbM f w = (Inr x, w') \<longleftrightarrow> e_fault (w_env w) (w_tick w) = None
     \<and> (\<exists>d. f (w_db w) = (Inr x, d) \<and> w' = w\<lparr>w_tick := Suc (w_tick w), w_db := d\<rparr>)"
  by (auto simp: dbM_def Let_def split: option.splits prod.splits sum.splits)

lemma db_get_Inr:
  "db_get f w = (Inr x, w') \<longleftrightarrow> e_fault (w_env w) (w_tick w) = None \<and> f (w_db w) = Some x
     \<and> w' = w\<lparr>w_tick := Suc (w_tick w)\<rparr>"
  unfolding db_get_def dbM_Inr by (auto split: option.splits)

lemma db_query_Inr:
  "db_query f w = (Inr x, w') \<longleftrightarrow> e_fault (w_env w) (w_tick w) = None \<and> x = f (w_db w)
     \<and> w' = w\<lparr>w_tick := Suc (w_tick w)\<rparr>"
  unfolding db_query_def dbM_Inr by auto

lemma db_exec_Inr:
  "db_exec f w = (Inr x, w') \<longleftrightarrow> e_fault (w_env w) (w_tick w) = None
     \<and> w' = w\<lparr>w_tick := Suc (w_tick w), w_db := f (w_db w)\<rparr>"
  unfolding db_exec_def dbM_Inr by auto

lemma first_line_Inr:
  "first_line lid w = (Inr line, w') \<longleftrightarrow> e_fault (w_env w) (w_tick w) = None
     \<and> find_line lid (w_db w) = Some line \<and> w' = w\<lparr>w_tick := Suc (w_tick w)\<rparr>"
  by (simp add: first_line_def db_get_Inr)

lemma model_line_updates_Inr:
  "model_line_updates line f w = (Inr line', w') \<longleftrightarrow> e_fault (w_env w) (Suc (w_tick w)) = None
     \<and> line' = (f line)\<lparr>l_updatedAt := e_clock (w_env w) (w_tick w)\<rparr>
     \<and> w' = w\<lparr>w_tick := Suc (Suc (w_tick w)),
              w_db := upd_lines (\<lambda>l. l_id l = l_id line) f (e_clock (w_env w) (w_tick w)) (w_db w)\<rparr>"
  by (auto simp: model_line_updates_def monad_Inr time_now_Inr db_exec_Inr)

lemmas stmt_Inr = askM_Inr time_now_Inr dbM_Inr db_get_Inr db_query_Inr db_exec_Inr first_line_Inr
  model_line_updates_Inr

text \<open>A transaction that succeeded ran its body on the same database, and kept what the body wrote.\<close>

lemma transaction_Inr:
  assumes "transactionM m w = (Inr x, w')"
  obtains w1 w2 where "w_db w1 = w_db w" "w_env w1 = w_env w" "w_fs w1 = w_fs w" "m w1 = (Inr x, w2)"
    "w_db w' = w_db w2" "w_env w' = w_env w2" "w_fs w' = w_fs w2"
  using assms
  by (auto simp: transactionM_def monad_Inr db_query_Inr split: prod.splits sum.splits) (metis world.select_convs(1-3) world.surjective world.update_convs(4))

section \<open>Lines\<close>

lemma find_line_upd:
  "(\<And>l. l_id (f l) = l_id l) \<Longrightarrow> find_line lid (upd_lines P f now d) =
     map_option (\<lambda>l. if P l then (f l)\<lparr>l_updatedAt := now\<rparr> else l) (find_line lid d)"
  unfolding find_line_def upd_lines_def by (simp add: find_update_where)

lemma find_line_id: "find_line lid d = Some line \<Longrightarrow> l_id line = lid \<and> line \<in> set (d_lines d)"
  by (auto simp: find_line_def dest: find_SomeD)

lemma upd_lines_tables [simp]:
  "d_inbounds (upd_lines P f now d) = d_inbounds d" "d_clients (upd_lines P f now d) = d_clients d"
  "d_clientInbounds (upd_lines P f now d) = d_clientInbounds d" "d_settings (upd_lines P f now d) = d_settings d"
  "d_outbounds (upd_lines P f now d) = d_outbounds d" "d_checks (upd_lines P f now d) = d_checks d"
  "d_subs (upd_lines P f now d) = d_subs d" "d_logs (upd_lines P f now d) = d_logs d"
  "d_outboundTraffics (upd_lines P f now d) = d_outboundTraffics d" "d_nextLine (upd_lines P f now d) = d_nextLine d"
  by (simp_all add: upd_lines_def)

lemma add_log_tables [simp]:
  "d_inbounds (add_log i a l m t now d) = d_inbounds d" "d_clients (add_log i a l m t now d) = d_clients d"
  "d_clientInbounds (add_log i a l m t now d) = d_clientInbounds d" "d_settings (add_log i a l m t now d) = d_settings d"
  "d_outbounds (add_log i a l m t now d) = d_outbounds d" "d_checks (add_log i a l m t now d) = d_checks d"
  "d_subs (add_log i a l m t now d) = d_subs d" "d_lines (add_log i a l m t now d) = d_lines d"
  "d_outboundTraffics (add_log i a l m t now d) = d_outboundTraffics d" "d_nextLine (add_log i a l m t now d) = d_nextLine d"
  by (simp_all add: add_log_def)

lemma upd_outbounds_tables [simp]:
  "d_inbounds (upd_outbounds P f now d) = d_inbounds d" "d_clients (upd_outbounds P f now d) = d_clients d"
  "d_clientInbounds (upd_outbounds P f now d) = d_clientInbounds d" "d_settings (upd_outbounds P f now d) = d_settings d"
  "d_lines (upd_outbounds P f now d) = d_lines d" "d_checks (upd_outbounds P f now d) = d_checks d"
  "d_subs (upd_outbounds P f now d) = d_subs d" "d_logs (upd_outbounds P f now d) = d_logs d"
  "d_outboundTraffics (upd_outbounds P f now d) = d_outboundTraffics d" "d_nextLine (upd_outbounds P f now d) = d_nextLine d"
  by (simp_all add: upd_outbounds_def)

section \<open>What the steps of an apply leave alone\<close>

text \<open>The tables Xray is configured from.\<close>

definition runtime :: "db \<Rightarrow> inbound list \<times> client_record list \<times> client_inbound list \<times> setting list" where
  "runtime d = (d_inbounds d, d_clients d, d_clientInbounds d, d_settings d)"

abbreviation leavesM :: "(db \<Rightarrow> 'b) \<Rightarrow> 'a W \<Rightarrow> bool" where
  "leavesM g m \<equiv> keepsM (db_rel (sameR g)) m"

lemma leaves_D: "leavesM g m \<Longrightarrow> m w = (r, w') \<Longrightarrow> g (w_db w') = g (w_db w)"
  by (drule (1) keepsM_D') (simp add: db_rel_def sameR_def)

lemma leaves_getLine: "leavesM runtime (getLine lid b)"
  unfolding getLine_def Let_def by (intro keeps stmts) (auto simp: sameR_def runtime_def)

lemma leaves_recordLineApplyFailure: "leavesM runtime (recordLineApplyFailure lid e)"
  unfolding recordLineApplyFailure_def by (intro keeps stmts) (auto simp: sameR_def runtime_def)

lemma leaves_log: "leavesM runtime (createLineLog lid a b c e)"
  by (intro keeps stmts) (auto simp: sameR_def runtime_def)

lemma leaves_line_update: "leavesM runtime (model_line_updates line f)"
  by (intro keeps stmts) (auto simp: sameR_def runtime_def)

lemma leaves_nginx_part: "leavesM runtime (apply_nginx_part line config)"
  unfolding apply_nginx_part_def by (intro keeps stmts) (auto simp: sameR_def runtime_def)

lemma leaves_upsert_client: "leavesM d_inbounds (upsertLineManagedClient line iid config)"
  unfolding upsertLineManagedClient_def by (intro keeps stmts) (auto simp: sameR_def)

lemma leaves_ensure_ss_client: "leavesM d_inbounds (ensureLineManagedShadowsocksClient line)"
  unfolding ensureLineManagedShadowsocksClient_def by (intro keeps stmts) (auto simp: sameR_def)

lemma leaves_attach_client: "leavesM d_inbounds (attachLineManagedClient line iid)"
  unfolding attachLineManagedClient_def by (intro keeps stmts) (auto simp: sameR_def)

lemma leaves_upsert_template:
  "leavesM (\<lambda>d. (d_inbounds d, d_clients d, d_clientInbounds d, d_lines d, d_outbounds d)) (upsertLineOutboundInTemplate a b ob)"
  unfolding upsertLineOutboundInTemplate_def getXrayTemplateConfigTx_def write_template_def
  by (intro keeps stmts) (auto simp: sameR_def)

end
