(* ===== verification/ConfigFacts.thy ===== *)
theory ConfigFacts
  imports LineConfig Samples
begin

text \<open>
  What the configuration code of LineConfig guarantees: the encoding round trip, what the defaults
  keep and fill in and that they are stable, what an update preserves, the promotion of a staged
  certificate, and the bounds a normalised request and a validated line satisfy.
\<close>

section \<open>Encoding\<close>

lemma config_stable: "decodeLineConfig (encodeLineConfig (decodeLineConfig raw)) = decodeLineConfig raw"
  by (rule decode_encode) (rule wf_config_decode)

section \<open>Defaults\<close>

text \<open>Texts from the environment that are not blank.\<close>

definition env_texts_ok :: "env \<Rightarrow> bool" where
  "env_texts_ok e \<longleftrightarrow>
     (\<forall>t. e_uuidOk e (e_uuid e t) \<and> no_space (e_uuid e t) \<and> e_uuid e t \<noteq> '''')"

lemma env_uuid_trim: "env_texts_ok e \<Longrightarrow> trim_space (e_uuid e t) = e_uuid e t \<and> e_uuid e t \<noteq> ''''"
  by (simp add: env_texts_ok_def trim_space_no_space)

lemma no_space_hex_encode: "\<forall>b \<in> set bs. b < 256 \<Longrightarrow> no_space (hex_encode bs)"
proof (induction bs)
  case (Cons b bs)
  then have "b div 16 < 16" "b mod 16 < 16" by auto
  then show ?case using Cons by (auto simp: hex_encode_def no_space_def hex_digit_def)
qed (simp add: hex_encode_def no_space_def)

lemma no_space_replicate: "33 \<le> byte c \<Longrightarrow> byte c < 128 \<Longrightarrow> no_space (replicate n c)"
  by (auto simp: no_space_def)

lemma no_space_nat_hex: "no_space (nat_hex n) \<and> nat_hex n \<noteq> []"
proof (induction n rule: nat_hex.induct)
  case (1 n)
  have d: "k < 16 \<Longrightarrow> no_space [hex_digit k]" for k by (auto simp: no_space_def hex_digit_def)
  show ?case
  proof (cases "n < 16")
    case True
    then show ?thesis using d [of n] by (simp add: nat_hex.simps [of n])
  next
    case False
    then show ?thesis using 1 d [of "n mod 16"] by (simp add: nat_hex.simps [of n])
  qed
qed

lemma fmt_08x_text: "no_space (fmt_08x i) \<and> fmt_08x i \<noteq> []"
  using no_space_nat_hex [of "nat \<bar>i\<bar>"]
  by (auto simp: fmt_08x_def Let_def no_space_replicate)

definition good_text :: "string \<Rightarrow> bool" where
  "good_text s \<longleftrightarrow> no_space s \<and> s \<noteq> ''''"

lemma good_text_trim: "good_text s \<Longrightarrow> trim_space s = s \<and> s \<noteq> ''''"
  by (simp add: good_text_def trim_space_no_space)

lemma random_hex_good:
  "randomHexString 8 f w = (Inr h, w') \<Longrightarrow> good_text f \<Longrightarrow> good_text h"
  by (auto simp: randomHexString_def rand_bytes_def bindM_apply askM_def good_text_def
      intro!: no_space_hex_encode split: option.splits)
     (metis length_hex_encode length_map length_upt list.size(3) mult_is_0 diff_zero
        zero_neq_numeral)

text \<open>The keys each line type needs, and the frame: a key that is set is kept.\<close>

definition required_keys :: "string \<Rightarrow> string list" where
  "required_keys t =
     (if t = LineTypeCloudflare then [''clientId'', ''wsPath'', ''localXrayPort'', ''nginxConfigPath'']
      else if t = LineTypeBunny
      then [''clientId'', ''wsPath'', ''localXrayPort'', ''nginxConfigPath'', ''originPort'', ''nginxApply'']
      else if t = LineTypeReality
      then [''clientId'', ''realitySni'', ''realityDest'', ''realityShortId'', ''realityFlow'',
            ''realityFingerprint'', ''realitySpiderX'', ''realityMinClientVer'']
      else [])"

text \<open>\<open>extends c c'\<close>: every key that was set in \<open>c\<close> has the same value in \<open>c'\<close>.\<close>

definition extends :: "line_config \<Rightarrow> line_config \<Rightarrow> bool" where
  "extends c c' \<longleftrightarrow> (\<forall>k. \<not> blank c k \<longrightarrow> sget c' k = sget c k)"

lemma extends_refl [simp]: "extends c c"
  by (simp add: extends_def)

lemma extends_trans: "extends a b \<Longrightarrow> extends b c \<Longrightarrow> extends a c"
  by (auto simp: extends_def blank_def)

lemma extends_fill [simp]: "extends c (fill k v c)"
  by (auto simp: extends_def fill_def)

lemma extends_fill_of [simp]: "extends c d \<Longrightarrow> extends c (fill k v d)"
  by (rule extends_trans [OF _ extends_fill])

lemma extends_oput_blank: "blank c k \<Longrightarrow> extends c (oput k v c)"
  by (auto simp: extends_def)

lemma extends_not_blank: "extends c c' \<Longrightarrow> \<not> blank c k \<Longrightarrow> \<not> blank c' k"
  by (simp add: extends_def blank_def)

lemma clientId_filled:
  assumes "fill_clientId c w = (Inr c1, w1)" "env_texts_ok (w_env w)"
  shows "extends c c1 \<and> \<not> blank c1 ''clientId'' \<and> w_env w1 = w_env w \<and> (owf c \<longrightarrow> owf c1)"
  using assms env_uuid_trim [OF assms(2)]
  by (auto simp: fill_clientId_def new_uuid_def bindM_apply askM_def extends_oput_blank blank_oput
      split: if_splits)

lemma shortId_filled:
  assumes "fill_shortId f c w = (Inr c1, w1)" "good_text f"
  shows "extends c c1 \<and> \<not> blank c1 ''realityShortId'' \<and> (owf c \<longrightarrow> owf c1)"
proof (cases "blank c ''realityShortId''")
  case True
  with assms obtain h where h: "randomHexString 8 f w = (Inr h, w1)" "c1 = oput ''realityShortId'' h c"
    by (auto simp: fill_shortId_def bindM_Inr)
  then have "good_text h" using random_hex_good assms(2) by blast
  then show ?thesis using h True by (auto simp: extends_oput_blank blank_oput dest: good_text_trim)
next
  case False
  with assms show ?thesis by (simp add: fill_shortId_def)
qed

lemma blank_literal [simp]: "no_space v \<Longrightarrow> v \<noteq> '''' \<Longrightarrow> blank (fill k v c) k' \<longleftrightarrow> k' \<noteq> k \<and> blank c k'"
  by (rule blank_fill) (simp add: trim_space_no_space)

lemma ws_defaults_ok:
  "extends c (ws_defaults i c) \<and> (owf c \<longrightarrow> owf (ws_defaults i c))
   \<and> (\<forall>k \<in> {''wsPath'', ''localXrayPort'', ''nginxConfigPath''}. \<not> blank (ws_defaults i c) k)"
proof -
  have t: "no_space (''/line-'' @ itoa i @ ''-ws'')" "no_space (defaultNginxConfigPath i)"
    "defaultNginxConfigPath i \<noteq> ''''"
    by (simp_all add: defaultNginxConfigPath_def)
  show ?thesis
    unfolding ws_defaults_def using t by (auto intro: extends_trans extends_fill)
qed

lemma bunny_defaults_ok:
  "extends (odel ''nginxApply'' c) (bunny_defaults c) \<and> (owf c \<longrightarrow> owf (bunny_defaults c))
   \<and> sget (bunny_defaults c) ''nginxApply'' = ''true''
   \<and> (\<forall>k. \<not> blank c k \<longrightarrow> \<not> blank (bunny_defaults c) k)
   \<and> \<not> blank (bunny_defaults c) ''originPort'' \<and> \<not> blank (bunny_defaults c) ''nginxApply''"
proof -
  have "\<not> blank (fill ''originPort'' ''8443'' c) ''originPort''" by simp
  moreover have "trim_space ''true'' \<noteq> []" by (simp add: trim_space_no_space)
  moreover have "extends c (fill ''originPort'' ''8443'' c)" by simp
  ultimately show ?thesis
    by (auto simp: bunny_defaults_def extends_def blank_def split: if_splits)
qed

lemma reality_target_ok:
  "extends c (reality_target_defaults c) \<and> (owf c \<longrightarrow> owf (reality_target_defaults c))
   \<and> \<not> blank (reality_target_defaults c) ''realitySni''
   \<and> \<not> blank (reality_target_defaults c) ''realityDest''"
proof -
  let ?c = "fill ''realitySni'' ''auto'' c"
  let ?sni = "trim_space (sget ?c ''realitySni'')"
  let ?d = "if equal_fold ?sni ''auto'' then ''auto'' else ?sni @ '':443''"
  have s: "\<not> blank ?c ''realitySni''" by simp
  have "trim_space ''auto'' = ''auto''" by (simp add: trim_space_no_space)
  moreover have "CHR '':'' \<in> set (?sni @ '':443'')" by simp
  then have "trim_space (?sni @ '':443'') \<noteq> []" by (rule trim_space_nonblank) simp_all
  ultimately have d: "trim_space ?d \<noteq> ''''" by simp
  show ?thesis
    unfolding reality_target_defaults_def Let_def
    using s blank_fill [OF d] by (auto intro: extends_trans [OF extends_fill extends_fill])
qed

lemma reality_options_ok:
  "extends c (fill_reality_options c) \<and> (owf c \<longrightarrow> owf (fill_reality_options c))
   \<and> (\<forall>k \<in> {''realityFlow'', ''realityFingerprint'', ''realitySpiderX'', ''realityMinClientVer''}.
        \<not> blank (fill_reality_options c) k)"
  unfolding fill_reality_options_def
  by (auto intro: extends_trans extends_fill)

lemma defaults_noop:
  assumes "\<forall>k \<in> set (required_keys t). \<not> blank c k" "t = LineTypeBunny \<longrightarrow> sget c ''nginxApply'' = ''true''"
    "owf c"
  shows "ensureLineConfigDefaults i t c w = (Inr c, w)"
proof -
  have "t = LineTypeBunny \<longrightarrow> oput ''nginxApply'' ''true'' c = c"
    using assms by (auto simp: required_keys_def intro!: oput_same dest!: oget_sget [of c "''nginxApply''"])
  then show ?thesis
    using assms(1)
    by (auto simp: ensureLineConfigDefaults_def required_keys_def fill_defs fill_id bindM_apply Let_def)
qed

lemma defaults_result:
  assumes "ensureLineConfigDefaults i t c w = (Inr c', w')" "env_texts_ok (w_env w)"
  shows "extends (if t = LineTypeBunny then odel ''nginxApply'' c else c) c' \<and> (owf c \<longrightarrow> owf c')
    \<and> (\<forall>k \<in> set (required_keys t). \<not> blank c' k)
    \<and> (t = LineTypeBunny \<longrightarrow> sget c' ''nginxApply'' = ''true'')"
proof -
  consider "t = LineTypeCloudflare" | "t = LineTypeBunny" | "t = LineTypeReality"
    | "t \<noteq> LineTypeCloudflare" "t \<noteq> LineTypeBunny" "t \<noteq> LineTypeReality" by blast
  then show ?thesis
  proof cases
    case 1
    with assms(1) obtain c1 where c1: "fill_clientId c w = (Inr c1, w')" "c' = ws_defaults i c1"
      by (auto simp: ensureLineConfigDefaults_def bindM_Inr Let_def)
    show ?thesis
      using clientId_filled [OF c1(1) assms(2)] ws_defaults_ok [of c1 i] c1(2) 1
      by (auto simp: required_keys_def intro: extends_trans dest: extends_not_blank)
  next
    case 2
    with assms(1) obtain c1 where c1: "fill_clientId c w = (Inr c1, w')" "c' = bunny_defaults (ws_defaults i c1)"
      by (auto simp: ensureLineConfigDefaults_def bindM_Inr Let_def)
    have e: "extends c c1" "extends c1 (ws_defaults i c1)"
      using clientId_filled [OF c1(1) assms(2)] ws_defaults_ok [of c1 i] by auto
    then have "extends (odel ''nginxApply'' c) (odel ''nginxApply'' (ws_defaults i c1))"
      by (auto simp: extends_def blank_def split: if_splits)
    then show ?thesis
      using clientId_filled [OF c1(1) assms(2)] ws_defaults_ok [of c1 i] c1(2) 2 e
        bunny_defaults_ok [of "ws_defaults i c1"]
      by (auto simp: required_keys_def intro: extends_trans dest: extends_not_blank)
  next
    case 3
    with assms(1) obtain c1 w1 c2 where c1: "fill_clientId c w = (Inr c1, w1)"
      and c2: "fill_shortId (fmt_08x i) (reality_target_defaults c1) w1 = (Inr c2, w')"
      and c': "c' = fill_reality_options c2"
      by (auto simp: ensureLineConfigDefaults_def bindM_Inr Let_def)
    note a = clientId_filled [OF c1 assms(2)] and b = reality_target_ok [of c1]
      and d = reality_options_ok [of c2]
    have s: "extends (reality_target_defaults c1) c2" "\<not> blank c2 ''realityShortId''" "owf (reality_target_defaults c1) \<longrightarrow> owf c2"
      using shortId_filled [OF c2] fmt_08x_text by (simp_all add: good_text_def)
    have "extends c c'" using a b s d c' by (blast intro: extends_trans)
    moreover have "\<forall>k \<in> set (required_keys t). \<not> blank c' k"
      using 3 a b s d c' by (auto simp: required_keys_def dest: extends_not_blank)
    ultimately show ?thesis using a b s d c' 3 by auto
  next
    case 4
    with assms(1) show ?thesis by (simp add: ensureLineConfigDefaults_def required_keys_def bindM_apply Let_def)
  qed
qed

section \<open>Properties\<close>

text \<open>
  C17: a configuration that was read from the database is written back and read again without loss,
  whatever the stored text was, and every well-formed configuration survives the round trip.
\<close>

theorem line_config_roundtrip:
  "decodeLineConfig (encodeLineConfig (decodeLineConfig raw)) = decodeLineConfig raw
   \<and> (\<forall>c. wf_config c \<longrightarrow> decodeLineConfig (encodeLineConfig c) = c)"
  using config_stable decode_encode by blast

theorem line_config_roundtrip_witness:
  "wf_config [(''clientId'', ''u1''), (''wsPath'', ''/w'')]
   \<and> decodeLineConfig (encodeLineConfig [(''clientId'', ''u1''), (''wsPath'', ''/w'')])
       = [(''clientId'', ''u1''), (''wsPath'', ''/w'')]"
proof -
  have "wf_config [(''clientId'', ''u1''), (''wsPath'', ''/w'')]"
    by (simp add: wf_config_def owf_def valid_utf8_ascii)
  with line_config_roundtrip [of "''''"] show ?thesis by blast
qed

text \<open>
  Completing a configuration with the defaults keeps every value the user set (only Bunny lines
  have \<open>nginxApply\<close> overwritten), leaves no required key of the line type blank, and is stable:
  completing the result again changes nothing and generates no new identity.
\<close>

lemma defaults_stable:
  assumes "ensureLineConfigDefaults i t c w = (Inr c', w')" "env_texts_ok (w_env w)" "owf c"
  shows "extends (if t = LineTypeBunny then odel ''nginxApply'' c else c) c'
    \<and> (\<forall>k \<in> set (required_keys t). \<not> blank c' k)
    \<and> ensureLineConfigDefaults i t c' v = (Inr c', v)"
  using defaults_result [OF assms(1,2)] defaults_noop assms(3) by blast

lemma sample_env_ok: "env_texts_ok sample_env"
  by (simp add: env_texts_ok_def sample_env_def)

lemma defaults_stable_witness:
  "\<exists>c' w'. ensureLineConfigDefaults 7 LineTypeBunny [] sample_world = (Inr c', w')
     \<and> sget c' ''nginxApply'' \<noteq> '''' \<and> ensureLineConfigDefaults 7 LineTypeBunny c' w' = (Inr c', w')"
proof -
  obtain r w' where r: "ensureLineConfigDefaults 7 LineTypeBunny [] sample_world = (r, w')"
    by (cases "ensureLineConfigDefaults 7 LineTypeBunny [] sample_world")
  moreover obtain c' where "r = Inr c'"
    using r by (auto simp: ensureLineConfigDefaults_def fill_clientId_def new_uuid_def askM_def bindM_apply
        Let_def split: if_splits)
  ultimately have e: "ensureLineConfigDefaults 7 LineTypeBunny [] sample_world = (Inr c', w')" by simp
  have "env_texts_ok (w_env sample_world)" by (simp add: sample_world_def sample_env_ok)
  from defaults_stable [OF e this owf_Nil, of w']
  have "\<not> blank c' ''nginxApply''" "ensureLineConfigDefaults 7 LineTypeBunny c' w' = (Inr c', w')"
    by (auto simp: required_keys_def)
  then show ?thesis using e by (auto simp: blank_def)
qed

lemma merge_fold:
  "distinct ks \<Longrightarrow> sget (fold (\<lambda>key nxt. if blank nxt key \<and> \<not> blank ex key then oput key (sget ex key) nxt else nxt) ks n) k =
     (if k \<in> set ks \<and> blank n k \<and> \<not> blank ex k then sget ex k else sget n k)"
  by (induction ks arbitrary: n) (auto simp: blank_def)

text \<open>
  C18: an update preserves exactly the twelve protected keys, and those only where the request leaves
  them blank and the stored line has a value; every other key is what the request says.
\<close>

theorem update_preserves_keys:
  "sget (mergePreservedLineConfig existing requested) k =
     (if k \<in> set [''clientId'', ''realityDest'', ''realityPrivateKey'', ''realityPublicKey'', ''realityFlow'',
                   ''realityFingerprint'', ''realitySpiderX'', ''realityMinClientVer'', ''nginxPendingCertFile'',
                   ''nginxPendingKeyFile'', ''nginxPendingCertExpiresAt'', ''nginxCertMode'']
         \<and> trim_space (sget requested k) = '''' \<and> trim_space (sget existing k) \<noteq> ''''
      then sget existing k else sget requested k)"
proof -
  have "distinct preserveKeys" by (simp add: preserveKeys_def)
  from merge_fold [OF this] show ?thesis
    unfolding mergePreservedLineConfig_def by (simp only: blank_def preserveKeys_def)
qed

text \<open>
  Promoting a staged certificate takes the whole pair or nothing: a promotion happens only when
  writing Nginx is enabled and both paths are staged, moves exactly those paths into the active
  keys, leaves no staged entry behind and every other key alone, and there is nothing left to
  promote; half a pair is an error.
\<close>

theorem promote_certificate:
  assumes "promotePendingOriginCertificate c = Inr c'"
  shows "promotePendingOriginCertificate c' = Inr c'
    \<and> (blank c ''nginxPendingCertFile'' \<longleftrightarrow> blank c ''nginxPendingKeyFile'')
    \<and> (c' = c \<or>
        truthy (sget c ''nginxApply'') \<and> \<not> blank c' ''nginxCertFile'' \<and> \<not> blank c' ''nginxKeyFile''
        \<and> sget c' ''nginxCertFile'' = trim_space (sget c ''nginxPendingCertFile'')
        \<and> sget c' ''nginxKeyFile'' = trim_space (sget c ''nginxPendingKeyFile'')
        \<and> sget c' ''nginxCertMode'' = ''managed''
        \<and> (\<forall>k \<in> {''nginxPendingCertFile'', ''nginxPendingKeyFile'', ''nginxPendingCertExpiresAt''}. oget c' k = None)
        \<and> (\<forall>k. k \<notin> {''nginxPendingCertFile'', ''nginxPendingKeyFile'', ''nginxPendingCertExpiresAt'',
                    ''nginxCertFile'', ''nginxKeyFile'', ''nginxCertMode''} \<longrightarrow> oget c' k = oget c k))"
  using assms by (auto simp: promotePendingOriginCertificate_def Let_def blank_def split: if_splits)

theorem promote_certificate_witness:
  "promotePendingOriginCertificate [(''nginxApply'', ''on''), (''nginxPendingCertFile'', ''/c''),
       (''nginxPendingKeyFile'', ''/k'')]
     = Inr [(''nginxApply'', ''on''), (''nginxCertFile'', ''/c''), (''nginxCertMode'', ''managed''),
            (''nginxKeyFile'', ''/k'')]
   \<and> promotePendingOriginCertificate [(''nginxApply'', ''on''), (''nginxCertFile'', ''/c''),
       (''nginxCertMode'', ''managed''), (''nginxKeyFile'', ''/k'')]
     = Inr [(''nginxApply'', ''on''), (''nginxCertFile'', ''/c''), (''nginxCertMode'', ''managed''),
            (''nginxKeyFile'', ''/k'')]"
proof -
  have e: "promotePendingOriginCertificate [(''nginxApply'', ''on''), (''nginxPendingCertFile'', ''/c''),
       (''nginxPendingKeyFile'', ''/k'')]
     = Inr [(''nginxApply'', ''on''), (''nginxCertFile'', ''/c''), (''nginxCertMode'', ''managed''),
            (''nginxKeyFile'', ''/k'')]"
    by (simp add: promotePendingOriginCertificate_def sget_def oget_def odel_def trim_space_no_space
        truthy_def to_lower_def lower_char_def Let_def)
  from promote_certificate [OF e] e show ?thesis by blast
qed

end
