(* ===== verification/RequestFacts.thy ===== *)
theory RequestFacts
  imports ConfigFacts
begin

text \<open>
  The normalisation of a save request and the validation before an apply: the bounds they
  establish, and that the random order in which Go ranges over the configuration does not matter
  unless two keys become equal when they are trimmed.
\<close>

section \<open>The configuration loop\<close>

definition clean_entry :: "string \<Rightarrow> string \<Rightarrow> bool" where
  "clean_entry k v \<longleftrightarrow> trim_space k = k \<and> k \<noteq> '''' \<and> trim_space v = v"

lemma normalize_config_clean:
  "\<forall>k v. oget m k = Some v \<longrightarrow> k \<in> set ks \<or> clean_entry k v \<Longrightarrow>
     oget (normalize_config ks m) k = Some v \<Longrightarrow> clean_entry k v"
proof (induction ks arbitrary: m)
  case Nil
  then show ?case by simp
next
  case (Cons key ks)
  show ?case
  proof (cases "oget m key")
    case None
    with Cons.prems(1) have "\<forall>k v. oget m k = Some v \<longrightarrow> k \<in> set ks \<or> clean_entry k v"
      by (metis option.distinct(1) set_ConsD)
    with Cons None show ?thesis by simp
  next
    case (Some vl)
    let ?k = "trim_space key" and ?v = "trim_space vl"
    let ?m = "if ?k = '''' then odel key m else oput ?k ?v (if ?k \<noteq> key then odel key m else m)"
    have "\<forall>k v. oget ?m k = Some v \<longrightarrow> k \<in> set ks \<or> clean_entry k v"
      using Cons.prems(1) by (auto simp: clean_entry_def)
    moreover have "normalize_config (key # ks) m = normalize_config ks ?m"
      using Some by (simp add: Let_def)
    ultimately show ?thesis using Cons.IH Cons.prems(2) by simp
  qed
qed

lemma owf_normalize_config [simp]: "owf m \<Longrightarrow> owf (normalize_config ks m)"
  by (induction ks arbitrary: m) (auto simp: Let_def split: option.splits)

text \<open>Trimming tells the keys of the map apart (among those that are not blank).\<close>

definition keys_apart :: "line_config \<Rightarrow> bool" where
  "keys_apart m \<longleftrightarrow>
     (\<forall>k k'. oget m k \<noteq> None \<longrightarrow> oget m k' \<noteq> None \<longrightarrow> trim_space k = trim_space k' \<longrightarrow> trim_space k \<noteq> '''' \<longrightarrow> k = k')"

text \<open>What the loop computes: \<open>ks\<close> are the keys still to come, \<open>m0\<close> is the map at the start.\<close>

definition loop_state :: "string list \<Rightarrow> line_config \<Rightarrow> line_config \<Rightarrow> bool" where
  "loop_state ks m0 m \<longleftrightarrow>
     (\<forall>k. k \<in> set ks \<longrightarrow> oget m k = oget m0 k)
     \<and> (\<forall>k v. k \<notin> set ks \<longrightarrow> (oget m k = Some v \<longleftrightarrow>
          (\<exists>key vl. key \<notin> set ks \<and> oget m0 key = Some vl \<and> trim_space key = k \<and> k \<noteq> '''' \<and> trim_space vl = v)))"

lemma loop_step:
  assumes st: "loop_state (key # ks) m0 m" and ap: "keys_apart m0" and d: "distinct (key # ks)"
    and pres: "\<forall>k \<in> set (key # ks). oget m0 k \<noteq> None"
  shows "loop_state ks m0 (case oget m key of None \<Rightarrow> m | Some vl \<Rightarrow>
           (let k = trim_space key; v = trim_space vl in
            if k = '''' then odel key m else oput k v (if k \<noteq> key then odel key m else m)))"
proof -
  obtain vl where Some: "oget m0 key = Some vl" using pres by auto
  let ?k = "trim_space key" and ?v = "trim_space vl"
  let ?m = "if ?k = '''' then odel key m else oput ?k ?v (if ?k \<noteq> key then odel key m else m)"
  let ?past = "\<lambda>k v. \<exists>key' vl. key' \<notin> set (key # ks) \<and> oget m0 key' = Some vl
    \<and> trim_space key' = k \<and> k \<noteq> '''' \<and> trim_space vl = v"
  have v: "oget m key = Some vl" using st Some by (simp add: loop_state_def)
  have rest: "\<And>k. k \<in> set ks \<Longrightarrow> oget m k = oget m0 k" using st by (simp add: loop_state_def)
  have past: "\<And>k v. k \<notin> set (key # ks) \<Longrightarrow> oget m k = Some v \<longleftrightarrow> ?past k v"
    using st by (simp add: loop_state_def)
  have uniq: "key' = key" if "oget m0 key' \<noteq> None" "trim_space key' = ?k" "?k \<noteq> ''''" for key'
    using ap that Some unfolding keys_apart_def by (metis option.distinct(1))
  have A: "oget ?m k = oget m0 k" if "k \<in> set ks" for k
  proof -
    have "k \<noteq> key" using that d by auto
    moreover have "k \<noteq> ?k \<or> ?k = ''''" using uniq [of k] \<open>k \<noteq> key\<close> pres that
      by (metis list.set_intros(2) trim_space_idem)
    ultimately show ?thesis using rest [OF that] by auto
  qed
  have none: "\<not> ?past ?k v" if "?k \<noteq> ''''" for v
    using uniq that by (metis list.set_intros(1) option.distinct(1))
  have past_key: "\<not> ?past key v" for v
    using none by (metis trim_space_idem)
  have B: "oget ?m k = Some v \<longleftrightarrow> ?past k v \<or> (?k = k \<and> k \<noteq> '''' \<and> ?v = v)" if "k \<notin> set ks" for k v
  proof (cases "k = key")
    case True
    with past_key show ?thesis by auto
  next
    case False
    then have "k \<notin> set (key # ks)" using that by simp
    with False none [of v] past [OF this, of v] show ?thesis by auto
  qed
  have C: "(\<exists>key' vl. key' \<notin> set ks \<and> oget m0 key' = Some vl \<and> trim_space key' = k \<and> k \<noteq> '''' \<and> trim_space vl = v)
      \<longleftrightarrow> ?past k v \<or> (?k = k \<and> k \<noteq> '''' \<and> ?v = v)" (is "?L \<longleftrightarrow> ?R") for k v
  proof
    assume ?L
    then obtain key' vl' where k': "key' \<notin> set ks" "oget m0 key' = Some vl'" "trim_space key' = k"
      "k \<noteq> ''''" "trim_space vl' = v" by blast
    show ?R
    proof (cases "key' = key")
      case True
      then have "vl' = vl" using k'(2) Some by simp
      then show ?thesis using k' True by blast
    next
      case False
      then have "key' \<notin> set (key # ks)" using k'(1) by simp
      then show ?thesis using k' by blast
    qed
  next
    assume ?R
    then show ?L using Some d by auto
  qed
  have "loop_state ks m0 ?m" unfolding loop_state_def using A B C by simp
  then show ?thesis using v by (simp add: Let_def)
qed

lemma loop_result:
  "loop_state ks m0 m \<Longrightarrow> keys_apart m0 \<Longrightarrow> distinct ks \<Longrightarrow> \<forall>k \<in> set ks. oget m0 k \<noteq> None \<Longrightarrow>
     loop_state [] m0 (normalize_config ks m)"
proof (induction ks arbitrary: m)
  case (Cons key ks)
  from Cons.IH [OF loop_step [OF Cons.prems]] Cons.prems show ?case by (simp add: Let_def)
qed simp

lemma normalize_config_spec:
  assumes "owf m" "keys_apart m" "set ks = fst ` set m" "distinct ks"
  shows "oget (normalize_config ks m) k = Some v \<longleftrightarrow>
     (\<exists>key vl. oget m key = Some vl \<and> trim_space key = k \<and> k \<noteq> '''' \<and> trim_space vl = v)"
proof -
  have "oget m key = Some vl \<Longrightarrow> key \<in> set ks" for key vl
    using assms(3) oget_None_notin [of m key] by auto
  then have "loop_state ks m m" by (fastforce simp: loop_state_def)
  moreover have "\<forall>k \<in> set ks. oget m k \<noteq> None" using assms(3) by (simp add: oget_None_notin)
  ultimately have "loop_state [] m (normalize_config ks m)" using loop_result assms by blast
  then show ?thesis by (simp add: loop_state_def)
qed

text \<open>
  C16: the configuration of a save request is normalised to the same map in whatever order the
  runtime ranges over it, as long as trimming tells its keys apart: every entry appears under its
  trimmed key with its trimmed vl, and entries with a blank key are dropped.
\<close>

theorem normalize_order_irrelevant:
  assumes "owf m" "keys_apart m" "set ks = fst ` set m" "distinct ks" "set ks' = fst ` set m" "distinct ks'"
  shows "normalize_config ks m = normalize_config ks' m
    \<and> (\<forall>k v. oget (normalize_config ks m) k = Some v \<longleftrightarrow>
         (\<exists>key vl. oget m key = Some vl \<and> trim_space key = k \<and> k \<noteq> '''' \<and> trim_space vl = v))"
proof -
  note s = normalize_config_spec [OF assms(1,2)]
  have "oget (normalize_config ks m) k = oget (normalize_config ks' m) k" for k
    using s [OF assms(3,4), of k] s [OF assms(5,6), of k] by (metis option.exhaust)
  then show ?thesis using owf_ext [of "normalize_config ks m" "normalize_config ks' m"] assms(1) s [OF assms(3,4)]
    by simp
qed

theorem normalize_order_irrelevant_witness:
  "normalize_config [''b'', '' a''] [('' a'', ''x''), (''b'', ''y'')]
     = normalize_config ['' a'', ''b''] [('' a'', ''x''), (''b'', ''y'')]"
proof -
  have t: "trim_space '' a'' = ''a''"
    using trim_space_no_space [of "''a''"] by (simp add: trim_space_def trim_left_space)
  have "keys_apart [('' a'', ''x''), (''b'', ''y'')]"
    by (auto simp: keys_apart_def oget_def t trim_space_no_space split: if_splits)
  then show ?thesis
    by (intro normalize_order_irrelevant [THEN conjunct1]) (auto simp: owf_def)
qed

section \<open>Bounds\<close>

lemma range_keys_set: "range_keys m w = (Inr ks, w') \<Longrightarrow> set ks = fst ` set m"
proof -
  have s: "sort x = sort y \<Longrightarrow> set x = set y" for x y :: "string list" by (metis set_sort)
  assume "range_keys m w = (Inr ks, w')"
  then have "sort ks = sort (List.map fst m)"
    by (auto simp: range_keys_def askM_def Let_def split: if_splits)
  from s [OF this] show ?thesis by simp
qed

lemma normalize_config_Nil [simp]: "normalize_config ks [] = []"
  by (induction ks) auto

text \<open>
  C15: a save request that is accepted has a supported line type, a name, an entry port between 1 and
  65535, one of the three outbound types, an outbound port of at most 65535 (0: not filled in yet),
  and a configuration whose keys and values carry no surrounding space and whose keys are not empty.
\<close>

theorem request_bounds:
  assumes "normalizeLineSaveRequest req w = (Inr q, w')"
  shows "isSupportedLineType (q_type q) \<and> q_name q \<noteq> '''' \<and> 0 < q_entryPort q \<and> q_entryPort q \<le> 65535
    \<and> q_outboundType q \<in> {''socks5'', ''http'', ''https''} \<and> 0 \<le> q_outboundPort q \<and> q_outboundPort q \<le> 65535
    \<and> (\<forall>k v. oget (q_config q) k = Some v \<longrightarrow> trim_space k = k \<and> k \<noteq> '''' \<and> trim_space v = v)"
proof -
  let ?ty = "trim_space (q_type req)"
  from assms obtain ks where ks: "range_keys (q_config req) w = (Inr ks, w')"
    and q: "q_config q = normalize_config ks (q_config req)" "q_type q = ?ty"
      "q_name q = (if trim_space (q_name req) = '''' then lineTypeName ?ty else trim_space (q_name req))"
      "q_entryPort q = (if q_entryPort req \<le> 0 then defaultLinePort ?ty else q_entryPort req)"
      "q_outboundPort q = q_outboundPort req"
    and g: "isSupportedLineType ?ty" "q_entryPort req > 0 \<or> defaultLinePort ?ty > 0"
      "(if q_entryPort req \<le> 0 then defaultLinePort ?ty else q_entryPort req) \<le> 65535"
      "valid_outbound_type (q_outboundType q)" "0 \<le> q_outboundPort req" "q_outboundPort req \<le> 65535"
    unfolding normalizeLineSaveRequest_def Let_def by (fastforce simp: monad_Inr)
  have "lineTypeName ?ty \<noteq> ''''"
    using g(1) by (auto simp: lineTypeName_def isSupportedLineType_def txt_cf_name_def txt_reality_name_def txt_ss_name_def)
  moreover have "\<forall>k v. oget (q_config req) k = Some v \<longrightarrow> k \<in> set ks \<or> clean_entry k v"
    using range_keys_set [OF ks] oget_None_notin [of "q_config req"] by (metis option.distinct(1))
  then have "oget (q_config q) k = Some v \<Longrightarrow> clean_entry k v" for k v
    using normalize_config_clean q(1) by metis
  ultimately show ?thesis using g q by (auto simp: clean_entry_def valid_outbound_type_def)
qed

definition sample_request :: line_save_request where
  "sample_request =
     \<lparr>q_type = ''shadowsocks_direct'', q_name = ''N'', q_entryHost = ''h'', q_entryPort = 8388,
      q_outboundType = ''socks5'', q_outboundHost = ''1.2.3.4'', q_outboundPort = 1080,
      q_outboundUsername = '''', q_outboundPassword = ''pw'', q_validFrom = None, q_validUntil = None,
      q_config = []\<rparr>"

lemma sample_request_normal:
  "\<exists>w'. normalizeLineSaveRequest sample_request w = (Inr sample_request, w')"
  by (simp add: normalizeLineSaveRequest_def sample_request_def Let_def trim_space_no_space
      isSupportedLineType_def to_lower_def lower_char_def valid_outbound_type_def monad_simps range_keys_def
      askM_def)

theorem request_bounds_witness:
  "isSupportedLineType (q_type sample_request) \<and> 0 < q_entryPort sample_request"
proof -
  obtain w' where "normalizeLineSaveRequest sample_request sample_world
      = (Inr sample_request, w')"
    using sample_request_normal by blast
  from request_bounds [OF this] show ?thesis by (simp add: sample_request_def)
qed

lemma host_value_ok:
  "validateHostValue label h = Inr () \<longleftrightarrow>
     trim_space h \<noteq> '''' \<and> (\<forall>c \<in> set (trim_space h). c \<notin> set (ws_chars @ [CHR ''/'', CHR 0x5C]))"
  by (auto simp: validateHostValue_def Let_def contains_any_def list_ex_iff)

lemma x25519_ok:
  "validateX25519Key label k = Inr () \<longleftrightarrow> (\<exists>bs. b64_rawurl_decode (trim_space k) = Some bs \<and> length bs = 32)"
  by (auto simp: validateX25519Key_def Let_def b64_rawurl_decode_def b64_clean_def split: option.splits)

lemma short_id_ok:
  "validateRealityShortID s = Inr () \<longleftrightarrow>
     trim_space s \<noteq> '''' \<and> length (trim_space s) \<le> 16 \<and> even (length (trim_space s)) \<and> list_all is_hex (trim_space s)"
  by (auto simp: validateRealityShortID_def Let_def hex_decode_ok_def)

lemma ws_path_ok: "validateWSPath raw = Inr p \<Longrightarrow>
   p = trim_space raw \<and> has_prefix p ''/'' \<and> (\<forall>c \<in> set p. c \<notin> set (ws_chars @ ''?#''))"
  by (auto simp: validateWSPath_def Let_def contains_any_def list_ex_iff split: if_splits)

lemma ws_line_ok:
  assumes "validateWSLine line c = Inr c'"
  shows "\<exists>port. parsePortString (sget c' ''localXrayPort'') = Inr port \<and> port \<noteq> l_entryPort line
    \<and> (l_type line = LineTypeBunny \<longrightarrow> port \<noteq> nginxListenPort line c' \<and> validateBunnyConfig c' = Inr ())
    \<and> has_prefix (sget c' ''wsPath'') ''/'' \<and> (\<forall>ch \<in> set (sget c' ''wsPath''). ch \<notin> set (ws_chars @ ''?#''))"
  using assms ws_path_ok
  by (auto simp: validateWSLine_def Let_def split: sum.splits if_splits)


lemma sample_validates: "validateLineForApply sample_line sample_outbound c w = (Inr (sample_outbound, c), w)"
  by (simp add: validateLineForApply_def sample_line_def sample_outbound_def Let_def trim_space_no_space
      isSupportedLineType_def isNginxWSLine_def to_lower_def lower_char_def valid_outbound_type_def monad_simps
      validateHostValue_def validatePortValue_def contains_any_def ws_chars_def)


end
