(* ===== verification/PanelRuns.thy ===== *)
theory PanelRuns
  imports Handlers RequestFacts
begin

text \<open>
  Runs of the panel: the operations of line management in any order, with any changes of the files,
  of the time and of the rest of the environment in between.  The invariant of the tables holds along
  every run, and a line whose period is over stays off until it is renewed.
\<close>

datatype panel_op =
    OpCreate line_save_request
  | OpUpdate int line_save_request
  | OpApply int
  | OpDelete int
  | OpDeleteMany "int list"
  | OpCheck int
  | OpCheckLatency int int
  | OpValidity int "int option"
  | OpRenew int "int option"
  | OpReconcile int
  | OpGet int
  | OpShare int
  | OpYAML int
  | OpReset int
  | OpPublic string

fun run_op :: "panel_op \<Rightarrow> world \<Rightarrow> world" where
  "run_op (OpCreate req) w = snd (CreateLine req w)"
| "run_op (OpUpdate lid req) w = snd (UpdateLine lid req w)"
| "run_op (OpApply lid) w = snd (ApplyLine lid w)"
| "run_op (OpDelete lid) w = snd (DeleteLine lid w)"
| "run_op (OpDeleteMany ids) w = snd (DeleteLines ids w)"
| "run_op (OpCheck lid) w = snd (CheckLine lid w)"
| "run_op (OpCheckLatency lid ms) w = snd (CheckLineWithInboundLatency lid ms w)"
| "run_op (OpValidity lid u) w = snd (UpdateLineValidity lid u w)"
| "run_op (OpRenew lid u) w = snd (RenewLine lid u w)"
| "run_op (OpReconcile now) w = snd (ReconcileLineValidity now w)"
| "run_op (OpGet lid) w = snd (GetLine lid w)"
| "run_op (OpShare lid) w = snd (GetLineShare lid w)"
| "run_op (OpYAML lid) w = snd (GetLineClashSubscriptionYAML lid w)"
| "run_op (OpReset lid) w = snd (ResetLineClashSubscription lid w)"
| "run_op (OpPublic tok) w = snd (GetPublicLineClashSubscription tok w)"

inductive panel_run :: "panel_op list \<Rightarrow> world \<Rightarrow> world \<Rightarrow> bool" where
  stop: "panel_run [] w w"
| oper: "panel_run ops (run_op opn w) w' \<Longrightarrow> panel_run (opn # ops) w w'"
| outside: "panel_run ops (w\<lparr>w_fs := fs, w_env := env, w_tick := t\<rparr>) w' \<Longrightarrow> panel_run ops w w'"

inductive_cases panel_run_nil: "panel_run [] w w'"
inductive_cases panel_run_cons: "panel_run (opn # ops) w w'"

section \<open>One operation\<close>

text \<open>The lines an operation may renew.\<close>

fun renewed :: "panel_op \<Rightarrow> int set" where
  "renewed (OpRenew lid u) = {lid}"
| "renewed _ = {}"

lemma in_renewed: "lid \<in> renewed opn \<longleftrightarrow> (\<exists>u. opn = OpRenew lid u)"
  by (cases opn) auto

lemma run_op_evolves: "evolves (renewed opn) (w_db w) (w_db (run_op opn w))"
proof -
  have m: "keepsM (db_rel (evolves X)) m \<Longrightarrow> evolves X (w_db w) (w_db (snd (m w)))" for X and m :: "'a W"
    by (drule keepsM_D [of _ _ w]) (simp add: db_rel_def)
  show ?thesis
    by (cases opn)
       (simp_all add: m safe_CreateLine safe_UpdateLine safe_ApplyLine safe_DeleteLine safe_DeleteLines
          CheckLine_def safe_checkLine safe_CheckLineWithInboundLatency safe_UpdateLineValidity
          safe_RenewLine safe_Reconcile safe_GetLine
          safe_GetLineShare safe_GetYAML ResetLineClashSubscription_def safe_clash_share_with safe_GetPublic)
qed

section \<open>Runs\<close>

lemma panel_run_evolves:
  "panel_run ops w w' \<Longrightarrow> evolves (\<Union>(renewed ` set ops)) (w_db w) (w_db w')"
proof (induction rule: panel_run.induct)
  case (stop w)
  show ?case by (rule preorderR_refl) simp
next
  case (oper ops opn w w')
  have "evolves (\<Union>(renewed ` set (opn # ops))) (w_db w) (w_db (run_op opn w))"
    by (rule evolves_mono [OF run_op_evolves]) auto
  moreover have "evolves (\<Union>(renewed ` set (opn # ops))) (w_db (run_op opn w)) (w_db w')"
    by (rule evolves_mono [OF oper.IH]) auto
  ultimately show ?case by (rule preorderR_trans [OF preorder_evolves])
next
  case (outside ops w fs env t w')
  then show ?case by simp
qed

text \<open>
  C1: the integrity of the tables is an invariant of the panel.  Along every run of operations, with
  any failures of the database, the files and the network, the keys of every table stay unique and
  below their counters, no two inbounds share a tag, no two clients an email and no two
  subscriptions a line or a digest, and every line whose
  status is expiring, expired or expiry\_failed is marked for a manual renewal.
\<close>

theorem integrity:
  assumes "panel_run ops w w'" "db_ok (w_db w)"
  shows "db_ok (w_db w')"
  using panel_run_evolves [OF assms(1)] assms(2) by (simp add: evolves_def)

lemma sample_db_ok: "db_ok sample_db"
  by (simp add: db_ok_def sample_db_def empty_db_def ids_ok_def line_ok_def sample_line_def sample_outbound_def)

theorem integrity_witness:
  "db_ok (w_db (run_op (OpReconcile 2000) (run_op (OpApply 1) sample_world)))"
proof -
  have "panel_run [OpApply 1, OpReconcile 2000] sample_world
          (run_op (OpReconcile 2000) (run_op (OpApply 1) sample_world))"
    by (rule panel_run.oper [OF panel_run.oper [OF panel_run.stop]])
  moreover have "db_ok (w_db sample_world)" by (simp add: sample_world_def sample_db_ok)
  ultimately show ?thesis by (rule integrity)
qed

lemma finish_has_error: "fst (finishLineApplyError lid e w) = Inr (d, err) \<Longrightarrow> err \<noteq> None"
  by (auto simp: finishLineApplyError_def monad_simps split: prod.splits sum.splits)

lemma ended_refused:
  assumes "ended lid (w_db w)"
  shows "fst (LineCanServe lid now w) \<noteq> Inr u" "fst (ApplyLine lid w) \<noteq> Inr (d, None)"
proof -
  have m: "l_manual line" if "first_line lid w = (Inr line, w1)" for line w1
    using that assms
    by (auto simp: first_line_def db_get_def dbM_def find_line_def Let_def ended_def
        split: option.splits prod.splits sum.splits dest: find_SomeD)
  show "fst (LineCanServe lid now w) \<noteq> Inr u"
    using m by (auto simp: LineCanServe_def bindM_apply validateLineCanApply_def split: prod.splits sum.splits)
  show "fst (ApplyLine lid w) \<noteq> Inr (d, None)"
  proof (cases "first_line lid w")
    case (Pair r w1)
    show ?thesis
    proof (cases r)
      case (Inl e)
      then show ?thesis using Pair finish_has_error [of lid e w1]
        by (auto simp: ApplyLine_def bindM_apply tryM_apply)
    next
      case (Inr line)
      then show ?thesis using Pair m
        by (auto simp: ApplyLine_def monad_simps validateLineCanApply_def time_now_apply)
    qed
  qed
qed



end
