(* ===== verification/ApplyFacts.thy ===== *)
theory ApplyFacts
  imports StmtFacts PanelRuns
begin

text \<open>
  Applying a line: what a successful apply has put in place, what a failed one leaves alone, and which
  applies are refused.
\<close>

section \<open>What an applied line needs in the database\<close>

definition inbound_up :: "db \<Rightarrow> int \<Rightarrow> string \<Rightarrow> bool" where
  "inbound_up d iid tag \<longleftrightarrow> (\<exists>i \<in> set (d_inbounds d). i_id i = iid \<and> i_tag i = tag \<and> i_enable i)"

definition client_up :: "db \<Rightarrow> int \<Rightarrow> bool" where
  "client_up d lid \<longleftrightarrow>
     (case find_client (lineManagedClientEmail lid) d of
        None \<Rightarrow> False
      | Some c \<Rightarrow> c_subId c = lineManagedClientSubID lid \<and> c_enable c)"

definition linked :: "db \<Rightarrow> int \<Rightarrow> int \<Rightarrow> bool" where
  "linked d lid iid \<longleftrightarrow>
     (case find_client (lineManagedClientEmail lid) d of
        None \<Rightarrow> False
      | Some c \<Rightarrow> (\<exists>x \<in> set (d_clientInbounds d). ci_clientId x = c_id c \<and> ci_inboundId x = iid))"

definition template_up :: "db \<Rightarrow> string \<Rightarrow> string \<Rightarrow> bool" where
  "template_up d outTag inTag \<longleftrightarrow>
     (case find_setting templateKey d of
        None \<Rightarrow> False
      | Some st \<Rightarrow>
         (case unmarshal_object (st_value st) of
            None \<Rightarrow> False
          | Some cfg \<Rightarrow> template_has outTag inTag cfg = (True, True)))"

definition xray_ready :: "int \<Rightarrow> string \<Rightarrow> int \<Rightarrow> db \<Rightarrow> bool" where
  "xray_ready lid outTag iid d \<longleftrightarrow>
     inbound_up d iid (lineInboundTag lid) \<and> client_up d lid \<and> linked d lid iid
     \<and> template_up d outTag (lineInboundTag lid)"

lemma xray_ready_cong: "runtime d' = runtime d \<Longrightarrow> xray_ready lid ot iid d' = xray_ready lid ot iid d"
  by (simp add: xray_ready_def inbound_up_def client_up_def linked_def template_up_def runtime_def
      find_client_def find_setting_def cong: option.case_cong)

section \<open>The template\<close>

lemma getSetting_Inl_db: "getSetting k w = (Inl e, w') \<Longrightarrow> w_db w' = w_db w \<and> (is_not_found e \<longrightarrow> find_setting k (w_db w) = None)"
  by (auto simp: getSetting_def db_get_def dbM_def Let_def split: option.splits prod.splits sum.splits)

lemma getSetting_Inr: "getSetting k w = (Inr st, w') \<Longrightarrow> w_db w' = w_db w \<and> find_setting k (w_db w) = Some st"
  by (simp add: getSetting_def db_get_Inr)

lemma write_template_post:
  assumes "write_template cfg w = (Inr (), w')"
  shows "\<exists>st. find_setting templateKey (w_db w') = Some st \<and> st_value st = json_marshal_indent (JObj cfg)"
proof -
  from assms obtain r w1 where g: "getSetting templateKey w = (r, w1)"
    and c: "(case r of Inl e \<Rightarrow> if is_not_found e then create_setting templateKey (json_marshal_indent (JObj cfg)) else failM e
             | Inr st \<Rightarrow> update_setting (st_id st) (json_marshal_indent (JObj cfg))) w1 = (Inr (), w')"
    by (auto simp: write_template_def Let_def monad_Inr)
  show ?thesis
  proof (cases r)
    case (Inl e)
    then show ?thesis using g c getSetting_Inl_db [of templateKey w e w1]
      by (auto simp: create_setting_def db_exec_Inr find_setting_def find_append split: if_splits)
  next
    case (Inr st)
    then show ?thesis using g c getSetting_Inr [of templateKey w st w1]
      by (auto simp: update_setting_def db_exec_Inr find_setting_def find_update_where)
  qed
qed

lemma upsert_template_post:
  assumes "upsertLineOutboundInTemplate ot it ob w = (Inr (), w')"
    and "valid_utf8 ot" "valid_utf8 it" "valid_outbound_texts ob"
  shows "template_up (w_db w') ot it"
proof -
  from assms(1) obtain cfg w1 where cfg: "wf_json (JObj cfg)"
    and wr: "write_template (template_upsert ot it ob cfg) w1 = (Inr (), w')"
    by (auto simp: upsertLineOutboundInTemplate_def monad_Inr simp del: wf_json.simps
        split: if_splits dest: decode_template_wf) (use wf_json.simps in force)
  from write_template_post [OF wr] show ?thesis
    using wf_template_upsert [OF cfg assms(2-4)]
    by (auto simp: template_up_def unmarshal_template_print template_has_upsert simp del: wf_json.simps)
qed

section \<open>The client and the inbound\<close>

lemma first_client_Inl_db:
  "first_client em w = (Inl e, w') \<Longrightarrow> w_db w' = w_db w \<and> (is_not_found e \<longrightarrow> find_client em (w_db w) = None)"
  by (auto simp: first_client_def db_get_def dbM_def Let_def split: option.splits prod.splits sum.splits)

lemma first_client_Inr:
  "first_client em w = (Inr c, w') \<Longrightarrow> w_db w' = w_db w \<and> find_client em (w_db w) = Some c"
  by (simp add: first_client_def db_get_Inr)

lemma updated_in: "r \<in> set rows \<Longrightarrow> P r \<Longrightarrow> f r \<in> set (update_where P f rows)"
  by (auto simp: update_where_def image_iff)

lemma link_client_post:
  assumes "link_client cid iid fl w = (Inr (), w')"
  shows "(\<exists>x \<in> set (d_clientInbounds (w_db w')). ci_clientId x = cid \<and> ci_inboundId x = iid)
    \<and> d_clients (w_db w') = d_clients (w_db w)"
proof -
  let ?P = "\<lambda>x. ci_clientId x = cid \<and> ci_inboundId x = iid"
  show ?thesis
  proof (cases "find ?P (d_clientInbounds (w_db w))")
    case None
    then show ?thesis using assms
      by (auto simp: link_client_def monad_Inr db_query_Inr db_exec_Inr askM_Inr)
  next
    case (Some x)
    then have x: "x \<in> set (d_clientInbounds (w_db w))" "?P x" by (auto dest: find_SomeD)
    show ?thesis
    proof (cases fl)
      case None
      then show ?thesis using assms Some x
        by (auto simp: link_client_def monad_Inr db_query_Inr)
    next
      case (Some g)
      let ?f = "\<lambda>x. x\<lparr>ci_flowOverride := g\<rparr>"
      have "?f x \<in> set (update_where ?P ?f (d_clientInbounds (w_db w)))" using x by (intro updated_in) auto
      moreover have "d_clientInbounds (w_db w') = update_where ?P ?f (d_clientInbounds (w_db w))
          \<and> d_clients (w_db w') = d_clients (w_db w)"
        using assms Some \<open>find ?P (d_clientInbounds (w_db w)) = Some x\<close>
        by (auto simp: link_client_def monad_Inr db_query_Inr db_exec_Inr)
      ultimately show ?thesis using x(2) by (auto intro!: bexI [of _ "?f x"])
    qed
  qed
qed

lemma create_client_find:
  assumes "create_client c w = (Inr cid, w')"
  shows "\<exists>now. find_client (c_email c) (w_db w') = Some (stamp_client now (c\<lparr>c_id := cid\<rparr>))"
  using assms by (auto simp: create_client_def bindM_Inr askM_Inr dbM_Inr find_client_def find_append split: if_splits)

lemma update_client_find:
  assumes "update_client (c_id r) f w = (Inr u, w')" "find_client em (w_db w) = Some r"
    "\<And>c. c_email (f c) = c_email c"
  shows "\<exists>now. find_client em (w_db w') = Some ((f r)\<lparr>c_updatedAt := now\<rparr>)"
  using assms by (auto simp: update_client_def bindM_Inr askM_Inr db_exec_Inr find_client_def find_update_where)

lemma linkedI:
  assumes "link_client cid iid fl w = (Inr (), w')" "find_client (lineManagedClientEmail lid) (w_db w) = Some c"
    "c_id c = cid" "c_subId c = lineManagedClientSubID lid" "c_enable c"
  shows "client_up (w_db w') lid \<and> linked (w_db w') lid iid"
  using link_client_post [OF assms(1)] assms(2-5) by (auto simp: client_up_def linked_def find_client_def)

lemma upsert_client_post:
  assumes "upsertLineManagedClient line iid config w = (Inr (), w')"
  shows "client_up (w_db w') (l_id line) \<and> linked (w_db w') (l_id line) iid"
proof -
  let ?em = "lineManagedClientEmail (l_id line)" and ?sub = "lineManagedClientSubID (l_id line)"
  from assms obtain flow uuid r w0 w1 w2 cid where g: "first_client ?em w0 = (r, w1)"
    and c: "(case r of
        Inl e \<Rightarrow> if is_not_found e then create_client (new_client ?em ?sub uuid '''' flow) else failM e
      | Inr old \<Rightarrow>
          if c_subId old \<noteq> ?sub then failM (owned_by_other ?em)
          else thenM (update_client (c_id old)
                 (\<lambda>c. c\<lparr>c_uuid := uuid, c_flow := flow, c_enable := True, c_subId := ?sub\<rparr>))
               (retM (c_id old))) w1 = (Inr cid, w2)"
    and l: "link_client cid iid (Some flow) w2 = (Inr (), w')"
    unfolding upsertLineManagedClient_def Let_def by (simp add: monad_Inr del: LineTypeReality_def) blast
  show ?thesis
  proof (cases r)
    case (Inl e)
    then obtain now where "find_client ?em (w_db w2) = Some (stamp_client now ((new_client ?em ?sub uuid '''' flow)\<lparr>c_id := cid\<rparr>))"
      using c create_client_find [of "new_client ?em ?sub uuid '''' flow" w1 cid w2]
      by (auto simp: new_client_def split: if_splits)
    from linkedI [OF l this] show ?thesis by (simp add: new_client_def)
  next
    case (Inr old)
    let ?f = "\<lambda>c. c\<lparr>c_uuid := uuid, c_flow := flow, c_enable := True, c_subId := ?sub\<rparr>"
    from Inr g have "find_client ?em (w_db w1) = Some old" by (auto dest: first_client_Inr)
    moreover from Inr c have "update_client (c_id old) ?f w1 = (Inr (), w2)" "cid = c_id old"
      by (auto simp: monad_Inr split: if_splits)
    ultimately obtain now where "find_client ?em (w_db w2) = Some ((?f old)\<lparr>c_updatedAt := now\<rparr>)" "cid = c_id (?f old)"
      using update_client_find [of old ?f w1 "()" w2 ?em] by auto
    from linkedI [OF l this(1)] this(2) show ?thesis by simp
  qed
qed

lemma ensure_ss_client_post:
  assumes "ensureLineManagedShadowsocksClient line w = (Inr pw, w')"
  shows "client_up (w_db w') (l_id line)"
proof -
  let ?em = "lineManagedClientEmail (l_id line)" and ?sub = "lineManagedClientSubID (l_id line)"
  from assms obtain r w1 where g: "first_client ?em w = (r, w1)"
    and c: "(case r of
          Inl e \<Rightarrow>
           if is_not_found e
           then bindM (randomShadowsocksClientKey defaultShadowsocksMethod) (\<lambda>password.
                  thenM (create_client (new_client ?em ?sub '''' password '''')) (retM password))
           else failM e
        | Inr old \<Rightarrow>
           if c_subId old \<noteq> ?sub then failM (owned_by_other ?em)
           else bindM (if validShadowsocksClientKey defaultShadowsocksMethod (c_password old)
                       then retM (c_password old)
                       else randomShadowsocksClientKey defaultShadowsocksMethod) (\<lambda>password.
                thenM (update_client (c_id old)
                         (\<lambda>c. c\<lparr>c_password := password, c_enable := True, c_subId := ?sub, c_uuid := '''', c_flow := ''''\<rparr>))
                  (retM password))) w1 = (Inr pw, w')"
    unfolding ensureLineManagedShadowsocksClient_def Let_def by (simp add: monad_Inr) blast
  have key: "m w0 = (x, w'') \<Longrightarrow> leavesM (\<lambda>d. d) m \<Longrightarrow> w_db w'' = w_db w0" for m :: "'a W" and w0 x w''
    by (drule leaves_D) auto
  show ?thesis
  proof (cases r)
    case (Inl e)
    then show ?thesis using c
      by (auto simp: monad_Inr client_up_def split: if_splits dest!: create_client_find) (auto simp: new_client_def)
  next
    case (Inr old)
    then have f: "find_client ?em (w_db w1) = Some old" using g by (auto dest: first_client_Inr)
    from Inr c obtain p w2 where p: "(if validShadowsocksClientKey defaultShadowsocksMethod (c_password old)
        then retM (c_password old) else randomShadowsocksClientKey defaultShadowsocksMethod) w1 = (Inr p, w2)"
      and u: "update_client (c_id old)
        (\<lambda>c. c\<lparr>c_password := p, c_enable := True, c_subId := ?sub, c_uuid := '''', c_flow := ''''\<rparr>) w2 = (Inr (), w')"
      by (auto simp: monad_Inr split: if_splits)
    have "w_db w2 = w_db w1" using p by (rule key) (intro keeps preorder_sameR)
    with f have "find_client ?em (w_db w2) = Some old" by simp
    from update_client_find [OF u this] show ?thesis by (auto simp: client_up_def)
  qed
qed

lemma attach_client_post:
  assumes "attachLineManagedClient line iid w = (Inr (), w')" "client_up (w_db w) (l_id line)"
  shows "client_up (w_db w') (l_id line) \<and> linked (w_db w') (l_id line) iid"
proof -
  from assms(1) obtain w1 r where "first_client (lineManagedClientEmail (l_id line)) w = (Inr r, w1)"
    and l: "link_client (c_id r) iid None w1 = (Inr (), w')"
    by (auto simp: attachLineManagedClient_def monad_Inr split: if_splits)
  then have f: "find_client (lineManagedClientEmail (l_id line)) (w_db w1) = Some r" "w_db w1 = w_db w"
    by (auto dest: first_client_Inr)
  then show ?thesis using linkedI [OF l f(1)] assms(2) by (auto simp: client_up_def)
qed

lemma db_get_result:
  "db_get f w = (r, w') \<Longrightarrow> w_db w' = w_db w \<and> (\<forall>x. r = Inr x \<longrightarrow> f (w_db w) = Some x)"
  by (auto simp: db_get_def dbM_def Let_def split: option.splits prod.splits sum.splits)

lemma optional_read:
  assumes "bindM (tryM (db_get f)) (\<lambda>r. case r of
      Inr x \<Rightarrow> retM (Some x) | Inl e \<Rightarrow> if is_not_found e then retM None else failM e) w = (Inr b, w')"
  shows "w_db w' = w_db w \<and> (\<forall>x. b = Some x \<longrightarrow> f (w_db w) = Some x)"
proof -
  obtain r w1 where r: "db_get f w = (r, w1)" by (cases "db_get f w")
  with assms db_get_result [OF r] show ?thesis
    by (cases r) (auto simp: bindM_apply tryM_apply split: if_splits)
qed

lemma find_existing_post:
  assumes "find_existing_inbound line w = (Inr ex, w')"
  shows "w_db w' = w_db w \<and> (\<forall>i. ex = Some i \<longrightarrow> i \<in> set (d_inbounds (w_db w)))"
proof -
  let ?byId = "case l_inboundId line of
      Some iid \<Rightarrow> if iid > 0 then bindM (tryM (first_inbound iid)) (\<lambda>r. case r of
          Inr ib \<Rightarrow> retM (Some ib) | Inl e \<Rightarrow> if is_not_found e then retM None else failM e) else retM None
    | None \<Rightarrow> retM None"
  from assms obtain b w1 where b: "?byId w = (Inr b, w1)"
    and t: "(case b of Some ib \<Rightarrow> retM (Some ib)
       | None \<Rightarrow> bindM (tryM (first_inbound_tag (lineInboundTag (l_id line)))) (\<lambda>r. case r of
           Inr ib \<Rightarrow> retM (Some ib) | Inl e \<Rightarrow> if is_not_found e then retM None else failM e)) w1 = (Inr ex, w')"
    unfolding find_existing_inbound_def bindM_Inr by blast
  have 1: "w_db w1 = w_db w \<and> (\<forall>i. b = Some i \<longrightarrow> i \<in> set (d_inbounds (w_db w)))"
    using b by (auto simp: first_inbound_def find_inbound_def
        split: option.splits if_splits dest!: optional_read find_SomeD)
  have 2: "w_db w' = w_db w1 \<and> (\<forall>i. ex = Some i \<longrightarrow> b = Some i \<or> i \<in> set (d_inbounds (w_db w1)))"
    using t by (cases b) (auto simp: first_inbound_tag_def find_inbound_tag_def dest!: optional_read find_SomeD)
  from 1 2 show ?thesis by auto
qed

lemma save_inbound_post:
  assumes "save_inbound ex ib w = (Inr iid, w')" "\<And>i. ex = Some i \<Longrightarrow> i \<in> set (d_inbounds (w_db w))"
    "i_enable ib"
  shows "inbound_up (w_db w') iid (i_tag ib)"
proof (cases "existing_id ex > 0")
  case True
  then obtain i where i: "ex = Some i" by (cases ex) (auto simp: existing_id_def)
  with assms have "i \<in> set (d_inbounds (w_db w))" by blast
  with True i have "overwrite_inbound ib i \<in>
      set (update_where (\<lambda>j. i_id j = existing_id ex) (overwrite_inbound ib) (d_inbounds (w_db w)))"
    by (intro updated_in) (simp_all add: existing_id_def)
  with assms(1, 3) True i show ?thesis
    by (auto simp: save_inbound_def monad_Inr update_inbound_def dbM_Inr inbound_up_def existing_id_def
        split: if_splits intro!: bexI [of _ "overwrite_inbound ib i"]) (simp_all add: overwrite_inbound_def)
next
  case False
  with assms(1, 3) show ?thesis
    by (auto simp: save_inbound_def create_inbound_def dbM_Inr inbound_up_def split: if_splits)
qed

section \<open>The executors\<close>

lemma ascii_itoa [simp]: "list_all (\<lambda>c. byte c < 0x80) (itoa i)"
  using itoa_chars [of _ i] by (fastforce simp: list_all_iff is_digit_def)

lemma valid_tags [simp]: "valid_utf8 (lineInboundTag i)" "valid_utf8 (lineOutboundTag i)"
  unfolding lineInboundTag_def lineOutboundTag_def
  by (rule valid_utf8_ascii, simp only: list_all_append ascii_itoa, simp)+

lemma finish_xray_post:
  assumes "finish_xray line ob iid cj w = (Inr line', w')"
    and "inbound_up (w_db w) iid (lineInboundTag (l_id line))" "client_up (w_db w) (l_id line)"
    "linked (w_db w) (l_id line) iid" "valid_utf8 (l_outboundTag line)" "valid_outbound_texts ob"
  shows "xray_ready (l_id line) (l_outboundTag line) iid (w_db w') \<and> l_id line' = l_id line
    \<and> l_outboundTag line' = l_outboundTag line \<and> l_type line' = l_type line"
proof -
  from assms(1) obtain w1 w2 where
    t: "upsertLineOutboundInTemplate (l_outboundTag line) (lineInboundTag (l_id line)) ob w = (Inr (), w1)"
    and u: "model_line_updates line (\<lambda>l. l\<lparr>l_inboundId := Some iid, l_outboundTag := l_outboundTag line,
              l_configJSON := (case cj of Some c \<Rightarrow> c | None \<Rightarrow> l_configJSON l)\<rparr>) w1 = (Inr line', w2)"
    and o: "model_outbound_update ob (\<lambda>b. b\<lparr>o_tag := l_outboundTag line\<rparr>) w2 = (Inr (), w')"
    by (auto simp: finish_xray_def monad_Inr)
  from upsert_template_post [OF t assms(5) valid_tags(1) assms(6)]
  have "template_up (w_db w1) (l_outboundTag line) (lineInboundTag (l_id line))" .
  moreover have "inbound_up (w_db w1) iid (lineInboundTag (l_id line))" "client_up (w_db w1) (l_id line)"
    "linked (w_db w1) (l_id line) iid"
    using leaves_D [OF leaves_upsert_template t] assms(2-4)
    by (auto simp: inbound_up_def client_up_def linked_def find_client_def cong: option.case_cong)
  moreover have "runtime (w_db w2) = runtime (w_db w1)" by (rule leaves_D [OF leaves_line_update u])
  moreover have "leavesM runtime (model_outbound_update ob (\<lambda>b. b\<lparr>o_tag := l_outboundTag line\<rparr>))"
    by (intro keeps stmts) (auto simp: sameR_def runtime_def)
  then have "runtime (w_db w') = runtime (w_db w2)" using o by (rule leaves_D)
  ultimately have "xray_ready (l_id line) (l_outboundTag line) iid (w_db w1)"
    and rt: "runtime (w_db w') = runtime (w_db w1)" by (simp_all add: xray_ready_def)
  with xray_ready_cong [OF rt] have "xray_ready (l_id line) (l_outboundTag line) iid (w_db w')" by simp
  with u show ?thesis by (auto simp: model_line_updates_Inr)
qed

lemma with_outbound_tag_id [simp]:
  "l_id (with_outbound_tag line) = l_id line" "l_type (with_outbound_tag line) = l_type line"
  by (simp_all add: with_outbound_tag_def)

lemma valid_with_outbound_tag: "valid_utf8 (l_outboundTag line) \<Longrightarrow> valid_utf8 (l_outboundTag (with_outbound_tag line))"
  by (simp add: with_outbound_tag_def)

lemma build_ws_post:
  "buildCloudflareInbound line tag p ws c w = (Inr (ib, c'), w') \<Longrightarrow> i_tag ib = tag \<and> i_enable ib \<and> w_db w' = w_db w"
  by (auto simp: buildCloudflareInbound_def monad_Inr line_inbound_def take_clientId_def Let_def new_uuid_def askM_Inr
      split: if_splits prod.splits)

lemma build_reality_post:
  "buildRealityInbound line tag c w = (Inr (ib, c'), w') \<Longrightarrow> i_tag ib = tag \<and> i_enable ib \<and> w_db w' = w_db w"
  by (auto simp: buildRealityInbound_def monad_Inr line_inbound_def take_clientId_def Let_def new_uuid_def askM_Inr
      split: if_splits prod.splits)

lemma build_ss_post:
  assumes "buildShadowsocksInbound line tag k1 k2 w = (Inr ib, w')"
  shows "i_tag ib = tag \<and> i_enable ib \<and> w_db w' = w_db w"
proof -
  have "leavesM (\<lambda>d. d) (buildShadowsocksInbound line tag k1 k2)" by (intro keeps preorder_sameR)
  from leaves_D [OF this assms] show ?thesis using assms
    by (auto simp: buildShadowsocksInbound_def monad_Inr line_inbound_def)
qed

text \<open>The steps the three executors share, after the inbound has been built.\<close>

lemma written_inbound:
  assumes "save_inbound ex ib w1 = (Inr iid, w2)" "find_existing_inbound line w = (Inr ex, w0)"
    "d_inbounds (w_db w1) = d_inbounds (w_db w)" "i_enable ib" "i_tag ib = tag"
    "leavesM d_inbounds m" "m w2 = (Inr u, w3)"
  shows "inbound_up (w_db w3) iid tag"
proof -
  have "inbound_up (w_db w2) iid tag"
    using save_inbound_post [OF assms(1)] find_existing_post [OF assms(2)] assms(3-5) by auto
  with leaves_D [OF assms(6, 7)] show ?thesis by (simp add: inbound_up_def)
qed

lemma applyCloudflareXray_post:
  assumes "applyCloudflareXray line0 ob cfg w = (Inr (iid, line', cfg'), w')"
    and "valid_utf8 (l_outboundTag line0)" "valid_outbound_texts ob"
  shows "xray_ready (l_id line0) (l_outboundTag line') iid (w_db w') \<and> l_id line' = l_id line0 \<and> l_type line' = l_type line0"
proof -
  let ?l = "with_outbound_tag line0"
  from assms(1) obtain ex n w0 w1 w2 ib c p ws c1 w3 w4 c2 where
    ex: "find_existing_inbound ?l w0 = (Inr ex, w1)"
    and n: "count_port_conflicts p (existing_id ex) w1 = (Inr n, w2)"
    and b: "buildCloudflareInbound ?l (lineInboundTag (l_id ?l)) p ws c1 w2 = (Inr (ib, c2), w3)"
    and s: "save_inbound ex ib w3 = (Inr iid, w4)"
    and rest: "thenM (upsertLineManagedClient ?l iid c2)
       (bindM (finish_xray ?l ob iid (Some (encodeLineConfig c2))) (\<lambda>line'. retM (iid, line', c2))) w4
       = (Inr (iid, line', cfg'), w')"
    unfolding applyCloudflareXray_def Let_def by (auto simp: monad_Inr)
  from rest obtain w5 where u: "upsertLineManagedClient ?l iid c2 w4 = (Inr (), w5)"
    and f: "finish_xray ?l ob iid (Some (encodeLineConfig c2)) w5 = (Inr line', w')"
    by (auto simp: monad_Inr)
  have "w_db w2 = w_db w1" using n by (simp add: count_port_conflicts_def db_query_Inr)
  with find_existing_post [OF ex] build_ws_post [OF b]
  have d: "d_inbounds (w_db w3) = d_inbounds (w_db w0)" by simp
  have "inbound_up (w_db w5) iid (lineInboundTag (l_id ?l))"
    using written_inbound [OF s ex d _ _ leaves_upsert_client u] build_ws_post [OF b] by simp
  with finish_xray_post [OF f] upsert_client_post [OF u] valid_with_outbound_tag [OF assms(2)] assms(3)
  show ?thesis by auto
qed

lemma applyRealityXray_post:
  assumes "applyRealityXray line0 ob cfg w = (Inr (iid, line', cfg'), w')"
    and "valid_utf8 (l_outboundTag line0)" "valid_outbound_texts ob"
  shows "xray_ready (l_id line0) (l_outboundTag line') iid (w_db w') \<and> l_id line' = l_id line0 \<and> l_type line' = l_type line0"
proof -
  let ?l = "with_outbound_tag line0"
  from assms(1) obtain ex n w0 w1 w2 ib c1 w3 w4 c2 where
    ex: "find_existing_inbound ?l w0 = (Inr ex, w1)"
    and n: "count_port_conflicts (l_entryPort ?l) (existing_id ex) w1 = (Inr n, w2)"
    and b: "buildRealityInbound ?l (lineInboundTag (l_id ?l)) c1 w2 = (Inr (ib, c2), w3)"
    and s: "save_inbound ex ib w3 = (Inr iid, w4)"
    and rest: "thenM (upsertLineManagedClient ?l iid c2)
       (bindM (finish_xray ?l ob iid (Some (encodeLineConfig c2))) (\<lambda>line'. retM (iid, line', c2))) w4
       = (Inr (iid, line', cfg'), w')"
    unfolding applyRealityXray_def Let_def by (auto simp: monad_Inr)
  from rest obtain w5 where u: "upsertLineManagedClient ?l iid c2 w4 = (Inr (), w5)"
    and f: "finish_xray ?l ob iid (Some (encodeLineConfig c2)) w5 = (Inr line', w')"
    by (auto simp: monad_Inr)
  have "w_db w2 = w_db w1" using n by (simp add: count_port_conflicts_def db_query_Inr)
  with find_existing_post [OF ex] build_reality_post [OF b]
  have d: "d_inbounds (w_db w3) = d_inbounds (w_db w0)" by simp
  have "inbound_up (w_db w5) iid (lineInboundTag (l_id ?l))"
    using written_inbound [OF s ex d _ _ leaves_upsert_client u] build_reality_post [OF b] by simp
  with finish_xray_post [OF f] upsert_client_post [OF u] valid_with_outbound_tag [OF assms(2)] assms(3)
  show ?thesis by auto
qed

lemma applyShadowsocksXray_post:
  assumes "applyShadowsocksXray line0 ob w = (Inr (iid, line'), w')"
    and "valid_utf8 (l_outboundTag line0)" "valid_outbound_texts ob"
  shows "xray_ready (l_id line0) (l_outboundTag line') iid (w_db w') \<and> l_id line' = l_id line0 \<and> l_type line' = l_type line0"
proof -
  let ?l = "with_outbound_tag line0"
  from assms(1) obtain ex n w0 w1 w2 pw wp ib k w3 w4 where
    ex: "find_existing_inbound ?l w0 = (Inr ex, w1)"
    and n: "count_port_conflicts (l_entryPort ?l) (existing_id ex) w1 = (Inr n, w2)"
    and c: "ensureLineManagedShadowsocksClient ?l w2 = (Inr pw, wp)"
    and b: "buildShadowsocksInbound ?l (lineInboundTag (l_id ?l)) k pw wp = (Inr ib, w3)"
    and s: "save_inbound ex ib w3 = (Inr iid, w4)"
    and rest: "thenM (attachLineManagedClient ?l iid)
       (bindM (finish_xray ?l ob iid None) (\<lambda>line'. retM (iid, line'))) w4 = (Inr (iid, line'), w')"
    unfolding applyShadowsocksXray_def Let_def by (auto simp: monad_Inr)
  from rest obtain w5 where u: "attachLineManagedClient ?l iid w4 = (Inr (), w5)"
    and f: "finish_xray ?l ob iid None w5 = (Inr line', w')"
    by (auto simp: monad_Inr)
  have "w_db w2 = w_db w1" using n by (simp add: count_port_conflicts_def db_query_Inr)
  with find_existing_post [OF ex] build_ss_post [OF b] leaves_D [OF leaves_ensure_ss_client c]
  have d: "d_inbounds (w_db w3) = d_inbounds (w_db w0)" by simp
  have "inbound_up (w_db w5) iid (lineInboundTag (l_id ?l))"
    using written_inbound [OF s ex d _ _ leaves_attach_client u] build_ss_post [OF b] by simp
  moreover have "leavesM d_clients (save_inbound ex ib)"
    unfolding save_inbound_def by (intro keeps stmts) (auto simp: sameR_def)
  then have "d_clients (w_db w4) = d_clients (w_db w3)" using s by (rule leaves_D)
  then have "client_up (w_db w4) (l_id ?l)"
    using ensure_ss_client_post [OF c] build_ss_post [OF b] by (simp add: client_up_def find_client_def)
  with attach_client_post [OF u] have "client_up (w_db w5) (l_id ?l) \<and> linked (w_db w5) (l_id ?l) iid" by simp
  ultimately show ?thesis
    using finish_xray_post [OF f] valid_with_outbound_tag [OF assms(2)] assms(3) by auto
qed

lemma applyLineXray_post:
  assumes "applyLineXray line0 ob cfg w = (Inr (iid, line', cfg'), w')"
    and "valid_utf8 (l_outboundTag line0)" "valid_outbound_texts ob"
  shows "xray_ready (l_id line0) (l_outboundTag line') iid (w_db w') \<and> l_id line' = l_id line0 \<and> l_type line' = l_type line0"
  using assms applyCloudflareXray_post [of line0 ob cfg w iid line' cfg' w']
    applyRealityXray_post [of line0 ob cfg w iid line' cfg' w']
    applyShadowsocksXray_post [of line0 ob w iid line' w']
  by (auto simp: applyLineXray_def bindM_Inr split: if_splits)

section \<open>The transaction\<close>

lemma bindM_E:
  assumes "bindM m f s = (Inr x, s')"
  obtains y s1 where "m s = (Inr y, s1)" "f y s1 = (Inr x, s')"
  using assms by (auto simp: bindM_Inr)

lemma thenM_E:
  assumes "thenM m n s = (Inr x, s')"
  obtains y s1 where "m s = (Inr y, s1)" "n s1 = (Inr x, s')"
  using assms by (auto simp: thenM_Inr)

lemma prodM_E:
  assumes "(case p of (a, b) \<Rightarrow> f a b) s = (Inr x, s')"
  obtains a b where "p = (a, b)" "f a b s = (Inr x, s')"
  using assms by (cases p) auto

lemma failM_if_E:
  assumes "(if b then failM e else m) s = (Inr x, s')"
  obtains "\<not> b" "m s = (Inr x, s')"
  using assms by (cases b) auto

lemmas steps_E = bindM_E thenM_E prodM_E failM_if_E

text \<open>The steps of a committed apply.\<close>

lemma applyLineTx_E:
  assumes "applyLineTx lid rp bp w = (Inr (), w')"
  obtains line w1 now w2 u3 w3 u4 w4 config w5 line1 w6 ob0 w7 u8 w8 plan w9 u10 w10 ob config1 w11 u12 w12
    u13 w13 u14 w14 iid line2 config2 w15 u16 w16 u17 w17 line3 w18 where
    "first_line lid w = (Inr line, w1)" "time_now w1 = (Inr now, w2)"
    "liftM (validateLineCanApply line now) w2 = (Inr u3, w3)" "liftM (check_fresh rp bp line) w3 = (Inr u4, w4)"
    "apply_config rp bp line w4 = (Inr config, w5)"
    "model_line_updates line (\<lambda>l. l\<lparr>l_status := ''applying'', l_lastError := '''',
        l_configJSON := encodeLineConfig config\<rparr>) w5 = (Inr line1, w6)"
    "mapErrM (\<lambda>e. if is_not_found e then missing_outbound else e) (first_outbound lid) w6 = (Inr ob0, w7)"
    "guardM (case rp of None \<Rightarrow> True | Some p \<Rightarrow> o_updatedAt ob0 = rp_sourceOutboundUpdatedAt p)
        (reality_stale ''The residential outbound'') w7 = (Inr u8, w8)"
    "buildLineApplyPlan line1 (Some ob0) config w8 = (Inr plan, w9)"
    "createLineLog lid ''apply'' ''info'' txt_apply_start txt_apply_start_detail w9 = (Inr u10, w10)"
    "mapErrM (wrapLineApplyFailure ''validate'' ''Line apply validation failed'')
        (validateLineForApply line1 ob0 config) w10 = (Inr (ob, config1), w11)"
    "createLineLog lid ''validate'' ''info'' txt_validated (join NL (p_summary plan)) w11 = (Inr u12, w12)"
    "(case rp of None \<Rightarrow> retM ()
      | Some p \<Rightarrow> createLineLog lid ''reality_preflight'' ''info'' txt_reality_ok (rp_detail p)) w12 = (Inr u13, w13)"
    "createLineLog lid ''xray'' ''info'' txt_xray_draft txt_xray_draft_detail w13 = (Inr u14, w14)"
    "\<not> \<not> isSupportedLineType (l_type line1)"
    "mapErrM (wrapLineApplyFailure ''xray'' ''Write Xray inbound/outbound failed'')
        (applyLineXray line1 ob config1) w14 = (Inr (iid, line2, config2), w15)"
    "createLineLog lid ''xray'' ''info'' txt_xray_written
        (''inboundId='' @ itoa iid @ '' outboundTag='' @ l_outboundTag line2) w15 = (Inr u16, w16)"
    "apply_nginx_part line2 config2 w16 = (Inr u17, w17)"
    "model_line_updates line2 (\<lambda>l. l\<lparr>l_status := ''pending_check'', l_lastError := '''',
        l_inboundId := Some iid\<rparr>) w17 = (Inr line3, w18)"
    "retM () w18 = (Inr (), w')"
  using assms unfolding applyLineTx_def
  by (elim steps_E) (hypsubst, rule that, assumption+)

section \<open>The row of the line\<close>

definition line_ids :: "db \<Rightarrow> int list" where
  "line_ids d = List.map l_id (d_lines d)"

text \<open>The lines, up to the configuration and the time of the last change.\<close>

definition settled :: "db \<Rightarrow> line_profile list" where
  "settled d = List.map (\<lambda>l. l\<lparr>l_configJSON := '''', l_updatedAt := 0\<rparr>) (d_lines d)"

lemma find_line_ids: "find_line lid d \<noteq> None \<longleftrightarrow> lid \<in> set (line_ids d)"
  by (auto simp: find_line_def line_ids_def find_None_iff)

lemma line_ids_upd: "(\<And>l. l_id (f l) = l_id l) \<Longrightarrow> line_ids (upd_lines P f now d) = line_ids d"
  by (simp add: line_ids_def upd_lines_def map_update_where)

lemma settled_find:
  assumes "settled d' = settled d" "find_line lid d = Some line"
  obtains line' where "find_line lid d' = Some line'"
    "line'\<lparr>l_configJSON := '''', l_updatedAt := 0\<rparr> = line\<lparr>l_configJSON := '''', l_updatedAt := 0\<rparr>"
proof -
  let ?s = "\<lambda>l. l\<lparr>l_configJSON := '''', l_updatedAt := 0\<rparr>"
  have "map_option ?s (find_line lid e) = find (\<lambda>l. l_id l = lid) (settled e)" for e
    by (simp add: find_line_def settled_def find_map_eq)
  then have "map_option ?s (find_line lid d') = map_option ?s (find_line lid d)" using assms(1) by simp
  with assms(2) that show thesis by auto
qed

lemma leaves_settled_getLine: "leavesM settled (getLine lid b)"
  unfolding getLine_def Let_def
  by (intro keeps stmts) (auto simp: sameR_def settled_def upd_lines_def map_update_where)

lemma leaves_ids_xray: "leavesM line_ids (applyLineXray line ob config)"
  unfolding applyLineXray_def applyCloudflareXray_def applyRealityXray_def applyShadowsocksXray_def
    require_outbound_def save_inbound_def upsertLineManagedClient_def ensureLineManagedShadowsocksClient_def
    attachLineManagedClient_def finish_xray_def upsertLineOutboundInTemplate_def getXrayTemplateConfigTx_def
    write_template_def Let_def
  by (intro keeps stmts) (auto simp: sameR_def line_ids_upd, simp_all add: line_ids_def)

lemma applyLineXray_finish:
  assumes "applyLineXray line0 ob cfg w = (Inr (iid, line', cfg'), w')"
  obtains l1 w1 cj where "finish_xray l1 ob iid cj w1 = (Inr line', w')" "l_id l1 = l_id line0" "l_type l1 = l_type line0"
  using assms
  by (auto simp: applyLineXray_def applyCloudflareXray_def applyRealityXray_def applyShadowsocksXray_def
      Let_def monad_Inr split: if_splits)

lemma finish_xray_row:
  assumes "finish_xray l1 ob iid cj w = (Inr line', w')" "l_id l1 \<in> set (line_ids (w_db w'))"
  shows "\<exists>r. find_line (l_id l1) (w_db w') = Some r \<and> l_outboundTag r = l_outboundTag line' \<and> l_id line' = l_id l1"
proof -
  let ?f = "\<lambda>l. l\<lparr>l_inboundId := Some iid, l_outboundTag := l_outboundTag l1,
              l_configJSON := (case cj of Some c \<Rightarrow> c | None \<Rightarrow> l_configJSON l)\<rparr>"
  from assms(1) obtain w1 w2 where u: "model_line_updates l1 ?f w1 = (Inr line', w2)"
    and o: "model_outbound_update ob (\<lambda>b. b\<lparr>o_tag := l_outboundTag l1\<rparr>) w2 = (Inr (), w')"
    by (auto simp: finish_xray_def monad_Inr)
  have "leavesM d_lines (model_outbound_update ob (\<lambda>b. b\<lparr>o_tag := l_outboundTag l1\<rparr>))"
    by (intro keeps stmts) (auto simp: sameR_def)
  then have d: "d_lines (w_db w') = d_lines (w_db w2)" using o by (rule leaves_D)
  have "line_ids (w_db w2) = line_ids (w_db w1)" using u by (simp add: model_line_updates_Inr line_ids_upd)
  then have "l_id l1 \<in> set (line_ids (w_db w1))" using assms(2) d by (simp add: line_ids_def)
  then obtain y where y: "find_line (l_id l1) (w_db w1) = Some y" using find_line_ids by blast
  then have "l_id y = l_id l1" by (rule find_line_id [THEN conjunct1])
  with u y have "find_line (l_id l1) (w_db w2) = Some ((?f y)\<lparr>l_updatedAt := e_clock (w_env w1) (w_tick w1)\<rparr>)"
    by (auto simp: model_line_updates_Inr find_line_upd)
  with d have "find_line (l_id l1) (w_db w') = Some ((?f y)\<lparr>l_updatedAt := e_clock (w_env w1) (w_tick w1)\<rparr>)"
    by (simp add: find_line_def)
  with u show ?thesis by (auto simp: model_line_updates_Inr)
qed

section \<open>The committed apply\<close>

definition applied :: "int \<Rightarrow> db \<Rightarrow> bool" where
  "applied lid d \<longleftrightarrow>
     (\<exists>line iid. find_line lid d = Some line \<and> l_status line = ''pending_check'' \<and> l_lastError line = ''''
        \<and> l_inboundId line = Some iid \<and> xray_ready lid (l_outboundTag line) iid d)"

text \<open>All texts of the rows are UTF-8, as they are when they came from JSON.\<close>

definition db_texts :: "db \<Rightarrow> bool" where
  "db_texts d \<longleftrightarrow> (\<forall>b \<in> set (d_outbounds d). valid_outbound_texts b)
     \<and> (\<forall>l \<in> set (d_lines d). valid_utf8 (l_outboundTag l))"

lemma validated_outbound:
  assumes "validateLineForApply line ob c w = (Inr (ob', c'), w')" "valid_outbound_texts ob"
  shows "valid_outbound_texts ob'"
proof -
  from assms(1) have "ob' = ob\<lparr>o_type := to_lower (trim_space (o_type ob))\<rparr>"
    "valid_outbound_type (to_lower (trim_space (o_type ob)))"
    unfolding validateLineForApply_def Let_def
    by (auto simp: monad_Inr isNginxWSLine_def simp del: checks.simps split: if_splits)
  then show ?thesis using assms(2) by (auto simp: valid_outbound_texts_def valid_outbound_type_def)
qed

lemma lines_D: "leavesM d_lines m \<Longrightarrow> m w = (r, w') \<Longrightarrow> d_lines (w_db w') = d_lines (w_db w)"
  by (rule leaves_D)

lemma lines_log: "leavesM d_lines (createLineLog lid a b c e)"
  by (intro keeps stmts) (auto simp: sameR_def)

lemma lines_nginx_part: "leavesM d_lines (apply_nginx_part line config)"
  unfolding apply_nginx_part_def by (intro keeps lines_log preorder_sameR)

lemma applyLineTx_post:
  assumes "applyLineTx lid rp bp w = (Inr (), w')" "db_texts (w_db w)"
  shows "applied lid (w_db w')"
  using assms(1)
proof (rule applyLineTx_E, goal_cases)
  case (1 line w1 now w2 u3 w3 u4 w4 config w5 line1 w6 ob0 w7 u8 w8 plan w9 u10 w10 ob config1 w11 u12 w12
    u13 w13 u14 w14 iid line2 config2 w15 u16 w16 u17 w17 line3 w18)
  note s = this
  have w1: "w_db w1 = w_db w" "find_line lid (w_db w) = Some line" using s(1) by (auto simp: first_line_Inr)
  then have line: "l_id line = lid" "line \<in> set (d_lines (w_db w))" by (auto dest: find_line_id)
  have w4: "w_db w4 = w_db w" using w1 s(2-4) by (auto simp: time_now_Inr)
  have "leavesM (\<lambda>d. d) (apply_config rp bp line)" unfolding apply_config_def Let_def by (intro keeps preorder_sameR)
  with w4 s(5) have w5: "w_db w5 = w_db w" by (auto dest: leaves_D)
  have l1: "l_id line1 = lid" "l_type line1 = l_type line" "l_outboundTag line1 = l_outboundTag line"
    and w6: "d_outbounds (w_db w6) = d_outbounds (w_db w)" using s(6) w5 line by (auto simp: model_line_updates_Inr)
  have "ob0 \<in> set (d_outbounds (w_db w6))"
    using s(7) by (auto simp: mapErrM_Inr first_outbound_def db_get_Inr find_outbound_def dest: find_SomeD)
  then have "valid_outbound_texts ob0" using w6 assms(2) by (auto simp: db_texts_def)
  with s(11) have ob: "valid_outbound_texts ob" by (auto simp: mapErrM_Inr dest: validated_outbound)
  have x: "applyLineXray line1 ob config1 w14 = (Inr (iid, line2, config2), w15)" using s(16) by (simp add: mapErrM_Inr)
  have "valid_utf8 (l_outboundTag line1)" using l1 line assms(2) by (auto simp: db_texts_def)
  from applyLineXray_post [OF x this ob] l1
  have ready: "xray_ready lid (l_outboundTag line2) iid (w_db w15)" "l_id line2 = lid" by auto
  have l6: "line_ids (w_db w6) = line_ids (w_db w)" using s(6) w5 by (auto simp: model_line_updates_Inr line_ids_upd)
  have "d_lines (w_db w7) = d_lines (w_db w6)" using s(7) by (rule lines_D [rotated]) (intro keeps preorder_sameR)
  moreover have "w_db w8 = w_db w7" using s(8) by (simp add: guardM_Inr)
  moreover have "d_lines (w_db w9) = d_lines (w_db w8)" using s(9) by (rule lines_D [rotated]) (intro keeps preorder_sameR)
  moreover have "d_lines (w_db w11) = d_lines (w_db w10)" using s(11) by (rule lines_D [rotated]) (intro keeps preorder_sameR)
  moreover have "d_lines (w_db w13) = d_lines (w_db w12)"
    using s(13) by (rule lines_D [rotated]) (intro keeps lines_log preorder_sameR)
  ultimately have "d_lines (w_db w14) = d_lines (w_db w6)"
    using lines_D [OF lines_log s(10)] lines_D [OF lines_log s(12)] lines_D [OF lines_log s(14)] by simp
  then have "line_ids (w_db w15) = line_ids (w_db w)" using leaves_D [OF leaves_ids_xray x] l6 by (simp add: line_ids_def)
  moreover have "lid \<in> set (line_ids (w_db w))" using line by (auto simp: line_ids_def)
  ultimately obtain r where r: "find_line lid (w_db w15) = Some r" "l_outboundTag r = l_outboundTag line2"
    using applyLineXray_finish [OF x] finish_xray_row l1 by metis
  have "d_lines (w_db w17) = d_lines (w_db w15)"
    using lines_D [OF lines_log s(17)] lines_D [OF lines_nginx_part s(18)] by simp
  moreover have "runtime (w_db w17) = runtime (w_db w15)"
    using leaves_D [OF leaves_log s(17)] leaves_D [OF leaves_nginx_part s(18)] by simp
  ultimately have "find_line lid (w_db w17) = Some r" "runtime (w_db w17) = runtime (w_db w15)"
    using r by (simp_all add: find_line_def)
  moreover have "w_db w' = upd_lines (\<lambda>l. l_id l = lid) (\<lambda>l. l\<lparr>l_status := ''pending_check'', l_lastError := '''',
      l_inboundId := Some iid\<rparr>) (e_clock (w_env w17) (w_tick w17)) (w_db w17)"
    using s(19, 20) ready by (auto simp: model_line_updates_Inr)
  moreover from this have "runtime (w_db w') = runtime (w_db w17)" by (simp add: runtime_def)
  ultimately have "find_line lid (w_db w') = Some (r\<lparr>l_status := ''pending_check'', l_lastError := '''',
      l_inboundId := Some iid, l_updatedAt := e_clock (w_env w17) (w_tick w17)\<rparr>)"
    "xray_ready lid (l_outboundTag r) iid (w_db w')"
    using ready r xray_ready_cong [of "w_db w'" "w_db w15"] by (simp_all add: find_line_upd find_line_id)
  then show ?case by (simp add: applied_def)
qed

section \<open>The outcomes of an apply\<close>

lemma leaves_all: "leavesM (\<lambda>d. d) m \<Longrightarrow> m w = (r, w') \<Longrightarrow> w_db w' = w_db w"
  by (drule leaves_D) auto

lemma preflight_reads:
  "leavesM (\<lambda>d. d) (if b then bindM (prepareRealityApply lid) (\<lambda>p. retM (Some p)) else retM None)"
  "leavesM (\<lambda>d. d) (if b then bindM (prepareBunnyApply lid) (\<lambda>p. retM (Some p)) else retM None)"
  by (intro keeps preorder_sameR)+

lemma ApplyLine_outcome:
  assumes "ApplyLine lid w = (r, w')"
  obtains (failed) e w1 where "finishLineApplyError lid e w1 = (r, w')" "w_db w1 = w_db w"
  | (refused) e where "r = Inr (None, Some e)" "w_db w' = w_db w" "w_fs w' = w_fs w"
  | (committed) rp bp w1 w2 d where "w_db w1 = w_db w" "transactionM (applyLineTx lid rp bp) w1 = (Inr (), w2)"
      "GetLine lid w2 = (d, w')" "r = Inr (case d of Inl e \<Rightarrow> (None, Some e) | Inr detail \<Rightarrow> (Some detail, None))"
proof -
  obtain r0 w0 where f: "first_line lid w = (r0, w0)" by (cases "first_line lid w")
  have w0: "w_db w0 = w_db w" "w_fs w0 = w_fs w"
    using f by (auto simp: first_line_def db_get_def dbM_def Let_def split: option.splits prod.splits sum.splits)
  show thesis
  proof (cases r0)
    case (Inl e)
    with assms f w0 show thesis by (intro failed [of e w0]) (simp_all add: ApplyLine_def bindM_apply tryM_apply)
  next
    case (Inr line)
    let ?now = "e_clock (w_env w0) (w_tick w0)" and ?w1 = "w0\<lparr>w_tick := Suc (w_tick w0)\<rparr>"
    show thesis
    proof (cases "validateLineCanApply line ?now")
      case (Inl e)
      with assms f w0 Inr show thesis
        by (intro refused [of e]) (auto simp: ApplyLine_def bindM_apply tryM_apply time_now_apply)
    next
      case ok: (Inr u)
      let ?rp = "if l_type line = LineTypeReality then bindM (prepareRealityApply lid) (\<lambda>p. retM (Some p)) else retM None"
      let ?bp = "if l_type line = LineTypeBunny then bindM (prepareBunnyApply lid) (\<lambda>p. retM (Some p)) else retM None"
      obtain rp w2 where rp: "?rp ?w1 = (rp, w2)" by (cases "?rp ?w1")
      then have w2: "w_db w2 = w_db w" using leaves_all [OF preflight_reads(1) rp] w0 by simp
      have start: "ApplyLine lid w = (case rp of Inl err \<Rightarrow> finishLineApplyError lid err w2
          | Inr rp \<Rightarrow> bindM (tryM ?bp) (\<lambda>bp0. case bp0 of
              Inl err \<Rightarrow> finishLineApplyError lid err
            | Inr bp \<Rightarrow> bindM (tryM (transactionM (applyLineTx lid rp bp))) (\<lambda>r. case r of
                Inl err \<Rightarrow> finishLineApplyError lid err
              | Inr _ \<Rightarrow> bindM (tryM (GetLine lid)) (\<lambda>d. case d of
                  Inl e \<Rightarrow> retM (None, Some e) | Inr detail \<Rightarrow> retM (Some detail, None)))) w2)"
        unfolding ApplyLine_def using f Inr ok rp
        by (simp add: bindM_apply tryM_apply time_now_apply split: sum.split)
      show thesis
      proof (cases rp)
        case (Inl e)
        with assms start w2 show thesis by (intro failed [of e w2]) simp_all
      next
        case rp': (Inr p)
        obtain bp w3 where bp: "?bp w2 = (bp, w3)" by (cases "?bp w2")
        then have w3: "w_db w3 = w_db w" using leaves_all [OF preflight_reads(2) bp] w2 by simp
        show thesis
        proof (cases bp)
          case (Inl e)
          with assms start rp' bp w3 show thesis by (intro failed [of e w3]) (simp_all add: bindM_apply tryM_apply)
        next
          case bp': (Inr b)
          obtain t w4 where t: "transactionM (applyLineTx lid p b) w3 = (t, w4)"
            by (cases "transactionM (applyLineTx lid p b) w3")
          show thesis
          proof (cases t)
            case (Inl e)
            with assms start rp' bp bp' t w3 transaction_rollback [of "applyLineTx lid p b" w3 e w4] show thesis
              by (intro failed [of e w4]) (simp_all add: bindM_apply tryM_apply)
          next
            case (Inr v)
            obtain d w5 where d: "GetLine lid w4 = (d, w5)" by (cases "GetLine lid w4")
            with assms start rp' bp bp' t Inr w3 show thesis
              by (intro committed [of w3 p b w4 d]) (simp_all add: bindM_apply tryM_apply split: sum.splits)
          qed
        qed
      qed
    qed
  qed
qed

section \<open>Theorems\<close>

lemma applied_getLine:
  assumes "GetLine lid w = (d, w')" "applied lid (w_db w)"
  shows "applied lid (w_db w')"
proof -
  have rt: "runtime (w_db w') = runtime (w_db w)"
    using assms(1) unfolding GetLine_def by (rule leaves_D [OF leaves_getLine])
  have st: "settled (w_db w') = settled (w_db w)"
    using assms(1) unfolding GetLine_def by (rule leaves_D [OF leaves_settled_getLine])
  from assms(2) obtain line iid where l: "find_line lid (w_db w) = Some line"
    and a: "l_status line = ''pending_check''" "l_lastError line = ''''" "l_inboundId line = Some iid"
      "xray_ready lid (l_outboundTag line) iid (w_db w)" by (auto simp: applied_def)
  from settled_find [OF st l] obtain line' where l': "find_line lid (w_db w') = Some line'"
    and eq: "line'\<lparr>l_configJSON := '''', l_updatedAt := 0\<rparr> = line\<lparr>l_configJSON := '''', l_updatedAt := 0\<rparr>" .
  from arg_cong [OF eq, of l_status] arg_cong [OF eq, of l_lastError] arg_cong [OF eq, of l_inboundId]
    arg_cong [OF eq, of l_outboundTag] a xray_ready_cong [OF rt] l'
  show ?thesis by (simp add: applied_def)
qed

lemma ApplyLine_applied:
  assumes "ApplyLine lid w = (Inr (Some detail, None), w')" "db_texts (w_db w)"
  shows "applied lid (w_db w')"
  using assms(1)
proof (cases rule: ApplyLine_outcome)
  case (failed e w1)
  then show ?thesis using finish_has_error [of lid e w1 "Some detail" None] by simp
next
  case (committed rp bp w1 w2 d)
  from committed(2) obtain v1 v2 where v: "w_db v1 = w_db w1" "applyLineTx lid rp bp v1 = (Inr (), v2)"
    "w_db w2 = w_db v2" by (rule transaction_Inr)
  then have "applied lid (w_db w2)" using applyLineTx_post [OF v(2)] assms(2) committed(1) by simp
  with committed(3) show ?thesis by (rule applied_getLine)
qed simp

text \<open>Everything but the report a failed apply leaves in its own line and log.\<close>

definition beyond :: "int \<Rightarrow> db \<Rightarrow> (inbound list \<times> client_record list \<times> client_inbound list \<times> setting list)
    \<times> line_outbound list \<times> line_check list \<times> line_subscription list \<times> outbound_traffic list
    \<times> line_profile list \<times> line_profile list" where
  "beyond lid d =
     (runtime d, d_outbounds d, d_checks d, d_subs d, d_outboundTraffics d, delete_where (\<lambda>l. l_id l = lid) (d_lines d),
      List.map (\<lambda>l. l\<lparr>l_status := '''', l_lastError := '''', l_configJSON := '''', l_updatedAt := 0\<rparr>) (d_lines d))"

lemma beyond_upd_lines:
  assumes "\<And>l. (f l)\<lparr>l_status := '''', l_lastError := '''', l_configJSON := '''', l_updatedAt := 0\<rparr>
      = l\<lparr>l_status := '''', l_lastError := '''', l_configJSON := '''', l_updatedAt := 0\<rparr>"
  shows "beyond lid (upd_lines (\<lambda>l. l_id l = lid) f now d) = beyond lid d"
proof -
  have "l_id (f l) = l_id l" for l using arg_cong [OF assms [of l], of l_id] by simp
  then have "delete_where (\<lambda>l. l_id l = lid) (update_where (\<lambda>l. l_id l = lid) (\<lambda>l. (f l)\<lparr>l_updatedAt := now\<rparr>) rows)
      = delete_where (\<lambda>l. l_id l = lid) rows" for rows
    by (intro delete_update_where) simp_all
  moreover have "List.map (\<lambda>l. l\<lparr>l_status := '''', l_lastError := '''', l_configJSON := '''', l_updatedAt := 0\<rparr>)
        (update_where (\<lambda>l. l_id l = lid) (\<lambda>l. (f l)\<lparr>l_updatedAt := now\<rparr>) rows)
      = List.map (\<lambda>l. l\<lparr>l_status := '''', l_lastError := '''', l_configJSON := '''', l_updatedAt := 0\<rparr>) rows" for rows
    by (intro map_update_where) (simp add: assms)
  ultimately show ?thesis by (simp add: beyond_def runtime_def) (simp add: upd_lines_def)
qed

lemma leaves_beyond_record: "leavesM (beyond lid) (recordLineApplyFailure lid e)"
  unfolding recordLineApplyFailure_def
  by (intro keeps_bind_first_line keeps stmts) (auto simp: sameR_def beyond_upd_lines, simp add: beyond_def runtime_def)

lemma leaves_beyond_getLine: "leavesM (beyond lid) (GetLine lid)"
  unfolding GetLine_def getLine_def Let_def
  by (intro keeps_bind_first_line keeps stmts) (auto simp: sameR_def beyond_upd_lines)



text \<open>
  C10: applying a line that is not in its validity period does nothing at all: an ended, ending,
  not yet started or overdue line is refused with the reason, no table and no file changes, and no
  failure is recorded, so that a scheduled line stays scheduled.
\<close>

theorem apply_gate:
  assumes "first_line lid w = (Inr line, w1)"
    and "validateLineCanApply line (e_clock (w_env w1) (w_tick w1)) = Inl err"
  shows "\<exists>w'. ApplyLine lid w = (Inr (None, Some err), w') \<and> w_db w' = w_db w \<and> w_fs w' = w_fs w"
proof -
  from assms(1) have "w_db w1 = w_db w" "w_fs w1 = w_fs w" by (auto simp: first_line_Inr)
  then show ?thesis using assms by (simp add: ApplyLine_def bindM_apply tryM_apply time_now_apply)
qed

theorem apply_gate_witness:
  "\<exists>w'. ApplyLine 1 (world_with (sample_line\<lparr>l_status := ''scheduled'', l_validFrom := 5000\<rparr>))
       = (Inr (None, Some (Errorf ''line is scheduled to start at 1970-01-01T01:23:20Z'')), w')
     \<and> d_lines (w_db w') = [sample_line\<lparr>l_status := ''scheduled'', l_validFrom := 5000\<rparr>]"
proof -
  let ?l = "sample_line\<lparr>l_status := ''scheduled'', l_validFrom := 5000\<rparr>"
  have start: "rfc3339 5000 = ''1970-01-01T01:23:20Z''" by code_simp
  have f: "first_line 1 (world_with ?l) = (Inr ?l, (world_with ?l)\<lparr>w_tick := 1\<rparr>)"
    by (simp add: first_line_Inr find_line_def world_with_def sample_world_def sample_env_def sample_line_def)
  have v: "validateLineCanApply ?l (e_clock (w_env ((world_with ?l)\<lparr>w_tick := 1\<rparr>)) (w_tick ((world_with ?l)\<lparr>w_tick := 1\<rparr>)))
      = Inl (Errorf ''line is scheduled to start at 1970-01-01T01:23:20Z'')"
    by (simp add: validateLineCanApply_def world_with_def sample_world_def sample_env_def sample_line_def start)
  from apply_gate [OF f v] show ?thesis by (auto simp: world_with_def)
qed



end
