(* ===== verification/ApplyLive.thy ===== *)
theory ApplyLive
  imports ApplyFacts
begin

text \<open>
  Applying a well-configured Shadowsocks line on a healthy host succeeds: none of the refusals and
  failures of \<^verbatim>\<open>ApplyLine\<close> can happen then, whatever the clock, the random bytes and the rest of the
  database.
\<close>

section \<open>Running without faults\<close>

definition healthy :: "env \<Rightarrow> bool" where
  "healthy e \<longleftrightarrow> (\<forall>t. e_fault e t = None \<and> e_rand e t \<noteq> None)"

lemma dbM_healthy:
  "healthy (w_env w) \<Longrightarrow> dbM f w = (case f (w_db w) of
       (Inl e, d) \<Rightarrow> (Inl e, w\<lparr>w_tick := Suc (w_tick w)\<rparr>)
     | (Inr x, d) \<Rightarrow> (Inr x, w\<lparr>w_tick := Suc (w_tick w), w_db := d\<rparr>))"
  by (simp add: dbM_def healthy_def Let_def)

lemma db_get_healthy:
  "healthy (w_env w) \<Longrightarrow> db_get f w = (case f (w_db w) of None \<Rightarrow> Inl RecordNotFound | Some x \<Rightarrow> Inr x, w\<lparr>w_tick := Suc (w_tick w)\<rparr>)"
  by (simp add: db_get_def dbM_healthy split: option.split)

lemma db_query_healthy: "healthy (w_env w) \<Longrightarrow> db_query f w = (Inr (f (w_db w)), w\<lparr>w_tick := Suc (w_tick w)\<rparr>)"
  by (simp add: db_query_def dbM_healthy)

lemma db_exec_healthy:
  "healthy (w_env w) \<Longrightarrow> db_exec f w = (Inr (), w\<lparr>w_tick := Suc (w_tick w), w_db := f (w_db w)\<rparr>)"
  by (simp add: db_exec_def dbM_healthy)

lemma env_D: "leavesM g m \<Longrightarrow> m w = (r, w') \<Longrightarrow> w_env w' = w_env w"
  by (drule (1) keepsM_D') (simp add: db_rel_def)

lemmas run = bindM_apply thenM_apply tryM_apply mapErrM_apply time_now_apply askM_apply
  db_get_healthy db_query_healthy db_exec_healthy dbM_healthy

text \<open>\<open>goes m w\<close>: the step succeeds from this state.\<close>

definition goes :: "'a W \<Rightarrow> world \<Rightarrow> bool" where
  "goes m w \<longleftrightarrow> (\<exists>x w'. m w = (Inr x, w'))"

lemma goesE: assumes "goes m w" obtains x w' where "m w = (Inr x, w')"
  using assms by (auto simp: goes_def)

lemma goes_bind: "m w = (Inr x, w1) \<Longrightarrow> goes (f x) w1 \<Longrightarrow> goes (bindM m f) w"
  by (simp add: goes_def bindM_apply)

lemma goes_then: "m w = (Inr x, w1) \<Longrightarrow> goes n w1 \<Longrightarrow> goes (thenM m n) w"
  by (simp add: goes_def thenM_apply)

lemma goes_ret [simp]: "goes (retM x) w"
  by (simp add: goes_def)

lemma goes_log: "healthy (w_env w) \<Longrightarrow> goes (createLineLog a b c d e) w"
  by (simp add: goes_def createLineLog_def run)

lemma goes_line_update: "healthy (w_env w) \<Longrightarrow> goes (model_line_updates line f) w"
  by (simp add: goes_def model_line_updates_def run)

lemma goes_outbound_update: "healthy (w_env w) \<Longrightarrow> goes (model_outbound_update ob f) w"
  by (simp add: goes_def model_outbound_update_def run)

lemma goes_key: "healthy (w_env w) \<Longrightarrow> goes (randomShadowsocksClientKey m) w"
proof -
  assume h: "healthy (w_env w)"
  then obtain f where "e_rand (w_env w) (w_tick w) = Some f" by (auto simp: healthy_def)
  with h show ?thesis
    by (simp add: goes_def randomShadowsocksClientKey_def Base64Bytes_def rand_bytes_def new_uuid_def run)
qed

lemma goes_link: "healthy (w_env w) \<Longrightarrow> goes (link_client a b fl) w"
  by (auto simp: goes_def link_client_def run split: option.splits)

section \<open>The steps of a Shadowsocks line\<close>

definition client_free :: "int \<Rightarrow> db \<Rightarrow> bool" where
  "client_free lid d \<longleftrightarrow>
     (\<forall>c. find_client (lineManagedClientEmail lid) d = Some c \<longrightarrow> c_subId c = lineManagedClientSubID lid)"

lemma goes_ensure_client:
  assumes "healthy (w_env w)" "client_free (l_id line) (w_db w)"
  shows "goes (ensureLineManagedShadowsocksClient line) w"
proof (cases "find_client (lineManagedClientEmail (l_id line)) (w_db w)")
  case None
  obtain k w1 where k: "randomShadowsocksClientKey defaultShadowsocksMethod (w\<lparr>w_tick := Suc (w_tick w)\<rparr>) = (Inr k, w1)"
    using goes_key [of "w\<lparr>w_tick := Suc (w_tick w)\<rparr>" defaultShadowsocksMethod] assms(1) by (auto elim: goesE)
  have "leavesM (\<lambda>d. d) (randomShadowsocksClientKey defaultShadowsocksMethod)" by (intro keeps preorder_sameR)
  with k have "w_db w1 = w_db w" "w_env w1 = w_env w" by (auto dest: leaves_D env_D)
  with k None assms show ?thesis
    by (simp add: goes_def ensureLineManagedShadowsocksClient_def first_client_def create_client_def new_client_def run Let_def)
next
  case (Some c)
  let ?w1 = "w\<lparr>w_tick := Suc (w_tick w)\<rparr>"
  obtain k w1 where k: "randomShadowsocksClientKey defaultShadowsocksMethod ?w1 = (Inr k, w1)"
    using goes_key [of ?w1 defaultShadowsocksMethod] assms(1) by (auto elim: goesE)
  have "leavesM (\<lambda>d. d) (randomShadowsocksClientKey defaultShadowsocksMethod)" by (intro keeps preorder_sameR)
  with k have "w_env w1 = w_env w" by (auto dest: env_D)
  with k Some assms show ?thesis
    by (simp add: goes_def ensureLineManagedShadowsocksClient_def first_client_def update_client_def client_free_def run Let_def)
qed

lemma goes_attach:
  assumes "healthy (w_env w)" "iid > 0" "client_up (w_db w) (l_id line)"
  shows "goes (attachLineManagedClient line iid) w"
proof -
  from assms(3) obtain c where c: "find_client (lineManagedClientEmail (l_id line)) (w_db w) = Some c"
    "c_subId c = lineManagedClientSubID (l_id line)"
    by (auto simp: client_up_def split: option.splits)
  have "goes (link_client (c_id c) iid None) (w\<lparr>w_tick := Suc (w_tick w)\<rparr>)" using assms(1) by (simp add: goes_link)
  with c assms show ?thesis by (simp add: goes_def attachLineManagedClient_def first_client_def run)
qed

text \<open>The stored template, or the embedded one when there is none, is a JSON object or blank.\<close>

definition template_ok :: "env \<Rightarrow> db \<Rightarrow> bool" where
  "template_ok e d \<longleftrightarrow>
     (let raw = (case find_setting templateKey d of None \<Rightarrow> e_template e | Some st \<Rightarrow> st_value st)
      in trim_space raw = '''' \<or> (\<exists>cfg. decode_template raw = Inr cfg))"

lemma goes_upsert_template:
  assumes "healthy (w_env w)" "template_ok (w_env w) (w_db w)"
  shows "goes (upsertLineOutboundInTemplate ot it ob) w"
proof -
  have wr: "goes (write_template cfg) w1" if "healthy (w_env w1)" for cfg w1
    using that by (auto simp: goes_def write_template_def getSetting_def create_setting_def update_setting_def run Let_def
        split: option.splits)
  show ?thesis
  proof (cases "find_setting templateKey (w_db w)")
    case None
    let ?body = "\<lambda>d. d\<lparr>d_settings := d_settings d @ [\<lparr>st_id = d_nextSetting d, st_key = templateKey,
        st_value = e_template (w_env w)\<rparr>], d_nextSetting := d_nextSetting d + 1\<rparr>"
    define w1 where "w1 = w\<lparr>w_tick := w_tick w + 3, w_db := ?body (w_db w)\<rparr>"
    with None have r: "getXrayTemplateConfigTx w = (Inr (e_template (w_env w)), w1)" "w_env w1 = w_env w"
      using assms(1) by (simp_all add: getXrayTemplateConfigTx_def getSetting_def create_setting_def run)
    with None assms wr [of w1] show ?thesis
      unfolding upsertLineOutboundInTemplate_def
      by (auto simp: template_ok_def goes_def bindM_apply Let_def)
  next
    case (Some st)
    then have r: "getXrayTemplateConfigTx w = (Inr (st_value st), w\<lparr>w_tick := Suc (w_tick w)\<rparr>)"
      using assms(1) by (simp add: getXrayTemplateConfigTx_def getSetting_def run)
    with Some assms wr [of "w\<lparr>w_tick := Suc (w_tick w)\<rparr>"] show ?thesis
      unfolding upsertLineOutboundInTemplate_def
      by (auto simp: template_ok_def goes_def bindM_apply Let_def)
  qed
qed

lemma goes_finish:
  assumes "healthy (w_env w)" "template_ok (w_env w) (w_db w)"
  shows "goes (finish_xray line ob iid cj) w"
proof -
  from goes_upsert_template [OF assms, of "l_outboundTag line" "lineInboundTag (l_id line)" ob] obtain w1 where
    t: "upsertLineOutboundInTemplate (l_outboundTag line) (lineInboundTag (l_id line)) ob w = (Inr (), w1)"
    by (auto elim: goesE)
  have "w_env w1 = w_env w" using t by (rule env_D [OF leaves_upsert_template])
  with assms(1) show ?thesis unfolding finish_xray_def
    by (simp add: t goes_def model_line_updates_def model_outbound_update_def run)
qed

section \<open>The apply of a Shadowsocks line\<close>

definition ss_line_ready :: "int \<Rightarrow> line_profile \<Rightarrow> line_outbound \<Rightarrow> env \<Rightarrow> db \<Rightarrow> bool" where
  "ss_line_ready lid line ob e d \<longleftrightarrow>
     find_line lid d = Some line \<and> find_outbound lid d = Some ob \<and> l_type line = LineTypeShadowsocks
     \<and> l_inboundId line = None \<and> (\<forall>t. validateLineCanApply line (e_clock e t) = Inr ())
     \<and> validateHostValue ''entry host'' (l_entryHost line) = Inr ()
     \<and> validatePortValue ''entry port'' (l_entryPort line) = Inr ()
     \<and> valid_outbound_type (to_lower (trim_space (o_type ob)))
     \<and> validateHostValue ''residential outbound host'' (o_host ob) = Inr ()
     \<and> validatePortValue ''residential outbound port'' (o_port ob) = Inr ()
     \<and> (\<forall>i \<in> set (d_inbounds d). i_tag i \<noteq> lineInboundTag lid \<and> (i_nodeId i = None \<longrightarrow> i_port i \<noteq> l_entryPort line))
     \<and> client_free lid d \<and> template_ok e d \<and> 0 < d_nextInbound d"

lemma no_filter: "\<forall>x \<in> set xs. \<not> P x \<Longrightarrow> length (filter P xs) = 0"
  by simp

lemma find_none_tag: "\<forall>i \<in> set xs. i_tag i \<noteq> tag \<Longrightarrow> find (\<lambda>i. i_tag i = tag) xs = None"
  by (auto simp: find_None_iff)

lemma goes_ss_xray:
  assumes h: "healthy (w_env w)"
    and line: "l_inboundId line = None" "trim_space (l_entryHost line) \<noteq> ''''"
      "validatePortValue ''Shadowsocks entry port'' (l_entryPort line) = Inr ()"
      "trim_space (o_host ob) \<noteq> ''''" "o_port ob > 0"
    and d: "\<forall>i \<in> set (d_inbounds (w_db w)). i_tag i \<noteq> lineInboundTag (l_id line) \<and> (i_nodeId i = None \<longrightarrow> i_port i \<noteq> l_entryPort line)"
      "client_free (l_id line) (w_db w)" "template_ok (w_env w) (w_db w)" "0 < d_nextInbound (w_db w)"
  shows "goes (applyShadowsocksXray line ob) w"
proof -
  let ?l = "with_outbound_tag line" and ?w1 = "w\<lparr>w_tick := Suc (w_tick w)\<rparr>" and ?w2 = "w\<lparr>w_tick := Suc (Suc (w_tick w))\<rparr>"
  have l: "l_inboundId ?l = None" "l_entryPort ?l = l_entryPort line" by (simp_all add: line with_outbound_tag_def)
  have ex: "find_existing_inbound ?l w = (Inr None, ?w1)"
    using h d(1) l by (simp add: find_existing_inbound_def first_inbound_tag_def find_inbound_tag_def find_none_tag run)
  have n: "count_port_conflicts (l_entryPort ?l) 0 ?w1 = (Inr 0, ?w2)"
    using h d(1) l by (auto simp: count_port_conflicts_def run filter_empty_conv)
  obtain pw wp where c: "ensureLineManagedShadowsocksClient ?l ?w2 = (Inr pw, wp)"
    using goes_ensure_client [of ?w2 ?l] h d(2) by (auto elim: goesE)
  have "leavesM (\<lambda>d. (d_inbounds d, d_nextInbound d, d_settings d)) (ensureLineManagedShadowsocksClient ?l)"
    unfolding ensureLineManagedShadowsocksClient_def by (intro keeps stmts) (auto simp: sameR_def)
  from leaves_D [OF this c] env_D [OF this c] have wp: "d_inbounds (w_db wp) = d_inbounds (w_db w)" "d_nextInbound (w_db wp) = d_nextInbound (w_db w)"
    "d_settings (w_db wp) = d_settings (w_db w)" "w_env wp = w_env w"
    by auto
  have "goes (buildShadowsocksInbound ?l (lineInboundTag (l_id ?l)) (shadowsocksServerKeyFromSettings '''') pw) wp"
    using goes_key [of wp defaultShadowsocksMethod] h wp by (auto simp: goes_def buildShadowsocksInbound_def run)
  then obtain ib w3 where b: "buildShadowsocksInbound ?l (lineInboundTag (l_id ?l))
      (shadowsocksServerKeyFromSettings '''') pw wp = (Inr ib, w3)" by (auto elim: goesE)
  have "leavesM (\<lambda>d. d) (buildShadowsocksInbound ?l (lineInboundTag (l_id ?l)) (shadowsocksServerKeyFromSettings '''') pw)"
    by (intro keeps preorder_sameR)
  with b have w3: "w_db w3 = w_db wp" "w_env w3 = w_env wp" by (auto dest: leaves_D env_D)
  let ?w4 = "w3\<lparr>w_tick := Suc (w_tick w3), w_db := (w_db w3)\<lparr>d_inbounds := d_inbounds (w_db w3) @ [ib\<lparr>i_id := d_nextInbound (w_db w3)\<rparr>],
      d_nextInbound := d_nextInbound (w_db w3) + 1\<rparr>\<rparr>"
  have s: "save_inbound None ib w3 = (Inr (d_nextInbound (w_db w)), ?w4)"
    using h d(1) w3 wp build_ss_post [OF b]
    by (simp add: save_inbound_def existing_id_def create_inbound_def find_inbound_tag_def find_none_tag run)
  have "client_up (w_db ?w4) (l_id ?l)"
    using ensure_ss_client_post [OF c] w3 by (simp add: client_up_def find_client_def)
  then obtain w5 where a: "attachLineManagedClient ?l (d_nextInbound (w_db w)) ?w4 = (Inr (), w5)"
    using goes_attach [of ?w4 "d_nextInbound (w_db w)" ?l] h w3 wp d(4) by (auto elim: goesE)
  have "leavesM d_settings (attachLineManagedClient ?l (d_nextInbound (w_db w)))"
    unfolding attachLineManagedClient_def by (intro keeps stmts) (auto simp: sameR_def)
  from leaves_D [OF this a] env_D [OF this a]
  have w5: "d_settings (w_db w5) = d_settings (w_db w)" "w_env w5 = w_env w"
    using w3 wp by auto
  then have "goes (finish_xray ?l ob (d_nextInbound (w_db w)) None) w5"
    using h d(3) by (intro goes_finish) (simp_all add: template_ok_def find_setting_def)
  then show ?thesis
    using ex n c b s a line l unfolding applyShadowsocksXray_def goes_def require_outbound_def Let_def
    by (auto simp: bindM_apply thenM_apply existing_id_def)
qed

text \<open>The executor of a Shadowsocks line and the statements after it.\<close>

lemma goes_ss_tail:
  assumes h: "healthy (w_env w)" and ty: "l_type l = ''shadowsocks_direct''"
    and x: "goes (applyShadowsocksXray l ob) w"
  shows "goes (bindM (mapErrM (wrapLineApplyFailure ''xray'' ''Write Xray inbound/outbound failed'')
        (applyLineXray l ob c)) (\<lambda>(appliedID, line2, config2).
      thenM (createLineLog lid ''xray'' ''info'' txt_xray_written
               (''inboundId='' @ itoa appliedID @ '' outboundTag='' @ l_outboundTag line2))
     (thenM (apply_nginx_part line2 config2)
     (bindM (model_line_updates line2 (\<lambda>l. l\<lparr>l_status := ''pending_check'', l_lastError := '''',
               l_inboundId := Some appliedID\<rparr>)) (\<lambda>_. retM ()))))) w"
proof -
  from x obtain iid line2 w1 where x: "applyShadowsocksXray l ob w = (Inr (iid, line2), w1)" by (auto elim: goesE)
  with ty have x': "applyLineXray l ob c w = (Inr (iid, line2, c), w1)"
    by (simp add: applyLineXray_def isNginxWSLine_def bindM_apply)
  from x' obtain l1 w0 cj where "finish_xray l1 ob iid cj w0 = (Inr line2, w1)" and l1: "l_type l1 = l_type l"
    by (rule applyLineXray_finish)
  then have t2: "l_type line2 = ''shadowsocks_direct''"
    using ty by (cases cj) (auto simp: finish_xray_def monad_Inr model_line_updates_Inr)
  have "w_env w1 = w_env w" using env_D [OF leaves_ids_xray x'] .
  with h t2 show ?thesis
    by (simp add: goes_def bindM_apply thenM_apply mapErrM_apply x' apply_nginx_part_def isNginxWSLine_def
        createLineLog_def model_line_updates_def run)
qed

lemma goes_ss_ready:
  assumes "healthy (w_env w)" and r: "ss_line_ready lid line ob (w_env w) (w_db w)"
    and l: "l_entryHost l = l_entryHost line" "l_entryPort l = l_entryPort line" "l_id l = lid" "l_inboundId l = None"
    and b: "o_host b = o_host ob" "o_port b = o_port ob"
    and v: "w_env v = w_env w" "d_inbounds (w_db v) = d_inbounds (w_db w)" "d_clients (w_db v) = d_clients (w_db w)"
      "d_settings (w_db v) = d_settings (w_db w)" "d_nextInbound (w_db v) = d_nextInbound (w_db w)"
  shows "goes (applyShadowsocksXray l b) v"
proof -
  have "trim_space (l_entryHost l) \<noteq> ''''" "validatePortValue ''Shadowsocks entry port'' (l_entryPort l) = Inr ()"
    "trim_space (o_host b) \<noteq> ''''" "o_port b > 0"
    using r l b by (auto simp: ss_line_ready_def validateHostValue_def validatePortValue_def Let_def split: if_splits)
  moreover have "client_free (l_id l) (w_db v)" "template_ok (w_env v) (w_db v)"
    using r l v by (simp_all add: ss_line_ready_def client_free_def find_client_def template_ok_def find_setting_def)
  moreover have "\<forall>i \<in> set (d_inbounds (w_db v)). i_tag i \<noteq> lineInboundTag (l_id l)
      \<and> (i_nodeId i = None \<longrightarrow> i_port i \<noteq> l_entryPort l)" "0 < d_nextInbound (w_db v)"
    using r l v by (simp_all add: ss_line_ready_def)
  ultimately show ?thesis using assms by (intro goes_ss_xray) simp_all
qed

text \<open>Before the executor, the transaction only touches the line, the log and the clock.\<close>

lemma goes_applyLineTx:
  assumes h: "healthy (w_env w)" and r: "ss_line_ready lid line ob (w_env w) (w_db w)"
  shows "goes (applyLineTx lid None None) w"
proof -
  have l: "find_line lid (w_db w) = Some line" "l_id line = lid" and t: "l_type line = ''shadowsocks_direct''"
    "l_inboundId line = None"
    and ok: "\<And>t. validateLineCanApply line (e_clock (w_env w) t) = Inr ()"
    and ob: "find (\<lambda>b. o_lineId b = lid) (d_outbounds (w_db w)) = Some ob"
    using r by (auto simp: ss_line_ready_def find_outbound_def dest: find_line_id)
  let ?c = "decodeLineConfig (l_configJSON line)"
  have cfg: "ensureLineConfigDefaults lid ''shadowsocks_direct'' ?c v = (Inr ?c, v)" for v
    by (simp add: ensureLineConfigDefaults_def bindM_apply)
  let ?ob = "ob\<lparr>o_type := to_lower (trim_space (o_type ob))\<rparr>"
  have val: "validateLineForApply l ob ?c v = (Inr (?ob, ?c), v)"
    if "l_type l = ''shadowsocks_direct''" "l_entryHost l = l_entryHost line" "l_entryPort l = l_entryPort line" for l v
    using r that by (simp add: validateLineForApply_def ss_line_ready_def isSupportedLineType_def isNginxWSLine_def
        thenM_apply Let_def)
  have tail: "goes (bindM (mapErrM (wrapLineApplyFailure ''xray'' ''Write Xray inbound/outbound failed'')
        (applyLineXray l ?ob ?c)) (\<lambda>(appliedID, line2, config2).
      thenM (createLineLog lid ''xray'' ''info'' txt_xray_written
               (''inboundId='' @ itoa appliedID @ '' outboundTag='' @ l_outboundTag line2))
     (thenM (apply_nginx_part line2 config2)
     (bindM (model_line_updates line2 (\<lambda>l. l\<lparr>l_status := ''pending_check'', l_lastError := '''',
               l_inboundId := Some appliedID\<rparr>)) (\<lambda>_. retM ()))))) v"
    if "w_env v = w_env w" "l_type l = ''shadowsocks_direct''" "l_entryHost l = l_entryHost line"
      "l_entryPort l = l_entryPort line" "l_id l = lid" "l_inboundId l = None"
      "d_inbounds (w_db v) = d_inbounds (w_db w)" "d_clients (w_db v) = d_clients (w_db w)"
      "d_settings (w_db v) = d_settings (w_db w)" "d_nextInbound (w_db v) = d_nextInbound (w_db w)" for l v
    using that h by (intro goes_ss_tail goes_ss_ready [OF h r]) simp_all
  show ?thesis
    using h l t ok ob tail val
    by (simp add: goes_def applyLineTx_def first_line_def createLineLog_def add_log_def model_line_updates_def
        upd_lines_def first_outbound_def find_outbound_def apply_config_def cfg check_fresh_def
        buildLineApplyPlan_def isNginxWSLine_def isSupportedLineType_def run Let_def)
qed

lemma goes_GetLine:
  assumes h: "healthy (w_env w)" and f: "find_line lid (w_db w) = Some line" and t: "\<not> isNginxWSLine (l_type line)"
    "l_type line \<noteq> LineTypeReality"
  shows "goes (GetLine lid) w"
proof -
  let ?c = "decodeLineConfig (l_configJSON line)"
  have cfg: "ensureLineConfigDefaults i (l_type line) c v = (Inr c, v)" for i c v
    using t by (simp add: ensureLineConfigDefaults_def isNginxWSLine_def bindM_apply)
  show ?thesis
    using h f t
    by (cases "find_outbound (l_id line) (w_db w)")
       (auto simp: goes_def GetLine_def getLine_def first_line_def cfg lines_updates_def upd_lines_def optional_def
          first_outbound_def find_outbound_def buildLineApplyPlan_def run Let_def)
qed

section \<open>The whole apply\<close>

text \<open>The ids and types of the lines.\<close>

definition kinds :: "db \<Rightarrow> (int \<times> string) list" where
  "kinds d = List.map (\<lambda>l. (l_id l, l_type l)) (d_lines d)"

lemma kinds_upd: "(\<And>l. l_id (f l) = l_id l \<and> l_type (f l) = l_type l) \<Longrightarrow> kinds (upd_lines P f now d) = kinds d"
  by (simp add: kinds_def upd_lines_def map_update_where)

lemma kinds_find:
  assumes "kinds d' = kinds d" "find_line lid d = Some line"
  obtains line' where "find_line lid d' = Some line'" "l_id line' = lid" "l_type line' = l_type line"
proof -
  let ?s = "\<lambda>l. (l_id l, l_type l)"
  have "map_option ?s (find_line lid e) = find (\<lambda>l. fst l = lid) (kinds e)" for e
    by (simp add: find_line_def kinds_def find_map_eq)
  then have "map_option ?s (find_line lid d') = map_option ?s (find_line lid d)" using assms(1) by simp
  with assms(2) that show thesis by (auto dest: find_line_id)
qed

lemma leaves_kinds_xray: "leavesM kinds (applyLineXray line ob config)"
  unfolding applyLineXray_def applyCloudflareXray_def applyRealityXray_def applyShadowsocksXray_def
    require_outbound_def save_inbound_def upsertLineManagedClient_def ensureLineManagedShadowsocksClient_def
    attachLineManagedClient_def finish_xray_def upsertLineOutboundInTemplate_def getXrayTemplateConfigTx_def
    write_template_def Let_def
  by (intro keeps stmts) (auto simp: sameR_def kinds_upd, simp_all add: kinds_def)

lemma leaves_kinds_tx: "leavesM kinds (applyLineTx lid rp bp)"
  unfolding applyLineTx_def check_fresh_def apply_config_def apply_nginx_part_def Let_def
  by (intro keeps stmts leaves_kinds_xray) (auto simp: sameR_def kinds_upd, simp_all add: kinds_def)

lemma healthy_transaction:
  assumes "healthy (w_env w)" "m (w\<lparr>w_tick := Suc (w_tick w)\<rparr>) = (Inr x, w1)" "w_env w1 = w_env w"
  shows "transactionM m w = (Inr x, w1\<lparr>w_tick := Suc (w_tick w1)\<rparr>)"
  using assms by (simp add: transactionM_def run)

lemma ss_apply_goes:
  assumes "healthy (w_env w)" "ss_line_ready lid line ob (w_env w) (w_db w)"
  shows "\<exists>detail w'. ApplyLine lid w = (Inr (Some detail, None), w')"
proof -
  have f: "find_line lid (w_db w) = Some line" and t: "l_type line = ''shadowsocks_direct''"
    and ok: "\<And>t. validateLineCanApply line (e_clock (w_env w) t) = Inr ()"
    using assms(2) by (auto simp: ss_line_ready_def)
  let ?w2 = "w\<lparr>w_tick := Suc (Suc (w_tick w))\<rparr>" and ?w3 = "w\<lparr>w_tick := Suc (Suc (Suc (w_tick w)))\<rparr>"
  have "goes (applyLineTx lid None None) ?w3" by (rule goes_applyLineTx) (use assms in auto)
  then obtain w4 where tx: "applyLineTx lid None None ?w3 = (Inr (), w4)" by (auto simp: goes_def)
  have w4: "w_env w4 = w_env w" "kinds (w_db w4) = kinds (w_db w)"
    using env_D [OF leaves_kinds_tx tx] leaves_D [OF leaves_kinds_tx tx] by simp_all
  with tx assms(1) have tr: "transactionM (applyLineTx lid None None) ?w2 = (Inr (), w4\<lparr>w_tick := Suc (w_tick w4)\<rparr>)"
    by (intro healthy_transaction) simp_all
  from kinds_find [OF w4(2) f] obtain line' where "find_line lid (w_db w4) = Some line'" "l_type line' = l_type line" .
  then have "goes (GetLine lid) (w4\<lparr>w_tick := Suc (w_tick w4)\<rparr>)"
    using assms(1) w4 t by (intro goes_GetLine [where line = line']) (simp_all add: isNginxWSLine_def)
  then obtain detail w5 where "GetLine lid (w4\<lparr>w_tick := Suc (w_tick w4)\<rparr>) = (Inr detail, w5)" by (auto elim: goesE)
  with tr f t ok assms(1) show ?thesis
    by (simp add: ApplyLine_def first_line_def run)
qed

lemma sample_healthy: "healthy sample_env"
  by (simp add: healthy_def sample_env_def)

lemma sample_ss_ready: "ss_line_ready 1 sample_line sample_outbound sample_env sample_db"
proof -
  have "to_lower (trim_space ''socks5'') = ''socks5''" "decode_template ''{}'' = Inr []" "trim_space ''{}'' \<noteq> ''''" by code_simp+
  moreover have "validateHostValue ''entry host'' ''h.example'' = Inr ()" by code_simp
  moreover have "validateHostValue ''residential outbound host'' ''1.2.3.4'' = Inr ()" by code_simp
  ultimately show ?thesis
    by (simp add: ss_line_ready_def sample_line_def sample_outbound_def sample_env_def sample_db_def empty_db_def
        find_line_def find_outbound_def validateLineCanApply_def client_free_def find_client_def template_ok_def
        find_setting_def validatePortValue_def valid_outbound_type_def)
qed

lemma sample_texts: "db_texts sample_db"
  by (simp add: db_texts_def sample_db_def empty_db_def sample_outbound_def sample_line_def valid_outbound_texts_def)

text \<open>
  C6: a successful apply leaves a working line in the database.  Its status is pending\_check and it has
  no error; the inbound it records exists, carries the tag of the line and is enabled; its managed
  client exists under the line's own subscription id, is enabled and is linked to that inbound; and
  the Xray template has the line's outbound and the rule from its inbound to it.
\<close>

theorem apply_success:
  assumes "ApplyLine lid w = (Inr (Some detail, None), w')" "db_texts (w_db w)"
  shows "applied lid (w_db w')"
  using assms by (rule ApplyLine_applied)

theorem apply_success_witness:
  "\<exists>detail w'. ApplyLine 1 sample_world = (Inr (Some detail, None), w') \<and> applied 1 (w_db w')"
proof -
  obtain detail w' where a: "ApplyLine 1 sample_world = (Inr (Some detail, None), w')"
    using ss_apply_goes [of sample_world 1 sample_line sample_outbound]
    by (auto simp: sample_world_def sample_healthy sample_ss_ready)
  with apply_success [OF a] show ?thesis by (simp add: sample_world_def sample_texts)
qed

text \<open>
  C8: applying a well-configured Shadowsocks line on a healthy host succeeds.  When no statement and
  no random read fails, the line is inside its period with valid hosts and ports, its port and its tag
  are free, its client email is not taken by another client and the stored template is a JSON object,
  \<^verbatim>\<open>ApplyLine\<close> returns the line without an error and the line is set up: its inbound, client,
  link, outbound and routing rule are in the database.
\<close>

theorem shadowsocks_apply_succeeds:
  assumes "healthy (w_env w)" "ss_line_ready lid line ob (w_env w) (w_db w)" "db_texts (w_db w)"
  shows "\<exists>detail w'. ApplyLine lid w = (Inr (Some detail, None), w') \<and> applied lid (w_db w')"
proof -
  from ss_apply_goes [OF assms(1, 2)] obtain detail w' where "ApplyLine lid w = (Inr (Some detail, None), w')" by blast
  with ApplyLine_applied [OF this assms(3)] show ?thesis by blast
qed

theorem shadowsocks_apply_succeeds_witness:
  "\<exists>detail w'. ApplyLine 1 sample_world = (Inr (Some detail, None), w') \<and> applied 1 (w_db w')"
  by (rule shadowsocks_apply_succeeds [of _ 1 sample_line sample_outbound])
     (simp_all add: sample_world_def sample_healthy sample_ss_ready sample_texts)

end
