(* ===== verification/RemovalFacts.thy ===== *)
theory RemovalFacts
  imports ApplyLive
begin

text \<open>
  What ending and deleting lines achieves: a line whose period is over is cut off whatever fails
  afterwards, the validity job cuts off every due line of a healthy panel, and a deletion removes all
  a line owns or nothing.
\<close>

section \<open>Cutting a line off\<close>

text \<open>No inbound with the tag of the line accepts connections.\<close>

definition cut_off :: "int \<Rightarrow> db \<Rightarrow> bool" where
  "cut_off lid d \<longleftrightarrow> (\<forall>i \<in> set (d_inbounds d). i_tag i = lineInboundTag lid \<longrightarrow> \<not> i_enable i)"

text \<open>A state property that the steps of a handler keep, under every pattern of failures.\<close>

abbreviation staysM :: "(db \<Rightarrow> bool) \<Rightarrow> 'a W \<Rightarrow> bool" where
  "staysM P m \<equiv> keepsM (db_rel (invR P)) m"

lemma stays_D: "staysM P m \<Longrightarrow> m w = (r, w') \<Longrightarrow> P (w_db w) \<Longrightarrow> P (w_db w')"
  by (drule (1) keepsM_D') (simp add: db_rel_def invR_def)

lemma rel_env_D: "keepsM (db_rel R) m \<Longrightarrow> m w = (r, w') \<Longrightarrow> w_env w' = w_env w"
  by (drule (1) keepsM_D') (simp add: db_rel_def)

lemma cut_off_same: "d_inbounds d' = d_inbounds d \<Longrightarrow> invR (cut_off lid) d d'"
  by (simp add: cut_off_def invR_def)

lemma cut_off_disable: "cut_off lid (d\<lparr>d_inbounds := update_where (\<lambda>i. i_tag i = lineInboundTag lid)
    (\<lambda>i. i\<lparr>i_enable := False\<rparr>) (d_inbounds d)\<rparr>)"
  by (auto simp: cut_off_def update_where_def)

lemma cut_off_disable_other: "invR (cut_off lid) d (d\<lparr>d_inbounds := update_where P
    (\<lambda>i. i\<lparr>i_enable := False\<rparr>) (d_inbounds d)\<rparr>)"
  by (auto simp: cut_off_def update_where_def invR_def)

lemma cut_off_delete: "invR (cut_off lid) d (d\<lparr>d_inbounds := delete_where P (d_inbounds d)\<rparr>)"
  by (auto simp: cut_off_def delete_where_def invR_def)

lemma stays_record: "staysM (cut_off k) (recordLineExpiryFailure lid e)"
  unfolding recordLineExpiryFailure_def by (intro keeps stmts cut_off_same) simp_all

lemma stays_expiry_failed: "staysM (cut_off k) (expiry_failed b lid e)"
  unfolding expiry_failed_def by (intro keeps stays_record)

lemma stays_expireTx: "staysM (cut_off k) (expireLineTx line now)"
  unfolding expireLineTx_def removeLineTemplateArtifacts_def removeLineManagedClient_def Let_def
  by (intro keeps stmts cut_off_delete cut_off_same) simp_all

lemma stays_cleanup: "staysM (cut_off k) (expire_cleanup line now)"
  unfolding expire_cleanup_def
  by (intro keeps stmts stays_expireTx stays_expiry_failed cut_off_disable_other)

lemma stays_expireLine: "staysM (cut_off k) (expireLine lid now)"
  unfolding expireLine_def by (intro keeps stmts keeps_nat stays_cleanup cut_off_same) simp_all

lemma expiry_failed_cases:
  assumes "expiry_failed b lid e w = (r, w')"
  obtains err where "r = Inr (b, err)"
  using assms by (auto simp: expiry_failed_def bindM_apply tryM_apply split: prod.splits)

text \<open>Once the inbound was disabled, nothing that follows can enable it.\<close>

lemma cleanup_cut:
  assumes "expire_cleanup line now w = (Inr (True, err), w')"
  shows "cut_off (l_id line) (w_db w')"
proof -
  obtain r w1 where d: "disable_inbound_tag (lineInboundTag (l_id line)) w = (r, w1)"
    by (cases "disable_inbound_tag (lineInboundTag (l_id line)) w")
  show ?thesis
  proof (cases r)
    case (Inl e)
    with assms d show ?thesis
      by (auto simp: expire_cleanup_def bindM_apply tryM_apply elim!: expiry_failed_cases [of False])
  next
    case (Inr u)
    let ?rest = "bindM (tryM (removeLineNginxConfig line (decodeLineConfig (l_configJSON line)))) (\<lambda>nginx.
            case nginx of
              Inl e \<Rightarrow> expiry_failed True (l_id line) e
            | Inr _ \<Rightarrow>
               bindM (tryM (transactionM (expireLineTx line now))) (\<lambda>tx.
                 case tx of
                   Inl e \<Rightarrow> expiry_failed True (l_id line) e
                 | Inr _ \<Rightarrow> retM (True, None)))"
    have "cut_off (l_id line) (w_db w1)"
      using d Inr cut_off_disable by (auto simp: disable_inbound_tag_def db_exec_Inr)
    moreover have "?rest w1 = (Inr (True, err), w')"
      using assms d Inr by (simp add: expire_cleanup_def bindM_apply tryM_apply)
    moreover have "staysM (cut_off (l_id line)) ?rest" by (intro keeps stays_expireTx stays_expiry_failed)
    ultimately show ?thesis using stays_D by blast
  qed
qed

section \<open>A healthy panel ends its lines\<close>

lemma record_healthy: "healthy (w_env w) \<Longrightarrow> \<exists>w1. recordLineExpiryFailure lid e w = (Inr (), w1)"
  by (simp add: recordLineExpiryFailure_def lines_updates_def createLineLog_def transactionM_def run)

lemma expiry_failed_healthy: "healthy (w_env w) \<Longrightarrow> \<exists>w1. expiry_failed b lid e w = (Inr (b, None), w1)"
  using record_healthy [of w lid e] by (auto simp: expiry_failed_def run)

lemma cleanup_healthy:
  assumes "healthy (w_env w)"
  shows "\<exists>w'. expire_cleanup line now w = (Inr (True, None), w')"
proof -
  let ?c = "decodeLineConfig (l_configJSON line)"
  obtain w1 where d: "disable_inbound_tag (lineInboundTag (l_id line)) w = (Inr (), w1)" "w_env w1 = w_env w"
    using assms by (simp add: disable_inbound_tag_def run)
  obtain r w2 where n: "removeLineNginxConfig line ?c w1 = (r, w2)" by (cases "removeLineNginxConfig line ?c w1")
  have "leavesM (\<lambda>d. d) (removeLineNginxConfig line ?c)" by (intro keeps)
  with n d assms have h2: "healthy (w_env w2)" by (auto dest: rel_env_D)
  obtain t w3 where t: "transactionM (expireLineTx line now) w2 = (t, w3)"
    by (cases "transactionM (expireLineTx line now) w2")
  have "staysM (cut_off 0) (transactionM (expireLineTx line now))" by (intro keeps stays_expireTx)
  with t h2 have h3: "healthy (w_env w3)" by (auto dest: rel_env_D)
  show ?thesis
    using d n t expiry_failed_healthy [OF h2] expiry_failed_healthy [OF h3]
    by (cases r; cases t) (simp_all add: expire_cleanup_def bindM_apply tryM_apply)
qed

text \<open>A line whose period is over and that was not ended yet.\<close>

definition unended :: "int \<Rightarrow> db \<Rightarrow> bool" where
  "unended lid d \<longleftrightarrow> (\<exists>l. find_line lid d = Some l \<and> l_status l \<noteq> st_expired)"

definition overdue :: "int \<Rightarrow> int \<Rightarrow> db \<Rightarrow> bool" where
  "overdue now lid d \<longleftrightarrow>
     (\<exists>l. find_line lid d = Some l \<and> 0 < l_validUntil l \<and> l_validUntil l \<le> now \<and> l_status l \<noteq> st_expired)"

lemma find_line_upd_other:
  "(\<And>l. P l \<Longrightarrow> l_id l \<noteq> k) \<Longrightarrow> (\<And>l. l_id (f l) = l_id l) \<Longrightarrow> find_line k (upd_lines P f now d) = find_line k d"
  by (cases "find_line k d") (auto simp: find_line_upd dest: find_line_id)

lemma unended_other:
  "(\<And>l. P l \<Longrightarrow> l_id l \<noteq> k) \<Longrightarrow> (\<And>l. l_id (f l) = l_id l) \<Longrightarrow> invR (unended k) d (upd_lines P f now d)"
  by (simp add: invR_def unended_def find_line_upd_other)

lemma unended_same: "d_lines d' = d_lines d \<Longrightarrow> invR (unended k) d d'"
  by (simp add: invR_def unended_def find_line_def)

lemma stays_unended_cleanup: "l_id line \<noteq> k \<Longrightarrow> staysM (unended k) (expire_cleanup line now)"
  unfolding expire_cleanup_def expiry_failed_def recordLineExpiryFailure_def expireLineTx_def
    removeLineTemplateArtifacts_def removeLineManagedClient_def Let_def
  by (intro keeps stmts unended_same unended_other) auto

lemma keeps_try_first_line:
  assumes R: "preorderR R" and f: "\<And>line. l_id line = lid \<Longrightarrow> keepsM (db_rel R) (f line)"
    and g: "\<And>e. keepsM (db_rel R) (g e)"
  shows "keepsM (db_rel R) (bindM (tryM (first_line lid)) (\<lambda>r. case r of Inl e \<Rightarrow> g e | Inr line \<Rightarrow> f line))"
proof -
  define h where "h line = (if l_id line = lid then f line else failM RecordNotFound)" for line
  have h: "keepsM (db_rel R) (h line)" for line
    unfolding h_def using f by (cases "l_id line = lid") (simp_all add: keeps R)
  have "keepsM (db_rel R) (bindM (tryM (first_line lid)) (\<lambda>r. case r of Inl e \<Rightarrow> g e | Inr line \<Rightarrow> h line))"
    using g h by (intro keeps R) simp_all
  moreover have "bindM (tryM (first_line lid)) (\<lambda>r. case r of Inl e \<Rightarrow> g e | Inr line \<Rightarrow> h line) w
      = bindM (tryM (first_line lid)) (\<lambda>r. case r of Inl e \<Rightarrow> g e | Inr line \<Rightarrow> f line) w" for w
    using first_line_id [of lid w]
    by (cases "first_line lid w") (auto simp: bindM_apply tryM_apply h_def split: sum.split)
  ultimately show ?thesis by (simp add: keepsM_def)
qed

lemma stays_unended_expireLine: "lid \<noteq> k \<Longrightarrow> staysM (unended k) (expireLine lid now)"
  unfolding expireLine_def
  by (intro keeps_try_first_line keeps stmts keeps_nat stays_unended_cleanup unended_other) auto

lemma expireLine_cut:
  assumes "expireLine lid now w = (Inr (True, err), w')"
  shows "cut_off lid (w_db w')"
proof -
  obtain r w1 where f: "first_line lid w = (r, w1)" by (cases "first_line lid w")
  with assms obtain line where r: "r = Inr line" by (cases r) (auto simp: expireLine_def bindM_apply tryM_apply)
  with f first_line_id have id: "l_id line = lid" by simp
  have "\<exists>v err'. expire_cleanup line now v = (Inr (True, err'), w')"
    using assms f r
    by (auto simp: expireLine_def bindM_apply tryM_apply split: if_splits prod.splits sum.splits nat.splits)
  then show ?thesis using cleanup_cut id by metis
qed

lemma ended_claimed:
  "find_line lid d = Some line \<Longrightarrow> (\<And>l. l_id (f l) = l_id l) \<Longrightarrow> (\<And>l. l_manual (f l)) \<Longrightarrow>
     (\<And>l. l_id l = lid \<Longrightarrow> l \<in> set (d_lines d) \<Longrightarrow> P l) \<Longrightarrow> ended lid (upd_lines P f now d)"
  by (auto simp: ended_def upd_lines_def update_where_def)

lemma same_key: "db_ok d \<Longrightarrow> l \<in> set (d_lines d) \<Longrightarrow> find_line (l_id l) d = Some l"
  unfolding db_ok_def find_line_def by (blast intro: lines_tbl.find_by_id)

lemma evolves_ended: "evolves {} d d' \<Longrightarrow> db_ok d \<Longrightarrow> lid < d_nextLine d \<Longrightarrow> ended lid d \<Longrightarrow> ended lid d'"
  by (simp add: evolves_def)

lemma expireLine_healthy:
  assumes h: "healthy (w_env w)" and ok: "db_ok (w_db w)" and u: "unended lid (w_db w)"
  shows "\<exists>w'. expireLine lid now w = (Inr (True, None), w') \<and> cut_off lid (w_db w') \<and> ended lid (w_db w')"
proof -
  from u obtain line where l: "find_line lid (w_db w) = Some line" "l_status line \<noteq> st_expired"
    by (auto simp: unended_def)
  then have id: "l_id line = lid" and mem: "line \<in> set (d_lines (w_db w))" by (auto dest: find_line_id)
  then have key: "lid < d_nextLine (w_db w)" using ok by (auto simp: db_ok_def ids_ok_def)
  let ?w1 = "w\<lparr>w_tick := Suc (w_tick w)\<rparr>"
  have f: "first_line lid w = (Inr line, ?w1)" using h l by (simp add: first_line_def run)
  have stays: "evolves {} (w_db v) (w_db v')" if "expire_cleanup line now v = (x, v')" for v v' x
    using that by (auto dest!: keepsM_D' [OF safe_expire_cleanup [of "{}"]] simp: db_rel_def)
  have "\<exists>v w'. expireLine lid now w = (Inr (True, None), w') \<and> expire_cleanup line now v = (Inr (True, None), w')
      \<and> db_ok (w_db v) \<and> ended lid (w_db v) \<and> lid < d_nextLine (w_db v)"
  proof (cases "l_status line \<noteq> st_expiring \<and> l_status line \<noteq> st_expiry_failed")
    case True
    let ?P = "\<lambda>l. l_id l = lid \<and> l_status l \<noteq> st_expired"
    let ?f = "\<lambda>l. l\<lparr>l_status := st_expiring, l_manual := True, l_expiredAt := now\<rparr>"
    let ?d = "upd_lines ?P ?f (e_clock (w_env w) (Suc (w_tick w))) (w_db w)"
    let ?v = "w\<lparr>w_tick := Suc (Suc (Suc (w_tick w))), w_db := ?d\<rparr>"
    obtain n where n: "length (filter ?P (d_lines (w_db w))) = Suc n"
      using mem l id by (cases "length (filter ?P (d_lines (w_db w)))") (auto simp: filter_empty_conv)
    have c: "lines_updates ?P ?f ?w1 = (Inr (Suc n), ?v)" using h n by (simp add: lines_updates_def run)
    obtain w' where w': "expire_cleanup line now ?v = (Inr (True, None), w')" using cleanup_healthy [of ?v] h by auto
    have "evolves {} (w_db w) ?d" by (rule evolves_upd_lines) (auto simp: line_ok_def)
    then have "db_ok ?d" "lid < d_nextLine ?d" using ok key by (auto simp: evolves_def)
    moreover have "ended lid ?d"
    proof (rule ended_claimed [OF l(1)])
      fix l' assume "l_id l' = lid" "l' \<in> set (d_lines (w_db w))"
      then have "l' = line" using same_key [OF ok, of l'] l(1) by simp
      then show "?P l'" using l id by simp
    qed simp_all
    moreover have "expireLine lid now w = (Inr (True, None), w')"
      using f l True c w' by (simp add: expireLine_def bindM_apply tryM_apply del: st_expired_def st_expiring_def st_expiry_failed_def)
    ultimately show ?thesis using w' by (intro exI [of _ ?v] exI [of _ w']) simp
  next
    case False
    obtain w' where w': "expire_cleanup line now ?w1 = (Inr (True, None), w')" using cleanup_healthy [of ?w1] h by auto
    have "l_manual line" using ok mem False by (auto simp: db_ok_def line_ok_def list_all_iff)
    moreover have "l' = line" if "l' \<in> set (d_lines (w_db w))" "l_id l' = lid" for l'
      using same_key [OF ok, of l'] l(1) that by simp
    ultimately have "ended lid (w_db w)" by (auto simp: ended_def)
    moreover have "expireLine lid now w = (Inr (True, None), w')"
      using f l False w' by (auto simp: expireLine_def bindM_apply tryM_apply)
    ultimately show ?thesis using w' ok key by (intro exI [of _ ?w1] exI [of _ w']) simp
  qed
  then obtain v w' where e: "expireLine lid now w = (Inr (True, None), w')" "expire_cleanup line now v = (Inr (True, None), w')"
    "db_ok (w_db v)" "ended lid (w_db v)" "lid < d_nextLine (w_db v)" by blast
  with expireLine_cut [OF e(1)] evolves_ended [OF stays [OF e(2)]] show ?thesis by blast
qed

section \<open>The validity job\<close>

lemma stays_expire_lines: "staysM (cut_off k) (expire_lines now ls r)"
proof (induction ls arbitrary: r)
  case Nil
  show ?case unfolding expire_lines.simps by (intro keeps)
next
  case (Cons q qs)
  show ?case unfolding expire_lines.simps Let_def by (intro keeps stays_expireLine Cons.IH)
qed

text \<open>Every line of a list is ended, in order, without disturbing the ones before and after it.\<close>

lemma expire_lines_healthy:
  assumes "healthy (w_env w)" "db_ok (w_db w)" "distinct (List.map l_id ls)"
    "\<And>l. l \<in> set ls \<Longrightarrow> unended (l_id l) (w_db w)"
  shows "\<exists>rr w'. expire_lines now ls r w = (Inr rr, w')
      \<and> (\<forall>l \<in> set ls. cut_off (l_id l) (w_db w') \<and> ended (l_id l) (w_db w'))"
  using assms
proof (induction ls arbitrary: r w)
  case Nil
  then show ?case by simp
next
  case (Cons l ls)
  obtain w1 where e: "expireLine (l_id l) now w = (Inr (True, None), w1)" "cut_off (l_id l) (w_db w1)"
    "ended (l_id l) (w_db w1)"
    using expireLine_healthy [OF Cons.prems(1, 2), of "l_id l"] Cons.prems(4) by auto
  have ev: "evolves {} (w_db w) (w_db w1)" "w_env w1 = w_env w"
    using keepsM_D' [OF safe_expireLine [of "{}"] e(1)] by (simp_all add: db_rel_def)
  then have ok: "db_ok (w_db w1)" and nx: "d_nextLine (w_db w) \<le> d_nextLine (w_db w1)"
    using Cons.prems(2) by (simp_all add: evolves_def)
  have un: "unended (l_id q) (w_db w1)" if "q \<in> set ls" for q
    using stays_D [OF stays_unended_expireLine e(1)] Cons.prems(3, 4) that by fastforce
  let ?r = "r\<lparr>rr_restart := True, rr_expired := rr_expired r + 1\<rparr>"
  obtain rr w' where t: "expire_lines now ls ?r w1 = (Inr rr, w')"
    "\<forall>l \<in> set ls. cut_off (l_id l) (w_db w') \<and> ended (l_id l) (w_db w')"
    using Cons.IH [of w1 ?r] Cons.prems ev(2) ok un by auto
  have "cut_off (l_id l) (w_db w')" using stays_D stays_expire_lines t(1) e(2) by blast
  moreover have "l_id l < d_nextLine (w_db w1)"
  proof -
    obtain x where "find_line (l_id l) (w_db w) = Some x" using Cons.prems(4) by (auto simp: unended_def)
    then show ?thesis using Cons.prems(2) nx by (auto simp: db_ok_def ids_ok_def dest!: find_line_id)
  qed
  then have "ended (l_id l) (w_db w')"
    using keepsM_D' [OF safe_expire_lines [of "{}"] t(1)] ok e(3) by (auto simp: db_rel_def intro: evolves_ended)
  ultimately show ?case using e(1) t by (auto simp: bindM_apply)
qed

text \<open>An apply does not end a line, nor does it change its period.\<close>

lemma overdue_upd:
  assumes "\<And>l. l_id (f l) = l_id l" "\<And>l. l_validUntil (f l) = l_validUntil l"
    "\<And>l. l_status l \<noteq> st_expired \<Longrightarrow> l_status (f l) \<noteq> st_expired"
  shows "invR (overdue now lid) d (upd_lines P f t d)"
proof -
  have "\<exists>l'. find_line lid (upd_lines P f t d) = Some l' \<and> 0 < l_validUntil l' \<and> l_validUntil l' \<le> now \<and> l_status l' \<noteq> st_expired"
    if "find_line lid d = Some l" "0 < l_validUntil l" "l_validUntil l \<le> now" "l_status l \<noteq> st_expired" for l
    using that assms by (cases "P l") (simp_all add: find_line_upd)
  then show ?thesis unfolding invR_def overdue_def by blast
qed

lemma overdue_same: "d_lines d' = d_lines d \<Longrightarrow> invR (overdue now lid) d d'"
  by (simp add: invR_def overdue_def find_line_def)

lemma overdue_xray: "staysM (overdue now k) (applyLineXray line ob config)"
  unfolding applyLineXray_def applyCloudflareXray_def applyRealityXray_def applyShadowsocksXray_def
    require_outbound_def save_inbound_def upsertLineManagedClient_def ensureLineManagedShadowsocksClient_def
    attachLineManagedClient_def finish_xray_def upsertLineOutboundInTemplate_def getXrayTemplateConfigTx_def
    write_template_def Let_def
  by (intro keeps stmts overdue_upd overdue_same) (auto split: option.splits)

lemma overdue_tx: "staysM (overdue now k) (applyLineTx lid rp bp)"
  unfolding applyLineTx_def check_fresh_def apply_config_def apply_nginx_part_def Let_def
  by (intro keeps stmts overdue_xray overdue_upd overdue_same) auto

lemma overdue_getLine: "staysM (overdue now k) (GetLine lid)"
  unfolding GetLine_def getLine_def Let_def by (intro keeps stmts overdue_upd overdue_same) auto

lemma overdue_ApplyLine: "staysM (overdue now k) (ApplyLine lid)"
  unfolding ApplyLine_def finishLineApplyError_def recordLineApplyFailure_def
  by (intro keeps stmts overdue_tx overdue_getLine overdue_upd overdue_same) auto

lemma overdue_start_lines: "staysM (overdue now k) (start_lines ls r)"
proof (induction ls arbitrary: r)
  case Nil
  show ?case unfolding start_lines.simps by (intro keeps)
next
  case (Cons l ls)
  show ?case unfolding start_lines.simps by (intro keeps stmts overdue_ApplyLine overdue_upd Cons.IH keeps_nat) auto
qed

lemma ApplyLine_total: "\<exists>x w'. ApplyLine lid w = (Inr x, w')"
proof -
  obtain r w' where a: "ApplyLine lid w = (r, w')" by (cases "ApplyLine lid w")
  then show ?thesis
  proof (cases rule: ApplyLine_outcome)
    case (failed e w1)
    then have "\<exists>x. r = Inr x"
      by (auto simp: finishLineApplyError_def bindM_apply tryM_apply split: prod.splits sum.splits)
    with a show ?thesis by blast
  qed (use a in auto)
qed

lemma start_lines_total: "\<exists>rr w'. start_lines ls r w = (Inr rr, w')"
proof (induction ls arbitrary: r w)
  case (Cons l ls)
  let ?claim = "lines_updates (\<lambda>k. l_id k = l_id l \<and> l_status k = st_scheduled \<and> \<not> l_manual k)
                    (\<lambda>l. l\<lparr>l_status := ''pending_apply''\<rparr>)"
  obtain c w1 where "?claim w = (c, w1)" by (cases "?claim w")
  then have c: "tryM ?claim w = (Inr c, w1)" by (simp add: tryM_apply)
  show ?case
  proof (cases "\<exists>n. c = Inr (Suc n)")
    case True
    obtain d err w2 where a: "ApplyLine (l_id l) w1 = (Inr (d, err), w2)" using ApplyLine_total by (metis surj_pair)
    from c True a Cons.IH show ?thesis by (cases err) (auto simp: bindM_apply simp del: st_scheduled_def)
  next
    case False
    with c Cons.IH show ?thesis
      by (auto simp: bindM_apply simp del: st_scheduled_def split: sum.split nat.split)
  qed
qed simp


section \<open>What a line owns\<close>

text \<open>The stored template has neither the outbound of the line nor its rule.\<close>

definition template_down :: "string \<Rightarrow> string \<Rightarrow> setting list \<Rightarrow> bool" where
  "template_down ot it settings \<longleftrightarrow>
     (case find (\<lambda>r. st_key r = templateKey) settings of
        None \<Rightarrow> True
      | Some st \<Rightarrow>
         (case unmarshal_object (st_value st) of
            None \<Rightarrow> False
          | Some cfg \<Rightarrow> template_has ot it cfg = (ot = '''' \<and> fst (template_has ot it cfg), False)))"

lemma filter_update_where:
  "(\<And>r. r \<in> set rows \<Longrightarrow> P r \<Longrightarrow> \<not> Q r \<and> \<not> Q (f r)) \<Longrightarrow> filter Q (update_where P f rows) = filter Q rows"
  unfolding update_where_def by (induction rows) auto

lemma remove_template_post:
  assumes "removeLineTemplateArtifacts ot it w = (Inr (), w')" "db_ok (w_db w)"
  shows "\<exists>s. w_db w' = (w_db w)\<lparr>d_settings := s\<rparr> \<and> template_down ot it s
      \<and> filter (\<lambda>r. st_key r \<noteq> templateKey) s = filter (\<lambda>r. st_key r \<noteq> templateKey) (d_settings (w_db w))"
proof -
  obtain r w1 where g: "getSetting templateKey w = (r, w1)" by (cases "getSetting templateKey w")
  show ?thesis
  proof (cases r)
    case (Inl e)
    with g assms(1) have "find_setting templateKey (w_db w) = None" "w_db w' = w_db w"
      using getSetting_Inl_db [of templateKey w e w1]
      by (auto simp: removeLineTemplateArtifacts_def bindM_apply tryM_apply split: if_splits)
    then show ?thesis
      by (intro exI [of _ "d_settings (w_db w)"]) (simp add: template_down_def find_setting_def)
  next
    case (Inr st)
    with g have st: "w_db w1 = w_db w" "find_setting templateKey (w_db w) = Some st" by (auto dest: getSetting_Inr)
    obtain cfg where cfg: "decode_template (st_value st) = Inr cfg"
      "update_setting (st_id st) (json_marshal_indent (JObj (template_remove ot it cfg))) w1 = (Inr (), w')"
      using assms(1) g Inr
      by (cases "decode_template (st_value st)") (simp_all add: removeLineTemplateArtifacts_def bindM_apply tryM_apply liftM_def)
    let ?new = "\<lambda>r. r\<lparr>st_value := json_marshal_indent (JObj (template_remove ot it cfg))\<rparr>"
    let ?s = "update_where (\<lambda>r. st_id r = st_id st) ?new (d_settings (w_db w))"
    have wf: "wf_json (JObj (template_remove ot it cfg))"
      by (rule wf_template_remove [OF decode_template_wf [OF cfg(1)]])
    have s: "w_db w' = (w_db w)\<lparr>d_settings := ?s\<rparr>" using cfg(2) st by (simp add: update_setting_def db_exec_Inr)
    have mem: "st \<in> set (d_settings (w_db w))" "st_key st = templateKey"
      using st(2) by (auto simp: find_setting_def dest: find_SomeD)
    have f: "find (\<lambda>r. st_key r = templateKey) ?s = Some (?new st)"
      using st(2) by (simp add: find_setting_def find_update_where)
    have d: "template_down ot it ?s"
      proof -
      have v: "st_value (?new st) = json_marshal_indent (JObj (template_remove ot it cfg))" by simp
      show ?thesis
        unfolding template_down_def f option.case v unmarshal_template_print [OF wf] template_has_remove by simp
    qed
    have k: "st_key r = templateKey" if "r \<in> set (d_settings (w_db w))" "st_id r = st_id st" for r
      using assms(2) that mem settings_tbl.ids_unique [of _ "d_settings (w_db w)" r st] by (auto simp: db_ok_def)
    have "filter (\<lambda>r. st_key r \<noteq> templateKey) ?s = filter (\<lambda>r. st_key r \<noteq> templateKey) (d_settings (w_db w))"
      by (rule filter_update_where) (use k in simp_all)
    with s d show ?thesis by (intro exI [of _ ?s] conjI)
  qed
qed

lemma delete_where_cong:
  "(\<And>r. r \<in> set rows \<Longrightarrow> P r = Q r) \<Longrightarrow> delete_where P rows = delete_where Q rows"
  by (auto simp: delete_where_def intro: filter_cong)

definition line_links :: "int \<Rightarrow> db \<Rightarrow> client_inbound \<Rightarrow> bool" where
  "line_links lid d x \<longleftrightarrow>
     (case find_client (lineManagedClientEmail lid) d of None \<Rightarrow> False | Some c \<Rightarrow> ci_clientId x = c_id c)"

lemma remove_client_post:
  assumes "removeLineManagedClient lid w = (Inr (), w')" "db_ok (w_db w)" "0 < lid"
  shows "w_db w' = (w_db w)\<lparr>d_clients := delete_where (\<lambda>c. c_email c = lineManagedClientEmail lid) (d_clients (w_db w)),
      d_clientInbounds := delete_where (line_links lid (w_db w)) (d_clientInbounds (w_db w))\<rparr>"
proof -
  let ?em = "lineManagedClientEmail lid"
  obtain r w1 where g: "first_client ?em w = (r, w1)" by (cases "first_client ?em w")
  show ?thesis
  proof (cases r)
    case (Inl e)
    with g assms have n: "find_client ?em (w_db w) = None" and w': "w_db w' = w_db w"
      using first_client_Inl_db [of ?em w e w1]
      by (auto simp: removeLineManagedClient_def bindM_apply tryM_apply split: if_splits)
    then have "c_email c \<noteq> ?em" if "c \<in> set (d_clients (w_db w))" for c
      using that by (auto simp: find_client_def find_None_iff)
    then have "delete_where (\<lambda>c. c_email c = ?em) (d_clients (w_db w)) = d_clients (w_db w)"
      "delete_where (line_links lid (w_db w)) (d_clientInbounds (w_db w)) = d_clientInbounds (w_db w)"
      using n by (auto simp: delete_where_def line_links_def)
    with w' show ?thesis by simp
  next
    case (Inr c)
    with g have c: "w_db w1 = w_db w" "find_client ?em (w_db w) = Some c" by (auto dest: first_client_Inr)
    then have mem: "c \<in> set (d_clients (w_db w))" "c_email c = ?em" by (auto simp: find_client_def dest: find_SomeD)
    have eq: "c_id q = c_id c \<longleftrightarrow> c_email q = ?em" if "q \<in> set (d_clients (w_db w))" for q
    proof -
      have "q = c" if "c_id q = c_id c"
        using assms(2) mem \<open>q \<in> _\<close> that clients_tbl.ids_unique [of _ "d_clients (w_db w)" q c] by (auto simp: db_ok_def)
      moreover have "q = c" if "c_email q = ?em"
        using assms(2) mem \<open>q \<in> _\<close> that by (auto simp: db_ok_def distinct_map inj_on_def)
      ultimately show ?thesis using mem by auto
    qed
    then have "delete_where (\<lambda>q. c_id q = c_id c) (d_clients (w_db w)) = delete_where (\<lambda>q. c_email q = ?em) (d_clients (w_db w))"
      by (rule delete_where_cong)
    moreover have "line_links lid (w_db w) = (\<lambda>x. ci_clientId x = c_id c)" using c by (auto simp: line_links_def)
    moreover have "thenM (delete_client_links (c_id c)) (delete_client (c_id c)) w1 = (Inr (), w')"
      using assms(1, 3) g Inr
      by (simp add: removeLineManagedClient_def bindM_apply tryM_apply split: if_splits)
    ultimately show ?thesis
      using c by (auto simp: delete_client_links_def delete_client_def monad_Inr db_exec_Inr)
  qed
qed

section \<open>Deletion\<close>

text \<open>The database without a line: nothing that the line owns, and everything else.\<close>

definition without_line :: "int \<Rightarrow> setting list \<Rightarrow> db \<Rightarrow> db" where
  "without_line lid settings d =
     d\<lparr>d_lines := delete_where (\<lambda>l. l_id l = lid) (d_lines d),
       d_outbounds := delete_where (\<lambda>b. o_lineId b = lid) (d_outbounds d),
       d_logs := delete_where (\<lambda>g. g_lineId g = lid) (d_logs d),
       d_checks := delete_where (\<lambda>k. k_lineId k = lid) (d_checks d),
       d_subs := delete_where (\<lambda>s. s_lineId s = lid) (d_subs d),
       d_inbounds := delete_where (\<lambda>i. i_tag i = lineInboundTag lid) (d_inbounds d),
       d_clients := delete_where (\<lambda>c. c_email c = lineManagedClientEmail lid) (d_clients d),
       d_clientInbounds := delete_where (line_links lid d) (d_clientInbounds d),
       d_settings := settings\<rparr>"

lemma deleteLineTx_post:
  assumes "deleteLineTx line w = (Inr (), w')" "db_ok (w_db w)" "l_id line = lid" "0 < lid"
  shows "\<exists>s. w_db w' = without_line lid s (w_db w) \<and> template_down (l_outboundTag line) (lineInboundTag lid) s
      \<and> filter (\<lambda>r. st_key r \<noteq> templateKey) s = filter (\<lambda>r. st_key r \<noteq> templateKey) (d_settings (w_db w))"
proof -
  from assms(1, 3) obtain w1 w2 where t: "removeLineTemplateArtifacts (l_outboundTag line) (lineInboundTag lid) w = (Inr (), w1)"
    and c: "removeLineManagedClient lid w1 = (Inr (), w2)"
    and rest: "w_db w' = (w_db w2)\<lparr>
       d_inbounds := delete_where (\<lambda>i. i_tag i = lineInboundTag lid) (d_inbounds (w_db w2)),
       d_checks := delete_where (\<lambda>k. k_lineId k = lid) (d_checks (w_db w2)),
       d_logs := delete_where (\<lambda>g. g_lineId g = lid) (d_logs (w_db w2)),
       d_subs := delete_where (\<lambda>s. s_lineId s = lid) (d_subs (w_db w2)),
       d_outbounds := delete_where (\<lambda>b. o_lineId b = lid) (d_outbounds (w_db w2)),
       d_lines := delete_where (\<lambda>l. l_id l = lid) (d_lines (w_db w2))\<rparr>"
    by (auto simp: deleteLineTx_def Let_def monad_Inr delete_inbound_tag_def delete_checks_def delete_logs_def
        delete_subs_def delete_outbounds_def delete_line_def db_exec_Inr)
  have "safeM {} (removeLineTemplateArtifacts (l_outboundTag line) (lineInboundTag lid))" by (intro keeps)
  from keepsM_D' [OF this t] have "db_ok (w_db w1)" using assms(2) by (simp add: db_rel_def evolves_def)
  note c' = remove_client_post [OF c this assms(4)]
  from remove_template_post [OF t assms(2)] obtain s where s: "w_db w1 = (w_db w)\<lparr>d_settings := s\<rparr>"
    "template_down (l_outboundTag line) (lineInboundTag lid) s"
    "filter (\<lambda>r. st_key r \<noteq> templateKey) s = filter (\<lambda>r. st_key r \<noteq> templateKey) (d_settings (w_db w))" by blast
  have "line_links lid (w_db w1) = line_links lid (w_db w)" using s by (simp add: line_links_def [abs_def] find_client_def)
  then have "w_db w' = without_line lid s (w_db w)"
    by (intro db.equality) (simp_all add: without_line_def rest c' s)
  with s show ?thesis by blast
qed

lemma nginx_removal_reads: "removeLineNginxConfig line c w = (r, w') \<Longrightarrow> w_db w' = w_db w"
  using leaves_all [of "removeLineNginxConfig line c"] keeps_removeLineNginxConfig [OF preorder_sameR] by blast

lemma nginx_restore_reads: "restoreRemovedLineNginxConfig b osNginxExecutor w = (r, w') \<Longrightarrow> w_db w' = w_db w"
  using leaves_all [of "restoreRemovedLineNginxConfig b osNginxExecutor"] keeps_restoreRemovedOs [OF preorder_sameR] by blast

lemma removeAll_reads: "os_removeAll p w = (r, w') \<Longrightarrow> w_db w' = w_db w"
proof -
  have "leavesM (\<lambda>d. d) (os_removeAll p)" unfolding os_removeAll_def by (intro keeps keeps_fsM preorder_sameR)
  then show "os_removeAll p w = (r, w') \<Longrightarrow> ?thesis" by (rule leaves_all)
qed

text \<open>
  C5: a deletion removes all a line owns, or nothing.  When \<^verbatim>\<open>DeleteLine\<close> returns no error, the
  database is the old one without the line, its outbounds, logs, checks and subscriptions, the inbound
  with its tag, its managed client and the links of that client, and without its outbound and rule in
  the Xray template; other lines, clients, inbounds and settings are untouched.  When it returns an
  error, the database is as before.
\<close>

theorem delete_all_or_nothing:
  assumes "DeleteLine lid w = (Inr (res, err), w')" "db_ok (w_db w)"
  shows "case err of
      Some e \<Rightarrow> w_db w' = w_db w
    | None \<Rightarrow> (\<exists>line s. find_line lid (w_db w) = Some line \<and> w_db w' = without_line lid s (w_db w)
        \<and> template_down (l_outboundTag line) (lineInboundTag lid) s
        \<and> filter (\<lambda>r. st_key r \<noteq> templateKey) s = filter (\<lambda>r. st_key r \<noteq> templateKey) (d_settings (w_db w)))"
proof -
  obtain r w1 where f: "first_line lid w = (r, w1)" by (cases "first_line lid w")
  have w1: "w_db w1 = w_db w"
    using leaves_all [OF keeps_first_line [OF preorder_sameR] f] .
  show ?thesis
  proof (cases r)
    case (Inl e)
    with assms f w1 show ?thesis by (auto simp: DeleteLine_def bindM_apply tryM_apply)
  next
    case (Inr line)
    with f have line: "find_line lid (w_db w) = Some line" by (simp add: first_line_Inr)
    then have id: "l_id line = lid" "0 < lid" using assms(2) by (auto simp: db_ok_def ids_ok_def dest!: find_line_id)
    obtain n w2 where n: "removeLineNginxConfig line (decodeLineConfig (l_configJSON line)) w1 = (n, w2)"
      by (cases "removeLineNginxConfig line (decodeLineConfig (l_configJSON line)) w1")
    then have w2: "w_db w2 = w_db w" using w1 by (auto dest: nginx_removal_reads)
    obtain t w3 where t: "transactionM (deleteLineTx line) w2 = (t, w3)" by (cases "transactionM (deleteLineTx line) w2")
    show ?thesis
    proof (cases t)
      case (Inl e)
      then have "w_db w3 = w_db w" using t w2 by (auto dest: transaction_rollback)
      with Inl assms f Inr n t w2 show ?thesis
        by (auto simp: DeleteLine_def Let_def bindM_apply tryM_apply dest!: nginx_restore_reads
            split: sum.splits prod.splits option.splits)
    next
      case tx: (Inr u)
      from t tx obtain v1 v2 where v: "w_db v1 = w_db w2" "deleteLineTx line v1 = (Inr (), v2)" "w_db w3 = w_db v2"
        by (auto elim: transaction_Inr)
      from deleteLineTx_post [OF v(2) _ id] v w2 assms(2) obtain s where s: "w_db w3 = without_line lid s (w_db w)"
        "template_down (l_outboundTag line) (lineInboundTag lid) s"
        "filter (\<lambda>r. st_key r \<noteq> templateKey) s = filter (\<lambda>r. st_key r \<noteq> templateKey) (d_settings (w_db w))" by auto
      from assms(1) f Inr n t tx have "case err of Some e \<Rightarrow> w_db w' = w_db w2 | None \<Rightarrow> w_db w' = w_db w3"
        by (auto simp: DeleteLine_def Let_def bindM_apply tryM_apply dest!: removeAll_reads
            split: sum.splits prod.splits option.splits)
      with s line w2 show ?thesis by (auto split: option.splits)
    qed
  qed
qed

section \<open>How an expiry ends\<close>

lemma kinds_same_expire: "leavesM kinds (expireLine lid now)"
  unfolding expireLine_def expire_cleanup_def expiry_failed_def recordLineExpiryFailure_def expireLineTx_def
    removeLineTemplateArtifacts_def removeLineManagedClient_def Let_def
  by (intro keeps stmts keeps_nat) (auto simp: sameR_def kinds_upd, simp_all add: kinds_def)

text \<open>Set up no more: neither inbound nor client nor route.\<close>

definition torn_down :: "int \<Rightarrow> string \<Rightarrow> db \<Rightarrow> bool" where
  "torn_down lid ot d \<longleftrightarrow>
     find_inbound_tag (lineInboundTag lid) d = None \<and> find_client (lineManagedClientEmail lid) d = None
     \<and> template_down ot (lineInboundTag lid) (d_settings d)"

lemma find_line_add_log: "find_line k (add_log lid a l m t now d) = find_line k d"
  by (simp add: find_line_def)

lemma expireLineTx_post:
  assumes "expireLineTx line now w = (Inr (), w')" "db_ok (w_db w)" "l_id line = lid" "0 < lid"
    and "find_line lid (w_db w) = Some l"
  shows "torn_down lid (l_outboundTag line) (w_db w')
    \<and> (\<exists>l'. find_line lid (w_db w') = Some l' \<and> l_status l' = st_expired \<and> l_manual l' \<and> l_expiredAt l' = now \<and> l_inboundId l' = None)"
proof -
  let ?f = "\<lambda>l. l\<lparr>l_status := st_expired, l_manual := True, l_expiredAt := now, l_inboundId := None, l_lastError := txt_expired_error\<rparr>"
  from assms(1, 3) obtain w1 w2 t g where
    tm: "removeLineTemplateArtifacts (l_outboundTag line) (lineInboundTag lid) w = (Inr (), w1)"
    and c: "removeLineManagedClient lid w1 = (Inr (), w2)"
    and rest: "w_db w' = add_log lid ''expiry'' ''warning'' txt_expired txt_expired_detail g
       (upd_lines (\<lambda>l. l_id l = lid) ?f t ((w_db w2)\<lparr>d_inbounds := delete_where (\<lambda>i. i_tag i = lineInboundTag lid) (d_inbounds (w_db w2))\<rparr>))"
    by (auto simp: expireLineTx_def Let_def monad_Inr delete_inbound_tag_def lines_updates_def createLineLog_def
        db_exec_Inr dbM_Inr time_now_Inr)
  have "safeM {} (removeLineTemplateArtifacts (l_outboundTag line) (lineInboundTag lid))" by (intro keeps)
  from keepsM_D' [OF this tm] have "db_ok (w_db w1)" using assms(2) by (simp add: db_rel_def evolves_def)
  note c' = remove_client_post [OF c this assms(4)]
  from remove_template_post [OF tm assms(2)] obtain s where s: "w_db w1 = (w_db w)\<lparr>d_settings := s\<rparr>"
    "template_down (l_outboundTag line) (lineInboundTag lid) s" by blast
  have "torn_down lid (l_outboundTag line) (w_db w')"
    using s by (simp add: torn_down_def rest c' find_inbound_tag_def find_client_def find_delete_where_none)
  moreover have "find_line lid ((w_db w2)\<lparr>d_inbounds := delete_where (\<lambda>i. i_tag i = lineInboundTag lid) (d_inbounds (w_db w2))\<rparr>) = Some l"
    using assms(5) by (simp add: c' s find_line_def)
  then have "find_line lid (w_db w') = Some ((?f l)\<lparr>l_updatedAt := t\<rparr>)"
    using find_line_id [OF assms(5)] by (simp add: rest find_line_add_log find_line_upd)
  ultimately show ?thesis by simp
qed

lemma record_post:
  assumes "recordLineExpiryFailure lid e w = (Inr (), w')" "find_line lid (w_db w) = Some l"
  shows "\<exists>l'. find_line lid (w_db w') = Some l' \<and> l_status l' = st_expiry_failed \<and> l_manual l'"
proof -
  let ?f = "\<lambda>l. l\<lparr>l_status := st_expiry_failed, l_manual := True, l_lastError := txt_cleanup_failed @ err_text e\<rparr>"
  from assms(1) obtain t g where "w_db w' = add_log lid ''expiry'' ''error'' txt_disabled_first (err_text e) g
      (upd_lines (\<lambda>l. l_id l = lid) ?f t (w_db w))"
    unfolding recordLineExpiryFailure_def
    by (auto elim!: transaction_Inr simp: monad_Inr lines_updates_def createLineLog_def db_exec_Inr dbM_Inr time_now_Inr)
  moreover have "find_line lid (upd_lines (\<lambda>l. l_id l = lid) ?f t (w_db w)) = Some ((?f l)\<lparr>l_updatedAt := t\<rparr>)"
    using assms(2) find_line_id [OF assms(2)] by (simp add: find_line_upd)
  ultimately show ?thesis by (simp add: find_line_def)
qed

lemma cleanup_end:
  assumes c: "expire_cleanup line now w = (Inr (True, None), w')" and ok: "db_ok (w_db w)"
    and l: "l_id line = lid" "0 < lid" "find_line lid (w_db w) = Some l"
  shows "\<exists>l'. find_line lid (w_db w') = Some l' \<and> l_manual l'
    \<and> (l_status l' = st_expiry_failed
       \<or> l_status l' = st_expired \<and> l_expiredAt l' = now \<and> l_inboundId l' = None \<and> torn_down lid (l_outboundTag line) (w_db w'))"
proof -
  have rec: "\<exists>l'. find_line lid (w_db w') = Some l' \<and> l_status l' = st_expiry_failed \<and> l_manual l'"
    if "expiry_failed True lid e v = (Inr (True, None), w')" "find_line lid (w_db v) = Some l1" for e v l1
  proof -
    from that(1) have "recordLineExpiryFailure lid e v = (Inr (), w')"
      by (auto simp: expiry_failed_def bindM_apply tryM_apply split: sum.splits prod.splits)
    then show ?thesis using that(2) by (rule record_post)
  qed
  obtain d w1 where d: "disable_inbound_tag (lineInboundTag lid) w = (d, w1)" by (cases "disable_inbound_tag (lineInboundTag lid) w")
  obtain n w2 where n: "removeLineNginxConfig line (decodeLineConfig (l_configJSON line)) w1 = (n, w2)"
    by (cases "removeLineNginxConfig line (decodeLineConfig (l_configJSON line)) w1")
  obtain t w3 where t: "transactionM (expireLineTx line now) w2 = (t, w3)" by (cases "transactionM (expireLineTx line now) w2")
  have fd: "d \<noteq> Inl e" for e
    using c d l(1) by (auto simp: expire_cleanup_def bindM_apply tryM_apply elim!: expiry_failed_cases [of False])
  have "safeM {} (disable_inbound_tag (lineInboundTag lid))" by (intro keeps stmts evol)
  from keepsM_D' [OF this d] have ok1: "db_ok (w_db w1)" using ok by (simp add: db_rel_def evolves_def)
  have "leavesM d_lines (disable_inbound_tag (lineInboundTag lid))" by (intro keeps stmts) (auto simp: sameR_def)
  from leaves_D [OF this d] have f1: "find_line lid (w_db w1) = Some l" using l(3) by (simp add: find_line_def)
  have w2: "w_db w2 = w_db w1" using n by (rule nginx_removal_reads)
  show ?thesis
  proof (cases n)
    case (Inl e)
    with c d n fd l(1) have "expiry_failed True lid e w2 = (Inr (True, None), w')"
      by (cases d) (auto simp: expire_cleanup_def bindM_apply tryM_apply)
    from rec [OF this] f1 w2 show ?thesis by fastforce
  next
    case n': (Inr b)
    show ?thesis
    proof (cases t)
      case (Inl e)
      with c d n n' t fd l(1) have "expiry_failed True lid e w3 = (Inr (True, None), w')"
        by (cases d) (auto simp: expire_cleanup_def bindM_apply tryM_apply)
      moreover have "w_db w3 = w_db w1" using t Inl w2 by (auto dest: transaction_rollback)
      ultimately show ?thesis using rec [of e w3 l] f1 by fastforce
    next
      case (Inr u)
      with c d n n' t fd l(1) have "w' = w3" by (cases d) (auto simp: expire_cleanup_def bindM_apply tryM_apply)
      moreover from t Inr obtain v1 v2 where v: "w_db v1 = w_db w2" "expireLineTx line now v1 = (Inr (), v2)" "w_db w3 = w_db v2"
        by (auto elim: transaction_Inr)
      moreover have "torn_down lid (l_outboundTag line) (w_db v2) \<and> (\<exists>l'. find_line lid (w_db v2) = Some l'
          \<and> l_status l' = st_expired \<and> l_manual l' \<and> l_expiredAt l' = now \<and> l_inboundId l' = None)"
        using expireLineTx_post [OF v(2) _ l(1, 2)] v(1) w2 ok1 f1 by simp
      ultimately show ?thesis by auto
    qed
  qed
qed

text \<open>An expiry that got as far as the cleanup started from the line it read, claimed.\<close>

lemma expireLine_start:
  assumes "expireLine lid now w = (Inr (True, err), w')" "db_ok (w_db w)"
  obtains line v l where "find_line lid (w_db w) = Some line" "expire_cleanup line now v = (Inr (True, err), w')"
    "db_ok (w_db v)" "find_line lid (w_db v) = Some l" "l_id line = lid" "0 < lid"
proof -
  obtain r w1 where f: "first_line lid w = (r, w1)" by (cases "first_line lid w")
  with assms obtain line where r: "r = Inr line" by (cases r) (auto simp: expireLine_def bindM_apply tryM_apply)
  have w1: "w_db w1 = w_db w" and line: "find_line lid (w_db w) = Some line" using f r by (auto simp: first_line_Inr)
  then have id: "l_id line = lid" "0 < lid" using assms(2) by (auto simp: db_ok_def ids_ok_def dest!: find_line_id)
  show thesis
  proof (cases "l_status line \<noteq> st_expiring \<and> l_status line \<noteq> st_expiry_failed")
    case False
    with assms(1) f r have "expire_cleanup line now w1 = (Inr (True, err), w')"
      by (auto simp: expireLine_def bindM_apply tryM_apply split: if_splits)
    with that [of line w1 line] line w1 assms(2) id show thesis by simp
  next
    case True
    let ?P = "\<lambda>l. l_id l = lid \<and> l_status l \<noteq> st_expired"
    let ?f = "\<lambda>l. l\<lparr>l_status := st_expiring, l_manual := True, l_expiredAt := now\<rparr>"
    obtain c v where c: "lines_updates ?P ?f w1 = (c, v)" by (cases "lines_updates ?P ?f w1")
    with assms(1) f r True have e: "expire_cleanup line now v = (Inr (True, err), w')"
      by (auto simp: expireLine_def bindM_apply tryM_apply split: if_splits sum.splits nat.splits)
    have "safeM {} (lines_updates ?P ?f)" by (intro keeps stmts evol) (auto simp: line_ok_def)
    from keepsM_D' [OF this c] have ok: "db_ok (w_db v)" using w1 assms(2) by (simp add: db_rel_def evolves_def)
    have "leavesM kinds (lines_updates ?P ?f)" by (intro keeps stmts) (auto simp: sameR_def kinds_upd)
    from leaves_D [OF this c] obtain l where "find_line lid (w_db v) = Some l"
      using kinds_find [of "w_db v" "w_db w" lid line] line w1 by auto
    with that [OF line e ok _ id] show thesis by blast
  qed
qed

text \<open>
  C4: ending a line is fail-safe.  Once \<^verbatim>\<open>expireLine\<close> reports that Xray has to restart, the line has no
  inbound that accepts connections, whatever failed afterwards; and when it reports no error, the line
  waits for a manual renewal and is either expired, with its inbound, client, outbound and rule
  removed, or recorded as expiry\_failed, which the next run of the job takes up again.
\<close>

theorem expire_fail_safe:
  assumes "expireLine lid now w = (Inr (True, err), w')" "db_ok (w_db w)"
  shows "cut_off lid (w_db w')
    \<and> (err = None \<longrightarrow> (\<exists>line l'. find_line lid (w_db w) = Some line \<and> find_line lid (w_db w') = Some l' \<and> l_manual l'
          \<and> (l_status l' = st_expired \<and> l_expiredAt l' = now \<and> l_inboundId l' = None
                \<and> torn_down lid (l_outboundTag line) (w_db w')
             \<or> l_status l' = st_expiry_failed \<and> due_to_expire now l')))"
proof -
  from assms obtain line v l where s: "find_line lid (w_db w) = Some line" "expire_cleanup line now v = (Inr (True, err), w')"
    "db_ok (w_db v)" "find_line lid (w_db v) = Some l" "l_id line = lid" "0 < lid" by (rule expireLine_start)
  have "cut_off lid (w_db w')" using cleanup_cut [OF s(2)] s(5) by simp
  moreover have "\<exists>l'. find_line lid (w_db w') = Some l' \<and> l_manual l'
      \<and> (l_status l' = st_expiry_failed \<or> l_status l' = st_expired \<and> l_expiredAt l' = now \<and> l_inboundId l' = None
           \<and> torn_down lid (l_outboundTag line) (w_db w'))" if "err = None"
    using cleanup_end s that by blast
  ultimately show ?thesis using s(1) by (fastforce simp: due_to_expire_def)
qed


section \<open>Examples\<close>

definition due_line :: line_profile where
  "due_line = sample_line\<lparr>l_validUntil := 500\<rparr>"

lemma due_world: "healthy (w_env (world_with due_line))" "db_ok (w_db (world_with due_line))"
  "find_line 1 (w_db (world_with due_line)) = Some due_line" "l_status due_line \<noteq> st_expired" "l_validUntil due_line = 500"
  using sample_db_ok
  by (simp_all add: world_with_def sample_world_def sample_healthy find_line_def due_line_def sample_line_def
      db_ok_def ids_ok_def sample_db_def line_ok_def)


theorem expire_fail_safe_witness:
  "\<exists>w'. expireLine 1 1000 (world_with due_line) = (Inr (True, None), w') \<and> cut_off 1 (w_db w')
     \<and> (\<exists>l'. find_line 1 (w_db w') = Some l' \<and> l_manual l')"
proof -
  have "unended 1 (w_db (world_with due_line))" using due_world by (simp add: unended_def)
  from expireLine_healthy [OF due_world(1, 2) this, of 1000] obtain w' where
    e: "expireLine 1 1000 (world_with due_line) = (Inr (True, None), w')" by blast
  from expire_fail_safe [OF e due_world(2)] e show ?thesis by blast
qed

definition stuck_line :: line_profile where
  "stuck_line = sample_line\<lparr>l_status := st_expiring, l_manual := True\<rparr>"

definition broken_template_world :: world where
  "broken_template_world = sample_world\<lparr>w_db := sample_db\<lparr>d_lines := [stuck_line],
     d_settings := [\<lparr>st_id = 1, st_key = templateKey, st_value = ''null''\<rparr>], d_nextSetting := 2\<rparr>\<rparr>"


text \<open>A line that was never applied is deleted on a healthy panel.\<close>

lemma delete_unapplied:
  assumes h: "healthy (w_env w)" and l: "find_line lid (w_db w) = Some line" "\<not> isNginxWSLine (l_type line)"
    and s: "find_setting templateKey (w_db w) = None" "find_client (lineManagedClientEmail lid) (w_db w) = None"
  shows "\<exists>res w'. DeleteLine lid w = (Inr (Some res, None), w') \<and> dr_success res"
proof -
  let ?w1 = "w\<lparr>w_tick := Suc (w_tick w)\<rparr>"
  have id: "l_id line = lid" using l by (auto dest: find_line_id)
  have f: "first_line lid w = (Inr line, ?w1)" using h l by (simp add: first_line_def run)
  have n: "removeLineNginxConfig line c ?w1 = (Inr None, ?w1)" for c
    using l(2) by (simp add: removeLineNginxConfig_def bindM_apply getM_def)
  have t: "removeLineTemplateArtifacts a b v = (Inr (), v\<lparr>w_tick := Suc (w_tick v)\<rparr>)"
    if "w_env v = w_env w" "w_db v = w_db w" for a b v
    using h that s(1) by (simp add: removeLineTemplateArtifacts_def getSetting_def run)
  have c: "\<exists>t. removeLineManagedClient lid v = (Inr (), v\<lparr>w_tick := t\<rparr>)" if "w_env v = w_env w" "w_db v = w_db w" for v
  proof (cases "0 < lid")
    case True
    with h that s(2) show ?thesis by (intro exI [of _ "Suc (w_tick v)"]) (simp add: removeLineManagedClient_def first_client_def run)
  next
    case False
    then show ?thesis by (intro exI [of _ "w_tick v"]) (simp add: removeLineManagedClient_def)
  qed
  from c [of "w\<lparr>w_tick := Suc (Suc (Suc (w_tick w)))\<rparr>"] obtain k where
    c: "removeLineManagedClient lid (w\<lparr>w_tick := Suc (Suc (Suc (w_tick w)))\<rparr>) = (Inr (), w\<lparr>w_tick := k\<rparr>)" by auto
  have "\<exists>v. transactionM (deleteLineTx line) ?w1 = (Inr (), v)"
    using h id t c by (simp add: transactionM_def deleteLineTx_def delete_inbound_tag_def delete_checks_def delete_logs_def
        delete_subs_def delete_outbounds_def delete_line_def run Let_def)
  with f n show ?thesis
    by (auto simp: DeleteLine_def Let_def bindM_apply tryM_apply split: prod.splits sum.splits)
qed

theorem delete_all_or_nothing_witness:
  "\<exists>res w' s. DeleteLine 1 sample_world = (Inr (Some res, None), w') \<and> dr_success res
     \<and> w_db w' = without_line 1 s sample_db"
proof -
  have ok: "db_ok (w_db sample_world)" using sample_db_ok by (simp add: sample_world_def)
  have "\<exists>res w'. DeleteLine 1 sample_world = (Inr (Some res, None), w') \<and> dr_success res"
    by (rule delete_unapplied [where line = sample_line])
       (simp_all add: sample_world_def sample_healthy find_line_def sample_db_def empty_db_def sample_line_def
          isNginxWSLine_def find_setting_def find_client_def)
  then obtain res w' where d: "DeleteLine 1 sample_world = (Inr (Some res, None), w')" "dr_success res" by blast
  from delete_all_or_nothing [OF d(1) ok] d show ?thesis by (auto simp: sample_world_def)
qed

end
