(* ===== verification/ShareFacts.thy ===== *)
theory ShareFacts
  imports RemovalFacts
begin

text \<open>
  What a subscription token gives and for how long: only the holder of a token whose digest is stored
  is served, and only while the line may serve; a reset leaves no other digest in place; a token that
  was issued can be read back from the database.
\<close>

section \<open>Reading\<close>

lemma reads_servable: "leavesM (\<lambda>d. d) (servable_runtime lid)"
  unfolding servable_runtime_def loadLineRuntime_def by (intro keeps preorder_sameR)

lemma keeps_config: "leavesM (\<lambda>d. d) (ensureLineConfigDefaults a b c)"
  by (intro keeps preorder_sameR)

lemma keeps_outbound: "leavesM (\<lambda>d. d) (optional (first_outbound a))"
  by (intro keeps preorder_sameR)

lemma servable_runtime_post:
  assumes "servable_runtime lid w = (Inr (rt, ib), w')"
  shows "w_db w' = w_db w" "w_env w' = w_env w" "find_line lid (w_db w) = Some (rt_line rt)"
    "ib \<in> set (d_inbounds (w_db w))" "\<exists>t. validateLineCanApply (rt_line rt) (e_clock (w_env w) t) = Inr ()"
proof -
  show db: "w_db w' = w_db w" and env: "w_env w' = w_env w"
    using leaves_all [OF reads_servable assms] env_D [OF reads_servable assms] .
  from assms obtain w1 w2 where load: "loadLineRuntime lid w = (Inr rt, w1)"
    and v: "validateLineCanApply (rt_line rt) (e_clock (w_env w1) (w_tick w1)) = Inr ()"
    and i: "rt_inbound rt = Some ib"
    by (auto simp: servable_runtime_def monad_Inr time_now_Inr split: option.splits)
  have e1: "w_env w1 = w_env w"
    using load by (rule env_D [rotated]) (unfold loadLineRuntime_def, intro keeps preorder_sameR)
  with v show "\<exists>t. validateLineCanApply (rt_line rt) (e_clock (w_env w) t) = Inr ()" by auto
  from load obtain line config ob wa wb wc where l: "first_line lid w = (Inr line, wa)"
    and c: "ensureLineConfigDefaults (l_id line) (l_type line) (decodeLineConfig (l_configJSON line)) wa = (Inr config, wb)"
    and o': "optional (first_outbound (l_id line)) wb = (Inr ob, wc)"
    and x: "find_existing_inbound line wc = (Inr (rt_inbound rt), w1)" and rt: "rt_line rt = line"
    unfolding loadLineRuntime_def by (auto simp: bindM_Inr)
  from l rt show "find_line lid (w_db w) = Some (rt_line rt)" by (simp add: first_line_Inr)
  have "w_db wc = w_db w"
    using l leaves_all [OF keeps_config c] leaves_all [OF keeps_outbound o'] by (simp add: first_line_Inr)
  with find_existing_post [OF x] i show "ib \<in> set (d_inbounds (w_db w))" by auto
qed

lemma yaml_post:
  assumes "buildLineClashSubscriptionYAML lid w = (Inr (body, name), w')"
  obtains rt ib w1 where "servable_runtime lid w = (Inr (rt, ib), w1)"
    "name = clash_filename lid" "clash_type_ok (l_type (rt_line rt))"
proof -
  from assms obtain rt ib w1 proxy w2 where s: "servable_runtime lid w = (Inr (rt, ib), w1)"
    and p: "buildLineClashProxy (rt_line rt) ib (rt_config rt) w1 = (Inr proxy, w2)"
    and n: "name = clash_filename (l_id (rt_line rt))"
    unfolding buildLineClashSubscriptionYAML_def by (elim steps_E) (auto simp: askM_Inr split: sum.splits)
  have "clash_type_ok (l_type (rt_line rt))"
    using p by (auto simp: buildLineClashProxy_def clash_type_ok_def monad_Inr Let_def split: if_splits)
  moreover have "l_id (rt_line rt) = lid"
    using servable_runtime_post(3) [OF s] by (simp add: find_line_id)
  ultimately show ?thesis using s n that by simp
qed

lemma public_post:
  assumes "GetPublicLineClashSubscription tok w = (Inr (body, name), w')"
  obtains s w1 where "find_sub_token (token_digest (w_env w) (trim_space tok)) (w_db w) = Some s"
    "32 \<le> length (trim_space tok)" "length (trim_space tok) \<le> 256"
    "w_db w1 = w_db w" "w_env w1 = w_env w" "buildLineClashSubscriptionYAML (s_lineId s) w1 = (Inr (body, name), w')"
  using assms that [of _ "w\<lparr>w_tick := Suc (w_tick w)\<rparr>"]
  by (auto simp: GetPublicLineClashSubscription_def HashTokenSHA256_def monad_Inr db_get_Inr Let_def)


section \<open>Tokens\<close>

lemma length_b64_rawurl: "length (b64_rawurl_encode bs) = (4 * length bs + 2) div 3"
  by (induction bs rule: b64_rawurl_encode.induct) auto

lemma no_space_b64: "\<forall>b \<in> set bs. b < 256 \<Longrightarrow> no_space (b64_rawurl_encode bs)"
  using b64_rawurl_chars by (auto simp: no_space_def)

lemma rand_bytes_Inr:
  "rand_bytes n w = (Inr (Some bs), w') \<Longrightarrow>
     length bs = n \<and> (\<forall>b \<in> set bs. b < 256) \<and> w_db w' = w_db w \<and> w_env w' = w_env w"
  by (cases "e_rand (w_env w) (w_tick w)") (auto simp: rand_bytes_def askM_Inr)

lemma text_of_bytes [simp]: "text_of (bytes_of s) = s"
  by (induction s) (simp_all add: text_of_def bytes_of_def)

text \<open>The secret the key is made from: the stored one, or the default of this process.\<close>

definition secret_of :: "env \<Rightarrow> db \<Rightarrow> string" where
  "secret_of e d = (case find_setting ''secret'' d of Some st \<Rightarrow> st_value st | None \<Rightarrow> e_secret e)"

definition sub_key :: "env \<Rightarrow> db \<Rightarrow> nat list" where
  "sub_key e d = e_sha256 e (bytes_of (secret_of e d))"

lemma default_secret [simp]: "defaultValueMap e ''secret'' = Some (e_secret e)"
  by (simp add: defaultValueMap_def)

lemma getString_secret:
  assumes "getString ''secret'' w = (r, w1)"
  shows "w_db w1 = w_db w \<and> w_env w1 = w_env w \<and> (\<forall>s. r = Inr s \<longrightarrow> s = secret_of (w_env w) (w_db w))"
proof -
  obtain q w0 where q: "getSetting ''secret'' w = (q, w0)" by (cases "getSetting ''secret'' w")
  have e: "w_env w0 = w_env w" using q by (rule env_D [rotated]) (intro keeps preorder_sameR)
  show ?thesis
  proof (cases q)
    case (Inl e')
    with q have "w_db w0 = w_db w" "is_not_found e' \<Longrightarrow> find_setting ''secret'' (w_db w) = None"
      by (auto dest: getSetting_Inl_db)
    then show ?thesis
      using assms q Inl e by (auto simp: getString_def run secret_of_def split: if_splits)
  next
    case (Inr st)
    with q have "w_db w0 = w_db w" "find_setting ''secret'' (w_db w) = Some st" by (auto dest: getSetting_Inr)
    then show ?thesis using assms q Inr e by (auto simp: getString_def run secret_of_def)
  qed
qed

text \<open>Storing the default again changes neither the secret nor the subscriptions.\<close>

lemma saveSetting_secret:
  assumes "saveSetting ''secret'' (secret_of (w_env w) (w_db w)) w = (r, w1)"
  shows "secret_of (w_env w1) (w_db w1) = secret_of (w_env w) (w_db w) \<and> w_env w1 = w_env w"
proof -
  let ?s = "secret_of (w_env w) (w_db w)"
  obtain q w0 where q: "getSetting ''secret'' w = (q, w0)" by (cases "getSetting ''secret'' w")
  have e: "w_env w0 = w_env w" using q by (rule env_D [rotated]) (intro keeps preorder_sameR)
  show ?thesis
  proof (cases q)
    case (Inl e')
    with q have d: "w_db w0 = w_db w" "is_not_found e' \<Longrightarrow> find_setting ''secret'' (w_db w) = None"
      by (auto dest: getSetting_Inl_db)
    show ?thesis
    proof (cases "is_not_found e'")
      case True
      then show ?thesis
        using assms q Inl e d
        by (auto simp: saveSetting_def run create_setting_def db_exec_def dbM_def Let_def secret_of_def
            find_setting_def find_append split: option.splits)
    qed (use assms q Inl e d in \<open>auto simp: saveSetting_def run\<close>)
  next
    case (Inr st)
    with q have d: "w_db w0 = w_db w" "find_setting ''secret'' (w_db w) = Some st" by (auto dest: getSetting_Inr)
    then show ?thesis
      using assms q Inr e
      by (auto simp: saveSetting_def run update_setting_def db_exec_def dbM_def Let_def secret_of_def
          find_setting_def find_update_where split: option.splits)
  qed
qed

lemma GetSecret_post:
  assumes "GetSecret w = (Inr s, w1)"
  shows "s = secret_of (w_env w1) (w_db w1)" "w_env w1 = w_env w"
proof -
  obtain r w0 where g: "getString ''secret'' w = (r, w0)" by (cases "getString ''secret'' w")
  note p = getString_secret [OF g]
  have r: "r = Inr s" using assms g by (cases r) (auto simp: GetSecret_def run Let_def split: if_splits prod.splits sum.splits)
  define v where "v = w0\<lparr>w_tick := Suc (w_tick w0)\<rparr>"
  have v: "w_env v = w_env w" "secret_of (w_env v) (w_db v) = s" using p r by (simp_all add: v_def)
  have d: "defaultValueMap (w_env w0) ''secret'' = Some (e_secret (w_env w))" using p by simp
  have m: "thenM (if Some (e_secret (w_env w)) = Some s then thenM (tryM (saveSetting ''secret'' s)) (retM ()) else retM ())
      (retM s) v = (Inr s, w1)"
    using assms g d unfolding r GetSecret_def v_def by (simp add: bindM_apply tryM_apply askM_apply)
  show "s = secret_of (w_env w1) (w_db w1)" "w_env w1 = w_env w"
  proof (atomize (full), cases "e_secret (w_env w) = s")
    case True
    obtain q v1 where q: "saveSetting ''secret'' s v = (q, v1)" by (cases "saveSetting ''secret'' s v")
    with m True have "v1 = w1" by (simp add: thenM_apply tryM_apply)
    then show "s = secret_of (w_env w1) (w_db w1) \<and> w_env w1 = w_env w"
      using saveSetting_secret [of v q v1] q v by auto
  next
    case False
    with m v show "s = secret_of (w_env w1) (w_db w1) \<and> w_env w1 = w_env w" by (simp add: thenM_apply)
  qed
qed

lemma key_post:
  assumes "lineSubscriptionKey w = (Inr key, w1)"
  shows "key = sub_key (w_env w1) (w_db w1)" "w_env w1 = w_env w" "secret_of (w_env w1) (w_db w1) \<noteq> ''''"
  using assms by (auto simp: lineSubscriptionKey_def monad_Inr askM_Inr sub_key_def dest: GetSecret_post)

text \<open>A new token: 43 characters, and the payload that the ciphertext column holds.\<close>

lemma newToken_post:
  assumes "newLineSubscriptionToken w = (Inr (token, ct), w1)"
  obtains nonce where "length token = 43" "no_space token" "w_env w1 = w_env w"
    "length nonce = 12" "\<forall>b \<in> set nonce. b < 256" "secret_of (w_env w1) (w_db w1) \<noteq> ''''"
    "ct = b64_rawurl_encode (nonce @ e_seal (w_env w1) (sub_key (w_env w1) (w_db w1)) nonce (bytes_of token))"
proof -
  from assms obtain raw wa where raw: "rand_bytes 32 w = (Inr (Some raw), wa)"
    and e: "encryptLineSubscriptionToken token wa = (Inr ct, w1)" and t: "token = b64_rawurl_encode raw"
    by (auto simp: newLineSubscriptionToken_def bindM_Inr Let_def split: option.splits)
  note r = rand_bytes_Inr [OF raw]
  from e obtain key wb nonce wc where k: "lineSubscriptionKey wa = (Inr key, wb)"
    and n: "rand_bytes 12 wb = (Inr (Some nonce), wc)" and w1: "w1 = wc\<lparr>w_tick := Suc (w_tick wc)\<rparr>"
    and ct: "ct = b64_rawurl_encode (nonce @ e_seal (w_env wc) key nonce (bytes_of token))"
    by (auto simp: encryptLineSubscriptionToken_def bindM_Inr askM_Inr split: option.splits)
  note kp = key_post [OF k] and np = rand_bytes_Inr [OF n]
  have "length token = 43" "no_space token" using t r by (simp_all add: length_b64_rawurl no_space_b64)
  then show ?thesis using that [of nonce] r kp np w1 ct by auto
qed

section \<open>The row of a line\<close>

lemma leaves_newToken: "leavesM d_subs newLineSubscriptionToken"
  unfolding newLineSubscriptionToken_def encryptLineSubscriptionToken_def lineSubscriptionKey_def GetSecret_def
    saveSetting_def Let_def
  by (intro keeps stmts preorder_sameR) (auto simp: sameR_def)

lemma find_sub_in: "find_sub lid d = Some s \<Longrightarrow> s \<in> set (d_subs d) \<and> s_lineId s = lid"
  by (auto simp: find_sub_def dest: find_SomeD)

lemma secret_of_subs [simp]:
  "secret_of e (d\<lparr>d_subs := x\<rparr>) = secret_of e d" "secret_of e (d\<lparr>d_nextSub := n\<rparr>) = secret_of e d"
  by (simp_all add: secret_of_def find_setting_def)

text \<open>The row of this line holds this token: its digest, and a ciphertext made with the panel's key.\<close>

definition holds_token :: "int \<Rightarrow> string \<Rightarrow> env \<Rightarrow> db \<Rightarrow> bool" where
  "holds_token lid token e d \<longleftrightarrow>
     (\<exists>row nonce. find_sub lid d = Some row \<and> s_tokenHash row = token_digest e token
        \<and> length nonce = 12 \<and> (\<forall>b \<in> set nonce. b < 256) \<and> secret_of e d \<noteq> ''''
        \<and> s_tokenCiphertext row = b64_rawurl_encode (nonce @ e_seal e (sub_key e d) nonce (bytes_of token)))"

text \<open>Everything \<^verbatim>\<open>getOrCreateLineSubscriptionToken\<close> does after it has decided on a new token.\<close>

definition fresh_token :: "int \<Rightarrow> line_subscription option \<Rightarrow> (string \<times> line_subscription) W" where
  "fresh_token lid cur =
     bindM newLineSubscriptionToken (\<lambda>(token, ciphertext).
     bindM time_now (\<lambda>now.
     bindM (HashTokenSHA256 token) (\<lambda>h.
       case cur of
         None \<Rightarrow>
           bindM (create_sub \<lparr>s_id = 0, s_lineId = lid, s_tokenHash = h, s_tokenCiphertext = ciphertext,
                    s_createdAt = 0, s_rotatedAt = 0, s_updatedAt = 0\<rparr>) (\<lambda>rec. retM (token, rec))
       | Some current \<Rightarrow>
           thenM (update_sub (s_id current) h ciphertext now)
             (retM (token, current\<lparr>s_tokenHash := h, s_tokenCiphertext := ciphertext, s_rotatedAt := now\<rparr>)))))"

lemma getOrCreate_fresh:
  assumes "getOrCreateLineSubscriptionToken lid rotate' w = (Inr x, w')"
    and "rotate' \<or> find_sub lid (w_db w) = None"
  obtains w1 where "w_db w1 = w_db w" "w_env w1 = w_env w"
    "fresh_token lid (find_sub lid (w_db w)) w1 = (Inr x, w')"
proof -
  obtain r w1 where r: "db_get (find_sub lid) w = (r, w1)" by (cases "db_get (find_sub lid) w")
  have w1: "w_db w1 = w_db w" "w_env w1 = w_env w"
    using r by (auto simp: db_get_def dbM_def Let_def split: option.splits prod.splits sum.splits)
  have "fresh_token lid (find_sub lid (w_db w)) w1 = (Inr x, w')"
  proof (cases r)
    case (Inl e)
    with r have "is_not_found e \<Longrightarrow> find_sub lid (w_db w) = None"
      by (auto simp: db_get_def dbM_def Let_def split: option.splits prod.splits sum.splits)
    with assms(1) r Inl show ?thesis
      unfolding getOrCreateLineSubscriptionToken_def Let_def fresh_token_def [symmetric]
      by (simp add: bindM_apply [of "tryM _"] tryM_apply split: if_splits)
  next
    case (Inr s)
    with r have "find_sub lid (w_db w) = Some s" by (simp add: db_get_Inr)
    with assms r Inr show ?thesis
      unfolding getOrCreateLineSubscriptionToken_def Let_def fresh_token_def [symmetric]
      by (simp add: bindM_apply [of "tryM _"] tryM_apply split: if_splits)
  qed
  with w1 show ?thesis by (rule that)
qed

lemma fresh_token_steps:
  assumes "fresh_token lid cur w = (Inr (token, rec), w')"
  obtains ct w2 where "newLineSubscriptionToken w = (Inr (token, ct), w2)"
    "case cur of
       None \<Rightarrow> \<exists>row. create_sub \<lparr>s_id = 0, s_lineId = lid, s_tokenHash = token_digest (w_env w2) token,
                 s_tokenCiphertext = ct, s_createdAt = 0, s_rotatedAt = 0, s_updatedAt = 0\<rparr>
                 (w2\<lparr>w_tick := Suc (w_tick w2)\<rparr>) = (Inr row, w')
     | Some current \<Rightarrow> \<exists>now. update_sub (s_id current) (token_digest (w_env w2) token) ct now
                 (w2\<lparr>w_tick := Suc (w_tick w2)\<rparr>) = (Inr (), w')"
  using assms unfolding fresh_token_def
  by (elim steps_E; cases cur) (auto simp: HashTokenSHA256_def time_now_Inr bindM_Inr thenM_Inr)

lemma fresh_token_post:
  assumes "fresh_token lid (find_sub lid (w_db w)) w = (Inr (token, rec), w')" "db_ok (w_db w)"
  shows "length token = 43" "no_space token" "holds_token lid token (w_env w) (w_db w')"
    "\<forall>s. s_lineId s \<noteq> lid \<longrightarrow> (s \<in> set (d_subs (w_db w')) \<longleftrightarrow> s \<in> set (d_subs (w_db w)))"
proof -
  define cur where "cur = find_sub lid (w_db w)"
  obtain ct w2 where nt: "newLineSubscriptionToken w = (Inr (token, ct), w2)"
    and rest: "case cur of
       None \<Rightarrow> \<exists>row. create_sub \<lparr>s_id = 0, s_lineId = lid, s_tokenHash = token_digest (w_env w2) token,
                 s_tokenCiphertext = ct, s_createdAt = 0, s_rotatedAt = 0, s_updatedAt = 0\<rparr>
                 (w2\<lparr>w_tick := Suc (w_tick w2)\<rparr>) = (Inr row, w')
     | Some current \<Rightarrow> \<exists>now. update_sub (s_id current) (token_digest (w_env w2) token) ct now
                 (w2\<lparr>w_tick := Suc (w_tick w2)\<rparr>) = (Inr (), w')"
    using assms(1) unfolding cur_def by (rule fresh_token_steps)
  from nt obtain nonce where n: "length token = 43" "no_space token" "w_env w2 = w_env w"
    "length nonce = 12" "\<forall>b \<in> set nonce. b < 256" "secret_of (w_env w2) (w_db w2) \<noteq> ''''"
    "ct = b64_rawurl_encode (nonce @ e_seal (w_env w2) (sub_key (w_env w2) (w_db w2)) nonce (bytes_of token))"
    by (rule newToken_post)
  from n show "length token = 43" "no_space token" by simp_all
  have subs: "d_subs (w_db w2) = d_subs (w_db w)" using leaves_D [OF leaves_newToken nt] .
  then have cur2: "find_sub lid (w_db w2) = cur" by (simp add: cur_def find_sub_def)
  have ids: "ids_ok s_id (d_nextSub (w_db w)) (d_subs (w_db w))" using assms(2) by (simp add: db_ok_def)
  have holds: "holds_token lid token (w_env w) (w_db w')"
    if "find_sub lid (w_db w') = Some row" "s_tokenHash row = token_digest (w_env w2) token"
       "s_tokenCiphertext row = ct" "secret_of (w_env w) (w_db w') = secret_of (w_env w) (w_db w2)" for row
    using that n unfolding holds_token_def sub_key_def by auto
  show "holds_token lid token (w_env w) (w_db w')"
    "\<forall>s. s_lineId s \<noteq> lid \<longrightarrow> (s \<in> set (d_subs (w_db w')) \<longleftrightarrow> s \<in> set (d_subs (w_db w)))"
  proof (atomize (full), cases cur)
    case None
    with rest obtain row where
      d: "w_db w' = (w_db w2)\<lparr>d_subs := d_subs (w_db w2) @ [row], d_nextSub := d_nextSub (w_db w2) + 1\<rparr>"
      and row: "s_lineId row = lid" "s_tokenHash row = token_digest (w_env w2) token" "s_tokenCiphertext row = ct"
      by (auto simp: create_sub_def bindM_Inr time_now_Inr dbM_Inr Let_def split: if_splits)
    have "find_sub lid (w_db w') = Some row" using cur2 None d row by (simp add: find_sub_def find_append)
    then have "holds_token lid token (w_env w) (w_db w')" by (rule holds) (use row d in simp_all)
    then show "holds_token lid token (w_env w) (w_db w') \<and>
        (\<forall>s. s_lineId s \<noteq> lid \<longrightarrow> (s \<in> set (d_subs (w_db w')) \<longleftrightarrow> s \<in> set (d_subs (w_db w))))"
      using row d subs by auto
  next
    case (Some c)
    with rest obtain now now2 where d: "w_db w' = (w_db w2)\<lparr>d_subs := update_where (\<lambda>s. s_id s = s_id c)
        (rotate_sub (token_digest (w_env w2) token) ct now now2) (d_subs (w_db w2))\<rparr>"
      by (auto simp: update_sub_def bindM_Inr time_now_Inr dbM_Inr split: if_splits)
    let ?row = "rotate_sub (token_digest (w_env w2) token) ct now now2 c"
    have "find_sub lid (w_db w') = Some ?row"
      using cur2 Some d by (simp add: find_sub_def find_update_where)
    then have "holds_token lid token (w_env w) (w_db w')"
      by (rule holds) (use d in \<open>simp_all add: rotate_sub_def\<close>)
    moreover have "s \<in> set (d_subs (w_db w')) \<longleftrightarrow> s \<in> set (d_subs (w_db w))" if "s_lineId s \<noteq> lid" for s
    proof -
      have c: "c \<in> set (d_subs (w_db w))" "s_lineId c = lid" using Some by (auto simp: cur_def dest: find_sub_in)
      then have u: "q = c" if "q \<in> set (d_subs (w_db w))" "s_id q = s_id c" for q
        using subs_tbl.ids_unique [OF ids] that by blast
      show ?thesis
      proof
        assume "s \<in> set (d_subs (w_db w'))"
        then obtain q where "q \<in> set (d_subs (w_db w))"
          "if s_id q = s_id c then s = rotate_sub (token_digest (w_env w2) token) ct now now2 q else s = q"
          by (auto simp: d subs in_update_where)
        with u [of q] c that show "s \<in> set (d_subs (w_db w))" by (cases "s_id q = s_id c") auto
      next
        assume "s \<in> set (d_subs (w_db w))"
        with u c that show "s \<in> set (d_subs (w_db w'))" by (auto simp: d subs in_update_where)
      qed
    qed
    ultimately show "holds_token lid token (w_env w) (w_db w') \<and>
        (\<forall>s. s_lineId s \<noteq> lid \<longrightarrow> (s \<in> set (d_subs (w_db w')) \<longleftrightarrow> s \<in> set (d_subs (w_db w))))" by blast
  qed
qed

section \<open>Resetting\<close>

lemma leaves_before_token:
  "leavesM (\<lambda>d. d) findLineSubscriptionHost" "leavesM (\<lambda>d. d) (applyCloudflareNginx line config)"
  "leavesM (\<lambda>d. d) (buildLineSubscriptionURL line tok)"
proof -
  have "leavesM (\<lambda>d. d) (first_host ls)" for ls
  proof (induction ls)
    case Nil
    show ?case unfolding first_host.simps by (intro keeps preorder_sameR)
  next
    case (Cons l ls)
    show ?case unfolding first_host.simps by (intro keeps Cons.IH preorder_sameR)
  qed
  then show "leavesM (\<lambda>d. d) findLineSubscriptionHost"
    unfolding findLineSubscriptionHost_def by (intro keeps keeps_db_query preorder_sameR)
  show "leavesM (\<lambda>d. d) (applyCloudflareNginx line config)" by (intro keeps preorder_sameR)
  show "leavesM (\<lambda>d. d) (buildLineSubscriptionURL line tok)"
    unfolding buildLineSubscriptionURL_def lineSubscriptionPath_def GetBasePath_def Let_def
    by (intro keeps preorder_sameR)
qed

lemma clash_share_steps:
  assumes "clash_share_with rotate' lid w = (Inr sh, w')"
  obtains w1 token rec w2 where "w_db w1 = w_db w" "w_env w1 = w_env w"
    "getOrCreateLineSubscriptionToken lid rotate' w1 = (Inr (token, rec), w2)"
    "w_db w' = w_db w2" "w_env w' = w_env w2" "suffix token (sh_URL sh)"
proof -
  from assms obtain rt ib wa hl hc wb d wc token rec w2 url where s: "servable_runtime lid w = (Inr (rt, ib), wa)"
    and h: "findLineSubscriptionHost wa = (Inr (hl, hc), wb)"
    and n: "applyCloudflareNginx hl hc wb = (Inr d, wc)"
    and t: "getOrCreateLineSubscriptionToken (l_id (rt_line rt)) rotate' wc = (Inr (token, rec), w2)"
    and u: "buildLineSubscriptionURL hl token w2 = (Inr url, w')" and sh: "sh_URL sh = url"
    unfolding clash_share_with_def by (elim steps_E) (auto simp: guardM_Inr mapErrM_Inr)
  note p = servable_runtime_post [OF s]
  have 1: "w_db wc = w_db w" "w_env wc = w_env w"
    using leaves_all [OF leaves_before_token(1) h] leaves_all [OF leaves_before_token(2) n]
      env_D [OF leaves_before_token(1) h] env_D [OF leaves_before_token(2) n] p by simp_all
  have 2: "w_db w' = w_db w2" "w_env w' = w_env w2"
    using leaves_all [OF leaves_before_token(3) u] env_D [OF leaves_before_token(3) u] by simp_all
  have 3: "l_id (rt_line rt) = lid" using p(3) by (simp add: find_line_id)
  have 4: "suffix token (sh_URL sh)"
    unfolding sh using u
    by (auto simp: buildLineSubscriptionURL_def monad_Inr Let_def intro!: suffix_ConsI suffix_appendI)
  show ?thesis by (rule that [OF 1 t [unfolded 3] 2 4])
qed

lemma clash_filename_inj: "clash_filename i = clash_filename j \<Longrightarrow> i = j"
  by (auto simp: clash_filename_def dest: itoa_inj)

lemma safe_fresh_token: "fresh_token lid (find_sub lid (w_db w)) w = (Inr x, w') \<Longrightarrow> db_ok (w_db w) \<Longrightarrow>
    db_ok (w_db w') \<and> w_env w' = w_env w"
proof -
  assume f: "fresh_token lid (find_sub lid (w_db w)) w = (Inr x, w')" and ok: "db_ok (w_db w)"
  have "safeM {} (fresh_token lid (find_sub lid (w_db w)))"
    unfolding fresh_token_def HashTokenSHA256_def by (intro keeps stmts evol)
  from keepsM_D' [OF this f] ok show ?thesis by (simp add: db_rel_def evolves_def)
qed

text \<open>
  C31: resetting a subscription revokes every earlier address.  After a successful reset of a line the
  address ends with a new token of 43 characters; whatever happens later to the other tables, as long
  as the subscriptions stay as they are, the public endpoint serves this line only for tokens with the
  digest of the new one, so an earlier token with another digest is refused; and no other line's
  subscription has changed.
\<close>

theorem reset_revokes:
  assumes "ResetLineClashSubscription lid w = (Inr sh, w')" and "db_ok (w_db w)"
  shows "\<exists>token. suffix token (sh_URL sh) \<and> length token = 43
     \<and> (\<forall>t u body u'. d_subs (w_db u) = d_subs (w_db w') \<and> e_sha256 (w_env u) = e_sha256 (w_env w)
          \<and> GetPublicLineClashSubscription t u = (Inr (body, clash_filename lid), u')
          \<longrightarrow> token_digest (w_env w) (trim_space t) = token_digest (w_env w) token)
     \<and> (\<forall>s. s_lineId s \<noteq> lid \<longrightarrow> (s \<in> set (d_subs (w_db w')) \<longleftrightarrow> s \<in> set (d_subs (w_db w))))"
proof -
  from assms(1) obtain w1 token rec w2 where w1: "w_db w1 = w_db w" "w_env w1 = w_env w"
    and g: "getOrCreateLineSubscriptionToken lid True w1 = (Inr (token, rec), w2)"
    and w': "w_db w' = w_db w2" "w_env w' = w_env w2" and u: "suffix token (sh_URL sh)"
    unfolding ResetLineClashSubscription_def by (rule clash_share_steps)
  from g obtain w3 where w3: "w_db w3 = w_db w1" "w_env w3 = w_env w1"
    and f: "fresh_token lid (find_sub lid (w_db w1)) w3 = (Inr (token, rec), w2)"
    by (rule getOrCreate_fresh) simp
  have f': "fresh_token lid (find_sub lid (w_db w3)) w3 = (Inr (token, rec), w2)" using f w3 by simp
  have ok3: "db_ok (w_db w3)" using assms(2) w1 w3 by simp
  note post = fresh_token_post [OF f' ok3]
  have ok2: "db_ok (w_db w2)" using safe_fresh_token [OF f' ok3] by simp
  obtain row where row: "find_sub lid (w_db w2) = Some row" "s_tokenHash row = token_digest (w_env w) token"
    using post(3) w1 w3 by (auto simp: holds_token_def)
  have only: "token_digest (w_env w) (trim_space t) = token_digest (w_env w) token"
    if q: "d_subs (w_db q) = d_subs (w_db w')" "e_sha256 (w_env q) = e_sha256 (w_env w)"
       "GetPublicLineClashSubscription t q = (Inr (body, clash_filename lid), q')" for t q body q'
  proof -
    from q(3) obtain s q1 where s: "find_sub_token (token_digest (w_env q) (trim_space t)) (w_db q) = Some s"
      and y: "buildLineClashSubscriptionYAML (s_lineId s) q1 = (Inr (body, clash_filename lid), q')"
      by (rule public_post)
    have "s_lineId s = lid" using y by (rule yaml_post) (simp add: clash_filename_inj)
    moreover have "s \<in> set (d_subs (w_db w2))" "s_tokenHash s = token_digest (w_env w) (trim_space t)"
      using s q w' by (auto simp: find_sub_token_def token_digest_def dest: find_SomeD)
    moreover have "row \<in> set (d_subs (w_db w2))" "s_lineId row = lid" using row(1) by (auto dest: find_sub_in)
    moreover have "inj_on s_lineId (set (d_subs (w_db w2)))" using ok2 by (simp add: db_ok_def distinct_map)
    ultimately have "s = row" by (auto simp: inj_on_def)
    with row \<open>s_tokenHash s = _\<close> show ?thesis by simp
  qed
  show ?thesis
    using u post(1, 4) w' w1 w3 only by (intro exI [of _ token]) auto
qed

section \<open>Reading a token back\<close>

text \<open>
  What is assumed of AES-GCM: opening with the key and the nonce undoes sealing of bytes, and a sealed
  text is made of bytes.
\<close>

definition gcm_ok :: "env \<Rightarrow> bool" where
  "gcm_ok e \<longleftrightarrow> (\<forall>k n p. (\<forall>b \<in> set p. b < 256) \<longrightarrow>
     e_open e k n (e_seal e k n p) = Inr p \<and> (\<forall>b \<in> set (e_seal e k n p). b < 256))"

definition same_crypto :: "env \<Rightarrow> env \<Rightarrow> bool" where
  "same_crypto e e' \<longleftrightarrow>
     e_secret e' = e_secret e \<and> e_sha256 e' = e_sha256 e \<and> e_seal e' = e_seal e \<and> e_open e' = e_open e"

lemma GetSecret_healthy:
  assumes "healthy (w_env w)"
  obtains w1 where "GetSecret w = (Inr (secret_of (w_env w) (w_db w)), w1)"
    "w_env w1 = w_env w" "d_subs (w_db w1) = d_subs (w_db w)"
proof -
  have g: "\<exists>w0. getString ''secret'' w = (Inr (secret_of (w_env w) (w_db w)), w0)"
    using assms by (auto simp: getString_def getSetting_def run secret_of_def split: option.split)
  then obtain w0 where w0: "getString ''secret'' w = (Inr (secret_of (w_env w) (w_db w)), w0)" by blast
  have "\<exists>w1. GetSecret w = (Inr (secret_of (w_env w) (w_db w)), w1)"
    using w0 by (cases "e_secret (w_env w0) = secret_of (w_env w) (w_db w)")
      (simp_all add: GetSecret_def run Let_def split: prod.split)
  then obtain w1 where w1: "GetSecret w = (Inr (secret_of (w_env w) (w_db w)), w1)" by blast
  have "leavesM d_subs GetSecret"
    unfolding GetSecret_def saveSetting_def Let_def by (intro keeps stmts preorder_sameR) (auto simp: sameR_def)
  from w1 leaves_D [OF this w1] env_D [OF this w1] show ?thesis by (auto intro: that)
qed

lemma decrypt_holds:
  assumes "holds_token lid token e d" "find_sub lid d = Some row" "gcm_ok e"
    and "healthy (w_env u)" "same_crypto e (w_env u)"
    and "secret_of (w_env u) (w_db u) = secret_of e d"
  shows "\<exists>u'. decryptLineSubscriptionToken (s_tokenCiphertext row) u = (Inr token, u')"
proof -
  from assms(1, 2) obtain nonce where n: "length nonce = 12" "\<forall>b \<in> set nonce. b < 256" "secret_of e d \<noteq> ''''"
    and ct: "s_tokenCiphertext row = b64_rawurl_encode (nonce @ e_seal e (sub_key e d) nonce (bytes_of token))"
    by (auto simp: holds_token_def)
  obtain u1 where u1: "GetSecret u = (Inr (secret_of (w_env u) (w_db u)), u1)" "w_env u1 = w_env u"
    using GetSecret_healthy [OF assms(4)] .
  have tb: "\<forall>b \<in> set (bytes_of token). b < 256" by (auto simp: bytes_of_def byte_less_256)
  have by': "\<forall>b \<in> set (nonce @ e_seal e (sub_key e d) nonce (bytes_of token)). b < 256"
    using n(2) assms(3) tb by (auto simp: gcm_ok_def)
  have "trim_space (s_tokenCiphertext row) = s_tokenCiphertext row"
    using no_space_b64 [OF by'] ct by (simp add: trim_space_no_space)
  then have "b64_rawurl_decode (trim_space (s_tokenCiphertext row))
      = Some (nonce @ e_seal e (sub_key e d) nonce (bytes_of token))"
    using b64_rawurl_decode_encode [OF by'] ct by simp
  moreover have "e_sha256 (w_env u) (bytes_of (secret_of e d)) = sub_key e d"
    using assms(5) by (simp add: sub_key_def same_crypto_def)
  ultimately show ?thesis
    using u1 n tb assms(3, 5, 6)
    by (simp add: decryptLineSubscriptionToken_def lineSubscriptionKey_def run gcm_ok_def same_crypto_def)
qed

text \<open>
  C32: an issued token keeps working and can be shown again.  When a token is issued, for a line that
  had none or by a reset, then in every later state on a healthy host in which the subscriptions, the
  panel's secret and the cryptographic functions are the same (AES-GCM opens what it sealed), asking
  for the address again recovers exactly this token from its ciphertext, and the public endpoint
  answers it with the profile of this line (any error of which it hides).
\<close>

theorem issued_token_works:
  assumes "getOrCreateLineSubscriptionToken lid rotate' w = (Inr (token, rec), w')"
    and "rotate' \<or> find_sub lid (w_db w) = None" and "db_ok (w_db w)" and "gcm_ok (w_env w)"
    and "healthy (w_env u)" and "same_crypto (w_env w) (w_env u)" and "d_subs (w_db u) = d_subs (w_db w')"
    and "find_setting ''secret'' (w_db u) = find_setting ''secret'' (w_db w')"
  shows "(\<exists>row u'. getOrCreateLineSubscriptionToken lid False u = (Inr (token, row), u'))
     \<and> GetPublicLineClashSubscription token u =
         mapErrM (\<lambda>e. errLineSubscriptionUnavailable) (buildLineClashSubscriptionYAML lid)
           (u\<lparr>w_tick := Suc (w_tick u)\<rparr>)"
proof -
  from assms(1, 2) obtain w1 where w1: "w_db w1 = w_db w" "w_env w1 = w_env w"
    and f: "fresh_token lid (find_sub lid (w_db w)) w1 = (Inr (token, rec), w')" by (rule getOrCreate_fresh)
  have f': "fresh_token lid (find_sub lid (w_db w1)) w1 = (Inr (token, rec), w')" using f w1 by simp
  have ok1: "db_ok (w_db w1)" using assms(3) w1 by simp
  note post = fresh_token_post [OF f' ok1]
  obtain row where row: "find_sub lid (w_db w') = Some row" "s_tokenHash row = token_digest (w_env w) token"
    using post(3) w1 by (auto simp: holds_token_def)
  have rowu: "find_sub lid (w_db u) = Some row" using row assms(7) by (simp add: find_sub_def)
  let ?u = "u\<lparr>w_tick := Suc (w_tick u)\<rparr>"
  have sec: "secret_of (w_env ?u) (w_db ?u) = secret_of (w_env w) (w_db w')"
    using assms(6, 8) by (simp add: secret_of_def same_crypto_def split: option.split)
  obtain u' where "decryptLineSubscriptionToken (s_tokenCiphertext row) ?u = (Inr token, u')"
    using decrypt_holds [of lid token "w_env w" "w_db w'" row ?u] post(3) w1 row(1) assms(4-6) sec by auto
  then have "getOrCreateLineSubscriptionToken lid False u = (Inr (token, row), u')"
    using assms(5) rowu by (simp add: getOrCreateLineSubscriptionToken_def run Let_def)
  moreover have "find_sub_token (token_digest (w_env w) token) (w_db u) = Some row"
  proof -
    have "distinct (List.map s_tokenHash (d_subs (w_db u)))"
      using safe_fresh_token [OF f' ok1] assms(7) by (simp add: db_ok_def)
    moreover have "row \<in> set (d_subs (w_db u))" using rowu by (auto dest: find_sub_in)
    moreover obtain q where "find (\<lambda>s. s_tokenHash s = token_digest (w_env w) token) (d_subs (w_db u)) = Some q"
      using calculation(2) row(2) by (cases "find (\<lambda>s. s_tokenHash s = token_digest (w_env w) token) (d_subs (w_db u))")
        (auto simp: find_None_iff)
    ultimately show ?thesis using row(2)
      by (auto simp: find_sub_token_def distinct_map inj_on_def dest!: find_SomeD)
  qed
  moreover have "s_lineId row = lid" using row(1) by (auto dest: find_sub_in)
  moreover have "token_digest (w_env u) token = token_digest (w_env w) token"
    using assms(6) by (simp add: token_digest_def same_crypto_def)
  ultimately show ?thesis
    using assms(5) post(1, 2)
    by (simp add: GetPublicLineClashSubscription_def HashTokenSHA256_def run trim_space_no_space Let_def)
qed

section \<open>Witnesses\<close>

definition shared_config :: line_config where
  "shared_config = [(''clientId'', ''u1''), (''localXrayPort'', ''30001''), (''nginxApply'', ''true''),
                    (''nginxConfigPath'', ''/etc/nginx/conf.d/a.conf''), (''wsPath'', ''/w'')]"

definition shared_line :: line_profile where
  "shared_line = sample_line\<lparr>l_type := ''cloudflare_ws_tls'', l_status := ''active'', l_inboundId := Some 1,
                             l_entryPort := 443, l_configJSON := encodeLineConfig shared_config\<rparr>"

definition shared_inbound :: inbound where
  "shared_inbound =
     \<lparr>i_id = 1, i_userId = 1, i_up = 0, i_down = 0, i_total = 0, i_remark = ''L'', i_subSortIndex = 1, i_enable = True,
      i_expiryTime = 0, i_trafficReset = ''never'', i_trafficResetDay = 1, i_lastTrafficReset = 0,
      i_listen = ''127.0.0.1'', i_port = 30001, i_protocol = ''vless'',
      i_settings = json_marshal (JObj [(''clients'', JArr [JObj [(''id'', JStr ''u1'')]])]), i_streamSettings = '''',
      i_tag = ''line-1-in'', i_sniffing = '''', i_nodeId = None, i_shareAddrStrategy = ''custom'',
      i_shareAddr = ''h.example'', i_originNodeGuid = ''''\<rparr>"

definition shared_env :: env where
  "shared_env = sample_env\<lparr>e_goos := ''windows'', e_yaml := (\<lambda>v. Inr ''profile'')\<rparr>"

definition old_token :: string where
  "old_token = replicate 32 (CHR ''a'')"

definition shared_db :: db where
  "shared_db = sample_db\<lparr>d_lines := [shared_line], d_inbounds := [shared_inbound], d_nextInbound := 2, d_nextSub := 2,
     d_subs := [\<lparr>s_id = 1, s_lineId = 1, s_tokenHash = token_digest shared_env old_token, s_tokenCiphertext = '''',
                 s_createdAt = 0, s_rotatedAt = 0, s_updatedAt = 0\<rparr>]\<rparr>"

definition shared_world :: "nat \<Rightarrow> world" where
  "shared_world t = \<lparr>w_db = shared_db, w_fs = (\<lambda>p. None), w_env = shared_env, w_tick = t\<rparr>"

lemma shared_healthy [simp]: "healthy shared_env"
  by (simp add: healthy_def shared_env_def sample_env_def)

lemma shared_decode: "decodeLineConfig (encodeLineConfig shared_config) = shared_config"
proof -
  have "wf_config shared_config"
    by (simp add: wf_config_def owf_def valid_utf8_ascii shared_config_def)
  then show ?thesis by (rule decode_encode)
qed

lemma nonblank_words [simp]:
  "trim_space ''true'' = ''true''" "trim_space ''u1'' = ''u1''" "trim_space ''30001'' = ''30001''" "trim_space ''/w'' = ''/w''"
  "trim_space ''/etc/nginx/conf.d/a.conf'' = ''/etc/nginx/conf.d/a.conf''" "trim_space ''h.example'' = ''h.example''"
  by (simp_all add: trim_space_no_space)

lemma shared_defaults:
  "ensureLineConfigDefaults 1 ''cloudflare_ws_tls'' shared_config = retM shared_config"
  by (simp add: ensureLineConfigDefaults_def fill_clientId_def ws_defaults_def fill_def blank_def sget_def oget_def
      shared_config_def fun_eq_iff bindM_def)

lemma shared_tables [simp]:
  "w_db (shared_world t) = shared_db" "w_env (shared_world t) = shared_env" "w_tick (shared_world t) = t"
  "shared_world t\<lparr>w_tick := t'\<rparr> = shared_world t'"
  "d_lines shared_db = [shared_line]" "d_inbounds shared_db = [shared_inbound]" "d_outbounds shared_db = [sample_outbound]"
  "d_settings shared_db = []" "e_clock shared_env k = 1000" "e_goos shared_env = ''windows''"
  by (simp_all add: shared_world_def shared_db_def shared_env_def sample_env_def sample_db_def empty_db_def)

lemma shared_line_fields [simp]:
  "l_id shared_line = 1" "l_type shared_line = ''cloudflare_ws_tls''" "l_inboundId shared_line = Some 1"
  "l_configJSON shared_line = encodeLineConfig shared_config" "l_entryHost shared_line = ''h.example''"
  "l_entryPort shared_line = 443" "l_name shared_line = ''L''" "i_id shared_inbound = 1"
  by (simp_all add: shared_line_def sample_line_def shared_inbound_def)

lemma shared_can_apply [simp]: "validateLineCanApply shared_line 1000 = Inr ()"
  by (simp add: validateLineCanApply_def shared_line_def sample_line_def)

lemma shared_servable:
  "servable_runtime 1 (shared_world t)
     = (Inr (\<lparr>rt_line = shared_line, rt_outbound = Some sample_outbound, rt_config = shared_config,
              rt_inbound = Some shared_inbound\<rparr>, shared_inbound), shared_world (t + 4))"
  by (simp add: servable_runtime_def loadLineRuntime_def optional_def first_line_def first_outbound_def
      find_existing_inbound_def first_inbound_def find_line_def find_outbound_def find_inbound_def run
      shared_decode shared_defaults sample_outbound_def eval_nat_numeral)

lemma shared_profile:
  "buildLineClashSubscriptionYAML 1 (shared_world t) = (Inr (''profile'', clash_filename 1), shared_world (t + 5))"
proof -
  have "unmarshal_object (i_settings shared_inbound) = Some [(''clients'', JArr [JObj [(''id'', JStr ''u1'')]])]"
    by (simp add: shared_inbound_def unmarshal_object_def valid_utf8_ascii owf_def)
  then have "firstVlessClientID (i_settings shared_inbound) = Inr ''u1''"
    by (simp add: firstVlessClientID_def oget_def jstr_def)
  then show ?thesis
    by (simp add: buildLineClashSubscriptionYAML_def buildLineClashProxy_def run shared_servable Let_def
        shared_env_def eval_nat_numeral)
qed

lemma trim_old_token [simp]: "trim_space old_token = old_token"
  by (rule trim_space_no_space) (simp add: old_token_def no_space_def)

lemma shared_public:
  "GetPublicLineClashSubscription old_token (shared_world t) = (Inr (''profile'', clash_filename 1), shared_world (t + 6))"
proof -
  have "find_sub_token (token_digest shared_env old_token) shared_db = Some
      \<lparr>s_id = 1, s_lineId = 1, s_tokenHash = token_digest shared_env old_token, s_tokenCiphertext = '''',
       s_createdAt = 0, s_rotatedAt = 0, s_updatedAt = 0\<rparr>"
    by (simp add: find_sub_token_def shared_db_def)
  moreover have "length old_token = 32" by (simp add: old_token_def)
  ultimately show ?thesis
    by (simp add: GetPublicLineClashSubscription_def HashTokenSHA256_def run shared_profile Let_def add.commute)
qed


lemma shared_db_ok: "db_ok shared_db"
  by (simp add: db_ok_def shared_db_def sample_db_def empty_db_def ids_ok_def line_ok_def shared_line_def
      sample_line_def sample_outbound_def shared_inbound_def)

lemma shared_host: "findLineSubscriptionHost (shared_world t) = (Inr (shared_line, shared_config), shared_world (t + 2))"
  by (simp add: findLineSubscriptionHost_def run shared_decode shared_defaults eval_nat_numeral)

lemma shared_nginx: "applyCloudflareNginx shared_line shared_config (shared_world t)
    = (Inr (txt_goos_a @ ''windows'' @ txt_goos_b), shared_world t)"
  by (simp add: applyCloudflareNginx_def applyCloudflareNginxWithExecutor_def osNginxExecutor_def bindM_apply
      lineNginxPath_def sget_def oget_def shared_config_def truthy_def to_lower_def lower_char_def Let_def)

lemma goes_newToken:
  assumes "healthy (w_env w)" "secret_of (w_env w) (w_db w) \<noteq> ''''"
  obtains token ct w1 where "newLineSubscriptionToken w = (Inr (token, ct), w1)"
    "d_subs (w_db w1) = d_subs (w_db w)" "w_env w1 = w_env w"
proof -
  let ?w = "w\<lparr>w_tick := Suc (w_tick w)\<rparr>"
  obtain raw where raw: "rand_bytes 32 w = (Inr (Some raw), ?w)"
    using assms(1) unfolding rand_bytes_def askM_def healthy_def by fastforce
  obtain w2 where w2: "GetSecret ?w = (Inr (secret_of (w_env w) (w_db w)), w2)" "w_env w2 = w_env w"
    using GetSecret_healthy [of ?w] assms(1) by auto
  obtain nonce where "rand_bytes 12 (w2\<lparr>w_tick := Suc (w_tick w2)\<rparr>) = (Inr (Some nonce), w2\<lparr>w_tick := Suc (Suc (w_tick w2))\<rparr>)"
    using assms(1) w2 unfolding rand_bytes_def askM_def healthy_def by fastforce
  then have "\<exists>x w1. newLineSubscriptionToken w = (Inr x, w1)"
    using raw w2 assms(2)
    by (simp add: newLineSubscriptionToken_def encryptLineSubscriptionToken_def lineSubscriptionKey_def run Let_def)
  then obtain token ct w1 where "newLineSubscriptionToken w = (Inr (token, ct), w1)" by auto
  then show ?thesis using leaves_D [OF leaves_newToken] env_D [OF leaves_newToken] by (blast intro: that)
qed

lemma shared_token:
  obtains token row w1 where "getOrCreateLineSubscriptionToken 1 True (shared_world t) = (Inr (token, row), w1)"
proof -
  let ?row = "\<lparr>s_id = 1, s_lineId = 1, s_tokenHash = token_digest shared_env old_token, s_tokenCiphertext = '''',
      s_createdAt = 0, s_rotatedAt = 0, s_updatedAt = 0\<rparr>"
  have subs: "d_subs shared_db = [?row]" by (simp add: shared_db_def)
  have "secret_of shared_env shared_db \<noteq> ''''"
    by (simp add: secret_of_def find_setting_def shared_env_def sample_env_def)
  then obtain token ct w1 where w1: "newLineSubscriptionToken (shared_world (Suc t)) = (Inr (token, ct), w1)"
    "d_subs (w_db w1) = [?row]" "w_env w1 = shared_env"
    using goes_newToken [of "shared_world (Suc t)"] subs by auto
  have "\<exists>row w2. getOrCreateLineSubscriptionToken 1 True (shared_world t) = (Inr (token, row), w2)"
    using w1 by (simp add: getOrCreateLineSubscriptionToken_def run Let_def find_sub_def subs HashTokenSHA256_def update_sub_def)
  then show ?thesis using that by blast
qed

lemma shared_reset: obtains sh w' where "ResetLineClashSubscription 1 (shared_world 0) = (Inr sh, w')"
proof -
  obtain token row w1 where t: "getOrCreateLineSubscriptionToken 1 True (shared_world 6) = (Inr (token, row), w1)"
    by (rule shared_token)
  obtain path w2 where p: "lineSubscriptionPath w1 = (Inr path, w2)"
    by (cases "tryM GetBasePath w1") (auto simp: lineSubscriptionPath_def bindM_apply tryM_apply split: prod.splits)
  have "truthy (sget shared_config ''nginxApply'')"
    by (simp add: shared_config_def sget_def oget_def truthy_def to_lower_def lower_char_def)
  then have "\<exists>sh w'. ResetLineClashSubscription 1 (shared_world 0) = (Inr sh, w')"
    using t p
    by (simp add: ResetLineClashSubscription_def clash_share_with_def run shared_servable shared_host shared_nginx
        clash_type_ok_def buildLineSubscriptionURL_def eval_nat_numeral)
  then show ?thesis using that by blast
qed

theorem reset_revokes_witness:
  "\<exists>sh w' token. ResetLineClashSubscription 1 (shared_world 0) = (Inr sh, w') \<and> suffix token (sh_URL sh) \<and> length token = 43"
proof -
  obtain sh w' where r: "ResetLineClashSubscription 1 (shared_world 0) = (Inr sh, w')" by (rule shared_reset)
  have "db_ok (w_db (shared_world 0))" by (simp add: shared_db_ok)
  from reset_revokes [OF r this] r show ?thesis by blast
qed

theorem issued_token_works_witness:
  "\<exists>token u u' row. getOrCreateLineSubscriptionToken 1 False u = (Inr (token, row), u') \<and> w_env u = shared_env"
proof -
  obtain token rec w' where t: "getOrCreateLineSubscriptionToken 1 True (shared_world 0) = (Inr (token, rec), w')"
    by (rule shared_token)
  have e: "w_env w' = shared_env" using rel_env_D [OF safe_getOrCreate t] by simp
  have g: "gcm_ok shared_env" by (simp add: gcm_ok_def shared_env_def sample_env_def)
  have "\<exists>row u'. getOrCreateLineSubscriptionToken 1 False w' = (Inr (token, row), u')"
    using issued_token_works [OF t, of w'] shared_db_ok e g by (simp add: same_crypto_def)
  then show ?thesis using e by blast
qed

end
