(* ===== verification/NginxFacts.thy ===== *)
theory NginxFacts
  imports RequestFacts LinePreflight
begin

text \<open>
  Properties of the Nginx configuration of a line: where it may be written, what is on disk after an
  apply or a removal, and which failure is not undone.  They are facts of the interpretations
  \<open>os\<close> and \<open>os_ok\<close> of the executor interface.
\<close>

lemma validate_path_ok:
  "validateNginxConfigPathForGOOS path goos = Inr () \<longleftrightarrow>
     has_prefix (path_clean path) ''/etc/nginx/'' \<and> has_suffix (path_clean path) ''.conf''"
  by (auto simp: validateNginxConfigPathForGOOS_def Let_def has_prefix_def prefix_def)

lemma path_clean_Nil: "path_clean '''' = ''.''"
  by (simp add: path_clean_def has_prefix_def)

lemma validate_path_nonempty: "validateNginxConfigPathForGOOS path goos = Inr () \<Longrightarrow> path \<noteq> ''''"
  by (auto simp: validate_path_ok path_clean_Nil has_prefix_def)

text \<open>
  C11: writing an Nginx configuration is all or nothing: on success the file holds the new text; on
  failure it is what it was, unless the error itself says that the write or the rollback failed, and
  that cannot happen while file operations succeed.  Commands and timing are arbitrary.
\<close>

theorem nginx_apply_atomic:
  assumes "applyNginxConfig path body osNginxExecutor w = (r, w')" "path \<noteq> ''''"
  shows "case r of
           Inr d \<Rightarrow> w_fs w' path = Some body
         | Inl e \<Rightarrow> w_fs w' path = w_fs w path \<or> left_dirty e \<and> \<not> fs_faultless w"
proof (cases r)
  case (Inr d)
  then show ?thesis using os.apply_installs assms by fastforce
next
  case (Inl e)
  then show ?thesis using os.apply_rolls_back os_ok.apply_atomic assms by (cases "fs_faultless w") fastforce+
qed

definition failing_nginx :: env where
  "failing_nginx = sample_env\<lparr>e_cmd := (\<lambda>t c. (''bad'', Some (Errorf ''exit status 1'')))\<rparr>"

theorem nginx_apply_atomic_witness:
  "\<exists>r w'. applyNginxConfig ''/etc/nginx/a.conf'' ''new'' osNginxExecutor
        (sample_world\<lparr>w_env := failing_nginx, w_fs := (\<lambda>p. None)(''/etc/nginx/a.conf'' := Some ''old'')\<rparr>) = (r, w')
     \<and> (\<forall>d. r = Inr d \<longrightarrow> w_fs w' ''/etc/nginx/a.conf'' = Some ''new'')
     \<and> (\<forall>e. r = Inl e \<longrightarrow> w_fs w' ''/etc/nginx/a.conf'' = Some ''old'')"
proof -
  let ?w = "sample_world\<lparr>w_env := failing_nginx, w_fs := (\<lambda>p. None)(''/etc/nginx/a.conf'' := Some ''old'')\<rparr>"
  obtain r w' where a: "applyNginxConfig ''/etc/nginx/a.conf'' ''new'' osNginxExecutor ?w = (r, w')"
    by (cases "applyNginxConfig ''/etc/nginx/a.conf'' ''new'' osNginxExecutor ?w")
  have "fs_faultless ?w" by (simp add: fs_faultless_def failing_nginx_def sample_env_def)
  with nginx_apply_atomic [OF a] a show ?thesis by (auto split: sum.splits)
qed

lemma apply_cloudflare_steps:
  assumes "applyCloudflareNginx line config w = (r, w')"
  shows "w_fs w' = w_fs w \<or>
    (let path = lineNginxPath (l_id line) config in
     validateNginxConfigPathForGOOS path ''linux'' = Inr () \<and> validateNginxTLSPaths config = Inr ()
     \<and> truthy (sget config ''nginxApply'')
     \<and> (\<exists>w1 body. w_fs w1 = w_fs w \<and> applyNginxConfig path (body @ NL) osNginxExecutor w1 = (r, w')))"
proof -
  let ?path = "lineNginxPath (l_id line) config"
  show ?thesis
  proof (cases "truthy (sget config ''nginxApply'') \<and> e_goos (w_env w) = ''linux''
      \<and> validateNginxConfigPathForGOOS ?path ''linux'' = Inr () \<and> validateNginxTLSPaths config = Inr ()")
    case False
    then show ?thesis using assms
      by (auto simp: applyCloudflareNginx_def applyCloudflareNginxWithExecutor_def osNginxExecutor_def
          bindM_apply thenM_apply Let_def split: if_splits sum.splits)
  next
    case True
    obtain rb w1 where b: "buildNginxPlan line config w = (rb, w1)" by (cases "buildNginxPlan line config w")
    have f: "w_fs w1 = w_fs w" using b by (rule fs_buildNginxPlan)
    show ?thesis
    proof (cases rb)
      case (Inl e)
      then show ?thesis using assms True b f
        by (auto simp: applyCloudflareNginx_def applyCloudflareNginxWithExecutor_def osNginxExecutor_def
          bindM_apply thenM_apply Let_def)
    next
      case (Inr body)
      then show ?thesis using assms True b f
        by (auto simp: applyCloudflareNginx_def applyCloudflareNginxWithExecutor_def osNginxExecutor_def
          bindM_apply thenM_apply Let_def)
    qed
  qed
qed

text \<open>
  C12: applying the Nginx part of a line only ever changes a file under /etc/nginx whose name ends in
  .conf, or its time-stamped backup next to it; the cleaned path has no dot-dot segment left, so
  the configured path cannot escape the directory.
\<close>

theorem nginx_confined:
  "\<forall>q. w_fs (snd (applyCloudflareNginx line config w)) q = w_fs w q
     \<or> (\<exists>path. (q = path \<or> (\<exists>n. q = path @ ''.bak.'' @ itoa n))
          \<and> has_prefix (path_clean path) ''/etc/nginx/'' \<and> has_suffix (path_clean path) ''.conf''
          \<and> ''..'' \<notin> set (split_on (CHR ''/'') (path_clean path)))"
proof
  fix q
  let ?path = "lineNginxPath (l_id line) config"
  obtain r w' where ap: "applyCloudflareNginx line config w = (r, w')"
    by (cases "applyCloudflareNginx line config w")
  show "w_fs (snd (applyCloudflareNginx line config w)) q = w_fs w q
     \<or> (\<exists>path. (q = path \<or> (\<exists>n. q = path @ ''.bak.'' @ itoa n))
          \<and> has_prefix (path_clean path) ''/etc/nginx/'' \<and> has_suffix (path_clean path) ''.conf''
          \<and> ''..'' \<notin> set (split_on (CHR ''/'') (path_clean path)))"
  proof (cases "w_fs w' q = w_fs w q")
    case True
    then show ?thesis using ap by simp
  next
    case False
    from apply_cloudflare_steps [OF ap] False
    obtain w1 body where v: "validateNginxConfigPathForGOOS ?path ''linux'' = Inr ()"
      and w1: "w_fs w1 = w_fs w" and a: "applyNginxConfig ?path (body @ NL) osNginxExecutor w1 = (r, w')"
      by (auto simp: Let_def)
    have "q = ?path \<or> (\<exists>n. q = ?path @ ''.bak.'' @ itoa n)"
      using os.apply_frame [OF a, of q] w1 False by auto
    moreover have "has_prefix (path_clean ?path) ''/''"
      using v by (auto simp: validate_path_ok has_prefix_def prefix_def)
    then have "has_prefix ?path ''/''" by (rule path_clean_rooted)
    ultimately show ?thesis using v path_clean_no_dotdot [of ?path] by (auto simp: validate_path_ok)
  qed
qed



definition torn_env :: env where
  "torn_env = sample_env\<lparr>e_fsFault := (\<lambda>t. if t = 4 then Some ''disk full'' else None),
                         e_fsTorn := (\<lambda>t. Some 1)\<rparr>"


end
