(* ===== verification/PortConflict.thy ===== *)
theory PortConflict
  imports StmtFacts "HOL-Library.Word"
begin

text \<open>
  Which inbounds may share a port, and the tags the panel gives them
  (internal/web/service/port\_conflict.go).  \<open>conflict\<close> is the abstract rule: two inbounds clash when
  they bind a common socket; \<^verbatim>\<open>checkPortConflict\<close> implements it.
\<close>

unbundle bit_operations_syntax

section \<open>Transports\<close>

type_synonym transportBits = "8 word"

definition transportTCP :: transportBits where "transportTCP = 1"
definition transportUDP :: transportBits where "transportUDP = 2"

text \<open>\<^verbatim>\<open>n, _ := m[key].(string)\<close>.\<close>

definition string_field :: "json omap \<Rightarrow> string \<Rightarrow> string" where
  "string_field m k = (case oget m k of Some (JStr s) \<Rightarrow> s | _ \<Rightarrow> '''')"

definition stream_network :: "string \<Rightarrow> string" where
  "stream_network streamSettings =
     (if streamSettings = '''' then ''''
      else (case unmarshal_object streamSettings of
              Some ss \<Rightarrow> string_field ss ''network''
            | None \<Rightarrow> ''''))"

fun csv_bits :: "transportBits \<Rightarrow> string list \<Rightarrow> transportBits" where
  "csv_bits bits [] = bits"
| "csv_bits bits (part # parts) =
     (let p = trim_space part in
      csv_bits (if p = ''tcp'' then bits OR transportTCP
                else if p = ''udp'' then bits OR transportUDP else bits) parts)"

definition settings_bits :: "string \<Rightarrow> json omap \<Rightarrow> transportBits \<Rightarrow> transportBits" where
  "settings_bits protocol st bits =
     (if protocol = ''shadowsocks'' \<or> protocol = ''tunnel'' then
        (let n = string_field st (if protocol = ''tunnel'' then ''allowedNetwork'' else ''network'') in
         if n \<noteq> '''' then csv_bits 0 (split_on (CHR '','') n) else bits)
      else if protocol = ''mixed'' then
        (if oget st ''udp'' = Some (JBool True) then bits OR transportUDP else bits)
      else bits)"

definition inboundTransports :: "string \<Rightarrow> string \<Rightarrow> string \<Rightarrow> transportBits" where
  "inboundTransports protocol streamSettings settings =
     (if protocol = ''hysteria'' \<or> protocol = ''wireguard'' then transportUDP
      else if protocol = ''mtproto'' then transportTCP
      else
        (let network = stream_network streamSettings;
             bits0 = (if network = ''kcp'' \<or> network = ''quic'' then transportUDP else transportTCP);
             bits = (if settings = '''' then bits0
                     else (case unmarshal_object settings of
                             Some st \<Rightarrow> settings_bits protocol st bits0
                           | None \<Rightarrow> bits0))
         in if bits = 0 then transportTCP else bits))"

definition inbound_bits :: "inbound \<Rightarrow> transportBits" where
  "inbound_bits ib = inboundTransports (i_protocol ib) (i_streamSettings ib) (i_settings ib)"

definition isAnyListen :: "string \<Rightarrow> bool" where
  "isAnyListen s \<longleftrightarrow> s = '''' \<or> s = ''0.0.0.0'' \<or> s = ''::'' \<or> s = ''::0''"

definition listenOverlaps :: "string \<Rightarrow> string \<Rightarrow> bool" where
  "listenOverlaps a b \<longleftrightarrow> isAnyListen a \<or> isAnyListen b \<or> a = b"

definition sameNode :: "int option \<Rightarrow> int option \<Rightarrow> bool" where
  "sameNode a b =
     (case (a, b) of
        (None, None) \<Rightarrow> True
      | (None, Some _) \<Rightarrow> False
      | (Some _, None) \<Rightarrow> False
      | (Some x, Some y) \<Rightarrow> x = y)"

section \<open>The conflict\<close>

record portConflictDetail =
  pd_inboundID :: int
  pd_remark :: string
  pd_tag :: string
  pd_listen :: string
  pd_port :: int
  pd_transports :: transportBits

definition transportTagSuffix :: "transportBits \<Rightarrow> string" where
  "transportTagSuffix b =
     (if b = transportTCP then ''tcp''
      else if b = transportUDP then ''udp''
      else if b = transportTCP OR transportUDP then ''tcpudp''
      else ''any'')"

definition portConflict_String :: "portConflictDetail \<Rightarrow> string" where
  "portConflict_String d =
     (let name0 = (if pd_remark d = '''' then pd_tag d else pd_remark d);
          q = [CHR 0x27];
          name = (if name0 = '''' then ''#'' @ itoa (pd_inboundID d)
                  else if pd_inboundID d > 0 then q @ name0 @ q @ '' (#'' @ itoa (pd_inboundID d) @ '')''
                  else q @ name0 @ q);
          listen = (if isAnyListen (pd_listen d) then ''*'' else pd_listen d)
      in ''port '' @ itoa (pd_port d) @ '' ('' @ transportTagSuffix (pd_transports d)
         @ '') already used by inbound '' @ name @ '' on '' @ listen)"

definition defaultXrayAPIPort :: int where
  "defaultXrayAPIPort = 62789"

text \<open>
  Decoding into the anonymous struct of \<^verbatim>\<open>reservedAPIPort\<close>.  A key matches its field exactly or up to
  case; null leaves a field as it is, and any other value of the wrong kind fails the decoding.
\<close>

definition struct_field :: "json omap \<Rightarrow> string \<Rightarrow> json" where
  "struct_field m name =
     (case oget m name of
        Some v \<Rightarrow> v
      | None \<Rightarrow> (case find (\<lambda>p. equal_fold (fst p) name) m of Some p \<Rightarrow> snd p | None \<Rightarrow> JNull))"

definition api_row :: "json \<Rightarrow> (int \<times> string) option" where
  "api_row v =
     (let m = (case v of JObj m \<Rightarrow> Some m | JNull \<Rightarrow> Some [] | _ \<Rightarrow> None) in
      case m of
        None \<Rightarrow> None
      | Some m \<Rightarrow>
         (case (case struct_field m ''port'' of JNull \<Rightarrow> Some 0 | JNum s \<Rightarrow> atoi s | _ \<Rightarrow> None,
                case struct_field m ''tag'' of JNull \<Rightarrow> Some '''' | JStr s \<Rightarrow> Some s | _ \<Rightarrow> None) of
            (Some p, Some t) \<Rightarrow> Some (p, t)
          | _ \<Rightarrow> None))"

fun api_rows :: "json list \<Rightarrow> (int \<times> string) list option" where
  "api_rows [] = Some []"
| "api_rows (v # vs) =
     (case (api_row v, api_rows vs) of (Some r, Some rs) \<Rightarrow> Some (r # rs) | _ \<Rightarrow> None)"

definition template_inbounds :: "string \<Rightarrow> (int \<times> string) list option" where
  "template_inbounds tmpl =
     (case json_parse tmpl of
        Some (JObj m) \<Rightarrow>
          (case struct_field m ''inbounds'' of JNull \<Rightarrow> Some [] | JArr vs \<Rightarrow> api_rows vs | _ \<Rightarrow> None)
      | Some JNull \<Rightarrow> Some []
      | _ \<Rightarrow> None)"

definition template_api_port :: "string \<Rightarrow> int" where
  "template_api_port tmpl =
     (if tmpl = '''' then defaultXrayAPIPort
      else (case template_inbounds tmpl of
              None \<Rightarrow> defaultXrayAPIPort
            | Some rows \<Rightarrow>
                (case find (\<lambda>r. snd r = ''api'' \<and> fst r > 0) rows of
                   Some r \<Rightarrow> fst r
                 | None \<Rightarrow> defaultXrayAPIPort)))"

definition GetXrayConfigTemplate :: "string W" where
  "GetXrayConfigTemplate = getString ''xrayTemplateConfig''"

definition reservedAPIPort :: "int W" where
  "reservedAPIPort =
     bindM (tryM GetXrayConfigTemplate) (\<lambda>r.
       retM (case r of Inl e \<Rightarrow> defaultXrayAPIPort | Inr tmpl \<Rightarrow> template_api_port tmpl))"

definition api_inbound :: "int \<Rightarrow> portConflictDetail" where
  "api_inbound port =
     \<lparr>pd_inboundID = 0, pd_remark = '''', pd_tag = ''api'', pd_listen = ''127.0.0.1'', pd_port = port,
      pd_transports = transportTCP\<rparr>"

text \<open>The first candidate that clashes.\<close>

fun first_conflict :: "inbound \<Rightarrow> inbound list \<Rightarrow> portConflictDetail option" where
  "first_conflict ib [] = None"
| "first_conflict ib (c # cs) =
     (if \<not> sameNode (i_nodeId c) (i_nodeId ib) then first_conflict ib cs
      else if \<not> listenOverlaps (i_listen c) (i_listen ib) then first_conflict ib cs
      else (let shared = inbound_bits c AND inbound_bits ib in
            if shared = 0 then first_conflict ib cs
            else Some \<lparr>pd_inboundID = i_id c, pd_remark = i_remark c, pd_tag = i_tag c,
                       pd_listen = i_listen c, pd_port = i_port c, pd_transports = shared\<rparr>))"

definition candidates :: "int \<Rightarrow> int \<Rightarrow> db \<Rightarrow> inbound list" where
  "candidates port ignoreId d =
     filter (\<lambda>c. i_port c = port \<and> (ignoreId > 0 \<longrightarrow> i_id c \<noteq> ignoreId)) (d_inbounds d)"

text \<open>The API port is only read for an inbound of the panel itself.\<close>

definition checkPortConflict :: "inbound \<Rightarrow> int \<Rightarrow> portConflictDetail option W" where
  "checkPortConflict ib ignoreId =
     bindM (if i_nodeId ib = None then bindM reservedAPIPort (\<lambda>p. retM (i_port ib = p)) else retM False)
       (\<lambda>api.
        if api \<and> inbound_bits ib AND transportTCP \<noteq> 0 \<and> listenOverlaps ''127.0.0.1'' (i_listen ib)
        then retM (Some (api_inbound (i_port ib)))
        else bindM (db_query (candidates (i_port ib) ignoreId)) (\<lambda>cs. retM (first_conflict ib cs)))"

section \<open>Tags\<close>

definition baseInboundTag :: "int \<Rightarrow> string" where
  "baseInboundTag port = ''in-'' @ itoa port"

definition nodeTagPrefix :: "int option \<Rightarrow> string" where
  "nodeTagPrefix nodeID = (case nodeID of None \<Rightarrow> '''' | Some n \<Rightarrow> ''n'' @ itoa n @ ''-'')"

definition composeInboundTag :: "int \<Rightarrow> int option \<Rightarrow> transportBits \<Rightarrow> string" where
  "composeInboundTag port nodeID bits =
     nodeTagPrefix nodeID @ baseInboundTag port @ ''-'' @ transportTagSuffix bits"

definition isAutoGeneratedTag :: "string \<Rightarrow> int \<Rightarrow> int option \<Rightarrow> transportBits \<Rightarrow> bool" where
  "isAutoGeneratedTag tag port nodeID bits =
     (let base = composeInboundTag port nodeID bits in
      if tag = base then True
      else (case cut_prefix tag (base @ ''-'') of
              None \<Rightarrow> False
            | Some suf \<Rightarrow> suf \<noteq> '''' \<and> list_all is_digit suf))"

definition tagExists :: "string \<Rightarrow> int \<Rightarrow> bool W" where
  "tagExists tag ignoreId =
     db_query (\<lambda>d. length (filter (\<lambda>i. i_tag i = tag \<and> (ignoreId > 0 \<longrightarrow> i_id i \<noteq> ignoreId)) (d_inbounds d)) > 0)"

fun numbered_tag :: "string \<Rightarrow> int \<Rightarrow> int \<Rightarrow> nat list \<Rightarrow> string W" where
  "numbered_tag candidate port ignoreId [] =
     failM (Errorf (''could not pick a unique inbound tag for port: '' @ itoa port @ [CHR 0x0A]))"
| "numbered_tag candidate port ignoreId (i # is) =
     (let c = candidate @ ''-'' @ itoa (int i) in
      bindM (tagExists c ignoreId) (\<lambda>used.
        if \<not> used then retM c else numbered_tag candidate port ignoreId is))"

definition generateInboundTag :: "inbound \<Rightarrow> int \<Rightarrow> string W" where
  "generateInboundTag ib ignoreId =
     (let candidate = composeInboundTag (i_port ib) (i_nodeId ib) (inbound_bits ib) in
      bindM (tagExists candidate ignoreId) (\<lambda>used.
        if \<not> used then retM candidate else numbered_tag candidate (i_port ib) ignoreId [2..<100]))"

definition resolveInboundTag :: "inbound \<Rightarrow> int \<Rightarrow> string W" where
  "resolveInboundTag ib ignoreId =
     bindM (if i_tag ib \<noteq> '''' then bindM (tagExists (i_tag ib) ignoreId) (\<lambda>taken. retM (\<not> taken))
            else retM False)
       (\<lambda>keep. if keep then retM (i_tag ib) else generateInboundTag ib ignoreId)"

section \<open>The abstract rule\<close>

lemma getSetting_reads: "getSetting k w = (r, w') \<Longrightarrow> w_db w' = w_db w"
  by (auto simp: getSetting_def db_get_def dbM_def Let_def split: option.splits prod.splits sum.splits)

text \<open>
  The sockets an inbound binds: a node, an address, a port and whether it is UDP.  A wildcard
  address binds every address.
\<close>

type_synonym socket = "int option \<times> string \<times> int \<times> bool"

definition sockets :: "int option \<Rightarrow> string \<Rightarrow> int \<Rightarrow> transportBits \<Rightarrow> socket set" where
  "sockets node listen port bits =
     {(node, a, port, udp) | a udp. (isAnyListen listen \<or> a = listen)
        \<and> bits AND (if udp then transportUDP else transportTCP) \<noteq> 0}"

definition inbound_sockets :: "inbound \<Rightarrow> socket set" where
  "inbound_sockets ib = sockets (i_nodeId ib) (i_listen ib) (i_port ib) (inbound_bits ib)"

lemma transport_consts [simp]: "transportTCP AND transportTCP = transportTCP" "transportTCP \<noteq> 0" "transportUDP \<noteq> 0"
  by (simp_all add: transportTCP_def transportUDP_def)

lemma csv_bits_range: "bits \<in> {0, 1, 2, 3} \<Longrightarrow> csv_bits bits parts \<in> {0, 1, 2, 3}"
proof (induction parts arbitrary: bits)
  case (Cons p ps)
  have "bits OR transportTCP \<in> {0, 1, 2, 3}" "bits OR transportUDP \<in> {0, 1, 2, 3}"
    using Cons.prems by (auto simp: transportTCP_def transportUDP_def)
  with Cons show ?case by (simp add: Let_def)
qed simp

lemma settings_bits_range: "bits \<in> {0, 1, 2, 3} \<Longrightarrow> settings_bits p st bits \<in> {0, 1, 2, 3}"
  using csv_bits_range [of 0]
  by (auto simp: settings_bits_def Let_def transportUDP_def)

lemma inbound_bits_range: "inbound_bits ib \<in> {1, 2, 3}"
proof -
  define S :: "transportBits set" where "S = {0, 1, 2, 3}"
  have b: "(if n = ''kcp'' \<or> n = ''quic'' then transportUDP else transportTCP) \<in> S" for n
    by (simp add: S_def transportTCP_def transportUDP_def)
  have s: "x \<in> S \<Longrightarrow> settings_bits p st x \<in> S" for p st x
    unfolding S_def by (rule settings_bits_range)
  have z: "x \<in> S \<Longrightarrow> (if x = 0 then transportTCP else x) \<in> {1, 2, 3}" for x
    by (auto simp: S_def transportTCP_def)
  have "x \<in> S \<Longrightarrow> (case u of None \<Rightarrow> x | Some st \<Rightarrow> settings_bits p st x) \<in> S" for u x p
    using s by (cases u) simp_all
  then have "(if settings = '''' then x else case u of None \<Rightarrow> x | Some st \<Rightarrow> settings_bits p st x) \<in> S" if "x \<in> S"
    for u x p and settings :: string using that by simp
  from z [OF this [OF b]] show ?thesis
    unfolding inbound_bits_def inboundTransports_def Let_def
    by (simp add: transportTCP_def transportUDP_def)
qed

lemma shared_bits:
  "a \<in> {1, 2, 3} \<Longrightarrow> b \<in> {1, 2, 3} \<Longrightarrow>
     (a AND b \<noteq> (0 :: transportBits)) \<longleftrightarrow>
     (a AND transportTCP \<noteq> 0 \<and> b AND transportTCP \<noteq> 0 \<or> a AND transportUDP \<noteq> 0 \<and> b AND transportUDP \<noteq> 0)"
  by (auto simp: transportTCP_def transportUDP_def)

lemma sockets_meet:
  assumes "a \<in> {1, 2, 3}" "b \<in> {1, 2, 3}"
  shows "sockets n l p a \<inter> sockets n' l' p' b \<noteq> {} \<longleftrightarrow> n = n' \<and> p = p' \<and> listenOverlaps l l' \<and> a AND b \<noteq> 0"
proof -
  have "sockets n l p a \<inter> sockets n' l' p' b \<noteq> {} \<longleftrightarrow>
      n = n' \<and> p = p' \<and> (\<exists>x. (isAnyListen l \<or> x = l) \<and> (isAnyListen l' \<or> x = l'))
      \<and> (\<exists>u. a AND (if u then transportUDP else transportTCP) \<noteq> 0 \<and> b AND (if u then transportUDP else transportTCP) \<noteq> 0)"
    unfolding sockets_def by blast
  also have "(\<exists>x. (isAnyListen l \<or> x = l) \<and> (isAnyListen l' \<or> x = l')) \<longleftrightarrow> listenOverlaps l l'"
    by (auto simp: listenOverlaps_def)
  also have "(\<exists>u. a AND (if u then transportUDP else transportTCP) \<noteq> 0 \<and> b AND (if u then transportUDP else transportTCP) \<noteq> 0)
      \<longleftrightarrow> a AND b \<noteq> 0"
    unfolding shared_bits [OF assms] by (auto simp: ex_bool_eq)
  finally show ?thesis .
qed

lemma sameNode_eq: "sameNode a b \<longleftrightarrow> a = b"
  by (auto simp: sameNode_def split: option.splits)

lemma first_conflict_iff:
  "(\<forall>c \<in> set cs. i_port c = i_port ib) \<Longrightarrow>
     first_conflict ib cs = None \<longleftrightarrow> (\<forall>c \<in> set cs. inbound_sockets c \<inter> inbound_sockets ib = {})"
proof (induction cs)
  case (Cons c cs)
  have "inbound_sockets c \<inter> inbound_sockets ib \<noteq> {} \<longleftrightarrow>
      sameNode (i_nodeId c) (i_nodeId ib) \<and> listenOverlaps (i_listen c) (i_listen ib) \<and> inbound_bits c AND inbound_bits ib \<noteq> 0"
    unfolding inbound_sockets_def sockets_meet [OF inbound_bits_range inbound_bits_range]
    using Cons.prems by (auto simp: sameNode_eq)
  with Cons show ?case by (auto simp: Let_def)
qed simp

lemma first_conflict_row:
  "first_conflict ib cs = Some d \<Longrightarrow> (\<forall>c \<in> set cs. i_port c = i_port ib) \<Longrightarrow>
     \<exists>c \<in> set cs. pd_inboundID d = i_id c \<and> pd_tag d = i_tag c \<and> pd_port d = i_port ib
        \<and> inbound_sockets c \<inter> inbound_sockets ib \<noteq> {}"
proof (induction cs)
  case (Cons c cs)
  show ?case
  proof (cases "sameNode (i_nodeId c) (i_nodeId ib) \<and> listenOverlaps (i_listen c) (i_listen ib)
      \<and> inbound_bits c AND inbound_bits ib \<noteq> 0")
    case True
    then have "inbound_sockets c \<inter> inbound_sockets ib \<noteq> {}"
      unfolding inbound_sockets_def sockets_meet [OF inbound_bits_range inbound_bits_range]
      using Cons.prems by (auto simp: sameNode_eq)
    with True Cons.prems show ?thesis by (auto simp: Let_def)
  next
    case False
    with Cons show ?thesis by (auto simp: Let_def split: if_splits)
  qed
qed simp

text \<open>The sockets of the internal API inbound, which is no row of the table.\<close>

definition api_sockets :: "int \<Rightarrow> socket set" where
  "api_sockets port = sockets None ''127.0.0.1'' port transportTCP"

lemma api_meets:
  "i_nodeId ib = None \<and> i_port ib = p \<and> inbound_bits ib AND transportTCP \<noteq> 0 \<and> listenOverlaps ''127.0.0.1'' (i_listen ib)
     \<longleftrightarrow> api_sockets p \<inter> inbound_sockets ib \<noteq> {}"
proof -
  have t: "transportTCP \<in> {1, 2, 3}" by (simp add: transportTCP_def)
  show ?thesis
    unfolding inbound_sockets_def api_sockets_def sockets_meet [OF t inbound_bits_range]
    by (auto simp: and.commute)
qed

text \<open>
  C20: \<^verbatim>\<open>checkPortConflict\<close> is exact.  It reports no conflict just when the inbound binds no socket, of its
  node, address, port and transport, that another row of the table or the internal API inbound of
  the panel binds; and a conflict it reports names a row that does, or the API inbound.
\<close>

theorem port_conflict_exact:
  assumes "checkPortConflict ib ignoreId w = (Inr r, w')" and "reservedAPIPort w = (Inr p, w1)"
  shows "(r = None \<longleftrightarrow>
      (\<forall>c \<in> set (d_inbounds (w_db w)). (ignoreId > 0 \<longrightarrow> i_id c \<noteq> ignoreId) \<longrightarrow> inbound_sockets c \<inter> inbound_sockets ib = {})
      \<and> api_sockets p \<inter> inbound_sockets ib = {})
    \<and> (\<forall>d. r = Some d \<longrightarrow> d = api_inbound (i_port ib) \<and> api_sockets p \<inter> inbound_sockets ib \<noteq> {}
      \<or> (\<exists>c \<in> set (d_inbounds (w_db w)). pd_inboundID d = i_id c \<and> inbound_sockets c \<inter> inbound_sockets ib \<noteq> {}))"
proof -
  let ?api = "bindM (if i_nodeId ib = None then bindM reservedAPIPort (\<lambda>p. retM (i_port ib = p)) else retM False)"
  have db: "w_db w1 = w_db w" using assms(2)
    by (auto simp: reservedAPIPort_def GetXrayConfigTemplate_def getString_def bindM_apply tryM_apply askM_def
        dest!: getSetting_reads split: prod.splits sum.splits if_splits option.splits)
  show ?thesis
  proof (cases "api_sockets p \<inter> inbound_sockets ib = {}")
    case False
    then have "i_nodeId ib = None \<and> i_port ib = p \<and> inbound_bits ib AND transportTCP \<noteq> 0 \<and> listenOverlaps ''127.0.0.1'' (i_listen ib)"
      using api_meets [of ib p] by blast
    with assms have "r = Some (api_inbound (i_port ib))" by (simp add: checkPortConflict_def bindM_apply)
    with False show ?thesis by simp
  next
    case True
    then have na: "\<not> (i_nodeId ib = None \<and> i_port ib = p \<and> inbound_bits ib AND transportTCP \<noteq> 0 \<and> listenOverlaps ''127.0.0.1'' (i_listen ib))"
      using api_meets [of ib p] by blast
    let ?cs = "candidates (i_port ib) ignoreId (w_db w)"
    have r: "r = first_conflict ib ?cs"
      using assms na db by (cases "i_nodeId ib") (auto simp: checkPortConflict_def bindM_Inr db_query_Inr split: if_splits)
    have port: "\<forall>c \<in> set ?cs. i_port c = i_port ib" by (simp add: candidates_def)
    have other: "inbound_sockets c \<inter> inbound_sockets ib = {}" if "i_port c \<noteq> i_port ib" for c
      using sockets_meet [OF inbound_bits_range inbound_bits_range] that unfolding inbound_sockets_def by metis
    have "r = None \<longleftrightarrow> (\<forall>c \<in> set (d_inbounds (w_db w)). (ignoreId > 0 \<longrightarrow> i_id c \<noteq> ignoreId) \<longrightarrow> inbound_sockets c \<inter> inbound_sockets ib = {})"
      unfolding r first_conflict_iff [OF port] using other by (auto simp: candidates_def)
    moreover have "\<exists>c \<in> set (d_inbounds (w_db w)). pd_inboundID d = i_id c \<and> inbound_sockets c \<inter> inbound_sockets ib \<noteq> {}"
      if "r = Some d" for d
      using first_conflict_row [OF that [unfolded r] port] by (auto simp: candidates_def)
    ultimately show ?thesis using True by simp
  qed
qed

definition port_sample :: inbound where
  "port_sample = \<lparr>i_id = 5, i_userId = 1, i_up = 0, i_down = 0, i_total = 0, i_remark = '''', i_subSortIndex = 0,
     i_enable = True, i_expiryTime = 0, i_trafficReset = '''', i_trafficResetDay = 1, i_lastTrafficReset = 0,
     i_listen = '''', i_port = 443, i_protocol = ''vless'', i_settings = '''', i_streamSettings = '''',
     i_tag = ''in-443-tcp'', i_sniffing = '''', i_nodeId = None, i_shareAddrStrategy = '''', i_shareAddr = '''',
     i_originNodeGuid = ''''\<rparr>"

theorem port_conflict_exact_witness:
  "\<exists>r w'. checkPortConflict (port_sample\<lparr>i_id := 0, i_listen := ''10.0.0.1''\<rparr>) 0
         (sample_world\<lparr>w_db := sample_db\<lparr>d_inbounds := [port_sample]\<rparr>\<rparr>) = (Inr r, w') \<and> r \<noteq> None"
proof -
  let ?w = "sample_world\<lparr>w_db := sample_db\<lparr>d_inbounds := [port_sample]\<rparr>\<rparr>"
  let ?ib = "port_sample\<lparr>i_id := 0, i_listen := ''10.0.0.1''\<rparr>"
  have "template_api_port ''{}'' = 62789" by code_simp
  then have p: "\<exists>w1. reservedAPIPort ?w = (Inr 62789, w1)"
    by (simp add: reservedAPIPort_def GetXrayConfigTemplate_def getString_def getSetting_def db_get_def dbM_def
        find_setting_def monad_simps askM_def defaultValueMap_def sample_world_def sample_db_def empty_db_def sample_env_def Let_def)
  then obtain w1 where p: "reservedAPIPort ?w = (Inr 62789, w1)" by blast
  have db: "w_db w1 = w_db ?w" "e_fault (w_env w1) = (\<lambda>t. None)"
    using p by (auto simp: reservedAPIPort_def GetXrayConfigTemplate_def getString_def getSetting_def db_get_def dbM_def
        find_setting_def monad_simps askM_def defaultValueMap_def sample_world_def sample_db_def empty_db_def sample_env_def Let_def)
  have "\<exists>r w'. checkPortConflict ?ib 0 ?w = (Inr r, w')"
    using p db by (simp add: checkPortConflict_def bindM_apply db_query_def dbM_def Let_def port_sample_def)
  then obtain r w' where c: "checkPortConflict ?ib 0 ?w = (Inr r, w')" by blast
  have "inbound_sockets port_sample \<inter> inbound_sockets ?ib \<noteq> {}"
    unfolding inbound_sockets_def sockets_meet [OF inbound_bits_range inbound_bits_range]
    by (simp add: port_sample_def listenOverlaps_def isAnyListen_def inbound_bits_def inboundTransports_def stream_network_def)
  with port_conflict_exact [OF c p] c show ?thesis by auto
qed

section \<open>Tags\<close>

text \<open>Another row has the tag.\<close>

definition tag_used :: "string \<Rightarrow> int \<Rightarrow> db \<Rightarrow> bool" where
  "tag_used tag ignoreId d \<longleftrightarrow> (\<exists>i \<in> set (d_inbounds d). i_tag i = tag \<and> (ignoreId > 0 \<longrightarrow> i_id i \<noteq> ignoreId))"

lemma tagExists_Inr: "tagExists tag ign w = (Inr b, w') \<Longrightarrow> b = tag_used tag ign (w_db w) \<and> w_db w' = w_db w"
  by (auto simp: tagExists_def db_query_Inr tag_used_def filter_empty_conv)

lemma auto_numbered: "isAutoGeneratedTag (composeInboundTag p n b @ ''-'' @ itoa (int i)) p n b"
proof -
  have "list_all is_digit (itoa (int i))" using itoa_nonneg_chars [of "int i"] by (auto simp: list_all_iff)
  then show ?thesis by (simp add: isAutoGeneratedTag_def cut_prefix_def has_prefix_def Let_def)
qed

lemma numbered_tag_Inr:
  assumes "numbered_tag (composeInboundTag p n b) port ign is w = (Inr t, w')"
  shows "\<not> tag_used t ign (w_db w) \<and> isAutoGeneratedTag t p n b"
  using assms
proof (induction "is" arbitrary: w)
  case (Cons i "is")
  let ?c = "composeInboundTag p n b @ ''-'' @ itoa (int i)"
  from Cons.prems obtain u w1 where u: "tagExists ?c ign w = (Inr u, w1)"
    "(if \<not> u then retM ?c else numbered_tag (composeInboundTag p n b) port ign is) w1 = (Inr t, w')"
    unfolding numbered_tag.simps Let_def bindM_Inr by blast
  note tagExists_Inr [OF u(1)]
  with u(2) Cons.IH [of w1] auto_numbered show ?case by (cases u) auto
qed simp

lemma generate_Inr:
  assumes "generateInboundTag ib ign w = (Inr t, w')"
  shows "\<not> tag_used t ign (w_db w) \<and> isAutoGeneratedTag t (i_port ib) (i_nodeId ib) (inbound_bits ib)"
proof -
  let ?c = "composeInboundTag (i_port ib) (i_nodeId ib) (inbound_bits ib)"
  from assms obtain u w1 where u: "tagExists ?c ign w = (Inr u, w1)"
    "(if \<not> u then retM ?c else numbered_tag ?c (i_port ib) ign [2..<100]) w1 = (Inr t, w')"
    unfolding generateInboundTag_def Let_def bindM_Inr by blast
  note e = tagExists_Inr [OF u(1)]
  show ?thesis
  proof (cases u)
    case True
    with u(2) have "numbered_tag ?c (i_port ib) ign [2..<100] w1 = (Inr t, w')" by simp
    from numbered_tag_Inr [OF this] e show ?thesis by simp
  next
    case False
    with u(2) e show ?thesis by (simp add: isAutoGeneratedTag_def)
  qed
qed

text \<open>
  C21: the tag an inbound gets is free.  \<^verbatim>\<open>resolveInboundTag\<close> returns a tag no other row has: the requested
  one when there is one and it is free, and else a generated one that
  \<^verbatim>\<open>isAutoGeneratedTag\<close> recognises for the port, node and transports of the inbound.
\<close>

theorem resolve_tag_free:
  assumes "resolveInboundTag ib ignoreId w = (Inr t, w')"
  shows "\<not> tag_used t ignoreId (w_db w)
    \<and> (if i_tag ib \<noteq> '''' \<and> \<not> tag_used (i_tag ib) ignoreId (w_db w) then t = i_tag ib
       else isAutoGeneratedTag t (i_port ib) (i_nodeId ib) (inbound_bits ib))"
proof (cases "i_tag ib = ''''")
  case True
  with assms generate_Inr show ?thesis by (simp add: resolveInboundTag_def bindM_apply)
next
  case False
  with assms obtain u w1 where u: "tagExists (i_tag ib) ignoreId w = (Inr u, w1)"
    "(if \<not> u then retM (i_tag ib) else generateInboundTag ib ignoreId) w1 = (Inr t, w')"
    by (auto simp: resolveInboundTag_def bindM_Inr split: if_splits)
  note e = tagExists_Inr [OF u(1)]
  show ?thesis
  proof (cases u)
    case True
    with u(2) have "generateInboundTag ib ignoreId w1 = (Inr t, w')" by simp
    from generate_Inr [OF this] e True show ?thesis by auto
  next
    case False
    with u(2) e \<open>i_tag ib \<noteq> ''''\<close> show ?thesis by auto
  qed
qed

theorem resolve_tag_free_witness:
  "\<exists>t w'. resolveInboundTag (port_sample\<lparr>i_id := 0\<rparr>) 0 (sample_world\<lparr>w_db := sample_db\<lparr>d_inbounds := [port_sample]\<rparr>\<rparr>) = (Inr t, w')
     \<and> t = ''in-443-tcp-2'' \<and> \<not> tag_used t 0 (sample_db\<lparr>d_inbounds := [port_sample]\<rparr>)"
proof -
  let ?w = "sample_world\<lparr>w_db := sample_db\<lparr>d_inbounds := [port_sample]\<rparr>\<rparr>"
  have c: "composeInboundTag 443 None transportTCP = ''in-443-tcp''" "itoa 2 = ''2''" "[2::nat..<100] = 2 # [3..<100]"
    by code_simp+
  have b: "inbound_bits (port_sample\<lparr>i_id := 0\<rparr>) = transportTCP"
    by (simp add: inbound_bits_def inboundTransports_def port_sample_def stream_network_def)
  have "\<exists>w'. resolveInboundTag (port_sample\<lparr>i_id := 0\<rparr>) 0 ?w = (Inr ''in-443-tcp-2'', w')"
    by (simp add: resolveInboundTag_def generateInboundTag_def b c tagExists_def db_query_def dbM_def monad_simps Let_def
        sample_world_def sample_env_def)
       (simp add: port_sample_def b c monad_simps tagExists_def db_query_def dbM_def Let_def)
  then obtain w' where r: "resolveInboundTag (port_sample\<lparr>i_id := 0\<rparr>) 0 ?w = (Inr ''in-443-tcp-2'', w')" by blast
  from resolve_tag_free [OF r] r show ?thesis by simp
qed

text \<open>The parts of a tag between its dashes.\<close>

definition tag_parts :: "int \<Rightarrow> int option \<Rightarrow> transportBits \<Rightarrow> string list" where
  "tag_parts port nodeID bits =
     (case nodeID of None \<Rightarrow> [] | Some n \<Rightarrow> [CHR ''n'' # itoa n]) @ [''in'', itoa port, transportTagSuffix bits]"

lemma no_dash_itoa: "0 \<le> i \<Longrightarrow> CHR ''-'' \<notin> set (itoa i)"
  using itoa_nonneg_chars [of i "CHR ''-''"] by (auto simp: is_digit_def)

lemma no_dash_suffix: "CHR ''-'' \<notin> set (transportTagSuffix b)"
  by (simp add: transportTagSuffix_def)

lemma split_base:
  assumes "0 \<le> port" "case nodeID of None \<Rightarrow> True | Some n \<Rightarrow> 0 \<le> n"
  shows "split_on (CHR ''-'') (composeInboundTag port nodeID bits) = tag_parts port nodeID bits"
    and "split_on (CHR ''-'') (composeInboundTag port nodeID bits @ CHR ''-'' # s) = tag_parts port nodeID bits @ split_on (CHR ''-'') s"
proof -
  have a: "split_on (CHR ''-'') (''in-'' @ itoa port @ ''-'' @ transportTagSuffix bits) = [''in'', itoa port, transportTagSuffix bits]"
    "split_on (CHR ''-'') (''in-'' @ itoa port @ ''-'' @ transportTagSuffix bits @ CHR ''-'' # s)
       = [''in'', itoa port, transportTagSuffix bits] @ split_on (CHR ''-'') s"
    using split_on_append [of "CHR ''-''" "''in''"] split_on_append [OF no_dash_itoa [OF assms(1)]]
      split_on_no_sep [OF no_dash_suffix] split_on_append [OF no_dash_suffix]
    by (simp_all del: split_on.simps)
  have n: "split_on (CHR ''-'') ((CHR ''n'' # itoa n) @ CHR ''-'' # t) = (CHR ''n'' # itoa n) # split_on (CHR ''-'') t"
    if "0 \<le> n" for n t by (rule split_on_append) (use no_dash_itoa [OF that] in simp)
  show "split_on (CHR ''-'') (composeInboundTag port nodeID bits) = tag_parts port nodeID bits"
    "split_on (CHR ''-'') (composeInboundTag port nodeID bits @ CHR ''-'' # s) = tag_parts port nodeID bits @ split_on (CHR ''-'') s"
    using assms(2) a n
    by (cases nodeID; simp add: composeInboundTag_def nodeTagPrefix_def baseInboundTag_def tag_parts_def del: split_on.simps)+
qed

lemma auto_tag_parts:
  assumes "isAutoGeneratedTag t port nodeID bits" "0 \<le> port" "case nodeID of None \<Rightarrow> True | Some n \<Rightarrow> 0 \<le> n"
  shows "\<exists>rest. split_on (CHR ''-'') t = tag_parts port nodeID bits @ rest \<and> length rest \<le> 1"
proof (cases "t = composeInboundTag port nodeID bits")
  case True
  with split_base(1) [OF assms(2, 3)] show ?thesis by simp
next
  case False
  with assms(1) obtain s where s: "t = composeInboundTag port nodeID bits @ CHR ''-'' # s" "list_all is_digit s"
    by (auto simp: isAutoGeneratedTag_def cut_prefix_def has_prefix_def prefix_def Let_def split: if_splits option.splits)
  then have "CHR ''-'' \<notin> set s" by (auto simp: list_all_iff is_digit_def)
  with split_base(2) [OF assms(2, 3)] s(1) split_on_no_sep show ?thesis by simp
qed

text \<open>
  A generated tag belongs to one port, node and transport.  No tag is recognised by
  \<^verbatim>\<open>isAutoGeneratedTag\<close> for two different ones, so that the tag of an inbound never has to be taken for
  one that was generated for another.
\<close>

theorem auto_tag_unambiguous:
  assumes "isAutoGeneratedTag t port nodeID (inbound_bits ib)" "isAutoGeneratedTag t port' nodeID' (inbound_bits ib')"
    and "0 \<le> port" "0 \<le> port'"
    and "case nodeID of None \<Rightarrow> True | Some n \<Rightarrow> 0 \<le> n" "case nodeID' of None \<Rightarrow> True | Some n \<Rightarrow> 0 \<le> n"
  shows "port = port' \<and> nodeID = nodeID' \<and> inbound_bits ib = inbound_bits ib'"
proof -
  obtain r r' where p: "tag_parts port nodeID (inbound_bits ib) @ r = tag_parts port' nodeID' (inbound_bits ib') @ r'"
    "length r \<le> 1" "length r' \<le> 1"
    using auto_tag_parts [OF assms(1, 3, 5)] auto_tag_parts [OF assms(2, 4, 6)] by metis
  have suf: "inbound_bits ib = inbound_bits ib'" if "transportTagSuffix (inbound_bits ib) = transportTagSuffix (inbound_bits ib')"
    using that inbound_bits_range [of ib] inbound_bits_range [of ib']
    by (auto simp: transportTagSuffix_def transportTCP_def transportUDP_def)
  from p show ?thesis
    using suf by (cases nodeID; cases nodeID') (auto simp: tag_parts_def dest: itoa_inj)
qed

theorem auto_tag_unambiguous_witness:
  "isAutoGeneratedTag ''n3-in-443-tcp-2'' 443 (Some 3) (inbound_bits port_sample)
   \<and> \<not> isAutoGeneratedTag ''n3-in-443-tcp-2'' 3443 (Some 3) (inbound_bits port_sample)"
proof -
  have b: "inbound_bits port_sample = transportTCP"
    by (simp add: inbound_bits_def inboundTransports_def port_sample_def stream_network_def)
  have t: "isAutoGeneratedTag ''n3-in-443-tcp-2'' 443 (Some 3) (inbound_bits port_sample)"
    unfolding b by code_simp
  moreover have "(443 :: int) = 3443" if "isAutoGeneratedTag ''n3-in-443-tcp-2'' 3443 (Some 3) (inbound_bits port_sample)"
    using auto_tag_unambiguous [OF t that] by simp
  ultimately show ?thesis by auto
qed

end
