(* ===== verification/LoginLimiter.thy ===== *)
theory LoginLimiter
  imports GoStrings GoMap
begin

text \<open>
  The brute-force protection of the login form (internal/web/controller/login\_limiter.go): a map
  from address and user name to the recent failures and the end of a block.  Times are nanoseconds.
  Go's map iteration, which picks the victim when the map is full, is an arbitrary function \<open>order\<close>
  from the number of the loop and the keys to the keys as they are visited.  \<open>lock_state\<close> is the
  abstract rule per key, without pruning, eviction or sharing.
\<close>

section \<open>The limiter\<close>

definition second :: int where "second = 1000000000"
definition loginLimitMaxFailures :: nat where "loginLimitMaxFailures = 5"
definition loginLimitWindow :: int where "loginLimitWindow = 5 * 60 * second"
definition loginLimitCooldown :: int where "loginLimitCooldown = 15 * 60 * second"
definition loginLimitMaxRecords :: nat where "loginLimitMaxRecords = 10000"

text \<open>\<^verbatim>\<open>time.Time{}\<close>: the first instant of the year 1.\<close>

definition zero_time :: int where "zero_time = -62135596800 * second"

record loginLimitRecord =
  lr_failures :: "int list"
  lr_blockedUntil :: int

record loginLimiter =
  lm_maxFailures :: nat
  lm_window :: int
  lm_cooldown :: int
  lm_attempts :: "loginLimitRecord omap"

definition newLoginLimiter :: "nat \<Rightarrow> int \<Rightarrow> int \<Rightarrow> loginLimiter" where
  "newLoginLimiter maxFailures window cooldown =
     \<lparr>lm_maxFailures = maxFailures, lm_window = window, lm_cooldown = cooldown, lm_attempts = []\<rparr>"

definition defaultLoginLimiter :: loginLimiter where
  "defaultLoginLimiter = newLoginLimiter loginLimitMaxFailures loginLimitWindow loginLimitCooldown"

definition loginLimitKey :: "string \<Rightarrow> string \<Rightarrow> string" where
  "loginLimitKey ip username = trim_space ip @ [CHR 0x00] @ to_lower (trim_space username)"

fun pruneLoginFailures :: "int list \<Rightarrow> int \<Rightarrow> int list" where
  "pruneLoginFailures [] cutoff = []"
| "pruneLoginFailures (f # fs) cutoff = (if f < cutoff then pruneLoginFailures fs cutoff else f # fs)"

definition allow :: "int \<Rightarrow> string \<Rightarrow> string \<Rightarrow> loginLimiter \<Rightarrow> (int \<times> bool) \<times> loginLimiter" where
  "allow now ip username l =
     (let key = loginLimitKey ip username in
      case oget (lm_attempts l) key of
        None \<Rightarrow> ((zero_time, True), l)
      | Some r \<Rightarrow>
         if now < lr_blockedUntil r then ((lr_blockedUntil r, False), l)
         else
           (let fs = pruneLoginFailures (lr_failures r) (now - lm_window l);
                m = (if fs = [] then odel key (lm_attempts l)
                     else oput key \<lparr>lr_failures = fs, lr_blockedUntil = zero_time\<rparr> (lm_attempts l))
            in ((zero_time, True), l\<lparr>lm_attempts := m\<rparr>)))"

text \<open>The first loop of \<^verbatim>\<open>evictForRoom\<close>; it treats every record by itself, in any order.\<close>

fun evict_aged :: "int \<Rightarrow> int \<Rightarrow> loginLimitRecord omap \<Rightarrow> loginLimitRecord omap" where
  "evict_aged now cutoff [] = []"
| "evict_aged now cutoff ((k, r) # m) =
     (if now < lr_blockedUntil r then (k, r) # evict_aged now cutoff m
      else (let fs = pruneLoginFailures (lr_failures r) cutoff in
            if fs = [] then evict_aged now cutoff m
            else (k, r\<lparr>lr_failures := fs\<rparr>) # evict_aged now cutoff m))"

definition unblocked :: "int \<Rightarrow> loginLimitRecord omap \<Rightarrow> string \<Rightarrow> bool" where
  "unblocked now m k = (case oget m k of None \<Rightarrow> False | Some r \<Rightarrow> \<not> now < lr_blockedUntil r)"

definition evictForRoom :: "(nat \<Rightarrow> string list \<Rightarrow> string list) \<Rightarrow> int \<Rightarrow> loginLimiter \<Rightarrow> loginLimiter" where
  "evictForRoom order now l =
     (if length (lm_attempts l) < loginLimitMaxRecords then l
      else
        (let m = evict_aged now (now - lm_window l) (lm_attempts l) in
         if length m < loginLimitMaxRecords then l\<lparr>lm_attempts := m\<rparr>
         else (case find (unblocked now m) (order 2 (List.map fst m)) of
                 Some k \<Rightarrow> l\<lparr>lm_attempts := odel k m\<rparr>
               | None \<Rightarrow>
                  (case order 3 (List.map fst m) of
                     k # ks \<Rightarrow> l\<lparr>lm_attempts := odel k m\<rparr>
                   | [] \<Rightarrow> l\<lparr>lm_attempts := m\<rparr>))))"

definition registerFailure ::
  "(nat \<Rightarrow> string list \<Rightarrow> string list) \<Rightarrow> int \<Rightarrow> string \<Rightarrow> string \<Rightarrow> loginLimiter \<Rightarrow> (int \<times> bool) \<times> loginLimiter" where
  "registerFailure order now ip username l0 =
     (let key = loginLimitKey ip username;
          (l, r) = (case oget (lm_attempts l0) key of
                      Some r \<Rightarrow> (l0, r)
                    | None \<Rightarrow> (evictForRoom order now l0, \<lparr>lr_failures = [], lr_blockedUntil = zero_time\<rparr>));
          fs = pruneLoginFailures (lr_failures r) (now - lm_window l) @ [now]
      in if length fs \<ge> lm_maxFailures l
         then ((now + lm_cooldown l, True),
               l\<lparr>lm_attempts := oput key \<lparr>lr_failures = [], lr_blockedUntil = now + lm_cooldown l\<rparr> (lm_attempts l)\<rparr>)
         else ((zero_time, False),
               l\<lparr>lm_attempts := oput key (r\<lparr>lr_failures := fs\<rparr>) (lm_attempts l)\<rparr>))"

definition registerSuccess :: "string \<Rightarrow> string \<Rightarrow> loginLimiter \<Rightarrow> loginLimiter" where
  "registerSuccess ip username l = l\<lparr>lm_attempts := odel (loginLimitKey ip username) (lm_attempts l)\<rparr>"

section \<open>Runs\<close>

datatype login_event = Allow string string | Failure string string | Success string string

fun event_key :: "login_event \<Rightarrow> string" where
  "event_key (Allow ip u) = loginLimitKey ip u"
| "event_key (Failure ip u) = loginLimitKey ip u"
| "event_key (Success ip u) = loginLimitKey ip u"

fun limiter_step ::
  "(nat \<Rightarrow> string list \<Rightarrow> string list) \<Rightarrow> int \<times> login_event \<Rightarrow> loginLimiter \<Rightarrow> (int \<times> bool) \<times> loginLimiter" where
  "limiter_step order (now, Allow ip u) l = allow now ip u l"
| "limiter_step order (now, Failure ip u) l = registerFailure order now ip u l"
| "limiter_step order (now, Success ip u) l = ((zero_time, True), registerSuccess ip u l)"

fun limiter_run ::
  "(nat \<Rightarrow> string list \<Rightarrow> string list) \<Rightarrow> (int \<times> login_event) list \<Rightarrow> loginLimiter \<Rightarrow> (int \<times> bool) list \<times> loginLimiter" where
  "limiter_run order [] l = ([], l)"
| "limiter_run order (e # es) l =
     (case limiter_step order e l of (a, l1) \<Rightarrow>
        (case limiter_run order es l1 of (rest, l2) \<Rightarrow> (a # rest, l2)))"

section \<open>The abstract rule\<close>

record lock_state =
  ls_history :: "int list"
  ls_until :: int

definition recent :: "int \<Rightarrow> int \<Rightarrow> int list \<Rightarrow> int list" where
  "recent window now hist = filter (\<lambda>t. now - window \<le> t) hist"

fun lock_step ::
  "nat \<Rightarrow> int \<Rightarrow> int \<Rightarrow> int \<times> login_event \<Rightarrow> lock_state \<Rightarrow> (int \<times> bool) \<times> lock_state" where
  "lock_step maxf window cooldown (now, Allow ip u) s =
     ((if now < ls_until s then (ls_until s, False) else (zero_time, True)), s)"
| "lock_step maxf window cooldown (now, Failure ip u) s =
     (if length (recent window now (ls_history s)) + 1 \<ge> maxf
      then ((now + cooldown, True), \<lparr>ls_history = [], ls_until = now + cooldown\<rparr>)
      else ((zero_time, False), s\<lparr>ls_history := ls_history s @ [now]\<rparr>))"
| "lock_step maxf window cooldown (now, Success ip u) s =
     ((zero_time, True), \<lparr>ls_history = [], ls_until = zero_time\<rparr>)"

fun lock_run :: "nat \<Rightarrow> int \<Rightarrow> int \<Rightarrow> (int \<times> login_event) list \<Rightarrow> (string \<Rightarrow> lock_state) \<Rightarrow> (int \<times> bool) list" where
  "lock_run maxf window cooldown [] f = []"
| "lock_run maxf window cooldown (e # es) f =
     (case lock_step maxf window cooldown e (f (event_key (snd e))) of (a, s) \<Rightarrow>
        a # lock_run maxf window cooldown es (f(event_key (snd e) := s)))"

section \<open>The map stays small\<close>

definition fair_order :: "(nat \<Rightarrow> string list \<Rightarrow> string list) \<Rightarrow> bool" where
  "fair_order order \<longleftrightarrow> (\<forall>i ks. set (order i ks) = set ks)"

definition limiter_ok :: "loginLimiter \<Rightarrow> bool" where
  "limiter_ok l \<longleftrightarrow> owf (lm_attempts l) \<and> length (lm_attempts l) \<le> loginLimitMaxRecords
     \<and> (\<forall>(k, r) \<in> set (lm_attempts l). length (lr_failures r) < lm_maxFailures l)"

lemma prune_length: "length (pruneLoginFailures fs c) \<le> length fs"
  by (induction fs) auto

lemma in_odel: "x \<in> set (odel k m) \<longleftrightarrow> x \<in> set m \<and> fst x \<noteq> k"
  by (auto simp: odel_def)

lemma in_oput: "x \<in> set (oput k v m) \<Longrightarrow> x = (k, v) \<or> x \<in> set m"
  by (induction k v m rule: oput.induct) (auto split: if_splits)

lemma oget_in: "oget m k = Some v \<Longrightarrow> (k, v) \<in> set m"
  by (auto simp: oget_def dest: map_of_SomeD)

lemma length_oput: "owf m \<Longrightarrow> length (oput k v m) = (if oget m k = None then Suc (length m) else length m)"
proof (induction k v m rule: oput.induct)
  case (2 k v k' v' m)
  have "k < k' \<Longrightarrow> oget m k = None"
    using 2(2) by (auto simp: oget_None_notin owf_Cons)
  with 2 show ?case by (auto simp: oget_Cons owf_Cons)
qed simp

lemma length_odel_le: "length (odel k m) \<le> length m"
  by (simp add: odel_def)

lemma length_odel: "k \<in> fst ` set m \<Longrightarrow> length (odel k m) < length m"
  unfolding odel_def by (auto intro: length_filter_less)

lemma in_aged: "(k, r) \<in> set (evict_aged now c m) \<Longrightarrow> \<exists>r'. (k, r') \<in> set m \<and> length (lr_failures r) \<le> length (lr_failures r')"
  by (induction now c m rule: evict_aged.induct) (auto simp: Let_def prune_length split: if_splits)

lemma aged_owf: "owf m \<Longrightarrow> owf (evict_aged now c m)"
proof (induction m)
  case (Cons a m)
  obtain k r where a: "a = (k, r)" by (cases a)
  with Cons have "owf (evict_aged now c m)" by (simp add: owf_Cons)
  moreover have "\<forall>x \<in> set (evict_aged now c m). k < fst x"
    using Cons.prems a in_aged [of _ _ now c m] by (fastforce simp: owf_Cons)
  ultimately show ?case by (auto simp: a owf_Cons Let_def)
qed simp

lemma aged_length: "length (evict_aged now c m) \<le> length m"
  by (induction now c m rule: evict_aged.induct) (auto simp: Let_def)

text \<open>Eviction makes room, whatever record Go's map iteration offers.\<close>

lemma evict_room:
  assumes "limiter_ok l" "fair_order order"
  shows "length (lm_attempts (evictForRoom order now l)) < loginLimitMaxRecords"
    and "owf (lm_attempts (evictForRoom order now l))"
    and "\<forall>(k, r) \<in> set (lm_attempts (evictForRoom order now l)). length (lr_failures r) < lm_maxFailures l"
proof -
  let ?m = "evict_aged now (now - lm_window l) (lm_attempts l)"
  have ow: "owf ?m" and len: "length ?m \<le> loginLimitMaxRecords"
    using assms(1) aged_owf aged_length [of now "now - lm_window l" "lm_attempts l"] by (auto simp: limiter_ok_def)
  have small: "\<forall>(k, r) \<in> set ?m. length (lr_failures r) < lm_maxFailures l"
    using assms(1) in_aged [of _ _ now "now - lm_window l" "lm_attempts l"] by (fastforce simp: limiter_ok_def)
  have del: "k \<in> fst ` set ?m \<Longrightarrow> length (odel k ?m) < loginLimitMaxRecords" for k
    using length_odel [of k ?m] len by simp
  have pick: "k \<in> fst ` set ?m" if "find P (order i (List.map fst ?m)) = Some k" for P i k
    using that assms(2) by (auto simp: fair_order_def dest!: find_SomeD)
  have hd: "k \<in> fst ` set ?m" if "order i (List.map fst ?m) = k # ks" for i k ks
    using that assms(2) unfolding fair_order_def by (metis list.set_intros(1) set_map)
  have ne: "order i (List.map fst ?m) \<noteq> []" if "\<not> length ?m < loginLimitMaxRecords" for i
  proof
    assume "order i (List.map fst ?m) = []"
    then have "set (List.map fst ?m) = {}" using assms(2) unfolding fair_order_def by (metis set_empty)
    with that show False by (simp add: loginLimitMaxRecords_def)
  qed
  show "length (lm_attempts (evictForRoom order now l)) < loginLimitMaxRecords"
    using del pick hd ne by (auto simp: evictForRoom_def Let_def split: option.splits list.splits)
  show "owf (lm_attempts (evictForRoom order now l))"
    using assms(1) ow by (auto simp: evictForRoom_def limiter_ok_def Let_def split: option.splits list.splits)
  show "\<forall>(k, r) \<in> set (lm_attempts (evictForRoom order now l)). length (lr_failures r) < lm_maxFailures l"
    using assms(1) small by (auto simp: evictForRoom_def limiter_ok_def Let_def in_odel split: option.splits list.splits)
qed

lemma ok_odel: "limiter_ok l \<Longrightarrow> limiter_ok (l\<lparr>lm_attempts := odel k (lm_attempts l)\<rparr>)"
  using length_odel_le [of k "lm_attempts l"] by (fastforce simp: limiter_ok_def in_odel)

lemma ok_oput:
  assumes "owf (lm_attempts l)" "\<forall>(k, r) \<in> set (lm_attempts l). length (lr_failures r) < lm_maxFailures l"
    and "length (lm_attempts l) < loginLimitMaxRecords \<or> (oget (lm_attempts l) k \<noteq> None \<and> length (lm_attempts l) \<le> loginLimitMaxRecords)"
    and "length (lr_failures r) < lm_maxFailures l"
  shows "limiter_ok (l\<lparr>lm_attempts := oput k r (lm_attempts l)\<rparr>)"
  using assms length_oput [OF assms(1), of k r] by (auto simp: limiter_ok_def dest!: in_oput)

lemma evict_fields [simp]:
  "lm_maxFailures (evictForRoom order now l) = lm_maxFailures l"
  "lm_window (evictForRoom order now l) = lm_window l"
  "lm_cooldown (evictForRoom order now l) = lm_cooldown l"
  by (auto simp: evictForRoom_def Let_def split: option.splits list.splits)

lemma limiter_step_ok:
  assumes ok: "limiter_ok l" and fair: "fair_order order" and pos: "0 < lm_maxFailures l"
  shows "limiter_ok (snd (limiter_step order e l)) \<and> lm_maxFailures (snd (limiter_step order e l)) = lm_maxFailures l"
proof -
  obtain now ev where e: "e = (now, ev)" by (cases e)
  show ?thesis
  proof (cases ev)
    case (Allow ip u)
    let ?k = "loginLimitKey ip u"
    show ?thesis
    proof (cases "oget (lm_attempts l) ?k")
      case (Some r)
      have "length (pruneLoginFailures (lr_failures r) c) < lm_maxFailures l" for c
        using prune_length [of "lr_failures r" c] oget_in [OF Some] ok by (force simp: limiter_ok_def)
      then have "limiter_ok (l\<lparr>lm_attempts := oput ?k \<lparr>lr_failures = pruneLoginFailures (lr_failures r) c, lr_blockedUntil = zero_time\<rparr> (lm_attempts l)\<rparr>)" for c
        using ok Some by (intro ok_oput) (auto simp: limiter_ok_def)
      with Some ok show ?thesis by (simp add: e Allow allow_def Let_def ok_odel)
    qed (use ok in \<open>simp add: e Allow allow_def Let_def\<close>)
  next
    case (Success ip u)
    with ok show ?thesis by (simp add: e registerSuccess_def ok_odel)
  next
    case (Failure ip u)
    let ?k = "loginLimitKey ip u"
    show ?thesis
    proof (cases "oget (lm_attempts l) ?k")
      case (Some r)
      have "limiter_ok (l\<lparr>lm_attempts := oput ?k x (lm_attempts l)\<rparr>)" if "length (lr_failures x) < lm_maxFailures l" for x
        using ok Some that by (intro ok_oput) (auto simp: limiter_ok_def)
      with Some pos show ?thesis by (simp add: e Failure registerFailure_def Let_def)
    next
      case None
      let ?l = "evictForRoom order now l"
      have "limiter_ok (?l\<lparr>lm_attempts := oput ?k x (lm_attempts ?l)\<rparr>)" if "length (lr_failures x) < lm_maxFailures l" for x
        using evict_room [OF ok fair, of now] that by (intro ok_oput) auto
      with None pos show ?thesis by (simp add: e Failure registerFailure_def Let_def)
    qed
  qed
qed

text \<open>
  C23: the login limiter is bounded.  After any sequence of logins, and however Go iterates over the map,
  it tracks at most 10000 records, each with fewer failures than the limit.
\<close>

theorem limiter_bounded:
  assumes "fair_order order" "0 < maxFailures"
  shows "length (lm_attempts (snd (limiter_run order es (newLoginLimiter maxFailures window cooldown)))) \<le> 10000
    \<and> (\<forall>(k, r) \<in> set (lm_attempts (snd (limiter_run order es (newLoginLimiter maxFailures window cooldown)))).
         length (lr_failures r) < maxFailures)"
proof -
  have run: "limiter_ok (snd (limiter_run order es l)) \<and> lm_maxFailures (snd (limiter_run order es l)) = lm_maxFailures l"
    if "limiter_ok l" "0 < lm_maxFailures l" for es l
    using that
  proof (induction es arbitrary: l)
    case (Cons e es)
    obtain a l1 rest l2 where r: "limiter_step order e l = (a, l1)" "limiter_run order es l1 = (rest, l2)"
      by (metis surj_pair)
    with limiter_step_ok [OF Cons.prems(1) assms(1) Cons.prems(2), of e] Cons.IH [of l1] Cons.prems show ?case by simp
  qed simp
  from run [of "newLoginLimiter maxFailures window cooldown" es] assms(2) show ?thesis
    by (auto simp: limiter_ok_def newLoginLimiter_def loginLimitMaxRecords_def)
qed

theorem limiter_bounded_witness:
  "length (lm_attempts (snd (limiter_run (\<lambda>i ks. rev ks) [(0, Failure ''::1'' ''root''), (9, Failure ''::1'' ''admin'')]
     defaultLoginLimiter))) \<le> 10000"
proof -
  have "fair_order (\<lambda>i ks. rev ks)" "0 < loginLimitMaxFailures"
    by (simp_all add: fair_order_def loginLimitMaxFailures_def)
  from limiter_bounded [OF this] show ?thesis unfolding defaultLoginLimiter_def by blast
qed

section \<open>The limiter implements the abstract rule\<close>

lemma prune_recent: "sorted fs \<Longrightarrow> pruneLoginFailures fs c = filter (\<lambda>t. c \<le> t) fs"
proof (induction fs)
  case (Cons f fs)
  show ?case
  proof (cases "f < c")
    case False
    with Cons.prems have "\<forall>t \<in> set fs. c \<le> t" by auto
    with False show ?thesis by simp
  qed (use Cons in simp)
qed simp

text \<open>A record, or its absence, tells all of the history that still counts at and after \<open>now\<close>.\<close>

definition tracks :: "int \<Rightarrow> int \<Rightarrow> loginLimitRecord option \<Rightarrow> lock_state \<Rightarrow> bool" where
  "tracks window now rec s \<longleftrightarrow>
     sorted (ls_history s) \<and> (\<forall>t \<in> set (ls_history s). t \<le> now)
     \<and> (case rec of
          None \<Rightarrow> recent window now (ls_history s) = [] \<and> ls_until s \<le> now
        | Some r \<Rightarrow> (\<exists>c. c \<le> now - window \<and> lr_failures r = filter (\<lambda>t. c \<le> t) (ls_history s))
            \<and> (lr_blockedUntil r = ls_until s \<or> lr_blockedUntil r \<le> now \<and> ls_until s \<le> now))"

lemma recent_later: "now \<le> now' \<Longrightarrow> recent window now hist = [] \<Longrightarrow> recent window now' hist = []"
  by (auto simp: recent_def filter_empty_conv)

lemma tracks_later:
  assumes "tracks window now rec s" "now \<le> now'"
  shows "tracks window now' rec s"
proof (cases rec)
  case None
  with assms show ?thesis using recent_later [OF assms(2)] by (auto simp: tracks_def)
next
  case (Some r)
  with assms(1) obtain c where c: "c \<le> now - window" "lr_failures r = filter (\<lambda>t. c \<le> t) (ls_history s)"
    by (auto simp: tracks_def)
  with assms(2) have "c \<le> now' - window" by simp
  with c(2) Some assms show ?thesis by (auto simp: tracks_def)
qed

lemma tracks_prune:
  assumes "tracks window now (Some r) s"
  shows "pruneLoginFailures (lr_failures r) (now - window) = recent window now (ls_history s)"
proof -
  from assms obtain c where c: "c \<le> now - window" "lr_failures r = filter (\<lambda>t. c \<le> t) (ls_history s)"
    and "sorted (ls_history s)" by (auto simp: tracks_def)
  then have "sorted (lr_failures r)" by (simp add: sorted_wrt_filter)
  from prune_recent [OF this] c show ?thesis by (auto simp: recent_def intro: filter_cong)
qed

lemma tracks_until: "tracks window now (Some r) s \<Longrightarrow> now < lr_blockedUntil r \<longleftrightarrow> now < ls_until s"
  by (auto simp: tracks_def)

lemma tracks_blocked: "tracks window now (Some r) s \<Longrightarrow> now < ls_until s \<Longrightarrow> lr_blockedUntil r = ls_until s"
  by (auto simp: tracks_def)

definition limiter_rel :: "string set \<Rightarrow> int \<Rightarrow> loginLimiter \<Rightarrow> (string \<Rightarrow> lock_state) \<Rightarrow> bool" where
  "limiter_rel K now l f \<longleftrightarrow> owf (lm_attempts l) \<and> fst ` set (lm_attempts l) \<subseteq> K
     \<and> (\<forall>k. tracks (lm_window l) now (oget (lm_attempts l) k) (f k))"

lemma rel_tracks: "limiter_rel K t l f \<Longrightarrow> t \<le> now \<Longrightarrow> tracks (lm_window l) now (oget (lm_attempts l) k) (f k)"
  unfolding limiter_rel_def by (blast intro: tracks_later)

lemma rel_oput:
  assumes "limiter_rel K t l f" "t \<le> now" "k \<in> K" "tracks (lm_window l) now (Some r) s"
  shows "limiter_rel K now (l\<lparr>lm_attempts := oput k r (lm_attempts l)\<rparr>) (f(k := s))"
  using assms rel_tracks [OF assms(1, 2)] by (auto simp: limiter_rel_def set_oput_fst)

lemma rel_odel:
  assumes "limiter_rel K t l f" "t \<le> now" "tracks (lm_window l) now None s"
  shows "limiter_rel K now (l\<lparr>lm_attempts := odel k (lm_attempts l)\<rparr>) (f(k := s))"
proof -
  have "fst ` set (odel k (lm_attempts l)) \<subseteq> K" using assms(1) by (force simp: limiter_rel_def in_odel)
  then show ?thesis using assms rel_tracks [OF assms(1, 2)] by (auto simp: limiter_rel_def)
qed

lemma rel_keep:
  assumes "limiter_rel K t l f" "t \<le> now"
  shows "limiter_rel K now l (f(k := f k))"
  using assms rel_tracks [OF assms] by (auto simp: limiter_rel_def)

text \<open>No record is evicted while there is room for all keys.\<close>

lemma room_enough:
  assumes "limiter_rel K t l f" "finite K" "card K \<le> loginLimitMaxRecords" "k \<in> K" "oget (lm_attempts l) k = None"
  shows "evictForRoom order now l = l"
proof -
  have "distinct (List.map fst (lm_attempts l))"
    using assms(1) by (auto simp: limiter_rel_def owf_def strict_sorted_iff)
  then have "length (lm_attempts l) = card (fst ` set (lm_attempts l))"
    by (metis distinct_card length_map set_map)
  also have "\<dots> \<le> card (K - {k})"
    using assms by (intro card_mono) (auto simp: limiter_rel_def oget_None_notin)
  also have "\<dots> < card K" using assms by (intro card_Diff1_less)
  finally show ?thesis using assms(3) by (simp add: evictForRoom_def)
qed

lemma tracks_fail:
  assumes "tracks window now rec s" "0 \<le> window" "zero_time \<le> now"
    and r: "r = (case rec of None \<Rightarrow> \<lparr>lr_failures = [], lr_blockedUntil = zero_time\<rparr> | Some r \<Rightarrow> r)"
  shows "pruneLoginFailures (lr_failures r) (now - window) = recent window now (ls_history s)"
    and "tracks window now (Some (r\<lparr>lr_failures := recent window now (ls_history s) @ [now]\<rparr>)) (s\<lparr>ls_history := ls_history s @ [now]\<rparr>)"
    and "tracks window now (Some \<lparr>lr_failures = [], lr_blockedUntil = u\<rparr>) \<lparr>ls_history = [], ls_until = u\<rparr>"
proof -
  show p: "pruneLoginFailures (lr_failures r) (now - window) = recent window now (ls_history s)"
    using assms tracks_prune by (cases rec) (auto simp: tracks_def)
  have h: "sorted (ls_history s @ [now])" "\<forall>t \<in> set (ls_history s @ [now]). t \<le> now"
    using assms(1) by (auto simp: tracks_def sorted_append)
  have "recent window now (ls_history s) @ [now] = filter (\<lambda>t. now - window \<le> t) (ls_history s @ [now])"
    using assms(2) by (simp add: recent_def)
  moreover have "lr_blockedUntil r = ls_until s \<or> lr_blockedUntil r \<le> now \<and> ls_until s \<le> now"
    using assms(1, 3) r by (cases rec) (auto simp: tracks_def)
  ultimately show "tracks window now (Some (r\<lparr>lr_failures := recent window now (ls_history s) @ [now]\<rparr>)) (s\<lparr>ls_history := ls_history s @ [now]\<rparr>)"
    using h unfolding tracks_def by fastforce
  show "tracks window now (Some \<lparr>lr_failures = [], lr_blockedUntil = u\<rparr>) \<lparr>ls_history = [], ls_until = u\<rparr>"
    unfolding tracks_def by (auto intro: exI [of _ "now - window"])
qed

lemma step_sim:
  assumes rel: "limiter_rel K t l f" and t: "t \<le> now" "zero_time \<le> now" and w: "0 \<le> lm_window l"
    and K: "finite K" "card K \<le> loginLimitMaxRecords" "event_key ev \<in> K"
  shows "fst (limiter_step order (now, ev) l) = fst (lock_step (lm_maxFailures l) (lm_window l) (lm_cooldown l) (now, ev) (f (event_key ev)))
    \<and> limiter_rel K now (snd (limiter_step order (now, ev) l))
        (f(event_key ev := snd (lock_step (lm_maxFailures l) (lm_window l) (lm_cooldown l) (now, ev) (f (event_key ev)))))
    \<and> lm_maxFailures (snd (limiter_step order (now, ev) l)) = lm_maxFailures l
    \<and> lm_window (snd (limiter_step order (now, ev) l)) = lm_window l
    \<and> lm_cooldown (snd (limiter_step order (now, ev) l)) = lm_cooldown l"
proof (cases ev)
  case (Success ip u)
  have "tracks (lm_window l) now None \<lparr>ls_history = [], ls_until = zero_time\<rparr>" using t by (simp add: tracks_def recent_def)
  from rel_odel [OF rel t(1) this] Success show ?thesis by (simp add: registerSuccess_def)
next
  case (Allow ip u)
  let ?k = "loginLimitKey ip u"
  have tr: "tracks (lm_window l) now (oget (lm_attempts l) ?k) (f ?k)"
    by (rule rel_tracks [OF rel t(1)])
  show ?thesis
  proof (cases "oget (lm_attempts l) ?k")
    case None
    with tr have "\<not> now < ls_until (f ?k)" by (simp add: tracks_def)
    with None Allow rel_keep [OF rel t(1), of ?k] show ?thesis by (simp add: allow_def Let_def)
  next
    case (Some r)
    note tr' = tr [unfolded Some]
    show ?thesis
    proof (cases "now < ls_until (f ?k)")
      case True
      with Some Allow tracks_until [OF tr'] tracks_blocked [OF tr'] rel_keep [OF rel t(1), of ?k] show ?thesis
        by (simp add: allow_def Let_def)
    next
      case False
      let ?fs = "recent (lm_window l) now (ls_history (f ?k))"
      have "tracks (lm_window l) now (Some \<lparr>lr_failures = ?fs, lr_blockedUntil = zero_time\<rparr>) (f ?k)"
        using tr' False t(2) unfolding tracks_def recent_def by fastforce
      note put = rel_oput [OF rel t(1) _ this, of ?k]
      have "tracks (lm_window l) now None (f ?k)" if "?fs = []"
        using tr' False that unfolding tracks_def by simp
      note del = rel_odel [OF rel t(1) this, of ?k]
      from False tracks_until [OF tr'] have "\<not> now < lr_blockedUntil r" by simp
      with False Some Allow put del K(3) tracks_prune [OF tr'] show ?thesis
        by (simp add: allow_def Let_def)
    qed
  qed
next
  case (Failure ip u)
  let ?k = "loginLimitKey ip u" and ?rec = "oget (lm_attempts l) (loginLimitKey ip u)"
  have tr: "tracks (lm_window l) now ?rec (f ?k)"
    by (rule rel_tracks [OF rel t(1)])
  have k: "?k \<in> K" using K(3) Failure by simp
  define r where "r = (case ?rec of None \<Rightarrow> \<lparr>lr_failures = [], lr_blockedUntil = zero_time\<rparr> | Some r \<Rightarrow> r)"
  have lr: "(case ?rec of Some r \<Rightarrow> (l, r) | None \<Rightarrow> (evictForRoom order now l, \<lparr>lr_failures = [], lr_blockedUntil = zero_time\<rparr>)) = (l, r)"
    using room_enough [OF rel K(1, 2) k] by (simp add: r_def split: option.split)
  note f = tracks_fail [OF tr w t(2) r_def]
  note put = rel_oput [OF rel t(1) k]
  show ?thesis
    using Failure lr f(1) put [OF f(2)] put [OF f(3) [of "now + lm_cooldown l"]]
    by (simp add: registerFailure_def Let_def)
qed


definition sample_attempts :: "(int \<times> login_event) list" where
  "sample_attempts = [(1, Failure ''::1'' ''root''), (2, Failure ''::1'' ''root''), (3, Allow ''::1'' ''root''),
     (500, Allow ''::1'' ''root''), (1002, Allow ''::1'' ''root'')]"


end
