(* ===== verification/EventBus.thy ===== *)
theory EventBus
  imports GoStrings GoMap "HOL-Library.Sublist"
begin

text \<open>
  The in-process event bus (internal/eventbus/bus.go, events.go) and the rate limiter of its
  notifications (filter.go).  The bus is a state machine: the goroutines of \<^verbatim>\<open>New\<close> and \<^verbatim>\<open>Subscribe\<close> and the
  callers of its methods take turns, each step is atomic as the lock or the channel makes it, and
  where Go's select has several ready cases any of them may be taken.
\<close>

section \<open>Events\<close>

record 'd event =
  ev_type :: string
  ev_source :: string
  ev_data :: 'd
  ev_timestamp :: int

definition EventOutboundDown :: string where "EventOutboundDown = ''outbound.down''"
definition EventOutboundUp :: string where "EventOutboundUp = ''outbound.up''"
definition EventXrayCrash :: string where "EventXrayCrash = ''xray.crash''"
definition EventNodeDown :: string where "EventNodeDown = ''node.down''"
definition EventNodeUp :: string where "EventNodeUp = ''node.up''"
definition EventCPUHigh :: string where "EventCPUHigh = ''cpu.high''"
definition EventMemoryHigh :: string where "EventMemoryHigh = ''memory.high''"
definition EventLoginAttempt :: string where "EventLoginAttempt = ''login.attempt''"

text \<open>\<^verbatim>\<open>time.Time{}\<close> in nanoseconds since 1970.\<close>

definition no_time :: int where "no_time = -62135596800 * 1000000000"

section \<open>The bus\<close>

definition DefaultBufferSize :: nat where "DefaultBufferSize = 256"
definition subscriberQueueSize :: nat where "subscriberQueueSize = 64"

text \<open>
  Subscribers are shared objects: \<open>bs_heap\<close> maps their addresses to them, \<open>bs_subs\<close> is the slice of the
  registered ones, and the worker of a replaced subscriber lives on until it sees its quit channel.
\<close>

record 'd subscriber =
  sb_id :: string
  sb_queue :: "'d event list"
  sb_quit :: bool
  sb_alive :: bool

record 'd bus =
  bs_cap :: nat
  bs_ch :: "'d event list"
  bs_subs :: "nat list"
  bs_heap :: "nat \<Rightarrow> 'd subscriber option"
  bs_next :: nat
  bs_stopped :: bool
  bs_done :: bool
  bs_dispatching :: bool

definition New :: "int \<Rightarrow> 'd bus" where
  "New bufSize =
     \<lparr>bs_cap = (if bufSize \<le> 0 then DefaultBufferSize else nat bufSize), bs_ch = [], bs_subs = [],
      bs_heap = (\<lambda>p. None), bs_next = 0, bs_stopped = False, bs_done = False, bs_dispatching = True\<rparr>"

definition upd_sub :: "nat \<Rightarrow> ('d subscriber \<Rightarrow> 'd subscriber) \<Rightarrow> 'd bus \<Rightarrow> 'd bus" where
  "upd_sub p f b = b\<lparr>bs_heap := (bs_heap b)(p := map_option f (bs_heap b p))\<rparr>"

definition has_id :: "'d bus \<Rightarrow> string \<Rightarrow> nat \<Rightarrow> bool" where
  "has_id b sid p = (case bs_heap b p of None \<Rightarrow> False | Some s \<Rightarrow> sb_id s = sid)"

text \<open>The loop of \<^verbatim>\<open>Subscribe\<close> and \<^verbatim>\<open>Unsubscribe\<close>: the first subscriber with the id quits.\<close>

definition drop_id :: "string \<Rightarrow> 'd bus \<Rightarrow> 'd bus" where
  "drop_id sid b =
     (case find (has_id b sid) (bs_subs b) of
        None \<Rightarrow> b
      | Some p \<Rightarrow> (upd_sub p (\<lambda>s. s\<lparr>sb_quit := True\<rparr>) b)\<lparr>bs_subs := remove1 p (bs_subs b)\<rparr>)"

definition Subscribe :: "string \<Rightarrow> 'd bus \<Rightarrow> 'd bus" where
  "Subscribe sid b =
     (if bs_stopped b then b
      else (let b1 = drop_id sid b; p = bs_next b1 in
            b1\<lparr>bs_heap := (bs_heap b1)(p \<mapsto> \<lparr>sb_id = sid, sb_queue = [], sb_quit = False, sb_alive = True\<rparr>),
               bs_subs := bs_subs b1 @ [p], bs_next := p + 1\<rparr>))"

definition Unsubscribe :: "string \<Rightarrow> 'd bus \<Rightarrow> 'd bus" where
  "Unsubscribe sid b = drop_id sid b"

text \<open>Whether the event was accepted, and the stamped event.\<close>

definition Publish :: "int \<Rightarrow> 'd event \<Rightarrow> 'd bus \<Rightarrow> ('d event \<times> bool) \<times> 'd bus" where
  "Publish now e b =
     (let e1 = (if ev_timestamp e = no_time then e\<lparr>ev_timestamp := now\<rparr> else e) in
      if length (bs_ch b) < bs_cap b then ((e1, True), b\<lparr>bs_ch := bs_ch b @ [e1]\<rparr>)
      else ((e1, False), b))"

text \<open>\<^verbatim>\<open>select { case s.queue <- e: default: }\<close> for every subscriber in turn.\<close>

definition offer :: "'d event \<Rightarrow> nat \<Rightarrow> 'd bus \<Rightarrow> 'd bus" where
  "offer e p b =
     upd_sub p (\<lambda>s. if length (sb_queue s) < subscriberQueueSize then s\<lparr>sb_queue := sb_queue s @ [e]\<rparr> else s) b"

definition fan_out :: "'d event \<Rightarrow> 'd bus \<Rightarrow> 'd bus" where
  "fan_out e b = fold (offer e) (bs_subs b) b"

definition Stop :: "'d bus \<Rightarrow> 'd bus" where
  "Stop b = b\<lparr>bs_stopped := True, bs_done := True\<rparr>"

section \<open>The steps\<close>

datatype 'd bus_act =
    Accepted "'d event"
  | Dropped "'d event"
  | Dispatched "'d event"
  | Handled nat "'d event"
  | Internal

inductive bus_step :: "'d bus \<Rightarrow> 'd bus_act \<Rightarrow> 'd bus \<Rightarrow> bool" where
  publish: "Publish now e b = ((e1, True), b') \<Longrightarrow> bus_step b (Accepted e1) b'"
| full: "Publish now e b = ((e1, False), b') \<Longrightarrow> bus_step b (Dropped e1) b'"
| dispatch: "bs_dispatching b \<Longrightarrow> bs_ch b = e # es \<Longrightarrow> bus_step b (Dispatched e) (fan_out e (b\<lparr>bs_ch := es\<rparr>))"
| dispatch_end: "bs_dispatching b \<Longrightarrow> bs_done b \<Longrightarrow> bus_step b Internal (b\<lparr>bs_dispatching := False\<rparr>)"
| work: "bs_heap b p = Some s \<Longrightarrow> sb_alive s \<Longrightarrow> sb_queue s = e # q \<Longrightarrow>
     bus_step b (Handled p e) (upd_sub p (\<lambda>s. s\<lparr>sb_queue := q\<rparr>) b)"
| work_end: "bs_heap b p = Some s \<Longrightarrow> sb_alive s \<Longrightarrow> sb_quit s \<or> bs_done b \<Longrightarrow>
     bus_step b Internal (upd_sub p (\<lambda>s. s\<lparr>sb_alive := False\<rparr>) b)"
| subscribe: "bus_step b Internal (Subscribe sid b)"
| unsubscribe: "bus_step b Internal (Unsubscribe sid b)"
| stop: "bus_step b Internal (Stop b)"

inductive bus_run :: "'d bus \<Rightarrow> 'd bus_act list \<Rightarrow> 'd bus \<Rightarrow> bool" where
  start: "bus_run b [] b"
| more: "bus_run b as b1 \<Longrightarrow> bus_step b1 a b2 \<Longrightarrow> bus_run b (as @ [a]) b2"

inductive_cases bus_step_dispatched: "bus_step b (Dispatched e) b'"
inductive_cases bus_step_handled: "bus_step b (Handled p e) b'"

text \<open>What happened along a run.\<close>

fun accepted :: "'d bus_act list \<Rightarrow> 'd event list" where
  "accepted [] = []"
| "accepted (Accepted e # as) = e # accepted as"
| "accepted (a # as) = accepted as"

fun dispatched :: "'d bus_act list \<Rightarrow> 'd event list" where
  "dispatched [] = []"
| "dispatched (Dispatched e # as) = e # dispatched as"
| "dispatched (a # as) = dispatched as"

fun handled :: "nat \<Rightarrow> 'd bus_act list \<Rightarrow> 'd event list" where
  "handled p [] = []"
| "handled p (Handled q e # as) = (if p = q then e # handled p as else handled p as)"
| "handled p (a # as) = handled p as"

section \<open>Order and bounds\<close>

lemma accepted_snoc: "accepted (as @ [a]) = accepted as @ accepted [a]"
  by (induction as rule: accepted.induct) auto

lemma dispatched_snoc: "dispatched (as @ [a]) = dispatched as @ dispatched [a]"
  by (induction as rule: dispatched.induct) auto

lemma handled_snoc: "handled p (as @ [a]) = handled p as @ handled p [a]"
  by (induction p as rule: handled.induct) auto

definition queue_of :: "nat \<Rightarrow> 'd bus \<Rightarrow> 'd event list" where
  "queue_of p b = (case bs_heap b p of None \<Rightarrow> [] | Some s \<Rightarrow> sb_queue s)"

lemma upd_sub_fields [simp]:
  "bs_ch (upd_sub p f b) = bs_ch b" "bs_subs (upd_sub p f b) = bs_subs b" "bs_next (upd_sub p f b) = bs_next b"
  "bs_cap (upd_sub p f b) = bs_cap b" "bs_stopped (upd_sub p f b) = bs_stopped b"
  by (simp_all add: upd_sub_def)

lemma queue_of_upd: "queue_of q (upd_sub p f b) = (if q = p then (case bs_heap b p of None \<Rightarrow> [] | Some s \<Rightarrow> sb_queue (f s)) else queue_of q b)"
  by (auto simp: queue_of_def upd_sub_def split: option.split)

lemma fold_offer_fields [simp]:
  "bs_ch (fold (offer e) ps b) = bs_ch b" "bs_subs (fold (offer e) ps b) = bs_subs b"
  "bs_next (fold (offer e) ps b) = bs_next b" "bs_cap (fold (offer e) ps b) = bs_cap b"
  by (induction ps arbitrary: b) (simp_all add: offer_def)

lemma queue_offer:
  "queue_of q (offer e p b) =
     (if q = p \<and> bs_heap b p \<noteq> None \<and> length (queue_of p b) < subscriberQueueSize then queue_of q b @ [e] else queue_of q b)"
  unfolding offer_def queue_of_upd by (cases "bs_heap b p") (simp_all add: queue_of_def)

lemma heap_offer: "bs_heap (offer e p b) q = None \<longleftrightarrow> bs_heap b q = None"
  by (simp add: offer_def upd_sub_def)

lemma queue_fold_offer:
  "distinct ps \<Longrightarrow> queue_of q (fold (offer e) ps b) =
     (if q \<in> set ps \<and> bs_heap b q \<noteq> None \<and> length (queue_of q b) < subscriberQueueSize then queue_of q b @ [e] else queue_of q b)"
  by (induction ps arbitrary: b) (auto simp: queue_offer heap_offer simp del: not_None_eq)

lemma drop_id_fields [simp]:
  "bs_ch (drop_id sid b) = bs_ch b" "bs_next (drop_id sid b) = bs_next b" "bs_cap (drop_id sid b) = bs_cap b"
  "queue_of q (drop_id sid b) = queue_of q b"
  by (auto simp: drop_id_def upd_sub_def queue_of_def split: option.split)

lemma drop_id_subs: "set (bs_subs (drop_id sid b)) \<subseteq> set (bs_subs b)" "distinct (bs_subs b) \<Longrightarrow> distinct (bs_subs (drop_id sid b))"
  by (auto simp: drop_id_def split: option.split dest: set_mp [OF set_remove1_subset])

lemma drop_id_heap: "bs_heap (drop_id sid b) p = None \<longleftrightarrow> bs_heap b p = None"
  by (auto simp: drop_id_def upd_sub_def split: option.split)

text \<open>The invariant: registered addresses are used ones, and no buffer is over its capacity.\<close>

definition bus_ok :: "'d bus \<Rightarrow> bool" where
  "bus_ok b \<longleftrightarrow> distinct (bs_subs b) \<and> (\<forall>p \<in> set (bs_subs b). p < bs_next b) \<and> (\<forall>p \<ge> bs_next b. bs_heap b p = None)
     \<and> length (bs_ch b) \<le> bs_cap b \<and> (\<forall>p. length (queue_of p b) \<le> subscriberQueueSize)"

lemma ok_new: "bus_ok (New n)"
  by (simp add: bus_ok_def New_def queue_of_def)

lemma ok_drop_id: "bus_ok b \<Longrightarrow> bus_ok (drop_id sid b)"
  using drop_id_subs(1) [of sid b] drop_id_subs(2) [of b sid] by (auto simp: bus_ok_def drop_id_heap)

lemma ok_upd: "bus_ok b \<Longrightarrow> (\<And>s. bs_heap b p = Some s \<Longrightarrow> length (sb_queue (f s)) \<le> subscriberQueueSize) \<Longrightarrow> bus_ok (upd_sub p f b)"
  by (auto simp: bus_ok_def queue_of_upd split: option.splits) (auto simp: upd_sub_def)

lemma ok_subscribe: "bus_ok b \<Longrightarrow> bus_ok (Subscribe sid b)"
  using ok_drop_id [of b sid]
  by (auto simp: Subscribe_def Let_def bus_ok_def queue_of_def split: option.splits)

lemma ok_fan_out: assumes "bus_ok b" shows "bus_ok (fan_out e b)"
proof -
  have "bs_heap (fold (offer e) ps b) p = None \<longleftrightarrow> bs_heap b p = None" for ps p b
    by (induction ps arbitrary: b) (simp_all add: heap_offer)
  then show ?thesis
    using assms queue_fold_offer [of "bs_subs b" _ e b]
    by (auto simp: bus_ok_def fan_out_def Suc_le_eq simp del: not_None_eq)
qed

lemma bus_step_ok: "bus_step b a b' \<Longrightarrow> bus_ok b \<Longrightarrow> bus_ok b'"
proof (induction rule: bus_step.induct)
  case (dispatch b e es)
  then show ?case by (intro ok_fan_out) (auto simp: bus_ok_def queue_of_def)
next
  case (work b p s e q)
  then have "length (queue_of p b) \<le> subscriberQueueSize" by (simp add: bus_ok_def)
  with work show ?case by (intro ok_upd) (auto simp: queue_of_def)
next
  case (work_end b p s)
  then have "length (queue_of p b) \<le> subscriberQueueSize" by (simp add: bus_ok_def)
  with work_end show ?case by (intro ok_upd) (auto simp: queue_of_def)
qed (auto simp: Publish_def Let_def Stop_def Unsubscribe_def ok_subscribe ok_drop_id split: if_splits,
     auto simp: bus_ok_def queue_of_def)

text \<open>
  Every subscriber has seen, or still has in its queue, some of the dispatched events, in order; and
  the dispatched ones are those accepted and taken from the channel.
\<close>

definition in_order :: "'d bus_act list \<Rightarrow> 'd bus \<Rightarrow> bool" where
  "in_order as b \<longleftrightarrow>
     dispatched as @ bs_ch b = accepted as \<and> (\<forall>p. subseq (handled p as @ queue_of p b) (dispatched as))
     \<and> (\<forall>p \<ge> bs_next b. handled p as = [])"

lemma queue_subscribe: "bus_ok b \<Longrightarrow> queue_of p (Subscribe sid b) = queue_of p b"
proof -
  assume ok: "bus_ok b"
  show ?thesis
  proof (cases "p = bs_next b")
    case True
    with ok show ?thesis by (auto simp: Subscribe_def Let_def bus_ok_def queue_of_def [of p b]) (simp add: queue_of_def)
  next
    case False
    have d: "queue_of p (drop_id sid b) = queue_of p b" by simp
    show ?thesis using False d unfolding Subscribe_def queue_of_def Let_def by simp
  qed
qed

lemma run_in_order:
  assumes "bus_run b0 as b" "bus_ok b0" "bs_ch b0 = []" "\<And>p. queue_of p b0 = []"
  shows "bus_ok b \<and> in_order as b"
  using assms
proof (induction rule: bus_run.induct)
  case (start b)
  then show ?case by (simp add: in_order_def)
next
  case (more b as b1 a b2)
  then have ok: "bus_ok b1" and io: "in_order as b1" by auto
  have same: "in_order (as @ [Internal]) b2'" if "bs_ch b2' = bs_ch b1" "\<And>p. queue_of p b2' = queue_of p b1" "bs_next b1 \<le> bs_next b2'" for b2'
    using io that by (simp add: in_order_def accepted_snoc dispatched_snoc handled_snoc)
  from more.hyps(2) have "in_order (as @ [a]) b2"
  proof cases
    case (publish now e e1)
    with io show ?thesis
      by (auto simp: in_order_def accepted_snoc dispatched_snoc handled_snoc Publish_def Let_def queue_of_def split: if_splits)
  next
    case (full now e e1)
    with io show ?thesis
      by (auto simp: in_order_def accepted_snoc dispatched_snoc handled_snoc Publish_def Let_def split: if_splits)
  next
    case (dispatch e es)
    let ?b = "b1\<lparr>bs_ch := es\<rparr>"
    have q: "queue_of p (fan_out e ?b) = queue_of p b1 \<or> queue_of p (fan_out e ?b) = queue_of p b1 @ [e]" for p
      using ok queue_fold_offer [of "bs_subs b1" p e ?b] by (auto simp: fan_out_def bus_ok_def queue_of_def split: if_splits)
    have "subseq (handled p as @ queue_of p (fan_out e ?b)) (dispatched as @ [e])" for p
      using io q [of p] unfolding in_order_def
      by (metis append.assoc list_emb_append_mono subseq_order.refl subseq_rev_drop_many)
    with io dispatch show ?thesis
      by (simp add: in_order_def accepted_snoc dispatched_snoc handled_snoc fan_out_def)
  next
    case dispatch_end
    then show ?thesis using same by (simp add: queue_of_def)
  next
    case (work p s e q)
    have "handled p (as @ [a]) @ queue_of p b2 = handled p as @ queue_of p b1"
      using work by (simp add: handled_snoc queue_of_upd) (simp add: queue_of_def)
    moreover have "bs_next b1 \<le> p \<Longrightarrow> False" using work ok by (auto simp: bus_ok_def)
    ultimately show ?thesis
      using io work by (auto simp: in_order_def accepted_snoc dispatched_snoc handled_snoc queue_of_upd)
  next
    case (work_end p s)
    then have "queue_of r b2 = queue_of r b1" for r
      by (cases "r = p") (simp_all add: queue_of_upd, simp add: queue_of_def)
    with work_end same [of b2] show ?thesis by simp
  next
    case (subscribe sid)
    then show ?thesis using same queue_subscribe [OF ok] by (simp add: Subscribe_def Let_def)
  next
    case (unsubscribe sid)
    then show ?thesis using same by (simp add: Unsubscribe_def)
  next
    case stop
    then show ?thesis using same by (simp add: Stop_def queue_of_def)
  qed
  with bus_step_ok [OF more.hyps(2) ok] show ?case by simp
qed

text \<open>
  C24: the bus keeps the order and its memory bounded.  In every interleaving of publishers,
  subscribers, the dispatcher and the workers, each subscriber handles a subsequence of the accepted
  events in the order in which they were published, none of them twice; the buffer never holds more
  than its capacity and no queue more than 64 events.
\<close>

theorem bus_ordered_and_bounded:
  assumes "bus_run (New n) as b"
  shows "subseq (handled p as) (accepted as) \<and> length (bs_ch b) \<le> bs_cap b \<and> length (queue_of p b) \<le> 64"
proof -
  have "bus_ok b \<and> in_order as b"
    using assms ok_new [of n] by (rule run_in_order) (simp_all add: New_def queue_of_def)
  then have "subseq (handled p as @ queue_of p b) (dispatched as)" "dispatched as @ bs_ch b = accepted as"
    and "length (bs_ch b) \<le> bs_cap b \<and> length (queue_of p b) \<le> 64"
    by (auto simp: in_order_def bus_ok_def subscriberQueueSize_def)
  note b = this
  have "subseq (handled p as) (handled p as @ queue_of p b)" by (intro list_emb_prefix subseq_order.refl)
  also note b(1)
  also have "subseq (dispatched as) (accepted as)"
    unfolding b(2) [symmetric] by (intro list_emb_prefix subseq_order.refl)
  finally show ?thesis using b(3) by simp
qed

definition sample_event :: "unit event" where
  "sample_event = \<lparr>ev_type = EventXrayCrash, ev_source = ''xray'', ev_data = (), ev_timestamp = 7\<rparr>"

theorem bus_ordered_and_bounded_witness:
  "\<exists>b. bus_run (New 1) [Internal, Accepted sample_event, Dropped sample_event, Dispatched sample_event, Handled 0 sample_event] b
     \<and> subseq (handled 0 [Internal, Accepted sample_event, Dropped sample_event, Dispatched sample_event, Handled 0 sample_event])
         [sample_event] \<and> length (queue_of 0 b) \<le> 64"
proof -
  let ?b1 = "Subscribe ''email'' (New 1) :: unit bus"
  let ?b2 = "?b1\<lparr>bs_ch := [sample_event]\<rparr>"
  let ?b3 = "fan_out sample_event (?b2\<lparr>bs_ch := []\<rparr>)"
  let ?b4 = "upd_sub 0 (\<lambda>s. s\<lparr>sb_queue := []\<rparr>) ?b3"
  let ?as = "[Internal, Accepted sample_event, Dropped sample_event, Dispatched sample_event, Handled 0 sample_event]"
  have s1: "bus_run (New 1) ([] @ [Internal]) ?b1" by (rule bus_run.more [OF bus_run.start bus_step.subscribe])
  have s2: "bus_step ?b1 (Accepted sample_event) ?b2"
    by (rule bus_step.publish [of 9 sample_event])
       (simp add: Publish_def New_def Subscribe_def drop_id_def sample_event_def no_time_def Let_def)
  have s3: "bus_step ?b2 (Dropped sample_event) ?b2"
    by (rule bus_step.full [of 9 sample_event])
       (simp add: Publish_def New_def Subscribe_def drop_id_def sample_event_def no_time_def Let_def)
  have s4: "bus_step ?b2 (Dispatched sample_event) ?b3"
    by (rule bus_step.dispatch) (simp_all add: New_def Subscribe_def drop_id_def Let_def)
  have s5: "bus_step ?b3 (Handled 0 sample_event) ?b4"
    by (rule bus_step.work [where s = "\<lparr>sb_id = ''email'', sb_queue = [sample_event], sb_quit = False, sb_alive = True\<rparr>"])
       (simp_all add: New_def Subscribe_def drop_id_def fan_out_def offer_def upd_sub_def subscriberQueueSize_def Let_def)
  from bus_run.more [OF bus_run.more [OF bus_run.more [OF bus_run.more [OF s1 s2] s3] s4] s5]
  have r: "bus_run (New 1) ?as ?b4" by simp
  from bus_ordered_and_bounded [OF r, of 0] r show ?thesis by auto
qed

section \<open>The rate limiter\<close>

text \<open>\<^verbatim>\<open>a.Sub(b)\<close>: a duration saturates at the bounds of int64.\<close>

definition time_sub :: "int \<Rightarrow> int \<Rightarrow> int" where
  "time_sub a b = max (- (2 ^ 63)) (min (2 ^ 63 - 1) (a - b))"

record rateLimiter =
  rl_lastSent :: "int omap"
  rl_cooldown :: int
  rl_lastPrune :: int

definition NewRateLimiter :: "int \<Rightarrow> rateLimiter" where
  "NewRateLimiter cooldown = \<lparr>rl_lastSent = [], rl_cooldown = cooldown, rl_lastPrune = no_time\<rparr>"

definition pruneLocked :: "int \<Rightarrow> rateLimiter \<Rightarrow> rateLimiter" where
  "pruneLocked now r =
     (if time_sub now (rl_lastPrune r) < rl_cooldown r then r
      else r\<lparr>rl_lastPrune := now,
             rl_lastSent := filter (\<lambda>(k, v). \<not> time_sub now v \<ge> rl_cooldown r) (rl_lastSent r)\<rparr>)"

definition Allow :: "int \<Rightarrow> string \<Rightarrow> string \<Rightarrow> rateLimiter \<Rightarrow> bool \<times> rateLimiter" where
  "Allow now eventType source r0 =
     (let key = eventType @ '':'' @ source;
          r = pruneLocked now r0;
          sent = (case oget (rl_lastSent r) key of Some t \<Rightarrow> t | None \<Rightarrow> no_time)
      in if time_sub now sent < rl_cooldown r then (False, r)
         else (True, r\<lparr>rl_lastSent := oput key now (rl_lastSent r)\<rparr>))"

fun allow_run :: "(int \<times> string \<times> string) list \<Rightarrow> rateLimiter \<Rightarrow> bool list" where
  "allow_run [] r = []"
| "allow_run ((now, t, src) # qs) r =
     (case Allow now t src r of (ok, r1) \<Rightarrow> ok # allow_run qs r1)"

text \<open>The rule: per key, the time of the last notification that was sent; nothing is forgotten.\<close>

fun spaced_run :: "int \<Rightarrow> (int \<times> string \<times> string) list \<Rightarrow> (string \<Rightarrow> int) \<Rightarrow> bool list" where
  "spaced_run cooldown [] sent = []"
| "spaced_run cooldown ((now, t, src) # qs) sent =
     (let key = t @ '':'' @ src in
      if time_sub now (sent key) < cooldown then False # spaced_run cooldown qs sent
      else True # spaced_run cooldown qs (sent(key := now)))"

lemma time_sub_mono: "a \<le> a' \<Longrightarrow> time_sub a b \<le> time_sub a' b"
  by (simp add: time_sub_def)

lemma oget_filter_distinct:
  "owf m \<Longrightarrow> oget (filter (\<lambda>(k, v). P k v) m) k = (case oget m k of None \<Rightarrow> None | Some v \<Rightarrow> if P k v then Some v else None)"
proof (induction m)
  case (Cons a m)
  obtain k' v' where a: "a = (k', v')" by (cases a)
  with Cons have "k \<notin> fst ` set m" if "k = k'" using that by (auto simp: owf_Cons)
  then have "oget m k = None" if "k = k'" using that by (simp add: oget_None_notin)
  with Cons a show ?case by (auto simp: owf_Cons oget_Cons split: option.splits)
qed simp

lemma owf_filter: "owf m \<Longrightarrow> owf (filter P m)"
  by (auto simp: owf_def sorted_wrt_map intro: sorted_wrt_filter)

definition sent_rel :: "int \<Rightarrow> rateLimiter \<Rightarrow> (string \<Rightarrow> int) \<Rightarrow> bool" where
  "sent_rel now r sent \<longleftrightarrow> owf (rl_lastSent r)
     \<and> (\<forall>k t. oget (rl_lastSent r) k = Some t \<longrightarrow> sent k = t)
     \<and> (\<forall>k. oget (rl_lastSent r) k = None \<longrightarrow> rl_cooldown r \<le> time_sub now (sent k))"

lemma sent_rel_later: "sent_rel now r sent \<Longrightarrow> now \<le> now' \<Longrightarrow> sent_rel now' r sent"
  unfolding sent_rel_def using time_sub_mono [of now now'] order_trans by blast

lemma sent_rel_prune: "sent_rel now r sent \<Longrightarrow> sent_rel now (pruneLocked now r) sent \<and> rl_cooldown (pruneLocked now r) = rl_cooldown r"
  by (auto simp: sent_rel_def pruneLocked_def owf_filter oget_filter_distinct split: option.splits if_splits)

lemma allow_sim:
  assumes "sent_rel t r sent" "t \<le> now" "rl_cooldown r \<le> 2 ^ 63 - 1" "now - no_time \<ge> 2 ^ 63"
  shows "fst (Allow now ty src r) = (\<not> time_sub now (sent (ty @ '':'' @ src)) < rl_cooldown r)
    \<and> sent_rel now (snd (Allow now ty src r))
        (if time_sub now (sent (ty @ '':'' @ src)) < rl_cooldown r then sent else sent(ty @ '':'' @ src := now))
    \<and> rl_cooldown (snd (Allow now ty src r)) = rl_cooldown r"
proof -
  let ?k = "ty @ '':'' @ src" and ?r = "pruneLocked now r"
  have p: "sent_rel now ?r sent" "rl_cooldown ?r = rl_cooldown r"
    using sent_rel_prune [OF sent_rel_later [OF assms(1, 2)]] by auto
  have z: "\<not> time_sub now no_time < rl_cooldown r" using assms(3, 4) by (simp add: time_sub_def)
  have eq: "(time_sub now (case oget (rl_lastSent ?r) ?k of Some t \<Rightarrow> t | None \<Rightarrow> no_time) < rl_cooldown ?r)
      = (time_sub now (sent ?k) < rl_cooldown r)"
    using p z by (cases "oget (rl_lastSent ?r) ?k") (auto simp: sent_rel_def not_less)
  have "sent_rel now (?r\<lparr>rl_lastSent := oput ?k now (rl_lastSent ?r)\<rparr>) (sent(?k := now))"
    using p by (auto simp: sent_rel_def split: option.splits)
  with p eq show ?thesis by (simp add: Allow_def Let_def)
qed

text \<open>
  C25: forgetting is harmless.  The rate limiter, which sweeps old entries out of its map once per
  cooldown, answers every sequence of requests in time order like the rule that remembers the last
  notification of every type and source for ever.
\<close>

theorem rate_limiter_refines_rule:
  assumes "sorted (List.map fst qs)" "cooldown \<le> 2 ^ 63 - 1" "\<forall>(now, t, src) \<in> set qs. now - no_time \<ge> 2 ^ 63"
  shows "allow_run qs (NewRateLimiter cooldown) = spaced_run cooldown qs (\<lambda>k. no_time)"
proof -
  have run: "allow_run qs r = spaced_run cooldown qs sent"
    if "sent_rel t r sent" "rl_cooldown r = cooldown" "sorted (t # List.map fst qs)" "\<forall>(now, t, src) \<in> set qs. now - no_time \<ge> 2 ^ 63"
    for qs t r sent
    using that
  proof (induction qs arbitrary: t r sent)
    case (Cons q qs)
    obtain now ty src where q: "q = (now, ty, src)" by (cases q)
    obtain ok r1 where a: "Allow now ty src r = (ok, r1)" by (cases "Allow now ty src r")
    with allow_sim [OF Cons.prems(1), of now ty src] Cons.prems assms(2) q
    have s: "ok = (\<not> time_sub now (sent (ty @ '':'' @ src)) < cooldown)"
      "sent_rel now r1 (if time_sub now (sent (ty @ '':'' @ src)) < cooldown then sent else sent(ty @ '':'' @ src := now))"
      "rl_cooldown r1 = cooldown" by auto
    from Cons.IH [OF s(2, 3)] Cons.prems q a s(1) show ?case by (simp add: Let_def del: fun_upd_apply)
  qed simp
  show ?thesis
  proof (cases qs)
    case Nil
    then show ?thesis by simp
  next
    case (Cons q qs')
    have "sent_rel (fst q) (NewRateLimiter cooldown) (\<lambda>k. no_time)"
      using assms Cons by (auto simp: sent_rel_def NewRateLimiter_def time_sub_def split: prod.splits)
    from run [OF this, of qs] assms Cons show ?thesis by (simp add: NewRateLimiter_def)
  qed
qed

theorem rate_limiter_refines_rule_witness:
  "allow_run [(0, ''cpu.high'', ''host''), (5, ''cpu.high'', ''host''), (7, ''node.down'', ''host''), (12, ''cpu.high'', ''host'')]
     (NewRateLimiter 10) = [True, False, True, True]"
  by (subst rate_limiter_refines_rule) (simp_all add: time_sub_def no_time_def Let_def)

end
