(* ===== verification/TunnelMonitor.thy ===== *)
theory TunnelMonitor
  imports GoStrings Prelude
begin

text \<open>
  The optional health monitor of the tunnel (internal/tunnelmonitor/monitor.go): one step probes a URL
  and restarts Xray after repeated failures.  The probe, the recovery function and the clock are
  inputs of a step; durations and times are nanoseconds.
\<close>

section \<open>Configuration\<close>

definition secondD :: int where "secondD = 1000000000"
definition defaultHealthURL :: string where "defaultHealthURL = ''https://www.cloudflare.com/cdn-cgi/trace''"
definition defaultInterval :: int where "defaultInterval = 30 * secondD"
definition defaultTimeout :: int where "defaultTimeout = 10 * secondD"
definition defaultFailureThreshold :: int where "defaultFailureThreshold = 3"
definition defaultCooldown :: int where "defaultCooldown = 5 * 60 * secondD"

record monitor_config =
  mc_enabled :: bool
  mc_url :: string
  mc_proxyURL :: string
  mc_interval :: int
  mc_timeout :: int
  mc_failureThreshold :: int
  mc_cooldown :: int

definition DefaultConfig :: monitor_config where
  "DefaultConfig =
     \<lparr>mc_enabled = False, mc_url = defaultHealthURL, mc_proxyURL = '''', mc_interval = defaultInterval,
      mc_timeout = defaultTimeout, mc_failureThreshold = defaultFailureThreshold, mc_cooldown = defaultCooldown\<rparr>"

definition Normalize :: "monitor_config \<Rightarrow> monitor_config" where
  "Normalize c =
     \<lparr>mc_enabled = mc_enabled c,
      mc_url = trim_space (if trim_space (mc_url c) = '''' then defaultHealthURL else mc_url c),
      mc_proxyURL = trim_space (mc_proxyURL c),
      mc_interval = (if mc_interval c < secondD then defaultInterval else mc_interval c),
      mc_timeout = (if mc_timeout c < secondD then defaultTimeout else mc_timeout c),
      mc_failureThreshold = (if mc_failureThreshold c < 1 then defaultFailureThreshold else mc_failureThreshold c),
      mc_cooldown = (if mc_cooldown c < secondD then defaultCooldown else mc_cooldown c)\<rparr>"

text \<open>The parsing of the environment variables; \<open>dur\<close> is \<^verbatim>\<open>time.ParseDuration\<close>.\<close>

definition parseBool :: "string \<Rightarrow> bool" where
  "parseBool v =
     (to_lower (trim_space v) \<in> set [''1'', ''true'', ''yes'', ''y'', ''on'', ''enable'', ''enabled''])"

definition firstNonEmpty :: "string \<Rightarrow> string \<Rightarrow> string" where
  "firstNonEmpty v fallback = (if trim_space v = '''' then fallback else trim_space v)"

definition parseIntEnv :: "(string \<Rightarrow> string) \<Rightarrow> string \<Rightarrow> int \<Rightarrow> int" where
  "parseIntEnv getenv name fallback =
     (let v = trim_space (getenv name) in
      if v = '''' then fallback else (case atoi v of None \<Rightarrow> fallback | Some n \<Rightarrow> n))"

definition parseDurationEnv :: "(string \<Rightarrow> int option) \<Rightarrow> (string \<Rightarrow> string) \<Rightarrow> string \<Rightarrow> int \<Rightarrow> int" where
  "parseDurationEnv dur getenv name fallback =
     (let v = trim_space (getenv name) in
      if v = '''' then fallback else (case dur v of None \<Rightarrow> fallback | Some d \<Rightarrow> d))"

definition ConfigFromEnv :: "(string \<Rightarrow> int option) \<Rightarrow> (string \<Rightarrow> string) \<Rightarrow> monitor_config" where
  "ConfigFromEnv dur getenv =
     (let cfg = DefaultConfig in
      Normalize
        \<lparr>mc_enabled = parseBool (getenv ''XUI_TUNNEL_HEALTH_MONITOR''),
         mc_url = firstNonEmpty (getenv ''XUI_TUNNEL_HEALTH_URL'') (mc_url cfg),
         mc_proxyURL = trim_space (getenv ''XUI_TUNNEL_HEALTH_PROXY''),
         mc_interval = parseDurationEnv dur getenv ''XUI_TUNNEL_HEALTH_INTERVAL'' (mc_interval cfg),
         mc_timeout = parseDurationEnv dur getenv ''XUI_TUNNEL_HEALTH_TIMEOUT'' (mc_timeout cfg),
         mc_failureThreshold = parseIntEnv getenv ''XUI_TUNNEL_HEALTH_FAILURES'' (mc_failureThreshold cfg),
         mc_cooldown = parseDurationEnv dur getenv ''XUI_TUNNEL_HEALTH_COOLDOWN'' (mc_cooldown cfg)\<rparr>)"

section \<open>The monitor\<close>

record monitor =
  mn_cfg :: monitor_config
  mn_hasRecover :: bool
  mn_failures :: int
  mn_lastRecovery :: "int option"

definition newWithClient :: "monitor_config \<Rightarrow> bool \<Rightarrow> monitor" where
  "newWithClient cfg hasRecover =
     \<lparr>mn_cfg = Normalize cfg, mn_hasRecover = hasRecover, mn_failures = 0, mn_lastRecovery = None\<rparr>"

text \<open>The answer of the HTTP request: an error or a status code.\<close>

definition probe :: "gerr + int \<Rightarrow> unit res" where
  "probe response =
     (case response of
        Inl e \<Rightarrow> Inl e
      | Inr code \<Rightarrow>
         if code < 200 \<or> code \<ge> 400 then Inl (Errorf (''unexpected HTTP status '' @ itoa code)) else Inr ())"

definition probe_failed :: "int \<Rightarrow> int \<Rightarrow> string \<Rightarrow> gerr \<Rightarrow> gerr" where
  "probe_failed n threshold what e =
     wrapf (''probe failed '' @ itoa n @ ''/'' @ itoa threshold @ what @ '': '') e ''''"

text \<open>
  One step: the response, the time and what the recovery function would return.  The answer is
  whether Xray was restarted and the error; the last component tells whether the recovery function
  was called.
\<close>

definition Step :: "gerr + int \<Rightarrow> int \<Rightarrow> gerr option \<Rightarrow> monitor \<Rightarrow> (bool \<times> gerr option \<times> bool) \<times> monitor" where
  "Step response now recovery m =
     (case probe response of
        Inl err \<Rightarrow>
          (let m1 = m\<lparr>mn_failures := mn_failures m + 1\<rparr>; threshold = mc_failureThreshold (mn_cfg m) in
           if mn_failures m1 < threshold
           then ((False, Some (probe_failed (mn_failures m1) threshold '''' err), False), m1)
           else if (case mn_lastRecovery m of None \<Rightarrow> False | Some t \<Rightarrow> now - t < mc_cooldown (mn_cfg m))
           then ((False, Some (probe_failed threshold threshold ''; recovery cooldown active'' err), False),
                 m1\<lparr>mn_failures := threshold\<rparr>)
           else if \<not> mn_hasRecover m
           then ((False, Some (Errorf ''recovery function is not configured''), False), m1\<lparr>mn_failures := threshold\<rparr>)
           else (case recovery of
                   Some recErr \<Rightarrow>
                     ((False, Some (Wrapped [err, recErr] (''recovery failed after probe error '' @ err_text err
                          @ '': '' @ err_text recErr)), True), m1)
                 | None \<Rightarrow>
                     ((True, Some err, True), m1\<lparr>mn_lastRecovery := Some now, mn_failures := 0\<rparr>)))
      | Inr _ \<Rightarrow> ((False, None, False), m\<lparr>mn_failures := 0\<rparr>))"

text \<open>The loop of \<^verbatim>\<open>Run\<close>: a step per tick, until the context is cancelled; nothing when disabled.\<close>

type_synonym tick = "(gerr + int) \<times> int \<times> gerr option"

fun monitor_loop :: "tick list \<Rightarrow> monitor \<Rightarrow> (bool \<times> gerr option \<times> bool) list \<times> monitor" where
  "monitor_loop [] m = ([], m)"
| "monitor_loop ((response, now, recovery) # ts) m =
     (case Step response now recovery m of (a, m1) \<Rightarrow>
        (case monitor_loop ts m1 of (rest, m2) \<Rightarrow> (a # rest, m2)))"

definition Run :: "tick list \<Rightarrow> monitor \<Rightarrow> (bool \<times> gerr option \<times> bool) list \<times> monitor" where
  "Run ts m = (if \<not> mc_enabled (mn_cfg m) then ([], m) else monitor_loop ts m)"

section \<open>Facts\<close>

text \<open>
  Any configuration becomes a safe one.  Whatever the environment variables hold and however
  durations are parsed, the interval, the timeout and the cooldown are at least a second, the threshold
  is at least one and the URL is not blank.
\<close>

lemma config_from_env_safe:
  "secondD \<le> mc_interval (ConfigFromEnv dur getenv) \<and> secondD \<le> mc_timeout (ConfigFromEnv dur getenv)
   \<and> secondD \<le> mc_cooldown (ConfigFromEnv dur getenv) \<and> 1 \<le> mc_failureThreshold (ConfigFromEnv dur getenv)
   \<and> trim_space (mc_url (ConfigFromEnv dur getenv)) \<noteq> ''''"
proof -
  have "trim_space defaultHealthURL \<noteq> ''''" by code_simp
  then show ?thesis
    by (simp add: ConfigFromEnv_def Normalize_def Let_def defaultInterval_def defaultTimeout_def defaultCooldown_def
        defaultFailureThreshold_def secondD_def)
qed

text \<open>The times of the restarts along the loop.\<close>

fun restarts :: "tick list \<Rightarrow> (bool \<times> gerr option \<times> bool) list \<Rightarrow> int list" where
  "restarts ((r, now, rec) # ts) ((ok, e, called) # as) = (if ok then now # restarts ts as else restarts ts as)"
| "restarts _ _ = []"

lemma step_restart:
  "Step r now rec m = ((True, e, c), m') \<Longrightarrow>
     mn_lastRecovery m' = Some now \<and> mn_failures m' = 0 \<and> (\<forall>t. mn_lastRecovery m = Some t \<longrightarrow> mc_cooldown (mn_cfg m) \<le> now - t)
     \<and> mc_failureThreshold (mn_cfg m) \<le> mn_failures m + 1 \<and> (\<exists>err. probe r = Inl err)"
  by (auto simp: Step_def Let_def split: sum.splits option.splits if_splits)

lemma step_no_restart: "Step r now rec m = ((False, e, c), m') \<Longrightarrow> mn_lastRecovery m' = mn_lastRecovery m"
  by (auto simp: Step_def Let_def split: sum.splits option.splits if_splits)

lemma loop_spaced:
  assumes "monitor_loop ts m = (as, m')" "mc_cooldown (mn_cfg m) = cd"
  shows "successively (\<lambda>t u. cd \<le> u - t) ((case mn_lastRecovery m of None \<Rightarrow> [] | Some t \<Rightarrow> [t]) @ restarts ts as)"
  using assms
proof (induction ts arbitrary: m as m')
  case Nil
  then show ?case by (auto split: option.split)
next
  case (Cons tk ts)
  obtain r now rec where tk: "tk = (r, now, rec)" by (cases tk)
  obtain ok e c m1 where s: "Step r now rec m = ((ok, e, c), m1)" by (metis surj_pair)
  obtain rest m2 where l: "monitor_loop ts m1 = (rest, m2)" by (cases "monitor_loop ts m1")
  have as: "as = (ok, e, c) # rest" using Cons.prems(1) tk s l by simp
  have "mn_cfg m1 = mn_cfg m" using s by (auto simp: Step_def Let_def split: sum.splits option.splits if_splits)
  with Cons.IH [OF l] Cons.prems(2)
  have ih: "successively (\<lambda>t u. cd \<le> u - t) ((case mn_lastRecovery m1 of None \<Rightarrow> [] | Some t \<Rightarrow> [t]) @ restarts ts rest)" by simp
  show ?case
  proof (cases ok)
    case True
    with s have "Step r now rec m = ((True, e, c), m1)" by simp
    from step_restart [OF this] Cons.prems(2)
    have "mn_lastRecovery m1 = Some now" "\<forall>t. mn_lastRecovery m = Some t \<longrightarrow> cd \<le> now - t" by auto
    with ih True as tk show ?thesis by (auto split: option.split)
  next
    case False
    with s have "mn_lastRecovery m1 = mn_lastRecovery m" by (auto dest: step_no_restart)
    with ih False as tk show ?thesis by simp
  qed
qed

text \<open>
  C26: the monitor cannot restart Xray in a loop.  However probes, the clock and the restarts turn out,
  two successive restarts are at least the cooldown apart, and so at least a second.
\<close>

theorem restarts_spaced:
  assumes "Run ts (newWithClient cfg hasRecover) = (as, m')"
  shows "successively (\<lambda>t u. mc_cooldown (Normalize cfg) \<le> u - t \<and> secondD \<le> u - t) (restarts ts as)"
proof (cases "mc_enabled cfg")
  case False
  with assms show ?thesis by (simp add: Run_def newWithClient_def Normalize_def)
next
  case True
  with assms have "monitor_loop ts (newWithClient cfg hasRecover) = (as, m')"
    by (simp add: Run_def newWithClient_def Normalize_def)
  from loop_spaced [OF this] have "successively (\<lambda>t u. mc_cooldown (Normalize cfg) \<le> u - t) (restarts ts as)"
    by (simp add: newWithClient_def)
  moreover have "secondD \<le> mc_cooldown (Normalize cfg)" by (simp add: Normalize_def defaultCooldown_def secondD_def)
  ultimately show ?thesis by (auto elim: successively_mono)
qed

lemma loop_snoc:
  "monitor_loop (ts @ [(r, now, rec)]) m =
     (case monitor_loop ts m of (as, m1) \<Rightarrow> (case Step r now rec m1 of (a, m2) \<Rightarrow> (as @ [a], m2)))"
proof (induction ts arbitrary: m)
  case (Cons t ts)
  then show ?case by (cases t) (auto split: prod.splits)
qed (simp split: prod.split)

lemma loop_length: "length (fst (monitor_loop ts m)) = length ts"
  by (induction ts m rule: monitor_loop.induct) (auto split: prod.split)

lemma step_count:
  "Step r now rec m = ((ok, e, c), m') \<Longrightarrow>
     mn_failures m' = 0 \<or> \<not> ok \<and> (\<exists>err. probe r = Inl err) \<and> mn_failures m' \<le> mn_failures m + 1"
  by (auto simp: Step_def Let_def split: sum.splits option.splits if_splits)

definition failing_tail :: "tick list \<Rightarrow> (bool \<times> gerr option \<times> bool) list \<Rightarrow> int \<Rightarrow> bool" where
  "failing_tail ts as n \<longleftrightarrow>
     (\<exists>us vs. ts = us @ vs \<and> n \<le> int (length vs) \<and> (\<forall>(q, t, z) \<in> set vs. \<exists>err. probe q = Inl err)
        \<and> (\<forall>(ok, x, y) \<in> set (drop (length us) as). \<not> ok))"

lemma failures_counted:
  "mn_failures m0 = 0 \<Longrightarrow> monitor_loop ts m0 = (as, m) \<Longrightarrow> failing_tail ts as (mn_failures m)"
proof (induction ts arbitrary: as m rule: rev_induct)
  case Nil
  then show ?case by (simp add: failing_tail_def)
next
  case (snoc t ts)
  obtain r now rec where t: "t = (r, now, rec)" by (cases t)
  obtain as1 m1 where l: "monitor_loop ts m0 = (as1, m1)" by (cases "monitor_loop ts m0")
  obtain ok e c m2 where s: "Step r now rec m1 = ((ok, e, c), m2)" by (metis surj_pair)
  have as: "as = as1 @ [(ok, e, c)]" "m = m2" using snoc.prems(2) t l s by (simp_all add: loop_snoc)
  have len: "length as1 = length ts" using loop_length [of ts m0] l by simp
  from step_count [OF s] show ?case
  proof
    assume "mn_failures m2 = 0"
    then show ?thesis unfolding failing_tail_def using as len
      by (intro exI [of _ "ts @ [t]"] exI [of _ "[]"]) simp
  next
    assume f: "\<not> ok \<and> (\<exists>err. probe r = Inl err) \<and> mn_failures m2 \<le> mn_failures m1 + 1"
    from snoc.IH [OF snoc.prems(1) l] obtain us vs where u: "ts = us @ vs" "mn_failures m1 \<le> int (length vs)"
      "\<forall>(q, t, z) \<in> set vs. \<exists>err. probe q = Inl err" "\<forall>(ok, x, y) \<in> set (drop (length us) as1). \<not> ok"
      by (auto simp: failing_tail_def)
    with f as t len show ?thesis unfolding failing_tail_def
      by (intro exI [of _ us] exI [of _ "vs @ [t]"]) auto
  qed
qed

lemma loop_cfg: "monitor_loop ts m = (as, m') \<Longrightarrow> mn_cfg m' = mn_cfg m"
proof (induction ts arbitrary: m as m')
  case (Cons t ts)
  obtain r now rec where t: "t = (r, now, rec)" by (cases t)
  obtain a m1 where s: "Step r now rec m = (a, m1)" by (cases "Step r now rec m")
  then have "mn_cfg m1 = mn_cfg m" by (auto simp: Step_def Let_def split: sum.splits option.splits if_splits)
  with Cons t s show ?case by (auto split: prod.splits)
qed simp

text \<open>
  A restart takes a run of failures.  When a step restarts Xray, its probe failed and so did at least
  threshold minus one probes just before it, with neither a good probe nor a restart in between; a good
  probe, and a restart, start the count again.
\<close>

theorem restart_needs_failures:
  assumes "monitor_loop ts (newWithClient cfg hasRecover) = (as, m)"
    and "Step r now rec m = ((True, e, c), m')"
  shows "\<exists>us vs. ts = us @ vs \<and> mc_failureThreshold (Normalize cfg) \<le> int (length vs) + 1
    \<and> (\<forall>(q, t, z) \<in> set vs. \<exists>err. probe q = Inl err) \<and> (\<exists>err. probe r = Inl err)
    \<and> (\<forall>(ok, x, y) \<in> set (drop (length us) as). \<not> ok)"
proof -
  have "failing_tail ts as (mn_failures m)"
    by (rule failures_counted [OF _ assms(1)]) (simp add: newWithClient_def)
  moreover have "mc_failureThreshold (Normalize cfg) \<le> mn_failures m + 1" "\<exists>err. probe r = Inl err"
    using step_restart [OF assms(2)] loop_cfg [OF assms(1)] by (auto simp: newWithClient_def)
  ultimately show ?thesis unfolding failing_tail_def by fastforce
qed

definition down :: "gerr + int" where "down = Inl (Errorf ''timeout'')"

definition sample_ticks :: "tick list" where
  "sample_ticks = [(down, 0, None), (Inr 500, 30 * secondD, None), (down, 60 * secondD, None), (down, 90 * secondD, None),
     (down, 120 * secondD, None), (down, 150 * secondD, None), (down, 400 * secondD, None)]"

lemma sample_restarts:
  "\<exists>as m'. Run sample_ticks (newWithClient (DefaultConfig\<lparr>mc_enabled := True\<rparr>) True) = (as, m')
     \<and> restarts sample_ticks as = [60 * secondD, 400 * secondD]"
  by (simp add: Run_def newWithClient_def Normalize_def DefaultConfig_def sample_ticks_def Step_def probe_def down_def
      defaultFailureThreshold_def defaultCooldown_def secondD_def defaultInterval_def defaultTimeout_def Let_def)

theorem restarts_spaced_witness:
  "\<exists>as m'. Run sample_ticks (newWithClient (DefaultConfig\<lparr>mc_enabled := True\<rparr>) True) = (as, m')
     \<and> restarts sample_ticks as = [60 * secondD, 400 * secondD]
     \<and> successively (\<lambda>t u. mc_cooldown (Normalize (DefaultConfig\<lparr>mc_enabled := True\<rparr>)) \<le> u - t \<and> secondD \<le> u - t) (restarts sample_ticks as)"
proof -
  from sample_restarts obtain as m' where r: "Run sample_ticks (newWithClient (DefaultConfig\<lparr>mc_enabled := True\<rparr>) True) = (as, m')"
    "restarts sample_ticks as = [60 * secondD, 400 * secondD]" by blast
  from restarts_spaced [OF r(1)] r show ?thesis by blast
qed

theorem restart_needs_failures_witness:
  "\<exists>as m m' e. monitor_loop [(Inr 200, 0, None), (down, 1, None), (down, 2, None)] (newWithClient DefaultConfig True) = (as, m)
     \<and> Step down 3 None m = ((True, e, True), m')
     \<and> (\<exists>us vs. [(Inr 200, 0, None), (down, 1, None), (down, 2, None)] = us @ (vs :: tick list) \<and> 3 \<le> int (length vs) + 1)"
proof -
  have "\<exists>as m m' e. monitor_loop [(Inr 200, 0, None), (down, 1, None), (down, 2, None)] (newWithClient DefaultConfig True) = (as, m)
     \<and> Step down 3 None m = ((True, e, True), m')"
    by (simp add: newWithClient_def Normalize_def DefaultConfig_def Step_def probe_def down_def
      defaultFailureThreshold_def defaultCooldown_def secondD_def defaultInterval_def defaultTimeout_def Let_def)
  then obtain as m m' e where r: "monitor_loop [(Inr 200, 0, None), (down, 1, None), (down, 2, None)] (newWithClient DefaultConfig True) = (as, m)"
     "Step down 3 None m = ((True, e, True), m')" by blast
  have "mc_failureThreshold (Normalize DefaultConfig) = 3"
    by (simp add: Normalize_def DefaultConfig_def defaultFailureThreshold_def)
  with restart_needs_failures [OF r] r show ?thesis by fastforce
qed

end
