(* ===== verification/JsonDecode.thy ===== *)
theory JsonDecode
  imports JsonWf
begin

text \<open>
  More of \<^verbatim>\<open>encoding/json\<close>: \<^verbatim>\<open>json.NewDecoder(r).Decode\<close>, which reads the first value of a text and
  ignores what follows it, and \<^verbatim>\<open>json.Unmarshal\<close> into structs and into \<^verbatim>\<open>[]json.RawMessage\<close>.  A struct
  field takes every member whose key matches its name up to case, in the order of the text, so that
  the last one wins; null leaves it as it is; a value of the wrong kind fails the decoding.  Values
  inside the members have sorted keys here.
\<close>

section \<open>Decoder.Decode\<close>

definition decode_value :: "string \<Rightarrow> json option" where
  "decode_value raw = map_option fst (p_value (Suc (length raw)) raw)"

lemma decode_value_wf: "decode_value raw = Some v \<Longrightarrow> wf_json v"
  by (auto simp: decode_value_def simp del: p_value.simps dest: p_value_wf(1))

text \<open>Printing tells values apart.\<close>

lemma json_marshal_inj: "wf_json v \<Longrightarrow> wf_json w \<Longrightarrow> json_marshal v = json_marshal w \<Longrightarrow> v = w"
  by (metis json_parse_marshal option.inject)

lemma json_marshal_nonempty: "wf_json v \<Longrightarrow> json_marshal v \<noteq> ''''"
  by (metis json_marshal_def jpr_hd list.distinct(1))

lemma decode_marshal: "wf_json v \<Longrightarrow> decode_value (json_marshal v) = Some v"
  using json_parse_marshal [of v] by (auto simp: json_parse_def decode_value_def simp del: p_value.simps split: option.splits if_splits)

section \<open>Fields of a struct\<close>

text \<open>The case folding of field names: ASCII, and the two runes that fold to ASCII letters.\<close>

fun fold_name :: "string \<Rightarrow> string" where
  "fold_name (a # b # c # s) =
     (if [a, b, c] = [CHR 0xE2, CHR 0x84, CHR 0xAA] then CHR ''k'' # fold_name s
      else if [a, b] = [CHR 0xC5, CHR 0xBF] then CHR ''s'' # fold_name (c # s)
      else lower_char a # fold_name (b # c # s))"
| "fold_name [a, b] = (if [a, b] = [CHR 0xC5, CHR 0xBF] then ''s'' else [lower_char a, lower_char b])"
| "fold_name [a] = [lower_char a]"
| "fold_name [] = []"

definition field_is :: "string \<Rightarrow> string \<Rightarrow> bool" where
  "field_is name key \<longleftrightarrow> fold_name key = fold_name name"

text \<open>The members of the object a text consists of, in the order of the text.\<close>

definition text_members :: "string \<Rightarrow> (string \<times> json) list option" where
  "text_members raw =
     (case json_parse raw of
        Some JNull \<Rightarrow> Some []
      | Some (JObj _) \<Rightarrow>
         (let inner = tl (skip_ws raw) in
          if hd (skip_ws inner) = CHR ''}'' then Some [] else map_option fst (p_members (length raw) inner))
      | _ \<Rightarrow> None)"

definition string_field_step :: "string \<Rightarrow> string \<times> json \<Rightarrow> string option \<Rightarrow> string option" where
  "string_field_step name kv acc =
     (if field_is name (fst kv)
      then (case snd kv of JStr s \<Rightarrow> (if acc = None then None else Some s) | JNull \<Rightarrow> acc | _ \<Rightarrow> None)
      else acc)"

text \<open>\<^verbatim>\<open>var x struct { F string }; err := json.Unmarshal(raw, &x)\<close>: the field, None on an error.\<close>

definition unmarshal_string_field :: "string \<Rightarrow> string \<Rightarrow> string option" where
  "unmarshal_string_field name raw =
     (case text_members raw of
        None \<Rightarrow> None
      | Some ms \<Rightarrow> fold (string_field_step name) ms (Some ''''))"

section \<open>Arrays of raw messages\<close>

text \<open>The texts of the elements after the opening bracket.\<close>

fun raw_elems :: "nat \<Rightarrow> string \<Rightarrow> (string list \<times> string) option" where
  "raw_elems 0 s = None"
| "raw_elems (Suc n) s =
     (let t = skip_ws s in
      case p_value (Suc (length t)) t of
        None \<Rightarrow> None
      | Some (v, r) \<Rightarrow>
         (let elem = take (length t - length r) t in
          case skip_ws r of
            [] \<Rightarrow> None
          | d # ds \<Rightarrow>
             if d = CHR '','' then pre [elem] (raw_elems n ds)
             else if d = CHR '']'' then Some ([elem], ds)
             else None))"

definition unmarshal_raw_array :: "string \<Rightarrow> string list option" where
  "unmarshal_raw_array raw =
     (case json_parse raw of
        Some JNull \<Rightarrow> Some []
      | Some (JArr []) \<Rightarrow> Some []
      | Some (JArr _) \<Rightarrow> map_option fst (raw_elems (length raw) (tl (skip_ws raw)))
      | _ \<Rightarrow> None)"

end
