(* ===== verification/HotDiff.thy ===== *)
theory HotDiff
  imports JsonDecode "HOL-Library.Multiset"
begin

text \<open>
  Changing the configuration of a running Xray without a restart (internal/xray/hot\_diff.go).
  \<open>ComputeHotDiff\<close> compares two generated configurations and returns the calls of Xray's API that lead
  from one to the other, or nothing when only a restart can.  Raw JSON sections are texts, as in the
  code; Go's random order over the clients of an inbound is a parameter \<open>order\<close>.  An added inbound is
  kept as the struct that \<^verbatim>\<open>json.Marshal\<close> turns into the request.
\<close>

section \<open>Configurations\<close>

record inbound_config =
  ic_listen :: string
  ic_port :: int
  ic_protocol :: string
  ic_settings :: string
  ic_stream :: string
  ic_tag :: string
  ic_sniffing :: string

record xconfig =
  cf_log :: string
  cf_routing :: string
  cf_dns :: string
  cf_inbounds :: "inbound_config list"
  cf_outbounds :: string
  cf_transport :: string
  cf_policy :: string
  cf_api :: string
  cf_stats :: string
  cf_reverse :: string
  cf_fakedns :: string
  cf_observatory :: string
  cf_burstObservatory :: string
  cf_metrics :: string
  cf_geodata :: string
  cf_env :: string

record user_op =
  uo_tag :: string
  uo_protocol :: string
  uo_email :: string
  uo_user :: "json omap option"

record hot_diff =
  hd_removedInboundTags :: "string list"
  hd_addedInbounds :: "inbound_config list"
  hd_removedUsers :: "user_op list"
  hd_addedUsers :: "user_op list"
  hd_removedOutboundTags :: "string list"
  hd_addedOutbounds :: "string list"
  hd_routing :: "string option"

definition no_diff :: hot_diff where
  "no_diff = \<lparr>hd_removedInboundTags = [], hd_addedInbounds = [], hd_removedUsers = [], hd_addedUsers = [],
     hd_removedOutboundTags = [], hd_addedOutbounds = [], hd_routing = None\<rparr>"

definition diff_Empty :: "hot_diff \<Rightarrow> bool" where
  "diff_Empty d \<longleftrightarrow>
     hd_removedInboundTags d = [] \<and> hd_addedInbounds d = [] \<and> hd_removedUsers d = [] \<and> hd_addedUsers d = []
     \<and> hd_removedOutboundTags d = [] \<and> hd_addedOutbounds d = [] \<and> hd_routing d = None"

section \<open>Comparing raw JSON\<close>

definition canonicalJSON :: "string \<Rightarrow> string option" where
  "canonicalJSON raw =
     (if raw = '''' then Some ''''
      else (case decode_value raw of
              None \<Rightarrow> None
            | Some JNull \<Rightarrow> Some ''''
            | Some v \<Rightarrow> Some (json_marshal v)))"

definition rawEqualNormalized :: "string \<Rightarrow> string \<Rightarrow> bool" where
  "rawEqualNormalized a b =
     (if a = b then True
      else (case canonicalJSON a of
              None \<Rightarrow> False
            | Some na \<Rightarrow> (case canonicalJSON b of None \<Rightarrow> False | Some nb \<Rightarrow> na = nb)))"

definition inboundEqualNormalized :: "inbound_config \<Rightarrow> inbound_config \<Rightarrow> bool" where
  "inboundEqualNormalized a b \<longleftrightarrow>
     ic_port a = ic_port b \<and> ic_protocol a = ic_protocol b \<and> ic_tag a = ic_tag b
     \<and> rawEqualNormalized (ic_listen a) (ic_listen b)
     \<and> rawEqualNormalized (ic_settings a) (ic_settings b)
     \<and> rawEqualNormalized (ic_stream a) (ic_stream b)
     \<and> rawEqualNormalized (ic_sniffing a) (ic_sniffing b)"

text \<open>\<^verbatim>\<open>json.Marshal\<close> of an inbound fails when a raw section that is written is not valid JSON.\<close>

definition marshal_ok :: "inbound_config \<Rightarrow> bool" where
  "marshal_ok ib \<longleftrightarrow>
     list_all (\<lambda>raw. raw = '''' \<or> json_parse raw \<noteq> None)
       [ic_listen ib, ic_settings ib, ic_stream ib, ic_sniffing ib]"

section \<open>Inbounds\<close>

text \<open>The loop of \<open>inboundsByTag\<close>.\<close>

fun index_inbounds :: "inbound_config list \<Rightarrow> inbound_config omap \<Rightarrow> inbound_config omap option" where
  "index_inbounds [] byTag = Some byTag"
| "index_inbounds (ib # ibs) byTag =
     (if ic_tag ib = '''' then None
      else if oget byTag (ic_tag ib) \<noteq> None then None
      else index_inbounds ibs (oput (ic_tag ib) ib byTag))"

definition inboundsByTag :: "inbound_config list \<Rightarrow> inbound_config omap option" where
  "inboundsByTag inbounds = index_inbounds inbounds []"

definition apiTagFromConfig :: "string \<Rightarrow> string" where
  "apiTagFromConfig api =
     (if api \<noteq> '''' then
        (case unmarshal_string_field ''tag'' api of
           Some t \<Rightarrow> if t \<noteq> '''' then t else ''api''
         | None \<Rightarrow> ''api'')
      else ''api'')"

definition inboundUsesReality :: "inbound_config \<Rightarrow> bool" where
  "inboundUsesReality ib \<longleftrightarrow>
     ic_stream ib \<noteq> '''' \<and> unmarshal_string_field ''security'' (ic_stream ib) = Some ''reality''"

text \<open>The last member of a decoded object for a field of raw JSON.\<close>

definition raw_field :: "string \<Rightarrow> (string \<times> json) list \<Rightarrow> json option" where
  "raw_field name ms = map_option snd (find (\<lambda>p. field_is name (fst p)) (rev ms))"

text \<open>Whether one decoded element of \<^verbatim>\<open>clients\<close> has a value under \<^verbatim>\<open>reverse\<close>; None if it is no struct.\<close>

definition client_reverse :: "json \<Rightarrow> bool option" where
  "client_reverse c =
     (case c of
        JNull \<Rightarrow> Some False
      | JObj ms \<Rightarrow> Some (case raw_field ''reverse'' ms of None \<Rightarrow> False | Some JNull \<Rightarrow> False | Some _ \<Rightarrow> True)
      | _ \<Rightarrow> None)"

definition clients_decode :: "json \<Rightarrow> bool" where
  "clients_decode v =
     (case v of JNull \<Rightarrow> True | JArr cs \<Rightarrow> list_all (\<lambda>c. client_reverse c \<noteq> None) cs | _ \<Rightarrow> False)"

definition inboundHasReverseClient :: "inbound_config \<Rightarrow> bool" where
  "inboundHasReverseClient ib =
     (case text_members (ic_settings ib) of
        None \<Rightarrow> False
      | Some ms \<Rightarrow>
         list_all (\<lambda>p. field_is ''clients'' (fst p) \<longrightarrow> clients_decode (snd p)) ms
         \<and> (case raw_field ''clients'' ms of
              Some (JArr cs) \<Rightarrow> list_ex (\<lambda>c. client_reverse c = Some True) cs
            | _ \<Rightarrow> False))"

subsection \<open>Users\<close>

record client_entry =
  ce_user :: "json omap"
  ce_norm :: string

text \<open>The loop of \<open>splitSettingsClients\<close> over the clients.\<close>

fun index_clients :: "json list \<Rightarrow> client_entry omap \<Rightarrow> client_entry omap option" where
  "index_clients [] clients = Some clients"
| "index_clients (c # cs) clients =
     (case c of
        JObj obj \<Rightarrow>
          (let email = (case oget obj ''email'' of Some (JStr e) \<Rightarrow> e | _ \<Rightarrow> '''') in
           if email = '''' then None
           else if oget clients email \<noteq> None then None
           else index_clients cs (oput email \<lparr>ce_user = obj, ce_norm = json_marshal (JObj obj)\<rparr> clients))
      | _ \<Rightarrow> None)"

definition splitSettingsClients :: "string \<Rightarrow> (client_entry omap \<times> string) option" where
  "splitSettingsClients raw =
     (if raw = '''' then None
      else (case decode_value raw of
              Some (JObj settings) \<Rightarrow>
                (case oget settings ''clients'' of
                   Some (JArr cs) \<Rightarrow>
                     (case index_clients cs [] of
                        None \<Rightarrow> None
                      | Some clients \<Rightarrow> Some (clients, json_marshal (JObj (odel ''clients'' settings))))
                 | _ \<Rightarrow> None)
            | _ \<Rightarrow> None))"

definition userDiffableProtocols :: "string set" where
  "userDiffableProtocols = {''vless'', ''vmess'', ''trojan''}"

text \<open>The two loops over the clients; each sees the entries of its map in some order.\<close>

fun old_users :: "inbound_config \<Rightarrow> client_entry omap \<Rightarrow> (string \<times> client_entry) list \<Rightarrow> hot_diff \<Rightarrow> hot_diff" where
  "old_users ib newClients [] d = d"
| "old_users ib newClients ((email, oldC) # es) d =
     (let drop = \<lparr>uo_tag = ic_tag ib, uo_protocol = ic_protocol ib, uo_email = email, uo_user = None\<rparr> in
      case oget newClients email of
        Some newC \<Rightarrow>
          if ce_norm oldC = ce_norm newC then old_users ib newClients es d
          else old_users ib newClients es
                 (d\<lparr>hd_removedUsers := hd_removedUsers d @ [drop],
                    hd_addedUsers := hd_addedUsers d @ [drop\<lparr>uo_user := Some (ce_user newC)\<rparr>]\<rparr>)
      | None \<Rightarrow> old_users ib newClients es (d\<lparr>hd_removedUsers := hd_removedUsers d @ [drop]\<rparr>))"

fun new_users :: "inbound_config \<Rightarrow> client_entry omap \<Rightarrow> (string \<times> client_entry) list \<Rightarrow> hot_diff \<Rightarrow> hot_diff" where
  "new_users ib oldClients [] d = d"
| "new_users ib oldClients ((email, newC) # es) d =
     (if oget oldClients email = None
      then new_users ib oldClients es
             (d\<lparr>hd_addedUsers := hd_addedUsers d
                  @ [\<lparr>uo_tag = ic_tag ib, uo_protocol = ic_protocol ib, uo_email = email, uo_user = Some (ce_user newC)\<rparr>]\<rparr>)
      else new_users ib oldClients es d)"

type_synonym client_order = "string \<Rightarrow> bool \<Rightarrow> (string \<times> client_entry) list \<Rightarrow> (string \<times> client_entry) list"

definition diffInboundUsers :: "client_order \<Rightarrow> inbound_config \<Rightarrow> inbound_config \<Rightarrow> hot_diff \<Rightarrow> hot_diff option" where
  "diffInboundUsers order oldIb newIb d =
     (if ic_port oldIb \<noteq> ic_port newIb \<or> ic_protocol oldIb \<noteq> ic_protocol newIb \<or> ic_tag oldIb \<noteq> ic_tag newIb then None
      else if ic_protocol oldIb \<notin> userDiffableProtocols then None
      else if \<not> rawEqualNormalized (ic_listen oldIb) (ic_listen newIb)
           \<or> \<not> rawEqualNormalized (ic_stream oldIb) (ic_stream newIb)
           \<or> \<not> rawEqualNormalized (ic_sniffing oldIb) (ic_sniffing newIb) then None
      else (case splitSettingsClients (ic_settings oldIb) of
              None \<Rightarrow> None
            | Some (oldClients, oldRest) \<Rightarrow>
               (case splitSettingsClients (ic_settings newIb) of
                  None \<Rightarrow> None
                | Some (newClients, newRest) \<Rightarrow>
                   if oldRest \<noteq> newRest then None
                   else Some (new_users oldIb oldClients (order (ic_tag oldIb) True newClients)
                                (old_users oldIb newClients (order (ic_tag oldIb) False oldClients) d)))))"

subsection \<open>The two loops of \<open>diffInbounds\<close>\<close>

definition is_api_tag :: "string \<Rightarrow> string \<Rightarrow> bool" where
  "is_api_tag apiTag tag \<longleftrightarrow> tag = apiTag \<or> tag = ''api''"

definition replace_inbound :: "inbound_config \<Rightarrow> inbound_config option \<Rightarrow> hot_diff \<Rightarrow> hot_diff option" where
  "replace_inbound oldIb new d =
     (let d1 = d\<lparr>hd_removedInboundTags := hd_removedInboundTags d @ [ic_tag oldIb]\<rparr> in
      case new of
        None \<Rightarrow> Some d1
      | Some newIb \<Rightarrow>
         if marshal_ok newIb then Some (d1\<lparr>hd_addedInbounds := hd_addedInbounds d1 @ [newIb]\<rparr>) else None)"

definition old_inbound :: "client_order \<Rightarrow> string \<Rightarrow> inbound_config omap \<Rightarrow> inbound_config \<Rightarrow> hot_diff \<Rightarrow> hot_diff option" where
  "old_inbound order apiTag newByTag oldIb d =
     (case oget newByTag (ic_tag oldIb) of
        None \<Rightarrow> if is_api_tag apiTag (ic_tag oldIb) then None else replace_inbound oldIb None d
      | Some newIb \<Rightarrow>
         if inboundEqualNormalized oldIb newIb then Some d
         else if is_api_tag apiTag (ic_tag oldIb) then None
         else if inboundHasReverseClient oldIb \<or> inboundHasReverseClient newIb then None
         else (case diffInboundUsers order oldIb newIb d of
                 Some d' \<Rightarrow> Some d'
               | None \<Rightarrow>
                  if inboundUsesReality oldIb \<or> inboundUsesReality newIb then None
                  else replace_inbound oldIb (Some newIb) d))"

fun old_inbounds :: "client_order \<Rightarrow> string \<Rightarrow> inbound_config omap \<Rightarrow> inbound_config list \<Rightarrow> hot_diff \<Rightarrow> hot_diff option" where
  "old_inbounds order apiTag newByTag [] d = Some d"
| "old_inbounds order apiTag newByTag (ib # ibs) d =
     (case old_inbound order apiTag newByTag ib d of
        None \<Rightarrow> None
      | Some d' \<Rightarrow> old_inbounds order apiTag newByTag ibs d')"

fun new_inbounds :: "string \<Rightarrow> inbound_config omap \<Rightarrow> inbound_config list \<Rightarrow> hot_diff \<Rightarrow> hot_diff option" where
  "new_inbounds apiTag oldByTag [] d = Some d"
| "new_inbounds apiTag oldByTag (ib # ibs) d =
     (if oget oldByTag (ic_tag ib) \<noteq> None then new_inbounds apiTag oldByTag ibs d
      else if is_api_tag apiTag (ic_tag ib) then None
      else if marshal_ok ib
      then new_inbounds apiTag oldByTag ibs (d\<lparr>hd_addedInbounds := hd_addedInbounds d @ [ib]\<rparr>)
      else None)"

definition diffInbounds :: "client_order \<Rightarrow> xconfig \<Rightarrow> xconfig \<Rightarrow> hot_diff \<Rightarrow> hot_diff option" where
  "diffInbounds order oldCfg newCfg d =
     (case inboundsByTag (cf_inbounds oldCfg) of
        None \<Rightarrow> None
      | Some oldByTag \<Rightarrow>
         (case inboundsByTag (cf_inbounds newCfg) of
            None \<Rightarrow> None
          | Some newByTag \<Rightarrow>
             (let apiTag = apiTagFromConfig (cf_api newCfg) in
              case old_inbounds order apiTag newByTag (cf_inbounds oldCfg) d of
                None \<Rightarrow> None
              | Some d' \<Rightarrow> new_inbounds apiTag oldByTag (cf_inbounds newCfg) d')))"

section \<open>Outbounds\<close>

record outbound_entry =
  oe_tag :: string
  oe_raw :: string
  oe_norm :: string

text \<open>The loop of \<open>parseOutbounds\<close>: \<open>seen\<close> are the tags before.\<close>

fun outbound_entries :: "string list \<Rightarrow> string list \<Rightarrow> outbound_entry list option" where
  "outbound_entries seen [] = Some []"
| "outbound_entries seen (elem # elems) =
     (case unmarshal_string_field ''tag'' elem of
        None \<Rightarrow> None
      | Some tag \<Rightarrow>
         if tag = '''' then None
         else if tag \<in> set seen then None
         else (case canonicalJSON elem of
                 None \<Rightarrow> None
               | Some norm \<Rightarrow>
                  (case outbound_entries (tag # seen) elems of
                     None \<Rightarrow> None
                   | Some es \<Rightarrow> Some (\<lparr>oe_tag = tag, oe_raw = elem, oe_norm = norm\<rparr> # es))))"

definition parseOutbounds :: "string \<Rightarrow> outbound_entry list option" where
  "parseOutbounds raw =
     (if raw = '''' then Some []
      else (case unmarshal_raw_array raw of None \<Rightarrow> None | Some elems \<Rightarrow> outbound_entries [] elems))"

definition entries_by_tag :: "outbound_entry list \<Rightarrow> outbound_entry omap" where
  "entries_by_tag es = fold (\<lambda>e m. oput (oe_tag e) e m) es []"

fun old_outbounds :: "outbound_entry omap \<Rightarrow> outbound_entry list \<Rightarrow> hot_diff \<Rightarrow> hot_diff" where
  "old_outbounds newByTag [] d = d"
| "old_outbounds newByTag (e # es) d =
     (case oget newByTag (oe_tag e) of
        Some newE \<Rightarrow>
          if oe_norm e = oe_norm newE then old_outbounds newByTag es d
          else old_outbounds newByTag es
                 (d\<lparr>hd_removedOutboundTags := hd_removedOutboundTags d @ [oe_tag e],
                    hd_addedOutbounds := hd_addedOutbounds d @ [oe_raw newE]\<rparr>)
      | None \<Rightarrow> old_outbounds newByTag es (d\<lparr>hd_removedOutboundTags := hd_removedOutboundTags d @ [oe_tag e]\<rparr>))"

fun new_outbounds :: "outbound_entry omap \<Rightarrow> outbound_entry list \<Rightarrow> hot_diff \<Rightarrow> hot_diff" where
  "new_outbounds oldByTag [] d = d"
| "new_outbounds oldByTag (e # es) d =
     new_outbounds oldByTag es
       (if oget oldByTag (oe_tag e) = None then d\<lparr>hd_addedOutbounds := hd_addedOutbounds d @ [oe_raw e]\<rparr> else d)"

text \<open>The first outbound is Xray's default; it must stay.\<close>

definition same_default :: "outbound_entry list \<Rightarrow> outbound_entry list \<Rightarrow> bool" where
  "same_default oldOut newOut =
     (case (oldOut, newOut) of
        ([], []) \<Rightarrow> True
      | (o1 # _, n1 # _) \<Rightarrow> oe_tag o1 = oe_tag n1 \<and> oe_norm o1 = oe_norm n1
      | _ \<Rightarrow> False)"

definition diffOutbounds :: "xconfig \<Rightarrow> xconfig \<Rightarrow> hot_diff \<Rightarrow> hot_diff option" where
  "diffOutbounds oldCfg newCfg d =
     (case parseOutbounds (cf_outbounds oldCfg) of
        None \<Rightarrow> None
      | Some oldOut \<Rightarrow>
         (case parseOutbounds (cf_outbounds newCfg) of
            None \<Rightarrow> None
          | Some newOut \<Rightarrow>
             if \<not> same_default oldOut newOut then None
             else Some (new_outbounds (entries_by_tag oldOut) newOut
                          (old_outbounds (entries_by_tag newOut) oldOut d))))"

section \<open>Routing\<close>

definition routingWithoutReloadable :: "string \<Rightarrow> string option" where
  "routingWithoutReloadable raw =
     (if raw = '''' then Some (json_marshal (JObj []))
      else (case decode_value raw of
              Some (JObj parsed) \<Rightarrow> Some (json_marshal (JObj (odel ''balancers'' (odel ''rules'' parsed))))
            | Some JNull \<Rightarrow> Some (json_marshal JNull)
            | _ \<Rightarrow> None))"

definition diffRouting :: "xconfig \<Rightarrow> xconfig \<Rightarrow> hot_diff \<Rightarrow> hot_diff option" where
  "diffRouting oldCfg newCfg d =
     (if cf_routing oldCfg = cf_routing newCfg then Some d
      else if cf_routing oldCfg = '''' \<or> cf_routing newCfg = '''' then None
      else (case routingWithoutReloadable (cf_routing oldCfg) of
              None \<Rightarrow> None
            | Some oldRest \<Rightarrow>
               (case routingWithoutReloadable (cf_routing newCfg) of
                  None \<Rightarrow> None
                | Some newRest \<Rightarrow>
                   if oldRest \<noteq> newRest then None else Some (d\<lparr>hd_routing := Some (cf_routing newCfg)\<rparr>))))"

section \<open>The whole\<close>

definition static_sections :: "xconfig \<Rightarrow> string list" where
  "static_sections c =
     [cf_log c, cf_dns c, cf_transport c, cf_policy c, cf_api c, cf_stats c, cf_reverse c, cf_fakedns c,
      cf_observatory c, cf_burstObservatory c, cf_metrics c, cf_geodata c, cf_env c]"

definition ComputeHotDiff :: "client_order \<Rightarrow> xconfig option \<Rightarrow> xconfig option \<Rightarrow> hot_diff option" where
  "ComputeHotDiff order oldCfg newCfg =
     (case (oldCfg, newCfg) of
        (Some old, Some new) \<Rightarrow>
          if \<not> list_all2 rawEqualNormalized (static_sections old) (static_sections new) then None
          else (case diffInbounds order old new no_diff of
                  None \<Rightarrow> None
                | Some d1 \<Rightarrow>
                   (case diffOutbounds old new d1 of
                      None \<Rightarrow> None
                    | Some d2 \<Rightarrow> diffRouting old new d2))
      | _ \<Rightarrow> None)"

end
