(* ===== verification/HotDiffFacts.thy ===== *)
theory HotDiffFacts
  imports HotDiff
begin

text \<open>
  What the difference of two configurations achieves.  \<open>core\<close> is the abstract state of a running Xray
  as far as configurations determine it: the handlers by tag, their users by email, the outbounds by
  tag, the default outbound and the routing section.  Applying the operations of a difference to the
  state of the old configuration gives the state of the new one.
\<close>

section \<open>The abstract core\<close>

text \<open>A raw section up to formatting: its canonical text, or the text itself when it is not JSON.\<close>

definition normal :: "string \<Rightarrow> string + string" where
  "normal raw = (case canonicalJSON raw of Some c \<Rightarrow> Inr c | None \<Rightarrow> Inl raw)"

datatype core_settings = Whole "string + string" | Without_clients string

record core_inbound =
  ci_port :: int
  ci_protocol :: string
  ci_listen :: "string + string"
  ci_stream :: "string + string"
  ci_sniffing :: "string + string"
  ci_settings :: core_settings
  ci_users :: "string \<Rightarrow> string option"

record core =
  co_inbounds :: "string \<Rightarrow> core_inbound option"
  co_outbounds :: "string \<Rightarrow> string option"
  co_default :: "string option"
  co_routing :: "string option \<times> json option \<times> json option"
  co_static :: "(string + string) list"

definition split_clients :: "inbound_config \<Rightarrow> (client_entry omap \<times> string) option" where
  "split_clients ib =
     (if ic_protocol ib \<in> userDiffableProtocols then splitSettingsClients (ic_settings ib) else None)"

definition core_inbound :: "inbound_config \<Rightarrow> core_inbound" where
  "core_inbound ib =
     \<lparr>ci_port = ic_port ib, ci_protocol = ic_protocol ib, ci_listen = normal (ic_listen ib),
      ci_stream = normal (ic_stream ib), ci_sniffing = normal (ic_sniffing ib),
      ci_settings = (case split_clients ib of None \<Rightarrow> Whole (normal (ic_settings ib)) | Some (cl, rest) \<Rightarrow> Without_clients rest),
      ci_users = (case split_clients ib of None \<Rightarrow> (\<lambda>e. None) | Some (cl, rest) \<Rightarrow> (\<lambda>e. map_option ce_norm (oget cl e)))\<rparr>"

definition inbounds_of :: "inbound_config list \<Rightarrow> string \<Rightarrow> core_inbound option" where
  "inbounds_of ibs tag = map_option core_inbound (find (\<lambda>ib. ic_tag ib = tag) ibs)"

definition outbounds_of :: "outbound_entry list \<Rightarrow> string \<Rightarrow> string option" where
  "outbounds_of es tag = map_option oe_norm (find (\<lambda>e. oe_tag e = tag) es)"

text \<open>The routing section: what only a start can set, the rules and the balancers.\<close>

definition routing_of :: "string \<Rightarrow> string option \<times> json option \<times> json option" where
  "routing_of raw =
     (let m = (case decode_value raw of Some (JObj m) \<Rightarrow> m | _ \<Rightarrow> []) in
      (routingWithoutReloadable raw, oget m ''rules'', oget m ''balancers''))"

definition core_of :: "xconfig \<Rightarrow> core" where
  "core_of c =
     (let outs = (case parseOutbounds (cf_outbounds c) of None \<Rightarrow> [] | Some es \<Rightarrow> es) in
      \<lparr>co_inbounds = inbounds_of (cf_inbounds c), co_outbounds = outbounds_of outs,
       co_default = (case outs of [] \<Rightarrow> None | e # _ \<Rightarrow> Some (oe_tag e)),
       co_routing = routing_of (cf_routing c), co_static = map normal (static_sections c)\<rparr>)"

text \<open>What the calls of the API do to it.\<close>

definition core_del_inbound :: "string \<Rightarrow> core \<Rightarrow> core" where
  "core_del_inbound tag c = c\<lparr>co_inbounds := (co_inbounds c)(tag := None)\<rparr>"

definition core_add_inbound :: "inbound_config \<Rightarrow> core \<Rightarrow> core" where
  "core_add_inbound ib c = c\<lparr>co_inbounds := (co_inbounds c)(ic_tag ib := Some (core_inbound ib))\<rparr>"

definition del_user :: "string \<Rightarrow> core_inbound option \<Rightarrow> core_inbound option" where
  "del_user email = map_option (\<lambda>i. i\<lparr>ci_users := (ci_users i)(email := None)\<rparr>)"

definition add_user :: "string \<Rightarrow> string \<Rightarrow> core_inbound option \<Rightarrow> core_inbound option" where
  "add_user email norm = map_option (\<lambda>i. i\<lparr>ci_users := (ci_users i)(email := Some norm)\<rparr>)"

definition core_del_user :: "string \<Rightarrow> string \<Rightarrow> core \<Rightarrow> core" where
  "core_del_user tag email c = c\<lparr>co_inbounds := (co_inbounds c)(tag := del_user email (co_inbounds c tag))\<rparr>"

definition user_norm :: "user_op \<Rightarrow> string" where
  "user_norm u = json_marshal (JObj (case uo_user u of Some m \<Rightarrow> m | None \<Rightarrow> []))"

definition core_add_user :: "user_op \<Rightarrow> core \<Rightarrow> core" where
  "core_add_user u c =
     c\<lparr>co_inbounds := (co_inbounds c)(uo_tag u := add_user (uo_email u) (user_norm u) (co_inbounds c (uo_tag u)))\<rparr>"

definition core_del_outbound :: "string \<Rightarrow> core \<Rightarrow> core" where
  "core_del_outbound tag c =
     c\<lparr>co_outbounds := (co_outbounds c)(tag := None),
       co_default := (if co_default c = Some tag then None else co_default c)\<rparr>"

text \<open>An outbound becomes the default when there is none.\<close>

definition raw_tag :: "string \<Rightarrow> string" where
  "raw_tag raw = (case unmarshal_string_field ''tag'' raw of Some t \<Rightarrow> t | None \<Rightarrow> '''')"

definition core_add_outbound :: "string \<Rightarrow> core \<Rightarrow> core" where
  "core_add_outbound raw c =
     c\<lparr>co_outbounds := (co_outbounds c)(raw_tag raw := canonicalJSON raw),
       co_default := (if co_default c = None then Some (raw_tag raw) else co_default c)\<rparr>"

text \<open>Replacing the rules and balancers leaves the rest of the routing section.\<close>

definition core_apply_routing :: "string \<Rightarrow> core \<Rightarrow> core" where
  "core_apply_routing raw c = c\<lparr>co_routing := (fst (co_routing c), snd (routing_of raw))\<rparr>"

text \<open>The operations of a difference in the order in which they are applied.\<close>

definition core_apply :: "hot_diff \<Rightarrow> core \<Rightarrow> core" where
  "core_apply d c0 =
     (let c1 = fold (\<lambda>u. core_del_user (uo_tag u) (uo_email u)) (hd_removedUsers d) c0;
          c2 = fold core_del_inbound (hd_removedInboundTags d) c1;
          c3 = fold core_del_outbound (hd_removedOutboundTags d) c2;
          c4 = fold core_add_outbound (hd_addedOutbounds d) c3;
          c5 = fold core_add_inbound (hd_addedInbounds d) c4;
          c6 = fold core_add_user (hd_addedUsers d) c5
      in (case hd_routing d of None \<Rightarrow> c6 | Some raw \<Rightarrow> core_apply_routing raw c6))"

section \<open>Normal forms\<close>

lemma rawEqualNormalized_iff: "rawEqualNormalized a b \<longleftrightarrow> normal a = normal b"
  by (auto simp: rawEqualNormalized_def normal_def split: option.splits)

lemma canonicalJSON_Some:
  "canonicalJSON raw = Some c \<longleftrightarrow>
     (raw = '''' \<or> decode_value raw = Some JNull) \<and> c = ''''
     \<or> raw \<noteq> '''' \<and> (\<exists>v. decode_value raw = Some v \<and> v \<noteq> JNull \<and> c = json_marshal v)"
  unfolding canonicalJSON_def by (auto split: option.split json.split simp del: wf_json.simps)

lemma canonical_decode:
  assumes "canonicalJSON a = Some c" "canonicalJSON b = Some c"
  shows "(a = '''' \<or> decode_value a = Some JNull) \<and> (b = '''' \<or> decode_value b = Some JNull)
         \<or> a \<noteq> '''' \<and> b \<noteq> '''' \<and> decode_value a = decode_value b"
  using assms unfolding canonicalJSON_Some
  by (metis decode_value_wf json_marshal_inj json_marshal_nonempty)

lemma split_normal: "normal a = normal b \<Longrightarrow> splitSettingsClients a = splitSettingsClients b"
  using canonical_decode [of a _ b]
  by (auto simp: normal_def splitSettingsClients_def split: option.splits)

lemma core_inbound_cong: "inboundEqualNormalized a b \<Longrightarrow> core_inbound a = core_inbound b"
  unfolding inboundEqualNormalized_def rawEqualNormalized_iff core_inbound_def split_clients_def
  using split_normal [of "ic_settings a" "ic_settings b"] by (simp split: option.split)

section \<open>The effect on one tag\<close>

definition effect :: "hot_diff \<Rightarrow> string \<Rightarrow> core_inbound option \<Rightarrow> core_inbound option" where
  "effect d t x =
     fold (\<lambda>u. add_user (uo_email u) (user_norm u)) (filter (\<lambda>u. uo_tag u = t) (hd_addedUsers d))
       (fold (\<lambda>ib _. Some (core_inbound ib)) (filter (\<lambda>ib. ic_tag ib = t) (hd_addedInbounds d))
         (if t \<in> set (hd_removedInboundTags d) then None
          else fold (\<lambda>u. del_user (uo_email u)) (filter (\<lambda>u. uo_tag u = t) (hd_removedUsers d)) x))"

lemma fold_at_tag:
  assumes "\<And>u c. co_inbounds (op u c) t = (if tag u = t then f u (co_inbounds c t) else co_inbounds c t)"
  shows "co_inbounds (fold op us c) t = fold f (filter (\<lambda>u. tag u = t) us) (co_inbounds c t)"
  by (induction us arbitrary: c) (simp_all add: assms)

lemma fold_keeps: "(\<And>u c. g (op u c) = g c) \<Longrightarrow> g (fold op us c) = g c"
  by (induction us arbitrary: c) simp_all

lemma fold_del_tags: "fold (\<lambda>u _. None) ts x = (if ts = [] then x else None)"
  by (induction ts arbitrary: x) auto

lemma core_apply_inbounds: "co_inbounds (core_apply d c) t = effect d t (co_inbounds c t)"
proof -
  have 1: "co_inbounds (fold (\<lambda>u. core_del_user (uo_tag u) (uo_email u)) us c) t
      = fold (\<lambda>u. del_user (uo_email u)) (filter (\<lambda>u. uo_tag u = t) us) (co_inbounds c t)" for us c
    by (rule fold_at_tag) (simp add: core_del_user_def)
  have 2: "co_inbounds (fold core_del_inbound ts c) t = (if t \<in> set ts then None else co_inbounds c t)" for ts c
    by (induction ts arbitrary: c) (simp_all add: core_del_inbound_def)
  have 3: "co_inbounds (fold core_del_outbound ts c) = co_inbounds c" for ts c
    by (rule fold_keeps) (simp add: core_del_outbound_def)
  have 4: "co_inbounds (fold core_add_outbound ts c) = co_inbounds c" for ts c
    by (rule fold_keeps) (simp add: core_add_outbound_def)
  have 5: "co_inbounds (fold core_add_inbound ibs c) t
      = fold (\<lambda>ib _. Some (core_inbound ib)) (filter (\<lambda>ib. ic_tag ib = t) ibs) (co_inbounds c t)" for ibs c
    by (rule fold_at_tag) (simp add: core_add_inbound_def)
  have 6: "co_inbounds (fold core_add_user us c) t
      = fold (\<lambda>u. add_user (uo_email u) (user_norm u)) (filter (\<lambda>u. uo_tag u = t) us) (co_inbounds c t)" for us c
    by (rule fold_at_tag) (simp add: core_add_user_def)
  show ?thesis
    by (cases "hd_routing d") (simp_all add: core_apply_def effect_def core_apply_routing_def Let_def 1 2 3 4 5 6)
qed

definition quiet :: "hot_diff \<Rightarrow> string \<Rightarrow> bool" where
  "quiet d t \<longleftrightarrow>
     filter (\<lambda>u. uo_tag u = t) (hd_addedUsers d) = [] \<and> filter (\<lambda>u. uo_tag u = t) (hd_removedUsers d) = []
     \<and> filter (\<lambda>ib. ic_tag ib = t) (hd_addedInbounds d) = [] \<and> t \<notin> set (hd_removedInboundTags d)"

lemma effect_quiet: "quiet d t \<Longrightarrow> effect d t x = x"
  by (simp add: quiet_def effect_def)

text \<open>Two differences do the same to a tag.\<close>

definition same_at :: "hot_diff \<Rightarrow> hot_diff \<Rightarrow> string \<Rightarrow> bool" where
  "same_at d d' t \<longleftrightarrow>
     filter (\<lambda>u. uo_tag u = t) (hd_addedUsers d) = filter (\<lambda>u. uo_tag u = t) (hd_addedUsers d')
     \<and> filter (\<lambda>u. uo_tag u = t) (hd_removedUsers d) = filter (\<lambda>u. uo_tag u = t) (hd_removedUsers d')
     \<and> filter (\<lambda>ib. ic_tag ib = t) (hd_addedInbounds d) = filter (\<lambda>ib. ic_tag ib = t) (hd_addedInbounds d')
     \<and> (t \<in> set (hd_removedInboundTags d) \<longleftrightarrow> t \<in> set (hd_removedInboundTags d'))"

lemma same_at_refl [simp]: "same_at d d t"
  by (simp add: same_at_def)

lemma same_at_trans: "same_at a b t \<Longrightarrow> same_at b c t \<Longrightarrow> same_at a c t"
  by (simp add: same_at_def)

lemma same_at_effect: "same_at d d' t \<Longrightarrow> effect d' t x = effect d t x"
  by (simp add: same_at_def effect_def)

lemma same_at_quiet: "same_at d d' t \<Longrightarrow> quiet d t \<Longrightarrow> quiet d' t"
  by (simp add: same_at_def quiet_def)

section \<open>Users\<close>

lemma owf_distinct: "owf m \<Longrightarrow> distinct (map fst m)"
  by (auto simp: owf_def strict_sorted_iff)

lemma oget_mem: "owf m \<Longrightarrow> (k, v) \<in> set m \<longleftrightarrow> oget m k = Some v"
  using map_of_eq_Some_iff [OF owf_distinct, of m k v] by (simp add: oget_def)

definition clients_ok :: "client_entry omap \<Rightarrow> bool" where
  "clients_ok m \<longleftrightarrow> owf m \<and> (\<forall>e c. oget m e = Some c \<longrightarrow> ce_norm c = json_marshal (JObj (ce_user c))
      \<and> oget (ce_user c) ''email'' = Some (JStr e))"

lemma clients_ok_oput:
  "clients_ok m \<Longrightarrow> oget obj ''email'' = Some (JStr e) \<Longrightarrow> clients_ok (oput e \<lparr>ce_user = obj, ce_norm = json_marshal (JObj obj)\<rparr> m)"
  unfolding clients_ok_def by simp

lemma index_clients_ok: "index_clients cs m = Some m' \<Longrightarrow> clients_ok m \<Longrightarrow> clients_ok m'"
proof (induction cs arbitrary: m)
  case (Cons c cs)
  show ?case
  proof (cases c)
    case (JObj obj)
    with Cons show ?thesis
      by (auto simp: Let_def clients_ok_oput split: if_splits option.splits json.splits)
  qed (use Cons.prems in simp_all)
qed simp

lemma split_clients_ok: "splitSettingsClients raw = Some (cl, rest) \<Longrightarrow> clients_ok cl"
  by (auto simp: splitSettingsClients_def clients_ok_def split: if_splits option.splits json.splits
      dest!: index_clients_ok)

definition user_kept :: "client_entry omap \<Rightarrow> string \<times> client_entry \<Rightarrow> bool" where
  "user_kept nc ec \<longleftrightarrow> (\<exists>n. oget nc (fst ec) = Some n \<and> ce_norm (snd ec) = ce_norm n)"

definition drop_op :: "inbound_config \<Rightarrow> string \<Rightarrow> user_op" where
  "drop_op ib email = \<lparr>uo_tag = ic_tag ib, uo_protocol = ic_protocol ib, uo_email = email, uo_user = None\<rparr>"

definition put_op :: "inbound_config \<Rightarrow> client_entry omap \<Rightarrow> string \<Rightarrow> user_op" where
  "put_op ib nc email = (drop_op ib email)\<lparr>uo_user := map_option ce_user (oget nc email)\<rparr>"

lemma old_users_ops:
  "old_users ib nc es d =
     d\<lparr>hd_removedUsers := hd_removedUsers d @ map (drop_op ib \<circ> fst) (filter (\<lambda>ec. \<not> user_kept nc ec) es),
       hd_addedUsers := hd_addedUsers d @ map (put_op ib nc \<circ> fst)
          (filter (\<lambda>ec. \<not> user_kept nc ec \<and> oget nc (fst ec) \<noteq> None) es)\<rparr>"
  by (induction ib nc es d rule: old_users.induct)
     (auto simp: Let_def user_kept_def drop_op_def put_op_def split: option.split)

lemma new_users_ops:
  assumes "\<And>e c. (e, c) \<in> set es \<Longrightarrow> oget nc e = Some c"
  shows "new_users ib oc es d =
     d\<lparr>hd_addedUsers := hd_addedUsers d @ map (put_op ib nc \<circ> fst) (filter (\<lambda>ec. oget oc (fst ec) = None) es)\<rparr>"
  using assms
proof (induction es arbitrary: d)
  case (Cons ec es)
  obtain e c where [simp]: "ec = (e, c)" by (cases ec)
  from Cons.prems have e: "oget nc e = Some c" by simp
  have "new_users ib oc es d = d\<lparr>hd_addedUsers := hd_addedUsers d
      @ map (put_op ib nc \<circ> fst) (filter (\<lambda>ec. oget oc (fst ec) = None) es)\<rparr>" for d
    by (rule Cons.IH) (simp add: Cons.prems)
  then show ?case using e by (simp add: drop_op_def put_op_def)
qed simp

lemma fold_del_user:
  "fold (\<lambda>u. del_user (uo_email u)) us (Some i)
     = Some (i\<lparr>ci_users := (\<lambda>e. if e \<in> uo_email ` set us then None else ci_users i e)\<rparr>)"
  by (induction us arbitrary: i) (auto simp: del_user_def fun_eq_iff)

lemma fold_add_user:
  assumes "\<And>u. u \<in> set us \<Longrightarrow> f (uo_email u) = Some (user_norm u)"
  shows "fold (\<lambda>u. add_user (uo_email u) (user_norm u)) us (Some i)
     = Some (i\<lparr>ci_users := (\<lambda>e. if e \<in> uo_email ` set us then f e else ci_users i e)\<rparr>)"
  using assms by (induction us arbitrary: i) (auto simp: add_user_def fun_eq_iff)

text \<open>Go visits the entries of a map in any order, each of them once.\<close>

definition visits_all :: "client_order \<Rightarrow> bool" where
  "visits_all order \<longleftrightarrow> (\<forall>t b es. mset (order t b es) = mset es)"

lemma visits_set: "visits_all order \<Longrightarrow> set (order t b es) = set es"
  unfolding visits_all_def by (metis set_mset_mset)

lemma users_replaced:
  assumes i: "ci_users i = (\<lambda>e. map_option ce_norm (oget oc e))" and nc: "clients_ok nc" and oc: "owf oc"
    and os: "set os = set oc" and ns: "set ns = set nc"
    and R: "R = map (drop_op ib \<circ> fst) (filter (\<lambda>ec. \<not> user_kept nc ec) os)"
    and A: "A = map (put_op ib nc \<circ> fst) (filter (\<lambda>ec. \<not> user_kept nc ec \<and> oget nc (fst ec) \<noteq> None) os)
              @ map (put_op ib nc \<circ> fst) (filter (\<lambda>ec. oget oc (fst ec) = None) ns)"
  shows "fold (\<lambda>u. add_user (uo_email u) (user_norm u)) A (fold (\<lambda>u. del_user (uo_email u)) R (Some i))
     = Some (i\<lparr>ci_users := (\<lambda>e. map_option ce_norm (oget nc e))\<rparr>)"
proof -
  have wf: "owf nc" using nc by (simp add: clients_ok_def)
  have old: "(e, c) \<in> set os \<longleftrightarrow> oget oc e = Some c" for e c using oget_mem [OF oc] os by simp
  have new: "(e, c) \<in> set ns \<longleftrightarrow> oget nc e = Some c" for e c using oget_mem [OF wf] ns by simp
  have norm: "oget nc e = Some c \<Longrightarrow> user_norm (put_op ib nc e) = ce_norm c" for e c
    using nc by (simp add: clients_ok_def put_op_def user_norm_def)
  have em: "uo_email (drop_op ib e) = e" "uo_email (put_op ib nc e) = e" for e
    by (simp_all add: drop_op_def put_op_def)
  have im: "uo_email ` set (map (put_op ib nc \<circ> fst) es) = fst ` set es"
      "uo_email ` set (map (drop_op ib \<circ> fst) es) = fst ` set es" for es
    by (simp_all add: image_image em)
  have removed: "e \<in> uo_email ` set R \<longleftrightarrow> (\<exists>c. oget oc e = Some c \<and> \<not> user_kept nc (e, c))" for e
    unfolding R im by (auto simp: old [symmetric] image_iff)
  have added: "e \<in> uo_email ` set A \<longleftrightarrow> oget nc e \<noteq> None \<and> (\<forall>c. oget oc e = Some c \<longrightarrow> \<not> user_kept nc (e, c))" for e
  proof -
    have "e \<in> uo_email ` set A \<longleftrightarrow> (\<exists>c. oget oc e = Some c \<and> \<not> user_kept nc (e, c) \<and> oget nc e \<noteq> None)
        \<or> (\<exists>c. oget nc e = Some c \<and> oget oc e = None)"
      unfolding A set_append image_Un Un_iff im by (simp add: image_iff Bex_def old new)
    then show ?thesis by (cases "oget oc e") auto
  qed
  have "\<exists>e c. u = put_op ib nc e \<and> oget nc e = Some c" if "u \<in> set A" for u
    using that new unfolding A by (auto simp: image_iff)
  then have val: "map_option ce_norm (oget nc (uo_email u)) = Some (user_norm u)" if "u \<in> set A" for u
    using that by (metis norm em(2) option.simps(9))
  have fin: "(\<lambda>e. if e \<in> uo_email ` set A then map_option ce_norm (oget nc e)
         else if e \<in> uo_email ` set R then None else ci_users i e) = (\<lambda>e. map_option ce_norm (oget nc e))"
    unfolding removed added i by (rule ext) (auto simp: user_kept_def)
  have "fold (\<lambda>u. add_user (uo_email u) (user_norm u)) A (fold (\<lambda>u. del_user (uo_email u)) R (Some i))
     = Some (i\<lparr>ci_users := (\<lambda>e. if e \<in> uo_email ` set A then map_option ce_norm (oget nc e)
         else if e \<in> uo_email ` set R then None else ci_users i e)\<rparr>)"
    unfolding fold_del_user by (subst fold_add_user [where f = "\<lambda>e. map_option ce_norm (oget nc e)"]) (simp_all add: val cong: if_cong)
  then show ?thesis unfolding fin .
qed

text \<open>Appending operations on one tag leaves the other tags alone.\<close>

lemma filter_tag_ops [simp]:
  "filter (\<lambda>u. uo_tag u = t) (map (drop_op ib \<circ> fst) es) = (if ic_tag ib = t then map (drop_op ib \<circ> fst) es else [])"
  "filter (\<lambda>u. uo_tag u = t) (map (put_op ib nc \<circ> fst) es) = (if ic_tag ib = t then map (put_op ib nc \<circ> fst) es else [])"
  by (induction es) (simp_all add: drop_op_def put_op_def)

lemma diffInboundUsers_effect:
  assumes d: "diffInboundUsers order oldIb newIb d = Some d'" and order: "visits_all order"
  shows "t \<noteq> ic_tag oldIb \<Longrightarrow> same_at d d' t"
    and "quiet d (ic_tag oldIb) \<Longrightarrow> effect d' (ic_tag oldIb) (Some (core_inbound oldIb)) = Some (core_inbound newIb)"
proof -
  from d obtain oc rest nc where eq: "ic_port oldIb = ic_port newIb" "ic_protocol oldIb = ic_protocol newIb"
      "ic_protocol newIb \<in> userDiffableProtocols"
      "normal (ic_listen oldIb) = normal (ic_listen newIb)" "normal (ic_stream oldIb) = normal (ic_stream newIb)"
      "normal (ic_sniffing oldIb) = normal (ic_sniffing newIb)"
    and split: "splitSettingsClients (ic_settings oldIb) = Some (oc, rest)"
      "splitSettingsClients (ic_settings newIb) = Some (nc, rest)"
    and d': "d' = new_users oldIb oc (order (ic_tag oldIb) True nc) (old_users oldIb nc (order (ic_tag oldIb) False oc) d)"
    by (auto simp: diffInboundUsers_def rawEqualNormalized_iff split: if_splits option.splits prod.splits)
  have oc: "owf oc" and nc: "clients_ok nc" "owf nc"
    using split_clients_ok [OF split(1)] split_clients_ok [OF split(2)] by (auto simp: clients_ok_def)
  have sets: "set (order (ic_tag oldIb) False oc) = set oc" "set (order (ic_tag oldIb) True nc) = set nc"
    using visits_set [OF order] by auto
  have visited: "\<And>e c. (e, c) \<in> set (order (ic_tag oldIb) True nc) \<Longrightarrow> oget nc e = Some c"
    using oget_mem [OF nc(2)] sets by simp
  have ops: "d' = d\<lparr>hd_removedUsers := hd_removedUsers d @ map (drop_op oldIb \<circ> fst)
         (filter (\<lambda>ec. \<not> user_kept nc ec) (order (ic_tag oldIb) False oc)),
       hd_addedUsers := hd_addedUsers d @ map (put_op oldIb nc \<circ> fst)
         (filter (\<lambda>ec. \<not> user_kept nc ec \<and> oget nc (fst ec) \<noteq> None) (order (ic_tag oldIb) False oc))
       @ map (put_op oldIb nc \<circ> fst) (filter (\<lambda>ec. oget oc (fst ec) = None) (order (ic_tag oldIb) True nc))\<rparr>"
    using new_users_ops [OF visited] by (simp add: d' old_users_ops)
  show "t \<noteq> ic_tag oldIb \<Longrightarrow> same_at d d' t"
    unfolding ops same_at_def by simp
  assume q: "quiet d (ic_tag oldIb)"
  let ?i = "core_inbound oldIb"
  have i: "ci_users ?i = (\<lambda>e. map_option ce_norm (oget oc e))"
    using eq split by (simp add: core_inbound_def split_clients_def)
  have n: "core_inbound newIb = ?i\<lparr>ci_users := (\<lambda>e. map_option ce_norm (oget nc e))\<rparr>"
    using eq split by (simp add: core_inbound_def split_clients_def)
  show "effect d' (ic_tag oldIb) (Some ?i) = Some (core_inbound newIb)"
    using q unfolding n
    using users_replaced [OF i nc(1) oc sets refl refl] by (simp add: ops effect_def quiet_def)
qed

text \<open>One inbound of the old configuration.\<close>

definition tag_ok :: "inbound_config omap \<Rightarrow> bool" where
  "tag_ok m \<longleftrightarrow> (\<forall>t ib. oget m t = Some ib \<longrightarrow> ic_tag ib = t)"

lemma old_inbound_effect:
  assumes st: "old_inbound order apiTag newByTag oldIb d = Some d'" and order: "visits_all order" and ok: "tag_ok newByTag"
  shows "t \<noteq> ic_tag oldIb \<Longrightarrow> same_at d d' t"
    and "quiet d (ic_tag oldIb) \<Longrightarrow>
       effect d' (ic_tag oldIb) (Some (core_inbound oldIb)) = map_option core_inbound (oget newByTag (ic_tag oldIb))"
proof -
  have "(t \<noteq> ic_tag oldIb \<longrightarrow> same_at d d' t) \<and> (quiet d (ic_tag oldIb) \<longrightarrow>
       effect d' (ic_tag oldIb) (Some (core_inbound oldIb)) = map_option core_inbound (oget newByTag (ic_tag oldIb)))"
  proof (cases "oget newByTag (ic_tag oldIb)")
    case None
    with st show ?thesis
      by (auto simp: old_inbound_def replace_inbound_def same_at_def quiet_def effect_def Let_def split: if_splits)
  next
    case (Some newIb)
    then have t: "ic_tag newIb = ic_tag oldIb" using ok by (simp add: tag_ok_def)
    show ?thesis
    proof (cases "inboundEqualNormalized oldIb newIb")
      case True
      with st Some show ?thesis by (simp add: old_inbound_def effect_quiet core_inbound_cong)
    next
      case False
      show ?thesis
      proof (cases "diffInboundUsers order oldIb newIb d")
        case (Some d2)
        with st False \<open>oget newByTag (ic_tag oldIb) = Some newIb\<close> diffInboundUsers_effect [OF Some order]
        show ?thesis by (auto simp: old_inbound_def split: if_splits)
      next
        case None
        with st False Some t show ?thesis
          by (auto simp: old_inbound_def replace_inbound_def same_at_def quiet_def effect_def Let_def split: if_splits)
      qed
    qed
  qed
  then show "t \<noteq> ic_tag oldIb \<Longrightarrow> same_at d d' t"
    and "quiet d (ic_tag oldIb) \<Longrightarrow>
       effect d' (ic_tag oldIb) (Some (core_inbound oldIb)) = map_option core_inbound (oget newByTag (ic_tag oldIb))"
    by blast+
qed

section \<open>All inbounds\<close>

lemma index_inbounds_get:
  "index_inbounds ibs m = Some m' \<Longrightarrow>
     distinct (map ic_tag ibs) \<and> (\<forall>ib \<in> set ibs. oget m (ic_tag ib) = None)
     \<and> (\<forall>t. oget m' t = (case find (\<lambda>ib. ic_tag ib = t) ibs of None \<Rightarrow> oget m t | Some ib \<Rightarrow> Some ib))"
proof (induction ibs arbitrary: m)
  case (Cons ib ibs)
  then have n: "oget m (ic_tag ib) = None" and ix: "index_inbounds ibs (oput (ic_tag ib) ib m) = Some m'"
    by (simp_all split: if_splits)
  from Cons.IH [OF ix] have d: "distinct (map ic_tag ibs)"
    and o: "\<And>x. x \<in> set ibs \<Longrightarrow> ic_tag x \<noteq> ic_tag ib \<and> oget m (ic_tag x) = None"
    and g: "\<And>t. oget m' t = (case find (\<lambda>ib. ic_tag ib = t) ibs of
              None \<Rightarrow> (if t = ic_tag ib then Some ib else oget m t) | Some ib \<Rightarrow> Some ib)"
    by (auto split: if_splits option.split)
  from o have "find (\<lambda>x. ic_tag x = ic_tag ib) ibs = None"
    by (auto simp: find_None_iff)
  moreover have "ic_tag ib \<notin> ic_tag ` set ibs" using o by (metis imageE)
  ultimately show ?case using d n g o(1) by (auto dest: o)
qed simp

lemma inboundsByTag_get:
  assumes "inboundsByTag ibs = Some m"
  shows "oget m t = find (\<lambda>ib. ic_tag ib = t) ibs" "distinct (map ic_tag ibs)"
  using index_inbounds_get [of ibs "[]" m] assms
  by (auto simp: inboundsByTag_def split: option.split)

lemma find_tag: "distinct (map ic_tag ibs) \<Longrightarrow> ib \<in> set ibs \<Longrightarrow> find (\<lambda>x. ic_tag x = ic_tag ib) ibs = Some ib"
  by (induction ibs) auto

lemma tag_ok_index: "inboundsByTag ibs = Some m \<Longrightarrow> tag_ok m"
  by (auto simp: tag_ok_def inboundsByTag_get dest: find_SomeD)

lemma old_inbounds_effect:
  assumes "old_inbounds order apiTag nb ibs d = Some d'" "visits_all order" "tag_ok nb" "distinct (map ic_tag ibs)"
    "\<forall>ib \<in> set ibs. quiet d (ic_tag ib)"
  shows "(\<forall>t. t \<notin> ic_tag ` set ibs \<longrightarrow> same_at d d' t)
    \<and> (\<forall>ib \<in> set ibs. effect d' (ic_tag ib) (Some (core_inbound ib)) = map_option core_inbound (oget nb (ic_tag ib)))"
  using assms
proof (induction ibs arbitrary: d)
  case (Cons ib ibs)
  then obtain d1 where d1: "old_inbound order apiTag nb ib d = Some d1" "old_inbounds order apiTag nb ibs d1 = Some d'"
    by (auto split: option.splits)
  note e = old_inbound_effect [OF d1(1) Cons.prems(2,3)]
  have q: "\<forall>x \<in> set ibs. quiet d1 (ic_tag x)"
  proof
    fix x assume x: "x \<in> set ibs"
    then have "ic_tag x \<noteq> ic_tag ib" using Cons.prems(4) by (metis distinct.simps(2) image_eqI list.set_map list.simps(9))
    then show "quiet d1 (ic_tag x)" using same_at_quiet [OF e(1)] Cons.prems(5) x by simp
  qed
  from Cons.IH [OF d1(2) Cons.prems(2,3) _ q] Cons.prems(4)
  have ih: "\<And>t. t \<notin> ic_tag ` set ibs \<Longrightarrow> same_at d1 d' t"
    "\<And>x. x \<in> set ibs \<Longrightarrow> effect d' (ic_tag x) (Some (core_inbound x)) = map_option core_inbound (oget nb (ic_tag x))"
    by auto
  have "effect d' (ic_tag ib) (Some (core_inbound ib)) = map_option core_inbound (oget nb (ic_tag ib))"
    using e(2) Cons.prems(4,5) same_at_effect [OF ih(1) [of "ic_tag ib"]] by auto
  then show ?case using ih e(1) by (auto intro: same_at_trans)
qed simp

lemma new_inbounds_effect:
  assumes "new_inbounds apiTag ob ibs d = Some d'" "distinct (map ic_tag ibs)"
  shows "(\<forall>t. oget ob t \<noteq> None \<or> t \<notin> ic_tag ` set ibs \<longrightarrow> same_at d d' t)
    \<and> (\<forall>ib \<in> set ibs. oget ob (ic_tag ib) = None \<longrightarrow> quiet d (ic_tag ib) \<longrightarrow>
          effect d' (ic_tag ib) None = Some (core_inbound ib))"
  using assms
proof (induction ibs arbitrary: d)
  case (Cons ib ibs)
  show ?case
  proof (cases "oget ob (ic_tag ib) = None")
    case False
    with Cons show ?thesis by auto
  next
    case True
    let ?d1 = "d\<lparr>hd_addedInbounds := hd_addedInbounds d @ [ib]\<rparr>"
    from True Cons.prems have st: "new_inbounds apiTag ob ibs ?d1 = Some d'" by (auto split: if_splits)
    have sa: "t \<noteq> ic_tag ib \<Longrightarrow> same_at d ?d1 t" for t by (simp add: same_at_def)
    from Cons.IH [OF st] Cons.prems(2)
    have ih: "\<And>t. oget ob t \<noteq> None \<or> t \<notin> ic_tag ` set ibs \<Longrightarrow> same_at ?d1 d' t"
      "\<And>x. x \<in> set ibs \<Longrightarrow> oget ob (ic_tag x) = None \<Longrightarrow> quiet ?d1 (ic_tag x) \<Longrightarrow>
          effect d' (ic_tag x) None = Some (core_inbound x)"
      by auto
    have "quiet d (ic_tag ib) \<Longrightarrow> effect d' (ic_tag ib) None = Some (core_inbound ib)"
      using same_at_effect [OF ih(1) [of "ic_tag ib"]] Cons.prems(2) by (auto simp: effect_def quiet_def)
    moreover have "effect d' (ic_tag x) None = Some (core_inbound x)"
      if "x \<in> set ibs" "oget ob (ic_tag x) = None" "quiet d (ic_tag x)" for x
    proof -
      have "ic_tag x \<noteq> ic_tag ib"
        using that Cons.prems(2) by (metis distinct.simps(2) image_eqI list.set_map list.simps(9))
      then show ?thesis using that by (intro ih(2)) (auto intro!: same_at_quiet [OF sa])
    qed
    moreover have "same_at d d' t" if "oget ob t \<noteq> None \<or> t \<notin> ic_tag ` set (ib # ibs)" for t
      using that True by (intro same_at_trans [OF sa ih(1)]) auto
    ultimately show ?thesis by auto
  qed
qed simp

lemma quiet_no_diff: "quiet no_diff t"
  by (simp add: quiet_def no_diff_def)

lemma diffInbounds_effect:
  assumes d: "diffInbounds order old new no_diff = Some d" and order: "visits_all order"
  shows "effect d t (inbounds_of (cf_inbounds old) t) = inbounds_of (cf_inbounds new) t"
proof -
  from d obtain ob nb apiTag d1 where ob: "inboundsByTag (cf_inbounds old) = Some ob"
    and nb: "inboundsByTag (cf_inbounds new) = Some nb"
    and d1: "old_inbounds order apiTag nb (cf_inbounds old) no_diff = Some d1"
    and d2: "new_inbounds apiTag ob (cf_inbounds new) d1 = Some d"
    by (auto simp: diffInbounds_def Let_def split: option.splits)
  have o: "(\<forall>t. t \<notin> ic_tag ` set (cf_inbounds old) \<longrightarrow> same_at no_diff d1 t)
    \<and> (\<forall>ib \<in> set (cf_inbounds old). effect d1 (ic_tag ib) (Some (core_inbound ib))
          = map_option core_inbound (oget nb (ic_tag ib)))"
    by (rule old_inbounds_effect [OF d1 order tag_ok_index [OF nb] inboundsByTag_get(2) [OF ob]])
       (simp add: quiet_no_diff)
  note n = new_inbounds_effect [OF d2 inboundsByTag_get(2) [OF nb]]
  show ?thesis
  proof (cases "find (\<lambda>ib. ic_tag ib = t) (cf_inbounds old)")
    case (Some ib)
    then have ib: "ic_tag ib = t" "ib \<in> set (cf_inbounds old)" by (auto dest: find_SomeD)
    have "same_at d1 d t" using n Some by (simp add: inboundsByTag_get [OF ob])
    then show ?thesis using o ib Some by (auto simp: inbounds_of_def inboundsByTag_get [OF nb] same_at_effect)
  next
    case gone: None
    then have "t \<notin> ic_tag ` set (cf_inbounds old)" by (auto simp: find_None_iff)
    with o have q: "quiet d1 t" using same_at_quiet quiet_no_diff by blast
    show ?thesis
    proof (cases "find (\<lambda>ib. ic_tag ib = t) (cf_inbounds new)")
      case (Some ib)
      then have "ic_tag ib = t" "ib \<in> set (cf_inbounds new)" by (auto dest: find_SomeD)
      with n q gone Some show ?thesis by (auto simp: inbounds_of_def inboundsByTag_get [OF ob])
    next
      case None
      then have "t \<notin> ic_tag ` set (cf_inbounds new)" by (auto simp: find_None_iff)
      with n q have "quiet d t" using same_at_quiet by blast
      then show ?thesis using None gone by (simp add: inbounds_of_def effect_quiet)
    qed
  qed
qed

section \<open>Outbounds\<close>

lemma outbound_entries_ok:
  "outbound_entries seen elems = Some es \<Longrightarrow>
     distinct (map oe_tag es) \<and> (\<forall>e \<in> set es. oe_tag e \<notin> set seen \<and> raw_tag (oe_raw e) = oe_tag e
       \<and> canonicalJSON (oe_raw e) = Some (oe_norm e))"
proof (induction seen elems arbitrary: es rule: outbound_entries.induct)
  case (2 seen elem elems)
  then show ?case by (fastforce simp: raw_tag_def split: option.splits if_splits)
qed simp

lemma parseOutbounds_ok:
  assumes "parseOutbounds raw = Some es"
  shows "distinct (map oe_tag es)" "e \<in> set es \<Longrightarrow> raw_tag (oe_raw e) = oe_tag e"
    "e \<in> set es \<Longrightarrow> canonicalJSON (oe_raw e) = Some (oe_norm e)"
  using assms outbound_entries_ok [of "[]" _ es]
  by (auto simp: parseOutbounds_def split: if_splits option.splits)

lemma entries_by_tag_get:
  "distinct (map oe_tag es) \<Longrightarrow> oget (entries_by_tag es) t = find (\<lambda>e. oe_tag e = t) es"
proof -
  have "distinct (map oe_tag es) \<Longrightarrow> oget (fold (\<lambda>e m. oput (oe_tag e) e m) es m) t
      = (case find (\<lambda>e. oe_tag e = t) es of None \<Rightarrow> oget m t | Some e \<Rightarrow> Some e)" for m
  proof (induction es arbitrary: m)
    case (Cons e es)
    then have "oe_tag e = t \<Longrightarrow> find (\<lambda>e. oe_tag e = t) es = None" by (auto simp: find_None_iff image_iff)
    with Cons show ?case by (auto split: option.split)
  qed simp
  then show "distinct (map oe_tag es) \<Longrightarrow> oget (entries_by_tag es) t = find (\<lambda>e. oe_tag e = t) es"
    by (simp add: entries_by_tag_def split: option.split)
qed

lemma find_entry: "distinct (map oe_tag es) \<Longrightarrow> e \<in> set es \<Longrightarrow> find (\<lambda>x. oe_tag x = oe_tag e) es = Some e"
  by (induction es) auto

definition entry_kept :: "outbound_entry omap \<Rightarrow> outbound_entry \<Rightarrow> bool" where
  "entry_kept nb e \<longleftrightarrow> (\<exists>n. oget nb (oe_tag e) = Some n \<and> oe_norm e = oe_norm n)"

lemma old_outbounds_ops:
  "old_outbounds nb es d =
     d\<lparr>hd_removedOutboundTags := hd_removedOutboundTags d @ map oe_tag (filter (\<lambda>e. \<not> entry_kept nb e) es),
       hd_addedOutbounds := hd_addedOutbounds d @ map (\<lambda>e. oe_raw (the (oget nb (oe_tag e))))
         (filter (\<lambda>e. \<not> entry_kept nb e \<and> oget nb (oe_tag e) \<noteq> None) es)\<rparr>"
  by (induction nb es d rule: old_outbounds.induct) (auto simp: entry_kept_def split: option.split)

lemma new_outbounds_ops:
  "new_outbounds ob es d =
     d\<lparr>hd_addedOutbounds := hd_addedOutbounds d @ map oe_raw (filter (\<lambda>e. oget ob (oe_tag e) = None) es)\<rparr>"
  by (induction ob es d rule: new_outbounds.induct) simp_all

lemma fold_del_outbound:
  "co_outbounds (fold core_del_outbound ts c) t = (if t \<in> set ts then None else co_outbounds c t)"
  "co_default (fold core_del_outbound ts c)
     = (case co_default c of None \<Rightarrow> None | Some x \<Rightarrow> if x \<in> set ts then None else Some x)"
  by (induction ts arbitrary: c) (auto simp: core_del_outbound_def split: option.splits)

lemma fold_add_outbound:
  assumes "\<And>raw. raw \<in> set A \<Longrightarrow> canonicalJSON raw = f (raw_tag raw)"
  shows "co_outbounds (fold core_add_outbound A c) t = (if t \<in> raw_tag ` set A then f t else co_outbounds c t)"
  using assms by (induction A arbitrary: c) (auto simp: core_add_outbound_def)

lemma fold_add_outbound_default: "co_default c = Some x \<Longrightarrow> co_default (fold core_add_outbound A c) = Some x"
  by (induction A arbitrary: c) (auto simp: core_add_outbound_def)

lemma outbounds_replaced:
  assumes old: "parseOutbounds oraw = Some os" and new: "parseOutbounds nraw = Some ns" and def: "same_default os ns"
    and c: "co_outbounds c = outbounds_of os" "co_default c = (case os of [] \<Rightarrow> None | e # _ \<Rightarrow> Some (oe_tag e))"
    and R: "R = map oe_tag (filter (\<lambda>e. \<not> entry_kept (entries_by_tag ns) e) os)"
    and A: "A = map (\<lambda>e. oe_raw (the (oget (entries_by_tag ns) (oe_tag e))))
                  (filter (\<lambda>e. \<not> entry_kept (entries_by_tag ns) e \<and> oget (entries_by_tag ns) (oe_tag e) \<noteq> None) os)
              @ map oe_raw (filter (\<lambda>e. oget (entries_by_tag os) (oe_tag e) = None) ns)"
  shows "co_outbounds (fold core_add_outbound A (fold core_del_outbound R c)) = outbounds_of ns"
    and "co_default (fold core_add_outbound A (fold core_del_outbound R c))
       = (case ns of [] \<Rightarrow> None | e # _ \<Rightarrow> Some (oe_tag e))"
proof -
  note os = parseOutbounds_ok [OF old] and ns = parseOutbounds_ok [OF new]
  let ?f = "\<lambda>t. find (\<lambda>e. oe_tag e = t) os" and ?g = "\<lambda>t. find (\<lambda>e. oe_tag e = t) ns"
  have get: "oget (entries_by_tag os) = ?f" "oget (entries_by_tag ns) = ?g"
    by (auto intro!: ext entries_by_tag_get os(1) ns(1))
  have kept: "entry_kept (entries_by_tag ns) e \<longleftrightarrow> (\<exists>n. ?g (oe_tag e) = Some n \<and> oe_norm e = oe_norm n)" for e
    by (simp add: entry_kept_def get)
  have fe: "?f t = Some e \<longleftrightarrow> e \<in> set os \<and> oe_tag e = t" for t e
    using find_entry [OF os(1), of e] by (auto dest: find_SomeD)
  have ge: "?g t = Some e \<longleftrightarrow> e \<in> set ns \<and> oe_tag e = t" for t e
    using find_entry [OF ns(1), of e] by (auto dest: find_SomeD)
  have R': "t \<in> set R \<longleftrightarrow> (\<exists>e. ?f t = Some e \<and> \<not> (\<exists>n. ?g t = Some n \<and> oe_norm e = oe_norm n))" for t
    unfolding R by (auto simp: kept fe image_iff)
  have A': "raw \<in> set A \<longleftrightarrow> (\<exists>n \<in> set ns. raw = oe_raw n \<and> \<not> (\<exists>e. ?f (oe_tag n) = Some e \<and> oe_norm e = oe_norm n))" for raw
  proof
    assume "raw \<in> set A"
    then consider e n where "e \<in> set os" "\<not> entry_kept (entries_by_tag ns) e" "?g (oe_tag e) = Some n" "raw = oe_raw n"
      | n where "n \<in> set ns" "?f (oe_tag n) = None" "raw = oe_raw n"
      unfolding A get by auto
    then show "\<exists>n \<in> set ns. raw = oe_raw n \<and> \<not> (\<exists>e. ?f (oe_tag n) = Some e \<and> oe_norm e = oe_norm n)"
    proof cases
      case 1
      then have "n \<in> set ns" "oe_tag n = oe_tag e" by (auto simp: ge)
      with 1 show ?thesis using find_entry [OF os(1), of e] by (intro bexI [of _ n]) (auto simp: kept)
    qed auto
  next
    assume "\<exists>n \<in> set ns. raw = oe_raw n \<and> \<not> (\<exists>e. ?f (oe_tag n) = Some e \<and> oe_norm e = oe_norm n)"
    then obtain n where n: "n \<in> set ns" "raw = oe_raw n" "\<And>e. ?f (oe_tag n) = Some e \<Longrightarrow> oe_norm e \<noteq> oe_norm n"
      by blast
    have g: "?g (oe_tag n) = Some n" using n by (simp add: ge)
    show "raw \<in> set A"
    proof (cases "?f (oe_tag n)")
      case None
      with n show ?thesis unfolding A get by auto
    next
      case (Some e)
      then have "e \<in> set os" "oe_tag e = oe_tag n" by (auto simp: fe)
      with n(3) [OF Some] g n(2) show ?thesis unfolding A get by (auto simp: kept image_iff intro!: bexI [of _ e])
    qed
  qed
  have val: "canonicalJSON raw = outbounds_of ns (raw_tag raw)" if "raw \<in> set A" for raw
    using that ns(2,3) find_entry [OF ns(1)] by (auto simp: A' outbounds_of_def)
  have tags: "t \<in> raw_tag ` set A \<longleftrightarrow> (\<exists>n. ?g t = Some n \<and> \<not> (\<exists>e. ?f t = Some e \<and> oe_norm e = oe_norm n))" for t
    using ns(2) by (auto simp: A' ge image_iff Bex_def)
  show "co_outbounds (fold core_add_outbound A (fold core_del_outbound R c)) = outbounds_of ns"
  proof (rule ext)
    fix t
    show "co_outbounds (fold core_add_outbound A (fold core_del_outbound R c)) t = outbounds_of ns t"
      by (cases "?f t"; cases "?g t")
         (auto simp: fold_add_outbound [OF val] fold_del_outbound R' tags c outbounds_of_def)
  qed
  show "co_default (fold core_add_outbound A (fold core_del_outbound R c))
       = (case ns of [] \<Rightarrow> None | e # _ \<Rightarrow> Some (oe_tag e))"
  proof (cases os)
    case Nil
    with def have "ns = []" by (cases ns) (auto simp: same_default_def)
    with Nil show ?thesis by (simp add: A R c)
  next
    case (Cons o1 os')
    with def obtain n1 ns' where n1: "ns = n1 # ns'" "oe_tag o1 = oe_tag n1" "oe_norm o1 = oe_norm n1"
      by (cases ns) (auto simp: same_default_def)
    then have "oe_tag o1 \<notin> set R" unfolding R' using Cons by (auto simp: fe ge) (metis (no_types) list.set_intros(1))?
    then have "co_default (fold core_del_outbound R c) = Some (oe_tag n1)"
      by (simp add: fold_del_outbound c Cons n1)
    then show ?thesis by (simp add: fold_add_outbound_default n1)
  qed
qed

section \<open>The whole difference\<close>

text \<open>Each loop only writes its own fields of the difference.\<close>

definition rest_ops :: "hot_diff \<Rightarrow> string list \<times> string list \<times> string option" where
  "rest_ops d = (hd_removedOutboundTags d, hd_addedOutbounds d, hd_routing d)"

lemma user_loops_rest [simp]: "rest_ops (old_users ib nc es d) = rest_ops d" "rest_ops (new_users ib oc es d) = rest_ops d"
  by (simp_all add: old_users_ops rest_ops_def, induction ib oc es d rule: new_users.induct, simp_all)

lemma old_inbound_rest: "old_inbound order apiTag nb ib d = Some d' \<Longrightarrow> rest_ops d' = rest_ops d"
  by (auto simp: old_inbound_def diffInboundUsers_def replace_inbound_def Let_def split: option.splits if_splits prod.splits)
     (simp_all add: rest_ops_def)

lemma old_inbounds_rest: "old_inbounds order apiTag nb ibs d = Some d' \<Longrightarrow> rest_ops d' = rest_ops d"
  by (induction ibs arbitrary: d) (auto simp: old_inbound_rest split: option.splits)

lemma new_inbounds_rest: "new_inbounds apiTag ob ibs d = Some d' \<Longrightarrow> rest_ops d' = rest_ops d"
  by (induction ibs arbitrary: d) (fastforce simp: rest_ops_def split: if_splits)+

lemma diffInbounds_rest: "diffInbounds order old new d = Some d' \<Longrightarrow> rest_ops d' = rest_ops d"
  by (auto simp: diffInbounds_def Let_def dest!: old_inbounds_rest new_inbounds_rest split: option.splits)

text \<open>Operations on inbounds and operations on outbounds do not meet.\<close>

lemma fold_inbound_part:
  assumes "\<And>u c. \<exists>x. op u c = c\<lparr>co_inbounds := x\<rparr>"
  shows "\<exists>x. fold op us c = c\<lparr>co_inbounds := x\<rparr>"
proof (induction us arbitrary: c)
  case Nil
  show ?case by (rule exI [of _ "co_inbounds c"]) simp
next
  case (Cons u us)
  obtain x where "op u c = c\<lparr>co_inbounds := x\<rparr>" using assms by blast
  with Cons.IH [of "op u c"] show ?case by auto
qed

lemma fold_commutes: "(\<And>u c. op u (f c) = f (op u c)) \<Longrightarrow> fold op us (f c) = f (fold op us c)"
  by (induction us arbitrary: c) simp_all

lemma fold_outbounds_commute:
  "fold core_del_outbound ts (c\<lparr>co_inbounds := x\<rparr>) = (fold core_del_outbound ts c)\<lparr>co_inbounds := x\<rparr>"
  "fold core_add_outbound rs (c\<lparr>co_inbounds := x\<rparr>) = (fold core_add_outbound rs c)\<lparr>co_inbounds := x\<rparr>"
  by (simp_all add: fold_commutes [of core_del_outbound "\<lambda>c. c\<lparr>co_inbounds := x\<rparr>"]
      fold_commutes [of core_add_outbound "\<lambda>c. c\<lparr>co_inbounds := x\<rparr>"] core_del_outbound_def core_add_outbound_def)

lemma core_apply_parts:
  obtains x where "core_apply d c =
    (let c' = (fold core_add_outbound (hd_addedOutbounds d) (fold core_del_outbound (hd_removedOutboundTags d) c))\<lparr>co_inbounds := x\<rparr>
     in case hd_routing d of None \<Rightarrow> c' | Some raw \<Rightarrow> core_apply_routing raw c')"
proof -
  have 1: "\<exists>x. fold (\<lambda>u. core_del_user (uo_tag u) (uo_email u)) us c = c\<lparr>co_inbounds := x\<rparr>" for us c
    by (rule fold_inbound_part) (auto simp: core_del_user_def)
  have 2: "\<exists>x. fold core_del_inbound us c = c\<lparr>co_inbounds := x\<rparr>" for us c
    by (rule fold_inbound_part) (auto simp: core_del_inbound_def)
  have 3: "\<exists>x. fold core_add_inbound us c = c\<lparr>co_inbounds := x\<rparr>" for us c
    by (rule fold_inbound_part) (auto simp: core_add_inbound_def)
  have 4: "\<exists>x. fold core_add_user us c = c\<lparr>co_inbounds := x\<rparr>" for us c
    by (rule fold_inbound_part) (auto simp: core_add_user_def)
  obtain x1 where c1: "fold (\<lambda>u. core_del_user (uo_tag u) (uo_email u)) (hd_removedUsers d) c = c\<lparr>co_inbounds := x1\<rparr>"
    using 1 by blast
  obtain x2 where c2: "fold core_del_inbound (hd_removedInboundTags d) (c\<lparr>co_inbounds := x1\<rparr>) = c\<lparr>co_inbounds := x2\<rparr>"
    using 2 [of "hd_removedInboundTags d" "c\<lparr>co_inbounds := x1\<rparr>"] by auto
  let ?o = "fold core_add_outbound (hd_addedOutbounds d) (fold core_del_outbound (hd_removedOutboundTags d) c)"
  obtain x3 where c3: "fold core_add_inbound (hd_addedInbounds d) (?o\<lparr>co_inbounds := x2\<rparr>) = ?o\<lparr>co_inbounds := x3\<rparr>"
    using 3 [of "hd_addedInbounds d" "?o\<lparr>co_inbounds := x2\<rparr>"] by auto
  obtain x4 where c4: "fold core_add_user (hd_addedUsers d) (?o\<lparr>co_inbounds := x3\<rparr>) = ?o\<lparr>co_inbounds := x4\<rparr>"
    using 4 [of "hd_addedUsers d" "?o\<lparr>co_inbounds := x3\<rparr>"] by auto
  show ?thesis
    by (rule that [of x4], cases "hd_routing d") (simp_all add: core_apply_def Let_def c1 c2 fold_outbounds_commute c3 c4)
qed

lemma fold_outbound_fields:
  "co_routing (fold core_add_outbound rs (fold core_del_outbound ts c)) = co_routing c"
  "co_static (fold core_add_outbound rs (fold core_del_outbound ts c)) = co_static c"
  by (simp_all add: fold_keeps [of co_routing core_add_outbound] fold_keeps [of co_routing core_del_outbound]
      fold_keeps [of co_static core_add_outbound] fold_keeps [of co_static core_del_outbound]
      core_add_outbound_def core_del_outbound_def)

lemma diffRouting_cases:
  assumes "diffRouting old new d = Some d'"
  shows "d' = d \<and> cf_routing old = cf_routing new
    \<or> d' = d\<lparr>hd_routing := Some (cf_routing new)\<rparr>
      \<and> routingWithoutReloadable (cf_routing old) = routingWithoutReloadable (cf_routing new)"
  using assms by (auto simp: diffRouting_def split: if_splits option.splits)

lemma effect_cong:
  "hd_addedUsers d = hd_addedUsers d' \<Longrightarrow> hd_addedInbounds d = hd_addedInbounds d' \<Longrightarrow>
   hd_removedInboundTags d = hd_removedInboundTags d' \<Longrightarrow> hd_removedUsers d = hd_removedUsers d' \<Longrightarrow>
   effect d t x = effect d' t x"
  by (simp add: effect_def)

lemma core_apply_diff:
  assumes "ComputeHotDiff order (Some old) (Some new) = Some d" and order: "visits_all order"
  shows "core_apply d (core_of old) = core_of new"
proof -
  from assms(1) obtain d1 os ns where stat: "list_all2 rawEqualNormalized (static_sections old) (static_sections new)"
    and d1: "diffInbounds order old new no_diff = Some d1"
    and os: "parseOutbounds (cf_outbounds old) = Some os" and ns: "parseOutbounds (cf_outbounds new) = Some ns"
    and def: "same_default os ns"
    and d: "diffRouting old new (new_outbounds (entries_by_tag os) ns (old_outbounds (entries_by_tag ns) os d1)) = Some d"
    by (auto simp: ComputeHotDiff_def diffOutbounds_def split: if_splits option.splits)
  have d1_rest: "hd_removedOutboundTags d1 = []" "hd_addedOutbounds d1 = []" "hd_routing d1 = None"
    using diffInbounds_rest [OF d1] by (simp_all add: rest_ops_def no_diff_def)
  note dd = diffRouting_cases [OF d, unfolded new_outbounds_ops old_outbounds_ops]
  have in_ops: "effect d t x = effect d1 t x" for t x
    using dd by (intro effect_cong) auto
  have static: "map normal (static_sections old) = map normal (static_sections new)"
    using stat by (simp add: list_eq_iff_nth_eq list_all2_conv_all_nth rawEqualNormalized_iff)
  let ?c = "core_of old" and ?n = "core_of new"
  let ?R = "hd_removedOutboundTags d" and ?A = "hd_addedOutbounds d"
  have R: "?R = map oe_tag (filter (\<lambda>e. \<not> entry_kept (entries_by_tag ns) e) os)"
    and A: "?A = map (\<lambda>e. oe_raw (the (oget (entries_by_tag ns) (oe_tag e))))
                  (filter (\<lambda>e. \<not> entry_kept (entries_by_tag ns) e \<and> oget (entries_by_tag ns) (oe_tag e) \<noteq> None) os)
              @ map oe_raw (filter (\<lambda>e. oget (entries_by_tag os) (oe_tag e) = None) ns)"
    using dd d1_rest by auto
  have c: "co_outbounds ?c = outbounds_of os" "co_default ?c = (case os of [] \<Rightarrow> None | e # _ \<Rightarrow> Some (oe_tag e))"
    by (simp_all add: core_of_def os)
  note out = outbounds_replaced [OF os ns def c R A]
  obtain x where x: "core_apply d ?c = (let c' = (fold core_add_outbound ?A (fold core_del_outbound ?R ?c))\<lparr>co_inbounds := x\<rparr>
     in case hd_routing d of None \<Rightarrow> c' | Some raw \<Rightarrow> core_apply_routing raw c')"
    by (rule core_apply_parts)
  let ?o = "fold core_add_outbound ?A (fold core_del_outbound ?R ?c)"
  have fields: "co_outbounds (core_apply d ?c) = co_outbounds ?o" "co_default (core_apply d ?c) = co_default ?o"
      "co_static (core_apply d ?c) = co_static ?o"
      "co_routing (core_apply d ?c) = (case hd_routing d of None \<Rightarrow> co_routing ?o
         | Some raw \<Rightarrow> (fst (co_routing ?o), snd (routing_of raw)))"
    by (cases "hd_routing d", simp_all add: x Let_def core_apply_routing_def)+
  have old_fields: "co_inbounds ?c = inbounds_of (cf_inbounds old)" "co_routing ?c = routing_of (cf_routing old)"
      "co_static ?c = map normal (static_sections old)"
    by (simp_all add: core_of_def Let_def)
  have new_fields: "co_inbounds ?n = inbounds_of (cf_inbounds new)" "co_outbounds ?n = outbounds_of ns"
      "co_default ?n = (case ns of [] \<Rightarrow> None | e # _ \<Rightarrow> Some (oe_tag e))" "co_routing ?n = routing_of (cf_routing new)"
      "co_static ?n = map normal (static_sections new)"
    by (simp_all add: core_of_def Let_def ns)
  have "co_inbounds (core_apply d ?c) = co_inbounds ?n"
    unfolding new_fields
    by (rule ext) (simp add: core_apply_inbounds in_ops old_fields diffInbounds_effect [OF d1 order])
  moreover have "co_routing (core_apply d ?c) = co_routing ?n"
    unfolding fields new_fields fold_outbound_fields old_fields
    using dd d1_rest by (auto simp: routing_of_def Let_def)
  ultimately show ?thesis
    by (intro core.equality) (simp_all add: fields new_fields out fold_outbound_fields old_fields static)
qed

text \<open>
  C28: a hot reload leads to the new configuration.  Whenever \<open>ComputeHotDiff\<close> returns a difference, the
  core that runs the old configuration and executes its operations (users out, inbounds out, outbounds
  out, outbounds in, inbounds in, users in, routing) is the core of the new configuration: the same
  handlers, users, outbounds, default outbound, routing and static sections up to the formatting of
  JSON, in whatever order Go visits the clients.
\<close>

theorem hot_diff_refines:
  assumes "ComputeHotDiff order (Some old) (Some new) = Some d" and "visits_all order"
  shows "core_apply d (core_of old) = core_of new"
  using assms by (rule core_apply_diff)

text \<open>Two configurations that differ in one client, and their difference.\<close>

definition sample_inbound :: "string \<Rightarrow> inbound_config" where
  "sample_inbound settings =
     \<lparr>ic_listen = '''', ic_port = 443, ic_protocol = ''vless'', ic_settings = settings, ic_stream = '''',
      ic_tag = ''in'', ic_sniffing = ''''\<rparr>"

definition sample_xconfig :: "string \<Rightarrow> xconfig" where
  "sample_xconfig settings =
     \<lparr>cf_log = '''', cf_routing = '''', cf_dns = '''', cf_inbounds = [sample_inbound settings], cf_outbounds = '''',
      cf_transport = '''', cf_policy = '''', cf_api = '''', cf_stats = '''', cf_reverse = '''', cf_fakedns = '''',
      cf_observatory = '''', cf_burstObservatory = '''', cf_metrics = '''', cf_geodata = '''', cf_env = ''''\<rparr>"

definition no_clients :: string where "no_clients = ''{'' @ jquote ''clients'' @ '':[]}''"

definition one_client :: string where
  "one_client = ''{'' @ jquote ''clients'' @ '':[{'' @ jquote ''email'' @ '':'' @ jquote ''a'' @ ''}]}''"

definition sample_diff :: hot_diff where
  "sample_diff = no_diff\<lparr>hd_addedUsers := [\<lparr>uo_tag = ''in'', uo_protocol = ''vless'', uo_email = ''a'',
      uo_user = Some [(''email'', JStr ''a'')]\<rparr>]\<rparr>"

lemma sample_diff_computed:
  "ComputeHotDiff (\<lambda>t b es. es) (Some (sample_xconfig no_clients)) (Some (sample_xconfig one_client)) = Some sample_diff"
  by code_simp

theorem hot_diff_refines_witness:
  "core_apply sample_diff (core_of (sample_xconfig no_clients)) = core_of (sample_xconfig one_client)"
  using hot_diff_refines [OF sample_diff_computed] by (simp add: visits_all_def)

section \<open>What a difference leaves alone\<close>

definition avoids :: "string \<Rightarrow> hot_diff \<Rightarrow> bool" where
  "avoids t d \<longleftrightarrow>
     t \<notin> set (hd_removedInboundTags d) \<and> t \<notin> ic_tag ` set (hd_addedInbounds d)
     \<and> t \<notin> uo_tag ` set (hd_removedUsers d) \<and> t \<notin> uo_tag ` set (hd_addedUsers d)"

lemma avoids_quiet: "avoids t d \<longleftrightarrow> quiet d t"
  by (auto simp: avoids_def quiet_def filter_empty_conv)

text \<open>An inbound with a REALITY stream or a reverse client.\<close>

definition fragile :: "inbound_config \<Rightarrow> bool" where
  "fragile ib \<longleftrightarrow> inboundUsesReality ib \<or> inboundHasReverseClient ib"

text \<open>The inbounds a difference adds where the old configuration has one with their tag.\<close>

definition swaps_ok :: "inbound_config list \<Rightarrow> hot_diff \<Rightarrow> bool" where
  "swaps_ok ibs d \<longleftrightarrow>
     (\<forall>n \<in> set (hd_addedInbounds d). \<forall>o' \<in> set ibs. ic_tag o' = ic_tag n \<longrightarrow> \<not> fragile o' \<and> \<not> fragile n)"

lemma diffInboundUsers_added: "diffInboundUsers order a b d = Some d' \<Longrightarrow> hd_addedInbounds d' = hd_addedInbounds d"
proof -
  have "hd_addedInbounds (old_users ib nc es d) = hd_addedInbounds d" for ib nc es d
    by (simp add: old_users_ops)
  moreover have "hd_addedInbounds (new_users ib oc es d) = hd_addedInbounds d" for ib oc es d
    by (induction ib oc es d rule: new_users.induct) simp_all
  ultimately show "diffInboundUsers order a b d = Some d' \<Longrightarrow> hd_addedInbounds d' = hd_addedInbounds d"
    by (auto simp: diffInboundUsers_def split: if_splits option.splits prod.splits)
qed

lemma old_inbound_protects:
  assumes st: "old_inbound order apiTag nb oldIb d = Some d'" and order: "visits_all order" and ok: "tag_ok nb"
  shows "is_api_tag apiTag t \<Longrightarrow> quiet d t \<Longrightarrow> quiet d' t"
    and "hd_addedInbounds d' = hd_addedInbounds d
      \<or> (\<exists>n. hd_addedInbounds d' = hd_addedInbounds d @ [n] \<and> ic_tag n = ic_tag oldIb \<and> \<not> fragile oldIb \<and> \<not> fragile n)"
proof -
  show "quiet d' t" if api: "is_api_tag apiTag t" and q: "quiet d t"
  proof (cases "t = ic_tag oldIb")
    case False
    then show ?thesis using old_inbound_effect(1) [OF st order ok] q same_at_quiet by blast
  next
    case True
    with st api have "d' = d" by (auto simp: old_inbound_def split: option.splits if_splits)
    with q show ?thesis by simp
  qed
  show "hd_addedInbounds d' = hd_addedInbounds d
      \<or> (\<exists>n. hd_addedInbounds d' = hd_addedInbounds d @ [n] \<and> ic_tag n = ic_tag oldIb \<and> \<not> fragile oldIb \<and> \<not> fragile n)"
    using st ok
    by (auto simp: old_inbound_def replace_inbound_def Let_def fragile_def tag_ok_def diffInboundUsers_added
        split: option.splits if_splits)
qed

lemma old_inbounds_protects:
  assumes "old_inbounds order apiTag nb ibs d = Some d'" "visits_all order" "tag_ok nb" "distinct (map ic_tag ibs)"
  shows "(is_api_tag apiTag t \<longrightarrow> quiet d t \<longrightarrow> quiet d' t)
    \<and> (\<forall>n \<in> set (hd_addedInbounds d'). n \<in> set (hd_addedInbounds d)
        \<or> (\<exists>o' \<in> set ibs. ic_tag o' = ic_tag n \<and> \<not> fragile o' \<and> \<not> fragile n))"
  using assms
proof (induction ibs arbitrary: d)
  case (Cons ib ibs)
  then obtain d1 where d1: "old_inbound order apiTag nb ib d = Some d1" "old_inbounds order apiTag nb ibs d1 = Some d'"
    by (auto split: option.splits)
  note p = old_inbound_protects [OF d1(1) Cons.prems(2,3)]
  from Cons.IH [OF d1(2) Cons.prems(2,3)] Cons.prems(4)
  have ih: "is_api_tag apiTag t \<Longrightarrow> quiet d1 t \<Longrightarrow> quiet d' t"
    "\<And>n. n \<in> set (hd_addedInbounds d') \<Longrightarrow> n \<in> set (hd_addedInbounds d1)
        \<or> (\<exists>o' \<in> set ibs. ic_tag o' = ic_tag n \<and> \<not> fragile o' \<and> \<not> fragile n)"
    by auto
  have "n \<in> set (hd_addedInbounds d) \<or> (\<exists>o' \<in> set (ib # ibs). ic_tag o' = ic_tag n \<and> \<not> fragile o' \<and> \<not> fragile n)"
    if "n \<in> set (hd_addedInbounds d')" for n
    using ih(2) [OF that] p(2) by auto
  with ih(1) p(1) [of t] show ?case by blast
qed simp

lemma new_inbounds_protects:
  assumes "new_inbounds apiTag ob ibs d = Some d'"
  shows "(is_api_tag apiTag t \<longrightarrow> quiet d t \<longrightarrow> quiet d' t)
    \<and> (\<forall>n \<in> set (hd_addedInbounds d'). n \<in> set (hd_addedInbounds d) \<or> oget ob (ic_tag n) = None)"
  using assms
proof (induction ibs arbitrary: d)
  case (Cons ib ibs)
  show ?case
  proof (cases "oget ob (ic_tag ib) = None")
    case False
    with Cons show ?thesis by auto
  next
    case True
    let ?d1 = "d\<lparr>hd_addedInbounds := hd_addedInbounds d @ [ib]\<rparr>"
    from True Cons.prems have st: "new_inbounds apiTag ob ibs ?d1 = Some d'" and a: "\<not> is_api_tag apiTag (ic_tag ib)"
      by (auto split: if_splits)
    have "is_api_tag apiTag t \<Longrightarrow> quiet d t \<Longrightarrow> quiet ?d1 t" using a by (auto simp: quiet_def)
    with Cons.IH [OF st] True show ?thesis by auto
  qed
qed simp

text \<open>
  C29: what a hot reload never touches.  The inbound of the API, over which the panel talks to Xray, is
  neither removed nor added nor are its users changed, and an inbound that replaces a running one
  with the same tag uses neither REALITY nor a reverse client, before and after.
\<close>

theorem hot_diff_protects:
  assumes "ComputeHotDiff order (Some old) (Some new) = Some d" and order: "visits_all order"
  shows "avoids ''api'' d \<and> avoids (apiTagFromConfig (cf_api new)) d \<and> swaps_ok (cf_inbounds old) d"
proof -
  let ?api = "apiTagFromConfig (cf_api new)"
  from assms(1) obtain d1 os ns where d1: "diffInbounds order old new no_diff = Some d1"
    and d: "diffRouting old new (new_outbounds (entries_by_tag os) ns (old_outbounds (entries_by_tag ns) os d1)) = Some d"
    by (auto simp: ComputeHotDiff_def diffOutbounds_def split: if_splits option.splits)
  have same: "same_at d1 d t" "hd_addedInbounds d = hd_addedInbounds d1" for t
    using diffRouting_cases [OF d, unfolded new_outbounds_ops old_outbounds_ops] by (auto simp: same_at_def)
  from d1 obtain ob nb d0 where ob: "inboundsByTag (cf_inbounds old) = Some ob"
    and nb: "inboundsByTag (cf_inbounds new) = Some nb"
    and d0: "old_inbounds order ?api nb (cf_inbounds old) no_diff = Some d0"
    and d2: "new_inbounds ?api ob (cf_inbounds new) d0 = Some d1"
    by (auto simp: diffInbounds_def Let_def split: option.splits)
  note p0 = old_inbounds_protects [OF d0 order tag_ok_index [OF nb] inboundsByTag_get(2) [OF ob]]
  note p1 = new_inbounds_protects [OF d2]
  have "quiet d t" if "is_api_tag ?api t" for t
    using that p0 p1 quiet_no_diff same_at_quiet [OF same(1)] by blast
  then have "avoids ''api'' d" "avoids ?api d" by (simp_all add: avoids_quiet is_api_tag_def)
  moreover have "\<not> fragile o' \<and> \<not> fragile n"
    if n: "n \<in> set (hd_addedInbounds d)" and o': "o' \<in> set (cf_inbounds old)" "ic_tag o' = ic_tag n" for n o'
  proof -
    have "find (\<lambda>x. ic_tag x = ic_tag n) (cf_inbounds old) = Some o'"
      using find_tag [OF inboundsByTag_get(2) [OF ob] o'(1)] o'(2) by simp
    moreover have "n \<in> set (hd_addedInbounds d0) \<or> oget ob (ic_tag n) = None"
      using n p1 same(2) by auto
    ultimately have "n \<in> set (hd_addedInbounds d0)" by (simp add: inboundsByTag_get [OF ob])
    with p0 obtain x where x: "x \<in> set (cf_inbounds old)" "ic_tag x = ic_tag n" "\<not> fragile x" "\<not> fragile n"
      by (auto simp: no_diff_def)
    have "x = o'" using find_tag [OF inboundsByTag_get(2) [OF ob] x(1)] x(2) o'
        find_tag [OF inboundsByTag_get(2) [OF ob] o'(1)] by simp
    with x show ?thesis by simp
  qed
  ultimately show ?thesis by (auto simp: swaps_ok_def)
qed

theorem hot_diff_protects_witness:
  "avoids ''api'' sample_diff \<and> swaps_ok (cf_inbounds (sample_xconfig no_clients)) sample_diff"
  using hot_diff_protects [OF sample_diff_computed] by (simp add: visits_all_def)

end
