(* ===== verification/XrayRestart.thy ===== *)
theory XrayRestart
  imports HotDiffFacts
begin

text \<open>
  Bringing the running Xray to the generated configuration (internal/web/service/xray.go): \<open>RestartXray\<close>
  with \<open>tryHotApply\<close>, which executes a difference through Xray's API, and the helpers that replace what
  is already there.  Xray itself and the process are not part of the repository: \<open>xray_host\<close> is the
  record of the calls the code makes, and the locale \<open>xray_contract\<close> states what Xray documents of them.
\<close>

section \<open>The calls\<close>

record 'w xray_host =
  xh_getConfig :: "('w, xconfig) M"
  xh_running :: "'w \<Rightarrow> bool"
  xh_stop :: "('w, unit) M"
  xh_start :: "xconfig \<Rightarrow> ('w, unit) M"
  xh_apiPort :: "'w \<Rightarrow> int"
  xh_init :: "int \<Rightarrow> ('w, unit) M"
  xh_addInbound :: "inbound_config \<Rightarrow> ('w, unit) M"
  xh_delInbound :: "string \<Rightarrow> ('w, unit) M"
  xh_addOutbound :: "string \<Rightarrow> ('w, unit) M"
  xh_delOutbound :: "string \<Rightarrow> ('w, unit) M"
  xh_addUser :: "string \<Rightarrow> string \<Rightarrow> json omap \<Rightarrow> ('w, unit) M"
  xh_removeUser :: "string \<Rightarrow> string \<Rightarrow> ('w, unit) M"
  xh_applyRouting :: "string \<Rightarrow> ('w, unit) M"

definition str_contains :: "string \<Rightarrow> string \<Rightarrow> bool" where
  "str_contains s t \<longleftrightarrow> sublist t s"

definition IsMissingHandlerErr :: "gerr \<Rightarrow> bool" where
  "IsMissingHandlerErr e \<longleftrightarrow>
     (let msg = to_lower (err_text e) in str_contains msg ''not found'' \<or> str_contains msg ''not enough information'')"

definition IsExistingTagErr :: "gerr \<Rightarrow> bool" where
  "IsExistingTagErr e \<longleftrightarrow> str_contains (to_lower (err_text e)) ''existing tag''"

definition IsUserExistsErr :: "gerr \<Rightarrow> bool" where
  "IsUserExistsErr e \<longleftrightarrow> str_contains (to_lower (err_text e)) ''already exists''"

text \<open>\<^verbatim>\<open>if err := call(); err != nil && !xray.IsMissingHandlerErr(err) { return err }\<close>\<close>

definition unless_missing :: "('w, unit) M \<Rightarrow> ('w, unit) M" where
  "unless_missing m =
     bindM (tryM m) (\<lambda>r. case r of
       Inl e \<Rightarrow> if IsMissingHandlerErr e then retM () else failM e
     | Inr _ \<Rightarrow> retM ())"

fun each :: "('a \<Rightarrow> ('w, unit) M) \<Rightarrow> 'a list \<Rightarrow> ('w, unit) M" where
  "each f [] = retM ()"
| "each f (x # xs) = thenM (f x) (each f xs)"

definition op_user :: "user_op \<Rightarrow> json omap" where
  "op_user u = (case uo_user u of Some m \<Rightarrow> m | None \<Rightarrow> [])"

definition addUserReconciling :: "'w xray_host \<Rightarrow> user_op \<Rightarrow> ('w, unit) M" where
  "addUserReconciling host u =
     bindM (tryM (xh_addUser host (uo_protocol u) (uo_tag u) (op_user u))) (\<lambda>r.
       case r of
         Inr _ \<Rightarrow> retM ()
       | Inl e \<Rightarrow>
          if \<not> IsUserExistsErr e then failM e
          else thenM (unless_missing (xh_removeUser host (uo_tag u) (uo_email u)))
                 (xh_addUser host (uo_protocol u) (uo_tag u) (op_user u)))"

definition addInboundReconciling :: "'w xray_host \<Rightarrow> inbound_config \<Rightarrow> ('w, unit) M" where
  "addInboundReconciling host ib =
     bindM (tryM (xh_addInbound host ib)) (\<lambda>r.
       case r of
         Inr _ \<Rightarrow> retM ()
       | Inl e \<Rightarrow>
          if \<not> IsExistingTagErr e then failM e
          else if ic_tag ib = '''' then failM e
          else thenM (unless_missing (xh_delInbound host (ic_tag ib))) (xh_addInbound host ib))"

definition addOutboundReconciling :: "'w xray_host \<Rightarrow> string \<Rightarrow> ('w, unit) M" where
  "addOutboundReconciling host raw =
     bindM (tryM (xh_addOutbound host raw)) (\<lambda>r.
       case r of
         Inr _ \<Rightarrow> retM ()
       | Inl e \<Rightarrow>
          if \<not> IsExistingTagErr e then failM e
          else (case unmarshal_string_field ''tag'' raw of
                  None \<Rightarrow> failM e
                | Some tag \<Rightarrow>
                   if tag = '''' then failM e
                   else thenM (unless_missing (xh_delOutbound host tag)) (xh_addOutbound host raw)))"

text \<open>Removals first, then additions, then the routing.\<close>

definition run_hot_diff :: "'w xray_host \<Rightarrow> hot_diff \<Rightarrow> ('w, unit) M" where
  "run_hot_diff host d =
     thenM (each (\<lambda>u. unless_missing (xh_removeUser host (uo_tag u) (uo_email u))) (hd_removedUsers d))
    (thenM (each (\<lambda>tag. unless_missing (xh_delInbound host tag)) (hd_removedInboundTags d))
    (thenM (each (\<lambda>tag. unless_missing (xh_delOutbound host tag)) (hd_removedOutboundTags d))
    (thenM (each (addOutboundReconciling host) (hd_addedOutbounds d))
    (thenM (each (addInboundReconciling host) (hd_addedInbounds d))
    (thenM (each (addUserReconciling host) (hd_addedUsers d))
       (case hd_routing d of None \<Rightarrow> retM () | Some raw \<Rightarrow> xh_applyRouting host raw))))))"

text \<open>Whether the running instance matches the new configuration now.\<close>

definition tryHotApply :: "client_order \<Rightarrow> 'w xray_host \<Rightarrow> xconfig \<Rightarrow> xconfig \<Rightarrow> 'w \<Rightarrow> bool \<times> 'w" where
  "tryHotApply order host oldCfg newCfg w =
     (case ComputeHotDiff order (Some oldCfg) (Some newCfg) of
        None \<Rightarrow> (False, w)
      | Some d \<Rightarrow>
         if diff_Empty d then (True, w)
         else if xh_apiPort host w \<le> 0 then (False, w)
         else (case thenM (xh_init host (xh_apiPort host w)) (run_hot_diff host d) w of
                 (Inl e, w') \<Rightarrow> (False, w')
               | (Inr _, w') \<Rightarrow> (True, w')))"

section \<open>RestartXray\<close>

definition inbound_Equals :: "inbound_config \<Rightarrow> inbound_config \<Rightarrow> bool" where
  "inbound_Equals c o' \<longleftrightarrow>
     ic_listen c = ic_listen o' \<and> ic_port c = ic_port o' \<and> ic_protocol c = ic_protocol o' \<and> ic_settings c = ic_settings o'
     \<and> ic_stream c = ic_stream o' \<and> ic_tag c = ic_tag o' \<and> ic_sniffing c = ic_sniffing o'"

definition config_Equals :: "xconfig \<Rightarrow> xconfig \<Rightarrow> bool" where
  "config_Equals c o' \<longleftrightarrow>
     list_all2 inbound_Equals (cf_inbounds c) (cf_inbounds o')
     \<and> cf_log c = cf_log o' \<and> cf_routing c = cf_routing o' \<and> cf_dns c = cf_dns o' \<and> cf_outbounds c = cf_outbounds o'
     \<and> cf_transport c = cf_transport o' \<and> cf_policy c = cf_policy o' \<and> cf_api c = cf_api o' \<and> cf_stats c = cf_stats o'
     \<and> cf_reverse c = cf_reverse o' \<and> cf_fakedns c = cf_fakedns o' \<and> cf_observatory c = cf_observatory o'
     \<and> cf_burstObservatory c = cf_burstObservatory o' \<and> cf_metrics c = cf_metrics o' \<and> cf_geodata c = cf_geodata o'
     \<and> cf_env c = cf_env o'"

text \<open>
  The package state: the configuration stored in the current process, if there is one, and the two
  flags; the world is the process and everything outside.  \<open>RestartXray\<close> holds the package lock.
\<close>

record 'w xray_state =
  xs_process :: "xconfig option"
  xs_manuallyStopped :: bool
  xs_needRestart :: bool
  xs_world :: 'w

definition in_world :: "('w, 'a) M \<Rightarrow> ('w xray_state, 'a) M" where
  "in_world m s = (case m (xs_world s) of (r, w) \<Rightarrow> (r, s\<lparr>xs_world := w\<rparr>))"

definition startProcess :: "'w xray_host \<Rightarrow> xconfig \<Rightarrow> ('w xray_state, unit) M" where
  "startProcess host cfg s = in_world (xh_start host cfg) (s\<lparr>xs_process := Some cfg\<rparr>)"

definition RestartXray :: "client_order \<Rightarrow> 'w xray_host \<Rightarrow> bool \<Rightarrow> ('w xray_state, unit) M" where
  "RestartXray order host isForce s0 =
     (if \<not> isForce \<and> xs_manuallyStopped s0 then (Inr (), s0)
      else
        (case in_world (xh_getConfig host) (s0\<lparr>xs_manuallyStopped := False\<rparr>) of
           (Inl e, s) \<Rightarrow> (Inl e, s)
         | (Inr cfg, s) \<Rightarrow>
            (case xs_process s of
               Some old \<Rightarrow>
                 if xh_running host (xs_world s) then
                   if \<not> isForce \<and> config_Equals old cfg \<and> \<not> xs_needRestart s then (Inr (), s)
                   else (let (hot, w) = (if \<not> isForce \<and> \<not> config_Equals old cfg
                                         then tryHotApply order host old cfg (xs_world s) else (False, xs_world s))
                         in if hot then (Inr (), s\<lparr>xs_process := Some cfg, xs_world := w\<rparr>)
                            else startProcess host cfg (s\<lparr>xs_world := snd (xh_stop host w)\<rparr>))
                 else startProcess host cfg s
             | None \<Rightarrow> startProcess host cfg s)))"

section \<open>What Xray promises\<close>

text \<open>
  \<open>does host view f m\<close>: if the process still runs after \<open>m\<close> succeeded then it ran before and its abstract
  state has changed by \<open>f\<close>.
\<close>

definition does :: "'w xray_host \<Rightarrow> ('w \<Rightarrow> core) \<Rightarrow> (core \<Rightarrow> core) \<Rightarrow> ('w, 'a) M \<Rightarrow> bool" where
  "does host view f m \<longleftrightarrow>
     (\<forall>w x w'. m w = (Inr x, w') \<longrightarrow> xh_running host w' \<longrightarrow> xh_running host w \<and> view w' = f (view w))"

text \<open>The same for the errors \<open>P\<close> recognises.\<close>

definition on_error :: "'w xray_host \<Rightarrow> ('w \<Rightarrow> core) \<Rightarrow> (core \<Rightarrow> core) \<Rightarrow> (gerr \<Rightarrow> bool) \<Rightarrow> ('w, 'a) M \<Rightarrow> bool" where
  "on_error host view f P m \<longleftrightarrow>
     (\<forall>w e w'. m w = (Inl e, w') \<longrightarrow> P e \<longrightarrow> xh_running host w' \<longrightarrow> xh_running host w \<and> view w' = f (view w))"

definition put_user :: "string \<Rightarrow> json omap \<Rightarrow> core \<Rightarrow> core" where
  "put_user tag user c =
     (let email = (case oget user ''email'' of Some (JStr e) \<Rightarrow> e | _ \<Rightarrow> '''') in
      c\<lparr>co_inbounds := (co_inbounds c)(tag := add_user email (json_marshal (JObj user)) (co_inbounds c tag))\<rparr>)"

locale xray_contract =
  fixes host :: "'w xray_host" and view :: "'w \<Rightarrow> core"
  assumes start: "xh_start host cfg w = (Inr (), w') \<Longrightarrow> xh_running host w' \<Longrightarrow> view w' = core_of cfg"
    and getConfig: "does host view (\<lambda>c. c) (xh_getConfig host)"
    and init: "does host view (\<lambda>c. c) (xh_init host port)"
    and delInbound: "does host view (core_del_inbound tag) (xh_delInbound host tag)"
    and delInbound_missing: "on_error host view (core_del_inbound tag) IsMissingHandlerErr (xh_delInbound host tag)"
    and addInbound: "does host view (core_add_inbound ib) (xh_addInbound host ib)"
    and addInbound_existing: "on_error host view (\<lambda>c. c) IsExistingTagErr (xh_addInbound host ib)"
    and delOutbound: "does host view (core_del_outbound tag) (xh_delOutbound host tag)"
    and delOutbound_missing: "on_error host view (core_del_outbound tag) IsMissingHandlerErr (xh_delOutbound host tag)"
    and addOutbound: "does host view (core_add_outbound raw) (xh_addOutbound host raw)"
    and addOutbound_existing: "on_error host view (\<lambda>c. c) IsExistingTagErr (xh_addOutbound host raw)"
    and removeUser: "does host view (core_del_user tag email) (xh_removeUser host tag email)"
    and removeUser_missing: "on_error host view (core_del_user tag email) IsMissingHandlerErr (xh_removeUser host tag email)"
    and addUser: "does host view (put_user tag user) (xh_addUser host protocol tag user)"
    and addUser_existing: "on_error host view (\<lambda>c. c) IsUserExistsErr (xh_addUser host protocol tag user)"
    and applyRouting: "does host view (core_apply_routing raw) (xh_applyRouting host raw)"

section \<open>The client\<close>

text \<open>Users in a difference carry the email they are filed under.\<close>

definition user_op_ok :: "user_op \<Rightarrow> bool" where
  "user_op_ok u \<longleftrightarrow> oget (op_user u) ''email'' = Some (JStr (uo_email u))"

lemma put_user_op: "user_op_ok u \<Longrightarrow> put_user (uo_tag u) (op_user u) = core_add_user u"
  by (simp add: user_op_ok_def put_user_def core_add_user_def user_norm_def op_user_def fun_eq_iff)

lemma diffInboundUsers_ops_ok:
  assumes d: "diffInboundUsers order a b d = Some d'" and order: "visits_all order"
    and ok: "\<forall>u \<in> set (hd_addedUsers d). user_op_ok u"
  shows "\<forall>u \<in> set (hd_addedUsers d'). user_op_ok u"
proof -
  from d obtain oc nc r r' where nc: "splitSettingsClients (ic_settings b) = Some (nc, r')"
      and oc: "splitSettingsClients (ic_settings a) = Some (oc, r)"
    and d': "d' = new_users a oc (order (ic_tag a) True nc) (old_users a nc (order (ic_tag a) False oc) d)"
    by (auto simp: diffInboundUsers_def split: if_splits option.splits prod.splits)
  have wf: "owf nc" using split_clients_ok [OF nc] by (simp add: clients_ok_def)
  have visited: "\<And>e c. (e, c) \<in> set (order (ic_tag a) True nc) \<Longrightarrow> oget nc e = Some c"
    using oget_mem [OF wf] visits_set [OF order] by simp
  have "user_op_ok (put_op a nc e)" if "oget nc e = Some c" for e c
    using split_clients_ok [OF nc] that
    by (simp add: clients_ok_def user_op_ok_def op_user_def put_op_def drop_op_def)
  then show ?thesis
    using ok visited by (auto simp: d' old_users_ops new_users_ops [OF visited])
qed

lemma old_inbounds_ops_ok:
  "old_inbounds order apiTag nb ibs d = Some d' \<Longrightarrow> visits_all order \<Longrightarrow>
     \<forall>u \<in> set (hd_addedUsers d). user_op_ok u \<Longrightarrow> \<forall>u \<in> set (hd_addedUsers d'). user_op_ok u"
proof (induction ibs arbitrary: d)
  case (Cons ib ibs)
  then obtain d1 where d1: "old_inbound order apiTag nb ib d = Some d1" "old_inbounds order apiTag nb ibs d1 = Some d'"
    by (auto split: option.splits)
  have "\<forall>u \<in> set (hd_addedUsers d1). user_op_ok u"
    using d1(1) Cons.prems(3) diffInboundUsers_ops_ok [OF _ Cons.prems(2,3)]
    by (auto simp: old_inbound_def replace_inbound_def Let_def split: option.splits if_splits)
  with Cons.IH [OF d1(2) Cons.prems(2)] show ?case by blast
qed simp

lemma new_inbounds_users: "new_inbounds apiTag ob ibs d = Some d' \<Longrightarrow> hd_addedUsers d' = hd_addedUsers d"
  by (induction ibs arbitrary: d) (fastforce split: if_splits)+

lemma hot_diff_users_ok:
  assumes "ComputeHotDiff order (Some old) (Some new) = Some d" "visits_all order" "u \<in> set (hd_addedUsers d)"
  shows "user_op_ok u"
proof -
  from assms(1) obtain d1 os ns where d1: "diffInbounds order old new no_diff = Some d1"
    and d: "diffRouting old new (new_outbounds (entries_by_tag os) ns (old_outbounds (entries_by_tag ns) os d1)) = Some d"
    by (auto simp: ComputeHotDiff_def diffOutbounds_def split: if_splits option.splits)
  have "hd_addedUsers d = hd_addedUsers d1"
    using diffRouting_cases [OF d, unfolded new_outbounds_ops old_outbounds_ops] by auto
  with d1 assms(2,3) show ?thesis
    by (auto simp: diffInbounds_def Let_def new_inbounds_users no_diff_def dest: old_inbounds_ops_ok split: option.splits)
qed

lemma doesI:
  "(\<And>w x w'. m w = (Inr x, w') \<Longrightarrow> xh_running host w' \<Longrightarrow> xh_running host w \<and> view w' = f (view w)) \<Longrightarrow> does host view f m"
  by (simp add: does_def)

lemma doesD:
  assumes "does host view f m" "m w = (Inr x, w')" "xh_running host w'"
  shows "xh_running host w" "view w' = f (view w)"
  using assms unfolding does_def by blast+

lemma on_errorD:
  assumes "on_error host view f P m" "m w = (Inl e, w')" "P e" "xh_running host w'"
  shows "xh_running host w" "view w' = f (view w)"
  using assms unfolding on_error_def by blast+

lemma does_then:
  assumes "does host view f m" "does host view g n"
  shows "does host view (\<lambda>c. g (f c)) (thenM m n)"
proof (rule doesI)
  fix w x w' assume "thenM m n w = (Inr x, w')" and run: "xh_running host w'"
  then obtain y w1 where "m w = (Inr y, w1)" "n w1 = (Inr x, w')" by (auto simp: thenM_Inr)
  with assms run show "xh_running host w \<and> view w' = g (f (view w))" by (metis doesD)
qed

lemma does_ret: "does host view (\<lambda>c. c) (retM x)"
  by (rule doesI) auto

lemma does_unless_missing:
  assumes "does host view f m" "on_error host view f IsMissingHandlerErr m"
  shows "does host view f (unless_missing m)"
proof (rule doesI)
  fix w x w' assume u: "unless_missing m w = (Inr x, w')" and run: "xh_running host w'"
  obtain r w1 where m: "m w = (r, w1)" by (cases "m w")
  with u have "w1 = w'" "r = Inl e \<Longrightarrow> IsMissingHandlerErr e" for e
    by (auto simp: unless_missing_def bindM_apply tryM_apply split: sum.splits if_splits)
  with m have "m w = (r, w')" and miss: "\<And>e. r = Inl e \<Longrightarrow> IsMissingHandlerErr e" by simp_all
  then show "xh_running host w \<and> view w' = f (view w)"
    using doesD [OF assms(1) _ run] on_errorD [OF assms(2) _ _ run] by (cases r) simp_all
qed

lemma does_each:
  "(\<And>x. x \<in> set xs \<Longrightarrow> does host view (op x) (f x)) \<Longrightarrow> does host view (fold op xs) (each f xs)"
proof (induction xs)
  case Nil
  show ?case using does_ret by (simp add: id_def del: retM_apply)
next
  case (Cons x xs)
  then have "does host view (\<lambda>c. fold op xs (op x c)) (thenM (f x) (each f xs))" by (intro does_then) simp_all
  then show ?case by (simp add: comp_def)
qed

text \<open>Replacing what is already there: \<open>put\<close> after \<open>del\<close> is \<open>put\<close>.\<close>

lemma does_reconcile:
  assumes m: "does host view put m" "on_error host view (\<lambda>c. c) P m" and n: "does host view del n"
    and put: "\<And>c. put (del c) = put c"
  shows "does host view put (bindM (tryM m) (\<lambda>r. case r of
       Inr _ \<Rightarrow> retM () | Inl e \<Rightarrow> if \<not> P e then failM e else thenM n m))"
proof (rule doesI)
  fix w x w'
  assume u: "bindM (tryM m) (\<lambda>r. case r of Inr _ \<Rightarrow> retM () | Inl e \<Rightarrow> if \<not> P e then failM e else thenM n m) w = (Inr x, w')"
    and run: "xh_running host w'"
  obtain r w1 where r: "m w = (r, w1)" by (cases "m w")
  show "xh_running host w \<and> view w' = put (view w)"
  proof (cases r)
    case (Inr y)
    with u r have "m w = (Inr y, w')" by (simp add: bindM_apply tryM_apply)
    with m(1) run show ?thesis by (metis doesD)
  next
    case (Inl e)
    with u r have "P e" "thenM n m w1 = (Inr x, w')"
      by (auto simp: bindM_apply tryM_apply split: if_splits)
    moreover from this have "xh_running host w1 \<and> view w' = put (del (view w1))"
      using doesD [OF does_then [OF n m(1)] _ run] by blast
    ultimately show ?thesis using on_errorD [OF m(2) r [unfolded Inl]] by (simp add: put)
  qed
qed

lemma config_Equals_eq: "config_Equals a b \<longleftrightarrow> a = b"
proof -
  have "inbound_Equals = (=)" by (intro ext) (auto simp: inbound_Equals_def)
  then show ?thesis by (auto simp: config_Equals_def list.rel_eq)
qed

text \<open>The panel knows what runs.\<close>

definition knows :: "'w xray_host \<Rightarrow> ('w \<Rightarrow> core) \<Rightarrow> 'w xray_state \<Rightarrow> bool" where
  "knows host view s \<longleftrightarrow>
     (\<forall>cfg. xs_process s = Some cfg \<longrightarrow> xh_running host (xs_world s) \<longrightarrow> view (xs_world s) = core_of cfg)"

context xray_contract
begin

lemma add_user_after_del: "add_user e n (del_user e x) = add_user e n x"
  by (cases x) (simp_all add: add_user_def del_user_def)

lemma does_addUser:
  assumes "user_op_ok u"
  shows "does host view (core_add_user u) (addUserReconciling host u)"
  unfolding addUserReconciling_def put_user_op [OF assms, symmetric]
proof (rule does_reconcile [where P = IsUserExistsErr])
  show "does host view (core_del_user (uo_tag u) (uo_email u)) (unless_missing (xh_removeUser host (uo_tag u) (uo_email u)))"
    by (rule does_unless_missing [OF removeUser removeUser_missing])
  show "put_user (uo_tag u) (op_user u) (core_del_user (uo_tag u) (uo_email u) c) = put_user (uo_tag u) (op_user u) c" for c
    unfolding put_user_op [OF assms] by (simp add: core_add_user_def core_del_user_def add_user_after_del)
qed (rule addUser addUser_existing)+

lemma does_addInbound: "does host view (core_add_inbound ib) (addInboundReconciling host ib)"
proof -
  let ?m = "xh_addInbound host ib" and ?n = "unless_missing (xh_delInbound host (ic_tag ib))"
  have "does host view (core_add_inbound ib) (bindM (tryM ?m) (\<lambda>r. case r of Inr _ \<Rightarrow> retM ()
      | Inl e \<Rightarrow> if \<not> (IsExistingTagErr e \<and> ic_tag ib \<noteq> '''') then failM e else thenM ?n ?m))"
  proof (rule does_reconcile)
    show "does host view (core_del_inbound (ic_tag ib)) ?n"
      by (rule does_unless_missing [OF delInbound delInbound_missing])
    show "on_error host view (\<lambda>c. c) (\<lambda>e. IsExistingTagErr e \<and> ic_tag ib \<noteq> '''') ?m"
      using addInbound_existing [of ib] by (auto simp: on_error_def)
  qed (auto simp: core_add_inbound_def core_del_inbound_def intro: addInbound)
  also have "(\<lambda>e. if \<not> (IsExistingTagErr e \<and> ic_tag ib \<noteq> '''') then failM e else thenM ?n ?m)
      = (\<lambda>e. if \<not> IsExistingTagErr e then failM e else if ic_tag ib = '''' then failM e else thenM ?n ?m)"
    by auto
  finally show ?thesis by (simp add: addInboundReconciling_def)
qed

lemma does_addOutbound: "does host view (core_add_outbound raw) (addOutboundReconciling host raw)"
proof -
  let ?m = "xh_addOutbound host raw" and ?n = "unless_missing (xh_delOutbound host (raw_tag raw))"
  have "does host view (core_add_outbound raw) (bindM (tryM ?m) (\<lambda>r. case r of Inr _ \<Rightarrow> retM ()
      | Inl e \<Rightarrow> if \<not> (IsExistingTagErr e \<and> raw_tag raw \<noteq> '''') then failM e else thenM ?n ?m))"
  proof (rule does_reconcile)
    show "does host view (core_del_outbound (raw_tag raw)) ?n"
      by (rule does_unless_missing [OF delOutbound delOutbound_missing])
    show "on_error host view (\<lambda>c. c) (\<lambda>e. IsExistingTagErr e \<and> raw_tag raw \<noteq> '''') ?m"
      using addOutbound_existing [of raw] by (auto simp: on_error_def)
    show "core_add_outbound raw (core_del_outbound (raw_tag raw) c) = core_add_outbound raw c" for c
      by (simp add: core_add_outbound_def core_del_outbound_def)
  qed (rule addOutbound)
  also have "(\<lambda>e. if \<not> (IsExistingTagErr e \<and> raw_tag raw \<noteq> '''') then failM e else thenM ?n ?m)
      = (\<lambda>e. if \<not> IsExistingTagErr e then failM e
          else (case unmarshal_string_field ''tag'' raw of None \<Rightarrow> failM e
                | Some tag \<Rightarrow> if tag = '''' then failM e
                    else thenM (unless_missing (xh_delOutbound host tag)) ?m))"
    by (auto simp: raw_tag_def split: option.split)
  finally show ?thesis by (simp add: addOutboundReconciling_def)
qed

lemma does_hot_diff:
  assumes "\<And>u. u \<in> set (hd_addedUsers d) \<Longrightarrow> user_op_ok u"
  shows "does host view (core_apply d) (run_hot_diff host d)"
proof -
  have r: "does host view (\<lambda>c. case hd_routing d of None \<Rightarrow> c | Some raw \<Rightarrow> core_apply_routing raw c)
      (case hd_routing d of None \<Rightarrow> retM () | Some raw \<Rightarrow> xh_applyRouting host raw)"
    using does_ret applyRouting by (cases "hd_routing d") simp_all
  show ?thesis
    unfolding run_hot_diff_def core_apply_def Let_def
    by (intro does_then does_each does_unless_missing removeUser removeUser_missing delInbound delInbound_missing
        delOutbound delOutbound_missing does_addOutbound does_addInbound does_addUser assms r)
qed

lemma hot_apply_reaches:
  assumes st: "tryHotApply order host old new w = (True, w')" and order: "visits_all order"
    and run: "xh_running host w'"
  shows "xh_running host w \<and> (view w = core_of old \<longrightarrow> view w' = core_of new)"
proof -
  from st obtain d where d: "ComputeHotDiff order (Some old) (Some new) = Some d"
    and cases: "diff_Empty d \<and> w' = w
      \<or> thenM (xh_init host (xh_apiPort host w)) (run_hot_diff host d) w = (Inr (), w')"
    by (auto simp: tryHotApply_def split: option.splits if_splits prod.splits sum.splits)
  have refined: "core_apply d (core_of old) = core_of new"
    by (rule core_apply_diff [OF d order])
  from cases show ?thesis
  proof
    assume "diff_Empty d \<and> w' = w"
    moreover from this have "core_apply d c = c" for c by (simp add: diff_Empty_def core_apply_def)
    ultimately show ?thesis using run refined by simp
  next
    assume "thenM (xh_init host (xh_apiPort host w)) (run_hot_diff host d) w = (Inr (), w')"
    from doesD [OF does_then [OF init does_hot_diff] this run] hot_diff_users_ok [OF d order]
    show ?thesis using refined by simp
  qed
qed

lemma knows_start:
  assumes "startProcess host cfg s = (Inr (), s')"
  shows "knows host view s' \<and> xs_process s' = Some cfg \<and> xs_manuallyStopped s' = xs_manuallyStopped s"
  using assms start
  by (auto simp: startProcess_def in_world_def knows_def split: prod.splits)

lemma restart_reaches:
  assumes st: "RestartXray order host isForce s = (Inr (), s')" and order: "visits_all order" and kn: "knows host view s"
    and go: "isForce \<or> \<not> xs_manuallyStopped s"
  shows "\<exists>cfg w. xh_getConfig host (xs_world s) = (Inr cfg, w) \<and> xs_process s' = Some cfg \<and> knows host view s'
    \<and> \<not> xs_manuallyStopped s'"
proof -
  let ?s0 = "s\<lparr>xs_manuallyStopped := False\<rparr>"
  obtain r w where g: "xh_getConfig host (xs_world s) = (r, w)" by (cases "xh_getConfig host (xs_world s)")
  with st go obtain cfg where r: "r = Inr cfg"
    by (cases r) (auto simp: RestartXray_def in_world_def split: if_splits)
  let ?s = "?s0\<lparr>xs_world := w\<rparr>"
  have kn1: "knows host view ?s"
    using kn doesD [OF getConfig g [unfolded r]] by (auto simp: knows_def)
  have started: "\<exists>cfg w. xh_getConfig host (xs_world s) = (Inr cfg, w) \<and> xs_process s' = Some cfg \<and> knows host view s'
      \<and> \<not> xs_manuallyStopped s'" if "startProcess host cfg t = (Inr (), s')" "\<not> xs_manuallyStopped t" for t
    using knows_start [OF that(1)] that(2) g r by auto
  show ?thesis
  proof (cases "xs_process s")
    case None
    with st go g r show ?thesis by (intro started) (auto simp: RestartXray_def in_world_def split: if_splits)
  next
    case (Some old)
    show ?thesis
    proof (cases "xh_running host w")
      case False
      with Some st go g r show ?thesis
        by (intro started [of ?s]) (auto simp: RestartXray_def in_world_def split: if_splits)
    next
      case True
      let ?hot = "if \<not> isForce \<and> \<not> config_Equals old cfg then tryHotApply order host old cfg w else (False, w)"
      obtain hot w1 where hot: "?hot = (hot, w1)" by (cases ?hot)
      have eq: "RestartXray order host isForce s
          = (if \<not> isForce \<and> config_Equals old cfg \<and> \<not> xs_needRestart s then (Inr (), ?s)
             else if hot then (Inr (), ?s\<lparr>xs_process := Some cfg, xs_world := w1\<rparr>)
             else startProcess host cfg (?s\<lparr>xs_world := snd (xh_stop host w1)\<rparr>))"
        using go g r Some True hot by (auto simp: RestartXray_def in_world_def)
      consider "\<not> isForce" "config_Equals old cfg" "\<not> xs_needRestart s" "s' = ?s"
        | w1 where "tryHotApply order host old cfg w = (True, w1)" "s' = ?s\<lparr>xs_process := Some cfg, xs_world := w1\<rparr>"
        | w2 where "startProcess host cfg (?s\<lparr>xs_world := w2\<rparr>) = (Inr (), s')"
        using st hot unfolding eq by (auto split: if_splits)
      then show ?thesis
      proof cases
        case 1
        then show ?thesis using g r kn1 Some by (auto simp: config_Equals_eq)
      next
        case 2
        then have "knows host view s'" using hot_apply_reaches [OF 2(1) order] kn1 Some by (auto simp: knows_def)
        with 2 g r show ?thesis by auto
      next
        case 3
        then show ?thesis by (rule started) simp
      qed
    qed
  qed
qed

end

section \<open>A simulated Xray\<close>

text \<open>
  The contract on the abstract core itself, with the errors Xray answers: the world is whether the
  process runs, its core and the configuration the panel generates next.
\<close>

record sim =
  sm_running :: bool
  sm_core :: core
  sm_next :: xconfig

definition sim_step :: "bool \<Rightarrow> string \<Rightarrow> (core \<Rightarrow> core) \<Rightarrow> (sim, unit) M" where
  "sim_step refused msg f s = (if refused then (Inl (Errorf msg), s) else (Inr (), s\<lparr>sm_core := f (sm_core s)\<rparr>))"

definition user_known :: "string \<Rightarrow> string \<Rightarrow> core \<Rightarrow> bool" where
  "user_known tag email c = (case co_inbounds c tag of None \<Rightarrow> False | Some i \<Rightarrow> ci_users i email \<noteq> None)"

definition core_host :: "sim xray_host" where
  "core_host =
     \<lparr>xh_getConfig = (\<lambda>s. (Inr (sm_next s), s)),
      xh_running = sm_running,
      xh_stop = (\<lambda>s. (Inr (), s\<lparr>sm_running := False\<rparr>)),
      xh_start = (\<lambda>cfg s. (Inr (), s\<lparr>sm_running := True, sm_core := core_of cfg\<rparr>)),
      xh_apiPort = (\<lambda>s. 62789),
      xh_init = (\<lambda>port s. (Inr (), s)),
      xh_addInbound = (\<lambda>ib s. sim_step (co_inbounds (sm_core s) (ic_tag ib) \<noteq> None) ''existing tag found'' (core_add_inbound ib) s),
      xh_delInbound = (\<lambda>tag s. sim_step (co_inbounds (sm_core s) tag = None) ''not found'' (core_del_inbound tag) s),
      xh_addOutbound = (\<lambda>raw s. sim_step (co_outbounds (sm_core s) (raw_tag raw) \<noteq> None) ''existing tag found'' (core_add_outbound raw) s),
      xh_delOutbound = (\<lambda>tag s. sim_step False '''' (core_del_outbound tag) s),
      xh_addUser = (\<lambda>protocol tag user s.
         if co_inbounds (sm_core s) tag = None then (Inl (Errorf ''not enough information for making a decision''), s)
         else sim_step (user_known tag (case oget user ''email'' of Some (JStr e) \<Rightarrow> e | _ \<Rightarrow> '''') (sm_core s))
                ''already exists'' (put_user tag user) s),
      xh_removeUser = (\<lambda>tag email s. sim_step (\<not> user_known tag email (sm_core s)) ''not found'' (core_del_user tag email) s),
      xh_applyRouting = (\<lambda>raw s. sim_step False '''' (core_apply_routing raw) s)\<rparr>"

lemma sim_calls:
  "xh_running core_host = sm_running"
  "xh_getConfig core_host = (\<lambda>s. (Inr (sm_next s), s))"
  "xh_stop core_host = (\<lambda>s. (Inr (), s\<lparr>sm_running := False\<rparr>))"
  "xh_start core_host cfg = (\<lambda>s. (Inr (), s\<lparr>sm_running := True, sm_core := core_of cfg\<rparr>))"
  "xh_apiPort core_host = (\<lambda>s. 62789)"
  "xh_init core_host port = (\<lambda>s. (Inr (), s))"
  "xh_addInbound core_host ib
     = (\<lambda>s. sim_step (co_inbounds (sm_core s) (ic_tag ib) \<noteq> None) ''existing tag found'' (core_add_inbound ib) s)"
  "xh_delInbound core_host tag
     = (\<lambda>s. sim_step (co_inbounds (sm_core s) tag = None) ''not found'' (core_del_inbound tag) s)"
  "xh_addOutbound core_host raw
     = (\<lambda>s. sim_step (co_outbounds (sm_core s) (raw_tag raw) \<noteq> None) ''existing tag found'' (core_add_outbound raw) s)"
  "xh_delOutbound core_host tag = (\<lambda>s. sim_step False '''' (core_del_outbound tag) s)"
  "xh_removeUser core_host tag email
     = (\<lambda>s. sim_step (\<not> user_known tag email (sm_core s)) ''not found'' (core_del_user tag email) s)"
  "xh_applyRouting core_host raw = (\<lambda>s. sim_step False '''' (core_apply_routing raw) s)"
  by (simp_all add: core_host_def)

lemmas sim_running = sim_calls(1)

lemma sim_does: "does core_host sm_core f (\<lambda>s. sim_step (b s) msg f s)"
  by (rule doesI) (auto simp: sim_step_def sim_running split: if_splits)

lemma sim_error:
  "(\<And>s. b s \<Longrightarrow> f (sm_core s) = sm_core s) \<Longrightarrow> on_error core_host sm_core f P (\<lambda>s. sim_step (b s) msg f s)"
  by (auto simp: on_error_def sim_step_def sim_running split: if_splits)

lemma sim_unchanged: "on_error core_host sm_core (\<lambda>c. c) P (\<lambda>s. sim_step (b s) msg f s)"
  by (auto simp: on_error_def sim_step_def split: if_splits)

lemma core_del_inbound_absent: "co_inbounds c tag = None \<Longrightarrow> core_del_inbound tag c = c"
  by (simp add: core_del_inbound_def fun_upd_idem del: fun_upd_apply)

lemma core_del_user_absent: "\<not> user_known tag email c \<Longrightarrow> core_del_user tag email c = c"
  by (auto simp: user_known_def core_del_user_def del_user_def fun_upd_idem split: option.splits simp del: fun_upd_apply)

interpretation sim: xray_contract core_host sm_core
proof unfold_locales
  fix cfg w w' assume "xh_start core_host cfg w = (Inr (), w')" "xh_running core_host w'"
  then show "sm_core w' = core_of cfg" by (auto simp: core_host_def)
next
  fix protocol tag user
  show "does core_host sm_core (put_user tag user) (xh_addUser core_host protocol tag user)"
    by (rule doesI) (auto simp: core_host_def sim_step_def split: if_splits)
  show "on_error core_host sm_core (\<lambda>c. c) IsUserExistsErr (xh_addUser core_host protocol tag user)"
    by (auto simp: on_error_def core_host_def sim_step_def split: if_splits)
qed (unfold sim_calls(2-),
     (rule sim_does | rule sim_unchanged
      | (rule sim_error, simp add: core_del_inbound_absent core_del_user_absent)
      | (rule doesI, simp))+)


definition sample_xray_state :: "sim xray_state" where
  "sample_xray_state =
     \<lparr>xs_process = Some (sample_xconfig no_clients), xs_manuallyStopped = False, xs_needRestart = False,
      xs_world = \<lparr>sm_running = True, sm_core = core_of (sample_xconfig no_clients), sm_next = sample_xconfig one_client\<rparr>\<rparr>"

lemma sample_restart:
  "RestartXray (\<lambda>t b es. es) core_host False sample_xray_state
     = (Inr (), sample_xray_state\<lparr>xs_process := Some (sample_xconfig one_client),
         xs_world := \<lparr>sm_running = True, sm_core = core_of (sample_xconfig one_client), sm_next = sample_xconfig one_client\<rparr>\<rparr>)"
proof -
  let ?w = "xs_world sample_xray_state"
  let ?u = "\<lparr>uo_tag = ''in'', uo_protocol = ''vless'', uo_email = ''a'', uo_user = Some [(''email'', JStr ''a'')]\<rparr>"
  have u: "user_op_ok ?u" by (simp add: user_op_ok_def op_user_def oget_def)
  have i: "co_inbounds (core_of (sample_xconfig no_clients)) ''in'' = Some (core_inbound (sample_inbound no_clients))"
    by (simp add: core_of_def Let_def inbounds_of_def sample_xconfig_def sample_inbound_def)
  have n: "\<not> user_known ''in'' ''a'' (core_of (sample_xconfig no_clients))"
  proof -
    have "ci_users (core_inbound (sample_inbound no_clients)) ''a'' = None" by code_simp
    then show ?thesis by (simp add: user_known_def i)
  qed
  have "xh_addUser core_host ''vless'' ''in'' [(''email'', JStr ''a'')] ?w
      = (Inr (), ?w\<lparr>sm_core := core_apply sample_diff (sm_core ?w)\<rparr>)"
    using i n put_user_op [OF u]
    by (simp add: core_host_def sample_xray_state_def sim_step_def sample_diff_def core_apply_def no_diff_def
        op_user_def oget_def)
  then have "tryHotApply (\<lambda>t b es. es) core_host (sample_xconfig no_clients) (sample_xconfig one_client) ?w
      = (True, ?w\<lparr>sm_core := core_of (sample_xconfig one_client)\<rparr>)"
    using core_apply_diff [OF sample_diff_computed]
    by (simp add: tryHotApply_def sample_diff_computed sim_calls monad_simps run_hot_diff_def addUserReconciling_def
        diff_Empty_def sample_diff_def no_diff_def op_user_def sample_xray_state_def visits_all_def)
  moreover have "\<not> config_Equals (sample_xconfig no_clients) (sample_xconfig one_client)" by code_simp
  ultimately show ?thesis
    by (simp add: RestartXray_def sample_xray_state_def in_world_def sim_calls)
qed


end
