(* ===== verification/GoLoops.thy ===== *)
theory GoLoops
  imports PanelState
begin

text \<open>
  Loops over statements and the helpers the services share: a \<^verbatim>\<open>for range\<close> whose body may fail, the
  batches of an IN list, lists without duplicates (internal/web/service/inbound\_util.go), int64
  arithmetic, and a nested transaction (a savepoint), with their preservation rules.
\<close>

section \<open>Loops\<close>

text \<open>\<^verbatim>\<open>for _, x := range xs { if err := body(x); err != nil { return err } }\<close> over a variable \<open>a\<close>.\<close>

primrec foldM :: "('x \<Rightarrow> 'a \<Rightarrow> ('s, 'a) M) \<Rightarrow> 'x list \<Rightarrow> 'a \<Rightarrow> ('s, 'a) M" where
  "foldM body [] a = retM a"
| "foldM body (x # xs) a = bindM (body x a) (foldM body xs)"

definition forM :: "('x \<Rightarrow> ('s, unit) M) \<Rightarrow> 'x list \<Rightarrow> ('s, unit) M" where
  "forM body xs = foldM (\<lambda>x _. body x) xs ()"

lemma forM_simps [simp]: "forM body [] = retM ()" "forM body (x # xs) = thenM (body x) (forM body xs)"
  by (simp_all add: forM_def thenM_def)

lemma keeps_foldM [keeps]:
  "preorderR R \<Longrightarrow> (\<And>x a. keepsM R (body x a)) \<Longrightarrow> keepsM R (foldM body xs a)"
  by (induction xs arbitrary: a) (auto intro!: keeps)

lemma keeps_forM [keeps]: "preorderR R \<Longrightarrow> (\<And>x. keepsM R (body x)) \<Longrightarrow> keepsM R (forM body xs)"
  unfolding forM_def by (intro keeps)

lemma foldM_append: "foldM body (xs @ ys) a = bindM (foldM body xs a) (foldM body ys)"
  by (induction xs arbitrary: a) (auto simp: fun_eq_iff bindM_apply split: prod.splits sum.splits)

lemma keeps_catch [keeps]: "keepsM R m \<Longrightarrow> keepsM R (catchM m)"
  unfolding keepsM_def catchM_def by (auto split: prod.splits sum.splits) (metis snd_conv)+

lemma catchM_Inr:
  "catchM m s = (Inr r, s') \<longleftrightarrow> m s = (r, s') \<and> (\<forall>e. r = Inl e \<longrightarrow> \<not> is_panic e)"
  by (auto simp: catchM_def split: prod.splits sum.splits if_splits)

lemma catchM_Inl: "catchM m s = (Inl e, s') \<longleftrightarrow> m s = (Inl e, s') \<and> is_panic e"
  by (auto simp: catchM_def split: prod.splits sum.splits if_splits)

text \<open>An invariant of the loop variable and the state, for every iteration that succeeds.\<close>

lemma foldM_invariant:
  assumes "foldM body xs a s = (Inr b, s')" "I a s"
    "\<And>x a s b s'. x \<in> set xs \<Longrightarrow> I a s \<Longrightarrow> body x a s = (Inr b, s') \<Longrightarrow> I b s'"
  shows "I b s'"
  using assms
proof (induction xs arbitrary: a s)
  case Nil
  then show ?case by simp
next
  case (Cons x xs)
  from Cons.prems(1) obtain c t where c: "body x a s = (Inr c, t)" "foldM body xs c t = (Inr b, s')"
    by (auto simp: bindM_Inr)
  have "I c t" using Cons.prems(3) [OF _ Cons.prems(2) c(1)] by simp
  then show ?case
  proof (rule Cons.IH [OF c(2)])
    fix y d u d' u'
    assume "y \<in> set xs" "I d u" "body y d u = (Inr d', u')"
    then show "I d' u'" using Cons.prems(3) [of y d u d' u'] by simp
  qed
qed

section \<open>Batches and lists without duplicates\<close>

function chunks :: "nat \<Rightarrow> 'a list \<Rightarrow> 'a list list" where
  "chunks n xs = (if n = 0 \<or> xs = [] then [] else take n xs # chunks n (drop n xs))"
  by auto
termination by (relation "measure (\<lambda>(n, xs). length xs)") auto

declare chunks.simps [simp del]

lemma chunks_Nil [simp]: "chunks n [] = []"
  by (simp add: chunks.simps)

lemma concat_chunks [simp]: "0 < n \<Longrightarrow> concat (chunks n xs) = xs"
  by (induction n xs rule: chunks.induct) (subst chunks.simps, auto)

lemma in_chunks: "0 < n \<Longrightarrow> (\<exists>b \<in> set (chunks n xs). x \<in> set b) \<longleftrightarrow> x \<in> set xs"
  by (metis concat_chunks set_concat UN_iff)

lemma chunks_length: "b \<in> set (chunks n xs) \<Longrightarrow> length b \<le> n"
  by (induction n xs rule: chunks.induct) (subst (asm) (2) chunks.simps, auto split: if_splits)

lemma chunks_short: "xs \<noteq> [] \<Longrightarrow> length xs \<le> n \<Longrightarrow> chunks n xs = [xs]"
  by (cases xs) (auto simp: chunks.simps [of n "x # xs" for x xs])

definition sqliteMaxVars :: nat where
  "sqliteMaxVars = 900"

definition sqlInChunk :: nat where
  "sqlInChunk = 400"

lemmas batch_sizes [simp] = sqliteMaxVars_def sqlInChunk_def

text \<open>The first occurrences, in order.\<close>

fun firsts :: "'a set \<Rightarrow> 'a list \<Rightarrow> 'a list" where
  "firsts seen [] = []"
| "firsts seen (x # xs) = (if x \<in> seen then firsts seen xs else x # firsts (insert x seen) xs)"

lemma firsts_spec: "set (firsts seen xs) = set xs - seen \<and> distinct (firsts seen xs)"
  by (induction seen xs rule: firsts.induct) auto

definition uniqueInts :: "int list \<Rightarrow> int list" where
  "uniqueInts xs = firsts {} xs"

definition uniqueNonEmptyStrings :: "string list \<Rightarrow> string list" where
  "uniqueNonEmptyStrings xs = firsts {} (filter (\<lambda>v. v \<noteq> '''') xs)"

lemma uniqueInts_spec [simp]: "set (uniqueInts xs) = set xs" "distinct (uniqueInts xs)"
  by (simp_all add: uniqueInts_def firsts_spec)

lemma uniqueNonEmptyStrings_spec [simp]:
  "set (uniqueNonEmptyStrings xs) = set xs - {''''}" "distinct (uniqueNonEmptyStrings xs)"
  by (auto simp: uniqueNonEmptyStrings_def firsts_spec)

section \<open>int64\<close>

definition wrap64 :: "int \<Rightarrow> int" where
  "wrap64 x = (x + 2 ^ 63) mod 2 ^ 64 - 2 ^ 63"

definition is_int64 :: "int \<Rightarrow> bool" where
  "is_int64 x \<longleftrightarrow> - (2 ^ 63) \<le> x \<and> x < 2 ^ 63"

lemma wrap64_id [simp]: "is_int64 x \<Longrightarrow> wrap64 x = x"
  by (simp add: wrap64_def is_int64_def)

lemma is_int64_wrap64 [simp]: "is_int64 (wrap64 x)"
proof -
  have "0 \<le> (x + 2 ^ 63) mod 2 ^ 64" "(x + 2 ^ 63) mod 2 ^ 64 < 2 ^ 64" by simp_all
  then show ?thesis by (simp add: wrap64_def is_int64_def)
qed

section \<open>Savepoints\<close>

text \<open>\<^verbatim>\<open>CreateInBatches\<close> of more than one batch: all the statements or none.\<close>

definition savepointM :: "'a W \<Rightarrow> 'a W" where
  "savepointM m = (\<lambda>w. case m w of (Inl e, w') \<Rightarrow> (Inl e, w'\<lparr>w_db := w_db w\<rparr>) | (Inr x, w') \<Rightarrow> (Inr x, w'))"

lemma keeps_savepoint [keeps]:
  "preorderR R \<Longrightarrow> keepsM (db_rel R) m \<Longrightarrow> keepsM (db_rel R) (savepointM m)"
  by (auto simp: keepsM_def savepointM_def db_rel_def preorderR_refl split: prod.splits sum.splits)
     (metis snd_conv)+

lemma savepointM_Inr: "savepointM m s = (Inr x, s') \<longleftrightarrow> m s = (Inr x, s')"
  by (auto simp: savepointM_def split: prod.splits sum.splits)

end
