(* ===== verification/ClientTables.thy ===== *)
theory ClientTables
  imports GoLoops LineStore JsonDecode
begin

text \<open>
  The clients of an inbound, kept twice: as the JSON list in its settings
  (internal/web/service/inbound\_settings\_clients.go reads it) and in the tables \<^verbatim>\<open>clients\<close> and
  \<^verbatim>\<open>client_inbounds\<close>.  \<open>SyncInbound\<close> (client\_link.go) brings the tables in line with the list,
  merging into the rows that exist.  Members of a client's JSON object are taken in key order, which
  is the order of every text \<^verbatim>\<open>json.Marshal\<close> writes.
\<close>

section \<open>model.Client\<close>

record client =
  u_id :: string
  u_security :: string
  u_password :: string
  u_flow :: string
  u_reverse :: "string option"
  u_auth :: string
  u_privateKey :: string
  u_publicKey :: string
  u_allowedIPs :: "string list"
  u_preSharedKey :: string
  u_keepAlive :: int
  u_secret :: string
  u_adTag :: string
  u_email :: string
  u_limitIP :: int
  u_totalGB :: int
  u_expiryTime :: int
  u_enable :: bool
  u_tgID :: int
  u_subID :: string
  u_group :: string
  u_comment :: string
  u_reset :: int
  u_createdAt :: int
  u_updatedAt :: int

definition zero_client :: client where
  "zero_client = \<lparr>u_id = '''', u_security = '''', u_password = '''', u_flow = '''', u_reverse = None,
     u_auth = '''', u_privateKey = '''', u_publicKey = '''', u_allowedIPs = [], u_preSharedKey = '''',
     u_keepAlive = 0, u_secret = '''', u_adTag = '''', u_email = '''', u_limitIP = 0, u_totalGB = 0,
     u_expiryTime = 0, u_enable = False, u_tgID = 0, u_subID = '''', u_group = '''', u_comment = '''',
     u_reset = 0, u_createdAt = 0, u_updatedAt = 0\<rparr>"

section \<open>Decoding\<close>

text \<open>
  \<^verbatim>\<open>json.Unmarshal\<close> into a string, an int64 (an integer literal in range), a bool: null leaves the
  field, another kind is an error.
\<close>

definition dec_str :: "(string \<Rightarrow> 'r \<Rightarrow> 'r) \<Rightarrow> json \<Rightarrow> 'r \<Rightarrow> 'r option" where
  "dec_str f v r = (case v of JStr s \<Rightarrow> Some (f s r) | JNull \<Rightarrow> Some r | _ \<Rightarrow> None)"

definition dec_int :: "(int \<Rightarrow> 'r \<Rightarrow> 'r) \<Rightarrow> json \<Rightarrow> 'r \<Rightarrow> 'r option" where
  "dec_int f v r =
     (case v of JNum n \<Rightarrow> map_option (\<lambda>i. f i r) (atoi n) | JNull \<Rightarrow> Some r | _ \<Rightarrow> None)"

definition dec_bool :: "(bool \<Rightarrow> 'r \<Rightarrow> 'r) \<Rightarrow> json \<Rightarrow> 'r \<Rightarrow> 'r option" where
  "dec_bool f v r = (case v of JBool b \<Rightarrow> Some (f b r) | JNull \<Rightarrow> Some r | _ \<Rightarrow> None)"

text \<open>
  An array of strings decoded over the slice \<open>old\<close>: a null element keeps what the slice has at its
  place.
\<close>

fun dec_strings :: "string list \<Rightarrow> json list \<Rightarrow> string list option" where
  "dec_strings old [] = Some []"
| "dec_strings old (v # vs) =
     (case v of
        JStr s \<Rightarrow> map_option ((#) s) (dec_strings (tl old) vs)
      | JNull \<Rightarrow> map_option ((#) (case old of [] \<Rightarrow> '''' | s # _ \<Rightarrow> s)) (dec_strings (tl old) vs)
      | _ \<Rightarrow> None)"

definition dec_allowedIPs :: "json \<Rightarrow> client \<Rightarrow> client option" where
  "dec_allowedIPs v c =
     (case v of
        JArr vs \<Rightarrow> map_option (\<lambda>ss. c\<lparr>u_allowedIPs := ss\<rparr>) (dec_strings (u_allowedIPs c) vs)
      | JNull \<Rightarrow> Some (c\<lparr>u_allowedIPs := []\<rparr>)
      | _ \<Rightarrow> None)"

text \<open>The members of an object, each looked up among the fields of the struct.\<close>

type_synonym 'r field = "string \<times> (json \<Rightarrow> 'r \<Rightarrow> 'r option)"

definition dec_member :: "'r field list \<Rightarrow> string \<times> json \<Rightarrow> 'r \<Rightarrow> 'r option" where
  "dec_member fds kv r =
     (case find (\<lambda>f. field_is (fst f) (fst kv)) fds of
        None \<Rightarrow> Some r
      | Some f \<Rightarrow> snd f (snd kv) r)"

fun dec_members :: "'r field list \<Rightarrow> (string \<times> json) list \<Rightarrow> 'r \<Rightarrow> 'r option" where
  "dec_members fds [] r = Some r"
| "dec_members fds (kv # kvs) r =
     (case dec_member fds kv r of None \<Rightarrow> None | Some r' \<Rightarrow> dec_members fds kvs r')"

text \<open>\<^verbatim>\<open>*ClientReverse\<close>: null is the nil pointer, an object fills its tag.\<close>

definition dec_reverse :: "json \<Rightarrow> client \<Rightarrow> client option" where
  "dec_reverse v c =
     (case v of
        JNull \<Rightarrow> Some (c\<lparr>u_reverse := None\<rparr>)
      | JObj ms \<Rightarrow>
          map_option (\<lambda>t. c\<lparr>u_reverse := Some t\<rparr>)
            (dec_members [(''tag'', dec_str (\<lambda>s _. s))] ms (case u_reverse c of None \<Rightarrow> '''' | Some t \<Rightarrow> t))
      | _ \<Rightarrow> None)"

definition client_fields :: "client field list" where
  "client_fields =
    [(''id'', dec_str (\<lambda>s c. c\<lparr>u_id := s\<rparr>)),
     (''security'', dec_str (\<lambda>s c. c\<lparr>u_security := s\<rparr>)),
     (''password'', dec_str (\<lambda>s c. c\<lparr>u_password := s\<rparr>)),
     (''flow'', dec_str (\<lambda>s c. c\<lparr>u_flow := s\<rparr>)),
     (''reverse'', dec_reverse),
     (''auth'', dec_str (\<lambda>s c. c\<lparr>u_auth := s\<rparr>)),
     (''privateKey'', dec_str (\<lambda>s c. c\<lparr>u_privateKey := s\<rparr>)),
     (''publicKey'', dec_str (\<lambda>s c. c\<lparr>u_publicKey := s\<rparr>)),
     (''allowedIPs'', dec_allowedIPs),
     (''preSharedKey'', dec_str (\<lambda>s c. c\<lparr>u_preSharedKey := s\<rparr>)),
     (''keepAlive'', dec_int (\<lambda>i c. c\<lparr>u_keepAlive := i\<rparr>)),
     (''secret'', dec_str (\<lambda>s c. c\<lparr>u_secret := s\<rparr>)),
     (''adTag'', dec_str (\<lambda>s c. c\<lparr>u_adTag := s\<rparr>)),
     (''email'', dec_str (\<lambda>s c. c\<lparr>u_email := s\<rparr>)),
     (''limitIp'', dec_int (\<lambda>i c. c\<lparr>u_limitIP := i\<rparr>)),
     (''totalGB'', dec_int (\<lambda>i c. c\<lparr>u_totalGB := i\<rparr>)),
     (''expiryTime'', dec_int (\<lambda>i c. c\<lparr>u_expiryTime := i\<rparr>)),
     (''enable'', dec_bool (\<lambda>b c. c\<lparr>u_enable := b\<rparr>)),
     (''tgId'', dec_int (\<lambda>i c. c\<lparr>u_tgID := i\<rparr>)),
     (''subId'', dec_str (\<lambda>s c. c\<lparr>u_subID := s\<rparr>)),
     (''group'', dec_str (\<lambda>s c. c\<lparr>u_group := s\<rparr>)),
     (''comment'', dec_str (\<lambda>s c. c\<lparr>u_comment := s\<rparr>)),
     (''reset'', dec_int (\<lambda>i c. c\<lparr>u_reset := i\<rparr>)),
     (''created_at'', dec_int (\<lambda>i c. c\<lparr>u_createdAt := i\<rparr>)),
     (''updated_at'', dec_int (\<lambda>i c. c\<lparr>u_updatedAt := i\<rparr>))]"

definition decode_client :: "json \<Rightarrow> client option" where
  "decode_client v =
     (case v of
        JObj ms \<Rightarrow> dec_members client_fields ms zero_client
      | JNull \<Rightarrow> Some zero_client
      | _ \<Rightarrow> None)"

fun decode_clients :: "json list \<Rightarrow> client list option" where
  "decode_clients [] = Some []"
| "decode_clients (v # vs) =
     (case decode_client v of None \<Rightarrow> None | Some c \<Rightarrow> map_option ((#) c) (decode_clients vs))"

definition ParseInboundSettingsClients :: "string \<Rightarrow> client list res" where
  "ParseInboundSettingsClients settings =
     (let trimmed = trim_space settings in
      if trimmed = '''' \<or> trimmed = ''null'' then Inl (Errorf (''inbound settings is empty'' @ [CHR 0x0A]))
      else (case text_members trimmed of
        None \<Rightarrow> Inl (lib_error ''json'' trimmed)
      | Some ms \<Rightarrow>
         (case find (\<lambda>kv. field_is ''clients'' (fst kv)) (rev ms) of
            None \<Rightarrow> Inr []
          | Some kv \<Rightarrow>
             (case snd kv of
                JNull \<Rightarrow> Inr []
              | JArr vs \<Rightarrow>
                 (case decode_clients vs of
                    None \<Rightarrow> Inl (lib_error ''json'' trimmed)
                  | Some cs \<Rightarrow> Inr cs)
              | _ \<Rightarrow> Inl (lib_error ''json'' trimmed)))))"

definition GetClients :: "inbound \<Rightarrow> client list res" where
  "GetClients ib = ParseInboundSettingsClients (i_settings ib)"

section \<open>Records\<close>

definition toRecord :: "client \<Rightarrow> client_record" where
  "toRecord c =
     \<lparr>c_id = 0, c_email = u_email c, c_subId = u_subID c, c_uuid = u_id c, c_password = u_password c,
      c_auth = u_auth c, c_flow = u_flow c, c_security = u_security c,
      c_reverse = (case u_reverse c of None \<Rightarrow> '''' | Some t \<Rightarrow> json_marshal (jobj [(''tag'', JStr t)])),
      c_privateKey = u_privateKey c, c_publicKey = u_publicKey c,
      c_allowedIPs = join '','' (u_allowedIPs c), c_preSharedKey = u_preSharedKey c,
      c_keepAlive = u_keepAlive c, c_secret = u_secret c, c_adTag = u_adTag c,
      c_limitIP = u_limitIP c, c_totalGB = u_totalGB c, c_expiryTime = u_expiryTime c,
      c_enable = u_enable c, c_tgID = u_tgID c, c_group = u_group c, c_comment = u_comment c,
      c_reset = u_reset c, c_createdAt = u_createdAt c, c_updatedAt = u_updatedAt c\<rparr>"

definition splitWireguardAllowedIPs :: "string \<Rightarrow> string list" where
  "splitWireguardAllowedIPs csv =
     (if csv = '''' then []
      else filter (\<lambda>p. p \<noteq> '''') (List.map trim_space (split_on (CHR '','') csv)))"

text \<open>A stored reverse text that does not decode leaves the pointer nil.\<close>

definition decode_reverse :: "string \<Rightarrow> string option" where
  "decode_reverse s =
     (if s = '''' then None
      else case json_parse s of
        Some (JObj ms) \<Rightarrow> dec_members [(''tag'', dec_str (\<lambda>s _. s))] ms ''''
      | Some JNull \<Rightarrow> Some ''''
      | _ \<Rightarrow> None)"

definition toClient :: "client_record \<Rightarrow> client" where
  "toClient r =
     \<lparr>u_id = c_uuid r, u_security = c_security r, u_password = c_password r, u_flow = c_flow r,
      u_reverse = decode_reverse (c_reverse r), u_auth = c_auth r, u_privateKey = c_privateKey r,
      u_publicKey = c_publicKey r, u_allowedIPs = splitWireguardAllowedIPs (c_allowedIPs r),
      u_preSharedKey = c_preSharedKey r, u_keepAlive = c_keepAlive r, u_secret = c_secret r,
      u_adTag = c_adTag r, u_email = c_email r, u_limitIP = c_limitIP r, u_totalGB = c_totalGB r,
      u_expiryTime = c_expiryTime r, u_enable = c_enable r, u_tgID = c_tgID r, u_subID = c_subId r,
      u_group = c_group r, u_comment = c_comment r, u_reset = c_reset r,
      u_createdAt = c_createdAt r, u_updatedAt = c_updatedAt r\<rparr>"

text \<open>The merge of an incoming record into a stored one.\<close>

abbreviation over :: "string \<Rightarrow> string \<Rightarrow> string" where
  "over new old \<equiv> (if new \<noteq> '''' then new else old)"

definition applyClientRecordMerge :: "client_record \<Rightarrow> client_record \<Rightarrow> client_record" where
  "applyClientRecordMerge row inc =
     row\<lparr>c_uuid := over (c_uuid inc) (c_uuid row), c_password := over (c_password inc) (c_password row),
       c_auth := over (c_auth inc) (c_auth row), c_secret := over (c_secret inc) (c_secret row),
       c_adTag := over (c_adTag inc) (c_adTag row), c_flow := c_flow inc,
       c_security := over (c_security inc) (c_security row),
       c_reverse := over (c_reverse inc) (c_reverse row),
       c_privateKey := over (c_privateKey inc) (c_privateKey row),
       c_publicKey := over (c_publicKey inc) (c_publicKey row),
       c_allowedIPs := over (c_allowedIPs inc) (c_allowedIPs row),
       c_preSharedKey := c_preSharedKey inc, c_keepAlive := c_keepAlive inc, c_subId := c_subId inc,
       c_limitIP := c_limitIP inc, c_totalGB := c_totalGB inc, c_expiryTime := c_expiryTime inc,
       c_enable := c_enable inc, c_tgID := c_tgID inc, c_group := over (c_group inc) (c_group row),
       c_comment := c_comment inc, c_reset := c_reset inc,
       c_createdAt := (if 0 < c_createdAt inc \<and> (c_createdAt row = 0 \<or> c_createdAt inc < c_createdAt row)
                       then c_createdAt inc else c_createdAt row)\<rparr>"

section \<open>SyncInbound\<close>

text \<open>The distinct trimmed emails of the list and the stored rows that have them.\<close>

definition trimmed_email :: "client \<Rightarrow> string" where
  "trimmed_email c = trim_space (u_email c)"

definition sync_emails :: "client list \<Rightarrow> string list" where
  "sync_emails cs = uniqueNonEmptyStrings (List.map trimmed_email cs)"

definition select_clients :: "string list \<Rightarrow> client_record list W" where
  "select_clients emails = db_query (\<lambda>d. filter (\<lambda>r. c_email r \<in> set emails) (d_clients d))"

definition existing_clients :: "string list \<Rightarrow> client_record omap W" where
  "existing_clients emails =
     foldM (\<lambda>batch m. bindM (select_clients batch) (\<lambda>rows.
       retM (fold (\<lambda>r. oput (c_email r) r) rows m))) (chunks 400 emails) []"

text \<open>
  \<^verbatim>\<open>tx.Save(row)\<close> stamps the row's update time, also in memory; \<^verbatim>\<open>UpdateColumn\<close> then puts the preserved
  time back into the table.
\<close>

definition save_client :: "client_record \<Rightarrow> client_record W" where
  "save_client row =
     bindM (askM e_clockMs) (\<lambda>now. let row' = row\<lparr>c_updatedAt := now\<rparr> in
       thenM (db_exec (\<lambda>d. d\<lparr>d_clients := update_where (\<lambda>r. c_id r = c_id row) (\<lambda>_. row') (d_clients d)\<rparr>))
         (retM row'))"

definition set_client_updated :: "int \<Rightarrow> int \<Rightarrow> unit W" where
  "set_client_updated cid t =
     db_exec (\<lambda>d. d\<lparr>d_clients := update_where (\<lambda>r. c_id r = cid) (\<lambda>r. r\<lparr>c_updatedAt := t\<rparr>) (d_clients d)\<rparr>)"

text \<open>One pass over the list: the rows by email, the ids by email, and the records to create.\<close>

type_synonym sync_state = "client_record omap \<times> int omap \<times> (string \<times> client_record) list"

definition sync_row :: "client_record \<Rightarrow> client_record \<Rightarrow> client_record" where
  "sync_row row inc =
     (let m = applyClientRecordMerge row inc in m\<lparr>c_updatedAt := max (c_updatedAt inc) (c_updatedAt m)\<rparr>)"

definition sync_client :: "client \<Rightarrow> sync_state \<Rightarrow> sync_state W" where
  "sync_client c st =
     (let (existing, ids, pending) = st; email = trimmed_email c; inc = toRecord c in
      if email = '''' then retM st
      else case oget existing email of
        None \<Rightarrow> retM (existing, ids, if email \<in> fst ` set pending then pending else pending @ [(email, inc)])
      | Some row \<Rightarrow>
         (let row' = sync_row row inc; ids' = oput email (c_id row) ids in
          if row' = row then retM (existing, ids', pending)
          else bindM (save_client row') (\<lambda>saved.
                 thenM (set_client_updated (c_id row) (c_updatedAt row'))
                   (retM (oput email saved existing, ids', pending)))))"

text \<open>
  The insertion of a batch.  gorm replaces a zero value by the column's default, so \<^verbatim>\<open>enable\<close> (default
  true) is always inserted as true.
\<close>

fun number_clients :: "int \<Rightarrow> int \<Rightarrow> client_record list \<Rightarrow> client_record list" where
  "number_clients now n [] = []"
| "number_clients now n (r # rs) =
     stamp_client now (r\<lparr>c_id := n, c_enable := True\<rparr>) # number_clients now (n + 1) rs"

definition insert_clients :: "client_record list \<Rightarrow> (string \<times> int) list W" where
  "insert_clients recs =
     bindM (askM e_clockMs) (\<lambda>now. dbM (\<lambda>d.
       if \<not> distinct (List.map c_email recs) \<or> list_ex (\<lambda>r. find_client (c_email r) d \<noteq> None) recs
       then (Inl (unique_violation ''clients.email''), d)
       else (let new = number_clients now (d_nextClient d) recs in
             (Inr (List.map (\<lambda>r. (c_email r, c_id r)) new),
              d\<lparr>d_clients := d_clients d @ new, d_nextClient := d_nextClient d + int (length recs)\<rparr>))))"

definition create_clients :: "client_record list \<Rightarrow> (string \<times> int) list W" where
  "create_clients recs =
     savepointM (foldM (\<lambda>b acc. bindM (insert_clients b) (\<lambda>new. retM (acc @ new))) (chunks 200 recs) [])"

text \<open>The links, one per client id.\<close>

fun sync_links :: "int \<Rightarrow> int omap \<Rightarrow> int list \<Rightarrow> client list \<Rightarrow> client_inbound list" where
  "sync_links iid ids linked [] = []"
| "sync_links iid ids linked (c # cs) =
     (let email = trimmed_email c in
      if email = '''' then sync_links iid ids linked cs
      else case oget ids email of
        None \<Rightarrow> sync_links iid ids linked cs
      | Some i \<Rightarrow>
          if i \<in> set linked then sync_links iid ids linked cs
          else \<lparr>ci_clientId = i, ci_inboundId = iid, ci_flowOverride = u_flow c, ci_createdAt = 0\<rparr>
               # sync_links iid ids (i # linked) cs)"

definition insert_links :: "client_inbound list \<Rightarrow> unit W" where
  "insert_links links =
     bindM (askM e_clockMs) (\<lambda>now. db_exec (\<lambda>d.
       d\<lparr>d_clientInbounds := d_clientInbounds d @ List.map (\<lambda>x. x\<lparr>ci_createdAt := now\<rparr>) links\<rparr>))"

definition create_links :: "client_inbound list \<Rightarrow> unit W" where
  "create_links links = savepointM (forM insert_links (chunks 200 links))"

definition DetachInbound :: "int \<Rightarrow> unit W" where
  "DetachInbound iid =
     db_exec (\<lambda>d. d\<lparr>d_clientInbounds := delete_where (\<lambda>x. ci_inboundId x = iid) (d_clientInbounds d)\<rparr>)"

definition sync_rows :: "client list \<Rightarrow> (int omap \<times> (string \<times> client_record) list) W" where
  "sync_rows cs =
     bindM (existing_clients (sync_emails cs)) (\<lambda>existing.
     bindM (foldM sync_client cs (existing, [], [])) (\<lambda>(_, ids, pending). retM (ids, pending)))"

definition SyncInbound :: "int \<Rightarrow> client list \<Rightarrow> unit W" where
  "SyncInbound iid cs =
     thenM (DetachInbound iid)
     (bindM (sync_rows cs) (\<lambda>(ids, pending).
      bindM (create_clients (List.map snd pending)) (\<lambda>new.
      create_links (sync_links iid (fold (\<lambda>(e, i). oput e i) new ids) [] cs))))"

section \<open>Reading the tables\<close>

text \<open>
  The rows linked to an inbound, in the order of their ids, with the flow of the link; \<open>sub\<close> narrows
  them to a subscription.
\<close>

definition list_for :: "int \<Rightarrow> (client_record \<Rightarrow> bool) \<Rightarrow> client list W" where
  "list_for iid P =
     db_query (\<lambda>d. concat (List.map (\<lambda>r.
       List.map (\<lambda>x. (toClient r)\<lparr>u_flow := ci_flowOverride x\<rparr>)
         (filter (\<lambda>x. ci_clientId x = c_id r \<and> ci_inboundId x = iid \<and> P r) (d_clientInbounds d))) (d_clients d)))"

definition ListForInbound :: "int \<Rightarrow> client list W" where
  "ListForInbound iid = list_for iid (\<lambda>_. True)"

definition ListForInboundBySubId :: "int \<Rightarrow> string \<Rightarrow> client list W" where
  "ListForInboundBySubId iid sub = list_for iid (\<lambda>r. c_subId r = sub)"

end
