(* ===== verification/TrafficPoll.thy ===== *)
theory TrafficPoll
  imports ClientTables
begin

text \<open>
  The traffic poll (internal/web/service/inbound\_traffic.go, inbound\_disable.go and
  internal/database/dialect.go): one transaction adds the reported bytes to the inbounds and the
  clients, starts the period of clients used for the first time, renews the periods that ended, and
  disables the clients and inbounds whose quota or period is used up, in the tables, in the JSON
  settings and in the running Xray.  The SQL is that of SQLite, where a failed statement leaves the
  transaction usable.
\<close>

section \<open>Saturating counters (dialect.go)\<close>

definition TrafficCap :: int where
  "TrafficCap = 9000000000000000000"

definition clampedAdd :: "int \<Rightarrow> int \<Rightarrow> int" where
  "clampedAdd col delta = min (col + delta) TrafficCap"

section \<open>Adding the reported traffic\<close>

record traffic =
  tr_isInbound :: bool
  tr_isOutbound :: bool
  tr_tag :: string
  tr_up :: int
  tr_down :: int

definition addInboundTraffic :: "traffic list \<Rightarrow> unit W" where
  "addInboundTraffic traffics =
     forM (\<lambda>t.
       if tr_isInbound t then
         db_exec (\<lambda>d. d\<lparr>d_inbounds :=
           update_where (\<lambda>i. i_tag i = tr_tag t \<and> i_nodeId i = None)
             (\<lambda>i. i\<lparr>i_up := clampedAdd (i_up i) (tr_up t), i_down := clampedAdd (i_down i) (tr_down t)\<rparr>)
             (d_inbounds d)\<rparr>)
       else retM ()) traffics"

text \<open>The dynamic type of a decoded JSON value, as the runtime prints it, and \<^verbatim>\<open>v.(map[string]any)\<close>.\<close>

definition go_type :: "json \<Rightarrow> string" where
  "go_type v =
     (case v of JNull \<Rightarrow> ''nil'' | JBool _ \<Rightarrow> ''bool'' | JNum _ \<Rightarrow> ''float64'' | JStr _ \<Rightarrow> ''string''
      | JArr _ \<Rightarrow> ''[]interface {}'' | JObj _ \<Rightarrow> ''map[string]interface {}'')"

definition as_object :: "json \<Rightarrow> json omap res" where
  "as_object v =
     (case v of
        JObj m \<Rightarrow> Inr m
      | _ \<Rightarrow> Inl (GoPanic (''interface conversion: interface {} is '' @ go_type v
                          @ '', not map[string]interface {}'')))"

definition str_member :: "json omap \<Rightarrow> string \<Rightarrow> string" where
  "str_member m k = (case oget m k of Some (JStr s) \<Rightarrow> s | _ \<Rightarrow> '''')"

text \<open>A map over the clients whose body may panic.\<close>

fun map_res :: "('a \<Rightarrow> 'b res) \<Rightarrow> 'a list \<Rightarrow> 'b list res" where
  "map_res f [] = Inr []"
| "map_res f (x # xs) =
     (case f x of Inl e \<Rightarrow> Inl e
      | Inr y \<Rightarrow> (case map_res f xs of Inl e \<Rightarrow> Inl e | Inr ys \<Rightarrow> Inr (y # ys)))"

text \<open>\<^verbatim>\<open>_ = json.Unmarshal([]byte(ib.Settings), &settings)\<close>: a text that does not decode leaves \<open>{}\<close>.\<close>

definition settings_of :: "string \<Rightarrow> json omap" where
  "settings_of text = (case unmarshal_object text of None \<Rightarrow> [] | Some m \<Rightarrow> m)"

section \<open>Clients that start with their first use (adjustTraffics)\<close>

definition put_default :: "string \<Rightarrow> json \<Rightarrow> json omap \<Rightarrow> json omap" where
  "put_default k v m = (if oget m k = None then oput k v m else m)"

definition start_client :: "int \<Rightarrow> int omap \<Rightarrow> json \<Rightarrow> json res" where
  "start_client now newExp v =
     (case as_object v of
        Inl e \<Rightarrow> Inl e
      | Inr c \<Rightarrow>
         (let c1 = (case oget newExp (str_member c ''email'') of
                      None \<Rightarrow> c
                    | Some x \<Rightarrow> oput ''updated_at'' (JInt now) (oput ''expiryTime'' (JInt x) c))
          in Inr (JObj (put_default ''updated_at'' (JInt now) (put_default ''created_at'' (JInt now) c1)))))"

text \<open>An empty list of clients is written back as null: \<^verbatim>\<open>newClients\<close> is then a nil slice.\<close>

definition start_inbound :: "int \<Rightarrow> int omap \<Rightarrow> inbound \<Rightarrow> inbound res" where
  "start_inbound now newExp ib =
     (let settings = settings_of (i_settings ib) in
      case oget settings ''clients'' of
        Some (JArr cs) \<Rightarrow>
          (case map_res (start_client now newExp) cs of
             Inl e \<Rightarrow> Inl e
           | Inr cs' \<Rightarrow>
              Inr (ib\<lparr>i_settings := json_marshal_indent
                (JObj (oput ''clients'' (if cs' = [] then JNull else JArr cs') settings))\<rparr>))
      | _ \<Rightarrow> Inr ib)"

text \<open>
  \<^verbatim>\<open>tx.Save\<close> of a slice is an upsert by primary key of every column; gorm replaces a zero value of a
  column that has a default.
\<close>

definition with_defaults :: "inbound \<Rightarrow> inbound" where
  "with_defaults ib =
     ib\<lparr>i_subSortIndex := (if i_subSortIndex ib = 0 then 1 else i_subSortIndex ib),
        i_trafficReset := over (i_trafficReset ib) ''never'',
        i_trafficResetDay := (if i_trafficResetDay ib = 0 then 1 else i_trafficResetDay ib),
        i_shareAddrStrategy := over (i_shareAddrStrategy ib) ''node''\<rparr>"

definition put_inbound :: "inbound \<Rightarrow> db \<Rightarrow> db" where
  "put_inbound ib d = d\<lparr>d_inbounds := update_where (\<lambda>i. i_id i = i_id ib) (\<lambda>_. with_defaults ib) (d_inbounds d)\<rparr>"

definition save_inbounds :: "inbound list \<Rightarrow> unit W" where
  "save_inbounds ibs =
     (if ibs = [] then failM (Errorf ''empty slice found'') else db_exec (fold put_inbound ibs))"

text \<open>The ids of the inbounds the clients with these emails are attached to.\<close>

definition linked_inbounds :: "string list \<Rightarrow> db \<Rightarrow> int list" where
  "linked_inbounds emails d =
     uniqueInts (List.map ci_inboundId (filter (\<lambda>x.
       list_ex (\<lambda>c. c_id c = ci_clientId x \<and> c_email c \<in> set emails) (d_clients d)) (d_clientInbounds d)))"

definition inbounds_in :: "int list \<Rightarrow> db \<Rightarrow> inbound list" where
  "inbounds_in ids d = filter (\<lambda>i. i_id i \<in> set ids) (d_inbounds d)"

text \<open>The tables follow the saved settings; a failure is only logged.\<close>

definition resync :: "inbound list \<Rightarrow> unit W" where
  "resync ibs =
     forM (\<lambda>ib.
       case GetClients ib of
         Inl e \<Rightarrow> retM ()
       | Inr cs \<Rightarrow> thenM (tryM (SyncInbound (i_id ib) cs)) (retM ())) ibs"

definition new_expiries :: "int \<Rightarrow> client_traffic list \<Rightarrow> int omap" where
  "new_expiries now rows =
     fold (\<lambda>t m. if t_expiryTime t < 0 then oput (t_email t) (wrap64 (now - t_expiryTime t)) m else m) rows []"

definition adjustTraffics :: "client_traffic list \<Rightarrow> (client_traffic list \<times> int omap) W" where
  "adjustTraffics rows =
     bindM (askM e_clockMs) (\<lambda>now.
       let newExp = new_expiries now rows in
       if newExp = [] then retM (rows, [])
       else bindM (db_query (linked_inbounds (List.map fst newExp))) (\<lambda>ids.
         if ids = [] then retM (rows, [])
         else bindM (db_query (inbounds_in ids)) (\<lambda>ibs.
           bindM (liftM (map_res (start_inbound now newExp) ibs)) (\<lambda>ibs'.
             let rows' = List.map (\<lambda>t. case oget newExp (t_email t) of
                                          None \<Rightarrow> t | Some x \<Rightarrow> t\<lparr>t_expiryTime := x\<rparr>) rows
             in thenM (bindM (tryM (save_inbounds ibs')) (\<lambda>r.
                         case r of Inl e \<Rightarrow> retM () | Inr _ \<Rightarrow> resync ibs'))
                  (retM (rows', newExp))))))"

section \<open>The counters of the clients (addClientTraffic)\<close>

definition report_for :: "string \<Rightarrow> client_traffic list \<Rightarrow> client_traffic option" where
  "report_for email reports = find (\<lambda>t. t_email t = email) (rev reports)"

definition count_report :: "int \<Rightarrow> client_traffic \<Rightarrow> string \<Rightarrow> db \<Rightarrow> db" where
  "count_report now t email d =
     d\<lparr>d_traffics := update_where (\<lambda>r. t_email r = email)
       (\<lambda>r. r\<lparr>t_up := clampedAdd (t_up r) (t_up t), t_down := clampedAdd (t_down r) (t_down t),
              t_lastOnline := max (t_lastOnline r) now\<rparr>) (d_traffics d)\<rparr>"

definition set_expiry :: "string \<Rightarrow> int \<Rightarrow> db \<Rightarrow> db" where
  "set_expiry email x d =
     d\<lparr>d_traffics := update_where (\<lambda>r. t_email r = email \<and> t_expiryTime r < 0)
       (\<lambda>r. r\<lparr>t_expiryTime := x\<rparr>) (d_traffics d)\<rparr>"

definition logged :: "unit W \<Rightarrow> unit W" where
  "logged m = thenM (tryM m) (retM ())"

definition addClientTraffic :: "client_traffic list \<Rightarrow> unit W" where
  "addClientTraffic reports =
     (if reports = [] then retM ()
      else bindM (db_query (\<lambda>d. filter (\<lambda>r. t_email r \<in> t_email ` set reports) (d_traffics d))) (\<lambda>rows.
        if rows = [] then retM ()
        else bindM (adjustTraffics rows) (\<lambda>(rows', converted).
          bindM (askM e_clockMs) (\<lambda>now.
          thenM (forM (\<lambda>ct.
                   case report_for (t_email ct) reports of
                     None \<Rightarrow> retM ()
                   | Some t \<Rightarrow>
                       if t_up t = 0 \<and> t_down t = 0 then retM ()
                       else logged (db_exec (count_report now t (t_email ct)))) rows')
                (forM (\<lambda>(email, x). logged (db_exec (set_expiry email x))) converted)))))"

section \<open>Renewal (autoRenewClients)\<close>

text \<open>
  \<^verbatim>\<open>for newExpiryTime < now { newExpiryTime += int64(Reset) * 86400000 }\<close>, in int64 arithmetic: None
  is the loop that never ends.
\<close>

partial_function (option) renew_loop :: "int \<Rightarrow> int \<Rightarrow> int \<Rightarrow> int option" where
  "renew_loop now step e = (if e < now then renew_loop now step (wrap64 (e + step)) else Some e)"

declare renew_loop.simps [code]

definition renew_step :: "int \<Rightarrow> int" where
  "renew_step reset = wrap64 (reset * 86400000)"

definition renewed_expiry :: "int \<Rightarrow> client_traffic \<Rightarrow> int res" where
  "renewed_expiry now t =
     (case renew_loop now (renew_step (t_reset t)) (t_expiryTime t) of None \<Rightarrow> Inl GoHang | Some e \<Rightarrow> Inr e)"

definition apiUserFromClient :: "json omap \<Rightarrow> string \<Rightarrow> json omap" where
  "apiUserFromClient c cipher = (if cipher = '''' then c else oput ''cipher'' (JStr cipher) c)"

text \<open>
  One client of the list.  The expired rows are shared by all the inbounds of the pass, so a row that
  the first inbound re-enabled is enabled when the second inbound looks at it.
\<close>

record renew_state =
  rs_rows :: "client_traffic list"
  rs_add :: "(string \<times> string \<times> json omap) list"

definition renew_row :: "string \<Rightarrow> int \<Rightarrow> client_traffic list \<Rightarrow> client_traffic list" where
  "renew_row email x rows =
     update_where (\<lambda>t. t_email t = email) (\<lambda>t. t\<lparr>t_expiryTime := x, t_down := 0, t_up := 0\<rparr>) rows"

definition enable_row :: "string \<Rightarrow> client_traffic list \<Rightarrow> client_traffic list" where
  "enable_row email rows = update_where (\<lambda>t. t_email t = email) (\<lambda>t. t\<lparr>t_enable := True\<rparr>) rows"

definition renew_client :: "int \<Rightarrow> inbound \<Rightarrow> string \<Rightarrow> json \<Rightarrow> renew_state \<Rightarrow> (json \<times> renew_state) res" where
  "renew_client now ib cipher v st =
     (case as_object v of
        Inl e \<Rightarrow> Inl e
      | Inr c \<Rightarrow>
         (let email = str_member c ''email'' in
          case find (\<lambda>t. t_email t = email) (rs_rows st) of
            None \<Rightarrow> Inr (v, st)
          | Some t \<Rightarrow>
             (case renewed_expiry now t of
                Inl e \<Rightarrow> Inl e
              | Inr x \<Rightarrow>
                 (let c1 = oput ''expiryTime'' (JInt x) c;
                      rows1 = renew_row email x (rs_rows st)
                  in if t_enable t then Inr (JObj c1, st\<lparr>rs_rows := rows1\<rparr>)
                     else (let c2 = oput ''enable'' (JBool True) c1 in
                       Inr (JObj c2,
                         st\<lparr>rs_rows := enable_row email rows1,
                            rs_add := rs_add st @ [(i_protocol ib, i_tag ib, apiUserFromClient c2 cipher)]\<rparr>))))))"

fun renew_clients :: "int \<Rightarrow> inbound \<Rightarrow> string \<Rightarrow> json list \<Rightarrow> renew_state \<Rightarrow> (json list \<times> renew_state) res" where
  "renew_clients now ib cipher [] st = Inr ([], st)"
| "renew_clients now ib cipher (v # vs) st =
     (case renew_client now ib cipher v st of
        Inl e \<Rightarrow> Inl e
      | Inr (v', st') \<Rightarrow>
         (case renew_clients now ib cipher vs st' of
            Inl e \<Rightarrow> Inl e
          | Inr (vs', st'') \<Rightarrow> Inr (v' # vs', st'')))"

definition renew_inbound :: "int \<Rightarrow> inbound \<Rightarrow> renew_state \<Rightarrow> (inbound \<times> renew_state) res" where
  "renew_inbound now ib st =
     (let settings = settings_of (i_settings ib) in
      case oget settings ''clients'' of
        Some (JArr (c # cs)) \<Rightarrow>
          (let cipher = (if i_protocol ib = ''shadowsocks'' then str_member settings ''method'' else '''') in
           case renew_clients now ib cipher (c # cs) st of
             Inl e \<Rightarrow> Inl e
           | Inr (cs', st') \<Rightarrow>
              Inr (ib\<lparr>i_settings := json_marshal_indent (JObj (oput ''clients'' (JArr cs') settings))\<rparr>, st'))
      | _ \<Rightarrow> Inr (ib, st))"

fun renew_inbounds :: "int \<Rightarrow> inbound list \<Rightarrow> renew_state \<Rightarrow> (inbound list \<times> renew_state) res" where
  "renew_inbounds now [] st = Inr ([], st)"
| "renew_inbounds now (ib # ibs) st =
     (case renew_inbound now ib st of
        Inl e \<Rightarrow> Inl e
      | Inr (ib', st') \<Rightarrow>
         (case renew_inbounds now ibs st' of
            Inl e \<Rightarrow> Inl e
          | Inr (ibs', st'') \<Rightarrow> Inr (ib' # ibs', st'')))"

text \<open>The rows whose period is over, of clients attached to an inbound of this panel.\<close>

definition local_client :: "db \<Rightarrow> string \<Rightarrow> bool" where
  "local_client d email \<longleftrightarrow>
     list_ex (\<lambda>c. c_email c = email \<and>
       list_ex (\<lambda>x. ci_clientId x = c_id c \<and>
         list_ex (\<lambda>i. i_id i = ci_inboundId x \<and> i_nodeId i = None) (d_inbounds d)) (d_clientInbounds d)) (d_clients d)"

definition to_renew :: "int \<Rightarrow> db \<Rightarrow> client_traffic list" where
  "to_renew now d =
     filter (\<lambda>t. 0 < t_reset t \<and> 0 < t_expiryTime t \<and> t_expiryTime t \<le> now \<and> local_client d (t_email t)) (d_traffics d)"

definition save_traffics :: "client_traffic list \<Rightarrow> unit W" where
  "save_traffics rows =
     db_exec (fold (\<lambda>t d. d\<lparr>d_traffics := update_where (\<lambda>r. t_id r = t_id t) (\<lambda>_. t) (d_traffics d)\<rparr>) rows)"

definition clearGlobalTraffic :: "string list \<Rightarrow> unit W" where
  "clearGlobalTraffic emails =
     forM (\<lambda>b. db_exec (\<lambda>d. d\<lparr>d_globals := delete_where (\<lambda>g. gt_email g \<in> set b) (d_globals d)\<rparr>))
       (chunks sqlInChunk emails)"

definition xray_api :: "string list \<Rightarrow> gerr option W" where
  "xray_api call = askM (\<lambda>e t. e_xrayApi e t call)"

text \<open>Users go back into the running Xray; a call that fails asks for a restart.\<close>

definition add_users :: "(string \<times> string \<times> json omap) list \<Rightarrow> bool W" where
  "add_users users =
     foldM (\<lambda>(protocol, tag, user) restart.
       bindM (xray_api [''AddUser'', protocol, tag, json_marshal (JObj user)]) (\<lambda>r. retM (restart \<or> r \<noteq> None)))
       users False"

definition autoRenewClients :: "(bool \<times> int) W" where
  "autoRenewClients =
     bindM (askM e_clock) (\<lambda>sec. let now = sec * 1000 in
     bindM (db_query (to_renew now)) (\<lambda>rows.
       if rows = [] then retM (False, 0)
       else let emails = List.map t_email rows in
       bindM (foldM (\<lambda>b acc. bindM (db_query (linked_inbounds b)) (\<lambda>ids. retM (acc @ ids)))
                (chunks sqliteMaxVars emails) []) (\<lambda>ids.
       bindM (foldM (\<lambda>b acc. bindM (db_query (inbounds_in b)) (\<lambda>page. retM (acc @ page)))
                (chunks sqliteMaxVars (uniqueInts ids)) []) (\<lambda>ibs.
       bindM (liftM (renew_inbounds now ibs \<lparr>rs_rows = rows, rs_add = []\<rparr>)) (\<lambda>(ibs', st).
       thenM (save_inbounds ibs')
       (thenM (resync ibs')
       (thenM (save_traffics (rs_rows st))
       (thenM (clearGlobalTraffic emails)
       (bindM (askM e_xrayRunning) (\<lambda>running.
          if \<not> running then retM (False, int (length rows))
          else bindM (xray_api [''Init'']) (\<lambda>r.
            if r \<noteq> None then retM (True, int (length rows))
            else bindM (add_users (rs_add st)) (\<lambda>restart. retM (restart, int (length rows))))))))))))))"

section \<open>Disabling (inbound\_disable.go)\<close>

definition invalid_inbound :: "int \<Rightarrow> inbound \<Rightarrow> bool" where
  "invalid_inbound now i \<longleftrightarrow>
     (0 < i_total i \<and> i_total i \<le> i_up i + i_down i \<or> 0 < i_expiryTime i \<and> i_expiryTime i \<le> now)
     \<and> i_enable i \<and> i_nodeId i = None"

definition del_inbounds :: "string list \<Rightarrow> bool W" where
  "del_inbounds tags =
     foldM (\<lambda>tag restart. bindM (xray_api [''DelInbound'', tag]) (\<lambda>r. retM (restart \<or> r \<noteq> None))) tags False"

text \<open>
  The restart flag is returned beside the error of the update: the caller uses it either way.
\<close>

definition disable_inbounds :: "int \<Rightarrow> int W" where
  "disable_inbounds now =
     dbM (\<lambda>d. (Inr (int (length (filter (invalid_inbound now) (d_inbounds d)))),
               d\<lparr>d_inbounds := update_where (invalid_inbound now) (\<lambda>i. i\<lparr>i_enable := False\<rparr>) (d_inbounds d)\<rparr>))"

definition disableInvalidInbounds :: "(bool \<times> int \<times> gerr option) W" where
  "disableInvalidInbounds =
     bindM (askM e_clock) (\<lambda>sec. let now = sec * 1000 in
     bindM (askM e_xrayRunning) (\<lambda>running.
     bindM (if \<not> running then retM False
            else bindM (db_query (\<lambda>d. List.map i_tag (filter (invalid_inbound now) (d_inbounds d)))) (\<lambda>tags.
              bindM (xray_api [''Init'']) (\<lambda>_. del_inbounds tags))) (\<lambda>restart.
     bindM (tryM (disable_inbounds now)) (\<lambda>r.
       retM (case r of Inl e \<Rightarrow> (restart, 0, Some e) | Inr n \<Rightarrow> (restart, n, None))))))"

definition globalTrafficFreshWindow :: int where
  "globalTrafficFreshWindow = 24 * 60 * 60 * 1000"

definition globalTrafficFreshSince :: "int W" where
  "globalTrafficFreshSince = bindM (askM e_clockMs) (\<lambda>ms. retM (ms - globalTrafficFreshWindow))"

definition depletedClientsCondLocal :: "int \<Rightarrow> client_traffic \<Rightarrow> bool" where
  "depletedClientsCondLocal now t \<longleftrightarrow>
     0 < t_total t \<and> t_total t \<le> t_up t + t_down t \<or> 0 < t_expiryTime t \<and> t_expiryTime t \<le> now"

definition depletedClientsCond :: "int \<Rightarrow> int \<Rightarrow> global_traffic list \<Rightarrow> client_traffic \<Rightarrow> bool" where
  "depletedClientsCond now since globals t \<longleftrightarrow>
     depletedClientsCondLocal now t
     \<or> 0 < t_total t \<and> list_ex (\<lambda>g. gt_email g = t_email t \<and> since \<le> gt_updatedAt g
                                     \<and> t_total t \<le> gt_up g + gt_down g) globals"

text \<open>The predicate in use: its bounds, and whether the rows of the masters count.\<close>

definition depletedCond :: "(db \<Rightarrow> client_traffic \<Rightarrow> bool) W" where
  "depletedCond =
     bindM (askM e_clockMs) (\<lambda>now.
     bindM globalTrafficFreshSince (\<lambda>since.
     bindM (tryM (db_query (\<lambda>d. int (length (filter (\<lambda>g. since \<le> gt_updatedAt g) (d_globals d)))))) (\<lambda>probe.
       retM (case probe of
               Inr n \<Rightarrow> if 0 < n then (\<lambda>d. depletedClientsCond now since (d_globals d)) else (\<lambda>d. depletedClientsCondLocal now)
             | Inl e \<Rightarrow> (\<lambda>d. depletedClientsCondLocal now)))))"

record target =
  tg_inbound :: int
  tg_node :: "int option"
  tg_tag :: string
  tg_email :: string

definition targets_of :: "string list \<Rightarrow> db \<Rightarrow> target list" where
  "targets_of emails d =
     concat (List.map (\<lambda>c. concat (List.map (\<lambda>x.
       List.map (\<lambda>i. \<lparr>tg_inbound = i_id i, tg_node = i_nodeId i, tg_tag = i_tag i, tg_email = c_email c\<rparr>)
         (filter (\<lambda>i. i_id i = ci_inboundId x) (d_inbounds d)))
       (filter (\<lambda>x. ci_clientId x = c_id c) (d_clientInbounds d))))
       (filter (\<lambda>c. c_email c \<in> set emails) (d_clients d)))"

text \<open>Targets by inbound, as a Go map with the inbound's id in decimal for its key.\<close>

definition group_targets :: "target list \<Rightarrow> (int \<times> string list) omap" where
  "group_targets ts =
     fold (\<lambda>t m. oput (itoa (tg_inbound t))
             (tg_inbound t, (case oget m (itoa (tg_inbound t)) of None \<Rightarrow> [] | Some (_, es) \<Rightarrow> es) @ [tg_email t]) m) ts []"

definition range_groups :: "(int \<Rightarrow> string list \<Rightarrow> unit W) \<Rightarrow> (int \<times> string list) omap \<Rightarrow> unit W" where
  "range_groups body m =
     bindM (range_keys m) (forM (\<lambda>k. case oget m k of None \<Rightarrow> retM () | Some (i, es) \<Rightarrow> body i es))"

text \<open>\<^verbatim>\<open>strings.Contains\<close>.\<close>

fun str_contains :: "string \<Rightarrow> string \<Rightarrow> bool" where
  "str_contains [] sub = (sub = [])"
| "str_contains (c # cs) sub = (prefix sub (c # cs) \<or> str_contains cs sub)"

definition remove_users :: "target list \<Rightarrow> bool W" where
  "remove_users ts =
     foldM (\<lambda>t restart. bindM (xray_api [''RemoveUser'', tg_tag t, tg_email t]) (\<lambda>r.
       retM (restart \<or> (case r of None \<Rightarrow> False
                          | Some e \<Rightarrow> \<not> str_contains (err_text e) (''User '' @ tg_email t @ '' not found.''))))) ts False"

definition disable_entry :: "int \<Rightarrow> string list \<Rightarrow> json \<Rightarrow> json \<times> bool" where
  "disable_entry now emails v =
     (case v of
        JObj m \<Rightarrow>
          if str_member m ''email'' \<in> set emails \<and> oget m ''enable'' = Some (JBool True)
          then (JObj (oput ''updated_at'' (JInt now) (oput ''enable'' (JBool False) m)), True)
          else (v, False)
      | _ \<Rightarrow> (v, False))"

definition disabled_settings :: "int \<Rightarrow> string list \<Rightarrow> json omap \<Rightarrow> string option" where
  "disabled_settings now emails settings =
     (case oget settings ''clients'' of
        Some (JArr cs) \<Rightarrow>
          if list_ex (\<lambda>v. snd (disable_entry now emails v)) cs
          then Some (json_marshal_indent
                 (JObj (oput ''clients'' (JArr (List.map (\<lambda>v. fst (disable_entry now emails v)) cs)) settings)))
          else None
      | _ \<Rightarrow> None)"

definition set_settings :: "int \<Rightarrow> string \<Rightarrow> db \<Rightarrow> db" where
  "set_settings iid s d =
     d\<lparr>d_inbounds := update_where (\<lambda>i. i_id i = iid) (\<lambda>i. i\<lparr>i_settings := s\<rparr>) (d_inbounds d)\<rparr>"

definition markClientsDisabledInSettings :: "int \<Rightarrow> string list \<Rightarrow> (inbound \<times> inbound) W" where
  "markClientsDisabledInSettings iid emails =
     bindM (db_get (\<lambda>d. find (\<lambda>i. i_id i = iid) (d_inbounds d))) (\<lambda>ib.
       case unmarshal_object (i_settings ib) of
         None \<Rightarrow> failM (lib_error ''json'' (i_settings ib))
       | Some settings \<Rightarrow>
          bindM (askM e_clock) (\<lambda>sec.
            case disabled_settings (sec * 1000) emails settings of
              None \<Rightarrow> retM (ib, ib)
            | Some s \<Rightarrow> thenM (db_exec (set_settings iid s)) (retM (ib, ib\<lparr>i_settings := s\<rparr>))))"

definition disableRemoteClients :: "int \<Rightarrow> string list \<Rightarrow> unit W" where
  "disableRemoteClients iid emails =
     bindM (markClientsDisabledInSettings iid emails) (\<lambda>(oldIb, newIb).
     bindM (askM (\<lambda>e t. e_nodePush e t oldIb newIb)) (\<lambda>r.
       case r of None \<Rightarrow> retM () | Some e \<Rightarrow> failM e))"

definition disable_local :: "target list \<Rightarrow> bool W" where
  "disable_local ts =
     bindM (askM e_xrayRunning) (\<lambda>running.
       if running \<and> ts \<noteq> [] then bindM (xray_api [''Init'']) (\<lambda>_. remove_users ts) else retM False)"

definition flip_batch :: "int list \<Rightarrow> int W" where
  "flip_batch b =
     dbM (\<lambda>d. let hit = (\<lambda>t. t_id t \<in> set b \<and> t_enable t) in
       (Inr (int (length (filter hit (d_traffics d)))),
        d\<lparr>d_traffics := update_where hit (\<lambda>t. t\<lparr>t_enable := False\<rparr>) (d_traffics d)\<rparr>))"

primrec flip_batches :: "int list list \<Rightarrow> int \<Rightarrow> (int \<times> gerr option) W" where
  "flip_batches [] count = retM (count, None)"
| "flip_batches (b # bs) count =
     bindM (tryM (flip_batch b)) (\<lambda>r.
       case r of Inl e \<Rightarrow> retM (count, Some e) | Inr n \<Rightarrow> flip_batches bs (count + n))"

definition flip_rows :: "int list \<Rightarrow> (int \<times> gerr option) W" where
  "flip_rows ids = flip_batches (chunks sqlInChunk (sort ids)) 0"

definition disable_records :: "string list \<Rightarrow> unit W" where
  "disable_records emails =
     (if emails = [] then retM ()
      else bindM (askM e_clockMs) (\<lambda>now. logged (db_exec (\<lambda>d.
        d\<lparr>d_clients := update_where (\<lambda>c. c_email c \<in> set emails)
           (\<lambda>c. c\<lparr>c_enable := False, c_updatedAt := now\<rparr>) (d_clients d)\<rparr>))))"

text \<open>The push to each node: a failure asks for a restart.\<close>

definition disable_remote :: "(int \<times> string list) omap \<Rightarrow> bool W" where
  "disable_remote m =
     bindM (range_keys m) (\<lambda>ks.
       foldM (\<lambda>k restart. case oget m k of
           None \<Rightarrow> retM restart
         | Some (i, es) \<Rightarrow>
            bindM (tryM (disableRemoteClients i es)) (\<lambda>r.
              retM (case r of Inl e \<Rightarrow> True | Inr _ \<Rightarrow> restart))) ks False)"

text \<open>A failed batch returns early with the restart flag and the count so far; what was done stays.\<close>

definition disableInvalidClients :: "(bool \<times> int \<times> gerr option) W" where
  "disableInvalidClients =
     bindM depletedCond (\<lambda>cond.
     bindM (db_query (\<lambda>d. filter (\<lambda>t. cond d t \<and> t_enable t) (d_traffics d))) (\<lambda>rows.
       if rows = [] then retM (False, 0, None)
       else let emails = filter (\<lambda>e. e \<noteq> '''') (List.map t_email rows) in
       bindM (if emails = [] then retM [] else db_query (targets_of emails)) (\<lambda>targets.
       let locals = filter (\<lambda>t. tg_node t = None) targets;
           remotes = filter (\<lambda>t. tg_node t \<noteq> None) targets in
       bindM (disable_local locals) (\<lambda>restart1.
       thenM (range_groups (\<lambda>i es. thenM (tryM (markClientsDisabledInSettings i es)) (retM ()))
                (group_targets locals))
       (bindM (flip_rows (List.map t_id rows)) (\<lambda>(count, err).
       if err \<noteq> None then retM (restart1, count, err)
       else thenM (disable_records emails)
       (bindM (disable_remote (group_targets remotes)) (\<lambda>restart2.
         retM (restart1 \<or> restart2, count, None)))))))))"

section \<open>The poll (addTrafficLocked)\<close>

text \<open>The steps after the counters log their errors and go on; a panic goes through.\<close>

definition logged2 :: "(bool \<times> int) W \<Rightarrow> (bool \<times> int) W" where
  "logged2 m = bindM (catchM m) (\<lambda>r. retM (case r of Inl e \<Rightarrow> (False, 0) | Inr x \<Rightarrow> x))"

definition logged3 :: "(bool \<times> int \<times> gerr option) W \<Rightarrow> (bool \<times> int) W" where
  "logged3 m = bindM (catchM m) (\<lambda>r. retM (case r of
     Inl e \<Rightarrow> (False, 0)
   | Inr (restart, n, err) \<Rightarrow> (restart, if err = None then n else 0)))"

definition pollBody :: "traffic list \<Rightarrow> client_traffic list \<Rightarrow> (bool \<times> bool) W" where
  "pollBody ins reports =
     thenM (addInboundTraffic ins)
     (thenM (addClientTraffic reports)
     (bindM (logged2 autoRenewClients) (\<lambda>(r0, _).
      bindM (logged3 disableInvalidClients) (\<lambda>(r1, disabled).
      bindM (logged3 disableInvalidInbounds) (\<lambda>(r2, _).
        retM (r0 \<or> r1 \<or> r2, 0 < disabled))))))"

text \<open>
  The deferred end of the transaction: an error rolls back; otherwise it commits, also when a panic
  passes (the error variable is still nil), and a commit that fails is only logged.
\<close>

definition commitM :: "db \<Rightarrow> unit W" where
  "commitM d0 = (\<lambda>w.
     let w' = w\<lparr>w_tick := Suc (w_tick w)\<rparr> in
     (Inr (), if e_fault (w_env w) (w_tick w) = None then w' else w'\<lparr>w_db := d0\<rparr>))"

definition addTrafficLocked :: "traffic list \<Rightarrow> client_traffic list \<Rightarrow> (bool \<times> bool) W" where
  "addTrafficLocked ins reports = (\<lambda>w.
     case db_query (\<lambda>_. ()) w of
       (Inl e, w1) \<Rightarrow>
         if list_ex tr_isInbound ins \<or> reports \<noteq> [] then (Inl e, w1) else (Inr (False, False), w1)
     | (Inr _, w1) \<Rightarrow>
        (case pollBody ins reports w1 of
           (Inr x, w2) \<Rightarrow> thenM (commitM (w_db w)) (retM x) w2
         | (Inl GoHang, w2) \<Rightarrow> (Inl GoHang, w2)
         | (Inl e, w2) \<Rightarrow>
             if is_panic e then thenM (commitM (w_db w)) (failM e) w2
             else (Inl e, w2\<lparr>w_db := w_db w\<rparr>)))"

text \<open>
  What the traffic writer makes of a write it runs: a panic becomes an error (the queue in front of it is
  in traffic\_writer.go).
\<close>

definition safeApply :: "'a W \<Rightarrow> 'a W" where
  "safeApply m =
     mapErrM (\<lambda>e. case e of GoPanic s \<Rightarrow> Errorf (''traffic writer panic: '' @ s) | _ \<Rightarrow> e) m"

definition AddTraffic :: "traffic list \<Rightarrow> client_traffic list \<Rightarrow> (bool \<times> bool) W" where
  "AddTraffic ins reports = safeApply (addTrafficLocked ins reports)"

end
