(* ===== verification/XrayHeal.thy ===== *)
theory XrayHeal
  imports TrafficPoll HotDiff
begin

text \<open>
  The rewriting of stored JSON on its way into a configuration of Xray: the healing of settings and
  stream settings (internal/database/model/model.go, internal/web/service/inbound.go), the sections of
  the template that the panel needs (internal/web/service/xray.go), and the bridges through which the
  panel, its nodes and MTProto dial out.  A Go map may be nil, and assigning to a nil map panics.
  Number literals are compared exactly, where Go compares the nearest float64.
\<close>

section \<open>Maps that may be nil\<close>

type_synonym gomap = "json omap option"

definition bindR :: "'a res \<Rightarrow> ('a \<Rightarrow> 'b res) \<Rightarrow> 'b res" where
  "bindR r f = (case r of Inl e \<Rightarrow> Inl e | Inr x \<Rightarrow> f x)"

definition decode_map :: "string \<Rightarrow> gomap option" where
  "decode_map s =
     (case json_parse s of Some (JObj m) \<Rightarrow> Some (Some m) | Some JNull \<Rightarrow> Some None | _ \<Rightarrow> None)"

definition mget :: "gomap \<Rightarrow> string \<Rightarrow> json option" where
  "mget m k = (case m of None \<Rightarrow> None | Some ms \<Rightarrow> oget ms k)"

definition mput :: "string \<Rightarrow> json \<Rightarrow> gomap \<Rightarrow> gomap res" where
  "mput k v m =
     (case m of None \<Rightarrow> Inl (GoPanic ''assignment to entry in nil map'') | Some ms \<Rightarrow> Inr (Some (oput k v ms)))"

definition jmap :: "gomap \<Rightarrow> json" where
  "jmap m = (case m of None \<Rightarrow> JNull | Some ms \<Rightarrow> JObj ms)"

definition slice_at :: "gomap \<Rightarrow> string \<Rightarrow> json list option" where
  "slice_at m k = (case mget m k of Some (JArr xs) \<Rightarrow> Some xs | _ \<Rightarrow> None)"

definition object_at :: "gomap \<Rightarrow> string \<Rightarrow> json omap option" where
  "object_at m k = (case mget m k of Some (JObj ms) \<Rightarrow> Some ms | _ \<Rightarrow> None)"

definition text_at :: "gomap \<Rightarrow> string \<Rightarrow> string" where
  "text_at m k = (case mget m k of Some (JStr s) \<Rightarrow> s | _ \<Rightarrow> '''')"

section \<open>Number literals\<close>

text \<open>The digits of a literal and its decimal exponent.\<close>

definition lit_parts :: "string \<Rightarrow> nat \<times> int" where
  "lit_parts n =
     (let s = (if has_prefix n ''-'' then tl n else n);
          mant = takeWhile (\<lambda>c. c \<noteq> CHR ''e'' \<and> c \<noteq> CHR ''E'') s;
          ex = drop (Suc (length mant)) s;
          ip = takeWhile (\<lambda>c. c \<noteq> CHR ''.'') mant;
          fp = drop (Suc (length ip)) mant;
          e = (case ex of [] \<Rightarrow> 0
               | c # ds \<Rightarrow> if c = CHR ''+'' then int (digits_val ds)
                           else if c = CHR ''-'' then - int (digits_val ds) else int (digits_val ex))
      in (digits_val (ip @ fp), e - int (length fp)))"

definition lit_is :: "string \<Rightarrow> nat \<Rightarrow> bool" where
  "lit_is n v \<longleftrightarrow> \<not> has_prefix n ''-''
     \<and> (let (m, k) = lit_parts n in if 0 \<le> k then m * 10 ^ nat k = v else m = v * 10 ^ nat (- k))"

definition lit_positive :: "string \<Rightarrow> bool" where
  "lit_positive n \<longleftrightarrow> \<not> has_prefix n ''-'' \<and> 0 < fst (lit_parts n)"

section \<open>Healing of settings (model.go)\<close>

text \<open>Each healer returns the text and whether it changed it.\<close>

fun heal_at :: "string list \<Rightarrow> gomap \<Rightarrow> gomap option res" where
  "heal_at [] m =
     (if (case mget m ''version'' of Some (JNum n) \<Rightarrow> lit_is n 2 | _ \<Rightarrow> False) then Inr None
      else bindR (mput ''version'' (JInt 2) m) (\<lambda>m'. Inr (Some m')))"
| "heal_at (k # ks) m =
     (case object_at m k of
        None \<Rightarrow> Inr None
      | Some ms \<Rightarrow>
         bindR (heal_at ks (Some ms)) (\<lambda>r.
           case r of None \<Rightarrow> Inr None | Some m' \<Rightarrow> bindR (mput k (jmap m') m) (\<lambda>m''. Inr (Some m''))))"

definition healVersionField :: "string \<Rightarrow> string list \<Rightarrow> (string \<times> bool) res" where
  "healVersionField raw path =
     (if raw = '''' then Inr (raw, False)
      else (case decode_map raw of
              None \<Rightarrow> Inr (raw, False)
            | Some parsed \<Rightarrow>
               bindR (heal_at path parsed) (\<lambda>r.
                 case r of None \<Rightarrow> Inr (raw, False) | Some m \<Rightarrow> Inr (json_marshal_indent (jmap m), True))))"

definition HealHysteriaVersion :: "string \<Rightarrow> (string \<times> bool) res" where
  "HealHysteriaVersion settings = healVersionField settings []"

definition HealHysteriaStreamVersion :: "string \<Rightarrow> (string \<times> bool) res" where
  "HealHysteriaStreamVersion streamSettings = healVersionField streamSettings [''hysteriaSettings'']"

definition xhttp_client_only :: "string list" where
  "xhttp_client_only =
     [''xmux'', ''downloadSettings'', ''scMinPostsIntervalMs'', ''uplinkChunkSize'', ''noGRPCHeader'']"

definition StripInboundXhttpClientFields :: "string \<Rightarrow> string \<times> bool" where
  "StripInboundXhttpClientFields streamSettings =
     (if streamSettings = '''' then (streamSettings, False)
      else (case decode_map streamSettings of
              None \<Rightarrow> (streamSettings, False)
            | Some stream \<Rightarrow>
               if mget stream ''network'' \<noteq> Some (JStr ''xhttp'') then (streamSettings, False)
               else (case object_at stream ''xhttpSettings'' of
                       None \<Rightarrow> (streamSettings, False)
                     | Some xhttp \<Rightarrow>
                        if xhttp = [] \<or> \<not> list_ex (\<lambda>k. oget xhttp k \<noteq> None) xhttp_client_only
                        then (streamSettings, False)
                        else (json_marshal_indent (jmap (map_option
                                (oput ''xhttpSettings'' (JObj (fold odel xhttp_client_only xhttp))) stream)), True))))"

text \<open>A rewriting of the objects among the clients; whether any changed.\<close>

definition edit_clients :: "(json omap \<Rightarrow> json omap option) \<Rightarrow> json list \<Rightarrow> json list \<times> bool" where
  "edit_clients f cs =
     (List.map (\<lambda>c. case c of JObj m \<Rightarrow> (case f m of None \<Rightarrow> c | Some m' \<Rightarrow> JObj m') | _ \<Rightarrow> c) cs,
      list_ex (\<lambda>c. case c of JObj m \<Rightarrow> f m \<noteq> None | _ \<Rightarrow> False) cs)"

definition StripVmessClientSecurity :: "string \<Rightarrow> string \<times> bool" where
  "StripVmessClientSecurity settings =
     (if settings = '''' then (settings, False)
      else (case decode_map settings of
              None \<Rightarrow> (settings, False)
            | Some parsed \<Rightarrow>
               (case slice_at parsed ''clients'' of
                  None \<Rightarrow> (settings, False)
                | Some clients \<Rightarrow>
                   (let (clients', changed) = edit_clients
                          (\<lambda>m. if oget m ''security'' = None then None else Some (odel ''security'' m)) clients
                    in if \<not> changed then (settings, False)
                       else (json_marshal_indent (jmap (map_option (oput ''clients'' (JArr clients')) parsed)), True)))))"

definition StripVlessInboundEncryption :: "string \<Rightarrow> string \<times> bool" where
  "StripVlessInboundEncryption settings =
     (if settings = '''' then (settings, False)
      else (case decode_map settings of
              None \<Rightarrow> (settings, False)
            | Some parsed \<Rightarrow>
               if mget parsed ''encryption'' = None then (settings, False)
               else (json_marshal_indent (jmap (map_option (odel ''encryption'') parsed)), True)))"

definition put_if :: "bool \<Rightarrow> string \<Rightarrow> json \<Rightarrow> json omap \<Rightarrow> json omap" where
  "put_if b k v m = (if b then oput k v m else m)"

definition WireguardPeerFromClient :: "client \<Rightarrow> json omap" where
  "WireguardPeerFromClient c =
     put_if (0 < u_keepAlive c) ''keepAlive'' (JInt (u_keepAlive c))
       (put_if (u_preSharedKey c \<noteq> '''') ''preSharedKey'' (JStr (u_preSharedKey c))
         (put_if (u_allowedIPs c \<noteq> []) ''allowedIPs'' (JArr (List.map JStr (u_allowedIPs c)))
           (put_if (u_publicKey c \<noteq> '''') ''publicKey'' (JStr (u_publicKey c))
             (of_members [(''email'', JStr (u_email c)), (''level'', JInt 0)]))))"

definition wireguard_peer :: "json \<Rightarrow> json list" where
  "wireguard_peer raw =
     (case raw of
        JObj cm \<Rightarrow>
          if oget cm ''enable'' = Some (JBool False) then []
          else (case decode_client (JObj cm) of None \<Rightarrow> [] | Some c \<Rightarrow> [JObj (WireguardPeerFromClient c)])
      | _ \<Rightarrow> [])"

definition WireguardClientsToPeers :: "string \<Rightarrow> string \<times> bool" where
  "WireguardClientsToPeers settings =
     (if settings = '''' then (settings, False)
      else (case decode_map settings of
              None \<Rightarrow> (settings, False)
            | Some parsed \<Rightarrow>
               (case slice_at parsed ''clients'' of
                  None \<Rightarrow> (settings, False)
                | Some clients \<Rightarrow>
                   (json_marshal_indent (jmap (map_option (\<lambda>m.
                      oput ''peers'' (JArr (concat (List.map wireguard_peer clients))) (odel ''clients'' m)) parsed)), True))))"

definition ReplaceRemovedShadowsocksCipher :: "string \<Rightarrow> string \<times> bool" where
  "ReplaceRemovedShadowsocksCipher m =
     (if m = ''none'' \<or> m = ''plain'' then (''chacha20-ietf-poly1305'', True) else (m, False))"

definition heal_ss_client :: "string \<Rightarrow> json omap \<Rightarrow> json omap option" where
  "heal_ss_client m c =
     (if has_prefix m ''2022-blake3-'' then (if oget c ''method'' = None then None else Some (odel ''method'' c))
      else if m = '''' then None
      else if str_member c ''method'' = m then None
      else Some (oput ''method'' (JStr m) c))"

definition HealShadowsocksClientMethods :: "string \<Rightarrow> string \<times> bool" where
  "HealShadowsocksClientMethods settings =
     (if settings = '''' then (settings, False)
      else (case decode_map settings of
              None \<Rightarrow> (settings, False)
            | Some parsed \<Rightarrow>
               (let (m, removed) = ReplaceRemovedShadowsocksCipher (text_at parsed ''method'');
                    parsed1 = (if removed then map_option (oput ''method'' (JStr m)) parsed else parsed)
                in case slice_at parsed1 ''clients'' of
                     None \<Rightarrow> if \<not> removed then (settings, False) else (json_marshal_indent (jmap parsed1), True)
                   | Some clients \<Rightarrow>
                      (let (clients', changed) = edit_clients (heal_ss_client m) clients
                       in if \<not> removed \<and> \<not> changed then (settings, False)
                          else (json_marshal_indent (jmap (map_option (oput ''clients'' (JArr clients')) parsed1)), True)))))"

definition GenXrayInboundConfig :: "inbound \<Rightarrow> inbound_config res" where
  "GenXrayInboundConfig i =
     (let listen = CHR 0x22 # (if i_listen i = '''' then ''0.0.0.0'' else i_listen i) @ [CHR 0x22];
          protocol = i_protocol i
      in bindR (if protocol = ''shadowsocks'' then Inr (fst (HealShadowsocksClientMethods (i_settings i)))
                else if protocol = ''vmess'' then Inr (fst (StripVmessClientSecurity (i_settings i)))
                else if protocol = ''vless'' then Inr (fst (StripVlessInboundEncryption (i_settings i)))
                else if protocol = ''wireguard'' then Inr (fst (WireguardClientsToPeers (i_settings i)))
                else if protocol = ''hysteria'' then bindR (HealHysteriaVersion (i_settings i)) (\<lambda>(s, _). Inr s)
                else Inr (i_settings i)) (\<lambda>settings.
         let stream = fst (StripInboundXhttpClientFields (i_streamSettings i)) in
         bindR (if protocol = ''hysteria'' then bindR (HealHysteriaStreamVersion stream) (\<lambda>(s, _). Inr s)
                else Inr stream) (\<lambda>stream'.
           Inr \<lparr>ic_listen = listen, ic_port = i_port i, ic_protocol = protocol, ic_settings = settings,
                ic_stream = stream', ic_tag = i_tag i, ic_sniffing = i_sniffing i\<rparr>)))"

section \<open>Final masks (inbound.go)\<close>

definition finalMaskRealityTcpMasks :: "gomap \<Rightarrow> json list" where
  "finalMaskRealityTcpMasks stream =
     (if mget stream ''security'' \<noteq> Some (JStr ''reality'') then []
      else (case object_at stream ''finalmask'' of
              None \<Rightarrow> []
            | Some fm \<Rightarrow> (case slice_at (Some fm) ''tcp'' of None \<Rightarrow> [] | Some tcp \<Rightarrow> tcp)))"

text \<open>\<^verbatim>\<open>^[A-Za-z0-9_]{3,16}$\<close>.\<close>

definition xmc_username_ok :: "string \<Rightarrow> bool" where
  "xmc_username_ok s \<longleftrightarrow> 3 \<le> length s \<and> length s \<le> 16 \<and> list_all (\<lambda>c. is_alnum c \<or> c = CHR ''_'') s"

definition xmc_profile_ok :: "(string \<Rightarrow> bool) \<Rightarrow> json \<Rightarrow> bool" where
  "xmc_profile_ok uuidOk entry =
     (case entry of
        JObj p \<Rightarrow>
          xmc_username_ok (str_member p ''username'') \<and> uuidOk (str_member p ''uuid'')
          \<and> str_member p ''texturesValue'' \<noteq> '''' \<and> str_member p ''texturesSignature'' \<noteq> ''''
      | _ \<Rightarrow> False)"

definition xmcMaskProfilesComplete :: "(string \<Rightarrow> bool) \<Rightarrow> json omap \<Rightarrow> bool" where
  "xmcMaskProfilesComplete uuidOk msk =
     (case object_at (Some msk) ''settings'' of
        None \<Rightarrow> False
      | Some settings \<Rightarrow>
         (case slice_at (Some settings) ''profiles'' of
            None \<Rightarrow> False
          | Some profiles \<Rightarrow> profiles \<noteq> [] \<and> list_all (xmc_profile_ok uuidOk) profiles))"

definition isIncompleteXmcMask :: "(string \<Rightarrow> bool) \<Rightarrow> json \<Rightarrow> bool" where
  "isIncompleteXmcMask uuidOk entry =
     (case entry of
        JObj msk \<Rightarrow> str_member msk ''type'' = ''xmc'' \<and> \<not> xmcMaskProfilesComplete uuidOk msk
      | _ \<Rightarrow> False)"

definition stripIncompleteXmcMasks :: "(string \<Rightarrow> bool) \<Rightarrow> gomap \<Rightarrow> gomap" where
  "stripIncompleteXmcMasks uuidOk stream =
     (case object_at stream ''finalmask'' of
        None \<Rightarrow> stream
      | Some fm \<Rightarrow>
         (case slice_at (Some fm) ''tcp'' of
            None \<Rightarrow> stream
          | Some tcp \<Rightarrow>
             (let kept = filter (\<lambda>e. \<not> isIncompleteXmcMask uuidOk e) tcp in
              if length kept = length tcp then stream
              else (let fm' = (if kept = [] then odel ''tcp'' fm else oput ''tcp'' (JArr kept) fm)
                    in map_option (if fm' = [] then odel ''finalmask'' else oput ''finalmask'' (JObj fm')) stream))))"

definition randIsSet :: "json option \<Rightarrow> bool" where
  "randIsSet v =
     (case v of
        Some (JNum n) \<Rightarrow> lit_positive n
      | Some (JStr s) \<Rightarrow> s \<noteq> '''' \<and> s \<noteq> ''0'' \<and> s \<noteq> ''0-0''
      | _ \<Rightarrow> False)"

text \<open>The empty packet is an array without elements, so the order of clearing and descending is immaterial.\<close>

fun dropEmptyRandPackets :: "json \<Rightarrow> json"
  and drop_packets_elems :: "json list \<Rightarrow> json list"
  and drop_packets_members :: "(string \<times> json) list \<Rightarrow> (string \<times> json) list" where
  "dropEmptyRandPackets (JObj ms) =
     JObj (if oget ms ''packet'' = Some (JArr []) \<and> randIsSet (oget ms ''rand'')
           then odel ''packet'' (drop_packets_members ms) else drop_packets_members ms)"
| "dropEmptyRandPackets (JArr xs) = JArr (drop_packets_elems xs)"
| "dropEmptyRandPackets v = v"
| "drop_packets_elems [] = []"
| "drop_packets_elems (x # xs) = dropEmptyRandPackets x # drop_packets_elems xs"
| "drop_packets_members [] = []"
| "drop_packets_members ((k, v) # ms) = (k, dropEmptyRandPackets v) # drop_packets_members ms"

section \<open>The session keys of XHTTP (xray.go)\<close>

definition lift_key :: "string \<Rightarrow> string \<Rightarrow> json omap \<Rightarrow> json omap" where
  "lift_key legacy renamed xhttp =
     (case oget xhttp legacy of
        None \<Rightarrow> xhttp
      | Some v \<Rightarrow> odel legacy (if oget xhttp renamed = None then oput renamed v xhttp else xhttp))"

definition liftXhttpSessionIDKeys :: "gomap \<Rightarrow> gomap \<times> bool" where
  "liftXhttpSessionIDKeys stream =
     (case object_at stream ''xhttpSettings'' of
        None \<Rightarrow> (stream, False)
      | Some xhttp \<Rightarrow>
         if oget xhttp ''sessionPlacement'' = None \<and> oget xhttp ''sessionKey'' = None then (stream, False)
         else (map_option (oput ''xhttpSettings'' (JObj (lift_key ''sessionKey'' ''sessionIDKey''
                 (lift_key ''sessionPlacement'' ''sessionIDPlacement'' xhttp)))) stream, True))"

definition lift_outbound :: "json \<Rightarrow> json \<times> bool" where
  "lift_outbound ob =
     (case ob of
        JObj m \<Rightarrow>
          (case object_at (Some m) ''streamSettings'' of
             None \<Rightarrow> (ob, False)
           | Some stream \<Rightarrow>
              (let (stream', changed) = liftXhttpSessionIDKeys (Some stream)
               in (JObj (oput ''streamSettings'' (jmap stream') m), changed)))
      | _ \<Rightarrow> (ob, False))"

definition liftOutboundsXhttpSessionIDKeys :: "string \<Rightarrow> string" where
  "liftOutboundsXhttpSessionIDKeys raw =
     (if raw = '''' then raw
      else (case json_parse raw of
              Some (JArr obs) \<Rightarrow>
                if list_all (\<lambda>ob. case ob of JObj _ \<Rightarrow> True | JNull \<Rightarrow> True | _ \<Rightarrow> False) obs
                   \<and> list_ex (\<lambda>ob. snd (lift_outbound ob)) obs
                then json_marshal (JArr (List.map (\<lambda>ob. fst (lift_outbound ob)) obs))
                else raw
            | _ \<Rightarrow> raw))"

section \<open>The sections of the template (xray.go)\<close>

definition api_services :: "string list" where
  "api_services = [''HandlerService'', ''StatsService'', ''RoutingService'']"

definition ensureAPIServices :: "string \<Rightarrow> string res" where
  "ensureAPIServices api =
     (if api = '''' then Inr api
      else (case decode_map api of
              None \<Rightarrow> Inr api
            | Some parsed \<Rightarrow>
               (let services = (case slice_at parsed ''services'' of None \<Rightarrow> [] | Some xs \<Rightarrow> xs);
                    missing = filter (\<lambda>n. JStr n \<notin> set services) api_services;
                    blank = trim_space (text_at parsed ''tag'') = ''''
                in if missing = [] \<and> \<not> blank then Inr api
                   else bindR (if blank then mput ''tag'' (JStr ''api'') parsed else Inr parsed) (\<lambda>p1.
                        bindR (mput ''services'' (JArr (services @ List.map JStr missing)) p1) (\<lambda>p2.
                          Inr (json_marshal (jmap p2)))))))"

definition stats_level :: "json \<Rightarrow> json \<times> bool" where
  "stats_level raw =
     (case raw of
        JObj level \<Rightarrow>
          if oget level ''statsUserOnline'' = Some (JBool True) then (raw, False)
          else (JObj (oput ''statsUserOnline'' (JBool True) level), True)
      | _ \<Rightarrow> (raw, False))"

definition ensureStatsPolicy :: "string \<Rightarrow> string res" where
  "ensureStatsPolicy policy =
     (if policy = '''' then Inr policy
      else (case decode_map policy of
              None \<Rightarrow> Inr policy
            | Some parsed \<Rightarrow>
               (let levels = (case object_at parsed ''levels'' of None \<Rightarrow> [] | Some ms \<Rightarrow> ms);
                    levels1 = (if oget levels ''0'' = None then oput ''0'' (JObj []) levels else levels)
                in if \<not> list_ex (\<lambda>kv. snd (stats_level (snd kv))) levels1 then Inr policy
                   else bindR (mput ''levels'' (JObj (List.map (\<lambda>(k, v). (k, fst (stats_level v))) levels1)) parsed) (\<lambda>p.
                          Inr (json_marshal (jmap p))))))"

text \<open>\<^verbatim>\<open>path.Base\<close> and \<^verbatim>\<open>filepath.Join\<close> of a folder and a name, on Unix.\<close>

definition path_base :: "string \<Rightarrow> string" where
  "path_base p =
     (if p = '''' then ''.''
      else (let s = rev (dropWhile (\<lambda>c. c = CHR ''/'') (rev p)) in
            if s = '''' then ''/'' else last (split_on (CHR ''/'') s)))"

definition confine_log :: "string \<Rightarrow> string \<Rightarrow> string option" where
  "confine_log folder v =
     (let trimmed = trim_space v in
      if trimmed = '''' \<or> equal_fold trimmed ''none'' then None
      else (let base = path_base trimmed in
            if base \<in> {'''', ''.'', ''..'', ''/''} then None
            else (let confined = path_clean (folder @ ''/'' @ base) in if confined = trimmed then None else Some confined)))"

definition confine_key :: "string \<Rightarrow> string \<Rightarrow> gomap \<times> bool \<Rightarrow> gomap \<times> bool" where
  "confine_key folder k st =
     (case mget (fst st) k of
        Some (JStr v) \<Rightarrow>
          (case confine_log folder v of
             None \<Rightarrow> st
           | Some p \<Rightarrow> (map_option (oput k (JStr p)) (fst st), True))
      | _ \<Rightarrow> st)"

definition resolveXrayLogPaths :: "string \<Rightarrow> string \<Rightarrow> string" where
  "resolveXrayLogPaths folder logCfg =
     (if logCfg = '''' then logCfg
      else (case decode_map logCfg of
              None \<Rightarrow> logCfg
            | Some parsed \<Rightarrow>
               (let (parsed', changed) = fold (confine_key folder) [''access'', ''error''] (parsed, False)
                in if changed then json_marshal (jmap parsed') else logCfg)))"

definition isApiRule :: "json omap \<Rightarrow> bool" where
  "isApiRule rule \<longleftrightarrow>
     oget rule ''outboundTag'' = Some (JStr ''api'')
     \<and> (case oget rule ''inboundTag'' of
          Some (JArr tags) \<Rightarrow> JStr ''api'' \<in> set tags
        | Some (JStr t) \<Rightarrow> t = ''api''
        | _ \<Rightarrow> False)"

definition active_rule :: "json \<Rightarrow> json list" where
  "active_rule raw =
     (case raw of
        JObj rule \<Rightarrow>
          (case oget rule ''enabled'' of
             None \<Rightarrow> [raw]
           | Some v \<Rightarrow> if v = JBool False \<and> \<not> isApiRule rule then [] else [JObj (odel ''enabled'' rule)])
      | _ \<Rightarrow> [raw])"

text \<open>When no rule is left the slice is nil, which prints as null.\<close>

definition stripDisabledRules :: "string \<Rightarrow> string" where
  "stripDisabledRules routerCfg =
     (if routerCfg = '''' then routerCfg
      else (case decode_map routerCfg of
              None \<Rightarrow> routerCfg
            | Some parsed \<Rightarrow>
               (case slice_at parsed ''rules'' of
                  None \<Rightarrow> routerCfg
                | Some rules \<Rightarrow>
                   (let active = concat (List.map active_rule rules) in
                    if \<not> list_ex (\<lambda>r. case r of JObj rule \<Rightarrow> oget rule ''enabled'' \<noteq> None | _ \<Rightarrow> False) rules
                    then routerCfg
                    else json_marshal (jmap (map_option (oput ''rules''
                           (if active = [] then JNull else JArr active)) parsed))))))"

section \<open>Decoding the template into a configuration\<close>

text \<open>
  The members of an object with the raw texts of their values, in the order of the text.  A key that
  occurs twice is decoded twice; a repeated list of inbounds starts from fresh structs here.
\<close>

fun raw_members :: "nat \<Rightarrow> string \<Rightarrow> (string \<times> string) list option" where
  "raw_members 0 s = None"
| "raw_members (Suc n) s =
     (case skip_ws s of
        [] \<Rightarrow> None
      | c # cs \<Rightarrow>
         if c \<noteq> CHR 0x22 then None
         else (case pstr cs of
            None \<Rightarrow> None
          | Some (k, r) \<Rightarrow>
             (case skip_ws r of
                [] \<Rightarrow> None
              | d # ds \<Rightarrow>
                 if d \<noteq> CHR '':'' then None
                 else (let t = skip_ws ds in
                    case p_value (Suc (length t)) t of
                      None \<Rightarrow> None
                    | Some (v, r2) \<Rightarrow>
                       (let raw = take (length t - length r2) t in
                        case skip_ws r2 of
                          [] \<Rightarrow> None
                        | e # es \<Rightarrow>
                           if e = CHR '','' then map_option ((#) (k, raw)) (raw_members n es)
                           else if e = CHR ''}'' then Some [(k, raw)]
                           else None)))))"

definition object_members :: "string \<Rightarrow> (string \<times> string) list option" where
  "object_members raw =
     (case json_parse raw of
        Some JNull \<Rightarrow> Some []
      | Some (JObj ms) \<Rightarrow> if ms = [] then Some [] else raw_members (length raw) (tl (skip_ws raw))
      | _ \<Rightarrow> None)"

type_synonym 'r raw_field = "string \<times> (string \<Rightarrow> 'r \<Rightarrow> 'r option)"

fun set_fields :: "'r raw_field list \<Rightarrow> (string \<times> string) list \<Rightarrow> 'r \<Rightarrow> 'r option" where
  "set_fields fds [] r = Some r"
| "set_fields fds ((k, raw) # kvs) r =
     (case find (\<lambda>f. field_is (fst f) k) fds of
        None \<Rightarrow> set_fields fds kvs r
      | Some f \<Rightarrow> (case snd f raw r of None \<Rightarrow> None | Some r' \<Rightarrow> set_fields fds kvs r'))"

definition raw_text :: "(string \<Rightarrow> 'r \<Rightarrow> 'r) \<Rightarrow> string \<Rightarrow> 'r \<Rightarrow> 'r option" where
  "raw_text f raw r = Some (f raw r)"

definition raw_str :: "(string \<Rightarrow> 'r \<Rightarrow> 'r) \<Rightarrow> string \<Rightarrow> 'r \<Rightarrow> 'r option" where
  "raw_str f raw r = (case json_parse raw of None \<Rightarrow> None | Some v \<Rightarrow> dec_str f v r)"

definition raw_int :: "(int \<Rightarrow> 'r \<Rightarrow> 'r) \<Rightarrow> string \<Rightarrow> 'r \<Rightarrow> 'r option" where
  "raw_int f raw r = (case json_parse raw of None \<Rightarrow> None | Some v \<Rightarrow> dec_int f v r)"

definition zero_inbound_config :: inbound_config where
  "zero_inbound_config = \<lparr>ic_listen = '''', ic_port = 0, ic_protocol = '''', ic_settings = '''', ic_stream = '''',
     ic_tag = '''', ic_sniffing = ''''\<rparr>"

definition inbound_config_fields :: "inbound_config raw_field list" where
  "inbound_config_fields =
    [(''listen'', raw_text (\<lambda>s c. c\<lparr>ic_listen := s\<rparr>)),
     (''port'', raw_int (\<lambda>i c. c\<lparr>ic_port := i\<rparr>)),
     (''protocol'', raw_str (\<lambda>s c. c\<lparr>ic_protocol := s\<rparr>)),
     (''settings'', raw_text (\<lambda>s c. c\<lparr>ic_settings := s\<rparr>)),
     (''streamSettings'', raw_text (\<lambda>s c. c\<lparr>ic_stream := s\<rparr>)),
     (''tag'', raw_str (\<lambda>s c. c\<lparr>ic_tag := s\<rparr>)),
     (''sniffing'', raw_text (\<lambda>s c. c\<lparr>ic_sniffing := s\<rparr>))]"

fun decode_inbound_configs :: "string list \<Rightarrow> inbound_config list option" where
  "decode_inbound_configs [] = Some []"
| "decode_inbound_configs (raw # raws) =
     (case object_members raw of
        None \<Rightarrow> None
      | Some ms \<Rightarrow>
         (case set_fields inbound_config_fields ms zero_inbound_config of
            None \<Rightarrow> None
          | Some ic \<Rightarrow> map_option ((#) ic) (decode_inbound_configs raws)))"

definition raw_inbounds :: "string \<Rightarrow> xconfig \<Rightarrow> xconfig option" where
  "raw_inbounds raw c =
     (case unmarshal_raw_array raw of
        None \<Rightarrow> None
      | Some raws \<Rightarrow> map_option (\<lambda>ibs. c\<lparr>cf_inbounds := ibs\<rparr>) (decode_inbound_configs raws))"

definition zero_xconfig :: xconfig where
  "zero_xconfig = \<lparr>cf_log = '''', cf_routing = '''', cf_dns = '''', cf_inbounds = [], cf_outbounds = '''',
     cf_transport = '''', cf_policy = '''', cf_api = '''', cf_stats = '''', cf_reverse = '''', cf_fakedns = '''',
     cf_observatory = '''', cf_burstObservatory = '''', cf_metrics = '''', cf_geodata = '''', cf_env = ''''\<rparr>"

definition xconfig_fields :: "xconfig raw_field list" where
  "xconfig_fields =
    [(''log'', raw_text (\<lambda>s c. c\<lparr>cf_log := s\<rparr>)),
     (''routing'', raw_text (\<lambda>s c. c\<lparr>cf_routing := s\<rparr>)),
     (''dns'', raw_text (\<lambda>s c. c\<lparr>cf_dns := s\<rparr>)),
     (''inbounds'', raw_inbounds),
     (''outbounds'', raw_text (\<lambda>s c. c\<lparr>cf_outbounds := s\<rparr>)),
     (''transport'', raw_text (\<lambda>s c. c\<lparr>cf_transport := s\<rparr>)),
     (''policy'', raw_text (\<lambda>s c. c\<lparr>cf_policy := s\<rparr>)),
     (''api'', raw_text (\<lambda>s c. c\<lparr>cf_api := s\<rparr>)),
     (''stats'', raw_text (\<lambda>s c. c\<lparr>cf_stats := s\<rparr>)),
     (''reverse'', raw_text (\<lambda>s c. c\<lparr>cf_reverse := s\<rparr>)),
     (''fakedns'', raw_text (\<lambda>s c. c\<lparr>cf_fakedns := s\<rparr>)),
     (''observatory'', raw_text (\<lambda>s c. c\<lparr>cf_observatory := s\<rparr>)),
     (''burstObservatory'', raw_text (\<lambda>s c. c\<lparr>cf_burstObservatory := s\<rparr>)),
     (''metrics'', raw_text (\<lambda>s c. c\<lparr>cf_metrics := s\<rparr>)),
     (''geodata'', raw_text (\<lambda>s c. c\<lparr>cf_geodata := s\<rparr>)),
     (''env'', raw_text (\<lambda>s c. c\<lparr>cf_env := s\<rparr>))]"

definition decode_xconfig :: "string \<Rightarrow> xconfig option" where
  "decode_xconfig raw =
     (case object_members raw of None \<Rightarrow> None | Some ms \<Rightarrow> set_fields xconfig_fields ms zero_xconfig)"

text \<open>\<open>defaults\<close> is the embedded template, decoded.\<close>

definition ensureAPIInbound :: "xconfig option \<Rightarrow> xconfig \<Rightarrow> xconfig" where
  "ensureAPIInbound defaults cfg =
     (if cf_api cfg = '''' then cfg
      else (case decode_map (cf_api cfg) of
              None \<Rightarrow> cfg
            | Some api \<Rightarrow>
               (let tag = trim_space (text_at api ''tag'') in
                if tag = '''' \<or> list_ex (\<lambda>ib. ic_tag ib = tag) (cf_inbounds cfg) then cfg
                else (case defaults of
                        None \<Rightarrow> cfg
                      | Some d \<Rightarrow>
                         (case find (\<lambda>ib. ic_tag ib = ''api'') (cf_inbounds d) of
                            None \<Rightarrow> cfg
                          | Some ib \<Rightarrow> cfg\<lparr>cf_inbounds := cf_inbounds cfg @ [ib\<lparr>ic_tag := tag\<rparr>]\<rparr>)))))"

section \<open>Bridges\<close>

definition routingTagIsBalancer :: "gomap \<Rightarrow> string \<Rightarrow> bool" where
  "routingTagIsBalancer routing tag \<longleftrightarrow>
     tag \<noteq> ''''
     \<and> (case slice_at routing ''balancers'' of
          None \<Rightarrow> False
        | Some bs \<Rightarrow> list_ex (\<lambda>b. case b of JObj m \<Rightarrow> oget m ''tag'' = Some (JStr tag) | _ \<Rightarrow> False) bs)"

fun outbound_tags :: "string list \<Rightarrow> string list option" where
  "outbound_tags [] = Some []"
| "outbound_tags (raw # raws) =
     (case unmarshal_string_field ''tag'' raw of None \<Rightarrow> None | Some t \<Rightarrow> map_option ((#) t) (outbound_tags raws))"

definition outboundTagExists :: "string \<Rightarrow> string \<Rightarrow> bool" where
  "outboundTagExists outbounds tag \<longleftrightarrow>
     tag \<noteq> ''''
     \<and> (case unmarshal_raw_array outbounds of
          None \<Rightarrow> False
        | Some raws \<Rightarrow> (case outbound_tags raws of None \<Rightarrow> False | Some ts \<Rightarrow> tag \<in> set ts))"

definition routingTargetExists :: "gomap \<Rightarrow> string \<Rightarrow> string \<Rightarrow> bool" where
  "routingTargetExists routing outbounds tag \<longleftrightarrow> routingTagIsBalancer routing tag \<or> outboundTagExists outbounds tag"

definition decode_routing :: "string \<Rightarrow> gomap option" where
  "decode_routing router = (if router = '''' then Some (Some []) else decode_map router)"

definition bridge_rule :: "gomap \<Rightarrow> string \<Rightarrow> string \<Rightarrow> json" where
  "bridge_rule routing tag target =
     jobj [(''type'', JStr ''field''), (''inboundTag'', JArr [JStr tag]),
           (if routingTagIsBalancer routing target then ''balancerTag'' else ''outboundTag'', JStr target)]"

definition prepend_rules :: "json list \<Rightarrow> gomap \<Rightarrow> string res" where
  "prepend_rules new routing =
     bindR (mput ''rules'' (JArr (new @ (case slice_at routing ''rules'' of None \<Rightarrow> [] | Some rs \<Rightarrow> rs))) routing)
       (\<lambda>r. Inr (json_marshal (jmap r)))"

definition socks_settings :: string where
  "socks_settings = [CHR ''{''] @ jquote ''auth'' @ '':'' @ jquote ''noauth'' @ '','' @ jquote ''udp'' @ '':false}''"

definition bridge_inbound :: "int \<Rightarrow> string \<Rightarrow> inbound_config" where
  "bridge_inbound port tag =
     \<lparr>ic_listen = jquote ''127.0.0.1'', ic_port = port, ic_protocol = ''socks'', ic_settings = socks_settings,
      ic_stream = '''', ic_tag = tag, ic_sniffing = ''''\<rparr>"

text \<open>The first port from \<open>p\<close> on that is not taken: among \<open>length used + 1\<close> ports one is free.\<close>

definition bridge_port :: "int list \<Rightarrow> int \<Rightarrow> int" where
  "bridge_port used p =
     (case find (\<lambda>q. q \<notin> set used) [p..p + int (length used)] of None \<Rightarrow> p | Some q \<Rightarrow> q)"

definition PanelEgressInboundTag :: string where
  "PanelEgressInboundTag = ''panel-egress''"

definition panelEgressBasePort :: int where
  "panelEgressBasePort = 62790"

definition injectPanelEgress :: "string \<Rightarrow> xconfig \<Rightarrow> xconfig res" where
  "injectPanelEgress outboundTag cfg =
     (if list_ex (\<lambda>ib. ic_tag ib = PanelEgressInboundTag) (cf_inbounds cfg) then Inr cfg
      else (case decode_routing (cf_routing cfg) of
              None \<Rightarrow> Inr cfg
            | Some routing \<Rightarrow>
               if \<not> routingTargetExists routing (cf_outbounds cfg) outboundTag then Inr cfg
               else bindR (prepend_rules [bridge_rule routing PanelEgressInboundTag outboundTag] routing) (\<lambda>router.
                 Inr (cfg\<lparr>cf_routing := router,
                          cf_inbounds := cf_inbounds cfg @ [bridge_inbound
                            (bridge_port (List.map ic_port (cf_inbounds cfg)) panelEgressBasePort) PanelEgressInboundTag]\<rparr>))))"

definition NodeEgressInboundTag :: "int \<Rightarrow> string" where
  "NodeEgressInboundTag nodeID = ''node-egress-'' @ itoa nodeID"

definition nodeEgressBasePort :: int where
  "nodeEgressBasePort = 62800"

text \<open>One node: the inbounds and the rules so far.  The ports and tags in use are those of the inbounds.\<close>

definition node_egress :: "gomap \<Rightarrow> string \<Rightarrow> node \<Rightarrow> inbound_config list \<times> json list \<Rightarrow> inbound_config list \<times> json list" where
  "node_egress routing outbounds n st =
     (let (ibs, rules) = st; tag = NodeEgressInboundTag (nd_id n) in
      if \<not> nd_enable n \<or> nd_outboundTag n = '''' then st
      else if \<not> routingTargetExists routing outbounds (nd_outboundTag n) then st
      else if list_ex (\<lambda>ib. ic_tag ib = tag) ibs then st
      else (ibs @ [bridge_inbound (bridge_port (List.map ic_port ibs) (nodeEgressBasePort + nd_id n)) tag],
            rules @ [bridge_rule routing tag (nd_outboundTag n)]))"

definition injectNodeEgresses :: "node list \<Rightarrow> xconfig \<Rightarrow> xconfig res" where
  "injectNodeEgresses nodes cfg =
     (case decode_routing (cf_routing cfg) of
        None \<Rightarrow> Inr cfg
      | Some routing \<Rightarrow>
         (let (ibs, rules) = fold (node_egress routing (cf_outbounds cfg)) nodes (cf_inbounds cfg, []) in
          if rules = [] then Inr cfg
          else bindR (prepend_rules rules routing) (\<lambda>router. Inr (cfg\<lparr>cf_inbounds := ibs, cf_routing := router\<rparr>))))"

record mtproto_route =
  mr_through :: bool
  mr_port :: int
  mr_outboundTag :: string

definition mtproto_route_fields :: "mtproto_route field list" where
  "mtproto_route_fields =
    [(''routeThroughXray'', dec_bool (\<lambda>b r. r\<lparr>mr_through := b\<rparr>)),
     (''routeXrayPort'', dec_int (\<lambda>i r. r\<lparr>mr_port := i\<rparr>)),
     (''outboundTag'', dec_str (\<lambda>s r. r\<lparr>mr_outboundTag := s\<rparr>))]"

definition decode_mtproto_route :: "string \<Rightarrow> mtproto_route option" where
  "decode_mtproto_route settings =
     (case text_members settings of
        None \<Rightarrow> None
      | Some ms \<Rightarrow> dec_members mtproto_route_fields ms \<lparr>mr_through = False, mr_port = 0, mr_outboundTag = ''''\<rparr>)"

definition injectMtprotoEgress :: "inbound \<Rightarrow> xconfig \<Rightarrow> xconfig res" where
  "injectMtprotoEgress ib cfg =
     (case decode_mtproto_route (i_settings ib) of
        None \<Rightarrow> Inr cfg
      | Some r \<Rightarrow>
         (let tag = i_tag ib; add = (\<lambda>cfg. cfg\<lparr>cf_inbounds := cf_inbounds cfg @ [bridge_inbound (mr_port r) tag]\<rparr>) in
          if \<not> mr_through r \<or> mr_port r \<le> 0 \<or> tag = '''' then Inr cfg
          else if list_ex (\<lambda>c. ic_tag c = tag) (cf_inbounds cfg) then Inr cfg
          else if mr_outboundTag r = '''' then Inr (add cfg)
          else (case decode_routing (cf_routing cfg) of
                  None \<Rightarrow> Inr cfg
                | Some routing \<Rightarrow>
                   if \<not> routingTargetExists routing (cf_outbounds cfg) (mr_outboundTag r) then Inr cfg
                   else bindR (prepend_rules [bridge_rule routing tag (mr_outboundTag r)] routing) (\<lambda>router.
                          Inr (add (cfg\<lparr>cf_routing := router\<rparr>))))))"

definition mergeSubscriptionOutbounds :: "json list \<Rightarrow> json list \<Rightarrow> xconfig \<Rightarrow> xconfig" where
  "mergeSubscriptionOutbounds front back cfg =
     (if front = [] \<and> back = [] then cfg
      else (case (if cf_outbounds cfg = '''' then Some (JArr []) else json_parse (cf_outbounds cfg)) of
              Some (JArr obs) \<Rightarrow> cfg\<lparr>cf_outbounds := json_marshal_indent (JArr (front @ obs @ back))\<rparr>
            | Some JNull \<Rightarrow> cfg\<lparr>cf_outbounds := json_marshal_indent (JArr (front @ back))\<rparr>
            | _ \<Rightarrow> cfg))"

end
