(* ===== verification/XrayConfig.thy ===== *)
theory XrayConfig
  imports XrayHeal LineShare
begin

text \<open>
  The configuration of Xray (\<open>GetXrayConfig\<close>, internal/web/service/xray.go): the template of the
  settings, one inbound for every enabled inbound of this panel with the clients that may use it, the
  outbounds of the subscriptions and the bridges.  A traffic poll runs first.  \<^verbatim>\<open>strings.ToLower\<close> is that
  of ASCII, which is all it does to the emails the panel accepts.
\<close>

section \<open>Inbounds with their accounting rows (inbound.go, inbound\_clients.go)\<close>

text \<open>The parsed clients; an error leaves none.\<close>

definition clients_or_none :: "inbound \<Rightarrow> client list" where
  "clients_or_none ib = (case GetClients ib of Inl e \<Rightarrow> [] | Inr cs \<Rightarrow> cs)"

definition seen_emails :: "client_traffic list \<Rightarrow> string list" where
  "seen_emails stats = List.map to_lower (filter (\<lambda>e. e \<noteq> '''') (List.map t_email stats))"

definition missing_emails :: "(inbound \<times> client_traffic list) list \<Rightarrow> unit omap" where
  "missing_emails ibs =
     fold (\<lambda>e m. oput e () m)
       (concat (List.map (\<lambda>(ib, stats).
          filter (\<lambda>e. e \<noteq> '''' \<and> to_lower e \<notin> set (seen_emails stats)) (List.map u_email (clients_or_none ib))) ibs)) []"

text \<open>The rows a client's inbound lacks, in the order of its clients.\<close>

fun fill_stats :: "client_traffic omap \<Rightarrow> string list \<Rightarrow> client list \<Rightarrow> client_traffic list" where
  "fill_stats byEmail seen [] = []"
| "fill_stats byEmail seen (c # cs) =
     (let key = to_lower (u_email c) in
      if u_email c = '''' \<or> key \<in> set seen then fill_stats byEmail seen cs
      else (case oget byEmail key of
              None \<Rightarrow> fill_stats byEmail seen cs
            | Some st \<Rightarrow> st # fill_stats byEmail (key # seen) cs))"

definition backfillClientStats :: "(inbound \<times> client_traffic list) list \<Rightarrow> (inbound \<times> client_traffic list) list W" where
  "backfillClientStats ibs =
     (let missing = missing_emails ibs in
      if missing = [] then retM ibs
      else bindM (range_keys missing) (\<lambda>emails.
           bindM (catchM (foldM (\<lambda>b acc.
                    bindM (db_query (\<lambda>d. filter (\<lambda>t. t_email t \<in> set b) (d_traffics d))) (\<lambda>page. retM (acc @ page)))
                  (chunks sqlInChunk emails) [])) (\<lambda>r.
             case r of
               Inl e \<Rightarrow> retM ibs
             | Inr extra \<Rightarrow>
                (let byEmail = fold (\<lambda>st. oput (to_lower (t_email st)) st) extra [] in
                 retM (List.map (\<lambda>(ib, stats).
                   (ib, stats @ fill_stats byEmail (seen_emails stats) (clients_or_none ib))) ibs)))))"

text \<open>
  \<^verbatim>\<open>Preload("ClientStats")\<close>.  What \<open>enrichClientStats\<close> copies into the rows besides is not stored and
  not used here.
\<close>

definition GetAllInbounds :: "(inbound \<times> client_traffic list) list W" where
  "GetAllInbounds =
     bindM (db_query d_inbounds) (\<lambda>ibs.
       if ibs = [] then retM []
       else bindM (db_query (\<lambda>d. filter (\<lambda>t. t_inboundId t \<in> i_id ` set ibs) (d_traffics d))) (\<lambda>ts.
         backfillClientStats (List.map (\<lambda>ib. (ib, filter (\<lambda>t. t_inboundId t = i_id ib) ts)) ibs)))"

section \<open>Fallbacks (fallback.go, inbound\_protocol.go)\<close>

definition fallback_entry :: "inbound list \<Rightarrow> inbound_fallback \<Rightarrow> json omap list" where
  "fallback_entry children r =
     (let own = trim_space (fb_dest r);
          dest = (if own \<noteq> '''' then Some own
                  else (case find (\<lambda>i. i_id i = fb_childId r) (rev children) of
                          None \<Rightarrow> None
                        | Some child \<Rightarrow>
                           (let listen = trim_space (i_listen child);
                                host = (if listen \<in> {'''', ''0.0.0.0'', ''::'', ''::0''} then ''127.0.0.1'' else listen)
                            in Some (host @ '':'' @ itoa (i_port child)))))
      in case dest of
           None \<Rightarrow> []
         | Some d \<Rightarrow>
            [put_if (0 < fb_xver r) ''xver'' (JInt (fb_xver r))
               (put_if (fb_path r \<noteq> '''') ''path'' (JStr (fb_path r))
                 (put_if (fb_alpn r \<noteq> '''') ''alpn'' (JStr (fb_alpn r))
                   (put_if (fb_name r \<noteq> '''') ''name'' (JStr (fb_name r)) [(''dest'', JStr d)])))])"

definition BuildFallbacksJSON :: "int \<Rightarrow> json omap list W" where
  "BuildFallbacksJSON masterId =
     bindM (db_query (\<lambda>d. sort_key fb_sortOrder (filter (\<lambda>r. fb_masterId r = masterId) (d_fallbacks d)))) (\<lambda>rows.
       if rows = [] then retM []
       else bindM (db_query (inbounds_in (List.map fb_childId rows))) (\<lambda>children.
         retM (concat (List.map (fallback_entry children) rows))))"

definition streamSupportsFallbacks :: "string \<Rightarrow> bool" where
  "streamSupportsFallbacks streamSettings \<longleftrightarrow>
     streamSettings \<noteq> ''''
     \<and> (case text_members streamSettings of
          None \<Rightarrow> False
        | Some ms \<Rightarrow>
           (case dec_members [(''network'', dec_str (\<lambda>s (n, sec). (s, sec))),
                              (''security'', dec_str (\<lambda>s (n, sec). (n, s)))] ms ('''', '''') of
              None \<Rightarrow> False
            | Some (network, security) \<Rightarrow> network = ''tcp'' \<and> security \<in> {''tls'', ''reality''}))"

definition inboundCanHostFallbacks :: "inbound \<Rightarrow> bool" where
  "inboundCanHostFallbacks ib \<longleftrightarrow>
     i_protocol ib \<in> {''vless'', ''trojan''} \<and> streamSupportsFallbacks (i_streamSettings ib)"

section \<open>One inbound\<close>

text \<open>The clients that may use the inbound: enabled, and not switched off in their accounting row.\<close>

definition enable_map :: "client_traffic list \<Rightarrow> bool omap" where
  "enable_map stats = fold (\<lambda>t. oput (t_email t) (t_enable t)) stats []"

definition allowed_clients :: "client_traffic list \<Rightarrow> client list \<Rightarrow> client list" where
  "allowed_clients stats cs =
     filter (\<lambda>c. oget (enable_map stats) (u_email c) \<noteq> Some False \<and> u_enable c) cs"

definition plain_flow :: "string \<Rightarrow> string" where
  "plain_flow f = (if f = ''xtls-rprx-vision-udp443'' then ''xtls-rprx-vision'' else f)"

definition put_text :: "string \<Rightarrow> string \<Rightarrow> json omap \<Rightarrow> json omap" where
  "put_text k s m = put_if (s \<noteq> '''') k (JStr s) m"

definition config_client :: "string \<Rightarrow> client \<Rightarrow> json omap" where
  "config_client protocol c =
     (let flow = plain_flow (u_flow c); entry = [(''email'', JStr (u_email c))] in
      if protocol = ''vless''
      then (let e = put_text ''flow'' flow (put_text ''id'' (u_id c) entry) in
            case u_reverse c of None \<Rightarrow> e | Some t \<Rightarrow> oput ''reverse'' (JObj [(''tag'', JStr t)]) e)
      else if protocol = ''vmess'' then put_text ''security'' (u_security c) (put_text ''id'' (u_id c) entry)
      else if protocol = ''trojan'' then put_text ''flow'' flow (put_text ''password'' (u_password c) entry)
      else if protocol = ''shadowsocks'' then put_text ''password'' (u_password c) entry
      else if protocol = ''hysteria'' then put_text ''auth'' (u_auth c) entry
      else entry)"

text \<open>A text that does not decode leaves the empty map.\<close>

definition settings_map :: "string \<Rightarrow> gomap" where
  "settings_map text = (case decode_map text of None \<Rightarrow> Some [] | Some m \<Rightarrow> m)"

text \<open>The settings with the clients, and whether they differ from the stored ones.\<close>

definition put_clients :: "string \<Rightarrow> client list \<Rightarrow> gomap \<Rightarrow> (gomap \<times> bool) res" where
  "put_clients protocol cs settings =
     (if protocol = ''wireguard''
      then bindR (mput ''peers'' (JArr (List.map (\<lambda>c. JObj (WireguardPeerFromClient c)) cs))
                    (map_option (odel ''clients'') settings)) (\<lambda>m. Inr (m, True))
      else if mget settings ''clients'' \<noteq> None \<or> cs \<noteq> []
      then bindR (mput ''clients'' (JArr (List.map (\<lambda>c. JObj (config_client protocol c)) cs)) settings) (\<lambda>m. Inr (m, True))
      else Inr (settings, False))"

definition put_fallbacks :: "json omap list \<Rightarrow> gomap \<times> bool \<Rightarrow> (gomap \<times> bool) res" where
  "put_fallbacks fbs st =
     (if fbs = [] then Inr st
      else bindR (mput ''fallbacks'' (JArr (List.map JObj fbs)) (fst st)) (\<lambda>m. Inr (m, True)))"

definition strip_share_settings :: "gomap \<Rightarrow> gomap" where
  "strip_share_settings stream =
     (case object_at stream ''tlsSettings'' of
        Some tls \<Rightarrow> map_option (oput ''tlsSettings'' (JObj (odel ''settings'' tls))) stream
      | None \<Rightarrow>
         (case object_at stream ''realitySettings'' of
            Some r \<Rightarrow> map_option (oput ''realitySettings'' (JObj (odel ''settings'' r))) stream
          | None \<Rightarrow> stream))"

definition heal_stream :: "(string \<Rightarrow> bool) \<Rightarrow> string \<Rightarrow> string" where
  "heal_stream uuidOk text =
     (if text = '''' then text
      else (let stream = (case decode_map text of None \<Rightarrow> None | Some m \<Rightarrow> m);
                s1 = map_option (odel ''externalProxy'') (strip_share_settings stream);
                s2 = (if finalMaskRealityTcpMasks s1 \<noteq> [] then map_option (odel ''finalmask'') s1 else s1);
                s3 = (case mget s2 ''finalmask'' of
                        None \<Rightarrow> s2
                      | Some v \<Rightarrow> map_option (oput ''finalmask'' (dropEmptyRandPackets v)) s2);
                s4 = fst (liftXhttpSessionIDKeys (stripIncompleteXmcMasks uuidOk s3))
            in json_marshal_indent (jmap s4)))"

definition served_inbound :: "inbound \<Rightarrow> bool" where
  "served_inbound ib \<longleftrightarrow> i_enable ib \<and> i_nodeId ib = None \<and> i_protocol ib \<noteq> ''mtproto''"

text \<open>The row that is turned into a configuration: healed settings and stream settings.\<close>

definition finish_row :: "(string \<Rightarrow> bool) \<Rightarrow> inbound \<Rightarrow> gomap \<times> bool \<Rightarrow> inbound" where
  "finish_row uuidOk ib st =
     (let ib1 = ib\<lparr>i_settings := (if snd st then json_marshal_indent (jmap (fst st)) else i_settings ib),
                   i_streamSettings := heal_stream uuidOk (i_streamSettings ib)\<rparr>
      in if i_protocol ib = ''shadowsocks''
         then ib1\<lparr>i_settings := fst (HealShadowsocksClientMethods (i_settings ib1))\<rparr> else ib1)"

definition build_inbound :: "inbound \<times> client_traffic list \<Rightarrow> inbound_config option W" where
  "build_inbound row =
     (let (ib, stats) = row in
      if \<not> served_inbound ib then retM None
      else bindM (ListForInbound (i_id ib)) (\<lambda>dbClients.
           bindM (liftM (put_clients (i_protocol ib) (allowed_clients stats dbClients) (settings_map (i_settings ib)))) (\<lambda>st.
           bindM (if inboundCanHostFallbacks ib then BuildFallbacksJSON (i_id ib) else retM []) (\<lambda>fbs.
           bindM (liftM (put_fallbacks fbs st)) (\<lambda>st'.
           bindM (askM (\<lambda>e _. e_uuidOk e)) (\<lambda>uuidOk.
           bindM (liftM (GenXrayInboundConfig (finish_row uuidOk ib st'))) (\<lambda>ic. retM (Some ic))))))))"

section \<open>Outbound subscriptions, nodes, settings\<close>

definition sub_outbounds :: "(json \<Rightarrow> bool) \<Rightarrow> outbound_subscription \<Rightarrow> json list" where
  "sub_outbounds accepts sub =
     (if trim_space (os_lastFetched sub) = '''' then []
      else (case json_parse (os_lastFetched sub) of Some (JArr arr) \<Rightarrow> filter accepts arr | _ \<Rightarrow> []))"

definition activeOutboundsSplit :: "(json list \<times> json list) W" where
  "activeOutboundsSplit =
     bindM (db_query (\<lambda>d. sort_key os_priority (filter os_enabled (d_outboundSubs d)))) (\<lambda>subs.
     bindM (askM e_coreAccepts) (\<lambda>accepts.
       retM (concat (List.map (sub_outbounds accepts) (filter os_prepend subs)),
             concat (List.map (sub_outbounds accepts) (filter (\<lambda>s. \<not> os_prepend s) subs)))))"

definition GetPanelGuid :: "string W" where
  "GetPanelGuid =
     bindM (getString ''panelGuid'') (\<lambda>guid.
     bindM (askM (\<lambda>e t. defaultValueMap e ''panelGuid'')) (\<lambda>dflt.
     thenM (if dflt = Some guid then thenM (tryM (saveSetting ''panelGuid'' guid)) (retM ()) else retM ())
       (retM guid)))"

text \<open>
  The nodes.  The counts \<open>GetAll\<close> adds to them (three more statements, whose errors it swallows) are for
  display; collecting them stores the panel's identifier when it is still the default.
\<close>

definition GetAll_nodes :: "node list W" where
  "GetAll_nodes =
     bindM (db_query d_nodes) (\<lambda>nodes.
       if nodes = [] then retM nodes
       else bindM (catchM (db_query (\<lambda>d. filter (\<lambda>i. i_nodeId i \<noteq> None) (d_inbounds d)))) (\<lambda>r.
         case r of
           Inl e \<Rightarrow> retM nodes
         | Inr rows \<Rightarrow>
            if rows = [] then retM nodes
            else thenM (catchM (db_query (\<lambda>_. ()))) (thenM (catchM (db_query (\<lambda>_. ())))
                   (thenM (catchM GetPanelGuid) (retM nodes)))))"

section \<open>The configuration\<close>

definition adopt_template :: "string \<Rightarrow> xconfig option \<Rightarrow> xconfig \<Rightarrow> xconfig res" where
  "adopt_template folder defaults cfg0 =
     bindR (ensureAPIServices (cf_api cfg0)) (\<lambda>api.
       let cfg1 = ensureAPIInbound defaults (cfg0\<lparr>cf_log := resolveXrayLogPaths folder (cf_log cfg0), cf_api := api\<rparr>)
       in bindR (ensureStatsPolicy (cf_policy cfg1)) (\<lambda>policy.
            Inr (cfg1\<lparr>cf_policy := policy, cf_routing := stripDisabledRules (cf_routing cfg1),
                      cf_outbounds := liftOutboundsXhttpSessionIDKeys (cf_outbounds cfg1)\<rparr>)))"

definition build_inbounds :: "(inbound \<times> client_traffic list) list \<Rightarrow> inbound_config list W" where
  "build_inbounds rows =
     foldM (\<lambda>row acc. bindM (build_inbound row) (\<lambda>r.
       retM (case r of None \<Rightarrow> acc | Some ic \<Rightarrow> acc @ [ic]))) rows []"

definition routed_mtproto :: "inbound \<Rightarrow> bool" where
  "routed_mtproto ib \<longleftrightarrow> i_protocol ib = ''mtproto'' \<and> i_enable ib \<and> i_nodeId ib = None"

definition fold_res :: "('x \<Rightarrow> 'a \<Rightarrow> 'a res) \<Rightarrow> 'x list \<Rightarrow> 'a \<Rightarrow> 'a res" where
  "fold_res f xs a = fold (\<lambda>x r. bindR r (f x)) xs (Inr a)"

definition add_bridges :: "inbound list \<Rightarrow> xconfig \<Rightarrow> xconfig W" where
  "add_bridges ibs cfg =
     bindM (catchM activeOutboundsSplit) (\<lambda>r.
     let cfg1 = (case r of Inl e \<Rightarrow> cfg | Inr (front, back) \<Rightarrow> mergeSubscriptionOutbounds front back cfg) in
     bindM (liftM (fold_res injectMtprotoEgress (filter routed_mtproto ibs) cfg1)) (\<lambda>cfg2.
     bindM (catchM (getString ''panelOutbound'')) (\<lambda>r2.
     bindM (liftM (case r2 of Inl e \<Rightarrow> Inr cfg2 | Inr tag \<Rightarrow> if tag = '''' then Inr cfg2 else injectPanelEgress tag cfg2)) (\<lambda>cfg3.
     bindM (catchM GetAll_nodes) (\<lambda>r3.
       liftM (case r3 of Inl e \<Rightarrow> Inr cfg3 | Inr nodes \<Rightarrow> injectNodeEgresses nodes cfg3))))))"

definition GetXrayConfig :: "xconfig W" where
  "GetXrayConfig =
     bindM (getString ''xrayTemplateConfig'') (\<lambda>text.
       case decode_xconfig text of
         None \<Rightarrow> failM (lib_error ''json'' text)
       | Some cfg0 \<Rightarrow>
          bindM (askM (\<lambda>e _. (e_logFolder e, decode_xconfig (e_template e)))) (\<lambda>(folder, defaults).
          bindM (liftM (adopt_template folder defaults cfg0)) (\<lambda>cfg.
          thenM (catchM (AddTraffic [] []))
          (bindM GetAllInbounds (\<lambda>rows.
           bindM (build_inbounds rows) (\<lambda>built.
             add_bridges (List.map fst rows) (cfg\<lparr>cf_inbounds := cf_inbounds cfg @ built\<rparr>)))))))"

end
