(* ===== verification/DbLogic.thy ===== *)
theory DbLogic
  imports GoLoops
begin

text \<open>
  A Hoare logic for handlers that read rows and write them back later.  \<open>okM I m Q\<close>: from a database
  with the invariant \<open>I\<close>, the statement \<open>m\<close> ends in one, whatever fails, and a value it returns
  satisfies \<open>Q\<close>.  Unlike \<open>keepsM\<close> it carries what is known of the rows read to the statement that
  saves them.  \<open>healthy\<close> worlds are those in which no statement of the database fails.
\<close>

section \<open>Invariants with results\<close>

named_theorems okM_intros \<open>rules of the judgement \<open>okM\<close>\<close>

definition okM :: "(db \<Rightarrow> bool) \<Rightarrow> 'a W \<Rightarrow> ('a \<Rightarrow> bool) \<Rightarrow> bool" where
  "okM I m Q \<longleftrightarrow> (\<forall>w. I (w_db w) \<longrightarrow> I (w_db (snd (m w))) \<and> (\<forall>x. fst (m w) = Inr x \<longrightarrow> Q x))"

lemma okM_D: "okM I m Q \<Longrightarrow> I (w_db w) \<Longrightarrow> m w = (r, w') \<Longrightarrow> I (w_db w') \<and> (\<forall>x. r = Inr x \<longrightarrow> Q x)"
  by (metis okM_def fst_conv snd_conv)

lemma okM_I:
  assumes "\<And>w r w'. I (w_db w) \<Longrightarrow> m w = (r, w') \<Longrightarrow> I (w_db w') \<and> (\<forall>x. r = Inr x \<longrightarrow> Q x)"
  shows "okM I m Q"
  unfolding okM_def using assms by (metis prod.collapse)

lemma okM_weaken: "okM I m Q \<Longrightarrow> (\<And>x. Q x \<Longrightarrow> R x) \<Longrightarrow> okM I m R"
  by (auto simp: okM_def)

lemma okM_true: "okM I m Q \<Longrightarrow> okM I m (\<lambda>_. True)"
  by (auto simp: okM_def)

lemma okM_keeps: "keepsM (db_rel (invR I)) m \<Longrightarrow> okM I m (\<lambda>_. True)"
  by (auto simp: okM_def keepsM_def db_rel_def invR_def)

lemma okM_ret [okM_intros]: "Q x \<Longrightarrow> okM I (retM x) Q"
  by (simp add: okM_def)

lemma okM_fail [okM_intros]: "okM I (failM e) Q"
  by (simp add: okM_def)

lemma okM_lift [okM_intros]: "(\<And>x. r = Inr x \<Longrightarrow> Q x) \<Longrightarrow> okM I (liftM r) Q"
  by (simp add: okM_def)

lemma okM_bind:
  assumes "okM I m Q" "\<And>x. Q x \<Longrightarrow> okM I (f x) R"
  shows "okM I (bindM m f) R"
proof (rule okM_I)
  fix w r w'
  assume i: "I (w_db w)" and run: "bindM m f w = (r, w')"
  obtain r1 w1 where m: "m w = (r1, w1)" by fastforce
  show "I (w_db w') \<and> (\<forall>x. r = Inr x \<longrightarrow> R x)"
  proof (cases r1)
    case (Inl e)
    then show ?thesis using run m okM_D [OF assms(1) i m] by (auto simp: bindM_apply)
  next
    case (Inr x)
    then have "f x w1 = (r, w')" using run m by (simp add: bindM_apply)
    moreover have "I (w_db w1)" "Q x" using okM_D [OF assms(1) i m] Inr by auto
    ultimately show ?thesis using okM_D [OF assms(2)] by blast
  qed
qed

lemma okM_bind_any [okM_intros]:
  "okM I m (\<lambda>_. True) \<Longrightarrow> (\<And>x. okM I (f x) R) \<Longrightarrow> okM I (bindM m f) R"
  by (rule okM_bind)

lemma okM_then [okM_intros]: "okM I m (\<lambda>_. True) \<Longrightarrow> okM I n R \<Longrightarrow> okM I (thenM m n) R"
  unfolding thenM_def by (rule okM_bind)

lemma okM_try: "okM I m Q \<Longrightarrow> okM I (tryM m) (\<lambda>r. \<forall>x. r = Inr x \<longrightarrow> Q x)"
  by (auto simp: okM_def tryM_apply split: prod.splits)

lemma okM_try_any [okM_intros]: "okM I m (\<lambda>_. True) \<Longrightarrow> okM I (tryM m) (\<lambda>_. True)"
  by (rule okM_true, erule okM_try)

lemma okM_catch_any [okM_intros]: "okM I m (\<lambda>_. True) \<Longrightarrow> okM I (catchM m) (\<lambda>_. True)"
  by (auto simp: okM_def catchM_def split: prod.splits sum.splits)

lemma okM_ask [okM_intros]: "(\<And>e t. Q (f e t)) \<Longrightarrow> okM I (askM f) Q"
  by (simp add: okM_def askM_apply)

lemma okM_dbM:
  "(\<And>d x d'. I d \<Longrightarrow> f d = (Inr x, d') \<Longrightarrow> I d' \<and> Q x) \<Longrightarrow> okM I (dbM f) Q"
  by (auto simp: okM_def dbM_def Let_def split: option.splits prod.splits sum.splits)

lemma okM_query: "(\<And>d. I d \<Longrightarrow> Q (f d)) \<Longrightarrow> okM I (db_query f) Q"
  unfolding db_query_def by (rule okM_dbM) auto

lemma okM_query_any [okM_intros]: "okM I (db_query f) (\<lambda>_. True)"
  by (rule okM_query) simp

lemma okM_get: "(\<And>d x. I d \<Longrightarrow> f d = Some x \<Longrightarrow> Q x) \<Longrightarrow> okM I (db_get f) Q"
  unfolding db_get_def by (rule okM_dbM) (auto split: option.splits)

lemma okM_get_any [okM_intros]: "okM I (db_get f) (\<lambda>_. True)"
  by (rule okM_get) simp

lemma okM_exec: "(\<And>d. I d \<Longrightarrow> I (f d)) \<Longrightarrow> okM I (db_exec f) (\<lambda>_. True)"
  unfolding db_exec_def by (rule okM_dbM) auto

lemma okM_savepoint: "okM I m Q \<Longrightarrow> okM I (savepointM m) Q"
  by (auto simp: okM_def savepointM_def split: prod.splits sum.splits)

lemma okM_if [okM_intros]:
  "(b \<Longrightarrow> okM I m Q) \<Longrightarrow> (\<not> b \<Longrightarrow> okM I n Q) \<Longrightarrow> okM I (if b then m else n) Q"
  by simp

lemma okM_option [okM_intros]:
  "okM I m Q \<Longrightarrow> (\<And>x. v = Some x \<Longrightarrow> okM I (f x) Q) \<Longrightarrow>
     okM I (case v of None \<Rightarrow> m | Some x \<Rightarrow> f x) Q"
  by (cases v) auto

lemma okM_sum [okM_intros]:
  "(\<And>e. v = Inl e \<Longrightarrow> okM I (f e) Q) \<Longrightarrow> (\<And>x. v = Inr x \<Longrightarrow> okM I (g x) Q) \<Longrightarrow>
     okM I (case v of Inl e \<Rightarrow> f e | Inr x \<Rightarrow> g x) Q"
  by (cases v) auto

lemma okM_prod [okM_intros]: "(\<And>a b. p = (a, b) \<Longrightarrow> okM I (f a b) Q) \<Longrightarrow> okM I (case p of (a, b) \<Rightarrow> f a b) Q"
  by (cases p) auto

lemma okM_let [okM_intros]: "okM I (f v) Q \<Longrightarrow> okM I (let x = v in f x) Q"
  by (simp add: Let_def)

lemma okM_foldM:
  assumes "Q a" "\<And>x a. x \<in> set xs \<Longrightarrow> Q a \<Longrightarrow> okM I (body x a) Q"
  shows "okM I (foldM body xs a) Q"
  using assms
proof (induction xs arbitrary: a)
  case Nil
  then show ?case by (simp add: okM_def)
next
  case (Cons x xs)
  show ?case
    unfolding foldM.simps
  proof (rule okM_bind)
    show "okM I (body x a) Q" using Cons.prems by simp
    show "okM I (foldM body xs b) Q" if "Q b" for b
      using Cons.IH [OF that] Cons.prems(2) by simp
  qed
qed

lemma okM_foldM_any [okM_intros]:
  "(\<And>x a. x \<in> set xs \<Longrightarrow> okM I (body x a) (\<lambda>_. True)) \<Longrightarrow> okM I (foldM body xs a) (\<lambda>_. True)"
  by (rule okM_foldM) auto

lemma okM_forM [okM_intros]:
  "(\<And>x. x \<in> set xs \<Longrightarrow> okM I (body x) (\<lambda>_. True)) \<Longrightarrow> okM I (forM body xs) (\<lambda>_. True)"
  unfolding forM_def by (rule okM_foldM) auto

section \<open>Worlds without faults\<close>

definition healthy :: "world \<Rightarrow> bool" where
  "healthy w \<longleftrightarrow> e_fault (w_env w) = (\<lambda>_. None)"

lemma healthy_tick [simp]:
  "healthy (w\<lparr>w_tick := n\<rparr>) = healthy w" "healthy (w\<lparr>w_db := d\<rparr>) = healthy w"
  "healthy (w\<lparr>w_tick := n, w_db := d\<rparr>) = healthy w"
  by (simp_all add: healthy_def)

text \<open>No statement changes the environment.\<close>

lemma keeps_env: "keepsM (db_rel R) m \<Longrightarrow> m w = (r, w') \<Longrightarrow> w_env w' = w_env w"
  by (auto simp: keepsM_def db_rel_def) (metis snd_conv)

lemma healthy_run: "keepsM (db_rel R) m \<Longrightarrow> m w = (r, w') \<Longrightarrow> healthy w \<Longrightarrow> healthy w'"
  by (simp add: healthy_def keeps_env)

lemma healthy_dbM:
  "healthy w \<Longrightarrow> dbM f w =
     (case f (w_db w) of (Inl e, d) \<Rightarrow> (Inl e, w\<lparr>w_tick := Suc (w_tick w)\<rparr>)
      | (Inr x, d) \<Rightarrow> (Inr x, w\<lparr>w_tick := Suc (w_tick w), w_db := d\<rparr>))"
  by (simp add: healthy_def dbM_def Let_def)

lemma healthy_query: "healthy w \<Longrightarrow> db_query f w = (Inr (f (w_db w)), w\<lparr>w_tick := Suc (w_tick w)\<rparr>)"
  by (simp add: db_query_def healthy_dbM)

lemma healthy_exec:
  "healthy w \<Longrightarrow> db_exec f w = (Inr (), w\<lparr>w_tick := Suc (w_tick w), w_db := f (w_db w)\<rparr>)"
  by (simp add: db_exec_def healthy_dbM)

end
