(* ===== verification/TrafficInv.thy ===== *)
theory TrafficInv
  imports TrafficFacts Integrity
begin

text \<open>
  The invariant of the accounting under every pattern of failures and panics: a poll keeps the tables
  well formed (\<open>db_ok\<close>), adds and removes no inbound and no accounting row, and keeps every counter
  between 0 and \<open>TrafficCap\<close>, so that none of them leaves int64.
\<close>

section \<open>The invariant\<close>

definition tkey :: "client_traffic \<Rightarrow> int \<times> string" where
  "tkey t = (t_id t, t_email t)"

definition ikey :: "inbound \<Rightarrow> int \<times> string" where
  "ikey i = (i_id i, i_tag i)"

definition ckey :: "client_record \<Rightarrow> int \<times> string" where
  "ckey c = (c_id c, c_email c)"

text \<open>The keys of the accounting rows, of the inbounds, and the tables of the lines.\<close>

definition poll_frame :: "db \<Rightarrow> (int \<times> string) list \<times> (int \<times> string) list \<times> line_profile list \<times> int" where
  "poll_frame d = (List.map tkey (d_traffics d), List.map ikey (d_inbounds d), d_lines d, d_nextLine d)"

definition poll_inv :: "(int \<times> string) list \<times> (int \<times> string) list \<times> line_profile list \<times> int \<Rightarrow> db \<Rightarrow> bool" where
  "poll_inv K d \<longleftrightarrow> db_ok d \<and> counters_ok d \<and> poll_frame d = K"

lemma map_update_where_in:
  "(\<And>r. r \<in> set rows \<Longrightarrow> P r \<Longrightarrow> g (f r) = g r) \<Longrightarrow> List.map g (update_where P f rows) = List.map g rows"
  by (auto simp: update_where_def)

lemma ids_ok_map: "List.map rid rows' = List.map rid rows \<Longrightarrow> ids_ok rid nx rows' = ids_ok rid nx rows"
proof -
  assume m: "List.map rid rows' = List.map rid rows"
  then have "rid ` set rows' = rid ` set rows" by (metis list.set_map)
  then have "(\<forall>r \<in> set rows'. 0 < rid r \<and> rid r < nx) = (\<forall>r \<in> set rows. 0 < rid r \<and> rid r < nx)"
    by (metis (mono_tags, lifting) image_iff)
  with m show ?thesis by (simp add: ids_ok_def)
qed

lemma map_via:
  assumes "List.map k xs = List.map k ys" "\<And>r. g r = h (k r)"
  shows "List.map g xs = List.map g ys"
proof -
  have "List.map g zs = List.map h (List.map k zs)" for zs by (simp add: assms(2))
  then show ?thesis using assms(1) by presburger
qed

lemma key_maps:
  "List.map tkey rows' = List.map tkey rows \<Longrightarrow> List.map t_id rows' = List.map t_id rows"
  "List.map tkey rows' = List.map tkey rows \<Longrightarrow> List.map t_email rows' = List.map t_email rows"
  "List.map ikey ibs' = List.map ikey ibs \<Longrightarrow> List.map i_id ibs' = List.map i_id ibs"
  "List.map ikey ibs' = List.map ikey ibs \<Longrightarrow> List.map i_tag ibs' = List.map i_tag ibs"
  "List.map ckey cs' = List.map ckey cs \<Longrightarrow> List.map c_id cs' = List.map c_id cs"
  "List.map ckey cs' = List.map ckey cs \<Longrightarrow> List.map c_email cs' = List.map c_email cs"
  by (erule map_via [where h = fst] map_via [where h = snd], simp add: tkey_def ikey_def ckey_def)+

section \<open>Statements that keep it\<close>

lemma poll_inv_traffics:
  assumes "poll_inv K d" "List.map tkey rows = List.map tkey (d_traffics d)" "list_all traffic_row_ok rows"
  shows "poll_inv K (d\<lparr>d_traffics := rows\<rparr>)"
  using assms key_maps(1,2) [OF assms(2)]
  by (simp add: poll_inv_def db_ok_def counters_ok_def poll_frame_def ids_ok_map [of t_id rows "d_traffics d"])

lemma poll_inv_inbounds:
  assumes "poll_inv K d" "List.map ikey rows = List.map ikey (d_inbounds d)" "list_all inbound_row_ok rows"
  shows "poll_inv K (d\<lparr>d_inbounds := rows\<rparr>)"
  using assms key_maps(3,4) [OF assms(2)]
  by (simp add: poll_inv_def db_ok_def counters_ok_def poll_frame_def ids_ok_map [of i_id rows "d_inbounds d"])

lemma poll_inv_clients:
  assumes "poll_inv K d" "List.map ckey rows = List.map ckey (d_clients d)"
  shows "poll_inv K (d\<lparr>d_clients := rows\<rparr>)"
  using assms key_maps(5,6) [OF assms(2)]
  by (simp add: poll_inv_def db_ok_def counters_ok_def poll_frame_def ids_ok_map [of c_id rows "d_clients d"])

lemma poll_inv_other:
  "poll_inv K d \<Longrightarrow> poll_inv K (d\<lparr>d_clientInbounds := xs\<rparr>)"
  "poll_inv K d \<Longrightarrow> poll_inv K (d\<lparr>d_globals := gs\<rparr>)"
  by (simp_all add: poll_inv_def db_ok_def counters_ok_def poll_frame_def)

lemma poll_inv_rows:
  "poll_inv K d \<Longrightarrow> list_all traffic_row_ok (d_traffics d)"
  "poll_inv K d \<Longrightarrow> list_all inbound_row_ok (d_inbounds d)"
  by (simp_all add: poll_inv_def counters_ok_def)

text \<open>Updates that keep the keys and the bounds of the rows they hit.\<close>

lemma poll_inv_upd_traffics:
  "poll_inv K d \<Longrightarrow> (\<And>t. t \<in> set (d_traffics d) \<Longrightarrow> C t \<Longrightarrow> tkey (f t) = tkey t) \<Longrightarrow>
     (\<And>t. C t \<Longrightarrow> traffic_row_ok t \<Longrightarrow> traffic_row_ok (f t)) \<Longrightarrow>
     poll_inv K (d\<lparr>d_traffics := update_where C f (d_traffics d)\<rparr>)"
  by (intro poll_inv_traffics map_update_where_in list_all_update poll_inv_rows) auto

lemma poll_inv_upd_inbounds:
  "poll_inv K d \<Longrightarrow> (\<And>t. t \<in> set (d_inbounds d) \<Longrightarrow> C t \<Longrightarrow> ikey (f t) = ikey t) \<Longrightarrow>
     (\<And>t. C t \<Longrightarrow> inbound_row_ok t \<Longrightarrow> inbound_row_ok (f t)) \<Longrightarrow>
     poll_inv K (d\<lparr>d_inbounds := update_where C f (d_inbounds d)\<rparr>)"
  by (intro poll_inv_inbounds map_update_where_in list_all_update poll_inv_rows) auto

text \<open>What is known of rows that were read: their bounds, and that their keys are those of the table.\<close>

definition known_inbound :: "(int \<times> string) list \<times> (int \<times> string) list \<times> line_profile list \<times> int \<Rightarrow> inbound \<Rightarrow> bool" where
  "known_inbound K i \<longleftrightarrow> inbound_row_ok i \<and> ikey i \<in> set (fst (snd K))"

definition known_traffic :: "(int \<times> string) list \<times> (int \<times> string) list \<times> line_profile list \<times> int \<Rightarrow> client_traffic \<Rightarrow> bool" where
  "known_traffic K t \<longleftrightarrow> traffic_row_ok t \<and> tkey t \<in> set (fst K)"

lemma inbounds_in_known: "poll_inv K d \<Longrightarrow> list_all (known_inbound K) (inbounds_in ids d)"
  by (auto simp: poll_inv_def counters_ok_def inbounds_in_def list_all_iff known_inbound_def poll_frame_def)

lemma known_inbound_settings [simp]: "known_inbound K (ib\<lparr>i_settings := s\<rparr>) = known_inbound K ib"
  by (simp add: known_inbound_def inbound_row_ok_def ikey_def)

lemma known_settings: "ib' = ib\<lparr>i_settings := i_settings ib'\<rparr> \<Longrightarrow> known_inbound K ib \<Longrightarrow> known_inbound K ib'"
  by (metis known_inbound_settings)

lemma put_inbound_inv: "poll_inv K d \<Longrightarrow> known_inbound K ib \<Longrightarrow> poll_inv K (put_inbound ib d)"
proof -
  assume i: "poll_inv K d" and k: "known_inbound K ib"
  have "i_tag t = i_tag ib" if "t \<in> set (d_inbounds d)" "i_id t = i_id ib" for t
  proof -
    have "ikey ib \<in> ikey ` set (d_inbounds d)" using i k by (auto simp: poll_inv_def poll_frame_def known_inbound_def)
    then obtain r where r: "r \<in> set (d_inbounds d)" "i_id r = i_id ib" "i_tag r = i_tag ib" by (auto simp: ikey_def)
    with that i have "r = t" by (intro inbounds_tbl.ids_unique [of "d_nextInbound d"]) (auto simp: poll_inv_def db_ok_def)
    with r show ?thesis by simp
  qed
  then show ?thesis unfolding put_inbound_def using i k
    by (intro poll_inv_upd_inbounds) (auto simp: ikey_def with_defaults_def known_inbound_def inbound_row_ok_def)
qed

lemma okM_save_inbounds: "list_all (known_inbound K) ibs \<Longrightarrow> okM (poll_inv K) (save_inbounds ibs) (\<lambda>_. True)"
  unfolding save_inbounds_def
  by (rule okM_if, rule okM_fail, rule okM_exec, erule fold_invariant)
     (auto simp: list_all_iff intro: put_inbound_inv)

section \<open>SyncInbound\<close>

lemma okM_param:
  assumes "\<And>k. okM (\<lambda>d. I d \<and> g d = k) m Q"
  shows "okM I m Q"
proof (rule okM_I)
  fix w r w' assume "I (w_db w)" "m w = (r, w')"
  then show "I (w_db w') \<and> (\<forall>x. r = Inr x \<longrightarrow> Q x)"
    using okM_D [OF assms [of "g (w_db w)"], of w r w'] by auto
qed

text \<open>The same with the keys of the client records, while only rows that were read are saved.\<close>

abbreviation "sync_inv K C \<equiv> (\<lambda>d. poll_inv K d \<and> List.map ckey (d_clients d) = C)"

definition known_rows :: "(int \<times> string) list \<Rightarrow> client_record omap \<Rightarrow> bool" where
  "known_rows C m \<longleftrightarrow> (\<forall>e r. oget m e = Some r \<longrightarrow> ckey r \<in> set C)"

lemma known_rows_oput: "known_rows C m \<Longrightarrow> ckey r \<in> set C \<Longrightarrow> known_rows C (oput e r m)"
  by (auto simp: known_rows_def)

lemma okM_existing: "okM (sync_inv K C) (existing_clients emails) (known_rows C)"
  unfolding existing_clients_def
proof (rule okM_foldM)
  show "known_rows C []" by (simp add: known_rows_def)
next
  fix b m assume m: "known_rows C m"
  show "okM (sync_inv K C) (bindM (select_clients b) (\<lambda>rows. retM (fold (\<lambda>r. oput (c_email r) r) rows m))) (known_rows C)"
  proof (rule okM_bind [where Q = "\<lambda>rows. \<forall>r \<in> set rows. ckey r \<in> set C"])
    show "okM (sync_inv K C) (select_clients b) (\<lambda>rows. \<forall>r \<in> set rows. ckey r \<in> set C)"
      unfolding select_clients_def by (rule okM_query) auto
  next
    fix rows :: "client_record list" assume "\<forall>r \<in> set rows. ckey r \<in> set C"
    then show "okM (sync_inv K C) (retM (fold (\<lambda>r. oput (c_email r) r) rows m)) (known_rows C)"
      by (intro okM_ret fold_invariant [where I = "known_rows C"] m known_rows_oput) auto
  qed
qed

lemma sync_inv_clients:
  "sync_inv K C d \<Longrightarrow> List.map ckey rows = List.map ckey (d_clients d) \<Longrightarrow> sync_inv K C (d\<lparr>d_clients := rows\<rparr>)"
  using poll_inv_clients by simp

lemma sync_inv_unique:
  assumes "sync_inv K C d" "k \<in> set C" "r \<in> set (d_clients d)" "c_id r = fst k"
  shows "ckey r = k"
proof -
  have "k \<in> ckey ` set (d_clients d)" using assms(1,2) by auto
  then obtain q where q: "q \<in> set (d_clients d)" "ckey q = k" by auto
  then have "r = q"
    using assms by (intro clients_tbl.ids_unique [of "d_nextClient d"]) (auto simp: poll_inv_def db_ok_def ckey_def)
  with q show ?thesis by simp
qed

lemma okM_save_client:
  assumes row: "ckey row \<in> set C"
  shows "okM (sync_inv K C) (save_client row) (\<lambda>saved. ckey saved \<in> set C)"
proof -
  have k: "ckey (row\<lparr>c_updatedAt := now\<rparr>) = ckey row" for now by (simp add: ckey_def)
  have "sync_inv K C (d\<lparr>d_clients := update_where (\<lambda>r. c_id r = c_id row) (\<lambda>_. row\<lparr>c_updatedAt := now\<rparr>) (d_clients d)\<rparr>)"
    if "sync_inv K C d" for now d
    using that sync_inv_unique [OF that row]
    by (intro sync_inv_clients map_update_where_in) (auto simp: ckey_def)
  then show ?thesis
    unfolding save_client_def Let_def
    by (intro okM_bind_any okM_then okM_ask okM_exec okM_ret TrueI) (simp_all add: k row)
qed

lemma sync_row_key [simp]: "ckey (sync_row row inc) = ckey row"
  by (simp add: sync_row_def Let_def applyClientRecordMerge_def ckey_def)

lemma okM_sync_client:
  "known_rows C (fst st) \<Longrightarrow> okM (sync_inv K C) (sync_client c st) (\<lambda>st'. known_rows C (fst st'))"
proof -
  assume st: "known_rows C (fst st)"
  obtain ex ids pending where e: "st = (ex, ids, pending)" by (cases st)
  have ex: "known_rows C ex" using st e by simp
  have touch: "okM (sync_inv K C) (set_client_updated i t) (\<lambda>_. True)" for i t
    unfolding set_client_updated_def
    by (rule okM_exec, rule sync_inv_clients) (auto simp: ckey_def intro!: map_update_where_in)
  have save: "okM (sync_inv K C)
      (bindM (save_client (sync_row row inc)) (\<lambda>saved. thenM (set_client_updated i t) (retM (oput em saved ex, ids', pending))))
      (\<lambda>st'. known_rows C (fst st'))" if "oget ex em = Some row" for row em inc i t ids'
  proof (rule okM_bind [where Q = "\<lambda>saved. ckey saved \<in> set C"])
    show "okM (sync_inv K C) (save_client (sync_row row inc)) (\<lambda>saved. ckey saved \<in> set C)"
      using ex that by (intro okM_save_client) (auto simp: known_rows_def)
  next
    fix saved assume "ckey saved \<in> set C"
    then show "okM (sync_inv K C) (thenM (set_client_updated i t) (retM (oput em saved ex, ids', pending)))
        (\<lambda>st'. known_rows C (fst st'))"
      by (intro okM_then touch okM_ret) (simp add: known_rows_oput ex)
  qed
  show ?thesis
    unfolding sync_client_def e Let_def
    using ex by (auto intro!: okM_if okM_option okM_ret save)
qed

lemma okM_sync_rows: "okM (poll_inv K) (sync_rows cs) (\<lambda>_. True)"
proof (rule okM_param [where g = "\<lambda>d. List.map ckey (d_clients d)"])
  fix C
  show "okM (sync_inv K C) (sync_rows cs) (\<lambda>_. True)"
    unfolding sync_rows_def
  proof (rule okM_bind [OF okM_existing])
    fix ex assume "known_rows C ex"
    then have "okM (sync_inv K C) (foldM sync_client cs (ex, [], [])) (\<lambda>st. known_rows C (fst st))"
      by (intro okM_foldM okM_sync_client) simp
    then show "okM (sync_inv K C) (bindM (foldM sync_client cs (ex, [], [])) (\<lambda>(_, ids, pending). retM (ids, pending)))
        (\<lambda>_. True)"
      by (intro okM_bind_any okM_prod okM_ret TrueI) (rule okM_true)
  qed
qed

lemma number_clients_ok:
  "ids_ok c_id n rows \<Longrightarrow> ids_ok c_id (n + int (length recs)) (rows @ number_clients now n recs)"
proof (induction recs arbitrary: n rows)
  case Nil
  then show ?case by simp
next
  case (Cons r rs)
  have "ids_ok c_id (n + 1) (rows @ [stamp_client now (r\<lparr>c_id := n, c_enable := True\<rparr>)])"
    using Cons.prems by (intro ids_ok_append) simp_all
  from Cons.IH [OF this] show ?case by (simp add: algebra_simps)
qed

lemma number_clients_emails [simp]: "List.map c_email (number_clients now n recs) = List.map c_email recs"
  by (induction recs arbitrary: n) simp_all

lemma okM_insert_clients: "okM (poll_inv K) (insert_clients recs) (\<lambda>_. True)"
proof -
  have "poll_inv K (d\<lparr>d_clients := d_clients d @ number_clients now (d_nextClient d) recs,
                      d_nextClient := d_nextClient d + int (length recs)\<rparr>)"
    if i: "poll_inv K d" and f: "distinct (List.map c_email recs)" "\<not> list_ex (\<lambda>r. find_client (c_email r) d \<noteq> None) recs"
    for d now
  proof -
    have "c_email ` set (number_clients now n recs) = c_email ` set recs" for n
      by (metis list.set_map number_clients_emails)
    then have "distinct (List.map c_email (d_clients d @ number_clients now (d_nextClient d) recs))"
      using i f by (auto simp: poll_inv_def db_ok_def list_ex_iff find_client_def find_none_key image_iff) metis
    then show ?thesis
      using i number_clients_ok [of "d_nextClient d" "d_clients d" recs now]
      by (simp add: poll_inv_def db_ok_def counters_ok_def poll_frame_def)
  qed
  then show ?thesis
    unfolding insert_clients_def
    by (intro okM_bind_any okM_ask okM_dbM TrueI) (auto simp: Let_def split: if_splits)
qed

lemma okM_SyncInbound: "okM (poll_inv K) (SyncInbound iid cs) (\<lambda>_. True)"
proof -
  have "okM (poll_inv K) (DetachInbound iid) (\<lambda>_. True)"
    unfolding DetachInbound_def by (rule okM_exec) (rule poll_inv_other)
  moreover have "okM (poll_inv K) (insert_links xs) (\<lambda>_. True)" for xs
    unfolding insert_links_def by (intro okM_bind_any okM_ask okM_exec poll_inv_other TrueI)
  ultimately show ?thesis
    unfolding SyncInbound_def create_clients_def create_links_def
    by (intro okM_then okM_bind_any okM_prod okM_sync_rows okM_savepoint okM_foldM_any okM_forM
        okM_insert_clients okM_ret TrueI)
qed

section \<open>The steps of the poll\<close>

lemma okM_prod_fun [okM_intros]:
  "(\<And>a b. p = (a, b) \<Longrightarrow> okM I (f a b y) Q) \<Longrightarrow> okM I ((case p of (a, b) \<Rightarrow> f a b) y) Q"
  by (cases p) auto

lemma okM_logged [okM_intros]: "okM I m (\<lambda>_. True) \<Longrightarrow> okM I (logged m) (\<lambda>_. True)"
  unfolding logged_def by (intro okM_then okM_try_any okM_ret TrueI)

lemma okM_resync: "okM (poll_inv K) (resync ibs) (\<lambda>_. True)"
  unfolding resync_def by (intro okM_intros okM_SyncInbound TrueI)

lemma list_all2_known:
  assumes "list_all2 (\<lambda>i i'. i' = i\<lparr>i_settings := i_settings i'\<rparr>) ibs ibs'" "list_all (known_inbound K) ibs"
  shows "list_all (known_inbound K) ibs'"
  using assms
proof (induction rule: list_all2_induct)
  case Nil
  then show ?case by simp
next
  case (Cons i ibs i' ibs')
  then show ?case using known_settings [OF Cons.hyps(1)] by simp
qed

lemma okM_adjust: "okM (poll_inv K) (adjustTraffics rows) (\<lambda>_. True)"
  unfolding adjustTraffics_def Let_def
  apply (rule okM_bind_any, rule okM_ask, rule TrueI, rule okM_if, rule okM_ret, rule TrueI)
  apply (rule okM_bind_any, rule okM_query_any, rule okM_if, rule okM_ret, rule TrueI)
  apply (rule okM_bind [where Q = "list_all (known_inbound K)"], rule okM_query, erule inbounds_in_known)
  apply (rule okM_bind [where Q = "list_all (known_inbound K)"], rule okM_lift)
   apply (drule map_res_all2, rule list_all2_known, erule list_all2_mono, erule start_inbound_shape, assumption)
  apply (intro okM_intros okM_save_inbounds okM_resync TrueI, assumption)
  done

lemma addInboundTraffic_ok:
  "\<forall>t \<in> set ins. 0 \<le> tr_up t \<and> 0 \<le> tr_down t \<Longrightarrow> okM (poll_inv K) (addInboundTraffic ins) (\<lambda>_. True)"
  unfolding addInboundTraffic_def
  by (intro okM_intros okM_exec poll_inv_upd_inbounds)
     (auto simp: inbound_row_ok_def ikey_def intro: clampedAdd_ok)

lemma addClientTraffic_ok:
  assumes "\<forall>t \<in> set reports. 0 \<le> t_up t \<and> 0 \<le> t_down t"
  shows "okM (poll_inv K) (addClientTraffic reports) (\<lambda>_. True)"
proof -
  have "okM (poll_inv K) (db_exec (count_report now t e)) (\<lambda>_. True)" if "report_for e reports = Some t" for now t e
    unfolding count_report_def using assms report_for_in [OF that]
    by (intro okM_exec poll_inv_upd_traffics) (auto simp: traffic_row_ok_def tkey_def intro: clampedAdd_ok)
  moreover have "okM (poll_inv K) (db_exec (set_expiry e x)) (\<lambda>_. True)" for e x
    unfolding set_expiry_def
    by (intro okM_exec poll_inv_upd_traffics) (auto simp: traffic_row_ok_def tkey_def)
  ultimately show ?thesis
    unfolding addClientTraffic_def by (intro okM_intros okM_adjust TrueI) blast+
qed

text \<open>The renewed rows keep their keys and bounds.\<close>

lemma renew_rel_known: "renew_rel now t t' \<Longrightarrow> known_traffic K t \<Longrightarrow> known_traffic K t'"
  by (auto simp: renew_rel_def known_traffic_def traffic_row_ok_def tkey_def)

lemma rows_rel_known: "rows_rel now rows rows' \<Longrightarrow> list_all (known_traffic K) rows \<Longrightarrow> list_all (known_traffic K) rows'"
  unfolding rows_rel_def by (induction rule: list_all2_induct) (auto dest: renew_rel_known)

definition rows_known :: "(int \<times> string) list \<times> (int \<times> string) list \<times> line_profile list \<times> int \<Rightarrow> client_traffic list \<Rightarrow> bool" where
  "rows_known K rows \<longleftrightarrow> list_all (known_traffic K) rows \<and> distinct (List.map t_email rows)"

lemma to_renew_known: "poll_inv K d \<Longrightarrow> rows_known K (to_renew now d)"
proof -
  assume i: "poll_inv K d"
  then have "distinct (List.map t_email (to_renew now d))"
    unfolding to_renew_def poll_inv_def db_ok_def by (auto intro: distinct_map_filter)
  with i show ?thesis
    by (auto simp: rows_known_def to_renew_def poll_inv_def counters_ok_def list_all_iff known_traffic_def poll_frame_def)
qed

lemma save_row_inv:
  assumes i: "poll_inv K d" and t: "known_traffic K t"
  shows "poll_inv K (d\<lparr>d_traffics := update_where (\<lambda>r. t_id r = t_id t) (\<lambda>_. t) (d_traffics d)\<rparr>)"
proof -
  have "t_email r = t_email t" if "r \<in> set (d_traffics d)" "t_id r = t_id t" for r
  proof -
    have "tkey t \<in> tkey ` set (d_traffics d)" using i t by (auto simp: poll_inv_def poll_frame_def known_traffic_def)
    then obtain q where q: "q \<in> set (d_traffics d)" "t_id q = t_id t" "t_email q = t_email t" by (auto simp: tkey_def)
    with that i have "q = r" by (intro traffics_tbl.ids_unique [of "d_nextTraffic d"]) (auto simp: poll_inv_def db_ok_def)
    with q show ?thesis by simp
  qed
  then show ?thesis using i t
    by (intro poll_inv_upd_traffics) (auto simp: tkey_def known_traffic_def)
qed

lemma okM_save_traffics: "list_all (known_traffic K) rows \<Longrightarrow> okM (poll_inv K) (save_traffics rows) (\<lambda>_. True)"
  unfolding save_traffics_def
  by (rule okM_exec, erule fold_invariant) (auto simp: list_all_iff intro: save_row_inv)

lemma okM_xray_api [okM_intros]: "okM I (xray_api c) (\<lambda>_. True)"
  unfolding xray_api_def by (rule okM_ask) simp

lemma okM_clear [okM_intros]: "okM (poll_inv K) (clearGlobalTraffic emails) (\<lambda>_. True)"
  unfolding clearGlobalTraffic_def by (intro okM_forM okM_exec poll_inv_other)

lemma okM_add_users [okM_intros]: "okM I (add_users us) (\<lambda>_. True)"
  unfolding add_users_def by (intro okM_intros TrueI)

lemma okM_pages:
  "okM (poll_inv K) (foldM (\<lambda>b acc. bindM (db_query (inbounds_in b)) (\<lambda>page. retM (acc @ page))) bs [])
     (list_all (known_inbound K))"
proof (rule okM_foldM)
  fix b acc assume a: "list_all (known_inbound K) acc"
  show "okM (poll_inv K) (bindM (db_query (inbounds_in b)) (\<lambda>page. retM (acc @ page))) (list_all (known_inbound K))"
    by (rule okM_bind [where Q = "list_all (known_inbound K)"], rule okM_query, erule inbounds_in_known, rule okM_ret)
       (simp add: a)
qed simp

lemma okM_renewed:
  assumes "rows_known K rows" "list_all (known_inbound K) ibs"
  shows "okM I (liftM (renew_inbounds now ibs \<lparr>rs_rows = rows, rs_add = []\<rparr>))
    (\<lambda>(ibs', st). list_all (known_inbound K) ibs' \<and> list_all (known_traffic K) (rs_rows st))"
proof (rule okM_lift)
  fix x assume "renew_inbounds now ibs \<lparr>rs_rows = rows, rs_add = []\<rparr> = Inr x"
  moreover obtain ibs' st where x: "x = (ibs', st)" by (cases x)
  ultimately have "rows_rel now rows (rs_rows st)" "list_all2 (\<lambda>ib ib'. ib' = ib\<lparr>i_settings := i_settings ib'\<rparr>) ibs ibs'"
    using renew_inbounds_rows [of now ibs "\<lparr>rs_rows = rows, rs_add = []\<rparr>" ibs' st] assms(1)
    by (auto simp: rows_known_def)
  then show "case x of (ibs', st) \<Rightarrow> list_all (known_inbound K) ibs' \<and> list_all (known_traffic K) (rs_rows st)"
    using assms rows_rel_known list_all2_known unfolding x rows_known_def by blast
qed

lemma autoRenew_ok: "okM (poll_inv K) autoRenewClients (\<lambda>_. True)"
  unfolding autoRenewClients_def Let_def
  apply (rule okM_bind_any, rule okM_ask, rule TrueI)
  apply (rule okM_bind [where Q = "rows_known K"], rule okM_query, erule to_renew_known)
  apply (rule okM_if, rule okM_ret, rule TrueI)
  apply (rule okM_bind_any, intro okM_intros TrueI)
  apply (rule okM_bind, rule okM_pages)
  apply (rule okM_bind, erule (1) okM_renewed)
  apply (rule okM_prod, clarify)
  apply (intro okM_then okM_save_inbounds okM_resync okM_save_traffics okM_clear okM_intros TrueI; assumption)
  done

section \<open>Disabling, and the whole poll\<close>

lemma set_settings_inv: "poll_inv K d \<Longrightarrow> poll_inv K (set_settings iid s d)"
  unfolding set_settings_def by (intro poll_inv_upd_inbounds) (auto simp: inbound_row_ok_def ikey_def)

lemma okM_mark [okM_intros]: "okM (poll_inv K) (markClientsDisabledInSettings iid emails) (\<lambda>_. True)"
  unfolding markClientsDisabledInSettings_def
  by (intro okM_intros okM_exec set_settings_inv TrueI)

lemma okM_disable_remote_client [okM_intros]: "okM (poll_inv K) (disableRemoteClients iid emails) (\<lambda>_. True)"
  unfolding disableRemoteClients_def by (intro okM_intros TrueI)

lemma okM_range_keys [okM_intros]: "okM I (range_keys m) (\<lambda>_. True)"
  unfolding range_keys_def by (rule okM_ask) simp

lemma okM_range_groups [okM_intros]:
  "(\<And>i es. okM I (body i es) (\<lambda>_. True)) \<Longrightarrow> okM I (range_groups body m) (\<lambda>_. True)"
  unfolding range_groups_def by (intro okM_intros TrueI) auto

lemma okM_disable_remote [okM_intros]: "okM (poll_inv K) (disable_remote m) (\<lambda>_. True)"
  unfolding disable_remote_def by (intro okM_intros TrueI)

lemma okM_disable_local [okM_intros]: "okM (poll_inv K) (disable_local ts) (\<lambda>_. True)"
  unfolding disable_local_def remove_users_def by (intro okM_intros TrueI)

lemma okM_flip_batch: "okM (poll_inv K) (flip_batch b) (\<lambda>_. True)"
  unfolding flip_batch_def Let_def
  by (rule okM_dbM) (auto intro!: poll_inv_upd_traffics simp: traffic_row_ok_def tkey_def)

lemma okM_flip_batches: "okM (poll_inv K) (flip_batches bs n) (\<lambda>_. True)"
  by (induction bs arbitrary: n) (auto intro!: okM_intros okM_flip_batch)

lemma okM_flip_rows [okM_intros]: "okM (poll_inv K) (flip_rows ids) (\<lambda>_. True)"
  unfolding flip_rows_def by (rule okM_flip_batches)

lemma okM_disable_records [okM_intros]: "okM (poll_inv K) (disable_records emails) (\<lambda>_. True)"
  unfolding disable_records_def
  by (intro okM_intros okM_exec poll_inv_clients map_update_where_in TrueI) (auto simp: ckey_def)

lemma okM_depletedCond [okM_intros]: "okM I depletedCond (\<lambda>_. True)"
  unfolding depletedCond_def globalTrafficFreshSince_def by (intro okM_intros TrueI)

lemma disableClients_ok: "okM (poll_inv K) disableInvalidClients (\<lambda>_. True)"
  unfolding disableInvalidClients_def Let_def by (intro okM_intros TrueI)

lemma okM_disable_inbounds [okM_intros]: "okM (poll_inv K) (disable_inbounds now) (\<lambda>_. True)"
  unfolding disable_inbounds_def
  by (rule okM_dbM) (auto intro!: poll_inv_upd_inbounds simp: inbound_row_ok_def ikey_def)

lemma disableInbounds_ok: "okM (poll_inv K) disableInvalidInbounds (\<lambda>_. True)"
  unfolding disableInvalidInbounds_def Let_def del_inbounds_def by (intro okM_intros TrueI)

text \<open>Reports of bytes are never negative.\<close>

definition reports_ok :: "traffic list \<Rightarrow> client_traffic list \<Rightarrow> bool" where
  "reports_ok ins reports \<longleftrightarrow>
     list_all (\<lambda>t. 0 \<le> tr_up t \<and> 0 \<le> tr_down t) ins \<and> list_all (\<lambda>t. 0 \<le> t_up t \<and> 0 \<le> t_down t) reports"

lemma pollBody_ok: "reports_ok ins reports \<Longrightarrow> okM (poll_inv K) (pollBody ins reports) (\<lambda>_. True)"
  unfolding pollBody_def logged2_def logged3_def reports_ok_def list_all_iff
  by (intro okM_intros addInboundTraffic_ok addClientTraffic_ok autoRenew_ok disableClients_ok
      disableInbounds_ok TrueI) auto

lemma commitM_cases:
  obtains "commitM d0 w = (Inr (), w\<lparr>w_tick := Suc (w_tick w)\<rparr>)"
  | "commitM d0 w = (Inr (), w\<lparr>w_tick := Suc (w_tick w), w_db := d0\<rparr>)"
  unfolding commitM_def Let_def by (cases "e_fault (w_env w) (w_tick w) = None") auto

lemma commitM_inv: "commitM d0 w = (r, w') \<Longrightarrow> I d0 \<Longrightarrow> I (w_db w) \<Longrightarrow> I (w_db w')"
  by (cases rule: commitM_cases [of d0 w]) auto

lemma addTraffic_inv:
  assumes inv: "poll_inv K (w_db w)" and rep: "reports_ok ins reports"
  shows "poll_inv K (w_db (snd (addTrafficLocked ins reports w)))"
proof -
  obtain r1 w1 where q: "db_query (\<lambda>_. ()) w = (r1, w1)" by fastforce
  have i1: "poll_inv K (w_db w1)" using okM_D [where I = "poll_inv K", OF okM_query_any inv q] by blast
  obtain r2 w2 where b: "pollBody ins reports w1 = (r2, w2)" by fastforce
  have i2: "poll_inv K (w_db w2)" using okM_D [where I = "poll_inv K", OF pollBody_ok [OF rep] i1 b] by blast
  have c: "poll_inv K (w_db (snd (thenM (commitM (w_db w)) m w2)))"
    if "m = retM x \<or> m = failM e" for m :: "(bool \<times> bool) W" and x e
    using that inv i2 by (cases rule: commitM_cases [of "w_db w" w2]) (auto simp: thenM_apply)
  show ?thesis
    unfolding addTrafficLocked_def using q b i1 i2 inv c
    by (cases r1; cases r2) (auto split: gerr.splits)
qed

lemma safeApply_state [simp]: "snd (safeApply m w) = snd (m w)"
  by (simp add: safeApply_def mapErrM_apply split: prod.splits sum.splits)


text \<open>A world with one client near its cap.\<close>

definition poll_world :: world where
  "poll_world = sample_world\<lparr>w_db := empty_db\<lparr>d_traffics := [sample_traffic\<lparr>t_up := TrafficCap\<rparr>], d_nextTraffic := 2\<rparr>\<rparr>"

definition sample_report :: client_traffic where
  "sample_report = sample_traffic\<lparr>t_up := 5, t_down := 7\<rparr>"

lemma poll_world_ok:
  "db_ok (w_db poll_world)" "counters_ok (w_db poll_world)" "reports_ok [] [sample_report]"
  by (simp_all add: poll_world_def db_ok_def empty_db_def counters_ok_def traffic_row_ok_def counter_ok_def
      TrafficCap_def sample_traffic_def reports_ok_def sample_report_def ids_ok_def)


end
