(* ===== verification/RenewLoop.thy ===== *)
theory RenewLoop
  imports TrafficFacts
begin

text \<open>
  When the renewal loop of \<open>autoRenewClients\<close> ends.  The expiry is moved by the reset period in
  int64 arithmetic until it reaches the present, so the loop ends exactly when the orbit of the expiry
  modulo 2^64 meets the times from now on; that fails only for periods that are multiples of 2^53 days.
\<close>

section \<open>The orbit\<close>

lemma wrap64_mod: "wrap64 a = wrap64 b \<longleftrightarrow> (a - b) mod 2 ^ 64 = 0"
proof -
  have "wrap64 a = wrap64 b \<longleftrightarrow> (a + 2 ^ 63) mod 2 ^ 64 = (b + 2 ^ 63) mod 2 ^ 64"
    by (simp add: wrap64_def)
  also have "\<dots> \<longleftrightarrow> 2 ^ 64 dvd (a + 2 ^ 63) - (b + 2 ^ 63)" by (simp add: mod_eq_dvd_iff)
  finally show ?thesis by (simp add: mod_eq_0_iff_dvd)
qed

lemma wrap64_add [simp]: "wrap64 (wrap64 a + b) = wrap64 (a + b)"
proof -
  have "(wrap64 a + b) - (a + b) = ((a + 2 ^ 63) mod 2 ^ 64) - (a + 2 ^ 63)" by (simp add: wrap64_def)
  also have "\<dots> = - (2 ^ 64 * ((a + 2 ^ 63) div 2 ^ 64))"
    by (simp add: minus_mult_div_eq_mod [symmetric])
  finally have "2 ^ 64 dvd (wrap64 a + b) - (a + b)" by (metis dvd_minus_iff dvd_triv_left)
  then show ?thesis unfolding wrap64_mod by (simp add: mod_eq_0_iff_dvd)
qed

lemma wrap64_mult: "wrap64 (b + k * wrap64 a) = wrap64 (b + k * a)"
proof -
  have "2 ^ 64 dvd wrap64 a - a"
    using wrap64_add [of a 0] unfolding wrap64_mod by (simp add: mod_eq_0_iff_dvd)
  then have "2 ^ 64 dvd k * (wrap64 a - a)" by (rule dvd_mult)
  then show ?thesis unfolding wrap64_mod by (simp add: mod_eq_0_iff_dvd algebra_simps)
qed

lemma renew_loop_Some:
  assumes ret: "renew_loop now step e = Some x" and e: "is_int64 e"
  shows "\<exists>k. x = wrap64 (e + int k * step)"
proof -
  have "is_int64 e \<longrightarrow> (\<exists>k. x = wrap64 (e + int k * step))"
  proof (rule renew_loop.raw_induct
      [where P = "\<lambda>now step e x. is_int64 e \<longrightarrow> (\<exists>k. x = wrap64 (e + int k * step))", OF _ ret])
    fix f now step e x
    assume IH: "\<And>now step e x. f now step e = Some x \<Longrightarrow> is_int64 e \<longrightarrow> (\<exists>k. x = wrap64 (e + int k * step))"
      and eq: "(if e < now then f now step (wrap64 (e + step)) else Some e) = Some x"
    show "is_int64 e \<longrightarrow> (\<exists>k. x = wrap64 (e + int k * step))"
    proof (cases "e < now")
      case True
      then have "f now step (wrap64 (e + step)) = Some x" using eq by simp
      then obtain k where "x = wrap64 (e + step + int k * step)" using IH by fastforce
      then have "x = wrap64 (e + int (Suc k) * step)" by (simp add: algebra_simps)
      then show ?thesis by blast
    next
      case False
      then have "is_int64 e \<longrightarrow> x = wrap64 (e + int 0 * step)" using eq by simp
      then show ?thesis by blast
    qed
  qed
  with e show ?thesis by simp
qed

text \<open>If the orbit reaches the present, the loop ends.\<close>

lemma renew_loop_reaches:
  "is_int64 e \<Longrightarrow> now \<le> wrap64 (e + int k * step) \<Longrightarrow> \<exists>x. renew_loop now step e = Some x"
proof (induction k arbitrary: e)
  case 0
  then show ?case by (simp add: renew_loop.simps)
next
  case (Suc k)
  show ?case
  proof (cases "e < now")
    case False
    then show ?thesis by (simp add: renew_loop.simps)
  next
    case True
    have "now \<le> wrap64 (wrap64 (e + step) + int k * step)" using Suc.prems(2) by (simp add: algebra_simps)
    then show ?thesis using Suc.IH [of "wrap64 (e + step)"] True by (subst renew_loop.simps) simp
  qed
qed

lemma renew_loop_ends_iff:
  "is_int64 e \<Longrightarrow> renew_loop now step e = None \<longleftrightarrow> (\<forall>k. wrap64 (e + int k * step) < now)"
  by (metis renew_loop_Some renew_loop_reaches renew_loop_ge not_le not_None_eq)

section \<open>Reset periods\<close>

lemma orbit_step: "wrap64 (e + int k * renew_step reset) = wrap64 (e + int k * (reset * 86400000))"
  by (simp add: renew_step_def wrap64_mult)

text \<open>A period that is a multiple of 2^53 days moves the expiry by 0 or by 2^63.\<close>

lemma stuck:
  assumes "2 ^ 53 dvd reset" "0 < e" "e < now" "now < 2 ^ 62"
  shows "renew_loop now (renew_step reset) e = None"
proof -
  obtain m where "reset = 2 ^ 53 * m" using assms(1) by blast
  then have r: "reset * 86400000 = 2 ^ 63 * (m * 84375)" by simp
  have "wrap64 (e + int k * (reset * 86400000)) < now" for k
  proof -
    let ?j = "int k * (m * 84375)"
    have eq: "e + int k * (reset * 86400000) = e + 2 ^ 63 * ?j" by (simp add: r)
    have "wrap64 (e + 2 ^ 63 * ?j) = e \<or> wrap64 (e + 2 ^ 63 * ?j) = e - 2 ^ 63"
    proof (cases "even ?j")
      case True
      then obtain i where "?j = 2 * i" by blast
      then have "wrap64 (e + 2 ^ 63 * ?j) = wrap64 e" unfolding wrap64_mod by simp
      then show ?thesis using assms by (simp add: is_int64_def)
    next
      case False
      then obtain i where "?j = 2 * i + 1" by (meson oddE)
      then have "wrap64 (e + 2 ^ 63 * ?j) = wrap64 (e - 2 ^ 63)" unfolding wrap64_mod by (simp add: algebra_simps)
      then show ?thesis using assms by (simp add: is_int64_def)
    qed
    then have "wrap64 (e + 2 ^ 63 * ?j) < now" using assms(3) by (elim disjE) simp_all
    then show ?thesis unfolding eq .
  qed
  then show ?thesis using assms by (subst renew_loop_ends_iff) (auto simp: is_int64_def orbit_step)
qed

text \<open>For any other period the step generates a coset fine enough to meet the future.\<close>

lemma dvd_pow2: "(g :: int) dvd 2 ^ n \<Longrightarrow> 0 < g \<Longrightarrow> \<exists>j \<le> n. g = 2 ^ j"
proof (induction n arbitrary: g)
  case 0
  then show ?case by (simp add: zdvd_not_zless order_antisym_conv)
next
  case (Suc n)
  show ?case
  proof (cases "even g")
    case True
    then obtain h where h: "g = 2 * h" by blast
    with Suc.prems have "h dvd 2 ^ n" "0 < h" by simp_all
    then obtain j where "j \<le> n" "h = 2 ^ j" using Suc.IH by blast
    then have "g = 2 ^ Suc j" "Suc j \<le> Suc n" using h by simp_all
    then show ?thesis by blast
  next
    case False
    then have "coprime g 2" by (simp add: coprime_right_2_iff_odd)
    then have "g dvd 2 ^ n" using Suc.prems(1) by (simp add: coprime_dvd_mult_right_iff)
    then show ?thesis using Suc.IH Suc.prems(2) by (meson le_SucI)
  qed
qed

lemma gcd_small:
  assumes "\<not> 2 ^ 53 dvd reset"
  shows "gcd (reset * 86400000) (2 ^ 64) \<le> (2 ^ 62 :: int)"
proof -
  let ?g = "gcd (reset * 86400000) (2 ^ 64) :: int"
  have "0 < ?g" by simp
  then obtain j where j: "?g = 2 ^ j" using dvd_pow2 [of ?g 64] by auto
  have "j \<le> 62"
  proof (rule ccontr)
    assume "\<not> j \<le> 62"
    then have "(2 :: int) ^ 63 dvd 2 ^ j" by (intro le_imp_power_dvd) simp
    also have "2 ^ j dvd reset * 86400000" unfolding j [symmetric] by simp
    finally have "2 ^ 10 * 2 ^ 53 dvd (2 ^ 10 :: int) * (reset * 84375)" by (simp add: mult.commute)
    then have "2 ^ 53 dvd reset * 84375" by (simp only: dvd_mult_cancel_left) simp
    moreover have "coprime (2 ^ 53 :: int) 84375" by (simp only: coprime_power_left_iff) (simp add: coprime_left_2_iff_odd)
    ultimately show False using assms by (simp only: coprime_dvd_mult_left_iff)
  qed
  then have "(2 :: int) ^ j \<le> 2 ^ 62" by (intro power_increasing) simp_all
  with j show ?thesis by simp
qed

lemma moves:
  assumes "\<not> 2 ^ 53 dvd reset" "is_int64 e" "0 \<le> now" "now \<le> 2 ^ 62"
  shows "\<exists>x. renew_loop now (renew_step reset) e = Some x"
proof -
  let ?S = "reset * 86400000" and ?g = "gcd (reset * 86400000) (2 ^ 64) :: int"
  have g: "0 < ?g" "?g \<le> 2 ^ 62" using gcd_small [OF assms(1)] by simp_all
  obtain u v where uv: "u * ?S + v * 2 ^ 64 = ?g" using bezout_int by blast
  define y where "y = now + (e - now) mod ?g"
  have "(e - now) mod ?g < ?g" "0 \<le> (e - now) mod ?g" using g(1) by (rule pos_mod_bound, rule pos_mod_sign)
  with g(2) assms(3,4) have "now \<le> y" "0 \<le> y" "y < 2 ^ 62 + 2 ^ 62" unfolding y_def by linarith+
  then have y: "now \<le> y" "is_int64 y" by (simp_all add: is_int64_def)
  obtain q where q: "y - e = ?g * q"
  proof
    have "(e - now) mod ?g = (e - now) - ?g * ((e - now) div ?g)" by (simp add: minus_mult_div_eq_mod)
    then show "y - e = ?g * (- ((e - now) div ?g))" by (simp add: y_def)
  qed
  define M S :: int where "M = 2 ^ 64" and "S = ?S"
  let ?k = "nat ((q * u) mod 2 ^ 64)"
  define c where "c = (q * u) div M"
  have k: "int ?k = q * u - M * c" by (simp add: minus_mult_div_eq_mod M_def c_def)
  have "?g = u * S + v * M" using uv by (simp add: S_def M_def)
  then have "y = e + (u * S + v * M) * q" using q by simp
  then have "e + int ?k * S - y = M * (- (c * S) - v * q)" unfolding k by (simp add: algebra_simps)
  then have "M dvd e + int ?k * S - y" by simp
  then have "2 ^ 64 dvd e + int ?k * ?S - y" by (simp add: S_def M_def)
  then have "wrap64 (e + int ?k * ?S) = wrap64 y" unfolding wrap64_mod by (simp add: mod_eq_0_iff_dvd)
  then have "now \<le> wrap64 (e + int ?k * renew_step reset)"
    using y unfolding orbit_step by (simp only: wrap64_id)
  then show ?thesis using renew_loop_reaches [OF assms(2)] by blast
qed

text \<open>Sane periods: the first deadline from now on, less than one period ahead.\<close>

lemma sane_loop:
  assumes "0 < step" "now + step < 2 ^ 63" "0 \<le> e"
  shows "e < now + step \<Longrightarrow> \<exists>x. renew_loop now step e = Some x \<and> now \<le> x \<and> x < now + step \<and> step dvd x - e"
  using assms(3)
proof (induction "nat (now - e)" arbitrary: e rule: less_induct)
  case less
  show ?case
  proof (cases "e < now")
    case False
    then show ?thesis using less.prems by (simp add: renew_loop.simps)
  next
    case True
    have "is_int64 (e + step)" using True assms less.prems by (simp add: is_int64_def)
    moreover have "nat (now - (e + step)) < nat (now - e)" using True assms(1) by simp
    then obtain x where x: "renew_loop now step (e + step) = Some x" "now \<le> x" "x < now + step" "step dvd x - (e + step)"
      using less.hyps [of "e + step"] True assms(1) less.prems by auto
    moreover have "step dvd x - e" using x(4) dvd_add [OF x(4) dvd_refl [of step]] by (simp add: algebra_simps)
    ultimately show ?thesis using True by (subst renew_loop.simps) simp
  qed
qed

text \<open>
  C33: The loop that renews an expired client ends exactly when the reset period is not a multiple of
  2^53 days (a row with such a period blocks the poll, and with it the traffic writer, for ever); and
  for every period up to 10^8 days it sets the first deadline of the client's own schedule that is not
  in the past, without leaving int64.
\<close>

theorem renewal_terminates:
  assumes "0 < t_expiryTime t" "t_expiryTime t < now" "now < 2 ^ 62" "0 < t_reset t"
  shows "(renewed_expiry now t = Inl GoHang \<longleftrightarrow> 2 ^ 53 dvd t_reset t)
    \<and> (t_reset t \<le> 10 ^ 8 \<longrightarrow>
        (\<exists>x. renewed_expiry now t = Inr x \<and> now \<le> x \<and> x < now + t_reset t * 86400000
             \<and> t_reset t * 86400000 dvd x - t_expiryTime t))"
proof
  have e: "is_int64 (t_expiryTime t)" using assms by (simp add: is_int64_def)
  show "renewed_expiry now t = Inl GoHang \<longleftrightarrow> 2 ^ 53 dvd t_reset t"
  proof (cases "2 ^ 53 dvd t_reset t")
    case True
    then show ?thesis using stuck [OF True assms(1-3)] by (simp add: renewed_expiry_def)
  next
    case False
    then show ?thesis using moves [OF False e, of now] assms by (auto simp: renewed_expiry_def)
  qed
  show "t_reset t \<le> 10 ^ 8 \<longrightarrow>
        (\<exists>x. renewed_expiry now t = Inr x \<and> now \<le> x \<and> x < now + t_reset t * 86400000
             \<and> t_reset t * 86400000 dvd x - t_expiryTime t)"
  proof
    assume "t_reset t \<le> 10 ^ 8"
    then have s: "renew_step (t_reset t) = t_reset t * 86400000" "now + t_reset t * 86400000 < 2 ^ 63"
      using assms by (simp_all add: renew_step_def is_int64_def)
    then show "\<exists>x. renewed_expiry now t = Inr x \<and> now \<le> x \<and> x < now + t_reset t * 86400000
             \<and> t_reset t * 86400000 dvd x - t_expiryTime t"
      using sane_loop [of "t_reset t * 86400000" now "t_expiryTime t"] assms by (auto simp: renewed_expiry_def)
  qed
qed

theorem renewal_terminates_witness:
  "\<exists>x. renewed_expiry 2000 sample_traffic = Inr x \<and> 2000 \<le> x"
  using renewal_terminates [of sample_traffic 2000] by (auto simp: sample_traffic_def)

end
