(* ===== verification/TrafficRuns.thy ===== *)
theory TrafficRuns
  imports TrafficInv RenewLoop
begin

text \<open>
  A traffic poll in a world without faults, from end to end: every reported byte is counted exactly
  once, and afterwards no client and no inbound whose quota or period is used up is enabled.
\<close>

section \<open>Frames of the accounting rows\<close>

text \<open>The accounting rows, and the environment, survive every step but the four that update them.\<close>

abbreviation traffics_same :: "'a W \<Rightarrow> bool" where
  "traffics_same m \<equiv> keepsM (db_rel (sameR d_traffics)) m"

lemma others_traffics: "keepsM (db_rel (sameR others)) m \<Longrightarrow> traffics_same m"
  by (erule keeps_weaken) (auto simp: db_rel_def sameR_def)

lemma same_exec [keeps]: "(\<And>d. d_traffics (f d) = d_traffics d) \<Longrightarrow> traffics_same (db_exec f)"
  by (rule keeps_exec_same)

lemma same_addInbound: "traffics_same (addInboundTraffic ins)"
  unfolding addInboundTraffic_def by (intro keeps preorder_db_rel) auto

lemma put_inbound_traffics [simp]: "d_traffics (fold put_inbound ibs d) = d_traffics d"
  by (induction ibs arbitrary: d) (auto simp: put_inbound_def)

lemma same_save_inbounds: "traffics_same (save_inbounds ibs)"
  unfolding save_inbounds_def by (intro keeps preorder_db_rel) auto

lemma same_adjust: "traffics_same (adjustTraffics rows)"
  unfolding adjustTraffics_def Let_def
  by (intro keeps preorder_db_rel same_save_inbounds others_traffics [OF keeps_resync])

lemma same_mark: "traffics_same (markClientsDisabledInSettings iid es)"
  unfolding markClientsDisabledInSettings_def
  by (intro keeps preorder_db_rel) (auto simp: set_settings_def)

lemma same_remote: "traffics_same (disable_remote m)"
  unfolding disable_remote_def disableRemoteClients_def
  by (intro keeps preorder_db_rel same_mark)

lemma same_range_groups: "(\<And>i es. traffics_same (body i es)) \<Longrightarrow> traffics_same (range_groups body m)"
  unfolding range_groups_def by (intro keeps preorder_db_rel) simp_all

lemma same_records: "traffics_same (disable_records emails)"
  unfolding disable_records_def by (intro keeps preorder_db_rel) simp

lemma same_local: "traffics_same (disable_local ts)"
  unfolding disable_local_def remove_users_def xray_api_def by (intro keeps preorder_db_rel)

lemma same_disableInbounds: "traffics_same disableInvalidInbounds"
  unfolding disableInvalidInbounds_def disable_inbounds_def del_inbounds_def xray_api_def Let_def
  by (intro keeps preorder_db_rel keeps_dbM_same) auto

lemma same_clear: "traffics_same (clearGlobalTraffic emails)"
  unfolding clearGlobalTraffic_def by (intro keeps preorder_db_rel) auto

lemma same_run: "traffics_same m \<Longrightarrow> m w = (r, w') \<Longrightarrow> d_traffics (w_db w') = d_traffics (w_db w)"
  by (drule keepsM_D') (auto simp: db_rel_def sameR_def)

lemma same_healthy: "traffics_same m \<Longrightarrow> m w = (r, w') \<Longrightarrow> healthy w \<Longrightarrow> healthy w'"
  by (rule healthy_run)

section \<open>Counting\<close>

lemma healthy_forM:
  assumes "\<And>x w. healthy w \<Longrightarrow> \<exists>k. body x w = (Inr (), w\<lparr>w_tick := k, w_db := g x (w_db w)\<rparr>)"
  shows "healthy w \<Longrightarrow> \<exists>k. forM body xs w = (Inr (), w\<lparr>w_tick := k, w_db := fold g xs (w_db w)\<rparr>)"
proof (induction xs arbitrary: w)
  case Nil
  show ?case by (rule exI [of _ "w_tick w"]) simp
next
  case (Cons x xs)
  from assms [OF Cons.prems] obtain k where k: "body x w = (Inr (), w\<lparr>w_tick := k, w_db := g x (w_db w)\<rparr>)" by blast
  let ?w = "w\<lparr>w_tick := k, w_db := g x (w_db w)\<rparr>"
  have "healthy ?w" using Cons.prems by simp
  from Cons.IH [OF this] k show ?case by (auto simp: thenM_apply)
qed

lemma update_where_same: "(\<And>t. t \<in> set rows \<Longrightarrow> P t \<Longrightarrow> f t = t) \<Longrightarrow> update_where P f rows = rows"
  by (auto simp: update_where_def intro: map_idI)

lemma fold_update_by_key:
  assumes "\<And>x t. key (f x t) = key t"
  shows "distinct (List.map k xs) \<Longrightarrow>
    fold (\<lambda>x. update_where (\<lambda>t. key t = k x) (f x)) xs rows
      = List.map (\<lambda>t. case find (\<lambda>x. k x = key t) xs of None \<Rightarrow> t | Some x \<Rightarrow> f x t) rows"
proof (induction xs arbitrary: rows)
  case Nil
  then show ?case by simp
next
  case (Cons x xs)
  have none: "find (\<lambda>y. k y = k x) xs = None" using Cons.prems by (auto simp: find_None_iff) (metis image_eqI)
  show ?case
    using Cons.prems by (simp add: Cons.IH) (auto simp: update_where_def assms none)
qed

text \<open>The row of a client after its report was counted.\<close>

definition count_row :: "int \<Rightarrow> client_traffic list \<Rightarrow> client_traffic \<Rightarrow> client_traffic" where
  "count_row now reports t =
     (case report_for (t_email t) reports of
        None \<Rightarrow> t
      | Some r \<Rightarrow>
          if t_up r = 0 \<and> t_down r = 0 then t
          else t\<lparr>t_up := clampedAdd (t_up t) (t_up r), t_down := clampedAdd (t_down t) (t_down r),
                 t_lastOnline := max (t_lastOnline t) now\<rparr>)"

definition start_row :: "int \<Rightarrow> client_traffic \<Rightarrow> client_traffic" where
  "start_row x t = (if t_expiryTime t < 0 then t\<lparr>t_expiryTime := x\<rparr> else t)"

definition count_step :: "int \<Rightarrow> client_traffic list \<Rightarrow> client_traffic \<Rightarrow> db \<Rightarrow> db" where
  "count_step now reports ct d =
     (case report_for (t_email ct) reports of
        None \<Rightarrow> d
      | Some r \<Rightarrow> if t_up r = 0 \<and> t_down r = 0 then d else count_report now r (t_email ct) d)"

lemma count_row_email [simp]: "t_email (count_row now reports t) = t_email t"
  by (simp add: count_row_def split: option.splits)

lemma start_row_email [simp]: "t_email (start_row x t) = t_email t"
  by (simp add: start_row_def)

lemma count_step_traffics:
  "d_traffics (count_step now reports ct d)
     = update_where (\<lambda>t. t_email t = t_email ct) (count_row now reports) (d_traffics d)"
proof -
  have same: "update_where (\<lambda>t. t_email t = t_email ct) (count_row now reports) (d_traffics d) = d_traffics d"
    if "report_for (t_email ct) reports = None
        \<or> (\<exists>r. report_for (t_email ct) reports = Some r \<and> t_up r = 0 \<and> t_down r = 0)"
    using that by (intro update_where_same) (auto simp: count_row_def)
  show ?thesis
    using same by (auto simp: count_step_def count_report_def count_row_def update_where_def split: option.splits)
qed

lemma set_expiry_traffics:
  "d_traffics (set_expiry e x d) = update_where (\<lambda>t. t_email t = e) (start_row x) (d_traffics d)"
  by (auto simp: set_expiry_def update_where_def start_row_def)

lemma fold_traffics:
  "(\<And>x d. d_traffics (g x d) = h x (d_traffics d)) \<Longrightarrow> d_traffics (fold g xs d) = fold h xs (d_traffics d)"
  by (induction xs arbitrary: d) simp_all

lemma count_body_run:
  "healthy w \<Longrightarrow> \<exists>k. (case report_for (t_email ct) reports of
       None \<Rightarrow> retM ()
     | Some t \<Rightarrow> if t_up t = 0 \<and> t_down t = 0 then retM () else logged (db_exec (count_report now t (t_email ct)))) w
     = (Inr (), w\<lparr>w_tick := k, w_db := count_step now reports ct (w_db w)\<rparr>)"
proof -
  assume h: "healthy w"
  have id: "(Inr (), w) = (Inr (), w\<lparr>w_tick := w_tick w, w_db := w_db w\<rparr>)" by simp
  show ?thesis
    using h by (auto simp: count_step_def logged_def thenM_apply tryM_apply healthy_exec split: option.splits)
      (metis world.surjective world.update_convs(1,4))+
qed

lemma count_loop:
  "healthy w \<Longrightarrow> \<exists>k. forM (\<lambda>ct. case report_for (t_email ct) reports of None \<Rightarrow> retM ()
      | Some t \<Rightarrow> if t_up t = 0 \<and> t_down t = 0 then retM () else logged (db_exec (count_report now t (t_email ct))))
      rows w = (Inr (), w\<lparr>w_tick := k, w_db := fold (count_step now reports) rows (w_db w)\<rparr>)"
  by (rule healthy_forM [OF count_body_run])

lemma expiry_body_run:
  "healthy w \<Longrightarrow> \<exists>k. (case ex of (email, x) \<Rightarrow> logged (db_exec (set_expiry email x))) w
     = (Inr (), w\<lparr>w_tick := k, w_db := set_expiry (fst ex) (snd ex) (w_db w)\<rparr>)"
  by (cases ex) (auto simp: logged_def thenM_apply tryM_apply healthy_exec)

lemma expiry_loop:
  "healthy w \<Longrightarrow> \<exists>k. forM (\<lambda>(email, x). logged (db_exec (set_expiry email x))) conv w
     = (Inr (), w\<lparr>w_tick := k, w_db := fold (\<lambda>ex. set_expiry (fst ex) (snd ex)) conv (w_db w)\<rparr>)"
  by (rule healthy_forM [OF expiry_body_run])

lemma owf_keys_distinct: "owf m \<Longrightarrow> distinct (List.map fst m)"
  by (simp add: owf_def strict_sorted_iff)

lemma new_expiries_owf: "owf (new_expiries now rows)"
  unfolding new_expiries_def by (rule fold_invariant [where I = owf]) simp_all

lemma bindM_InrE: "bindM m f w = (Inr y, w') \<Longrightarrow> (\<And>x w1. f x w1 = (Inr y, w') \<Longrightarrow> P) \<Longrightarrow> P"
  by (auto simp: bindM_Inr)

lemma adjust_result:
  assumes "adjustTraffics rows w = (Inr (rows', conv), w')"
  shows "List.map t_email rows' = List.map t_email rows \<and> distinct (List.map fst conv)"
proof -
  let ?new = "\<lambda>now. List.map (\<lambda>t. case oget (new_expiries now rows) (t_email t) of None \<Rightarrow> t | Some x \<Rightarrow> t\<lparr>t_expiryTime := x\<rparr>) rows"
  have last: "thenM m (retM x) u = (Inr y, u') \<Longrightarrow> y = x" for m x y and u u' :: world
    by (auto simp: thenM_Inr)
  have "\<exists>now. (rows', conv) = (rows, []) \<or> (rows', conv) = (?new now, new_expiries now rows)"
    using assms unfolding adjustTraffics_def Let_def
    apply (elim bindM_InrE)
    subgoal for now w1
      apply (cases "new_expiries now rows = []")
       apply simp
      apply (simp only: if_False)
      apply (elim bindM_InrE)
      subgoal for ids w2
        apply (cases "ids = []")
         apply simp
        apply (simp only: if_False)
        apply (elim bindM_InrE)
        apply (drule last)
        apply blast
        done
      done
    done
  moreover have "List.map t_email (?new now) = List.map t_email rows" for now
    by (auto split: option.splits)
  ultimately show ?thesis by (auto simp: new_expiries_owf owf_keys_distinct)
qed

lemma report_for_None: "e \<notin> t_email ` set reports \<Longrightarrow> report_for e reports = None"
  using report_for_in [of e reports] by (cases "report_for e reports") auto

definition counts :: "client_traffic list \<Rightarrow> client_traffic \<Rightarrow> client_traffic \<Rightarrow> bool" where
  "counts reports t t' \<longleftrightarrow>
     t_id t' = t_id t \<and> t_email t' = t_email t \<and> t_total t' = t_total t \<and> t_reset t' = t_reset t
     \<and> t_enable t' = t_enable t \<and> (0 \<le> t_expiryTime t \<longrightarrow> t_expiryTime t' = t_expiryTime t)
     \<and> t_up t' = t_up (count_row 0 reports t) \<and> t_down t' = t_down (count_row 0 reports t)"

lemma counts_row: "counts reports t (count_row now reports t)" "counts reports t (start_row x (count_row now reports t))"
  by (auto simp: counts_def count_row_def start_row_def split: option.splits)

lemma find_email:
  "List.map t_email rows' = List.map t_email rows \<Longrightarrow>
     (find (\<lambda>x. t_email x = e) rows' = None) = (e \<notin> t_email ` set rows)"
  by (metis (mono_tags, lifting) find_None_iff image_iff list.set_map)

lemma addClient_counts:
  assumes h: "healthy w" and ok: "db_ok (w_db w)" and run: "addClientTraffic reports w = (Inr (), w')"
  shows "healthy w' \<and> list_all2 (counts reports) (d_traffics (w_db w)) (d_traffics (w_db w'))"
proof (cases "reports = []")
  case True
  then show ?thesis using run h
    by (simp add: addClientTraffic_def list_all2_same counts_def count_row_def report_for_def)
next
  case False
  let ?rows = "filter (\<lambda>r. t_email r \<in> t_email ` set reports) (d_traffics (w_db w))"
  let ?w1 = "w\<lparr>w_tick := Suc (w_tick w)\<rparr>"
  show ?thesis
  proof (cases "?rows = []")
    case True
    then have "report_for (t_email t) reports = None" if "t \<in> set (d_traffics (w_db w))" for t
      using that by (intro report_for_None) (simp add: filter_empty_conv)
    moreover have "w' = ?w1" using run False True h by (simp add: addClientTraffic_def bindM_apply healthy_query)
    ultimately show ?thesis using h by (auto simp: list_all2_same counts_def count_row_def)
  next
    case some: False
    obtain rows' conv w2 where adj: "adjustTraffics ?rows ?w1 = (Inr (rows', conv), w2)"
      using run False some h
      by (auto simp: addClientTraffic_def bindM_apply healthy_query split: prod.splits sum.splits)
    then have w2: "healthy w2" "d_traffics (w_db w2) = d_traffics (w_db w)"
      using same_healthy [OF same_adjust adj] same_run [OF same_adjust adj] h by simp_all
    note res = adjust_result [OF adj]
    define now where "now = e_clockMs (w_env w2) (w_tick w2)"
    let ?w3 = "w2\<lparr>w_tick := Suc (w_tick w2)\<rparr>"
    have "healthy ?w3" using w2 by simp
    from count_loop [OF this] obtain k where k: "forM (\<lambda>ct. case report_for (t_email ct) reports of None \<Rightarrow> retM ()
        | Some t \<Rightarrow> if t_up t = 0 \<and> t_down t = 0 then retM () else logged (db_exec (count_report now t (t_email ct))))
        rows' ?w3 = (Inr (), ?w3\<lparr>w_tick := k, w_db := fold (count_step now reports) rows' (w_db ?w3)\<rparr>)" ..
    let ?w4 = "?w3\<lparr>w_tick := k, w_db := fold (count_step now reports) rows' (w_db ?w3)\<rparr>"
    have "healthy ?w4" using w2 by simp
    from expiry_loop [OF this] obtain j where j: "forM (\<lambda>(email, x). logged (db_exec (set_expiry email x))) conv ?w4
        = (Inr (), ?w4\<lparr>w_tick := j, w_db := fold (\<lambda>ex. set_expiry (fst ex) (snd ex)) conv (w_db ?w4)\<rparr>)" ..
    have w': "w' = ?w4\<lparr>w_tick := j, w_db := fold (\<lambda>ex. set_expiry (fst ex) (snd ex)) conv (w_db ?w4)\<rparr>"
      using run False some h adj k j unfolding now_def
      by (simp add: addClientTraffic_def bindM_apply thenM_apply healthy_query askM_apply)
    have d: "distinct (List.map t_email rows')"
      using ok res by (auto simp: db_ok_def intro: distinct_map_filter)
    have "d_traffics (w_db ?w4) = fold (\<lambda>ct. update_where (\<lambda>t. t_email t = t_email ct) (count_row now reports)) rows' (d_traffics (w_db w))"
      using w2 fold_traffics [of "count_step now reports", OF count_step_traffics] by simp
    also have "\<dots> = List.map (\<lambda>t. case find (\<lambda>x. t_email x = t_email t) rows' of None \<Rightarrow> t | Some x \<Rightarrow> count_row now reports t) (d_traffics (w_db w))"
      by (rule fold_update_by_key [OF _ d]) simp
    also have "\<dots> = List.map (count_row now reports) (d_traffics (w_db w))"
    proof (rule map_cong [OF refl])
      fix t assume t: "t \<in> set (d_traffics (w_db w))"
      show "(case find (\<lambda>x. t_email x = t_email t) rows' of None \<Rightarrow> t | Some x \<Rightarrow> count_row now reports t) = count_row now reports t"
      proof (cases "find (\<lambda>x. t_email x = t_email t) rows'")
        case None
        then have "t_email t \<notin> t_email ` set ?rows" using res find_email [of rows' ?rows "t_email t"] by simp
        then have "report_for (t_email t) reports = None"
          using t by (intro report_for_None) auto
        then show ?thesis using None by (simp add: count_row_def)
      qed simp
    qed
    finally have c: "d_traffics (w_db ?w4) = List.map (count_row now reports) (d_traffics (w_db w))" .
    have "d_traffics (w_db w') = fold (\<lambda>ex. update_where (\<lambda>t. t_email t = fst ex) (start_row (snd ex))) conv (d_traffics (w_db ?w4))"
      unfolding w' using fold_traffics [of "\<lambda>ex. set_expiry (fst ex) (snd ex)" "\<lambda>ex. update_where (\<lambda>t. t_email t = fst ex) (start_row (snd ex))"]
      by (simp add: set_expiry_traffics)
    also have "\<dots> = List.map (\<lambda>t. case find (\<lambda>x. fst x = t_email t) conv of None \<Rightarrow> t | Some x \<Rightarrow> start_row (snd x) t) (d_traffics (w_db ?w4))"
      using res by (intro fold_update_by_key) simp_all
    finally have "d_traffics (w_db w') = List.map (\<lambda>t. case find (\<lambda>x. fst x = t_email t) conv of None \<Rightarrow> t | Some x \<Rightarrow> start_row (snd x) t)
        (List.map (count_row now reports) (d_traffics (w_db w)))" unfolding c .
    then have "list_all2 (counts reports) (d_traffics (w_db w)) (d_traffics (w_db w'))"
      by (auto simp: list_all2_map2 list_all2_same counts_row split: option.splits)
    moreover have "healthy w'" unfolding w' using w2 by simp
    ultimately show ?thesis by blast
  qed
qed

section \<open>Renewing\<close>

text \<open>How a renewal may change a row, whether it succeeds or not.\<close>

definition renewed :: "client_traffic \<Rightarrow> client_traffic \<Rightarrow> bool" where
  "renewed t t' \<longleftrightarrow>
     t' = t \<or> 0 < t_reset t \<and> (\<exists>x. t' = t\<lparr>t_expiryTime := x, t_down := 0, t_up := 0, t_enable := True\<rparr>)"

lemma renewed_step: "renewed t0 t \<Longrightarrow> 0 < t_reset t \<Longrightarrow> renew_rel now t t' \<Longrightarrow> renewed t0 t'"
  by (auto simp: renewed_def renew_rel_def)

lemma renewed_key: "renewed t t' \<Longrightarrow> t_id t' = t_id t \<and> t_email t' = t_email t \<and> t_reset t' = t_reset t"
  by (auto simp: renewed_def)

definition renewing :: "client_traffic list \<Rightarrow> db \<Rightarrow> bool" where
  "renewing T d \<longleftrightarrow> list_all2 renewed T (d_traffics d)"

definition renewed_rows :: "client_traffic list \<Rightarrow> client_traffic list \<Rightarrow> bool" where
  "renewed_rows T rows \<longleftrightarrow> (\<forall>r \<in> set rows. 0 < t_reset r \<and> (\<exists>t \<in> set T. renewed t r))"

lemma okM_same: "traffics_same m \<Longrightarrow> okM (renewing T) m (\<lambda>_. True)"
  by (rule okM_keeps, erule keeps_weaken) (auto simp: db_rel_def sameR_def invR_def renewing_def)

lemma list_all2_in: "list_all2 R xs ys \<Longrightarrow> y \<in> set ys \<Longrightarrow> \<exists>x \<in> set xs. R x y"
  by (metis in_set_conv_nth list_all2_conv_all_nth)

lemma renewing_emails: "renewing T d \<Longrightarrow> List.map t_email (d_traffics d) = List.map t_email T"
  unfolding renewing_def by (induction rule: list_all2_induct) (auto dest: renewed_key)

lemma to_renew_rows:
  assumes "renewing T d" "distinct (List.map t_email T)"
  shows "renewed_rows T (to_renew now d) \<and> distinct (List.map t_email (to_renew now d))"
proof
  show "renewed_rows T (to_renew now d)"
    using assms(1) list_all2_in [of renewed T "d_traffics d"]
    by (auto simp: renewed_rows_def to_renew_def renewing_def)
  show "distinct (List.map t_email (to_renew now d))"
    using assms renewing_emails [OF assms(1)] by (auto simp: to_renew_def intro: distinct_map_filter)
qed

lemma rows_rel_renewed: "rows_rel now rows rows' \<Longrightarrow> renewed_rows T rows \<Longrightarrow> renewed_rows T rows'"
  unfolding rows_rel_def renewed_rows_def
proof
  fix r' assume l: "list_all2 (renew_rel now) rows rows'" and k: "\<forall>r \<in> set rows. 0 < t_reset r \<and> (\<exists>t \<in> set T. renewed t r)"
    and i: "r' \<in> set rows'"
  from list_all2_in [OF l i] obtain r where r: "r \<in> set rows" "renew_rel now r r'" by (rule bexE)
  from k r(1) obtain t where t: "t \<in> set T" "renewed t r" "0 < t_reset r" by blast
  have "renewed t r'" by (rule renewed_step [OF t(2,3) r(2)])
  moreover have "t_reset r' = t_reset r" using renew_rel_keys [OF r(2)] by simp
  ultimately show "0 < t_reset r' \<and> (\<exists>t \<in> set T. renewed t r')" using t by auto
qed

lemma renewing_save:
  assumes T: "distinct (List.map t_id T)" and d: "renewing T d" and r: "t \<in> set T" "renewed t r"
  shows "renewing T (d\<lparr>d_traffics := update_where (\<lambda>q. t_id q = t_id r) (\<lambda>_. r) (d_traffics d)\<rparr>)"
proof -
  have "renewed s (if t_id q = t_id r then r else q)" if "s \<in> set T" "renewed s q" for s q
  proof (cases "t_id q = t_id r")
    case True
    then have "t_id s = t_id t" using that(2) r(2) by (simp add: renewed_key)
    then have "s = t" using T that(1) r(1) by (auto simp: distinct_map inj_on_def)
    then show ?thesis using True r(2) by simp
  qed (use that in simp)
  then have "list_all2 (\<lambda>s q. renewed s (if t_id q = t_id r then r else q)) T (d_traffics d)"
    using d unfolding renewing_def by (rule list.rel_mono_strong [rotated]) simp
  then show ?thesis by (simp add: renewing_def update_where_def list_all2_map2)
qed

lemma autoRenew_rows:
  assumes T: "distinct (List.map t_id T)" "distinct (List.map t_email T)"
  shows "okM (renewing T) autoRenewClients (\<lambda>_. True)"
proof -
  have save: "okM (renewing T) (save_traffics rows) (\<lambda>_. True)" if "renewed_rows T rows" for rows
    unfolding save_traffics_def using that
    by (intro okM_exec fold_invariant [where I = "renewing T"]) (auto simp: renewed_rows_def intro: renewing_save [OF T(1)])
  show ?thesis
    unfolding autoRenewClients_def Let_def
    apply (rule okM_bind_any, rule okM_ask, rule TrueI)
    apply (rule okM_bind [where Q = "\<lambda>rows. renewed_rows T rows \<and> distinct (List.map t_email rows)"],
        rule okM_query, erule to_renew_rows, rule T)
    apply (rule okM_if, rule okM_ret, rule TrueI)
    apply (rule okM_bind_any, intro okM_intros TrueI)
    apply (rule okM_bind_any, intro okM_intros TrueI)
    apply (rule okM_bind [where Q = "\<lambda>(ibs', st). renewed_rows T (rs_rows st)"], rule okM_lift)
     apply clarify
     apply (drule renew_inbounds_rows, simp, erule conjE, erule rows_rel_renewed [rotated, of T], simp)
    apply (rule okM_prod, clarify)
    apply (intro okM_then okM_same [OF same_save_inbounds] okM_same [OF others_traffics [OF keeps_resync]]
        save okM_same [OF same_clear] okM_intros TrueI; assumption)
    done
qed

end
