(* ===== verification/TrafficEnforce.thy ===== *)
theory TrafficEnforce
  imports TrafficRuns
begin

text \<open>
  The last two steps of a traffic poll, and the poll from end to end, in a world without faults: every
  client report is counted once in its row, and no client and no inbound of this panel that has used up
  its quota or its period is still enabled afterwards.
\<close>

section \<open>Statements that return in a healthy world and leave the accounting rows alone\<close>

named_theorems calms \<open>rules of the judgement \<open>calm\<close>\<close>

definition calm :: "'a W \<Rightarrow> bool" where
  "calm m \<longleftrightarrow> (\<forall>w. healthy w \<longrightarrow>
     (\<exists>x w'. m w = (Inr x, w') \<and> w_env w' = w_env w \<and> d_traffics (w_db w') = d_traffics (w_db w)))"

lemma calm_D:
  assumes "calm m" "healthy w"
  obtains x w' where "m w = (Inr x, w')" "w_env w' = w_env w" "healthy w'"
    "d_traffics (w_db w') = d_traffics (w_db w)"
  using assms unfolding calm_def healthy_def by metis

lemma calm_I:
  "traffics_same m \<Longrightarrow> (\<And>w. healthy w \<Longrightarrow> \<exists>x w'. m w = (Inr x, w')) \<Longrightarrow> calm m"
  unfolding calm_def using same_run keeps_env by metis

lemma calm_ret [calms]: "calm (retM x)"
  by (simp add: calm_def)

lemma calm_ask [calms]: "calm (askM f)"
  by (simp add: calm_def askM_apply)

lemma calm_query [calms]: "calm (db_query f)"
  by (simp add: calm_def healthy_query)

lemma calm_exec: "(\<And>d. d_traffics (f d) = d_traffics d) \<Longrightarrow> calm (db_exec f)"
  by (simp add: calm_def healthy_exec)

lemma calm_bind [calms]: "calm m \<Longrightarrow> (\<And>x. calm (f x)) \<Longrightarrow> calm (bindM m f)"
  unfolding calm_def
proof (intro allI impI)
  fix w
  assume m: "\<forall>w. healthy w \<longrightarrow> (\<exists>x w'. m w = (Inr x, w') \<and> w_env w' = w_env w \<and> d_traffics (w_db w') = d_traffics (w_db w))"
    and f: "\<And>x. \<forall>w. healthy w \<longrightarrow> (\<exists>y w'. f x w = (Inr y, w') \<and> w_env w' = w_env w \<and> d_traffics (w_db w') = d_traffics (w_db w))"
    and h: "healthy w"
  from m h obtain x w1 where 1: "m w = (Inr x, w1)" "w_env w1 = w_env w" "d_traffics (w_db w1) = d_traffics (w_db w)" by blast
  then have "healthy w1" using h by (simp add: healthy_def)
  with f obtain y w2 where "f x w1 = (Inr y, w2)" "w_env w2 = w_env w1" "d_traffics (w_db w2) = d_traffics (w_db w1)" by blast
  with 1 show "\<exists>y w'. bindM m f w = (Inr y, w') \<and> w_env w' = w_env w \<and> d_traffics (w_db w') = d_traffics (w_db w)"
    by (simp add: bindM_apply)
qed

lemma calm_then [calms]: "calm m \<Longrightarrow> calm n \<Longrightarrow> calm (thenM m n)"
  unfolding thenM_def by (rule calm_bind)

lemma calm_try: "traffics_same m \<Longrightarrow> calm (tryM m)"
  by (rule calm_I, intro keeps preorder_db_rel, assumption) (auto simp: tryM_apply split: prod.splits)

lemma calm_if [calms]: "calm m \<Longrightarrow> calm n \<Longrightarrow> calm (if b then m else n)"
  by simp

lemma calm_option [calms]: "calm m \<Longrightarrow> (\<And>x. calm (f x)) \<Longrightarrow> calm (case v of None \<Rightarrow> m | Some x \<Rightarrow> f x)"
  by (cases v) auto

lemma calm_prod [calms]: "(\<And>a b. calm (f a b)) \<Longrightarrow> calm (case p of (a, b) \<Rightarrow> f a b)"
  by (cases p) auto

lemma calm_prod_fun [calms]: "(\<And>a b. calm (f a b y)) \<Longrightarrow> calm ((case p of (a, b) \<Rightarrow> f a b) y)"
  by (cases p) auto

lemma calm_foldM [calms]: "(\<And>x a. calm (body x a)) \<Longrightarrow> calm (foldM body xs a)"
  by (induction xs arbitrary: a) (auto intro!: calms)

lemma calm_forM [calms]: "(\<And>x. calm (body x)) \<Longrightarrow> calm (forM body xs)"
  unfolding forM_def by (intro calms)

lemma calm_logged [calms]: "traffics_same m \<Longrightarrow> calm (logged m)"
  unfolding logged_def by (intro calms calm_try)

section \<open>Disabling the clients\<close>

lemma calm_local [calms]: "calm (disable_local ts)"
  unfolding disable_local_def remove_users_def xray_api_def by (intro calms)

lemma calm_groups [calms]: "(\<And>i es. calm (body i es)) \<Longrightarrow> calm (range_groups body m)"
  unfolding range_groups_def range_keys_def by (intro calms) auto

lemma calm_mark: "calm (thenM (tryM (markClientsDisabledInSettings i es)) (retM ()))"
  by (intro calms calm_try same_mark)

lemma calm_records [calms]: "calm (disable_records emails)"
  unfolding disable_records_def by (intro calms keeps) auto

lemma calm_remote [calms]: "calm (disable_remote m)"
  unfolding disable_remote_def disableRemoteClients_def range_keys_def
  by (intro calms calm_try keeps preorder_db_rel same_mark)

text \<open>The rows hit by the batches, and no other, are disabled.\<close>

definition off_rows :: "int set \<Rightarrow> client_traffic list \<Rightarrow> client_traffic list" where
  "off_rows ids rows = List.map (\<lambda>t. if t_id t \<in> ids then t\<lparr>t_enable := False\<rparr> else t) rows"

lemma off_rows_simps [simp]:
  "off_rows {} rows = rows" "off_rows a (off_rows b rows) = off_rows (b \<union> a) rows"
  by (auto simp: off_rows_def)

lemma off_rows_update:
  "update_where (\<lambda>t. t_id t \<in> ids \<and> t_enable t) (\<lambda>t. t\<lparr>t_enable := False\<rparr>) rows = off_rows ids rows"
  by (auto simp: update_where_def off_rows_def)

lemma flip_batches_run:
  "healthy w \<Longrightarrow> \<exists>n w'. flip_batches bs c w = (Inr (n, None), w') \<and> w_env w' = w_env w \<and> healthy w'
     \<and> d_traffics (w_db w') = off_rows (set (concat bs)) (d_traffics (w_db w))"
proof (induction bs arbitrary: c w)
  case Nil
  then show ?case by simp
next
  case (Cons b bs)
  let ?w = "w\<lparr>w_tick := Suc (w_tick w), w_db := (w_db w)\<lparr>d_traffics := off_rows (set b) (d_traffics (w_db w))\<rparr>\<rparr>"
  obtain k where b: "flip_batch b w = (Inr k, ?w)"
    using Cons.prems by (simp add: flip_batch_def healthy_dbM off_rows_update Let_def)
  have "healthy ?w" using Cons.prems by simp
  from Cons.IH [OF this, of "c + k"] obtain n w' where
    "flip_batches bs (c + k) ?w = (Inr (n, None), w')" "w_env w' = w_env w" "healthy w'"
    "d_traffics (w_db w') = off_rows (set b \<union> set (concat bs)) (d_traffics (w_db w))" by auto
  then show ?case using b by (auto simp: bindM_apply tryM_apply)
qed

lemma flip_rows_run:
  assumes "healthy w"
  obtains n w' where "flip_rows ids w = (Inr (n, None), w')" "w_env w' = w_env w" "healthy w'"
    "d_traffics (w_db w') = off_rows (set ids) (d_traffics (w_db w))"
proof -
  have "set (concat (chunks sqlInChunk (sort ids))) = set ids" by (simp add: concat_chunks sqlInChunk_def)
  with flip_batches_run [OF assms, of "chunks sqlInChunk (sort ids)" 0] that show ?thesis
    unfolding flip_rows_def by auto
qed

text \<open>The predicate in use selects at least the rows over their local quota or period.\<close>

lemma depletedCond_run:
  assumes "healthy w"
  obtains cond w' where "depletedCond w = (Inr cond, w')" "healthy w'" "w_db w' = w_db w" "w_env w' = w_env w"
    "\<And>d t. depletedClientsCondLocal (e_clockMs (w_env w) (w_tick w)) t \<Longrightarrow> cond d t"
proof -
  have "\<exists>cond w'. depletedCond w = (Inr cond, w') \<and> healthy w' \<and> w_db w' = w_db w \<and> w_env w' = w_env w
      \<and> (\<forall>d t. depletedClientsCondLocal (e_clockMs (w_env w) (w_tick w)) t \<longrightarrow> cond d t)"
    using assms by (simp add: depletedCond_def globalTrafficFreshSince_def bindM_apply askM_apply tryM_apply
        healthy_query depletedClientsCond_def)
  then show ?thesis using that by blast
qed

definition still_used_up :: "int \<Rightarrow> client_traffic \<Rightarrow> bool" where
  "still_used_up now t \<longleftrightarrow> t_enable t \<and> depletedClientsCondLocal now t"

lemma off_rows_enforce:
  assumes cond: "\<And>t. depletedClientsCondLocal now t \<Longrightarrow> C t"
    and t: "t \<in> set (off_rows (t_id ` set (filter (\<lambda>t. C t \<and> t_enable t) rows)) rows)"
  shows "\<not> still_used_up now t"
proof
  assume u: "still_used_up now t"
  let ?ids = "t_id ` set (filter (\<lambda>t. C t \<and> t_enable t) rows)"
  obtain s where s: "s \<in> set rows" "t = (if t_id s \<in> ?ids then s\<lparr>t_enable := False\<rparr> else s)"
    using t unfolding off_rows_def set_map by (rule imageE)
  have "t_id s \<notin> ?ids" using u s(2) by (simp add: still_used_up_def split: if_splits)
  moreover from this have "t = s" using s(2) by simp
  then have "t_id s \<in> ?ids" using u s(1) cond by (auto simp: still_used_up_def)
  ultimately show False by blast
qed

lemma disable_clients_run:
  assumes h: "healthy w" and run: "disableInvalidClients w = (r, w')"
  shows "healthy w' \<and> w_env w' = w_env w \<and> (\<exists>ids. d_traffics (w_db w') = off_rows ids (d_traffics (w_db w)))
    \<and> (\<forall>t \<in> set (d_traffics (w_db w')). \<not> still_used_up (e_clockMs (w_env w) (w_tick w)) t)"
proof -
  let ?now = "e_clockMs (w_env w) (w_tick w)"
  obtain cond w1 where 1: "depletedCond w = (Inr cond, w1)" "healthy w1" "w_db w1 = w_db w" "w_env w1 = w_env w"
      "\<And>d t. depletedClientsCondLocal ?now t \<Longrightarrow> cond d t"
    using depletedCond_run [OF h] by blast
  define rows where "rows = filter (\<lambda>t. cond (w_db w) t \<and> t_enable t) (d_traffics (w_db w))"
  let ?w2 = "w1\<lparr>w_tick := Suc (w_tick w1)\<rparr>"
  have h2: "healthy ?w2" using 1 by simp
  have enforce: "\<not> still_used_up ?now t" if "t \<in> set (off_rows (t_id ` set rows) (d_traffics (w_db w)))" for t
    using off_rows_enforce [OF 1(5) that [unfolded rows_def]] .
  show ?thesis
  proof (cases "rows = []")
    case True
    then have "w' = ?w2" using run 1
      by (simp add: disableInvalidClients_def bindM_apply healthy_query rows_def)
    then show ?thesis using enforce True 1 h2 by (auto intro: exI [of _ "{}"])
  next
    case False
    let ?emails = "filter (\<lambda>e. e \<noteq> '''') (List.map t_email rows)"
    have "calm (if ?emails = [] then retM [] else db_query (targets_of ?emails))" by (intro calms)
    from calm_D [OF this h2] obtain ts w3 where 3: "(if ?emails = [] then retM [] else db_query (targets_of ?emails)) ?w2 = (Inr ts, w3)"
      "w_env w3 = w_env ?w2" "healthy w3" "d_traffics (w_db w3) = d_traffics (w_db ?w2)" by blast
    let ?locals = "filter (\<lambda>t. tg_node t = None) ts"
    let ?remotes = "filter (\<lambda>t. tg_node t \<noteq> None) ts"
    from calm_D [OF calm_local [of ?locals] 3(3)] obtain r1 w4 where 4: "disable_local ?locals w3 = (Inr r1, w4)"
      "w_env w4 = w_env w3" "healthy w4" "d_traffics (w_db w4) = d_traffics (w_db w3)" by blast
    let ?marks = "range_groups (\<lambda>i es. thenM (tryM (markClientsDisabledInSettings i es)) (retM ())) (group_targets ?locals)"
    have "calm ?marks" by (intro calm_groups calm_mark)
    from calm_D [OF this 4(3)] obtain u w5 where 5: "?marks w4 = (Inr u, w5)"
      "w_env w5 = w_env w4" "healthy w5" "d_traffics (w_db w5) = d_traffics (w_db w4)" by blast
    obtain n w6 where 6: "flip_rows (List.map t_id rows) w5 = (Inr (n, None), w6)" "w_env w6 = w_env w5" "healthy w6"
      "d_traffics (w_db w6) = off_rows (set (List.map t_id rows)) (d_traffics (w_db w5))"
      using flip_rows_run [OF 5(3)] by blast
    let ?rest = "thenM (disable_records ?emails) (bindM (disable_remote (group_targets ?remotes)) (\<lambda>r2. retM (r1 \<or> r2, n, None :: gerr option)))"
    have "calm ?rest" by (intro calms)
    from calm_D [OF this 6(3)] obtain x w7 where 7: "?rest w6 = (Inr x, w7)"
      "w_env w7 = w_env w6" "healthy w7" "d_traffics (w_db w7) = d_traffics (w_db w6)" by blast
    have q: "db_query (\<lambda>d. filter (\<lambda>t. cond d t \<and> t_enable t) (d_traffics d)) w1 = (Inr rows, ?w2)"
      using 1 by (simp add: healthy_query rows_def)
    have "disableInvalidClients w = (Inr x, w7)"
      unfolding disableInvalidClients_def Let_def
      by (simp only: bindM_apply thenM_apply 1(1) q 3(1) 4(1) 5(1) 6(1) 7(1) False prod.case sum.case if_False)
        (use 7(1) in \<open>simp add: thenM_apply bindM_apply\<close>)
    then have "w' = w7" using run by simp
    then show ?thesis using enforce 1 3 4 5 6 7 by auto
  qed
qed

section \<open>Disabling the inbounds\<close>

lemma del_inbounds_calm [calms]: "calm (del_inbounds tags)"
  unfolding del_inbounds_def xray_api_def by (intro calms)

lemma disable_inbounds_run:
  assumes h: "healthy w" and run: "disableInvalidInbounds w = (r, w')"
  shows "healthy w' \<and> w_env w' = w_env w \<and> d_traffics (w_db w') = d_traffics (w_db w)
    \<and> (\<forall>i \<in> set (d_inbounds (w_db w')). \<not> invalid_inbound (e_clock (w_env w) (w_tick w) * 1000) i)"
proof -
  let ?now = "e_clock (w_env w) (w_tick w) * 1000"
  let ?w1 = "w\<lparr>w_tick := Suc (w_tick w)\<rparr>"
  let ?api = "bindM (askM e_xrayRunning) (\<lambda>running. if \<not> running then retM False
            else bindM (db_query (\<lambda>d. List.map i_tag (filter (invalid_inbound ?now) (d_inbounds d)))) (\<lambda>tags.
              bindM (xray_api [''Init'']) (\<lambda>_. del_inbounds tags)))"
  have split: "disableInvalidInbounds w = bindM ?api (\<lambda>restart. bindM (tryM (disable_inbounds ?now)) (\<lambda>r.
       retM (case r of Inl e \<Rightarrow> (restart, 0, Some e) | Inr n \<Rightarrow> (restart, n, None)))) ?w1"
    by (simp add: disableInvalidInbounds_def Let_def bindM_apply askM_apply split: prod.splits sum.splits)
  have "calm ?api" unfolding xray_api_def by (intro calms)
  moreover have "healthy ?w1" using h by simp
  ultimately obtain restart w2 where 2: "?api ?w1 = (Inr restart, w2)" "w_env w2 = w_env ?w1" "healthy w2"
    "d_traffics (w_db w2) = d_traffics (w_db ?w1)" by (rule calm_D) blast
  have "w' = w2\<lparr>w_tick := Suc (w_tick w2),
      w_db := (w_db w2)\<lparr>d_inbounds := update_where (invalid_inbound ?now) (\<lambda>i. i\<lparr>i_enable := False\<rparr>) (d_inbounds (w_db w2))\<rparr>\<rparr>"
    using run unfolding split bindM_apply [of ?api] 2(1)
    by (simp add: bindM_apply tryM_apply disable_inbounds_def healthy_dbM [OF 2(3)])
  then show ?thesis using 2 by (auto simp: update_where_def invalid_inbound_def)
qed

section \<open>The whole poll\<close>

text \<open>No step of the poll changes the environment.\<close>

abbreviation env_kept :: "'a W \<Rightarrow> bool" where
  "env_kept m \<equiv> keepsM (db_rel (sameR (\<lambda>_. ()))) m"

lemma env_of_traffics: "traffics_same m \<Longrightarrow> env_kept m"
  by (erule keeps_weaken) (auto simp: db_rel_def sameR_def)

lemma env_addClient: "env_kept (addClientTraffic reports)"
  unfolding addClientTraffic_def
  by (intro keeps preorder_db_rel env_of_traffics [OF same_adjust]) (rule refl)+

lemma keeps_prod_fun: "(\<And>a b. keepsM R (f a b y)) \<Longrightarrow> keepsM R ((case p of (a, b) \<Rightarrow> f a b) y)"
  by (cases p) auto

lemma env_autoRenew: "env_kept autoRenewClients"
  unfolding autoRenewClients_def Let_def save_traffics_def xray_api_def add_users_def
  by (intro keeps preorder_db_rel env_of_traffics [OF same_save_inbounds] env_of_traffics [OF same_clear]
      env_of_traffics [OF others_traffics [OF keeps_resync]]
      keeps_prod_fun) (rule refl)

lemma env_run: "env_kept m \<Longrightarrow> m w = (r, w') \<Longrightarrow> healthy w \<Longrightarrow> healthy w' \<and> w_env w' = w_env w"
  using keeps_env healthy_run by blast

lemma catchM_ran: "catchM m w = (Inr y, w') \<Longrightarrow> \<exists>r. m w = (r, w')"
  by (auto simp: catchM_def split: prod.splits sum.splits if_splits)

lemma logged_Inr:
  "logged2 m w = (Inr y, w') \<Longrightarrow> \<exists>r. m w = (r, w')"
  "logged3 n w = (Inr y, w') \<Longrightarrow> \<exists>r. n w = (r, w')"
  unfolding logged2_def logged3_def by (auto simp: bindM_Inr dest: catchM_ran)

lemma pollBody_steps:
  assumes "pollBody ins reports w = (Inr x, w')"
  obtains w1 w2 r3 w3 r4 w4 r5 where
    "addInboundTraffic ins w = (Inr (), w1)" "addClientTraffic reports w1 = (Inr (), w2)"
    "autoRenewClients w2 = (r3, w3)" "disableInvalidClients w3 = (r4, w4)" "disableInvalidInbounds w4 = (r5, w')"
  using assms unfolding pollBody_def
  by (auto simp: thenM_Inr bindM_Inr split: prod.splits dest!: logged_Inr)

lemma poll_steps:
  assumes h: "healthy w" and run: "AddTraffic ins reports w = (Inr x, w')"
  obtains w2 where "pollBody ins reports (w\<lparr>w_tick := Suc (w_tick w)\<rparr>) = (Inr x, w2)" "w_db w' = w_db w2"
proof -
  let ?w1 = "w\<lparr>w_tick := Suc (w_tick w)\<rparr>"
  have lk: "addTrafficLocked ins reports w = (Inr x, w')"
    using run by (auto simp: AddTraffic_def safeApply_def mapErrM_apply split: prod.splits sum.splits)
  obtain r2 w2 where b: "pollBody ins reports ?w1 = (r2, w2)" by fastforce
  obtain y where r2: "r2 = Inr y"
  proof (cases r2)
    case (Inl e)
    then show ?thesis using lk h b
      by (cases rule: commitM_cases [of "w_db w" w2])
        (auto simp: addTrafficLocked_def healthy_query thenM_apply split: gerr.splits if_splits)
  qed
  have "healthy w2"
  proof -
    obtain v1 v2 r3 v3 r4 v4 r5 where s: "addInboundTraffic ins ?w1 = (Inr (), v1)" "addClientTraffic reports v1 = (Inr (), v2)"
      "autoRenewClients v2 = (r3, v3)" "disableInvalidClients v3 = (r4, v4)" "disableInvalidInbounds v4 = (r5, w2)"
      using pollBody_steps [OF b [unfolded r2]] by blast
    have "healthy ?w1" using h by simp
    then have "healthy v1" using s(1) by (rule same_healthy [OF same_addInbound, rotated])
    then have "healthy v2" using env_run [OF env_addClient s(2)] by blast
    then have "healthy v3" using env_run [OF env_autoRenew s(3)] by blast
    then have "healthy v4" using disable_clients_run [OF _ s(4)] by blast
    then show ?thesis using disable_inbounds_run [OF _ s(5)] by blast
  qed
  then have "x = y \<and> w_db w' = w_db w2"
    using lk h b r2 by (auto simp: addTrafficLocked_def healthy_query thenM_apply commitM_def healthy_def)
  then show ?thesis using that b r2 by blast
qed

text \<open>What the poll makes of an accounting row, step by step.\<close>

lemma poll_rows:
  assumes h: "healthy w" and ok: "db_ok (w_db w)" "counters_ok (w_db w)" "reports_ok ins reports"
    and run: "AddTraffic ins reports w = (Inr x, w')"
  obtains w3 w4 :: world and T1 T2 ids where
    "list_all2 (counts reports) (d_traffics (w_db w)) T1" "list_all2 renewed T1 T2"
    "d_traffics (w_db w') = off_rows ids T2"
    "w_env w3 = w_env w" "\<forall>t \<in> set (d_traffics (w_db w')). \<not> still_used_up (e_clockMs (w_env w) (w_tick w3)) t"
    "w_env w4 = w_env w" "\<forall>i \<in> set (d_inbounds (w_db w')). \<not> invalid_inbound (e_clock (w_env w) (w_tick w4) * 1000) i"
proof -
  let ?w1 = "w\<lparr>w_tick := Suc (w_tick w)\<rparr>"
  obtain v5 where b: "pollBody ins reports ?w1 = (Inr x, v5)" and d: "w_db w' = w_db v5"
    using poll_steps [OF h run] by blast
  obtain v1 v2 r3 v3 r4 v4 r5 where s: "addInboundTraffic ins ?w1 = (Inr (), v1)" "addClientTraffic reports v1 = (Inr (), v2)"
      "autoRenewClients v2 = (r3, v3)" "disableInvalidClients v3 = (r4, v4)" "disableInvalidInbounds v4 = (r5, v5)"
    using pollBody_steps [OF b] by blast
  have h1: "healthy v1" "w_env v1 = w_env w" "d_traffics (w_db v1) = d_traffics (w_db w)"
    using same_healthy [OF same_addInbound s(1)] same_run [OF same_addInbound s(1)] keeps_env [OF same_addInbound s(1)] h
    by simp_all
  have "poll_inv (poll_frame (w_db w)) (w_db ?w1)" using ok by (simp add: poll_inv_def)
  then have "poll_inv (poll_frame (w_db w)) (w_db v1)"
    using okM_D [OF addInboundTraffic_ok _ s(1)] ok(3) by (auto simp: reports_ok_def list_all_iff)
  then have "db_ok (w_db v1)" by (simp add: poll_inv_def)
  from addClient_counts [OF h1(1) this s(2)]
  have c: "list_all2 (counts reports) (d_traffics (w_db w)) (d_traffics (w_db v2))" using h1 by simp
  have h2: "healthy v2" "w_env v2 = w_env w" using env_run [OF env_addClient s(2) h1(1)] h1 by simp_all
  have keys: "List.map t_id (d_traffics (w_db v2)) = List.map t_id (d_traffics (w_db w))"
    "List.map t_email (d_traffics (w_db v2)) = List.map t_email (d_traffics (w_db w))"
    using c by (induction rule: list_all2_induct) (auto simp: counts_def)
  have "okM (renewing (d_traffics (w_db v2))) autoRenewClients (\<lambda>_. True)"
    by (rule autoRenew_rows) (use ok(1) keys in \<open>simp_all add: db_ok_def ids_ok_def strict_sorted_iff\<close>)
  from okM_D [OF this _ s(3)] have r: "list_all2 renewed (d_traffics (w_db v2)) (d_traffics (w_db v3))"
    by (simp add: renewing_def list_all2_same renewed_def)
  have h3: "healthy v3" "w_env v3 = w_env w" using env_run [OF env_autoRenew s(3) h2(1)] h2 by simp_all
  from disable_clients_run [OF h3(1) s(4)] obtain ids where
    o: "d_traffics (w_db v4) = off_rows ids (d_traffics (w_db v3))" "healthy v4" "w_env v4 = w_env w"
      "\<forall>t \<in> set (d_traffics (w_db v4)). \<not> still_used_up (e_clockMs (w_env w) (w_tick v3)) t"
    using h3 by auto
  from disable_inbounds_run [OF o(2) s(5)] o h3 c r d that [of "d_traffics (w_db v2)" "d_traffics (w_db v3)" ids v3 v4]
  show thesis by simp
qed


section \<open>The properties\<close>

text \<open>The counters of a row and of its report after they were added.\<close>

definition billed :: "client_traffic list \<Rightarrow> client_traffic \<Rightarrow> int \<times> int" where
  "billed reports t =
     (case report_for (t_email t) reports of
        None \<Rightarrow> (t_up t, t_down t)
      | Some r \<Rightarrow> (min (t_up t + t_up r) TrafficCap, min (t_down t + t_down r) TrafficCap))"

lemma billed_count_row: "traffic_row_ok t \<Longrightarrow> billed reports t = (t_up (count_row now reports t), t_down (count_row now reports t))"
  by (auto simp: billed_def count_row_def clampedAdd_def traffic_row_ok_def counter_ok_def split: option.splits)

definition accounted :: "client_traffic list \<Rightarrow> client_traffic \<Rightarrow> client_traffic \<Rightarrow> bool" where
  "accounted reports t t' \<longleftrightarrow>
     t_id t' = t_id t \<and> t_email t' = t_email t \<and> t_total t' = t_total t \<and> t_reset t' = t_reset t
     \<and> ((t_up t', t_down t') = billed reports t
        \<or> 0 < t_reset t \<and> (t_up t', t_down t') = (0, 0))"

lemma accounted_row:
  assumes "traffic_row_ok t" "counts reports t u" "renewed u v" "t' = v \<or> t' = v\<lparr>t_enable := False\<rparr>"
  shows "accounted reports t t'"
  using assms by (auto simp: accounted_def counts_def renewed_def billed_count_row [of t reports 0])

lemma accounted_rows:
  "list_all traffic_row_ok rows \<Longrightarrow> list_all2 (counts reports) rows T1 \<Longrightarrow> list_all2 renewed T1 T2 \<Longrightarrow>
     list_all2 (accounted reports) rows (off_rows ids T2)"
proof (induction rows arbitrary: T1 T2)
  case Nil
  then show ?case by (simp add: off_rows_def)
next
  case (Cons t rows)
  then obtain u us v vs where "T1 = u # us" "T2 = v # vs" "counts reports t u" "renewed u v"
      "list_all2 (counts reports) rows us" "list_all2 renewed us vs"
    by (auto simp: list_all2_Cons1)
  then show ?case
    using Cons.IH [of us vs] Cons.prems(1) accounted_row [of t reports u v]
    by (simp add: off_rows_def)
qed


text \<open>
  C36: When no statement of the database fails and a poll returns, then no enabled accounting row has used
  up its quota, or has an expiry at or before a time no clock reading of the poll precedes; and no
  enabled inbound of this panel is over its quota or past its expiry.  This holds whatever the poll added,
  started or renewed before, and whether or not the calls to Xray and to the nodes fail.
\<close>

theorem poll_enforces:
  assumes "healthy w" "db_ok (w_db w)" "counters_ok (w_db w)" "reports_ok ins reports"
    and "AddTraffic ins reports w = (Inr x, w')"
    and "\<And>k. now \<le> e_clockMs (w_env w) k" "\<And>k. now \<le> e_clock (w_env w) k * 1000"
  shows "(\<forall>t \<in> set (d_traffics (w_db w')). t_enable t \<longrightarrow>
            (t_total t \<le> 0 \<or> t_up t + t_down t < t_total t) \<and> (t_expiryTime t \<le> 0 \<or> now < t_expiryTime t))
       \<and> (\<forall>i \<in> set (d_inbounds (w_db w')). i_enable i \<and> i_nodeId i = None \<longrightarrow>
            (i_total i \<le> 0 \<or> i_up i + i_down i < i_total i) \<and> (i_expiryTime i \<le> 0 \<or> now < i_expiryTime i))"
proof -
  obtain w3 w4 :: world where
    t: "\<forall>t \<in> set (d_traffics (w_db w')). \<not> still_used_up (e_clockMs (w_env w) (w_tick w3)) t" and
    i: "\<forall>i \<in> set (d_inbounds (w_db w')). \<not> invalid_inbound (e_clock (w_env w) (w_tick w4) * 1000) i"
    by (rule poll_rows [OF assms(1-5)]) blast
  have now: "now \<le> e_clockMs (w_env w) (w_tick w3)" "now \<le> e_clock (w_env w) (w_tick w4) * 1000"
    using assms(6,7) by auto
  show ?thesis
    using t i now unfolding still_used_up_def depletedClientsCondLocal_def invalid_inbound_def
    by (intro conjI ballI impI; force)
qed

text \<open>A client with a quota of 10 bytes that reports 12: it is counted and switched off.\<close>

definition quota_world :: world where
  "quota_world = sample_world\<lparr>w_db := empty_db\<lparr>d_traffics := [sample_traffic\<lparr>t_total := 10, t_expiryTime := 0\<rparr>], d_nextTraffic := 2\<rparr>\<rparr>"

lemma quota_world_ok:
  "healthy quota_world" "db_ok (w_db quota_world)" "counters_ok (w_db quota_world)" "reports_ok [] [sample_report]"
  by (simp_all add: quota_world_def db_ok_def empty_db_def counters_ok_def traffic_row_ok_def healthy_def
      sample_traffic_def reports_ok_def sample_report_def ids_ok_def sample_world_def sample_env_def)

lemma quota_run:
  "\<exists>w'. AddTraffic [] [sample_report] quota_world = (Inr (False, True), w')
     \<and> d_traffics (w_db w') = [sample_traffic\<lparr>t_total := 10, t_expiryTime := 0, t_up := 5, t_down := 7, t_lastOnline := 1000000, t_enable := False\<rparr>]"
  by (simp add: quota_world_def sample_world_def sample_env_def empty_db_def sample_traffic_def sample_report_def
      monad_simps db_query_def db_exec_def dbM_def askM_apply tryM_apply Let_def
      AddTraffic_def safeApply_def mapErrM_apply addTrafficLocked_def commitM_def pollBody_def logged2_def logged3_def catchM_def
      addInboundTraffic_def addClientTraffic_def adjustTraffics_def new_expiries_def report_for_def logged_def
      count_report_def clampedAdd_def TrafficCap_def update_where_def
      autoRenewClients_def to_renew_def local_client_def
      disableInvalidClients_def depletedCond_def globalTrafficFreshSince_def globalTrafficFreshWindow_def
      depletedClientsCondLocal_def targets_of_def disable_local_def range_groups_def group_targets_def range_keys_def
      flip_rows_def sqlInChunk_def chunks_short flip_batch_def disable_records_def disable_remote_def
      disableInvalidInbounds_def disable_inbounds_def)


theorem poll_enforces_witness:
  "\<exists>x w'. AddTraffic [] [sample_report] quota_world = (Inr x, w')
     \<and> (\<forall>t \<in> set (d_traffics (w_db w')). t_enable t \<longrightarrow> t_total t \<le> 0 \<or> t_up t + t_down t < t_total t)"
proof -
  obtain w' where r: "AddTraffic [] [sample_report] quota_world = (Inr (False, True), w')" using quota_run by blast
  have "1000000 \<le> e_clockMs (w_env quota_world) k" "1000000 \<le> e_clock (w_env quota_world) k * 1000" for k
    by (simp_all add: quota_world_def sample_world_def sample_env_def)
  from r poll_enforces [OF quota_world_ok r this] show ?thesis by blast
qed

end
