(* ===== verification/ConfigUsers.thy ===== *)
theory ConfigUsers
  imports XrayConfig TrafficEnforce
begin

text \<open>
  Who may use the generated configuration: every user of an inbound is a client that is linked to it,
  enabled, and not switched off in the accounting; and after the poll that precedes the generation
  nobody who has used up a quota or a period is among them.
\<close>

section \<open>The users of an inbound\<close>

definition entry_emails :: "json \<Rightarrow> string list" where
  "entry_emails v = (case v of JObj u \<Rightarrow> (case oget u ''email'' of Some (JStr e) \<Rightarrow> [e] | _ \<Rightarrow> []) | _ \<Rightarrow> [])"

definition users_key :: "string \<Rightarrow> string" where
  "users_key protocol = (if protocol = ''wireguard'' then ''peers'' else ''clients'')"

definition emails_at :: "string \<Rightarrow> gomap \<Rightarrow> string list" where
  "emails_at k m = (case slice_at m k of None \<Rightarrow> [] | Some vs \<Rightarrow> concat (List.map entry_emails vs))"

text \<open>The emails under the given key of a settings text, as Xray decodes it.\<close>

definition text_emails :: "string \<Rightarrow> string \<Rightarrow> string list" where
  "text_emails k s = (case decode_map s of None \<Rightarrow> [] | Some m \<Rightarrow> emails_at k m)"

definition served_emails :: "inbound_config \<Rightarrow> string list" where
  "served_emails ic = text_emails (users_key (ic_protocol ic)) (ic_settings ic)"

section \<open>Printing and reading back\<close>

definition wf_map :: "gomap \<Rightarrow> bool" where
  "wf_map m \<longleftrightarrow> wf_json (jmap m)"

lemma wf_map_simps [simp]: "wf_map None" "wf_map (Some ms) \<longleftrightarrow> owf ms \<and> wf_members ms"
  by (simp_all add: wf_map_def jmap_def)

lemma decode_map_wf: "decode_map s = Some m \<Longrightarrow> wf_map m"
  by (auto simp: decode_map_def wf_map_def jmap_def dest: json_parse_wf split: option.splits json.splits)

lemma decode_printed [simp]: "wf_map m \<Longrightarrow> decode_map (json_marshal_indent (jmap m)) = Some m"
  by (cases m) (auto simp: decode_map_def wf_map_def jmap_def)

lemma wf_elems_iff: "wf_elems xs \<longleftrightarrow> list_all wf_json xs"
  by (induction xs) auto

lemma wf_members_odel: "wf_members m \<Longrightarrow> wf_members (odel k m)"
  by (induction m) (auto simp: odel_def)

lemma wf_map_oput: "wf_map m \<Longrightarrow> valid_utf8 k \<Longrightarrow> wf_json v \<Longrightarrow> wf_map (map_option (oput k v) m)"
  by (cases m) (auto intro: wf_members_oput)

lemma wf_map_odel: "wf_map m \<Longrightarrow> wf_map (map_option (odel k) m)"
  by (cases m) (auto intro: wf_members_odel)

lemma wf_oget: "wf_members ms \<Longrightarrow> oget ms k = Some v \<Longrightarrow> wf_json v"
  by (induction ms) (auto simp: oget_Cons split: if_splits)

lemma wf_mget: "wf_map m \<Longrightarrow> mget m k = Some v \<Longrightarrow> wf_json v"
  by (cases m) (auto simp: mget_def intro: wf_oget)

lemma wf_slice: "wf_map m \<Longrightarrow> slice_at m k = Some xs \<Longrightarrow> list_all wf_json xs"
  using wf_mget [of m k "JArr xs"] by (auto simp: slice_at_def wf_elems_iff split: option.splits json.splits)

lemma wf_object: "wf_map m \<Longrightarrow> object_at m k = Some ms \<Longrightarrow> wf_map (Some ms)"
  using wf_mget [of m k "JObj ms"] by (auto simp: object_at_def split: option.splits json.splits)

lemma mput_Inr: "mput k v m = Inr m' \<longleftrightarrow> m \<noteq> None \<and> m' = map_option (oput k v) m"
  by (auto simp: mput_def split: option.splits)

lemma bindR_Inr: "bindR r f = Inr y \<longleftrightarrow> (\<exists>x. r = Inr x \<and> f x = Inr y)"
  by (auto simp: bindR_def split: sum.splits)

lemma mget_map [simp]:
  "mget (map_option (oput k v) m) k' = (if k' = k \<and> m \<noteq> None then Some v else mget m k')"
  "mget (map_option (odel k) m) k' = (if k' = k then None else mget m k')"
  by (cases m; simp add: mget_def)+

lemma emails_at_other:
  "mget m' k = mget m k \<Longrightarrow> emails_at k m' = emails_at k m"
  by (simp add: emails_at_def slice_at_def)

lemma text_emails_printed: "wf_map m \<Longrightarrow> text_emails k (json_marshal_indent (jmap m)) = emails_at k m"
  by (simp add: text_emails_def)

section \<open>Healing keeps the users\<close>

lemma emails_edit:
  assumes "\<And>m m'. f m = Some m' \<Longrightarrow> oget m' ''email'' = oget m ''email''"
  shows "concat (List.map entry_emails (fst (edit_clients f cs))) = concat (List.map entry_emails cs)"
  unfolding edit_clients_def using assms
  by (induction cs) (auto simp: entry_emails_def split: json.splits option.splits)

lemma wf_edit:
  assumes "\<And>m m'. f m = Some m' \<Longrightarrow> wf_map (Some m) \<Longrightarrow> wf_map (Some m')" "list_all wf_json cs"
  shows "list_all wf_json (fst (edit_clients f cs))"
  using assms(2) unfolding edit_clients_def
  by (induction cs) (auto split: json.splits option.splits dest: assms(1))

lemma ascii_utf8 [simp]: "valid_utf8 ''clients''" "valid_utf8 ''method''" "valid_utf8 ''version''"
  "valid_utf8 ''peers''" "valid_utf8 ''fallbacks''" "valid_utf8 ''email''" "valid_utf8 ''level''"
  "valid_utf8 ''id''" "valid_utf8 ''flow''" "valid_utf8 ''reverse''" "valid_utf8 ''security''" "valid_utf8 ''password''"
  "valid_utf8 ''auth''" "valid_utf8 ''publicKey''" "valid_utf8 ''allowedIPs''" "valid_utf8 ''preSharedKey''"
  "valid_utf8 ''keepAlive''" "valid_utf8 ''tag''" "valid_utf8 ''dest''" "valid_utf8 ''name''" "valid_utf8 ''alpn''"
  "valid_utf8 ''path''" "valid_utf8 ''xver''" "valid_utf8 ''chacha20-ietf-poly1305''"
  by (rule valid_utf8_ascii, simp)+

text \<open>A rewriting that leaves the member with the users alone, or edits its entries.\<close>

lemma printed_same:
  "decode_map s = Some m \<Longrightarrow> wf_map m' \<Longrightarrow> mget m' k = mget m k \<Longrightarrow>
     text_emails k (json_marshal_indent (jmap m')) = text_emails k s"
  by (simp add: text_emails_printed emails_at_other [of m' k m]) (simp add: text_emails_def)

lemma printed_edited:
  assumes "decode_map s = Some m0" "wf_map m" "mget m k = mget m0 k" "slice_at m0 k = Some cs" "valid_utf8 k"
    and "\<And>c c'. f c = Some c' \<Longrightarrow> oget c' ''email'' = oget c ''email''"
    and "\<And>c c'. f c = Some c' \<Longrightarrow> wf_map (Some c) \<Longrightarrow> wf_map (Some c')"
  shows "text_emails k (json_marshal_indent (jmap (map_option (oput k (JArr (fst (edit_clients f cs)))) m))) = text_emails k s"
proof -
  have m: "m \<noteq> None" "slice_at m k = Some cs"
    using assms(3,4) by (auto simp: slice_at_def mget_def split: option.splits)
  have "wf_json (JArr (fst (edit_clients f cs)))"
    using wf_edit [OF assms(7) wf_slice [OF assms(2) m(2)]] by (simp add: wf_elems_iff)
  then have "wf_map (map_option (oput k (JArr (fst (edit_clients f cs)))) m)"
    using assms(2,5) by (intro wf_map_oput)
  then show ?thesis
    using m assms(1,4) emails_edit [of f cs, OF assms(6)]
    by (simp add: text_emails_printed) (simp add: text_emails_def emails_at_def slice_at_def split: option.splits json.splits)
qed

lemma vless_emails: "text_emails ''clients'' (fst (StripVlessInboundEncryption s)) = text_emails ''clients'' s"
  unfolding StripVlessInboundEncryption_def
  by (auto split: option.splits intro!: printed_same wf_map_odel dest: decode_map_wf)

lemma vmess_emails: "text_emails ''clients'' (fst (StripVmessClientSecurity s)) = text_emails ''clients'' s"
proof -
  let ?f = "\<lambda>c. if oget c ''security'' = None then None else Some (odel ''security'' c)"
  have "text_emails ''clients'' (json_marshal_indent (jmap (map_option (oput ''clients'' (JArr (fst (edit_clients ?f cs)))) m)))
      = text_emails ''clients'' s" if "decode_map s = Some m" "slice_at m ''clients'' = Some cs" for m cs
    by (rule printed_edited [OF that(1) decode_map_wf [OF that(1)] refl that(2)])
      (auto split: if_splits intro: wf_members_odel)
  then show ?thesis
    unfolding StripVmessClientSecurity_def by (auto simp: Let_def case_prod_beta split: option.splits)
qed

lemma ss_edit:
  "heal_ss_client m c = Some c' \<Longrightarrow> oget c' ''email'' = oget c ''email''"
  "heal_ss_client m c = Some c' \<Longrightarrow> valid_utf8 m \<Longrightarrow> wf_map (Some c) \<Longrightarrow> wf_map (Some c')"
  unfolding heal_ss_client_def by (auto split: if_splits intro: wf_members_odel wf_members_oput)

lemma ss_emails: "text_emails ''clients'' (fst (HealShadowsocksClientMethods s)) = text_emails ''clients'' s"
proof (cases "s = '''' \<or> decode_map s = None")
  case True
  then show ?thesis by (auto simp: HealShadowsocksClientMethods_def)
next
  case False
  then obtain parsed where p: "decode_map s = Some parsed" "s \<noteq> ''''" by auto
  note w = decode_map_wf [OF p(1)]
  obtain m removed where r: "ReplaceRemovedShadowsocksCipher (text_at parsed ''method'') = (m, removed)" by fastforce
  have "valid_utf8 (text_at parsed ''method'')"
    using wf_mget [OF w, of "''method''"] by (auto simp: text_at_def split: option.splits json.splits)
  then have m: "valid_utf8 m" using r by (auto simp: ReplaceRemovedShadowsocksCipher_def split: if_splits)
  define p1 where "p1 = (if removed then map_option (oput ''method'' (JStr m)) parsed else parsed)"
  have w1: "wf_map p1" using w m by (auto simp: p1_def intro!: wf_map_oput)
  have same: "mget p1 ''clients'' = mget parsed ''clients''" by (simp add: p1_def)
  have eq: "HealShadowsocksClientMethods s = (case slice_at p1 ''clients'' of
      None \<Rightarrow> if \<not> removed then (s, False) else (json_marshal_indent (jmap p1), True)
    | Some cs \<Rightarrow> if \<not> removed \<and> \<not> snd (edit_clients (heal_ss_client m) cs) then (s, False)
        else (json_marshal_indent (jmap (map_option (oput ''clients'' (JArr (fst (edit_clients (heal_ss_client m) cs)))) p1)), True))"
    unfolding HealShadowsocksClientMethods_def p1_def
    by (cases removed) (simp_all add: p r Let_def case_prod_beta split: option.split)
  show ?thesis
  proof (cases "slice_at p1 ''clients''")
    case None
    then show ?thesis using printed_same [OF p(1) w1 same] by (simp add: eq)
  next
    case (Some cs)
    then have "slice_at parsed ''clients'' = Some cs" using same by (simp add: slice_at_def)
    from printed_edited [OF p(1) w1 same this, where f = "heal_ss_client m"]
    have "text_emails ''clients'' (json_marshal_indent (jmap (map_option (oput ''clients''
        (JArr (fst (edit_clients (heal_ss_client m) cs)))) p1))) = text_emails ''clients'' s"
      using ss_edit m by simp
    then show ?thesis using Some by (simp add: eq)
  qed
qed

lemma heal_at_emails:
  assumes "heal_at [] m = Inr (Some m')" "decode_map s = Some m"
  shows "text_emails ''clients'' (json_marshal_indent (jmap m')) = text_emails ''clients'' s"
proof -
  have m': "m' = map_option (oput ''version'' (JInt 2)) m"
    using assms(1) by (auto simp: bindR_Inr mput_Inr split: if_splits)
  have "wf_json (JInt 2)" by (simp add: num_ok_itoa)
  then show ?thesis
    unfolding m' using assms(2) by (intro printed_same wf_map_oput) (auto dest: decode_map_wf)
qed

lemma hysteria_emails: "HealHysteriaVersion s = Inr (s', b) \<Longrightarrow> text_emails ''clients'' s' = text_emails ''clients'' s"
  unfolding HealHysteriaVersion_def healVersionField_def
  by (auto simp: bindR_Inr simp del: heal_at.simps split: if_splits option.splits dest: heal_at_emails)

lemma wireguard_emails:
  "(case decode_map s of Some m \<Rightarrow> mget m ''clients'' = None | None \<Rightarrow> True) \<Longrightarrow> fst (WireguardClientsToPeers s) = s"
  unfolding WireguardClientsToPeers_def by (auto simp: slice_at_def split: option.splits)

section \<open>The settings of one inbound\<close>

text \<open>The texts of a client that reach the configuration are valid UTF-8, like every JSON the panel stores.\<close>

definition client_text_ok :: "client \<Rightarrow> bool" where
  "client_text_ok c \<longleftrightarrow>
     list_all valid_utf8 ([u_email c, u_id c, u_security c, u_password c, u_flow c, u_auth c, u_publicKey c, u_preSharedKey c]
        @ u_allowedIPs c @ (case u_reverse c of None \<Rightarrow> [] | Some t \<Rightarrow> [t]))"

lemma oget_put_if: "oget (put_if b k v m) k' = (if b \<and> k' = k then Some v else oget m k')"
  by (simp add: put_if_def)

lemma wf_put_if: "wf_map (Some m) \<Longrightarrow> valid_utf8 k \<Longrightarrow> wf_json v \<Longrightarrow> wf_map (Some (put_if b k v m))"
  by (auto simp: put_if_def intro: wf_members_oput)

lemma wf_put_text: "wf_map (Some m) \<Longrightarrow> valid_utf8 k \<Longrightarrow> valid_utf8 s \<Longrightarrow> wf_map (Some (put_text k s m))"
  unfolding put_text_def by (intro wf_put_if) simp_all

lemma oget_put_text: "k' \<noteq> k \<Longrightarrow> oget (put_text k s m) k' = oget m k'"
  by (simp add: put_text_def oget_put_if)

lemma config_client_email: "entry_emails (JObj (config_client p c)) = [u_email c]"
  by (simp add: entry_emails_def config_client_def Let_def oget_put_text oget_Cons split: option.splits)

lemma peer_email: "entry_emails (JObj (WireguardPeerFromClient c)) = [u_email c]"
  by (simp add: entry_emails_def WireguardPeerFromClient_def oget_put_if of_members_def oget_Cons)

lemma owf_single [simp]: "owf [(k, v)]"
  by (simp add: owf_def)

lemma wf_if: "(b \<Longrightarrow> wf_map (Some x)) \<Longrightarrow> (\<not> b \<Longrightarrow> wf_map (Some y)) \<Longrightarrow> wf_map (Some (if b then x else y))"
  by simp

lemma wf_config_client: "client_text_ok c \<Longrightarrow> wf_json (JObj (config_client p c))"
proof -
  assume ok: "client_text_ok c"
  have flow: "valid_utf8 (plain_flow (u_flow c))"
    using ok by (simp add: plain_flow_def client_text_ok_def valid_utf8_ascii)
  have base: "wf_map (Some [(''email'', JStr (u_email c))])" using ok by (simp add: client_text_ok_def)
  have rev: "wf_map (Some (case u_reverse c of None \<Rightarrow> m | Some t \<Rightarrow> oput ''reverse'' (JObj [(''tag'', JStr t)]) m))"
    if "wf_map (Some m)" for m
    using that ok by (auto simp: client_text_ok_def intro: wf_members_oput split: option.splits)
  have "wf_map (Some (config_client p c))"
    unfolding config_client_def Let_def
    by (intro wf_if rev wf_put_text base flow) (use ok in \<open>simp_all add: client_text_ok_def\<close>)
  then show ?thesis by simp
qed

lemma wf_peer: "client_text_ok c \<Longrightarrow> wf_json (JObj (WireguardPeerFromClient c))"
proof -
  assume ok: "client_text_ok c"
  have base: "wf_map (Some (of_members [(''email'', JStr (u_email c)), (''level'', JInt 0)]))"
    using ok wf_jobj [of "[(''email'', JStr (u_email c)), (''level'', JInt 0)]"]
    by (simp add: wf_map_def jmap_def jobj_def client_text_ok_def num_ok_itoa del: wf_json.simps(6))
  have ips: "wf_json (JArr (List.map JStr (u_allowedIPs c)))"
    using ok by (simp add: wf_elems_iff client_text_ok_def list_all_iff)
  have "wf_map (Some (WireguardPeerFromClient c))"
    unfolding WireguardPeerFromClient_def
    using ok ips by (intro wf_put_if base) (simp_all add: client_text_ok_def num_ok_itoa)
  then show ?thesis by simp
qed

lemma emails_of_entries:
  "(\<And>c. entry_emails (f c) = [u_email c]) \<Longrightarrow> concat (List.map entry_emails (List.map f cs)) = List.map u_email cs"
  by (induction cs) simp_all

lemma put_clients_spec:
  assumes run: "put_clients p cs m = Inr (m', b)" and wf: "wf_map m" and ok: "list_all client_text_ok cs"
  shows "wf_map m' \<and> (b \<longrightarrow> emails_at (users_key p) m' = List.map u_email cs)
    \<and> (\<not> b \<longrightarrow> m' = m \<and> mget m ''clients'' = None) \<and> (p = ''wireguard'' \<longrightarrow> b \<and> mget m' ''clients'' = None)"
proof (cases "p = ''wireguard''")
  case True
  let ?v = "JArr (List.map (\<lambda>c. JObj (WireguardPeerFromClient c)) cs)"
  have m': "m' = map_option (oput ''peers'' ?v) (map_option (odel ''clients'') m)" "m \<noteq> None" "b"
    using run True by (auto simp: put_clients_def bindR_Inr mput_Inr)
  have "wf_json ?v" using ok by (simp add: wf_elems_iff list_all_iff wf_peer del: wf_json.simps(6))
  then have "wf_map m'" unfolding m'(1) using wf by (intro wf_map_oput wf_map_odel) simp_all
  moreover have "emails_at ''peers'' m' = List.map u_email cs"
    unfolding emails_at_def slice_at_def m'(1) using m'(2) emails_of_entries [of "\<lambda>c. JObj (WireguardPeerFromClient c)" cs]
    by (simp add: peer_email)
  ultimately show ?thesis using True m' by (simp add: users_key_def)
next
  case False
  let ?v = "JArr (List.map (\<lambda>c. JObj (config_client p c)) cs)"
  show ?thesis
  proof (cases "mget m ''clients'' \<noteq> None \<or> cs \<noteq> []")
    case True
    then have m': "m' = map_option (oput ''clients'' ?v) m" "m \<noteq> None" "b"
      using run False by (auto simp: put_clients_def bindR_Inr mput_Inr)
    have "wf_json ?v" using ok by (simp add: wf_elems_iff list_all_iff wf_config_client del: wf_json.simps(6))
    then have "wf_map m'" unfolding m'(1) using wf by (intro wf_map_oput) simp_all
    moreover have "emails_at ''clients'' m' = List.map u_email cs"
      unfolding emails_at_def slice_at_def m'(1) using m'(2) emails_of_entries [of "\<lambda>c. JObj (config_client p c)" cs]
      by (simp add: config_client_email)
    ultimately show ?thesis using False m' by (simp add: users_key_def)
  next
    case none: False
    then show ?thesis using run False wf by (auto simp: put_clients_def)
  qed
qed

text \<open>The stored texts that reach the configuration.\<close>

definition texts_ok :: "db \<Rightarrow> bool" where
  "texts_ok d \<longleftrightarrow>
     list_all (\<lambda>r. client_text_ok (toClient r)) (d_clients d)
     \<and> list_all (\<lambda>x. valid_utf8 (ci_flowOverride x)) (d_clientInbounds d)
     \<and> list_all (\<lambda>r. list_all valid_utf8 [trim_space (fb_dest r), fb_name r, fb_alpn r, fb_path r]) (d_fallbacks d)
     \<and> list_all (\<lambda>i. valid_utf8 (trim_space (i_listen i))) (d_inbounds d)"

lemma utf8_itoa: "valid_utf8 (itoa i)"
  using itoa_chars [of _ i] by (intro valid_utf8_ascii) (fastforce simp: list_all_iff is_digit_def)

lemma wf_fallback:
  assumes r: "list_all valid_utf8 [trim_space (fb_dest r), fb_name r, fb_alpn r, fb_path r]"
    and ch: "list_all (\<lambda>i. valid_utf8 (trim_space (i_listen i))) children"
    and e: "e \<in> set (fallback_entry children r)"
  shows "wf_map (Some e)"
proof -
  have host: "valid_utf8 ((if trim_space (i_listen c) \<in> {'''', ''0.0.0.0'', ''::'', ''::0''} then ''127.0.0.1''
      else trim_space (i_listen c)) @ '':'' @ itoa (i_port c))" if "find P children = Some c \<or> find P (rev children) = Some c" for P c
  proof -
    have "c \<in> set children" using that by (auto dest: find_SomeD)
    then have "valid_utf8 (trim_space (i_listen c))" using ch by (simp add: list_all_iff)
    then show ?thesis by (intro valid_utf8_append utf8_itoa) (simp_all add: valid_utf8_ascii)
  qed
  define dest where "dest = (if trim_space (fb_dest r) \<noteq> '''' then Some (trim_space (fb_dest r))
      else (case find (\<lambda>i. i_id i = fb_childId r) (rev children) of None \<Rightarrow> None
            | Some c \<Rightarrow> Some ((if trim_space (i_listen c) \<in> {'''', ''0.0.0.0'', ''::'', ''::0''} then ''127.0.0.1''
                else trim_space (i_listen c)) @ '':'' @ itoa (i_port c))))"
  have "fallback_entry children r = (case dest of None \<Rightarrow> [] | Some d \<Rightarrow>
      [put_if (0 < fb_xver r) ''xver'' (JInt (fb_xver r)) (put_if (fb_path r \<noteq> '''') ''path'' (JStr (fb_path r))
         (put_if (fb_alpn r \<noteq> '''') ''alpn'' (JStr (fb_alpn r))
           (put_if (fb_name r \<noteq> '''') ''name'' (JStr (fb_name r)) [(''dest'', JStr d)])))])"
    unfolding fallback_entry_def dest_def Let_def by (rule refl)
  then obtain d where d: "dest = Some d" "e = put_if (0 < fb_xver r) ''xver'' (JInt (fb_xver r))
               (put_if (fb_path r \<noteq> '''') ''path'' (JStr (fb_path r))
                 (put_if (fb_alpn r \<noteq> '''') ''alpn'' (JStr (fb_alpn r))
                   (put_if (fb_name r \<noteq> '''') ''name'' (JStr (fb_name r)) [(''dest'', JStr d)])))"
    using e by (cases dest) auto
  have "valid_utf8 d"
  proof (cases "trim_space (fb_dest r) = ''''")
    case True
    then obtain c where c: "find (\<lambda>i. i_id i = fb_childId r) (rev children) = Some c"
      using d(1) by (auto simp: dest_def split: option.splits)
    then show ?thesis using d(1) True host [OF disjI2 [OF c]] unfolding dest_def by simp
  next
    case False
    then show ?thesis using d(1) r by (simp add: dest_def)
  qed
  have "wf_map (Some [(''dest'', JStr d)])" by (simp add: \<open>valid_utf8 d\<close>)
  then show ?thesis
    unfolding d(2) using r by (intro wf_put_if) (simp_all add: num_ok_itoa)
qed

lemma put_fallbacks_spec:
  assumes "put_fallbacks fbs st = Inr (m', b)" "wf_map (fst st)" "\<forall>e \<in> set fbs. wf_map (Some e)"
  shows "wf_map m' \<and> (k \<noteq> ''fallbacks'' \<longrightarrow> mget m' k = mget (fst st) k) \<and> (b \<or> m' = fst st) \<and> (snd st \<longrightarrow> b)"
proof (cases "fbs = []")
  case True
  then have "st = (m', b)" using assms(1) by (simp add: put_fallbacks_def)
  then show ?thesis using assms(2) by simp
next
  case False
  then have m': "m' = map_option (oput ''fallbacks'' (JArr (List.map JObj fbs))) (fst st)" "b"
    using assms(1) by (auto simp: put_fallbacks_def bindR_Inr mput_Inr)
  have "wf_json (JArr (List.map JObj fbs))" using assms(3) by (auto simp: wf_elems_iff list_all_iff)
  then have "wf_map m'" unfolding m'(1) using assms(2) by (intro wf_map_oput) simp_all
  then show ?thesis using m' by simp
qed

text \<open>The settings text that results, before the healers.\<close>

lemma settings_map_wf: "wf_map (settings_map s)"
  by (auto simp: settings_map_def dest: decode_map_wf split: option.splits)

lemma built_settings:
  assumes c: "put_clients p cs (settings_map s) = Inr st" and f: "put_fallbacks fbs st = Inr (m', b)"
    and ok: "list_all client_text_ok cs" "\<forall>e \<in> set fbs. wf_map (Some e)"
    and s': "s' = (if b then json_marshal_indent (jmap m') else s)"
  shows "set (text_emails (users_key p) s') \<subseteq> u_email ` set cs
    \<and> (p = ''wireguard'' \<longrightarrow> (case decode_map s' of Some m \<Rightarrow> mget m ''clients'' = None | None \<Rightarrow> True))"
proof -
  obtain m1 b1 where st: "st = (m1, b1)" by (cases st)
  note 1 = put_clients_spec [OF c [unfolded st] settings_map_wf ok(1)]
  have wf1: "wf_map (fst (m1, b1))" using 1 by simp
  note 2 = put_fallbacks_spec [OF f [unfolded st] wf1 ok(2), unfolded fst_conv snd_conv]
  have k: "users_key p \<noteq> ''fallbacks''" by (simp add: users_key_def)
  have wf: "wf_map m'" using 1 2 by blast
  have same: "mget m' (users_key p) = mget m1 (users_key p)" "mget m' ''clients'' = mget m1 ''clients''"
    using 1 2 k by simp_all
  have em: "emails_at (users_key p) m' = emails_at (users_key p) m1" by (rule emails_at_other [OF same(1)])
  have in1: "set (emails_at (users_key p) m1) \<subseteq> u_email ` set cs"
  proof (cases b1)
    case True
    then show ?thesis using 1 by simp
  next
    case False
    then have "mget m1 ''clients'' = None" "p \<noteq> ''wireguard''" using 1 by auto
    then show ?thesis by (simp add: emails_at_def slice_at_def users_key_def)
  qed
  show ?thesis
  proof (cases b)
    case True
    then show ?thesis using s' wf em in1 same(2) 1 by (auto simp: text_emails_printed)
  next
    case False
    then have m': "m' = m1" "\<not> b1" using 1 2 by auto
    then have none: "mget (settings_map s) ''clients'' = None" "p \<noteq> ''wireguard''" using 1 by auto
    then have "text_emails (users_key p) s = []"
      by (auto simp: text_emails_def emails_at_def slice_at_def settings_map_def users_key_def split: option.splits)
    then show ?thesis using s' False none by simp
  qed
qed

lemma gen_emails:
  assumes g: "GenXrayInboundConfig ib = Inr ic"
    and wg: "i_protocol ib = ''wireguard'' \<longrightarrow> (case decode_map (i_settings ib) of Some m \<Rightarrow> mget m ''clients'' = None | None \<Rightarrow> True)"
  shows "served_emails ic = text_emails (users_key (i_protocol ib)) (i_settings ib) \<and> ic_tag ic = i_tag ib \<and> ic_port ic = i_port ib"
proof -
  obtain settings where s: "(if i_protocol ib = ''shadowsocks'' then Inr (fst (HealShadowsocksClientMethods (i_settings ib)))
                else if i_protocol ib = ''vmess'' then Inr (fst (StripVmessClientSecurity (i_settings ib)))
                else if i_protocol ib = ''vless'' then Inr (fst (StripVlessInboundEncryption (i_settings ib)))
                else if i_protocol ib = ''wireguard'' then Inr (fst (WireguardClientsToPeers (i_settings ib)))
                else if i_protocol ib = ''hysteria'' then bindR (HealHysteriaVersion (i_settings ib)) (\<lambda>(s, _). Inr s)
                else Inr (i_settings ib)) = Inr settings"
    and ic: "ic_settings ic = settings" "ic_protocol ic = i_protocol ib" "ic_tag ic = i_tag ib" "ic_port ic = i_port ib"
    using g unfolding GenXrayInboundConfig_def Let_def bindR_Inr by auto
  have "text_emails (users_key (i_protocol ib)) settings = text_emails (users_key (i_protocol ib)) (i_settings ib)"
    using s wireguard_emails [of "i_settings ib"] wg hysteria_emails
    by (auto simp: users_key_def ss_emails vmess_emails vless_emails bindR_Inr split: if_splits)
  then show ?thesis using ic by (simp add: served_emails_def)
qed

section \<open>Reading the tables\<close>

abbreviation reads_only :: "'a W \<Rightarrow> bool" where
  "reads_only m \<equiv> keepsM (db_rel (sameR (\<lambda>d. d))) m"

lemma reads_same: "reads_only m \<Longrightarrow> m w = (r, w') \<Longrightarrow> w_db w' = w_db w"
  by (drule keepsM_D') (auto simp: db_rel_def sameR_def)

lemma query_ran: "db_query f w = (Inr x, w') \<Longrightarrow> x = f (w_db w) \<and> w_db w' = w_db w"
  by (auto simp: db_query_def dbM_def Let_def split: option.splits)

lemma oget_enable_map:
  "oget (fold (\<lambda>t. oput (t_email t) (t_enable t)) stats m) e
     = (case find (\<lambda>t. t_email t = e) (rev stats) of None \<Rightarrow> oget m e | Some t \<Rightarrow> Some (t_enable t))"
  by (induction stats arbitrary: m) (auto simp: find_append split: option.splits)

lemma enable_map_own:
  assumes "t \<in> set own" "distinct (List.map t_email own)" "\<forall>s \<in> set extra. t_email s \<noteq> t_email t"
  shows "oget (enable_map (own @ extra)) (t_email t) = Some (t_enable t)"
proof -
  have none: "find (\<lambda>s. t_email s = t_email t) (rev extra) = None" using assms(3) by (auto simp: find_None_iff)
  obtain s where s: "find (\<lambda>s. t_email s = t_email t) (rev own) = Some s"
    using assms(1) by (cases "find (\<lambda>s. t_email s = t_email t) (rev own)") (auto simp: find_None_iff)
  then have "s \<in> set own" "t_email s = t_email t" by (auto dest: find_SomeD)
  then have "s = t" using assms(1,2) by (auto simp: distinct_map inj_on_def)
  then show ?thesis by (simp add: enable_map_def oget_enable_map find_append none s)
qed

text \<open>The rows filled in have emails that differ, even up to case, from those the inbound owns.\<close>

lemma fill_stats_new:
  assumes "\<And>k st. oget byEmail k = Some st \<Longrightarrow> to_lower (t_email st) = k" "s \<in> set (fill_stats byEmail seen cs)"
  shows "to_lower (t_email s) \<notin> set seen \<and> (\<exists>c \<in> set cs. u_email c \<noteq> '''' \<and> to_lower (u_email c) = to_lower (t_email s))"
  using assms(2)
proof (induction cs arbitrary: seen)
  case Nil
  then show ?case by simp
next
  case (Cons c cs)
  show ?case
  proof (cases "u_email c = '''' \<or> to_lower (u_email c) \<in> set seen \<or> oget byEmail (to_lower (u_email c)) = None")
    case True
    then have "s \<in> set (fill_stats byEmail seen cs)" using Cons.prems by (auto simp: Let_def split: if_splits)
    then show ?thesis using Cons.IH by auto
  next
    case False
    then obtain st where st: "oget byEmail (to_lower (u_email c)) = Some st" by auto
    then have "s = st \<or> s \<in> set (fill_stats byEmail (to_lower (u_email c) # seen) cs)"
      using Cons.prems False by (simp add: Let_def)
    then show ?thesis using Cons.IH [of "to_lower (u_email c) # seen"] False assms(1) [OF st] by auto
  qed
qed

lemma byEmail_keys:
  "oget (fold (\<lambda>st. oput (to_lower (t_email st)) st) extra m) k = Some st \<Longrightarrow>
     (\<And>k st. oget m k = Some st \<Longrightarrow> to_lower (t_email st) = k) \<Longrightarrow> to_lower (t_email st) = k"
proof (induction extra arbitrary: m)
  case Nil
  then show ?case by simp
next
  case (Cons x xs)
  show ?case by (rule Cons.IH [OF Cons.prems(1) [unfolded fold_Cons o_apply]]) (auto split: if_splits dest: Cons.prems(2))
qed

definition row_of :: "db \<Rightarrow> inbound \<times> client_traffic list \<Rightarrow> bool" where
  "row_of d row \<longleftrightarrow>
     fst row \<in> set (d_inbounds d)
     \<and> (\<exists>own extra. snd row = own @ extra \<and> (\<forall>t. t \<in> set own \<longleftrightarrow> t \<in> set (d_traffics d) \<and> t_inboundId t = i_id (fst row))
          \<and> (distinct (List.map t_email (d_traffics d)) \<longrightarrow> distinct (List.map t_email own))
          \<and> (\<forall>s \<in> set extra. \<forall>t \<in> set own. t_email s \<noteq> t_email t))"

lemma row_of_extra:
  assumes "row_of d (ib, stats)" "\<forall>s \<in> set extra. \<forall>t \<in> set stats. t_email s \<noteq> t_email t"
  shows "row_of d (ib, stats @ extra)"
proof -
  from assms(1) obtain own ex where o: "stats = own @ ex" "\<forall>t. t \<in> set own \<longleftrightarrow> t \<in> set (d_traffics d) \<and> t_inboundId t = i_id ib"
      "distinct (List.map t_email (d_traffics d)) \<longrightarrow> distinct (List.map t_email own)"
      "\<forall>s \<in> set ex. \<forall>t \<in> set own. t_email s \<noteq> t_email t" "ib \<in> set (d_inbounds d)"
    unfolding row_of_def by auto
  show ?thesis
    unfolding row_of_def using o assms(2) by (intro conjI exI [of _ own] exI [of _ "ex @ extra"]) auto
qed

lemma reads_GetAllInbounds: "reads_only GetAllInbounds"
  unfolding GetAllInbounds_def backfillClientStats_def Let_def
  by (intro keeps preorder_db_rel)

lemma filled_row:
  assumes "row_of d (ib, stats)"
  shows "row_of d (ib, stats @ fill_stats (fold (\<lambda>st. oput (to_lower (t_email st)) st) extra []) (seen_emails stats) (clients_or_none ib))"
proof (rule row_of_extra [OF assms], intro ballI notI)
  fix s t
  let ?by = "fold (\<lambda>st. oput (to_lower (t_email st)) st) extra []"
  assume s: "s \<in> set (fill_stats ?by (seen_emails stats) (clients_or_none ib))" and t: "t \<in> set stats" "t_email s = t_email t"
  have "to_lower (t_email st) = k" if "oget ?by k = Some st" for k st
    by (rule byEmail_keys [OF that]) simp
  from fill_stats_new [OF this s]
  have "to_lower (t_email s) \<notin> set (seen_emails stats)" "t_email s \<noteq> ''''"
    by (auto simp: to_lower_def)
  then show False using t by (auto simp: seen_emails_def image_iff)
qed

definition filled :: "client_traffic list \<Rightarrow> inbound \<times> client_traffic list \<Rightarrow> inbound \<times> client_traffic list" where
  "filled extra row = (fst row, snd row @ fill_stats (fold (\<lambda>st. oput (to_lower (t_email st)) st) extra [])
     (seen_emails (snd row)) (clients_or_none (fst row)))"

lemma backfill_rows:
  assumes "backfillClientStats base w = (Inr rows, w')"
  shows "rows = base \<or> (\<exists>extra. rows = List.map (filled extra) base)"
proof (cases "missing_emails base = []")
  case True
  then show ?thesis using assms by (simp add: backfillClientStats_def)
next
  case False
  have f: "(\<lambda>(ib, stats). (ib, stats @ fill_stats (fold (\<lambda>st. oput (to_lower (t_email st)) st) extra []) (seen_emails stats)
      (clients_or_none ib))) = filled extra" for extra
    by (auto simp: filled_def)
  from assms False obtain r :: "client_traffic list res" and w2 :: world where
    "(case r of Inl e \<Rightarrow> retM base | Inr extra \<Rightarrow> retM (List.map (filled extra) base)) w2 = (Inr rows, w')"
    unfolding backfillClientStats_def Let_def f by (auto simp: bindM_Inr)
  then show ?thesis by (cases r) auto
qed

lemma GetAllInbounds_rows:
  assumes "GetAllInbounds w = (Inr rows, w')"
  shows "\<forall>row \<in> set rows. row_of (w_db w) row"
proof -
  let ?d = "w_db w"
  let ?ibs = "d_inbounds ?d"
  let ?ts = "filter (\<lambda>t. t_inboundId t \<in> i_id ` set ?ibs) (d_traffics ?d)"
  let ?base = "List.map (\<lambda>ib. (ib, filter (\<lambda>t. t_inboundId t = i_id ib) ?ts)) ?ibs"
  have base: "\<forall>row \<in> set ?base. row_of ?d row"
  proof
    fix row assume "row \<in> set ?base"
    then obtain ib where ib: "ib \<in> set ?ibs" "row = (ib, filter (\<lambda>t. t_inboundId t = i_id ib) ?ts)" by auto
    then show "row_of ?d row"
      unfolding row_of_def ib(2) using distinct_map_filter [of t_email]
      by (intro conjI exI [of _ "filter (\<lambda>t. t_inboundId t = i_id ib) ?ts"] exI [of _ "[]"]) auto
  qed
  show ?thesis
  proof (cases "?ibs = []")
    case True
    then show ?thesis using assms by (auto simp: GetAllInbounds_def bindM_Inr dest!: query_ran)
  next
    case False
    with assms obtain w2 where w2: "backfillClientStats ?base w2 = (Inr rows, w')"
      by (auto simp: GetAllInbounds_def bindM_Inr dest!: query_ran)
    from backfill_rows [OF this] show ?thesis
    proof
      assume "\<exists>extra. rows = List.map (filled extra) ?base"
      then show ?thesis using base filled_row by (auto simp: filled_def)
    qed (use base in simp)
  qed
qed

section \<open>Who is served\<close>

text \<open>
  A client that may use an inbound: its record is enabled and linked to the inbound, and no accounting row
  of the inbound for its email is switched off.
\<close>

definition may_use :: "db \<Rightarrow> inbound \<Rightarrow> string \<Rightarrow> bool" where
  "may_use d i e \<longleftrightarrow>
     (\<exists>r \<in> set (d_clients d). c_email r = e \<and> c_enable r
        \<and> (\<exists>x \<in> set (d_clientInbounds d). ci_clientId x = c_id r \<and> ci_inboundId x = i_id i))
     \<and> (\<forall>t \<in> set (d_traffics d). t_email t = e \<and> t_inboundId t = i_id i \<longrightarrow> t_enable t)"

lemma linked_clients:
  assumes "ListForInbound iid w = (Inr cs, w')"
  shows "w_db w' = w_db w \<and> (\<forall>c \<in> set cs. \<exists>r x. r \<in> set (d_clients (w_db w)) \<and> x \<in> set (d_clientInbounds (w_db w))
    \<and> ci_clientId x = c_id r \<and> ci_inboundId x = iid \<and> c = (toClient r)\<lparr>u_flow := ci_flowOverride x\<rparr>)"
  using query_ran [OF assms [unfolded ListForInbound_def list_for_def]] by auto

lemma linked_text_ok:
  assumes "texts_ok d" "r \<in> set (d_clients d)" "x \<in> set (d_clientInbounds d)"
  shows "client_text_ok ((toClient r)\<lparr>u_flow := ci_flowOverride x\<rparr>)"
  using assms by (auto simp: texts_ok_def client_text_ok_def list_all_iff)

lemma allowed_may_use:
  assumes row: "row_of d (ib, stats)" and d: "distinct (List.map t_email (d_traffics d))"
    and cs: "\<forall>c \<in> set cs. \<exists>r x. r \<in> set (d_clients d) \<and> x \<in> set (d_clientInbounds d)
      \<and> ci_clientId x = c_id r \<and> ci_inboundId x = i_id ib \<and> c = (toClient r)\<lparr>u_flow := ci_flowOverride x\<rparr>"
    and c: "c \<in> set (allowed_clients stats cs)"
  shows "may_use d ib (u_email c)"
proof -
  have c': "c \<in> set cs" "oget (enable_map stats) (u_email c) \<noteq> Some False" "u_enable c"
    using c by (auto simp: allowed_clients_def)
  from row obtain own extra where o: "stats = own @ extra" "\<forall>t. t \<in> set own \<longleftrightarrow> t \<in> set (d_traffics d) \<and> t_inboundId t = i_id ib"
      "distinct (List.map t_email own)" "\<forall>s \<in> set extra. \<forall>t \<in> set own. t_email s \<noteq> t_email t"
    using d unfolding row_of_def by auto
  have "t_enable t" if "t \<in> set (d_traffics d)" "t_email t = u_email c" "t_inboundId t = i_id ib" for t
  proof -
    have "t \<in> set own" using o(2) that by blast
    then have "oget (enable_map stats) (t_email t) = Some (t_enable t)"
      unfolding o(1) using o(3,4) by (intro enable_map_own) auto
    then show ?thesis using c'(2) that(2) by simp
  qed
  moreover have "\<exists>r \<in> set (d_clients d). c_email r = u_email c \<and> c_enable r
        \<and> (\<exists>x \<in> set (d_clientInbounds d). ci_clientId x = c_id r \<and> ci_inboundId x = i_id ib)"
    using cs c'(1,3) by (fastforce simp: toClient_def)
  ultimately show ?thesis by (auto simp: may_use_def)
qed

lemma fallbacks_wf:
  assumes "BuildFallbacksJSON i w = (Inr fbs, w')" "texts_ok (w_db w)"
  shows "\<forall>e \<in> set fbs. wf_map (Some e)"
proof -
  have "fbs = [] \<or> (\<exists>rows children. set rows \<subseteq> set (d_fallbacks (w_db w)) \<and> set children \<subseteq> set (d_inbounds (w_db w))
      \<and> fbs = concat (List.map (fallback_entry children) rows))"
    using assms(1) unfolding BuildFallbacksJSON_def
  proof (rule bindM_Inr [THEN iffD1, THEN exE], elim exE conjE)
    fix rows w1
    assume q: "db_query (\<lambda>d. sort_key fb_sortOrder (filter (\<lambda>r. fb_masterId r = i) (d_fallbacks d))) w = (Inr rows, w1)"
      and r: "(if rows = [] then retM [] else bindM (db_query (inbounds_in (List.map fb_childId rows)))
        (\<lambda>children. retM (concat (List.map (fallback_entry children) rows)))) w1 = (Inr fbs, w')"
    have rows: "set rows \<subseteq> set (d_fallbacks (w_db w))" "w_db w1 = w_db w" using query_ran [OF q] by auto
    show ?thesis
    proof (cases "rows = []")
      case True
      then show ?thesis using r by simp
    next
      case False
      then obtain children w2 where "db_query (inbounds_in (List.map fb_childId rows)) w1 = (Inr children, w2)"
        "fbs = concat (List.map (fallback_entry children) rows)"
        using r by (auto simp: bindM_Inr)
      then show ?thesis using rows query_ran [of "inbounds_in (List.map fb_childId rows)" w1 children w2]
        by (intro disjI2 exI [of _ rows] exI [of _ children]) (auto simp: inbounds_in_def)
    qed
  qed
  then show ?thesis
  proof
    assume "\<exists>rows children. set rows \<subseteq> set (d_fallbacks (w_db w)) \<and> set children \<subseteq> set (d_inbounds (w_db w))
      \<and> fbs = concat (List.map (fallback_entry children) rows)"
    then obtain rows children where r: "set rows \<subseteq> set (d_fallbacks (w_db w))" "set children \<subseteq> set (d_inbounds (w_db w))"
      "fbs = concat (List.map (fallback_entry children) rows)" by blast
    show ?thesis
    proof
      fix e assume "e \<in> set fbs"
      then obtain row where row: "row \<in> set rows" "e \<in> set (fallback_entry children row)" using r(3) by auto
      show "wf_map (Some e)"
        by (rule wf_fallback [OF _ _ row(2)]) (use r row assms(2) in \<open>auto simp: texts_ok_def list_all_iff\<close>)
    qed
  qed simp
qed

definition serves :: "db \<Rightarrow> inbound \<Rightarrow> inbound_config \<Rightarrow> bool" where
  "serves d i ic \<longleftrightarrow>
     served_inbound i \<and> ic_tag ic = i_tag i \<and> ic_port ic = i_port i \<and> (\<forall>e \<in> set (served_emails ic). may_use d i e)"

lemma reads_fallbacks: "reads_only (BuildFallbacksJSON i)"
  unfolding BuildFallbacksJSON_def by (intro keeps preorder_db_rel)

lemma build_inbound_spec:
  assumes run: "build_inbound (ib, stats) w = (Inr r, w')" and row: "row_of (w_db w) (ib, stats)"
    and ok: "texts_ok (w_db w)" "distinct (List.map t_email (d_traffics (w_db w)))"
  shows "w_db w' = w_db w \<and> (case r of None \<Rightarrow> True | Some ic \<Rightarrow> serves (w_db w) ib ic)"
proof (cases "served_inbound ib")
  case False
  then show ?thesis using run by (simp add: build_inbound_def)
next
  case True
  let ?d = "w_db w"
  let ?fb = "if inboundCanHostFallbacks ib then BuildFallbacksJSON (i_id ib) else retM []"
  obtain cs w1 st fbs w2 st' uuidOk ic ib2 where
    1: "ListForInbound (i_id ib) w = (Inr cs, w1)"
    and 2: "put_clients (i_protocol ib) (allowed_clients stats cs) (settings_map (i_settings ib)) = Inr st"
    and 3: "?fb w1 = (Inr fbs, w2)"
    and pf: "put_fallbacks fbs st = Inr st'"
    and ib2: "ib2 = finish_row uuidOk ib st'"
    and 6: "GenXrayInboundConfig ib2 = Inr ic" and 7: "r = Some ic" and 8: "w_db w' = w_db w2"
  proof -
    from run have "bindM (ListForInbound (i_id ib)) (\<lambda>dbClients.
           bindM (liftM (put_clients (i_protocol ib) (allowed_clients stats dbClients) (settings_map (i_settings ib)))) (\<lambda>st.
           bindM ?fb (\<lambda>fbs.
           bindM (liftM (put_fallbacks fbs st)) (\<lambda>st'.
           bindM (askM (\<lambda>e _. e_uuidOk e)) (\<lambda>uuidOk.
           bindM (liftM (GenXrayInboundConfig (finish_row uuidOk ib st'))) (\<lambda>ic. retM (Some ic))))))) w = (Inr r, w')"
      using True by (simp add: build_inbound_def)
    then show thesis
      unfolding bindM_Inr liftM_apply askM_apply
      by (elim exE conjE)
        (simp only: prod.inject sum.inject retM_apply, elim conjE, hypsubst, rule that, (assumption | rule refl | simp)+)
  qed
  obtain m b where st': "st' = (m, b)" by (cases st')
  note 4 = pf [unfolded st']
  note ib2 = ib2 [unfolded st']
  note l = linked_clients [OF 1]
  have d2: "w_db w2 = ?d" using 3 l reads_same [OF reads_fallbacks] by (auto split: if_splits)
  have "list_all client_text_ok cs" using l linked_text_ok [OF ok(1)] by (fastforce simp: list_all_iff)
  then have tok: "list_all client_text_ok (allowed_clients stats cs)" by (auto simp: allowed_clients_def list_all_iff)
  have fok: "\<forall>e \<in> set fbs. wf_map (Some e)"
    using 3 l ok(1) fallbacks_wf by (auto split: if_splits)
  define s' where "s' = (if b then json_marshal_indent (jmap m) else i_settings ib)"
  note bs = built_settings [OF 2 4 tok fok s'_def]
  have f2: "i_protocol ib2 = i_protocol ib" "i_tag ib2 = i_tag ib" "i_port ib2 = i_port ib"
    "i_settings ib2 = (if i_protocol ib = ''shadowsocks'' then fst (HealShadowsocksClientMethods s') else s')"
    unfolding ib2 finish_row_def Let_def s'_def by simp_all
  have em: "text_emails (users_key (i_protocol ib)) (i_settings ib2) = text_emails (users_key (i_protocol ib)) s'"
    using f2(4) by (simp add: users_key_def ss_emails)
  have "i_protocol ib2 = ''wireguard'' \<longrightarrow> (case decode_map (i_settings ib2) of Some m \<Rightarrow> mget m ''clients'' = None | None \<Rightarrow> True)"
    using bs f2 by simp
  from gen_emails [OF 6 this] have g: "served_emails ic = text_emails (users_key (i_protocol ib)) s'"
    "ic_tag ic = i_tag ib" "ic_port ic = i_port ib" using em f2 by simp_all
  have "may_use ?d ib e" if "e \<in> set (served_emails ic)" for e
  proof -
    from that g bs obtain c where "c \<in> set (allowed_clients stats cs)" "e = u_email c" by auto
    then show ?thesis using allowed_may_use [OF row ok(2)] l by blast
  qed
  then show ?thesis using 7 8 d2 g True by (simp add: serves_def)
qed

section \<open>The whole configuration\<close>

lemma socks_no_users: "served_emails (bridge_inbound p t) = []"
proof -
  have s: "socks_settings = json_marshal (JObj [(''auth'', JStr ''noauth''), (''udp'', JBool False)])"
    by code_simp
  have "wf_json (JObj [(''auth'', JStr ''noauth''), (''udp'', JBool False)])" by code_simp
  then have "json_parse socks_settings = Some (JObj [(''auth'', JStr ''noauth''), (''udp'', JBool False)])"
    unfolding s by (rule json_parse_marshal)
  then show ?thesis
    by (simp add: served_emails_def bridge_inbound_def users_key_def text_emails_def decode_map_def emails_at_def
        slice_at_def mget_def oget_Cons)
qed

text \<open>The steps after the inbounds only append bridges.\<close>

definition bridged :: "xconfig \<Rightarrow> xconfig \<Rightarrow> bool" where
  "bridged c c' \<longleftrightarrow> (\<exists>bs. cf_inbounds c' = cf_inbounds c @ bs \<and> (\<forall>b \<in> set bs. served_emails b = []))"

lemma bridged_same: "cf_inbounds c' = cf_inbounds c \<Longrightarrow> bridged c c'"
  by (simp add: bridged_def)

lemma bridged_trans: "bridged a b \<Longrightarrow> bridged b c \<Longrightarrow> bridged a c"
  unfolding bridged_def by (metis append_assoc Un_iff set_append)

lemma bridged_add: "cf_inbounds c' = cf_inbounds c @ [bridge_inbound p t] \<Longrightarrow> bridged c c'"
  unfolding bridged_def by (rule exI [of _ "[bridge_inbound p t]"]) (simp add: socks_no_users)

lemma bridged_panel: "injectPanelEgress tag c = Inr c' \<Longrightarrow> bridged c c'"
  unfolding injectPanelEgress_def
  by (auto simp: bindR_Inr split: if_splits option.splits intro: bridged_same bridged_add)

lemma bridged_mtproto: "injectMtprotoEgress ib c = Inr c' \<Longrightarrow> bridged c c'"
  unfolding injectMtprotoEgress_def Let_def
  by (auto simp: bindR_Inr split: if_splits option.splits intro: bridged_same bridged_add)

lemma node_egress_bridged:
  "\<exists>bs. fst (fold (node_egress routing obs) nodes st) = fst st @ bs \<and> (\<forall>b \<in> set bs. served_emails b = [])"
proof (induction nodes arbitrary: st)
  case Nil
  then show ?case by simp
next
  case (Cons n ns)
  have "\<exists>bs. fst (node_egress routing obs n st) = fst st @ bs \<and> (\<forall>b \<in> set bs. served_emails b = [])"
    unfolding node_egress_def Let_def by (cases st) (auto simp: socks_no_users)
  then show ?case using Cons.IH [of "node_egress routing obs n st"] by fastforce
qed

lemma bridged_nodes: "injectNodeEgresses nodes c = Inr c' \<Longrightarrow> bridged c c'"
proof -
  assume r: "injectNodeEgresses nodes c = Inr c'"
  show ?thesis
  proof (cases "decode_routing (cf_routing c)")
    case None
    then show ?thesis using r by (simp add: injectNodeEgresses_def bridged_same)
  next
    case (Some routing)
    then show ?thesis
      using r node_egress_bridged [of routing "cf_outbounds c" nodes "(cf_inbounds c, [])"]
      by (auto simp: injectNodeEgresses_def bindR_Inr Let_def bridged_def case_prod_beta split: if_splits)
  qed
qed

lemma fold_res_bridged:
  assumes st: "\<And>x c c'. f x c = Inr c' \<Longrightarrow> bridged c c'"
  shows "fold (\<lambda>x r. bindR r (f x)) xs (Inr c) = Inr c' \<Longrightarrow> bridged c c'"
proof (induction xs arbitrary: c)
  case Nil
  then show ?case by (simp add: bridged_same)
next
  case (Cons x xs)
  have err: "fold (\<lambda>x r. bindR r (f x)) ys (Inl e) = Inl e" for ys e
    by (induction ys) (simp_all add: bindR_def)
  obtain c1 where c1: "f x c = Inr c1"
    using Cons.prems err by (cases "f x c") (auto simp: bindR_def)
  then have "fold (\<lambda>x r. bindR r (f x)) xs (Inr c1) = Inr c'" using Cons.prems by (simp add: bindR_def)
  from Cons.IH [OF this] st [OF c1] show ?case using bridged_trans by blast
qed

lemma merge_bridged: "bridged c (mergeSubscriptionOutbounds p a c)"
  unfolding mergeSubscriptionOutbounds_def by (auto intro!: bridged_same split: option.splits json.splits)

lemma add_bridges_bridged: "add_bridges ibs c w = (Inr c', w') \<Longrightarrow> bridged c c'"
proof -
  assume run: "add_bridges ibs c w = (Inr c', w')"
  let ?c1 = "\<lambda>r. case r of Inl e \<Rightarrow> c | Inr (front, back) \<Rightarrow> mergeSubscriptionOutbounds front back c"
  from run obtain r :: "(json list \<times> json list) res" and c2 and r2 :: "string res" and c3 and r3 :: "node list res" where
    "fold_res injectMtprotoEgress (filter routed_mtproto ibs) (?c1 r) = Inr c2"
    "(case r2 of Inl e \<Rightarrow> Inr c2 | Inr tag \<Rightarrow> if tag = '''' then Inr c2 else injectPanelEgress tag c2) = Inr c3"
    "(case r3 of Inl e \<Rightarrow> Inr c3 | Inr nodes \<Rightarrow> injectNodeEgresses nodes c3) = Inr c'"
    unfolding add_bridges_def Let_def bindM_Inr liftM_apply by auto
  moreover have "bridged c (?c1 r)" by (auto intro: bridged_same merge_bridged split: sum.splits)
  ultimately have "bridged c (?c1 r)" "bridged (?c1 r) c2" "bridged c2 c3" "bridged c3 c'"
    unfolding fold_res_def
    by (auto intro: fold_res_bridged [OF bridged_mtproto] bridged_same bridged_panel bridged_nodes split: sum.splits if_splits)
  then show ?thesis using bridged_trans by blast
qed

text \<open>The tables the inbounds are built from do not change any more.\<close>

definition config_tables :: "db \<Rightarrow> inbound list \<times> client_record list \<times> client_inbound list \<times> client_traffic list \<times> inbound_fallback list" where
  "config_tables d = (d_inbounds d, d_clients d, d_clientInbounds d, d_traffics d, d_fallbacks d)"

abbreviation tables_same :: "'a W \<Rightarrow> bool" where
  "tables_same m \<equiv> keepsM (db_rel (sameR config_tables)) m"

lemma tables_exec [keeps]: "(\<And>d. config_tables (f d) = config_tables d) \<Longrightarrow> tables_same (db_exec f)"
  by (rule keeps_exec_same)

lemma tables_bridges: "tables_same (add_bridges ibs c)"
  unfolding add_bridges_def activeOutboundsSplit_def GetAll_nodes_def GetPanelGuid_def getString_def getSetting_def
    saveSetting_def create_setting_def update_setting_def Let_def
  by (intro keeps preorder_db_rel) (simp_all add: config_tables_def)

lemma tables_run: "tables_same m \<Longrightarrow> m w = (r, w') \<Longrightarrow> config_tables (w_db w') = config_tables (w_db w)"
  by (drule keepsM_D') (auto simp: db_rel_def sameR_def)

lemma serves_tables: "config_tables d' = config_tables d \<Longrightarrow> serves d' = serves d"
  unfolding serves_def may_use_def config_tables_def by (intro ext) simp

lemma texts_tables: "config_tables d' = config_tables d \<Longrightarrow> texts_ok d' = texts_ok d"
  unfolding texts_ok_def config_tables_def by simp

lemma build_all:
  assumes "foldM (\<lambda>row acc. bindM (build_inbound row) (\<lambda>r. retM (case r of None \<Rightarrow> acc | Some ic \<Rightarrow> acc @ [ic]))) rows acc w
      = (Inr out, w')"
    and "\<forall>row \<in> set rows. row_of (w_db w) row" "texts_ok (w_db w)" "distinct (List.map t_email (d_traffics (w_db w)))"
  shows "w_db w' = w_db w \<and> (\<exists>new. out = acc @ new \<and> (\<forall>ic \<in> set new. \<exists>i \<in> set (d_inbounds (w_db w)). serves (w_db w) i ic))"
  using assms
proof (induction rows arbitrary: acc w)
  case Nil
  then show ?case by simp
next
  case (Cons row rows)
  let ?body = "\<lambda>row acc. bindM (build_inbound row) (\<lambda>r. retM (case r of None \<Rightarrow> acc | Some ic \<Rightarrow> acc @ [ic]))"
  obtain a w1 where a: "?body row acc w = (Inr a, w1)" and rest': "foldM ?body rows a w1 = (Inr out, w')"
    using Cons.prems(1) [unfolded foldM.simps] by (rule bindM_Inr [THEN iffD1, elim_format]) blast
  then obtain r where b: "build_inbound row w = (Inr r, w1)" and ar: "a = (case r of None \<Rightarrow> acc | Some ic \<Rightarrow> acc @ [ic])"
    by (auto simp: bindM_Inr)
  note rest = rest' [unfolded ar]
  obtain ib stats where row: "row = (ib, stats)" by (cases row)
  have ro: "row_of (w_db w) (ib, stats)" using Cons.prems(2) row by simp
  note s = build_inbound_spec [OF b [unfolded row] ro Cons.prems(3,4)]
  then have d1: "w_db w1 = w_db w" by simp
  from Cons.IH [OF rest, unfolded d1] Cons.prems obtain new where
    new: "w_db w' = w_db w" "out = (case r of None \<Rightarrow> acc | Some ic \<Rightarrow> acc @ [ic]) @ new"
      "\<forall>ic \<in> set new. \<exists>i \<in> set (d_inbounds (w_db w)). serves (w_db w) i ic" by auto
  have "ib \<in> set (d_inbounds (w_db w))" using ro by (simp add: row_of_def)
  then show ?case using new s by (cases r) (auto intro!: exI [of _ "a # new" for a])
qed

text \<open>The inbounds of the template, after the sections the panel needs were added.\<close>

definition template_base :: "env \<Rightarrow> db \<Rightarrow> inbound_config list" where
  "template_base e d =
     (let text = (case find_setting ''xrayTemplateConfig'' d of None \<Rightarrow> e_template e | Some st \<Rightarrow> st_value st) in
      case decode_xconfig text of
        None \<Rightarrow> []
      | Some c \<Rightarrow> (case adopt_template (e_logFolder e) (decode_xconfig (e_template e)) c of Inl _ \<Rightarrow> [] | Inr c' \<Rightarrow> cf_inbounds c'))"

lemma getString_ran:
  assumes "getString k w = (Inr v, w')"
  shows "(\<exists>n. w' = w\<lparr>w_tick := n\<rparr>)
    \<and> (case find_setting k (w_db w) of None \<Rightarrow> defaultValueMap (w_env w) k = Some v | Some st \<Rightarrow> v = st_value st)"
  using assms unfolding getString_def getSetting_def db_get_def dbM_def Let_def
  by (auto simp: bindM_apply tryM_apply askM_apply split: option.splits sum.splits prod.splits if_splits)

definition config_steps :: "world \<Rightarrow> xconfig \<Rightarrow> world \<Rightarrow> nat \<Rightarrow> (bool \<times> bool) res \<Rightarrow> world \<Rightarrow> inbound_config list \<Rightarrow> bool" where
  "config_steps w cfg w' k r w3 own \<longleftrightarrow>
     catchM (AddTraffic [] []) (w\<lparr>w_tick := k\<rparr>) = (Inr r, w3)
     \<and> config_tables (w_db w') = config_tables (w_db w3)
     \<and> (\<exists>bridges. cf_inbounds cfg = template_base (w_env w) (w_db w) @ own @ bridges
          \<and> (\<forall>b \<in> set bridges. served_emails b = []))
     \<and> (texts_ok (w_db w3) \<and> distinct (List.map t_email (d_traffics (w_db w3))) \<longrightarrow>
          (\<forall>ic \<in> set own. \<exists>i \<in> set (d_inbounds (w_db w3)). serves (w_db w3) i ic))"

lemma GetXrayConfig_steps:
  assumes "GetXrayConfig w = (Inr cfg, w')"
  shows "\<exists>k r w3 own. config_steps w cfg w' k r w3 own"
proof -
  from assms obtain tpl w1 where 1: "getString ''xrayTemplateConfig'' w = (Inr tpl, w1)"
    and r1: "(case decode_xconfig tpl of
         None \<Rightarrow> failM (lib_error ''json'' tpl)
       | Some cfg0 \<Rightarrow>
          bindM (askM (\<lambda>e _. (e_logFolder e, decode_xconfig (e_template e)))) (\<lambda>(folder, defaults).
          bindM (liftM (adopt_template folder defaults cfg0)) (\<lambda>cfg.
          thenM (catchM (AddTraffic [] []))
          (bindM GetAllInbounds (\<lambda>rows.
           bindM (build_inbounds rows) (\<lambda>built.
             add_bridges (List.map fst rows) (cfg\<lparr>cf_inbounds := cf_inbounds cfg @ built\<rparr>))))))) w1 = (Inr cfg, w')"
    unfolding GetXrayConfig_def by (auto simp: bindM_Inr)
  from getString_ran [OF 1] obtain n where w1: "w1 = w\<lparr>w_tick := n\<rparr>" by blast
  obtain cfg0 where c0: "decode_xconfig tpl = Some cfg0" using r1 by (cases "decode_xconfig tpl") auto
  let ?w2 = "w\<lparr>w_tick := Suc n\<rparr>"
  from r1 obtain c r w3 rows w4 built w5 where
    2: "adopt_template (e_logFolder (w_env w)) (decode_xconfig (e_template (w_env w))) cfg0 = Inr c"
    and 3: "catchM (AddTraffic [] []) ?w2 = (Inr r, w3)"
    and 4: "GetAllInbounds w3 = (Inr rows, w4)" and 5: "build_inbounds rows w4 = (Inr built, w5)"
    and 6: "add_bridges (List.map fst rows) (c\<lparr>cf_inbounds := cf_inbounds c @ built\<rparr>) w5 = (Inr cfg, w')"
    unfolding c0 w1 by (auto simp: bindM_Inr thenM_Inr askM_apply)
  have base: "template_base (w_env w) (w_db w) = cf_inbounds c"
    using getString_ran [OF 1] c0 2 by (auto simp: template_base_def defaultValueMap_def split: option.splits)
  have d4: "w_db w4 = w_db w3" by (rule reads_same [OF reads_GetAllInbounds 4])
  note rows = GetAllInbounds_rows [OF 4]
  have tables5: "w_db w5 = w_db w3"
  proof -
    have "reads_only (build_inbounds rows)"
      unfolding build_inbounds_def build_inbound_def ListForInbound_def list_for_def Let_def
      by (intro keeps preorder_db_rel reads_fallbacks)
    from reads_same [OF this 5] d4 show ?thesis by simp
  qed
  have "config_tables (w_db w') = config_tables (w_db w3)"
    using tables_run [OF tables_bridges 6] tables5 by simp
  moreover have "\<forall>ic \<in> set built. \<exists>i \<in> set (d_inbounds (w_db w3)). serves (w_db w3) i ic"
    if "texts_ok (w_db w3)" "distinct (List.map t_email (d_traffics (w_db w3)))"
    using build_all [OF 5 [unfolded build_inbounds_def]] rows that d4 by simp
  moreover have "bridged (c\<lparr>cf_inbounds := cf_inbounds c @ built\<rparr>) cfg" by (rule add_bridges_bridged [OF 6])
  then obtain bs where "cf_inbounds cfg = (cf_inbounds c @ built) @ bs" "\<forall>b \<in> set bs. served_emails b = []"
    unfolding bridged_def by auto
  ultimately have "config_steps w cfg w' (Suc n) r w3 built"
    unfolding config_steps_def using 3 base by simp
  then show ?thesis by blast
qed

section \<open>The properties\<close>

text \<open>
  C37: Whatever fails on the way, when a configuration is returned, its inbounds are those of the template,
  then one for some of the enabled inbounds of this panel (with the tag and port of the row), then bridges
  that have no users; and every user of one of the panel's inbounds is an enabled client that is linked to
  that inbound and whose accounting row of that inbound, if there is one, is enabled.  So a client that
  was disabled, unlinked or switched off can no longer connect once Xray runs with the configuration.
\<close>

theorem config_serves_allowed:
  assumes "GetXrayConfig w = (Inr cfg, w')" "texts_ok (w_db w')" "distinct (List.map t_email (d_traffics (w_db w')))"
  shows "\<exists>own bridges. cf_inbounds cfg = template_base (w_env w) (w_db w) @ own @ bridges
     \<and> (\<forall>b \<in> set bridges. served_emails b = [])
     \<and> (\<forall>ic \<in> set own. \<exists>i \<in> set (d_inbounds (w_db w')).
          i_enable i \<and> i_nodeId i = None \<and> ic_tag ic = i_tag i \<and> ic_port ic = i_port i
          \<and> (\<forall>e \<in> set (served_emails ic).
               (\<exists>r \<in> set (d_clients (w_db w')). c_email r = e \<and> c_enable r
                  \<and> (\<exists>x \<in> set (d_clientInbounds (w_db w')). ci_clientId x = c_id r \<and> ci_inboundId x = i_id i))
               \<and> (\<forall>t \<in> set (d_traffics (w_db w')). t_email t = e \<and> t_inboundId t = i_id i \<longrightarrow> t_enable t)))"
proof -
  obtain k r w3 own where s: "config_steps w cfg w' k r w3 own" using GetXrayConfig_steps [OF assms(1)] by blast
  then have t: "config_tables (w_db w') = config_tables (w_db w3)" by (simp add: config_steps_def)
  have serve: "\<forall>ic \<in> set own. \<exists>i \<in> set (d_inbounds (w_db w')). serves (w_db w') i ic"
    using s assms(2,3) texts_tables [OF t] serves_tables [OF t] t by (simp add: config_steps_def config_tables_def)
  obtain bridges where "cf_inbounds cfg = template_base (w_env w) (w_db w) @ own @ bridges"
    "\<forall>b \<in> set bridges. served_emails b = []" using s by (auto simp: config_steps_def)
  moreover have "\<exists>i \<in> set (d_inbounds (w_db w')).
          i_enable i \<and> i_nodeId i = None \<and> ic_tag ic = i_tag i \<and> ic_port ic = i_port i
          \<and> (\<forall>e \<in> set (served_emails ic). may_use (w_db w') i e)" if "ic \<in> set own" for ic
    using serve that unfolding serves_def served_inbound_def by blast
  ultimately show ?thesis
    unfolding may_use_def by blast
qed


section \<open>A world to generate from\<close>

text \<open>
  One Trojan inbound with two linked clients: the first has used 12 of its 10 bytes and nobody has noticed
  it yet, the second has no quota.
\<close>

definition served_row :: inbound where
  "served_row = \<lparr>i_id = 1, i_userId = 1, i_up = 0, i_down = 0, i_total = 0, i_remark = '''', i_subSortIndex = 0,
     i_enable = True, i_expiryTime = 0, i_trafficReset = '''', i_trafficResetDay = 1, i_lastTrafficReset = 0,
     i_listen = '''', i_port = 443, i_protocol = ''trojan'', i_settings = ''{}'', i_streamSettings = '''',
     i_tag = ''in-443'', i_sniffing = '''', i_nodeId = None, i_shareAddrStrategy = '''', i_shareAddr = '''',
     i_originNodeGuid = ''''\<rparr>"

definition linked_row :: "int \<Rightarrow> string \<Rightarrow> client_record" where
  "linked_row n e = \<lparr>c_id = n, c_email = e, c_subId = '''', c_uuid = '''', c_password = ''p'', c_auth = '''', c_flow = '''',
     c_security = '''', c_reverse = '''', c_privateKey = '''', c_publicKey = '''', c_allowedIPs = '''', c_preSharedKey = '''',
     c_keepAlive = 0, c_secret = '''', c_adTag = '''', c_limitIP = 0, c_totalGB = 0, c_expiryTime = 0, c_enable = True,
     c_tgID = 0, c_group = '''', c_comment = '''', c_reset = 0, c_createdAt = 0, c_updatedAt = 0\<rparr>"

definition served_db :: db where
  "served_db = empty_db\<lparr>d_inbounds := [served_row], d_nextInbound := 2,
     d_clients := [linked_row 1 ''a@x'', linked_row 2 ''b@x''], d_nextClient := 3,
     d_clientInbounds := List.map (\<lambda>n. \<lparr>ci_clientId = n, ci_inboundId = 1, ci_flowOverride = '''', ci_createdAt = 0\<rparr>) [1, 2],
     d_traffics := [sample_traffic\<lparr>t_total := 10, t_up := 12, t_expiryTime := 0\<rparr>,
                    sample_traffic\<lparr>t_id := 2, t_email := ''b@x'', t_expiryTime := 0\<rparr>], d_nextTraffic := 3\<rparr>"

definition served_world :: world where
  "served_world = sample_world\<lparr>w_db := served_db\<rparr>"

lemma served_world_ok: "healthy served_world" "db_ok (w_db served_world)" "counters_ok (w_db served_world)"
  by (simp_all add: served_world_def served_db_def served_row_def linked_row_def db_ok_def empty_db_def counters_ok_def
      traffic_row_ok_def inbound_row_ok_def counter_ok_def TrafficCap_def healthy_def sample_traffic_def ids_ok_def sample_world_def sample_env_def)

lemma served_poll: "\<exists>x v. AddTraffic [] [] (served_world\<lparr>w_tick := k\<rparr>) = (Inr x, v)"
proof -
  have "case fst (AddTraffic [] [] (served_world\<lparr>w_tick := k\<rparr>)) of Inl e \<Rightarrow> False | Inr x \<Rightarrow> True" by code_simp
  then show ?thesis by (cases "AddTraffic [] [] (served_world\<lparr>w_tick := k\<rparr>)") (auto split: sum.splits)
qed

lemma served_run:
  obtains cfg w' where "GetXrayConfig served_world = (Inr cfg, w')"
    "List.map served_emails (cf_inbounds cfg) = [[''b@x'']]" "texts_ok (w_db w')"
    "distinct (List.map t_email (d_traffics (w_db w')))"
proof -
  have "case GetXrayConfig served_world of
      (Inl e, w') \<Rightarrow> False
    | (Inr cfg, w') \<Rightarrow> List.map served_emails (cf_inbounds cfg) = [[''b@x'']] \<and> texts_ok (w_db w')
        \<and> distinct (List.map t_email (d_traffics (w_db w')))" by code_simp
  then show ?thesis using that by (cases "GetXrayConfig served_world") (auto split: sum.splits)
qed

theorem config_serves_allowed_witness:
  "\<exists>cfg w'. GetXrayConfig served_world = (Inr cfg, w') \<and> List.map served_emails (cf_inbounds cfg) = [[''b@x'']]
     \<and> (\<exists>own bridges. cf_inbounds cfg = template_base (w_env served_world) (w_db served_world) @ own @ bridges)"
proof -
  obtain cfg w' where r: "GetXrayConfig served_world = (Inr cfg, w')"
    "List.map served_emails (cf_inbounds cfg) = [[''b@x'']]" "texts_ok (w_db w')"
    "distinct (List.map t_email (d_traffics (w_db w')))" by (rule served_run)
  from config_serves_allowed [OF r(1,3,4)] obtain own bridges where
    "cf_inbounds cfg = template_base (w_env served_world) (w_db served_world) @ own @ bridges" by (elim exE conjE)
  with r(1,2) show ?thesis by (intro exI conjI)
qed


end
