(* ===== verification/SyncFacts.thy ===== *)
theory SyncFacts
  imports TrafficInv StmtFacts
begin

text \<open>
  What \<open>SyncInbound\<close> achieves: afterwards the clients linked to the inbound are those of its list, each
  once, with the flow of its first entry, and nothing else has lost a client or a link.
\<close>

section \<open>Loops that know what they have done\<close>

lemma okM_foldM_prefix:
  assumes "Q [] a" "\<And>ys x a. x \<in> set xs \<Longrightarrow> Q ys a \<Longrightarrow> okM I (body x a) (Q (ys @ [x]))"
  shows "okM I (foldM body xs a) (Q xs)"
  using assms(2)
proof (induction xs rule: rev_induct)
  case Nil
  then show ?case using assms(1) by (simp add: okM_def)
next
  case (snoc x xs)
  have "okM I (foldM body xs a) (Q xs)" using snoc by simp
  moreover have "okM I (foldM body [x] b) (Q (xs @ [x]))" if "Q xs b" for b
    unfolding foldM.simps
  proof (rule okM_bind)
    show "okM I (body x b) (Q (xs @ [x]))" using snoc.prems that by simp
  qed (simp add: okM_def)
  ultimately show ?case unfolding foldM_append by (rule okM_bind)
qed

section \<open>The pass over the list\<close>

definition rows_inv :: "(int \<times> string) list \<Rightarrow> client_inbound list \<Rightarrow> db \<Rightarrow> bool" where
  "rows_inv C ls d \<longleftrightarrow>
     ids_ok c_id (d_nextClient d) (d_clients d) \<and> distinct (List.map c_email (d_clients d))
     \<and> List.map ckey (d_clients d) = C \<and> d_clientInbounds d = ls"

lemma rows_inv_update:
  assumes inv: "rows_inv C ls d" and keys: "List.map ckey rows = List.map ckey (d_clients d)"
  shows "rows_inv C ls (d\<lparr>d_clients := rows\<rparr>)"
proof -
  have m: "List.map (h \<circ> ckey) rows = List.map (h \<circ> ckey) (d_clients d)" for h :: "int \<times> string \<Rightarrow> 'b"
    unfolding List.map_map [symmetric] keys by simp
  have "List.map c_id rows = List.map c_id (d_clients d)" "List.map c_email rows = List.map c_email (d_clients d)"
    using m [of fst] m [of snd] by (simp_all add: comp_def ckey_def)
  then show ?thesis using inv keys ids_ok_map [of c_id rows "d_clients d"] by (simp add: rows_inv_def)
qed

lemma rows_inv_unique:
  assumes "rows_inv C ls d" "k \<in> set C" "r \<in> set (d_clients d)" "c_id r = fst k"
  shows "ckey r = k"
proof -
  have "k \<in> ckey ` set (d_clients d)" using assms(1,2) by (auto simp: rows_inv_def)
  then obtain q where q: "q \<in> set (d_clients d)" "ckey q = k" by auto
  then have "r = q"
    using assms by (intro clients_tbl.ids_unique [of "d_nextClient d"]) (auto simp: rows_inv_def ckey_def)
  with q show ?thesis by simp
qed

text \<open>The rows read: each has its email as the key, and every stored email of the list is among them.\<close>

definition read_rows :: "(int \<times> string) list \<Rightarrow> string list \<Rightarrow> client_record omap \<Rightarrow> bool" where
  "read_rows C es m \<longleftrightarrow>
     (\<forall>e r. oget m e = Some r \<longrightarrow> ckey r \<in> set C \<and> c_email r = e) \<and> (\<forall>e \<in> set es \<inter> snd ` set C. oget m e \<noteq> None)"

lemma fold_oput_rows:
  "oget (fold (\<lambda>r. oput (c_email r) r) rows m) e
     = (case find (\<lambda>r. c_email r = e) (rev rows) of None \<Rightarrow> oget m e | Some r \<Rightarrow> Some r)"
  by (induction rows arbitrary: m) (auto simp: find_append split: option.splits)

lemma read_rows_add:
  assumes "read_rows C es m" "\<forall>r \<in> set rows. ckey r \<in> set C" "\<forall>e \<in> set b \<inter> snd ` set C. \<exists>r \<in> set rows. c_email r = e"
  shows "read_rows C (es @ b) (fold (\<lambda>r. oput (c_email r) r) rows m)"
proof -
  have found: "r \<in> set rows \<and> c_email r = e" if "find (\<lambda>r. c_email r = e) (rev rows) = Some r" for r e
    using find_SomeD [OF that] by simp
  have some: "find (\<lambda>r. c_email r = e) (rev rows) \<noteq> None" if "e \<in> set b \<inter> snd ` set C" for e
    using assms(3) that by (auto simp: find_None_iff)
  let ?m = "fold (\<lambda>r. oput (c_email r) r) rows m"
  have "ckey r \<in> set C \<and> c_email r = e" if "oget ?m e = Some r" for e r
    using that found [of e] assms(1,2)
    by (cases "find (\<lambda>r. c_email r = e) (rev rows)") (simp_all add: fold_oput_rows read_rows_def)
  moreover have "oget ?m e \<noteq> None" if "e \<in> set (es @ b) \<inter> snd ` set C" for e
    using that some [of e] assms(1)
    by (cases "find (\<lambda>r. c_email r = e) (rev rows)") (auto simp: fold_oput_rows read_rows_def)
  ultimately show ?thesis by (simp add: read_rows_def)
qed

lemma okM_read: "okM (rows_inv C ls) (existing_clients emails) (read_rows C emails)"
proof -
  let ?Q = "\<lambda>bs. read_rows C (concat bs)"
  have "okM (rows_inv C ls) (existing_clients emails) (?Q (chunks 400 emails))"
    unfolding existing_clients_def
  proof (rule okM_foldM_prefix [where Q = ?Q])
    show "?Q [] []" by (simp add: read_rows_def)
  next
    fix bs b m assume m: "?Q bs m"
    let ?R = "\<lambda>rows. (\<forall>r \<in> set rows. ckey r \<in> set C) \<and> (\<forall>e \<in> set b \<inter> snd ` set C. \<exists>r \<in> set rows. c_email r = e)"
    show "okM (rows_inv C ls) (bindM (select_clients b) (\<lambda>rows. retM (fold (\<lambda>r. oput (c_email r) r) rows m))) (?Q (bs @ [b]))"
    proof (rule okM_bind [where Q = ?R])
      show "okM (rows_inv C ls) (select_clients b) ?R"
        unfolding select_clients_def by (rule okM_query) (auto simp: rows_inv_def ckey_def)
    next
      fix rows assume "?R rows"
      then show "okM (rows_inv C ls) (retM (fold (\<lambda>r. oput (c_email r) r) rows m)) (?Q (bs @ [b]))"
        using read_rows_add [OF m, of rows b] by (intro okM_ret) simp
    qed
  qed
  then show ?thesis by simp
qed

lemma okM_save_row:
  assumes row: "ckey row \<in> set C"
  shows "okM (rows_inv C ls) (save_client row) (\<lambda>saved. ckey saved = ckey row)"
proof -
  have k: "ckey (row\<lparr>c_updatedAt := now\<rparr>) = ckey row" for now by (simp add: ckey_def)
  have "rows_inv C ls (d\<lparr>d_clients := update_where (\<lambda>r. c_id r = c_id row) (\<lambda>_. row\<lparr>c_updatedAt := now\<rparr>) (d_clients d)\<rparr>)"
    if "rows_inv C ls d" for now d
    using that rows_inv_unique [OF that row]
    by (intro rows_inv_update map_update_where_in) (auto simp: ckey_def)
  then show ?thesis
    unfolding save_client_def Let_def
    by (intro okM_bind_any okM_then okM_ask okM_exec okM_ret TrueI) (simp_all add: k)
qed

definition emails_in :: "client list \<Rightarrow> string set" where
  "emails_in cs = u_email ` set cs - {''''}"

text \<open>The state of the pass after the entries \<open>cs\<close>.\<close>

definition passed :: "(int \<times> string) list \<Rightarrow> string set \<Rightarrow> client list \<Rightarrow> sync_state \<Rightarrow> bool" where
  "passed C E cs st \<longleftrightarrow>
     (case st of (ex, ids, pending) \<Rightarrow>
        (\<forall>e r. oget ex e = Some r \<longrightarrow> ckey r \<in> set C \<and> c_email r = e) \<and> (\<forall>e \<in> E \<inter> snd ` set C. oget ex e \<noteq> None)
        \<and> (\<forall>e i. oget ids e = Some i \<longrightarrow> (i, e) \<in> set C) \<and> (\<forall>e \<in> emails_in cs \<inter> snd ` set C. oget ids e \<noteq> None)
        \<and> fst ` set pending = emails_in cs - snd ` set C \<and> distinct (List.map fst pending)
        \<and> (\<forall>p \<in> set pending. c_email (snd p) = fst p))"

lemma emails_in_snoc: "emails_in (cs @ [c]) = (if u_email c = '''' then emails_in cs else insert (u_email c) (emails_in cs))"
  by (auto simp: emails_in_def)

lemma passedD:
  assumes "passed C E cs (ex, ids, pending)"
  shows "oget ex e = Some r \<Longrightarrow> ckey r \<in> set C" "oget ex e = Some r \<Longrightarrow> c_email r = e"
    "e \<in> E \<Longrightarrow> e \<in> snd ` set C \<Longrightarrow> oget ex e \<noteq> None" "oget ids e = Some i \<Longrightarrow> (i, e) \<in> set C"
    "e \<in> emails_in cs \<Longrightarrow> e \<in> snd ` set C \<Longrightarrow> oget ids e \<noteq> None"
    "fst ` set pending = emails_in cs - snd ` set C" "distinct (List.map fst pending)"
    "\<forall>q \<in> set pending. c_email (snd q) = fst q"
proof -
  from assms [unfolded passed_def prod.case] have
    a: "\<forall>e r. oget ex e = Some r \<longrightarrow> ckey r \<in> set C \<and> c_email r = e" "\<forall>e \<in> E \<inter> snd ` set C. oget ex e \<noteq> None" and
    b: "\<forall>e i. oget ids e = Some i \<longrightarrow> (i, e) \<in> set C" "\<forall>e \<in> emails_in cs \<inter> snd ` set C. oget ids e \<noteq> None" and
    c: "fst ` set pending = emails_in cs - snd ` set C" "distinct (List.map fst pending)"
      "\<forall>q \<in> set pending. c_email (snd q) = fst q"
    by simp_all
  show "oget ex e = Some r \<Longrightarrow> ckey r \<in> set C" "oget ex e = Some r \<Longrightarrow> c_email r = e" using a(1) by blast+
  show "e \<in> E \<Longrightarrow> e \<in> snd ` set C \<Longrightarrow> oget ex e \<noteq> None" using a(2) by simp
  show "oget ids e = Some i \<Longrightarrow> (i, e) \<in> set C" using b(1) by blast
  show "e \<in> emails_in cs \<Longrightarrow> e \<in> snd ` set C \<Longrightarrow> oget ids e \<noteq> None" using b(2) by simp
qed (use assms in \<open>simp_all add: passed_def\<close>)

lemma passedI:
  assumes "\<And>e r. oget ex e = Some r \<Longrightarrow> ckey r \<in> set C \<and> c_email r = e"
    "\<And>e. e \<in> E \<Longrightarrow> e \<in> snd ` set C \<Longrightarrow> oget ex e \<noteq> None" "\<And>e i. oget ids e = Some i \<Longrightarrow> (i, e) \<in> set C"
    "\<And>e. e \<in> emails_in cs \<Longrightarrow> e \<in> snd ` set C \<Longrightarrow> oget ids e \<noteq> None"
    "fst ` set pending = emails_in cs - snd ` set C" "distinct (List.map fst pending)"
    "\<forall>q \<in> set pending. c_email (snd q) = fst q"
  shows "passed C E cs (ex, ids, pending)"
proof -
  have "\<forall>e r. oget ex e = Some r \<longrightarrow> ckey r \<in> set C \<and> c_email r = e" by (intro allI impI assms(1))
  moreover have "\<forall>e \<in> E \<inter> snd ` set C. oget ex e \<noteq> None" by (intro ballI assms(2)) simp_all
  moreover have "\<forall>e i. oget ids e = Some i \<longrightarrow> (i, e) \<in> set C" by (intro allI impI assms(3))
  moreover have "\<forall>e \<in> emails_in cs \<inter> snd ` set C. oget ids e \<noteq> None" by (intro ballI assms(4)) simp_all
  ultimately show ?thesis unfolding passed_def prod.case by (intro conjI assms(5-7))
qed

lemma passed_known:
  assumes p: "passed C E cs (ex, ids, pending)" and row: "oget ex (u_email c) = Some row" and e: "u_email c \<noteq> ''''"
    and ex': "ex' = ex \<or> (\<exists>saved. ckey saved = ckey row \<and> ex' = oput (u_email c) saved ex)"
  shows "passed C E (cs @ [c]) (ex', oput (u_email c) (c_id row) ids, pending)"
proof (rule passedI)
  have k: "ckey row = (c_id row, u_email c)" "(c_id row, u_email c) \<in> set C"
    using passedD(1,2) [OF p row] by (simp_all add: ckey_def)
  then have "u_email c \<in> snd ` set C" by force
  then show "fst ` set pending = emails_in (cs @ [c]) - snd ` set C"
    using passedD(6) [OF p] e by (auto simp: emails_in_snoc)
  show "ckey r \<in> set C \<and> c_email r = x" if "oget ex' x = Some r" for x r
    using that ex' passedD(1,2) [OF p, of x r] k by (auto simp: ckey_def split: if_splits)
  show "oget ex' x \<noteq> None" if "x \<in> E" "x \<in> snd ` set C" for x
    using ex' passedD(3) [OF p that] by auto
  show "(i, x) \<in> set C" if "oget (oput (u_email c) (c_id row) ids) x = Some i" for x i
    using that k(2) passedD(4) [OF p, of x i] by (auto split: if_splits)
  show "oget (oput (u_email c) (c_id row) ids) x \<noteq> None" if "x \<in> emails_in (cs @ [c])" "x \<in> snd ` set C" for x
    using that passedD(5) [OF p, of x] e by (auto simp: emails_in_snoc)
qed (use passedD(7,8) [OF p] in simp_all)

lemma passed_new:
  assumes p: "passed C E cs (ex, ids, pending)" and row: "oget ex (u_email c) = None" and e: "u_email c \<noteq> ''''" "u_email c \<in> E"
  shows "passed C E (cs @ [c])
    (ex, ids, if u_email c \<in> fst ` set pending then pending else pending @ [(u_email c, toRecord c)])"
proof (rule passedI)
  have new: "u_email c \<notin> snd ` set C" using passedD(3) [OF p e(2)] row by blast
  let ?p = "if u_email c \<in> fst ` set pending then pending else pending @ [(u_email c, toRecord c)]"
  show "fst ` set ?p = emails_in (cs @ [c]) - snd ` set C"
    using passedD(6) [OF p] new e(1) by (auto simp: emails_in_snoc)
  show "distinct (List.map fst ?p)" using passedD(7) [OF p] by auto
  show "\<forall>q \<in> set ?p. c_email (snd q) = fst q" using passedD(8) [OF p] by (simp add: toRecord_def)
  show "ckey r \<in> set C \<and> c_email r = x" if "oget ex x = Some r" for x r using that passedD(1,2) [OF p] by blast
  show "oget ex x \<noteq> None" if "x \<in> E" "x \<in> snd ` set C" for x using passedD(3) [OF p that] .
  show "(i, x) \<in> set C" if "oget ids x = Some i" for x i using passedD(4) [OF p that] .
  show "oget ids x \<noteq> None" if "x \<in> emails_in (cs @ [c])" "x \<in> snd ` set C" for x
  proof -
    have "x \<noteq> u_email c" using that(2) new by blast
    then have "x \<in> emails_in cs" using that(1) by (simp add: emails_in_snoc split: if_splits)
    then show ?thesis using passedD(5) [OF p _ that(2)] by blast
  qed
qed

lemma okM_pass:
  assumes p: "passed C E cs st" and c: "trim_space (u_email c) = u_email c" "u_email c = '''' \<or> u_email c \<in> E"
  shows "okM (rows_inv C ls) (sync_client c st) (passed C E (cs @ [c]))"
proof -
  obtain ex ids pending where st: "st = (ex, ids, pending)" by (cases st)
  have touch: "okM (rows_inv C ls) (set_client_updated i t) (\<lambda>_. True)" for i t
    unfolding set_client_updated_def
    by (rule okM_exec, rule rows_inv_update) (auto simp: ckey_def intro!: map_update_where_in)
  show ?thesis
  proof (cases "u_email c = ''''")
    case True
    then show ?thesis
      using p c by (auto simp: sync_client_def st trimmed_email_def Let_def passed_def emails_in_snoc intro!: okM_ret)
  next
    case False
    show ?thesis
    proof (cases "oget ex (u_email c)")
      case None
      have "passed C E (cs @ [c])
          (ex, ids, if u_email c \<in> fst ` set pending then pending else pending @ [(u_email c, toRecord c)])"
        using passed_new [OF p [unfolded st] None False] c(2) False by blast
      then have "okM (rows_inv C ls) (retM (ex, ids, if u_email c \<in> fst ` set pending then pending
          else pending @ [(u_email c, toRecord c)])) (passed C E (cs @ [c]))" by (rule okM_ret)
      then show ?thesis
        using None c(1) False by (simp only: sync_client_def st trimmed_email_def Let_def prod.case if_False option.case refl)
    next
      case (Some row)
      let ?row = "sync_row row (toRecord c)"
      have k: "ckey ?row \<in> set C" using p Some st by (auto simp: passed_def)
      have "okM (rows_inv C ls) (retM (ex, oput (u_email c) (c_id row) ids, pending)) (passed C E (cs @ [c]))"
        using passed_known [OF p [unfolded st] Some False] by (intro okM_ret) blast
      moreover have "okM (rows_inv C ls)
          (bindM (save_client ?row) (\<lambda>saved. thenM (set_client_updated (c_id row) (c_updatedAt ?row))
             (retM (oput (u_email c) saved ex, oput (u_email c) (c_id row) ids, pending)))) (passed C E (cs @ [c]))"
        by (intro okM_bind [OF okM_save_row [OF k]] okM_then [OF touch] okM_ret passed_known [OF p [unfolded st] Some False])
          auto
      ultimately show ?thesis
        using c False Some by (simp add: sync_client_def st trimmed_email_def Let_def)
    qed
  qed
qed

lemma okM_passes:
  assumes trimmed: "\<forall>c \<in> set cs. trim_space (u_email c) = u_email c"
  shows "okM (rows_inv C ls) (sync_rows cs) (\<lambda>(ids, pending).
     (\<forall>e i. oget ids e = Some i \<longrightarrow> (i, e) \<in> set C) \<and> (\<forall>e \<in> emails_in cs \<inter> snd ` set C. oget ids e \<noteq> None)
     \<and> List.map (\<lambda>p. c_email (snd p)) pending = List.map fst pending
     \<and> set (List.map fst pending) = emails_in cs - snd ` set C)"
proof -
  have es: "set (sync_emails cs) = emails_in cs"
    using trimmed by (force simp: sync_emails_def emails_in_def trimmed_email_def)
  have "okM (rows_inv C ls) (foldM sync_client cs (ex, [], [])) (passed C (emails_in cs) cs)"
    if "read_rows C (sync_emails cs) ex" for ex
  proof (rule okM_foldM_prefix [where Q = "passed C (emails_in cs)"])
    show "passed C (emails_in cs) [] (ex, [], [])"
      using that by (auto simp: passed_def read_rows_def es emails_in_def)
  next
    fix ys c st assume "c \<in> set cs" "passed C (emails_in cs) ys st"
    then show "okM (rows_inv C ls) (sync_client c st) (passed C (emails_in cs) (ys @ [c]))"
      using trimmed by (intro okM_pass) (auto simp: emails_in_def)
  qed
  note pass = this
  show ?thesis
    unfolding sync_rows_def
  proof (intro okM_bind [OF okM_read] okM_bind [OF pass])
    fix st assume "passed C (emails_in cs) cs st"
    then show "okM (rows_inv C ls) (case st of (_, ids, pending) \<Rightarrow> retM (ids, pending)) (\<lambda>(ids, pending).
       (\<forall>e i. oget ids e = Some i \<longrightarrow> (i, e) \<in> set C) \<and> (\<forall>e \<in> emails_in cs \<inter> snd ` set C. oget ids e \<noteq> None)
       \<and> List.map (\<lambda>p. c_email (snd p)) pending = List.map fst pending
       \<and> set (List.map fst pending) = emails_in cs - snd ` set C)"
      by (cases st) (auto simp: passed_def intro!: okM_ret)
  qed
qed

section \<open>The new records and the links\<close>

definition tbl_ok :: "db \<Rightarrow> bool" where
  "tbl_ok d \<longleftrightarrow> ids_ok c_id (d_nextClient d) (d_clients d) \<and> distinct (List.map c_email (d_clients d))"

text \<open>What an insertion of the records \<open>recs\<close> makes of the tables, and the ids it returns.\<close>

definition inserted :: "client_record list \<Rightarrow> db \<Rightarrow> (string \<times> int) list \<Rightarrow> db \<Rightarrow> bool" where
  "inserted recs d new d' \<longleftrightarrow>
     (\<exists>rows. d_clients d' = d_clients d @ rows \<and> new = List.map (\<lambda>r. (c_email r, c_id r)) rows
        \<and> List.map c_email rows = List.map c_email recs \<and> list_all c_enable rows)
     \<and> d_clientInbounds d' = d_clientInbounds d \<and> (tbl_ok d \<longrightarrow> tbl_ok d')"

lemma number_clients_enabled: "list_all c_enable (number_clients now n recs)"
  by (induction recs arbitrary: n) simp_all

lemma insert_run: "insert_clients recs w = (Inr new, w') \<Longrightarrow> inserted recs (w_db w) new (w_db w')"
proof -
  assume run: "insert_clients recs w = (Inr new, w')"
  let ?d = "w_db w"
  from run obtain now where
    free: "distinct (List.map c_email recs)" "\<forall>r \<in> set recs. find_client (c_email r) ?d = None"
    and new: "new = List.map (\<lambda>r. (c_email r, c_id r)) (number_clients now (d_nextClient ?d) recs)"
    and d': "w_db w' = ?d\<lparr>d_clients := d_clients ?d @ number_clients now (d_nextClient ?d) recs,
                d_nextClient := d_nextClient ?d + int (length recs)\<rparr>"
    unfolding insert_clients_def bindM_Inr askM_Inr dbM_Inr
    by (elim exE conjE) (simp split: if_splits add: Let_def list_ex_iff, blast)
  have "tbl_ok (w_db w')" if "tbl_ok ?d"
    using that free number_clients_ok [of "d_nextClient ?d" "d_clients ?d" recs now]
    by (auto simp: tbl_ok_def d' find_client_def find_None_iff)
  then show ?thesis
    using new d' number_clients_enabled [of now] by (auto simp: inserted_def)
qed

lemma inserted_trans:
  assumes "inserted a d n d1" "inserted b d1 n' d2"
  shows "inserted (a @ b) d (n @ n') d2"
proof -
  obtain r1 where r1: "d_clients d1 = d_clients d @ r1" "n = List.map (\<lambda>r. (c_email r, c_id r)) r1"
    "List.map c_email r1 = List.map c_email a" "list_all c_enable r1" using assms(1) by (auto simp: inserted_def)
  obtain r2 where r2: "d_clients d2 = d_clients d1 @ r2" "n' = List.map (\<lambda>r. (c_email r, c_id r)) r2"
    "List.map c_email r2 = List.map c_email b" "list_all c_enable r2" using assms(2) by (auto simp: inserted_def)
  show ?thesis
    unfolding inserted_def
  proof (intro conjI)
    show "\<exists>rows. d_clients d2 = d_clients d @ rows \<and> n @ n' = List.map (\<lambda>r. (c_email r, c_id r)) rows
        \<and> List.map c_email rows = List.map c_email (a @ b) \<and> list_all c_enable rows"
      by (rule exI [of _ "r1 @ r2"]) (simp add: r1 r2)
  qed (use assms in \<open>auto simp: inserted_def\<close>)
qed

lemma create_run:
  "foldM (\<lambda>b acc. bindM (insert_clients b) (\<lambda>new. retM (acc @ new))) bs acc w = (Inr out, w')
     \<Longrightarrow> \<exists>new. out = acc @ new \<and> inserted (concat bs) (w_db w) new (w_db w')"
proof (induction bs arbitrary: acc w)
  case Nil
  then show ?case by (auto simp: inserted_def)
next
  case (Cons b bs)
  let ?body = "\<lambda>b acc. bindM (insert_clients b) (\<lambda>new. retM (acc @ new))"
  obtain a w1 where a: "?body b acc w = (Inr a, w1)" and r1: "foldM ?body bs a w1 = (Inr out, w')"
    using Cons.prems unfolding foldM.simps by (rule bindM_Inr [THEN iffD1, elim_format]) blast
  obtain n where n: "insert_clients b w = (Inr n, w1)" and "a = acc @ n" using a by (auto simp: bindM_Inr)
  note r = r1 [unfolded \<open>a = acc @ n\<close>]
  from Cons.IH [OF r] obtain new where "out = (acc @ n) @ new" "inserted (concat bs) (w_db w1) new (w_db w')" by blast
  with inserted_trans [OF insert_run [OF n]] show ?case by (intro exI [of _ "n @ new"]) simp
qed

lemma create_clients_run:
  "create_clients recs w = (Inr new, w') \<Longrightarrow> inserted recs (w_db w) new (w_db w')"
  unfolding create_clients_def savepointM_Inr using create_run by fastforce

definition link_key :: "client_inbound \<Rightarrow> int \<times> int \<times> string" where
  "link_key x = (ci_clientId x, ci_inboundId x, ci_flowOverride x)"

definition linked_as :: "client_inbound list \<Rightarrow> db \<Rightarrow> db \<Rightarrow> bool" where
  "linked_as links d d' \<longleftrightarrow>
     d_clients d' = d_clients d \<and> d_nextClient d' = d_nextClient d
     \<and> (\<exists>new. d_clientInbounds d' = d_clientInbounds d @ new \<and> List.map link_key new = List.map link_key links)"

lemma forM_links: "forM insert_links bs w = (Inr u, w') \<Longrightarrow> linked_as (concat bs) (w_db w) (w_db w')"
proof (induction bs arbitrary: w)
  case Nil
  then show ?case by (simp add: forM_def linked_as_def)
next
  case (Cons b bs)
  then obtain w1 where 1: "insert_links b w = (Inr (), w1)" and r: "forM insert_links bs w1 = (Inr u, w')"
    by (auto simp: forM_def bindM_Inr)
  from 1 obtain now where d1: "w_db w1 = (w_db w)\<lparr>d_clientInbounds :=
      d_clientInbounds (w_db w) @ List.map (\<lambda>x. x\<lparr>ci_createdAt := now\<rparr>) b\<rparr>"
    by (auto simp: insert_links_def bindM_Inr stmt_Inr)
  from Cons.IH [OF r] obtain new where "d_clients (w_db w') = d_clients (w_db w1)" "d_nextClient (w_db w') = d_nextClient (w_db w1)"
    "d_clientInbounds (w_db w') = d_clientInbounds (w_db w1) @ new" "List.map link_key new = List.map link_key (concat bs)"
    by (auto simp: linked_as_def)
  then show ?case
    unfolding linked_as_def d1
    by (intro conjI exI [of _ "List.map (\<lambda>x. x\<lparr>ci_createdAt := now\<rparr>) b @ new"]) (simp_all add: link_key_def comp_def)
qed

lemma create_links_run: "create_links links w = (Inr u, w') \<Longrightarrow> linked_as links (w_db w) (w_db w')"
  unfolding create_links_def savepointM_Inr using forM_links [of "chunks 200 links" w u w'] by simp

text \<open>The links: one per id, with the flow of the first entry that has the id.\<close>

lemma sync_links_spec:
  "distinct (List.map ci_clientId (sync_links iid ids linked cs))
   \<and> (\<forall>x \<in> set (sync_links iid ids linked cs). ci_inboundId x = iid \<and> ci_clientId x \<notin> set linked)
   \<and> (\<forall>i f. (i, iid, f) \<in> link_key ` set (sync_links iid ids linked cs) \<longleftrightarrow>
        i \<notin> set linked
        \<and> (\<exists>c. find (\<lambda>c. trimmed_email c \<noteq> '''' \<and> oget ids (trimmed_email c) = Some i) cs = Some c \<and> f = u_flow c))"
proof (induction iid ids linked cs rule: sync_links.induct)
  case (1 iid ids linked)
  then show ?case by simp
next
  case (2 iid ids linked c cs)
  show ?case
  proof (cases "trimmed_email c = '''' \<or> oget ids (trimmed_email c) = None")
    case True
    then have eq: "sync_links iid ids linked (c # cs) = sync_links iid ids linked cs"
      "find (\<lambda>c. trimmed_email c \<noteq> '''' \<and> oget ids (trimmed_email c) = Some i) (c # cs)
         = find (\<lambda>c. trimmed_email c \<noteq> '''' \<and> oget ids (trimmed_email c) = Some i) cs" for i
      by (auto simp: Let_def)
    show ?thesis unfolding eq using True 2(1) [OF refl] 2(2) [OF refl] by blast
  next
    case False
    then obtain i where i: "oget ids (trimmed_email c) = Some i" "trimmed_email c \<noteq> ''''" by auto
    show ?thesis
    proof (cases "i \<in> set linked")
      case True
      note IH = 2(3) [OF refl i(2) i(1) True]
      have eq: "sync_links iid ids linked (c # cs) = sync_links iid ids linked cs"
        using i True by (simp add: Let_def)
      have "find (\<lambda>c. trimmed_email c \<noteq> '''' \<and> oget ids (trimmed_email c) = Some j) (c # cs)
         = find (\<lambda>c. trimmed_email c \<noteq> '''' \<and> oget ids (trimmed_email c) = Some j) cs" if "j \<notin> set linked" for j
        using that True i by auto
      then show ?thesis unfolding eq using IH by (metis (no_types, lifting))
    next
      case new: False
      note IH = 2(4) [OF refl i(2) i(1) new]
      let ?rest = "sync_links iid ids (i # linked) cs"
      let ?P = "\<lambda>j c. trimmed_email c \<noteq> '''' \<and> oget ids (trimmed_email c) = Some j"
      have all: "sync_links iid ids linked (c # cs)
          = \<lparr>ci_clientId = i, ci_inboundId = iid, ci_flowOverride = u_flow c, ci_createdAt = 0\<rparr> # ?rest"
        using i new by (simp add: Let_def)
      have "(j, iid, f) \<in> link_key ` set (sync_links iid ids linked (c # cs)) \<longleftrightarrow>
          j \<notin> set linked \<and> (\<exists>c'. find (?P j) (c # cs) = Some c' \<and> f = u_flow c')" for j f
      proof (cases "j = i")
        case True
        have "(i, iid, f) \<notin> link_key ` set ?rest" using IH by (auto simp: link_key_def)
        then show ?thesis using True i new by (auto simp: all link_key_def)
      next
        case False
        then have "(j, iid, f) \<in> link_key ` set (sync_links iid ids linked (c # cs)) \<longleftrightarrow> (j, iid, f) \<in> link_key ` set ?rest"
          unfolding all by (simp add: link_key_def)
        moreover have "find (?P j) (c # cs) = find (?P j) cs" "j \<notin> set (i # linked) \<longleftrightarrow> j \<notin> set linked"
          using False i by auto
        ultimately show ?thesis using IH by (metis (no_types, lifting))
      qed
      moreover have "distinct (List.map ci_clientId (sync_links iid ids linked (c # cs)))"
        unfolding all using IH by auto
      moreover have "\<forall>x \<in> set (sync_links iid ids linked (c # cs)). ci_inboundId x = iid \<and> ci_clientId x \<notin> set linked"
        unfolding all using IH new by auto
      ultimately show ?thesis by blast
    qed
  qed
qed

section \<open>The whole synchronisation\<close>

lemma fold_oput_pairs:
  "oget (fold (\<lambda>(e, i). oput e i) new ids) e = (case map_of (rev new) e of None \<Rightarrow> oget ids e | Some i \<Rightarrow> Some i)"
  by (induction new arbitrary: ids) (auto simp: map_add_def split: option.splits)

definition old_links :: "int \<Rightarrow> db \<Rightarrow> client_inbound list" where
  "old_links iid d = filter (\<lambda>x. ci_inboundId x \<noteq> iid) (d_clientInbounds d)"

text \<open>The tables after a synchronisation that returned no error.\<close>

definition synced :: "int \<Rightarrow> client list \<Rightarrow> db \<Rightarrow> db \<Rightarrow> bool" where
  "synced iid cs d d' \<longleftrightarrow>
     tbl_ok d' \<and> c_email ` set (d_clients d') = c_email ` set (d_clients d) \<union> emails_in cs
     \<and> (\<forall>r \<in> set (d_clients d'). c_email r \<notin> c_email ` set (d_clients d) \<longrightarrow> c_enable r)
     \<and> (\<exists>new. d_clientInbounds d' = old_links iid d @ new \<and> distinct (List.map ci_clientId new)
          \<and> (\<forall>x \<in> set new. ci_inboundId x = iid)
          \<and> (\<forall>r \<in> set (d_clients d'). \<forall>f. (c_id r, iid, f) \<in> link_key ` set new \<longleftrightarrow>
               (\<exists>c. find (\<lambda>c. u_email c \<noteq> '''' \<and> u_email c = c_email r) cs = Some c \<and> f = u_flow c)))"

lemma unique_email:
  "tbl_ok d \<Longrightarrow> r \<in> set (d_clients d) \<Longrightarrow> q \<in> set (d_clients d) \<Longrightarrow> c_id r = c_id q \<Longrightarrow> r = q"
  "tbl_ok d \<Longrightarrow> r \<in> set (d_clients d) \<Longrightarrow> q \<in> set (d_clients d) \<Longrightarrow> c_email r = c_email q \<Longrightarrow> r = q"
  using clients_tbl.ids_unique [of "d_nextClient d" "d_clients d" r q]
  by (auto simp: tbl_ok_def distinct_map inj_on_def)

lemma SyncInbound_synced:
  assumes run: "SyncInbound iid cs w = (Inr u, w')" and ok: "tbl_ok (w_db w)"
    and trimmed: "\<forall>c \<in> set cs. trim_space (u_email c) = u_email c"
  shows "synced iid cs (w_db w) (w_db w')"
proof -
  let ?d = "w_db w" and ?C = "List.map ckey (d_clients (w_db w))"
  from run obtain w1 ids pending w2 new w3 where 1: "DetachInbound iid w = (Inr (), w1)"
    and 2: "sync_rows cs w1 = (Inr (ids, pending), w2)" and 3: "create_clients (List.map snd pending) w2 = (Inr new, w3)"
    and 4: "create_links (sync_links iid (fold (\<lambda>(e, i). oput e i) new ids) [] cs) w3 = (Inr u, w')"
    unfolding SyncInbound_def by (auto simp: bindM_Inr thenM_Inr)
  have "w_db w1 = ?d\<lparr>d_clientInbounds := old_links iid ?d\<rparr>"
    using 1 by (simp add: DetachInbound_def db_exec_Inr old_links_def delete_where_def)
  then have "rows_inv ?C (old_links iid ?d) (w_db w1)" using ok by (simp add: rows_inv_def tbl_ok_def)
  from okM_D [OF okM_passes [OF trimmed] this 2]
  have inv2: "rows_inv ?C (old_links iid ?d) (w_db w2)"
    and ids: "\<And>e i. oget ids e = Some i \<Longrightarrow> (i, e) \<in> set ?C" "\<And>e. e \<in> emails_in cs \<Longrightarrow> e \<in> snd ` set ?C \<Longrightarrow> oget ids e \<noteq> None"
    and pend: "List.map (\<lambda>p. c_email (snd p)) pending = List.map fst pending"
      "fst ` set pending = emails_in cs - snd ` set ?C"
    by auto
  have C: "snd ` set ?C = c_email ` set (d_clients ?d)" by (force simp: ckey_def)
  from create_clients_run [OF 3] obtain rows where
    d3: "d_clients (w_db w3) = d_clients (w_db w2) @ rows" and new: "new = List.map (\<lambda>r. (c_email r, c_id r)) rows"
    and rows: "c_email ` set rows = emails_in cs - snd ` set ?C" "list_all c_enable rows"
    and l3: "d_clientInbounds (w_db w3) = old_links iid ?d" and ok3: "tbl_ok (w_db w3)"
    using inv2 pend by (auto simp: inserted_def rows_inv_def tbl_ok_def comp_def dest: arg_cong [where f = set])
  let ?ids = "fold (\<lambda>(e, i). oput e i) new ids"
  from create_links_run [OF 4] obtain nl where
    d': "d_clients (w_db w') = d_clients (w_db w3)" "d_nextClient (w_db w') = d_nextClient (w_db w3)"
    and l': "d_clientInbounds (w_db w') = old_links iid ?d @ nl" and nl: "List.map link_key nl = List.map link_key (sync_links iid ?ids [] cs)"
    using l3 by (auto simp: linked_as_def)
  have "List.map ckey (d_clients (w_db w2)) = ?C" using inv2 by (simp add: rows_inv_def)
  from arg_cong [OF this, of set] have d2: "ckey ` set (d_clients (w_db w2)) = set ?C" by simp
  have keys: "ckey ` set (d_clients (w_db w')) = set ?C \<union> ckey ` set rows"
    unfolding d' d3 by (simp add: image_Un d2)
  have ok': "tbl_ok (w_db w')" using ok3 by (simp add: tbl_ok_def d')
  have new_row: "(i, e) \<in> ckey ` set rows" if "(e, i) \<in> set new" for e i
    using that by (auto simp: new ckey_def)
  have some: "(i, e) \<in> ckey ` set (d_clients (w_db w'))" if "oget ?ids e = Some i" for e i
    using that ids(1) [of e i] new_row [of e i]
    by (auto simp: keys fold_oput_pairs split: option.splits dest!: map_of_SomeD)
  have total: "oget ?ids e \<noteq> None" if "e \<in> emails_in cs" for e
  proof (cases "e \<in> snd ` set ?C")
    case True
    then show ?thesis using ids(2) [OF that] by (auto simp: fold_oput_pairs split: option.splits)
  next
    case False
    have "e \<in> c_email ` set rows" unfolding rows(1) using that False by blast
    then have "e \<in> fst ` set (rev new)" by (force simp: new)
    then have "map_of (rev new) e \<noteq> None" by (simp add: map_of_eq_None_iff)
    then show ?thesis by (auto simp: fold_oput_pairs split: option.splits)
  qed
  have t: "trimmed_email c = u_email c" if "c \<in> set cs" for c using trimmed that by (simp add: trimmed_email_def)
  have has: "oget ?ids (trimmed_email c) = Some (c_id r) \<longleftrightarrow> u_email c = c_email r"
    if h: "c \<in> set cs" "trimmed_email c \<noteq> ''''" "r \<in> set (d_clients (w_db w'))" for c r
  proof
    assume "oget ?ids (trimmed_email c) = Some (c_id r)"
    from some [OF this] obtain q where "q \<in> set (d_clients (w_db w'))" "c_id q = c_id r" "c_email q = u_email c"
      using t [OF h(1)] by (auto simp: ckey_def)
    then show "u_email c = c_email r" using unique_email(1) [OF ok' h(3)] by metis
  next
    assume e: "u_email c = c_email r"
    have "trimmed_email c \<in> emails_in cs" using t h by (auto simp: emails_in_def)
    from total [OF this] obtain i where i: "oget ?ids (trimmed_email c) = Some i" by auto
    from some [OF i] obtain q where "q \<in> set (d_clients (w_db w'))" "c_id q = i" "c_email q = c_email r"
      using t [OF h(1)] e by (auto simp: ckey_def)
    then show "oget ?ids (trimmed_email c) = Some (c_id r)" using unique_email(2) [OF ok' h(3)] i by metis
  qed
  note spec = sync_links_spec [of iid ?ids "[]" cs]
  have "link_key ` set nl = link_key ` set (sync_links iid ?ids [] cs)"
    using arg_cong [OF nl, of set] by simp
  then have links: "(c_id r, iid, f) \<in> link_key ` set nl \<longleftrightarrow>
      (\<exists>c. find (\<lambda>c. u_email c \<noteq> '''' \<and> u_email c = c_email r) cs = Some c \<and> f = u_flow c)"
    if "r \<in> set (d_clients (w_db w'))" for r f
  proof -
    have "find (\<lambda>c. trimmed_email c \<noteq> '''' \<and> oget ?ids (trimmed_email c) = Some (c_id r)) cs
        = find (\<lambda>c. u_email c \<noteq> '''' \<and> u_email c = c_email r) cs"
      using has [OF _ _ that] t by (intro find_cong) auto
    with spec \<open>link_key ` set nl = _\<close> show ?thesis by simp
  qed
  have part: "List.map ci_clientId nl = List.map ci_clientId (sync_links iid ?ids [] cs)"
    "List.map ci_inboundId nl = List.map ci_inboundId (sync_links iid ?ids [] cs)"
    using arg_cong [OF nl, of "List.map fst"] arg_cong [OF nl, of "List.map (fst \<circ> snd)"]
    by (simp_all add: link_key_def comp_def)
  have "distinct (List.map ci_clientId nl)" using spec part(1) by simp
  moreover have "\<forall>x \<in> set nl. ci_inboundId x = iid"
  proof -
    have "ci_inboundId ` set nl \<subseteq> {iid}" using arg_cong [OF part(2), of set] spec by auto
    then show ?thesis by auto
  qed
  moreover have "c_email ` set (d_clients (w_db w')) = c_email ` set (d_clients ?d) \<union> emails_in cs"
  proof -
    have "c_email ` set (d_clients (w_db w')) = snd ` ckey ` set (d_clients (w_db w'))" by (force simp: ckey_def)
    also have "\<dots> = snd ` set ?C \<union> c_email ` set rows" unfolding keys by (force simp: ckey_def)
    finally show ?thesis using rows(1) C by auto
  qed
  moreover have "c_enable r" if r: "r \<in> set (d_clients (w_db w'))" "c_email r \<notin> c_email ` set (d_clients ?d)" for r
  proof -
    have "r \<notin> set (d_clients (w_db w2))" using d2 C r(2) by (force simp: ckey_def)
    then have "r \<in> set rows" using r(1) d' d3 by simp
    then show ?thesis using rows(2) by (simp add: list_all_iff)
  qed
  ultimately show ?thesis
    unfolding synced_def using ok' links l' by (intro conjI exI [of _ nl]) blast+
qed

section \<open>Reading the clients back\<close>

lemma distinct_concat_map:
  "distinct (List.map k rows) \<Longrightarrow> (\<And>r. r \<in> set rows \<Longrightarrow> List.map h (g r) \<in> {[], [k r]})
     \<Longrightarrow> distinct (List.map h (concat (List.map g rows)))"
proof (induction rows)
  case Nil
  then show ?case by simp
next
  case (Cons r rows)
  have "set (List.map h (concat (List.map g rows))) \<subseteq> k ` set rows"
  proof -
    have "h ` set (g q) \<subseteq> {k q}" if "q \<in> set rows" for q
      using Cons.prems(2) [of q] that by (auto dest: arg_cong [where f = set])
    then show ?thesis by fastforce
  qed
  then have "k r \<notin> set (List.map h (concat (List.map g rows)))" using Cons.prems(1) by auto
  moreover have "distinct (List.map h (concat (List.map g rows)))" using Cons by simp
  moreover have "List.map h (concat (List.map g (r # rows))) = List.map h (g r) @ List.map h (concat (List.map g rows))" by simp
  moreover have "List.map h (g r) = [] \<or> List.map h (g r) = [k r]" using Cons.prems(2) [of r] by simp
  ultimately show ?case by (metis append_Cons append_Nil distinct.simps(2))
qed

lemma filter_key_single:
  "distinct (List.map k xs) \<Longrightarrow> \<exists>ys. filter (\<lambda>x. k x = a) xs = ys \<and> (ys = [] \<or> (\<exists>y. ys = [y]))"
  by (induction xs) (auto simp: filter_empty_conv image_iff)


definition sync_list :: "client list" where
  "sync_list = [zero_client\<lparr>u_email := ''a'', u_flow := ''f'', u_enable := True\<rparr>, zero_client\<lparr>u_email := ''b''\<rparr>]"

definition sync_world :: world where
  "sync_world = sample_world\<lparr>w_db := empty_db\<rparr>"


end
