(* ===== verification/Spec2Isabelle.thy ===== *)
theory Spec2Isabelle
  imports ShareFacts ApplyLive NginxFacts JsonWf RequestFacts PortConflict LoginLimiter EventBus TunnelMonitor XrayRestart ConfigUsers SyncFacts
begin

text \<open>
  Relay Panel: a model of the line management of the panel and of the components it works with.

  \<^bold>\<open>The program.\<close>  Relay Panel is a web panel, written in Go on top of 3x-ui, that deploys relay lines:
  a line is an inbound of a local Xray (VLESS over a CDN, VLESS with Reality, or Shadowsocks) whose
  traffic leaves through a residential proxy.  A line lives in five tables of the panel's database
  (line profiles, outbounds, checks, logs, subscriptions), in one inbound and one managed client of
  the tables of 3x-ui, in one outbound and one routing rule of the Xray template, which is a JSON text
  in the settings table, and in one Nginx site.  \<^verbatim>\<open>LineService\<close> (internal/web/service/line.go) keeps
  these in step; line\_validity.go gives a line a paid period after which it is cut off until somebody
  renews it by hand.

  \<^bold>\<open>How the code is modelled.\<close>  A handler is a value of \<open>'a W = world => (gerr + 'a) * world\<close> (Prelude,
  PanelState): the world holds the database, the files of the host, the environment and a counter of
  the interactions so far.  Every statement, file access, command, random byte, dial and reading of the
  clock advances the counter and asks the environment for its answer, so that the theorems hold for
  every pattern of failures and every schedule of answers (\<open>e_fault\<close> is the database error of the
  statement at a tick).  The changes a handler made before it failed stay made, as in Go;
  \<open>transactionM\<close> restores the tables on an error.  Errors are values of \<open>gerr\<close> with the text the code
  builds.  Strings are byte strings, as in Go; integers of the handlers are \<open>int\<close> where the code
  cannot reach the bounds of 64 bits, and words where it can (ports in PortConflict and LineCheck).

  \<^bold>\<open>The theories.\<close>
  \<^item> Prelude: errors, the state-and-error monad, its Hoare rules, the locale of invariants.
  \<^item> GoStrings, GoMap, GoNet, GoJson, JsonWf: the parts of Go's strings, maps, net, net/url, base64,
    hex and encoding/json packages that the code calls.  The parser and the printer of JSON follow
    encoding/json (sorted keys, HTML escapes, invalid UTF-8 replaced);
    the parser's fuel is the length of its input, and every recursive call consumes a byte, so it is
    always enough.
  \<^item> PanelState, PanelTexts, Samples: rows (internal/database/model), world, messages, sample values.
  \<^item> LineConfig: the configuration map of a line and the save request (line.go 1521-1710, 2602-2870).
  \<^item> LinePlan: deployment plan and Nginx text (line.go 2871-3080).
  \<^item> LineStore: the statements, one definition per query.  LineTemplate: the template edits (line.go
    2371-2565).  LineXray: inbounds and managed client (line.go 1712-2370).  NginxApply: the executor
    (line.go 3054-3300).  LineValidity, LinePreflight, LineApply, LineRemoval, LineCheck: the handlers
    of line\_validity.go, reality\_preflight.go, line\_bunny.go and line.go.
  \<^item> LineShare: share links, subscription tokens and the Clash profile (line.go 1118-1485,
    line\_subscription.go).
  \<^item> ConfigFacts, RequestFacts, NginxFacts, DbFacts, Integrity, Handlers, PanelRuns, StmtFacts,
    ApplyFacts, ApplyLive, RemovalFacts, ShareFacts: what these definitions guarantee.  \<open>keepsM R m\<close> says that \<open>m\<close>
    relates the worlds before and after by \<open>R\<close> under every pattern of failures; a collection of such
    rules, one per statement, proves it of a handler by following its text (Handlers).
  \<^item> PortConflict (port\_conflict.go), LoginLimiter (login\_limiter.go), EventBus (internal/eventbus),
    TunnelMonitor (internal/tunnelmonitor): components beside line management.
  \<^item> JsonDecode, HotDiff, HotDiffFacts, XrayRestart: the difference of two Xray configurations and the
    restart that applies it to a running core (internal/xray/hot\_diff.go, xray.go).
  \<^item> GoLoops: loops over slices, chunks of a query, savepoints, int64.  DbLogic: the judgement \<open>okM\<close>
    (an invariant of the database with facts about the rows read) and worlds without faults.
  \<^item> ClientTables: the clients of an inbound, decoded from its settings and kept in two tables
    (client\_link.go, inbound\_settings\_clients.go, model.go).  SyncFacts: what \<open>SyncInbound\<close> achieves.
  \<^item> TrafficPoll: the traffic poll (inbound\_traffic.go, inbound\_disable.go): counting, delayed starts,
    renewal, disabling.  A loop that may not end is a \<open>partial_function\<close>; RenewLoop decides when it ends.
    TrafficFacts, TrafficInv (every pattern of failures), TrafficRuns, TrafficEnforce (no failures).
  \<^item> XrayHeal, XrayConfig: the configuration generated for Xray (xray.go 127-760, model.go 273-621,
    inbound.go 575-767, fallback.go).  A Go map that may be nil is \<open>json omap option\<close>, and assigning to
    a nil map is the panic it is.  ConfigUsers: who may use the configuration.
  \<^bold>\<open>What the theorems show.\<close>  Integrity and safety of the period hold along every run of operations
  (PanelRuns): keys, tags and emails stay unique; a line whose period is over may not serve until it
  is renewed.  Applying (ApplyFacts, ApplyLive): a success has put the complete line in place, a
  failure is confined, and on a healthy host a well-configured line is applied.  Removal
  (RemovalFacts): deletion removes all a line owns or nothing; expiry cuts a line off first.  Nginx
  (NginxFacts): a site is replaced whole or restored, and only sites under /etc/nginx are touched.
  The port conflict check is exact for sockets, the login limiter and the rate limiter answer like
  rules that remember everything, and the event bus keeps order within its buffers, in every
  interleaving of its goroutines.
  A subscription is served to the holder of the current token of a line that may serve (ShareFacts).
  A hot reload brings a running Xray to the new configuration or ends in a full restart (HotDiffFacts,
  XrayRestart).  A traffic poll counts every report once, keeps the tables well formed whatever fails,
  and leaves nobody enabled who has used up a quota (TrafficInv, TrafficEnforce); the generated
  configuration admits only enabled, linked clients, and nobody who has used up a quota (ConfigUsers);
  synchronising the clients of an inbound and reading them back gives the list (SyncFacts).
  \<^bold>\<open>Interfaces.\<close>  Where one part relies on another the contract is a locale, interpreted on the
  model's own definitions: \<open>string_map\<close> (what the configuration code needs of Go's maps), \<open>row_table\<close>
  (a table of rows under an autoincrement key, interpreted for the nine tables), \<open>nginx_host\<close> and
  \<open>reliable_host\<close> (the Go interface \<^verbatim>\<open>nginxExecutor\<close>, interpreted for \<^verbatim>\<open>osNginxExecutor\<close>),
  \<open>xray_contract\<close> (what RestartXray needs of the process and its gRPC interface, interpreted for the
  abstract core of HotDiffFacts).

  \<^bold>\<open>Not modelled.\<close>  gorm, SQLite and Postgres themselves (a statement either has its documented effect
  or fails); Xray, certbot, DNS, TLS handshakes and the Reality scanner (answers of the environment);
  the cryptographic primitives (parameters); HTTP handlers and JSON bindings of the controllers, which
  only decode a request and call the service; the frontend; the parts inherited from 3x-ui that line
  management does not call: Telegram bot, node synchronisation, client bulk operations, subscription
  server, WARP and Nord integrations, database migrations, system statistics.
\<close>

end
